(* ===== verification/Prelude.thy ===== *)
theory Prelude
  imports Main "HOL-Library.Word"
begin

text \<open>
  Shared vocabulary of the development.

  \<^item> C integers. A Cython \<^verbatim>\<open>cdef int\<close> is a 32-bit word (\<open>cint\<close>), read as a signed number by
    \<open>sint\<close>; a Python integer is an unbounded \<open>int\<close>.
  \<^item> Exceptions. A generated function that fails jumps to its error label and returns the error
    value of its type with the exception set; here this is \<open>Inl e\<close>.
  \<^item> Effects. A generated function is a state transformer \<open>('s, 'a) py\<close>: it takes the state and
    gives the outcome (an exception or a value) and the state it leaves behind, also when it raises.
    \<open>py_try\<close> and \<open>py_finally\<close> are the two forms of protected block.
  \<^item> Early returns. The body of a large function is cut into blocks; a block yields \<open>Return r\<close>
    when it runs a \<^verbatim>\<open>return\<close> and \<open>Next x\<close> when control falls through with the locals \<open>x\<close>.
  \<^item> Reasoning. \<open>keeps f m\<close> says that \<open>m\<close> leaves the observation \<open>f\<close> of the state unchanged on
    every path, \<open>never_raises\<close> that no exception leaves \<open>m\<close>, \<open>outcomes\<close> that every
    value it returns satisfies a predicate. Their introduction rules are collected in
    \<open>keeps_rules\<close>, \<open>safe_rules\<close> and \<open>outcome_rules\<close>.
\<close>

named_theorems keeps_rules \<open>introduction rules for \<open>keeps\<close>\<close>
named_theorems safe_rules \<open>introduction rules for \<open>never_raises\<close>\<close>
named_theorems outcome_rules \<open>introduction rules for \<open>outcomes\<close>\<close>
named_theorems py_simps \<open>the effect combinators applied to a state\<close>

section \<open>C integers\<close>

type_synonym cint = "32 word"

definition INT_MIN :: int where "INT_MIN = - (2 ^ 31)"
definition INT_MAX :: int where "INT_MAX = 2 ^ 31 - 1"

lemma sint_cint_bounds: "INT_MIN \<le> sint (x :: cint) \<and> sint x \<le> INT_MAX"
  using sint_range_size [of x] by (simp add: INT_MIN_def INT_MAX_def word_size)

lemma sint_of_int_cint:
  assumes "INT_MIN \<le> n" and "n \<le> INT_MAX"
  shows "sint (of_int n :: cint) = n"
proof -
  have "signed_take_bit 31 n = n"
    using assms by (simp add: INT_MIN_def INT_MAX_def signed_take_bit_int_eq_self_iff)
  then show ?thesis by (simp add: sint_sbintrunc')
qed

lemma of_int_sint_cint [simp]: "(of_int (sint (x :: cint)) :: cint) = x"
  by simp

lemma cint_inc_dec [simp]: "(x :: cint) + 1 - 1 = x"
  by simp

section \<open>Python exceptions\<close>

text \<open>
  The exception classes the generated code tells apart. \<open>UserExc\<close> stands for every other class that derives from Exception and \<open>UserBaseExc\<close> for one that derives from BaseException only,
  named by its qualified name.
\<close>

datatype pyexc =
    SystemExit | KeyboardInterrupt | GeneratorExit
  | StopIteration | StopAsyncIteration
  | AttributeError | TypeError | OverflowError | AssertionError | RuntimeError | PickleError
  | UserExc string | UserBaseExc string

text \<open>
  \<^verbatim>\<open>except Exception\<close> does not catch the three classes of the language that derive from BaseException only, nor those of the program or a library
  that do, such as \<^verbatim>\<open>asyncio.CancelledError\<close>.
\<close>

fun is_Exception :: "pyexc \<Rightarrow> bool" where
  "is_Exception SystemExit = False"
| "is_Exception KeyboardInterrupt = False"
| "is_Exception GeneratorExit = False"
| "is_Exception (UserBaseExc name) = False"
| "is_Exception _ = True"

section \<open>State transformers with exceptions\<close>

type_synonym ('s, 'a) py = "'s \<Rightarrow> (pyexc + 'a) \<times> 's"

definition py_ret :: "'a \<Rightarrow> ('s, 'a) py" where
  "py_ret x = (\<lambda>s. (Inr x, s))"

definition py_raise :: "pyexc \<Rightarrow> ('s, 'a) py" where
  "py_raise e = (\<lambda>s. (Inl e, s))"

definition py_bind :: "('s, 'a) py \<Rightarrow> ('a \<Rightarrow> ('s, 'b) py) \<Rightarrow> ('s, 'b) py" where
  "py_bind m k = (\<lambda>s. case m s of (Inl e, s') \<Rightarrow> (Inl e, s') | (Inr x, s') \<Rightarrow> k x s')"

definition py_then :: "('s, 'a) py \<Rightarrow> ('s, 'b) py \<Rightarrow> ('s, 'b) py" where
  "py_then m n = py_bind m (\<lambda>_. n)"

definition py_gets :: "('s \<Rightarrow> 'a) \<Rightarrow> ('s, 'a) py" where
  "py_gets f = (\<lambda>s. (Inr (f s), s))"

definition py_modify :: "('s \<Rightarrow> 's) \<Rightarrow> ('s, unit) py" where
  "py_modify f = (\<lambda>s. (Inr (), f s))"

definition py_lift :: "pyexc + 'a \<Rightarrow> ('s, 'a) py" where
  "py_lift r = (\<lambda>s. (r, s))"

text \<open>\<^verbatim>\<open>try: m except e: h\<close>: the handler runs in the state the body left behind.\<close>

definition py_try :: "('s, 'a) py \<Rightarrow> (pyexc \<Rightarrow> ('s, 'a) py) \<Rightarrow> ('s, 'a) py" where
  "py_try m h = (\<lambda>s. case m s of (Inl e, s') \<Rightarrow> h e s' | (Inr x, s') \<Rightarrow> (Inr x, s'))"

text \<open>
  \<^verbatim>\<open>try: m finally: f\<close>: the final block runs on every path; an exception of the final block
  replaces the outcome of the body.
\<close>

definition py_finally :: "('s, 'a) py \<Rightarrow> ('s, unit) py \<Rightarrow> ('s, 'a) py" where
  "py_finally m f = (\<lambda>s. case m s of (r, s') \<Rightarrow>
     (case f s' of (Inl e, s'') \<Rightarrow> (Inl e, s'') | (Inr _, s'') \<Rightarrow> (r, s'')))"

lemma py_ret_app [py_simps, simp]: "py_ret x s = (Inr x, s)"
  by (simp add: py_ret_def)

lemma py_raise_app [py_simps, simp]: "py_raise e s = (Inl e, s)"
  by (simp add: py_raise_def)

lemma py_gets_app [py_simps, simp]: "py_gets f s = (Inr (f s), s)"
  by (simp add: py_gets_def)

lemma py_modify_app [py_simps, simp]: "py_modify f s = (Inr (), f s)"
  by (simp add: py_modify_def)

lemma py_lift_app [py_simps, simp]: "py_lift r s = (r, s)"
  by (simp add: py_lift_def)

lemma py_bind_app [py_simps]:
  "py_bind m k s = (case m s of (Inl e, s') \<Rightarrow> (Inl e, s') | (Inr x, s') \<Rightarrow> k x s')"
  by (simp add: py_bind_def)

lemma py_then_app [py_simps]:
  "py_then m n s = (case m s of (Inl e, s') \<Rightarrow> (Inl e, s') | (Inr x, s') \<Rightarrow> n s')"
  by (simp add: py_then_def py_bind_def)

lemma py_try_app [py_simps]:
  "py_try m h s = (case m s of (Inl e, s') \<Rightarrow> h e s' | (Inr x, s') \<Rightarrow> (Inr x, s'))"
  by (simp add: py_try_def)

lemma py_finally_app [py_simps]:
  "py_finally m f s = (case m s of (r, s') \<Rightarrow>
     (case f s' of (Inl e, s'') \<Rightarrow> (Inl e, s'') | (Inr _, s'') \<Rightarrow> (r, s'')))"
  by (simp add: py_finally_def)

lemma py_bind_ret [simp]: "py_bind (py_ret x) k = k x"
  by (simp add: py_bind_def fun_eq_iff)

lemma py_bind_assoc: "py_bind (py_bind m k) l = py_bind m (\<lambda>x. py_bind (k x) l)"
  by (auto simp: py_bind_def fun_eq_iff split: prod.splits sum.splits)

text \<open>A computation on one component of a larger state.\<close>

definition py_zoom :: "('s \<Rightarrow> 't) \<Rightarrow> ('t \<Rightarrow> 's \<Rightarrow> 's) \<Rightarrow> ('t, 'a) py \<Rightarrow> ('s, 'a) py" where
  "py_zoom get put m = (\<lambda>s. case m (get s) of (r, t) \<Rightarrow> (r, put t s))"

lemma py_zoom_app [py_simps]: "py_zoom get put m s = (case m (get s) of (r, t) \<Rightarrow> (r, put t s))"
  by (simp add: py_zoom_def)

text \<open>\<^verbatim>\<open>for x in xs: m x\<close>\<close>

primrec py_for :: "'b list \<Rightarrow> ('b \<Rightarrow> ('s, unit) py) \<Rightarrow> ('s, unit) py" where
  "py_for [] m = py_ret ()"
| "py_for (x # xs) m = py_then (m x) (py_for xs m)"

section \<open>Early returns\<close>

datatype ('r, 'a) flow = Return 'r | Next 'a

definition py_flow ::
  "('s, ('r, 'a) flow) py \<Rightarrow> ('a \<Rightarrow> ('s, ('r, 'b) flow) py) \<Rightarrow> ('s, ('r, 'b) flow) py" where
  "py_flow m k = py_bind m (\<lambda>x. case x of Return r \<Rightarrow> py_ret (Return r) | Next y \<Rightarrow> k y)"

text \<open>The end of a function body: falling off the end gives the last block's value.\<close>

definition py_body :: "('s, ('r, 'a) flow) py \<Rightarrow> ('a \<Rightarrow> ('s, 'r) py) \<Rightarrow> ('s, 'r) py" where
  "py_body m k = py_bind m (\<lambda>x. case x of Return r \<Rightarrow> py_ret r | Next y \<Rightarrow> k y)"

lemma py_flow_app [py_simps]:
  "py_flow m k s = (case m s of (Inl e, s') \<Rightarrow> (Inl e, s')
     | (Inr (Return r), s') \<Rightarrow> (Inr (Return r), s') | (Inr (Next y), s') \<Rightarrow> k y s')"
  by (auto simp: py_flow_def py_bind_def split: prod.splits sum.splits flow.splits)

lemma py_body_app [py_simps]:
  "py_body m k s = (case m s of (Inl e, s') \<Rightarrow> (Inl e, s')
     | (Inr (Return r), s') \<Rightarrow> (Inr r, s') | (Inr (Next y), s') \<Rightarrow> k y s')"
  by (auto simp: py_body_def py_bind_def split: prod.splits sum.splits flow.splits)

section \<open>What a computation leaves unchanged\<close>

definition keeps :: "('s \<Rightarrow> 'b) \<Rightarrow> ('s, 'a) py \<Rightarrow> bool" where
  "keeps f m \<longleftrightarrow> (\<forall>s. f (snd (m s)) = f s)"

lemma keepsD: "keeps f m \<Longrightarrow> f (snd (m s)) = f s"
  by (simp add: keeps_def)

lemma keeps_run: "keeps f m \<Longrightarrow> m s = (r, s') \<Longrightarrow> f s' = f s"
  by (metis keepsD snd_conv)

lemma keepsI: "(\<And>s. f (snd (m s)) = f s) \<Longrightarrow> keeps f m"
  by (simp add: keeps_def)

lemma keeps_ret [keeps_rules]: "keeps f (py_ret x)"
  by (simp add: keeps_def)

lemma keeps_raise [keeps_rules]: "keeps f (py_raise e)"
  by (simp add: keeps_def)

lemma keeps_gets [keeps_rules]: "keeps f (py_gets g)"
  by (simp add: keeps_def)

lemma keeps_lift [keeps_rules]: "keeps f (py_lift r)"
  by (simp add: keeps_def)

lemma keeps_modify [keeps_rules]: "(\<And>s. f (g s) = f s) \<Longrightarrow> keeps f (py_modify g)"
  by (simp add: keeps_def)

lemma keeps_bind [keeps_rules]:
  "keeps f m \<Longrightarrow> (\<And>x. keeps f (k x)) \<Longrightarrow> keeps f (py_bind m k)"
  by (auto simp: keeps_def py_bind_def split: prod.splits sum.splits) (metis snd_conv)+

lemma keeps_then [keeps_rules]: "keeps f m \<Longrightarrow> keeps f n \<Longrightarrow> keeps f (py_then m n)"
  by (simp add: py_then_def keeps_bind)

lemma keeps_try [keeps_rules]:
  "keeps f m \<Longrightarrow> (\<And>e. keeps f (h e)) \<Longrightarrow> keeps f (py_try m h)"
  by (auto simp: keeps_def py_try_def split: prod.splits sum.splits) (metis snd_conv)+

lemma keeps_finally [keeps_rules]:
  "keeps f m \<Longrightarrow> keeps f n \<Longrightarrow> keeps f (py_finally m n)"
  by (auto simp: keeps_def py_finally_def split: prod.splits sum.splits) (metis snd_conv)+

lemma keeps_flow [keeps_rules]:
  "keeps f m \<Longrightarrow> (\<And>x. keeps f (k x)) \<Longrightarrow> keeps f (py_flow m k)"
  unfolding py_flow_def by (intro keeps_bind) (auto split: flow.splits intro: keeps_ret)

lemma keeps_body [keeps_rules]:
  "keeps f m \<Longrightarrow> (\<And>x. keeps f (k x)) \<Longrightarrow> keeps f (py_body m k)"
  unfolding py_body_def by (intro keeps_bind) (auto split: flow.splits intro: keeps_ret)

lemma keeps_if [keeps_rules]:
  "(b \<Longrightarrow> keeps f m) \<Longrightarrow> (\<not> b \<Longrightarrow> keeps f n) \<Longrightarrow> keeps f (if b then m else n)"
  by simp

lemma keeps_option [keeps_rules]:
  "(x = None \<Longrightarrow> keeps f m) \<Longrightarrow> (\<And>y. x = Some y \<Longrightarrow> keeps f (n y)) \<Longrightarrow>
   keeps f (case x of None \<Rightarrow> m | Some y \<Rightarrow> n y)"
  by (cases x) auto

lemma keeps_prod [keeps_rules]:
  "(\<And>a b. x = (a, b) \<Longrightarrow> keeps f (n a b)) \<Longrightarrow> keeps f (case x of (a, b) \<Rightarrow> n a b)"
  by (cases x) auto

lemma keeps_zoom:
  "keeps g m \<Longrightarrow> (\<And>s t. g t = g (get s) \<Longrightarrow> f (put t s) = f s) \<Longrightarrow> keeps f (py_zoom get put m)"
  by (auto simp: keeps_def py_zoom_def split: prod.splits) (metis snd_conv)

lemma keeps_for [keeps_rules]: "(\<And>x. keeps f (m x)) \<Longrightarrow> keeps f (py_for xs m)"
  by (induction xs) (auto intro: keeps_rules)

lemma keeps_sum [keeps_rules]:
  "(\<And>a. x = Inl a \<Longrightarrow> keeps f (m a)) \<Longrightarrow> (\<And>b. x = Inr b \<Longrightarrow> keeps f (n b)) \<Longrightarrow>
   keeps f (case x of Inl a \<Rightarrow> m a | Inr b \<Rightarrow> n b)"
  by (cases x) auto

lemma keeps_list [keeps_rules]:
  "(x = [] \<Longrightarrow> keeps f m) \<Longrightarrow> (\<And>y ys. x = y # ys \<Longrightarrow> keeps f (n y ys)) \<Longrightarrow>
   keeps f (case x of [] \<Rightarrow> m | y # ys \<Rightarrow> n y ys)"
  by (cases x) auto

lemma keeps_let [keeps_rules]: "keeps f (n x) \<Longrightarrow> keeps f (let y = x in n y)"
  by simp

text \<open>
  A bracket: whatever the body does, a final block that undoes the first statement restores the
  observation, on every path and also when the body raises.
\<close>

lemma keeps_bracket:
  assumes body: "keeps f m"
    and undo: "\<And>s s'. f s' = f (enter s) \<Longrightarrow> f (leave s') = f s"
  shows "keeps f (py_then (py_modify enter) (py_finally m (py_modify leave)))"
proof (rule keepsI)
  fix s
  obtain r s' where run: "m (enter s) = (r, s')" by (cases "m (enter s)")
  with body have "f s' = f (enter s)" by (rule keeps_run)
  then have "f (leave s') = f s" by (rule undo)
  with run show "f (snd (py_then (py_modify enter) (py_finally m (py_modify leave)) s)) = f s"
    by (simp add: py_simps)
qed

section \<open>Computations that never raise, and the values they return\<close>

definition never_raises :: "('s, 'a) py \<Rightarrow> bool" where
  "never_raises m \<longleftrightarrow> (\<forall>s. \<exists>x. fst (m s) = Inr x)"

lemma safe_ret [safe_rules]: "never_raises (py_ret x)"
  by (simp add: never_raises_def)

lemma safe_gets [safe_rules]: "never_raises (py_gets g)"
  by (simp add: never_raises_def)

lemma safe_modify [safe_rules]: "never_raises (py_modify g)"
  by (simp add: never_raises_def)

lemma safe_bind [safe_rules]:
  "never_raises m \<Longrightarrow> (\<And>x. never_raises (k x)) \<Longrightarrow> never_raises (py_bind m k)"
  by (auto simp: never_raises_def py_bind_def split: prod.splits sum.splits)
    (metis fst_conv Inl_Inr_False)+

lemma safe_then [safe_rules]: "never_raises m \<Longrightarrow> never_raises n \<Longrightarrow> never_raises (py_then m n)"
  by (simp add: py_then_def safe_bind)

lemma safe_try [safe_rules]: "(\<And>e. never_raises (h e)) \<Longrightarrow> never_raises (py_try m h)"
  by (auto simp: never_raises_def py_try_def split: prod.splits sum.splits)

lemma safe_finally [safe_rules]:
  "never_raises m \<Longrightarrow> never_raises n \<Longrightarrow> never_raises (py_finally m n)"
  by (auto simp: never_raises_def py_finally_def split: prod.splits sum.splits)
    (metis fst_conv Inl_Inr_False)+

lemma safe_if [safe_rules]:
  "never_raises m \<Longrightarrow> never_raises n \<Longrightarrow> never_raises (if b then m else n)"
  by simp

lemma safe_option [safe_rules]:
  "never_raises m \<Longrightarrow> (\<And>y. never_raises (n y)) \<Longrightarrow>
   never_raises (case x of None \<Rightarrow> m | Some y \<Rightarrow> n y)"
  by (cases x) auto

definition outcomes :: "('a \<Rightarrow> bool) \<Rightarrow> ('s, 'a) py \<Rightarrow> bool" where
  "outcomes P m \<longleftrightarrow> (\<forall>s x. fst (m s) = Inr x \<longrightarrow> P x)"

lemma outcomesD: "outcomes P m \<Longrightarrow> m s = (Inr x, s') \<Longrightarrow> P x"
  by (auto simp: outcomes_def) (metis fst_conv)

lemma outcomes_ret [outcome_rules]: "P x \<Longrightarrow> outcomes P (py_ret x)"
  by (simp add: outcomes_def)

lemma outcomes_raise [outcome_rules]: "outcomes P (py_raise e)"
  by (simp add: outcomes_def)

lemma outcomes_bind [outcome_rules]: "(\<And>x. outcomes P (k x)) \<Longrightarrow> outcomes P (py_bind m k)"
  by (auto simp: outcomes_def py_bind_def split: prod.splits sum.splits)

lemma outcomes_bind_via:
  "outcomes R m \<Longrightarrow> (\<And>x. R x \<Longrightarrow> outcomes P (k x)) \<Longrightarrow> outcomes P (py_bind m k)"
  by (auto simp: outcomes_def py_bind_def split: prod.splits sum.splits) (metis fst_conv)

lemma outcomes_then [outcome_rules]: "outcomes P n \<Longrightarrow> outcomes P (py_then m n)"
  by (simp add: py_then_def outcomes_bind)

lemma outcomes_try [outcome_rules]:
  "outcomes P m \<Longrightarrow> (\<And>e. outcomes P (h e)) \<Longrightarrow> outcomes P (py_try m h)"
  by (auto simp: outcomes_def py_try_def split: prod.splits sum.splits) (metis fst_conv)+

lemma outcomes_finally [outcome_rules]: "outcomes P m \<Longrightarrow> outcomes P (py_finally m n)"
  by (auto simp: outcomes_def py_finally_def split: prod.splits sum.splits) (metis fst_conv)+

lemma outcomes_if [outcome_rules]:
  "(b \<Longrightarrow> outcomes P m) \<Longrightarrow> (\<not> b \<Longrightarrow> outcomes P n) \<Longrightarrow> outcomes P (if b then m else n)"
  by simp

lemma outcomes_option [outcome_rules]:
  "(x = None \<Longrightarrow> outcomes P m) \<Longrightarrow> (\<And>y. x = Some y \<Longrightarrow> outcomes P (n y)) \<Longrightarrow>
   outcomes P (case x of None \<Rightarrow> m | Some y \<Rightarrow> n y)"
  by (cases x) auto

lemma outcomes_prod [outcome_rules]:
  "(\<And>a b. x = (a, b) \<Longrightarrow> outcomes P (n a b)) \<Longrightarrow> outcomes P (case x of (a, b) \<Rightarrow> n a b)"
  by (cases x) auto

text \<open>For a block with early returns: what it may return and what it may hand on.\<close>

definition flow_ok :: "('r \<Rightarrow> bool) \<Rightarrow> ('a \<Rightarrow> bool) \<Rightarrow> ('r, 'a) flow \<Rightarrow> bool" where
  "flow_ok Q R x = (case x of Return r \<Rightarrow> Q r | Next y \<Rightarrow> R y)"

lemma flow_ok_simps [simp]: "flow_ok Q R (Return r) = Q r" "flow_ok Q R (Next y) = R y"
  by (simp_all add: flow_ok_def)

lemma outcomes_flow_via:
  "outcomes (flow_ok Q R) m \<Longrightarrow> (\<And>y. R y \<Longrightarrow> outcomes (flow_ok Q S) (k y)) \<Longrightarrow>
   outcomes (flow_ok Q S) (py_flow m k)"
  unfolding py_flow_def by (erule outcomes_bind_via) (auto split: flow.splits intro!: outcomes_ret)

lemma outcomes_body_via:
  "outcomes (flow_ok Q R) m \<Longrightarrow> (\<And>y. R y \<Longrightarrow> outcomes Q (k y)) \<Longrightarrow> outcomes Q (py_body m k)"
  unfolding py_body_def by (erule outcomes_bind_via) (auto split: flow.splits intro!: outcomes_ret)

lemma outcomes_mono: "outcomes P m \<Longrightarrow> (\<And>x. P x \<Longrightarrow> Q x) \<Longrightarrow> outcomes Q m"
  by (auto simp: outcomes_def)

lemma outcomes_list [outcome_rules]:
  "(x = [] \<Longrightarrow> outcomes P m) \<Longrightarrow> (\<And>y ys. x = y # ys \<Longrightarrow> outcomes P (n y ys)) \<Longrightarrow>
   outcomes P (case x of [] \<Rightarrow> m | y # ys \<Rightarrow> n y ys)"
  by (cases x) auto

lemma outcomes_let [outcome_rules]: "outcomes P (n x) \<Longrightarrow> outcomes P (let y = x in n y)"
  by simp

end
