(* ===== verification/CyRuntime.thy ===== *)
theory CyRuntime
  imports Prelude
begin

unbundle bit_operations_syntax

text \<open>
  The C support code that Cython puts into every generated module and that the tracers run on:
  the conversion of a Python integer to a C \<^verbatim>\<open>int\<close> (\<^verbatim>\<open>__Pyx_PyInt_As_int\<close>,
  \<^verbatim>\<open>__Pyx_PyInt_From_int\<close>), and the sorted array in which a module keeps the code objects of
  its tracebacks (\<^verbatim>\<open>__pyx_bisect_code_objects\<close>, \<^verbatim>\<open>__pyx_find_code_object\<close>,
  \<^verbatim>\<open>__pyx_insert_code_object\<close>). The array is shown to implement a finite map, through the
  locale \<open>line_map\<close>.
\<close>

section \<open>Python integers and C ints\<close>

text \<open>
  A Python integer is stored as a sign and its digits in base \<open>2 ^ 30\<close> (\<^verbatim>\<open>PyLong_SHIFT\<close> is 30),
  least significant first.
\<close>

datatype pylong = PyLong (pl_neg: bool) (pl_digits: "nat list")

fun digits_value :: "nat list \<Rightarrow> nat" where
  "digits_value [] = 0"
| "digits_value (d # ds) = d + 2 ^ 30 * digits_value ds"

definition pylong_value :: "pylong \<Rightarrow> int" where
  "pylong_value x = (if pl_neg x then - int (digits_value (pl_digits x))
     else int (digits_value (pl_digits x)))"

definition pylong_ok :: "pylong \<Rightarrow> bool" where
  "pylong_ok x \<longleftrightarrow> (\<forall>d \<in> set (pl_digits x). d < 2 ^ 30) \<and>
     (pl_digits x \<noteq> [] \<longrightarrow> last (pl_digits x) \<noteq> 0)"

text \<open>
  \<^verbatim>\<open>__PYX_VERIFY_RETURN_INT\<close> on a 64-bit value: the value is returned truncated when
  truncating and extending it again gives it back, and \<^verbatim>\<open>OverflowError\<close> is raised otherwise.
\<close>

definition verify_return_int :: "64 word \<Rightarrow> pyexc + cint" where
  "verify_return_int v =
     (if v \<noteq> scast (ucast v :: cint) then Inl OverflowError else Inr (ucast v))"

text \<open>\<^verbatim>\<open>PyLong_AsLong\<close>: the value as a signed 64-bit number, or \<^verbatim>\<open>OverflowError\<close>.\<close>

definition PyLong_AsLong :: "pylong \<Rightarrow> pyexc + 64 word" where
  "PyLong_AsLong x = (let v = pylong_value x in
     if - (2 ^ 63) \<le> v \<and> v < 2 ^ 63 then Inr (of_int v) else Inl OverflowError)"

text \<open>
  \<^verbatim>\<open>__Pyx_PyInt_As_int\<close> on an exact integer, for 32-bit \<^verbatim>\<open>int\<close>, 64-bit \<^verbatim>\<open>long\<close> and 30-bit
  digits: one digit (a compact integer) and two digits are assembled inline; with three or more
  digits the guards of the switch are false and the value goes through \<^verbatim>\<open>PyLong_AsLong\<close>.
\<close>

definition PyInt_As_int :: "pylong \<Rightarrow> pyexc + cint" where
  "PyInt_As_int x = (case pl_digits x of
       [] \<Rightarrow> verify_return_int 0
     | [d] \<Rightarrow> verify_return_int (if pl_neg x then - of_nat d else of_nat d)
     | [d0, d1] \<Rightarrow>
         (let m = (push_bit 30 (of_nat d1) OR of_nat d0 :: 64 word)
          in verify_return_int (if pl_neg x then - m else m))
     | _ \<Rightarrow> (case PyLong_AsLong x of Inl e \<Rightarrow> Inl e | Inr v \<Rightarrow> verify_return_int v))"

text \<open>\<^verbatim>\<open>__Pyx_PyInt_From_int\<close>: the signed value of the C int.\<close>

definition PyInt_From_int :: "cint \<Rightarrow> int" where
  "PyInt_From_int v = sint v"

text \<open>The conversion as the callers see it: a range check on the integer's value.\<close>

definition int_as_cint :: "int \<Rightarrow> pyexc + cint" where
  "int_as_cint n = (if INT_MIN \<le> n \<and> n \<le> INT_MAX then Inr (of_int n) else Inl OverflowError)"

lemma verify_return_int_of_int:
  assumes "- (2 ^ 63) \<le> n" and "n < 2 ^ 63"
  shows "verify_return_int (of_int n) = int_as_cint n"
proof -
  have fit: "sint (of_int n :: 64 word) = n"
  proof -
    have "signed_take_bit 63 n = n" using assms by (simp add: signed_take_bit_int_eq_self_iff)
    then show ?thesis by (simp add: sint_sbintrunc')
  qed
  have uc: "(ucast (of_int n :: 64 word) :: cint) = of_int n"
    by transfer (simp add: take_bit_take_bit)
  have eq: "(of_int n = (scast (of_int n :: cint) :: 64 word)) \<longleftrightarrow>
      (INT_MIN \<le> n \<and> n \<le> INT_MAX)"
  proof
    assume h: "of_int n = (scast (of_int n :: cint) :: 64 word)"
    have "sint (scast (of_int n :: cint) :: 64 word) = sint (of_int n :: cint)"
      by (simp add: sint_up_scast is_up)
    with h fit have "n = sint (of_int n :: cint)" by simp
    then show "INT_MIN \<le> n \<and> n \<le> INT_MAX" using sint_cint_bounds [of "of_int n"] by simp
  next
    assume h: "INT_MIN \<le> n \<and> n \<le> INT_MAX"
    then have "sint (of_int n :: cint) = n" by (simp add: sint_of_int_cint)
    moreover have "(scast (of_int n :: cint) :: 64 word) = of_int (sint (of_int n :: cint))"
      by simp
    ultimately show "of_int n = (scast (of_int n :: cint) :: 64 word)" by simp
  qed
  show ?thesis
    unfolding verify_return_int_def int_as_cint_def uc using eq by auto
qed

lemma two_digits_word:
  assumes "d0 < 2 ^ 30" and "d1 < 2 ^ 30"
  shows "(push_bit 30 (of_nat d1) OR of_nat d0 :: 64 word) = of_int (int (d0 + 2 ^ 30 * d1))"
proof -
  have disj: "push_bit 30 (of_nat d1) AND (of_nat d0 :: 64 word) = 0"
  proof (rule bit_word_eqI)
    fix n assume "n < LENGTH(64)"
    have "\<not> bit d0 n" if "30 \<le> n"
    proof -
      have "d0 < 2 ^ n" using assms(1) that by (meson less_le_trans numeral_le_iff one_le_numeral power_increasing)
      then show ?thesis by (simp add: bit_nat_def)
    qed
    then show "bit (push_bit 30 (of_nat d1) AND (of_nat d0 :: 64 word)) n = bit (0 :: 64 word) n"
      by (cases "30 \<le> n") (auto simp: bit_simps)
  qed
  then have "(push_bit 30 (of_nat d1) OR of_nat d0 :: 64 word) = push_bit 30 (of_nat d1) + of_nat d0"
    by (simp add: disjunctive_add_eq_or)
  then show ?thesis by (simp add: push_bit_eq_mult algebra_simps)
qed

text \<open>The inline digit arithmetic computes the plain range check on the value.\<close>

lemma PyInt_As_int_range:
  assumes "pylong_ok x"
  shows "PyInt_As_int x = int_as_cint (pylong_value x)"
proof -
  obtain neg ds where x: "x = PyLong neg ds" by (cases x)
  consider "ds = []" | d where "ds = [d]" | d0 d1 where "ds = [d0, d1]"
    | d0 d1 d2 r where "ds = d0 # d1 # d2 # r"
    by (metis list.exhaust)
  then show ?thesis
  proof cases
    case 1
    then show ?thesis using verify_return_int_of_int [of 0] x
      by (simp add: PyInt_As_int_def pylong_value_def)
  next
    case 2
    with assms x have "d < 2 ^ 30" by (simp add: pylong_ok_def)
    then show ?thesis
      using verify_return_int_of_int [of "int d"] verify_return_int_of_int [of "- int d"] 2 x
      by (simp add: PyInt_As_int_def pylong_value_def)
  next
    case 3
    with assms x have d: "d0 < 2 ^ 30" "d1 < 2 ^ 30" by (simp_all add: pylong_ok_def)
    let ?v = "int (d0 + 2 ^ 30 * d1)"
    have "?v < 2 ^ 63" using d by simp
    then show ?thesis
      using verify_return_int_of_int [of ?v] verify_return_int_of_int [of "- ?v"] 3 x
      by (simp add: PyInt_As_int_def pylong_value_def two_digits_word [OF d] Let_def
          del: of_nat_add of_nat_mult of_int_of_nat_eq)
  next
    case 4
    show ?thesis
    proof (cases "- (2 ^ 63) \<le> pylong_value x \<and> pylong_value x < 2 ^ 63")
      case True
      then show ?thesis using verify_return_int_of_int [of "pylong_value x"] 4 x
        by (simp add: PyInt_As_int_def PyLong_AsLong_def)
    next
      case False
      then have "int_as_cint (pylong_value x) = Inl OverflowError"
        by (auto simp: int_as_cint_def INT_MIN_def INT_MAX_def)
      with False 4 x show ?thesis by (auto simp: PyInt_As_int_def PyLong_AsLong_def Let_def)
    qed
  qed
qed

lemma int_as_cint_From_int: "int_as_cint (PyInt_From_int v) = Inr v"
  using sint_cint_bounds [of v] by (simp add: int_as_cint_def PyInt_From_int_def)

lemma From_int_as_cint: "int_as_cint n = Inr v \<Longrightarrow> PyInt_From_int v = n"
  by (auto simp: int_as_cint_def PyInt_From_int_def sint_of_int_cint split: if_splits)

section \<open>The code object cache\<close>

text \<open>
  \<^verbatim>\<open>struct __Pyx_CodeObjectCache\<close>: \<open>entries\<close> is the allocated array (\<open>None\<close> is a cell that was
  never written), of which the first \<open>count\<close> cells are in use; the array pointer is NULL until the
  first insertion. A cell holds a line number, a C int that is only ever compared and is kept
  here by its value, and a code object.
\<close>

record 'c code_cache =
  count :: nat
  max_count :: nat
  entries :: "(int \<times> 'c) option list option"

definition code_line_at :: "(int \<times> 'c) option list \<Rightarrow> nat \<Rightarrow> int" where
  "code_line_at es i = fst (the (es ! i))"

text \<open>
  \<^verbatim>\<open>__pyx_bisect_code_objects\<close>. The loop returns inside its body (\<open>Inl\<close>) or leaves the last
  value of \<open>mid\<close> behind (\<open>Inr\<close>).
\<close>

function bisect_loop :: "(int \<times> 'c) option list \<Rightarrow> int \<Rightarrow> nat \<Rightarrow> nat \<Rightarrow> nat \<Rightarrow> nat + nat" where
  "bisect_loop es code_line start mid stop =
     (if start < stop then
        (let mid = start + (stop - start) div 2 in
         if code_line < code_line_at es mid then bisect_loop es code_line start mid mid
         else if code_line > code_line_at es mid then bisect_loop es code_line (mid + 1) mid stop
         else Inl mid)
      else Inr mid)"
  by pat_completeness auto
termination
  by (relation "measure (\<lambda>(es, l, start, mid, stop). stop - start)") auto

declare bisect_loop.simps [simp del]

definition bisect_code_objects :: "(int \<times> 'c) option list \<Rightarrow> nat \<Rightarrow> int \<Rightarrow> nat" where
  "bisect_code_objects es n code_line =
     (if n > 0 \<and> code_line > code_line_at es (n - 1) then n
      else case bisect_loop es code_line 0 0 (n - 1) of
          Inl mid \<Rightarrow> mid
        | Inr mid \<Rightarrow> if code_line \<le> code_line_at es mid then mid else mid + 1)"

definition find_code_object :: "'c code_cache \<Rightarrow> int \<Rightarrow> 'c option" where
  "find_code_object c code_line =
     (if code_line = 0 then None
      else case entries c of
          None \<Rightarrow> None
        | Some es \<Rightarrow>
            (let pos = bisect_code_objects es (count c) code_line in
             if pos \<ge> count c \<or> code_line_at es pos \<noteq> code_line then None
             else Some (snd (the (es ! pos)))))"

text \<open>\<^verbatim>\<open>for (i = count; i > pos; i--) entries[i] = entries[i-1];\<close>\<close>

fun shift_entries :: "(int \<times> 'c) option list \<Rightarrow> nat \<Rightarrow> nat \<Rightarrow> (int \<times> 'c) option list" where
  "shift_entries es pos 0 = es"
| "shift_entries es pos (Suc i) =
     (if Suc i > pos then shift_entries (es[Suc i := es ! i]) pos i else es)"

text \<open>
  \<^verbatim>\<open>__pyx_insert_code_object\<close>. \<open>alloc_ok\<close> is the outcome of \<^verbatim>\<open>PyMem_Malloc\<close> or
  \<^verbatim>\<open>PyMem_Realloc\<close>, when the call makes one: on failure nothing is inserted.
\<close>

definition insert_code_object :: "bool \<Rightarrow> int \<Rightarrow> 'c \<Rightarrow> 'c code_cache \<Rightarrow> 'c code_cache" where
  "insert_code_object alloc_ok code_line code_object c =
     (if code_line = 0 then c
      else case entries c of
          None \<Rightarrow>
            (if alloc_ok
             then c\<lparr>entries := Some ((replicate 64 None)[0 := Some (code_line, code_object)]),
                    max_count := 64, count := 1\<rparr>
             else c)
        | Some es \<Rightarrow>
            (let pos = bisect_code_objects es (count c) code_line in
             if pos < count c \<and> code_line_at es pos = code_line
             then c\<lparr>entries := Some (es[pos := Some (code_line, code_object)])\<rparr>
             else if count c = max_count c \<and> \<not> alloc_ok then c
             else
               (let c' = (if count c = max_count c
                          then c\<lparr>entries := Some (es @ replicate 64 None),
                                 max_count := max_count c + 64\<rparr>
                          else c);
                    es' = the (entries c')
                in c'\<lparr>entries := Some ((shift_entries es' pos (count c))
                                          [pos := Some (code_line, code_object)]),
                       count := count c + 1\<rparr>)))"

definition empty_code_cache :: "'c code_cache" where
  "empty_code_cache = \<lparr>count = 0, max_count = 0, entries = None\<rparr>"

subsection \<open>Binary search\<close>

definition lines_sorted :: "(int \<times> 'c) option list \<Rightarrow> nat \<Rightarrow> bool" where
  "lines_sorted es n \<longleftrightarrow> (\<forall>i j. i < j \<and> j < n \<longrightarrow> code_line_at es i < code_line_at es j)"

text \<open>\<open>pos\<close> is the place of \<open>l\<close>: everything before it is smaller, nothing from it on is.\<close>

definition is_place :: "(int \<times> 'c) option list \<Rightarrow> nat \<Rightarrow> int \<Rightarrow> nat \<Rightarrow> bool" where
  "is_place es n l pos \<longleftrightarrow> pos \<le> n \<and> (\<forall>i < pos. code_line_at es i < l) \<and>
     (\<forall>i. pos \<le> i \<and> i < n \<longrightarrow> l \<le> code_line_at es i)"

lemma bisect_loop_place:
  assumes "lines_sorted es n" and "start \<le> stop" and "stop < n"
    and "\<forall>i < start. code_line_at es i < l"
    and "\<forall>i. stop \<le> i \<and> i < n \<longrightarrow> l \<le> code_line_at es i"
    and "start < stop \<or> (mid = start \<and> l \<le> code_line_at es mid) \<or>
         (start = mid + 1 \<and> code_line_at es mid < l)"
  shows "is_place es n l (case bisect_loop es l start mid stop of Inl m \<Rightarrow> m
           | Inr m \<Rightarrow> if l \<le> code_line_at es m then m else m + 1)"
  using assms
proof (induction es l start mid stop rule: bisect_loop.induct)
  case (1 es l start mid stop)
  show ?case
  proof (cases "start < stop")
    case False
    then have "bisect_loop es l start mid stop = Inr mid" by (simp add: bisect_loop.simps)
    with False "1.prems" show ?thesis by (auto simp: is_place_def)
  next
    case True
    define m where "m = start + (stop - start) div 2"
    have m: "start \<le> m" "m < stop" "m < n" using True "1.prems"(3) by (auto simp: m_def)
    have up: "code_line_at es m \<le> code_line_at es i" if "m \<le> i" "i < n" for i
      using "1.prems"(1) that by (cases "m = i") (auto simp: lines_sorted_def less_imp_le)
    have down: "code_line_at es i \<le> code_line_at es m" if "i \<le> m" for i
      using "1.prems"(1) that m by (cases "m = i") (auto simp: lines_sorted_def less_imp_le)
    consider "l < code_line_at es m" | "l > code_line_at es m" | "l = code_line_at es m"
      by linarith
    then show ?thesis
    proof cases
      case 1
      have "bisect_loop es l start mid stop = bisect_loop es l start m m"
        using True 1 by (simp add: bisect_loop.simps [of es l start mid] m_def Let_def)
      moreover have "\<forall>i. m \<le> i \<and> i < n \<longrightarrow> l \<le> code_line_at es i"
        using 1 up by (meson less_imp_le order_trans)
      then have "is_place es n l (case bisect_loop es l start m m of Inl m \<Rightarrow> m
          | Inr m \<Rightarrow> if l \<le> code_line_at es m then m else m + 1)"
        by (intro "1.IH"(1) [OF True m_def]) (use 1 "1.prems" m in auto)
      ultimately show ?thesis by simp
    next
      case 2
      have "bisect_loop es l start mid stop = bisect_loop es l (m + 1) m stop"
        using True 2 by (simp add: bisect_loop.simps [of es l start mid] m_def Let_def)
      moreover have "\<forall>i < m + 1. code_line_at es i < l"
        using 2 down by (metis less_Suc_eq_le Suc_eq_plus1 le_less_trans)
      then have "is_place es n l (case bisect_loop es l (m + 1) m stop of Inl m \<Rightarrow> m
          | Inr m \<Rightarrow> if l \<le> code_line_at es m then m else m + 1)"
        by (intro "1.IH"(2) [OF True m_def less_not_sym [OF 2] 2]) (use "1.prems" m in simp_all)
      ultimately show ?thesis by simp
    next
      case 3
      have "bisect_loop es l start mid stop = Inl m"
        by (subst bisect_loop.simps) (use True 3 in \<open>simp add: m_def Let_def\<close>)
      moreover have "\<forall>i < m. code_line_at es i < l"
        using "1.prems"(1) m 3 by (auto simp: lines_sorted_def)
      ultimately show ?thesis using 3 m up by (auto simp: is_place_def)
    qed
  qed
qed

lemma bisect_code_objects_place:
  assumes "lines_sorted es n" and "0 < n"
  shows "is_place es n l (bisect_code_objects es n l)"
proof (cases "l > code_line_at es (n - 1)")
  case True
  have "code_line_at es i < l" if "i < n" for i
  proof (cases "i = n - 1")
    case False
    with that assms have "code_line_at es i < code_line_at es (n - 1)"
      by (simp add: lines_sorted_def)
    with True show ?thesis by simp
  qed (use True in simp)
  with True assms(2) show ?thesis by (simp add: bisect_code_objects_def is_place_def)
next
  case False
  have "is_place es n l (case bisect_loop es l 0 0 (n - 1) of Inl m \<Rightarrow> m
      | Inr m \<Rightarrow> if l \<le> code_line_at es m then m else m + 1)"
  proof (rule bisect_loop_place)
    show "\<forall>i. n - 1 \<le> i \<and> i < n \<longrightarrow> l \<le> code_line_at es i"
      using False by (metis One_nat_def Suc_pred assms(2) le_less_Suc_eq not_less)
    show "0 < n - 1 \<or> (0 = 0 \<and> l \<le> code_line_at es 0) \<or> (0 = 0 + 1 \<and> code_line_at es 0 < l)"
      using False assms(2) by (cases "n = 1") auto
  qed (use assms in auto)
  with False show ?thesis by (simp add: bisect_code_objects_def cong: sum.case_cong)
qed

text \<open>The place is unique, so the search finds a line exactly when some used cell holds it.\<close>

lemma is_place_hit:
  assumes "lines_sorted es n" and "is_place es n l pos" and "i < n" and "code_line_at es i = l"
  shows "pos = i"
proof (rule linorder_cases [of pos i])
  assume "pos < i"
  with assms(1,3) have "code_line_at es pos < code_line_at es i" by (simp add: lines_sorted_def)
  moreover have "l \<le> code_line_at es pos"
    using assms(2,3) \<open>pos < i\<close> by (simp add: is_place_def)
  ultimately show ?thesis using assms(4) by simp
next
  assume "i < pos"
  with assms(2,4) show ?thesis by (auto simp: is_place_def)
qed

subsection \<open>The invariant and the map the cache stands for\<close>

definition cache_ok :: "'c code_cache \<Rightarrow> bool" where
  "cache_ok c \<longleftrightarrow> (case entries c of
       None \<Rightarrow> count c = 0
     | Some es \<Rightarrow> length es = max_count c \<and> 0 < count c \<and> count c \<le> max_count c \<and>
         lines_sorted es (count c) \<and>
         (\<forall>i < count c. es ! i \<noteq> None \<and> code_line_at es i \<noteq> 0))"

text \<open>What the cache holds: the value of the cell with the given line.\<close>

definition cache_map :: "'c code_cache \<Rightarrow> int \<rightharpoonup> 'c" where
  "cache_map c l = (case entries c of
       None \<Rightarrow> None
     | Some es \<Rightarrow> map_of (map the (take (count c) es)) l)"

lemma map_of_cells:
  assumes "n \<le> length es" and "lines_sorted es n" and "i < n"
  shows "map_of (map the (take n es)) (code_line_at es i) = Some (snd (the (es ! i)))"
proof -
  let ?xs = "map the (take n es)"
  have len: "length ?xs = n" using assms(1) by simp
  have line: "fst (?xs ! k) = code_line_at es k" if "k < n" for k
    using that assms(1) by (simp add: code_line_at_def)
  have "distinct (map fst ?xs)"
    unfolding distinct_conv_nth using len line assms(2)
    by (auto simp: lines_sorted_def) (metis less_irrefl linorder_neqE_nat)
  moreover have "(code_line_at es i, snd (the (es ! i))) \<in> set ?xs"
    using assms len by (metis code_line_at_def in_set_conv_nth nth_map nth_take length_take prod.collapse length_map)
  ultimately show ?thesis by (simp add: map_of_eq_Some_iff)
qed

lemma map_of_cells_None:
  assumes "n \<le> length es" and "\<forall>i < n. code_line_at es i \<noteq> l"
  shows "map_of (map the (take n es)) l = None"
proof -
  have "l \<notin> fst ` set (map the (take n es))"
    using assms by (auto simp: in_set_conv_nth code_line_at_def) (metis fst_conv)
  then show ?thesis by (simp add: map_of_eq_None_iff)
qed

lemma cache_map_hit:
  assumes "cache_ok c" and "entries c = Some es" and "i < count c"
  shows "cache_map c (code_line_at es i) = Some (snd (the (es ! i)))"
  using assms by (simp add: cache_map_def cache_ok_def map_of_cells)

lemma cache_map_miss:
  assumes "cache_ok c" and "entries c = Some es" and "\<forall>i < count c. code_line_at es i \<noteq> l"
  shows "cache_map c l = None"
  using assms by (simp add: cache_map_def cache_ok_def map_of_cells_None)

lemma cache_map_zero: "cache_ok c \<Longrightarrow> cache_map c 0 = None"
  by (cases "entries c") (auto simp: cache_map_def cache_ok_def intro!: map_of_cells_None)

lemma find_code_object_map:
  assumes "cache_ok c"
  shows "find_code_object c l = cache_map c l"
proof (cases "entries c")
  case None
  then show ?thesis by (simp add: find_code_object_def cache_map_def)
next
  case (Some es)
  with assms have ok: "lines_sorted es (count c)" "0 < count c" by (simp_all add: cache_ok_def)
  let ?pos = "bisect_code_objects es (count c) l"
  have place: "is_place es (count c) l ?pos" using ok by (rule bisect_code_objects_place)
  show ?thesis
  proof (cases "\<exists>i < count c. code_line_at es i = l")
    case True
    then obtain i where i: "i < count c" "code_line_at es i = l" by blast
    then have "?pos = i" using is_place_hit [OF ok(1) place] by simp
    moreover have "l \<noteq> 0" using assms Some i by (auto simp: cache_ok_def)
    ultimately show ?thesis using Some i cache_map_hit [OF assms Some i(1)]
      by (simp add: find_code_object_def Let_def)
  next
    case False
    then have "cache_map c l = None" by (intro cache_map_miss [OF assms Some]) blast
    moreover have "find_code_object c l = None"
      using False Some by (auto simp: find_code_object_def Let_def not_le)
    ultimately show ?thesis by simp
  qed
qed

subsection \<open>Insertion\<close>

lemma length_shift_entries [simp]: "length (shift_entries es pos n) = length es"
  by (induction es pos n rule: shift_entries.induct) auto

text \<open>After the loop the cells from \<open>pos\<close> on have moved one place up, the others are unchanged.\<close>

lemma shift_entries_nth:
  assumes "n < length es" and "pos \<le> n" and "i < length es"
  shows "shift_entries es pos n ! i = (if pos < i \<and> i \<le> n then es ! (i - 1) else es ! i)"
  using assms
proof (induction es pos n rule: shift_entries.induct)
  case (1 es pos)
  then show ?case by simp
next
  case (2 es pos k)
  show ?case
  proof (cases "Suc k > pos")
    case True
    let ?es = "es[Suc k := es ! k]"
    have "shift_entries es pos (Suc k) ! i = shift_entries ?es pos k ! i" using True by simp
    also have "\<dots> = (if pos < i \<and> i \<le> k then ?es ! (i - 1) else ?es ! i)"
      using "2.IH" [OF True] "2.prems" True by simp
    finally show ?thesis using "2.prems" True by (auto simp: nth_list_update)
  next
    case False
    with "2.prems" show ?thesis by auto
  qed
qed

definition insert_cells :: "(int \<times> 'c) option list \<Rightarrow> nat \<Rightarrow> nat \<Rightarrow> int \<Rightarrow> 'c \<Rightarrow> (int \<times> 'c) option list"
  where "insert_cells es pos n l v = (shift_entries es pos n)[pos := Some (l, v)]"

lemma insert_cells_nth:
  assumes "n < length es" and "pos \<le> n" and "i < length es"
  shows "insert_cells es pos n l v ! i =
     (if i = pos then Some (l, v) else if pos < i \<and> i \<le> n then es ! (i - 1) else es ! i)"
  using assms by (simp add: insert_cells_def nth_list_update shift_entries_nth)

lemma insert_cells_line:
  assumes "n < length es" and "pos \<le> n" and "i \<le> n"
  shows "code_line_at (insert_cells es pos n l v) i =
     (if i = pos then l else if pos < i then code_line_at es (i - 1) else code_line_at es i)"
  using assms by (simp add: code_line_at_def insert_cells_nth)

lemma insert_cells_sorted:
  assumes "n < length es" and "lines_sorted es n" and "is_place es n l pos"
    and "\<forall>i < n. code_line_at es i \<noteq> l"
  shows "lines_sorted (insert_cells es pos n l v) (Suc n)"
  unfolding lines_sorted_def
proof (intro allI impI)
  fix i j assume "i < j \<and> j < Suc n"
  then have ij: "i < j" "j \<le> n" "i \<le> n" by auto
  have pos: "pos \<le> n" using assms(3) by (simp add: is_place_def)
  have above: "l < code_line_at es k" if "pos \<le> k" "k < n" for k
    using assms(3,4) that by (metis is_place_def le_neq_trans)
  have below: "code_line_at es k < l" if "k < pos" for k
    using assms(3) that by (simp add: is_place_def)
  have mono: "code_line_at es a < code_line_at es b" if "a < b" "b < n" for a b
    using assms(2) that by (simp add: lines_sorted_def)
  have old: "code_line_at es i < code_line_at es (j - 1)" if "i < pos" "pos < j"
    using that ij by (cases "i = j - 1") (auto intro: mono)
  show "code_line_at (insert_cells es pos n l v) i < code_line_at (insert_cells es pos n l v) j"
    using ij pos old by (auto simp: insert_cells_line [OF assms(1) pos] above below mono)
qed

lemma insert_cells_map:
  assumes len: "n < length es" and sorted: "lines_sorted es n" and place: "is_place es n l pos"
    and fresh: "\<forall>i < n. code_line_at es i \<noteq> l"
  shows "map_of (map the (take (Suc n) (insert_cells es pos n l v)))
       = (map_of (map the (take n es)))(l \<mapsto> v)"
proof
  fix k
  let ?es = "insert_cells es pos n l v"
  have pos: "pos \<le> n" using place by (simp add: is_place_def)
  have len': "Suc n \<le> length ?es" using len by (simp add: insert_cells_def)
  have srt': "lines_sorted ?es (Suc n)" using len sorted place fresh by (rule insert_cells_sorted)
  show "map_of (map the (take (Suc n) ?es)) k = ((map_of (map the (take n es)))(l \<mapsto> v)) k"
  proof (cases "k = l")
    case True
    have "code_line_at ?es pos = l" using pos by (simp add: insert_cells_line [OF len pos])
    then show ?thesis using map_of_cells [OF len' srt', of pos] pos True len
      by (simp add: insert_cells_nth)
  next
    case False
    show ?thesis
    proof (cases "\<exists>i < n. code_line_at es i = k")
      case True
      then obtain i where i: "i < n" "code_line_at es i = k" by blast
      define j where "j = (if i < pos then i else Suc i)"
      have j: "j < Suc n" "?es ! j = es ! i"
        using i pos len by (auto simp: j_def insert_cells_nth)
      then have "code_line_at ?es j = k" using i by (simp add: code_line_at_def)
      then show ?thesis
        using False i j map_of_cells [OF len' srt' j(1)] map_of_cells [OF _ sorted i(1)] len by auto
    next
      case none: False
      have "code_line_at ?es i \<noteq> k" if "i < Suc n" for i
        using that none False pos by (auto simp: insert_cells_line [OF len pos])
      then have "map_of (map the (take (Suc n) ?es)) k = None"
        by (intro map_of_cells_None [OF len']) blast
      moreover have "map_of (map the (take n es)) k = None"
        using none len by (intro map_of_cells_None) auto
      ultimately show ?thesis using False by simp
    qed
  qed
qed

lemma replace_cell_map:
  assumes "n \<le> length es" and "lines_sorted es n" and "i < n" and "code_line_at es i = l"
  shows "lines_sorted (es[i := Some (l, v)]) n \<and>
     map_of (map the (take n (es[i := Some (l, v)]))) = (map_of (map the (take n es)))(l \<mapsto> v)"
proof -
  let ?es = "es[i := Some (l, v)]"
  have same: "code_line_at ?es j = code_line_at es j" if "j < n" for j
    using that assms by (cases "j = i") (auto simp: code_line_at_def)
  then have srt: "lines_sorted ?es n" using assms(2) by (auto simp: lines_sorted_def)
  have "map_of (map the (take n ?es)) k = ((map_of (map the (take n es)))(l \<mapsto> v)) k" for k
  proof (cases "\<exists>j < n. code_line_at es j = k")
    case True
    then obtain j where j: "j < n" "code_line_at es j = k" by blast
    have "k = l \<longleftrightarrow> j = i" using j assms by (metis lines_sorted_def less_irrefl linorder_neqE_nat)
    then show ?thesis
      using j same assms map_of_cells [OF _ srt j(1)] map_of_cells [OF assms(1,2) j(1)] by auto
  next
    case False
    then have "k \<noteq> l" using assms by blast
    moreover have "\<forall>j < n. code_line_at ?es j \<noteq> k" using False same by auto
    ultimately show ?thesis using False assms(1) by (auto simp: map_of_cells_None)
  qed
  with srt show ?thesis by auto
qed

lemma cache_ok_grow:
  assumes "cache_ok c" and "entries c = Some es"
  shows "cache_ok (c\<lparr>entries := Some (es @ replicate 64 None), max_count := max_count c + 64\<rparr>)"
  using assms by (auto simp: cache_ok_def lines_sorted_def code_line_at_def nth_append)

text \<open>
  One insertion of a line that is not in the array, in an array with a free cell: the two
  statements below are all that the callers need.
\<close>

lemma insert_fresh:
  assumes ok: "cache_ok c" and es: "entries c = Some es" and room: "count c < max_count c"
    and l: "l \<noteq> 0" and place: "is_place es (count c) l pos"
    and fresh: "\<forall>i < count c. code_line_at es i \<noteq> l"
    and c': "c' = c\<lparr>entries := Some (insert_cells es pos (count c) l v), count := count c + 1\<rparr>"
  shows "cache_ok c' \<and> cache_map c' = (cache_map c)(l \<mapsto> v)"
proof
  have len: "count c < length es" and srt: "lines_sorted es (count c)"
    and cells: "\<forall>i < count c. es ! i \<noteq> None \<and> code_line_at es i \<noteq> 0"
    using ok es room by (auto simp: cache_ok_def)
  have pos: "pos \<le> count c" using place by (simp add: is_place_def)
  have "insert_cells es pos (count c) l v ! i \<noteq> None \<and>
      code_line_at (insert_cells es pos (count c) l v) i \<noteq> 0" if "i < Suc (count c)" for i
    using that cells l pos len by (auto simp: insert_cells_line [OF len pos] insert_cells_nth)
  then show "cache_ok c'"
    using c' ok es room insert_cells_sorted [OF len srt place fresh]
    by (auto simp: cache_ok_def insert_cells_def)
  show "cache_map c' = (cache_map c)(l \<mapsto> v)"
    using c' es insert_cells_map [OF len srt place fresh, of v]
    by (simp add: cache_map_def fun_eq_iff)
qed

definition insert_accepted :: "bool \<Rightarrow> int \<Rightarrow> 'c code_cache \<Rightarrow> bool" where
  "insert_accepted alloc_ok l c \<longleftrightarrow> l \<noteq> 0 \<and>
     (alloc_ok \<or> cache_map c l \<noteq> None \<or> (entries c \<noteq> None \<and> count c \<noteq> max_count c))"

lemma insert_code_object_spec:
  assumes ok: "cache_ok c"
  shows "cache_ok (insert_code_object a l v c) \<and>
     cache_map (insert_code_object a l v c) =
       (if insert_accepted a l c then (cache_map c)(l \<mapsto> v) else cache_map c)"
proof (cases "l = 0")
  case True
  then show ?thesis using ok by (simp add: insert_code_object_def insert_accepted_def)
next
  case l: False
  show ?thesis
  proof (cases "entries c")
    case None
    have "take (Suc 0) ((replicate 64 None)[0 := Some (l, v)]) = [Some (l, v)]"
      by (simp add: numeral_eq_Suc)
    with None show ?thesis using ok l
      by (auto simp: insert_code_object_def insert_accepted_def cache_ok_def cache_map_def
          lines_sorted_def code_line_at_def fun_eq_iff)
  next
    case (Some es)
    with ok have srt: "lines_sorted es (count c)" "0 < count c" and len: "count c \<le> length es"
      by (auto simp: cache_ok_def)
    let ?pos = "bisect_code_objects es (count c) l"
    have place: "is_place es (count c) l ?pos" using srt by (rule bisect_code_objects_place)
    show ?thesis
    proof (cases "?pos < count c \<and> code_line_at es ?pos = l")
      case hit: True
      then have "cache_map c l \<noteq> None" using cache_map_hit [OF ok Some] by force
      moreover have "insert_code_object a l v c = c\<lparr>entries := Some (es[?pos := Some (l, v)])\<rparr>"
        using hit Some l by (simp add: insert_code_object_def Let_def)
      moreover note replace_cell_map [OF len srt(1) conjunct1 [OF hit] conjunct2 [OF hit], of v]
      ultimately show ?thesis using ok Some l hit len
        by (auto simp: cache_ok_def cache_map_def insert_accepted_def code_line_at_def
            nth_list_update fun_eq_iff)
    next
      case miss: False
      then have fresh: "\<forall>i < count c. code_line_at es i \<noteq> l"
        using is_place_hit [OF srt(1) place] by metis
      then have none: "cache_map c l = None" by (rule cache_map_miss [OF ok Some])
      show ?thesis
      proof (cases "count c = max_count c")
        case full: True
        let ?es = "es @ replicate 64 None"
        let ?g = "c\<lparr>entries := Some ?es, max_count := max_count c + 64\<rparr>"
        have same: "code_line_at ?es i = code_line_at es i" if "i < count c" for i
          using that len by (simp add: code_line_at_def nth_append)
        have "is_place ?es (count c) l ?pos" "\<forall>i < count ?g. code_line_at ?es i \<noteq> l"
          using place fresh same by (auto simp: is_place_def)
        then show ?thesis
          using insert_fresh [OF cache_ok_grow [OF ok Some], of ?es l ?pos _ v] l full Some miss ok
            none len
          by (auto simp: insert_code_object_def insert_accepted_def Let_def insert_cells_def
              cache_map_def fun_eq_iff)
      next
        case room: False
        then have "count c < max_count c" using ok Some by (simp add: cache_ok_def)
        then show ?thesis
          using insert_fresh [OF ok Some _ l place fresh, of _ v] l Some miss room
          by (auto simp: insert_code_object_def insert_accepted_def Let_def insert_cells_def)
      qed
    qed
  qed
qed

subsection \<open>The interface of the cache\<close>

text \<open>
  What \<^verbatim>\<open>__Pyx_AddTraceback\<close> relies on: a map from line numbers to code objects that grows by
  insertion. \<open>accepts\<close> tells the insertions that take effect (the others are dropped: line 0, or no
  memory).
\<close>

locale line_map =
  fixes empty :: 's
    and find :: "'s \<Rightarrow> int \<Rightarrow> 'c option"
    and insert :: "bool \<Rightarrow> int \<Rightarrow> 'c \<Rightarrow> 's \<Rightarrow> 's"
    and accepts :: "bool \<Rightarrow> int \<Rightarrow> 's \<Rightarrow> bool"
    and invar :: "'s \<Rightarrow> bool"
  assumes invar_empty: "invar empty"
    and find_empty: "find empty k = None"
    and invar_insert: "invar s \<Longrightarrow> invar (insert a l v s)"
    and find_insert: "invar s \<Longrightarrow>
      find (insert a l v s) k = (if accepts a l s \<and> k = l then Some v else find s k)"
    and accepts_alloc: "accepts True l s \<longleftrightarrow> l \<noteq> 0"
begin

definition run :: "(bool \<times> int \<times> 'c) list \<Rightarrow> 's \<Rightarrow> 's" where
  "run ops s = fold (\<lambda>(a, l, v). insert a l v) ops s"

lemma invar_run: "invar s \<Longrightarrow> invar (run ops s)"
  by (induction ops arbitrary: s) (auto simp: run_def invar_insert split: prod.splits)

text \<open>Every value found was inserted under that line.\<close>

lemma run_sound:
  assumes "invar s" and "find (run ops s) k = Some v"
  shows "find s k = Some v \<or> (\<exists>a. (a, k, v) \<in> set ops)"
  using assms
proof (induction ops arbitrary: s)
  case Nil
  then show ?case by (simp add: run_def)
next
  case (Cons op ops)
  obtain a l w where op: "op = (a, l, w)" by (cases op)
  have inv: "invar (insert a l w s)" using Cons.prems(1) by (rule invar_insert)
  have "find (run ops (insert a l w s)) k = Some v"
    using Cons.prems(2) op by (simp add: run_def)
  with Cons.IH [OF inv] have "find (insert a l w s) k = Some v \<or> (\<exists>a. (a, k, v) \<in> set ops)"
    by blast
  then show ?case using find_insert [OF Cons.prems(1)] op by (auto split: if_splits)
qed

text \<open>While memory lasts, a lookup gives the last value inserted under the line.\<close>

lemma run_complete:
  assumes "invar s" and "\<forall>(a, l, v) \<in> set ops. a" and "k \<noteq> 0"
  shows "find (run ops s) k =
     (case map_of (rev (map snd ops)) k of Some v \<Rightarrow> Some v | None \<Rightarrow> find s k)"
  using assms
proof (induction ops arbitrary: s)
  case Nil
  then show ?case by (simp add: run_def)
next
  case (Cons op ops)
  obtain l w where op: "op = (True, l, w)" using Cons.prems(2) by (cases op) auto
  have inv: "invar (insert True l w s)" using Cons.prems(1) by (rule invar_insert)
  have "find (run (op # ops) s) k = find (run ops (insert True l w s)) k"
    using op by (simp add: run_def)
  also have "\<dots> = (case map_of (rev (map snd ops)) k of Some v \<Rightarrow> Some v
      | None \<Rightarrow> find (insert True l w s) k)"
    using Cons.IH [OF inv] Cons.prems by auto
  finally show ?case
    using op find_insert [OF Cons.prems(1)] accepts_alloc Cons.prems(3)
    by (auto simp: map_add_def split: option.splits)
qed

end

lemma cache_ok_empty: "cache_ok empty_code_cache"
  by (simp add: cache_ok_def empty_code_cache_def)

interpretation cc: line_map empty_code_cache find_code_object insert_code_object insert_accepted cache_ok
proof unfold_locales
  fix c :: "'c code_cache" and a l v k
  assume ok: "cache_ok c"
  show "cache_ok (insert_code_object a l v c)"
    using insert_code_object_spec [OF ok] by blast
  show "find_code_object (insert_code_object a l v c) k =
      (if insert_accepted a l c \<and> k = l then Some v else find_code_object c k)"
    using insert_code_object_spec [OF ok, of a l v] ok by (simp add: find_code_object_map)
next
  show "cache_ok empty_code_cache" by (rule cache_ok_empty)
  show "find_code_object empty_code_cache k = None" for k
    by (simp add: find_code_object_def empty_code_cache_def)
  show "insert_accepted True l s = (l \<noteq> 0)" for l and s :: "'c code_cache"
    by (auto simp: insert_accepted_def)
qed

section \<open>Properties\<close>

text \<open>C33. \<^verbatim>\<open>__Pyx_PyInt_As_int\<close> converts every Python integer exactly: the C int has the integer's value when it
  is in the range of a C int, and OverflowError is raised otherwise, whatever the number of digits.\<close>

theorem PyInt_As_int_correct:
  assumes "pylong_ok x"
  shows "PyInt_As_int x =
    (if INT_MIN \<le> pylong_value x \<and> pylong_value x \<le> INT_MAX then Inr (of_int (pylong_value x))
     else Inl OverflowError)"
  using PyInt_As_int_range [OF assms] by (simp add: int_as_cint_def)

theorem PyInt_As_int_correct_witness:
  "PyInt_As_int (PyLong True [0, 2]) = Inr (of_int (- 2147483648)) \<and>
   PyInt_As_int (PyLong False [0, 2]) = Inl OverflowError"
  using PyInt_As_int_correct [of "PyLong True [0, 2]"] PyInt_As_int_correct [of "PyLong False [0, 2]"]
  by (simp add: pylong_ok_def pylong_value_def INT_MIN_def INT_MAX_def)

text \<open>Converting a C int to a Python integer and back gives the same C int, and a conversion that
  succeeds loses nothing.\<close>

lemma cint_conversion_roundtrip:
  "int_as_cint (PyInt_From_int v) = Inr v \<and> (int_as_cint n = Inr v \<longrightarrow> PyInt_From_int v = n)"
  by (simp add: int_as_cint_From_int From_int_as_cint)

text \<open>C32. The code object cache implements a finite map: an insertion keeps the array sorted and
  within its bounds, it changes the map exactly at the inserted line or, when memory runs out or the
  line is 0, not at all; the binary search finds exactly what the map holds.\<close>

theorem code_cache_refines_map:
  assumes "cache_ok c"
  shows "cache_ok (insert_code_object alloc_ok l v c) \<and>
    cache_map (insert_code_object alloc_ok l v c) =
      (if insert_accepted alloc_ok l c then (cache_map c)(l \<mapsto> v) else cache_map c) \<and>
    find_code_object c k = cache_map c k"
  using insert_code_object_spec [OF assms] find_code_object_map [OF assms] by blast

theorem code_cache_refines_map_witness:
  "find_code_object (insert_code_object True 12 CHR ''c'' empty_code_cache) 12 = Some CHR ''c''"
proof -
  have "cache_map empty_code_cache = (Map.empty :: int \<rightharpoonup> char)"
    by (simp add: fun_eq_iff cache_map_def empty_code_cache_def)
  then have "cache_ok (insert_code_object True 12 CHR ''c'' empty_code_cache) \<and>
      cache_map (insert_code_object True 12 CHR ''c'' empty_code_cache) = [12 \<mapsto> CHR ''c'']"
    using code_cache_refines_map [OF cache_ok_empty, of True 12 "CHR ''c''"]
    by (simp add: insert_accepted_def)
  then show ?thesis using code_cache_refines_map by fastforce
qed

text \<open>After any sequence of insertions into the empty cache, while memory lasts, a lookup returns the
  value last inserted under the line, and nothing for a line that was never inserted.\<close>

lemma code_cache_returns_last_insert:
  assumes "\<forall>(alloc_ok, l, v) \<in> set ops. alloc_ok" and "k \<noteq> 0"
  shows "find_code_object (fold (\<lambda>(alloc_ok, l, v). insert_code_object alloc_ok l v) ops empty_code_cache) k =
    map_of (rev (map snd ops)) k"
  using cc.run_complete [OF cc.invar_empty assms] cc.find_empty [of k]
  by (simp add: cc.run_def split: option.splits)

end
