(* ===== verification/CyPickle.thy ===== *)
theory CyPickle
  imports CyRuntime
begin

text \<open>
  The pickling of the compiled classes: \<^verbatim>\<open>__reduce_cython__\<close>, \<^verbatim>\<open>__setstate_cython__\<close> and the functions \<^verbatim>\<open>__pyx_unpickle_...\<close> that Cython
  generates for every class of the three modules. The functions are the same for all of them but for the tables of fields, which are in
  \<open>CyPickleTables\<close>.
\<close>

section \<open>Python values and fields\<close>

text \<open>An object of another type: the names of its type and of the bases of it, its identity, its truth value and its integer value.\<close>

record other_object =
  po_types :: "string list"
  po_id :: nat
  po_truth :: "pyexc + bool"
  po_int :: "pyexc + int"

datatype pv = PNone | PBool bool | PInt int | PStr string | PTuple "pv list" | PList "pv list" | PDict "(string \<times> pv) list" | PSet "pv list"
  | POther other_object

text \<open>The C types of fields: \<open>Exactly\<close> is a builtin type that is written in the declaration, \<open>Instance\<close> a compiled class.\<close>

datatype field_kind = Bint | CInt | CULong | AnyObject | Exactly string | Instance string

datatype cvalue = IntV cint | ULongV "64 word" | ObjV pv

fun type_names :: "pv \<Rightarrow> string list" where
  "type_names PNone = [''NoneType'']"
| "type_names (PBool b) = [''bool'', ''int'']"
| "type_names (PInt i) = [''int'']"
| "type_names (PStr s) = [''str'']"
| "type_names (PTuple xs) = [''tuple'']"
| "type_names (PList xs) = [''list'']"
| "type_names (PDict d) = [''dict'']"
| "type_names (PSet xs) = [''set'']"
| "type_names (POther p) = po_types p"

text \<open>The truth value, \<^verbatim>\<open>__Pyx_PyObject_IsTrue\<close>, and the integer value of an object.\<close>

fun is_true :: "pv \<Rightarrow> pyexc + bool" where
  "is_true PNone = Inr False"
| "is_true (PBool b) = Inr b"
| "is_true (PInt i) = Inr (i \<noteq> 0)"
| "is_true (PStr s) = Inr (s \<noteq> [])"
| "is_true (PTuple xs) = Inr (xs \<noteq> [])"
| "is_true (PList xs) = Inr (xs \<noteq> [])"
| "is_true (PDict d) = Inr (d \<noteq> [])"
| "is_true (PSet xs) = Inr (xs \<noteq> [])"
| "is_true (POther p) = po_truth p"

fun as_int :: "pv \<Rightarrow> pyexc + int" where
  "as_int (PBool b) = Inr (if b then 1 else 0)"
| "as_int (PInt i) = Inr i"
| "as_int (POther p) = po_int p"
| "as_int _ = Inl TypeError"

definition int_as_ulong :: "int \<Rightarrow> pyexc + 64 word" where
  "int_as_ulong n = (if 0 \<le> n \<and> n < 2 ^ 64 then Inr (of_int n) else Inl OverflowError)"

fun to_py :: "field_kind \<Rightarrow> cvalue \<Rightarrow> pv" where
  "to_py Bint (IntV i) = PBool (i \<noteq> 0)"
| "to_py k (IntV i) = PInt (sint i)"
| "to_py k (ULongV u) = PInt (uint u)"
| "to_py k (ObjV v) = v"

definition has_type :: "field_kind \<Rightarrow> pv \<Rightarrow> bool" where
  "has_type k v =
     (v = PNone \<or>
      (case k of
         Exactly t \<Rightarrow> hd (type_names v) = t
       | Instance t \<Rightarrow> t \<in> set (type_names v)
       | _ \<Rightarrow> True))"

fun from_py :: "field_kind \<Rightarrow> pv \<Rightarrow> pyexc + cvalue" where
  "from_py Bint v = map_sum id (\<lambda>b. IntV (if b then 1 else 0)) (is_true v)"
| "from_py CInt v = (case as_int v of Inl e \<Rightarrow> Inl e | Inr i \<Rightarrow> map_sum id IntV (int_as_cint i))"
| "from_py CULong v = (case as_int v of Inl e \<Rightarrow> Inl e | Inr i \<Rightarrow> map_sum id ULongV (int_as_ulong i))"
| "from_py k v = (if has_type k v then Inr (ObjV v) else Inl TypeError)"

section \<open>Classes and objects\<close>

text \<open>
  A class: the fields of its struct, those that \<^verbatim>\<open>__reduce_cython__\<close> puts into the tuple, those that it looks at to see whether the tuple has to
  be a separate state, those that \<^verbatim>\<open>__set_state\<close> takes from it, and the checksums that are accepted, the first of which is written.
\<close>

record cyclass =
  cc_name :: string
  cc_struct :: "(string \<times> field_kind) list"
  cc_state :: "(string \<times> field_kind) list"
  cc_use_setstate :: "string list"
  cc_set_state :: "(string \<times> field_kind) list"
  cc_checksums :: "int list"

text \<open>A type: the class itself or a subclass written in Python, whose instances may have a dictionary.\<close>

record pytype =
  ty_bases :: "string list"
  ty_has_dict :: bool

record cobject =
  co_type :: pytype
  co_val :: "string \<Rightarrow> cvalue"
  co_dict :: "(string \<times> pv) list option"

text \<open>What \<^verbatim>\<open>tp_new\<close> leaves in a field.\<close>

fun initial_value :: "field_kind \<Rightarrow> cvalue" where
  "initial_value Bint = IntV 0"
| "initial_value CInt = IntV 0"
| "initial_value CULong = ULongV 0"
| "initial_value _ = ObjV PNone"

definition tp_new :: "cyclass \<Rightarrow> pytype \<Rightarrow> pyexc + cobject" where
  "tp_new c t =
     (if cc_name c \<in> set (ty_bases t)
      then Inr \<lparr> co_type = t, co_val = (\<lambda>f. case map_of (cc_struct c) f of None \<Rightarrow> ObjV PNone | Some k \<Rightarrow> initial_value k),
        co_dict = (if ty_has_dict t then Some [] else None) \<rparr>
      else Inl TypeError)"

section \<open>\<^verbatim>\<open>__reduce_cython__\<close>\<close>

text \<open>The tuple that is returned: the arguments of the function that unpickles, and the state when there is one.\<close>

record reduced =
  rd_type :: pytype
  rd_checksum :: int
  rd_arg :: pv
  rd_state :: "pv option"

definition state_tuple :: "cyclass \<Rightarrow> cobject \<Rightarrow> pv list" where
  "state_tuple c self = map (\<lambda>(f, k). to_py k (co_val self f)) (cc_state c)"

definition use_setstate :: "cyclass \<Rightarrow> cobject \<Rightarrow> bool" where
  "use_setstate c self = list_ex (\<lambda>f. co_val self f \<noteq> ObjV PNone) (cc_use_setstate c)"

definition reduce_cython :: "cyclass \<Rightarrow> cobject \<Rightarrow> reduced" where
  "reduce_cython c self =
     (let (state, use) = (case co_dict self of
            Some d \<Rightarrow> (state_tuple c self @ [PDict d], True)
          | None \<Rightarrow> (state_tuple c self, use_setstate c self)) in
      if use then \<lparr> rd_type = co_type self, rd_checksum = hd (cc_checksums c), rd_arg = PNone, rd_state = Some (PTuple state) \<rparr>
      else \<lparr> rd_type = co_type self, rd_checksum = hd (cc_checksums c), rd_arg = PTuple state, rd_state = None \<rparr>)"

section \<open>\<^verbatim>\<open>__set_state\<close>, \<^verbatim>\<open>__setstate_cython__\<close> and \<^verbatim>\<open>__pyx_unpickle\<close>\<close>

abbreviation index_error :: pyexc where
  "index_error \<equiv> UserExc ''IndexError: tuple index out of range''"

definition set_field :: "string \<Rightarrow> cvalue \<Rightarrow> (cobject, unit) py" where
  "set_field f v = py_modify (\<lambda>x. x \<lparr> co_val := (co_val x)(f := v) \<rparr>)"

text \<open>The fields are set one after the other, so an exception leaves those before it changed.\<close>

fun set_fields :: "(string \<times> field_kind) list \<Rightarrow> pv list \<Rightarrow> (cobject, unit) py" where
  "set_fields [] state = py_ret ()"
| "set_fields (fk # fks) [] = py_raise index_error"
| "set_fields (fk # fks) (v # state) =
     py_bind (py_lift (from_py (snd fk) v)) (\<lambda>x. py_then (set_field (fst fk) x) (set_fields fks state))"

text \<open>\<open>update\<close> is the method of the dictionary.\<close>

definition set_state ::
  "((string \<times> pv) list \<Rightarrow> pv \<Rightarrow> pyexc + (string \<times> pv) list) \<Rightarrow> cyclass \<Rightarrow> pv list \<Rightarrow> (cobject, unit) py" where
  "set_state update c state =
     py_then (set_fields (cc_set_state c) state)
       (py_bind (py_gets co_dict) (\<lambda>d.
         case d of
           Some d \<Rightarrow>
             if length (cc_set_state c) < length state then
               py_bind (py_lift (update d (state ! length (cc_set_state c)))) (\<lambda>d'. py_modify (\<lambda>x. x \<lparr> co_dict := Some d' \<rparr>))
             else py_ret ()
         | None \<Rightarrow> py_ret ()))"

definition setstate_cython ::
  "((string \<times> pv) list \<Rightarrow> pv \<Rightarrow> pyexc + (string \<times> pv) list) \<Rightarrow> cyclass \<Rightarrow> pv \<Rightarrow> (cobject, unit) py" where
  "setstate_cython update c state = (case state of PTuple xs \<Rightarrow> set_state update c xs | _ \<Rightarrow> py_raise TypeError)"

definition pyx_unpickle ::
  "((string \<times> pv) list \<Rightarrow> pv \<Rightarrow> pyexc + (string \<times> pv) list) \<Rightarrow> cyclass \<Rightarrow> pytype \<Rightarrow> int \<Rightarrow> pv \<Rightarrow> pyexc + cobject" where
  "pyx_unpickle update c t checksum state =
     (if checksum \<notin> set (cc_checksums c) then Inl PickleError
      else
        case tp_new c t of
          Inl e \<Rightarrow> Inl e
        | Inr result \<Rightarrow>
            if state = PNone then Inr result
            else (case setstate_cython update c state result of (Inl e, _) \<Rightarrow> Inl e | (Inr _, result) \<Rightarrow> Inr result))"

text \<open>What \<^verbatim>\<open>pickle\<close> and \<^verbatim>\<open>copy\<close> do with the tuple: call the function, then set the state when there is one.\<close>

definition rebuild ::
  "((string \<times> pv) list \<Rightarrow> pv \<Rightarrow> pyexc + (string \<times> pv) list) \<Rightarrow> cyclass \<Rightarrow> reduced \<Rightarrow> pyexc + cobject" where
  "rebuild update c r =
     (case pyx_unpickle update c (rd_type r) (rd_checksum r) (rd_arg r) of
        Inl e \<Rightarrow> Inl e
      | Inr result \<Rightarrow>
          (case rd_state r of
             None \<Rightarrow> Inr result
           | Some state \<Rightarrow> (case setstate_cython update c state result of (Inl e, _) \<Rightarrow> Inl e | (Inr _, result) \<Rightarrow> Inr result)))"

section \<open>The round trip\<close>

text \<open>A value that a field of a kind can have.\<close>

fun value_ok :: "field_kind \<Rightarrow> cvalue \<Rightarrow> bool" where
  "value_ok Bint (IntV i) \<longleftrightarrow> i = 0 \<or> i = 1"
| "value_ok CInt (IntV i) \<longleftrightarrow> True"
| "value_ok CULong (ULongV u) \<longleftrightarrow> True"
| "value_ok AnyObject (ObjV v) \<longleftrightarrow> True"
| "value_ok (Exactly t) (ObjV v) \<longleftrightarrow> has_type (Exactly t) v"
| "value_ok (Instance t) (ObjV v) \<longleftrightarrow> has_type (Instance t) v"
| "value_ok _ _ \<longleftrightarrow> False"

definition object_ok :: "cyclass \<Rightarrow> cobject \<Rightarrow> bool" where
  "object_ok c x \<longleftrightarrow> cc_name c \<in> set (ty_bases (co_type x)) \<and> (co_dict x = None \<longleftrightarrow> \<not> ty_has_dict (co_type x)) \<and>
     list_all (\<lambda>(f, k). value_ok k (co_val x f)) (cc_struct c)"

lemma sint_as_cint: "int_as_cint (sint (i :: cint)) = Inr i"
  using sint_cint_bounds [of i] by (simp add: int_as_cint_def)

lemma int_as_ulong_uint: "int_as_ulong (uint u) = Inr u"
  using uint_range_size [of u] by (simp add: int_as_ulong_def word_size)

lemma from_to_py: "value_ok k v \<Longrightarrow> from_py k (to_py k v) = Inr v"
  by (cases k; cases v) (auto simp: sint_as_cint int_as_ulong_uint has_type_def)

text \<open>
  The interface between the tables of a class and the functions: the two functions agree on the fields and their order, no field of the struct is
  left out, and the checksum that is written is accepted.
\<close>

locale pickled_class =
  fixes c :: cyclass
  assumes same_fields: "cc_set_state c = cc_state c"
    and all_fields: "set (cc_state c) = set (cc_struct c)"
    and distinct_fields: "distinct (map fst (cc_state c))"
    and checksum: "cc_checksums c \<noteq> []"
begin

lemma set_fields_state:
  assumes "distinct (map fst fks)" and "list_all (\<lambda>(f, k). value_ok k (co_val x f)) fks"
  shows "\<exists>o'. set_fields fks (map (\<lambda>(f, k). to_py k (co_val x f)) fks @ rest) y = (Inr (), o') \<and> co_type o' = co_type y \<and>
    co_dict o' = co_dict y \<and> (\<forall>f. co_val o' f = (if f \<in> fst ` set fks then co_val x f else co_val y f))"
  using assms
proof (induction fks arbitrary: y)
  case (Cons fk fks)
  obtain f k where fk: "fk = (f, k)" by fastforce
  let ?y = "y \<lparr> co_val := (co_val y)(f := co_val x f) \<rparr>"
  obtain o' where "set_fields fks (map (\<lambda>(f, k). to_py k (co_val x f)) fks @ rest) ?y = (Inr (), o')" "co_type o' = co_type ?y"
    "co_dict o' = co_dict ?y" "\<forall>g. co_val o' g = (if g \<in> fst ` set fks then co_val x g else co_val ?y g)"
    using Cons.IH [of ?y] Cons.prems by auto
  then show ?case using Cons.prems fk
    by (auto simp: from_to_py set_field_def py_bind_app py_then_app)
qed simp

lemma roundtrip:
  assumes "object_ok c x" and "\<And>d. update [] (PDict d) = Inr d"
  shows "\<exists>y. rebuild update c (reduce_cython c x) = Inr y \<and> co_type y = co_type x \<and> co_dict y = co_dict x \<and>
    list_all (\<lambda>(f, k). co_val y f = co_val x f) (cc_struct c)"
proof -
  obtain n where new: "tp_new c (co_type x) = Inr n" "co_type n = co_type x" "co_dict n = (if ty_has_dict (co_type x) then Some [] else None)"
    using assms(1) by (simp add: tp_new_def object_ok_def)
  have ok: "list_all (\<lambda>(f, k). value_ok k (co_val x f)) (cc_state c)"
    using assms(1) by (simp add: object_ok_def list_all_iff all_fields)
  have fields: "fst ` set (cc_state c) = fst ` set (cc_struct c)" by (simp add: all_fields)
  have len: "length (state_tuple c x) = length (cc_state c)" by (simp add: state_tuple_def)
  have chk: "hd (cc_checksums c) \<in> set (cc_checksums c)" using checksum by simp
  show ?thesis
  proof (cases "co_dict x")
    case None
    then have "co_dict n = None" using assms(1) new by (simp add: object_ok_def)
    then obtain y where "setstate_cython update c (PTuple (state_tuple c x)) n = (Inr (), y)" "co_type y = co_type x" "co_dict y = None"
      "\<forall>f \<in> fst ` set (cc_struct c). co_val y f = co_val x f"
      using set_fields_state [OF distinct_fields ok, of "[]" n] new
      by (auto simp: setstate_cython_def set_state_def same_fields state_tuple_def py_bind_app py_then_app fields)
    with None new chk show ?thesis
      by (auto simp: rebuild_def reduce_cython_def pyx_unpickle_def list_all_iff)
  next
    case (Some d)
    then have "co_dict n = Some []" using assms(1) new by (simp add: object_ok_def)
    then obtain y where "setstate_cython update c (PTuple (state_tuple c x @ [PDict d])) n = (Inr (), y)" "co_type y = co_type x"
      "co_dict y = Some d" "\<forall>f \<in> fst ` set (cc_struct c). co_val y f = co_val x f"
      using set_fields_state [OF distinct_fields ok, of "[PDict d]" n] new assms(2) len
      by (auto simp: setstate_cython_def set_state_def same_fields state_tuple_def py_bind_app py_then_app fields nth_append)
    with Some new chk show ?thesis
      by (auto simp: rebuild_def reduce_cython_def pyx_unpickle_def list_all_iff)
  qed
qed

end

text \<open>A checksum that is not one of those of the class is refused, and so is a type that is not a subclass; no object is made.\<close>

lemma unpickle_refuses:
  "checksum \<notin> set (cc_checksums c) \<Longrightarrow> pyx_unpickle update c t checksum state = Inl PickleError"
  "checksum \<in> set (cc_checksums c) \<Longrightarrow> cc_name c \<notin> set (ty_bases t) \<Longrightarrow> pyx_unpickle update c t checksum state = Inl TypeError"
  by (simp_all add: pyx_unpickle_def tp_new_def)

text \<open>A tuple that is too short sets the fields that it has, and then raises.\<close>

lemma short_state_sets_prefix:
  assumes "length state < length fks" and "\<And>i. i < length state \<Longrightarrow> from_py (snd (fks ! i)) (state ! i) = Inr (vs i)"
    and "distinct (map fst fks)"
  shows "\<exists>o'. set_fields fks state x = (Inl index_error, o') \<and> (\<forall>i < length state. co_val o' (fst (fks ! i)) = vs i) \<and>
    (\<forall>f. f \<notin> fst ` set (take (length state) fks) \<longrightarrow> co_val o' f = co_val x f)"
  using assms
proof (induction fks state arbitrary: x vs rule: set_fields.induct)
  case (3 fk fks v state)
  let ?x = "x \<lparr> co_val := (co_val x)(fst fk := vs 0) \<rparr>"
  have v: "from_py (snd fk) v = Inr (vs 0)" using "3.prems"(2) [of 0] by simp
  have "\<exists>o'. set_fields fks state ?x = (Inl index_error, o') \<and> (\<forall>i < length state. co_val o' (fst (fks ! i)) = vs (Suc i)) \<and>
    (\<forall>f. f \<notin> fst ` set (take (length state) fks) \<longrightarrow> co_val o' f = co_val ?x f)"
    by (rule "3.IH") (use "3.prems"(1,3) "3.prems"(2) [of "Suc i" for i] in auto)
  then obtain o' where o': "set_fields fks state ?x = (Inl index_error, o')" "\<forall>i < length state. co_val o' (fst (fks ! i)) = vs (Suc i)"
    "\<forall>f. f \<notin> fst ` set (take (length state) fks) \<longrightarrow> co_val o' f = co_val ?x f" by blast
  have "fst fk \<notin> fst ` set (take (length state) fks)" using "3.prems"(3) by (auto dest: in_set_takeD)
  then have "co_val o' (fst fk) = vs 0" using o'(3) by simp
  then have "\<forall>i < length (v # state). co_val o' (fst ((fk # fks) ! i)) = vs i"
    using o'(2) by (auto simp: nth_Cons split: nat.split)
  then show ?case using o' v by (intro exI [of _ o']) (auto simp: set_field_def py_bind_app py_then_app)
qed simp_all

end
