(* ===== verification/CyObject.thy ===== *)
theory CyObject
  imports CyPickle "HOL-Library.AList" "HOL-Library.Multiset"
begin

text \<open>
  The life of an object of a compiled class as Python sees it: the attributes that the class gives it (\<^verbatim>\<open>__get__\<close>, \<^verbatim>\<open>__set__\<close> and
  \<^verbatim>\<open>__del__\<close> of every \<^verbatim>\<open>cdef public\<close> field and the functions of the \<^verbatim>\<open>PyGetSetDef\<close> tables) and what the garbage collector does with it
  (\<^verbatim>\<open>tp_traverse\<close>, \<^verbatim>\<open>tp_clear\<close>, \<^verbatim>\<open>tp_dealloc\<close>). The tables of the classes are in \<open>CyObjectTables\<close>.
\<close>

section \<open>Attributes\<close>

text \<open>
  The accessors that Cython generates for a field of the C type \<^verbatim>\<open>int\<close>, \<^verbatim>\<open>bint\<close>, \<^verbatim>\<open>object\<close>, a builtin type or a compiled class; each
  carries the name of the field, which is the name of the attribute too.
\<close>

datatype accessor = IntField string | BintField string | ObjectField string | BuiltinField string string | ClassField string string

fun ac_name :: "accessor \<Rightarrow> string" where
  "ac_name (IntField f) = f"
| "ac_name (BintField f) = f"
| "ac_name (ObjectField f) = f"
| "ac_name (BuiltinField t f) = f"
| "ac_name (ClassField t f) = f"

definition obj_of :: "cvalue \<Rightarrow> pv" where
  "obj_of v = (case v of ObjV p \<Rightarrow> p | _ \<Rightarrow> PNone)"

definition int_of :: "cvalue \<Rightarrow> cint" where
  "int_of v = (case v of IntV i \<Rightarrow> i | _ \<Rightarrow> 0)"

fun ac_get :: "accessor \<Rightarrow> cobject \<Rightarrow> pv" where
  "ac_get (IntField f) self = PInt (PyInt_From_int (int_of (co_val self f)))"
| "ac_get (BintField f) self = PBool (int_of (co_val self f) \<noteq> 0)"
| "ac_get (ObjectField f) self = obj_of (co_val self f)"
| "ac_get (BuiltinField t f) self = obj_of (co_val self f)"
| "ac_get (ClassField t f) self = obj_of (co_val self f)"

fun ac_set :: "accessor \<Rightarrow> pv \<Rightarrow> (cobject, unit) py" where
  "ac_set (IntField f) v =
     py_bind (py_lift (as_int v)) (\<lambda>i. py_bind (py_lift (int_as_cint i)) (\<lambda>n. set_field f (IntV n)))"
| "ac_set (BintField f) v = py_bind (py_lift (is_true v)) (\<lambda>b. set_field f (IntV (if b then 1 else 0)))"
| "ac_set (ObjectField f) v = set_field f (ObjV v)"
| "ac_set (BuiltinField t f) v =
     (if hd (type_names v) = t \<or> v = PNone then set_field f (ObjV v) else py_raise TypeError)"
| "ac_set (ClassField t f) v =
     (if v = PNone \<or> t \<in> set (type_names v) then set_field f (ObjV v) else py_raise TypeError)"

text \<open>Fields that hold an object have a \<^verbatim>\<open>__del__\<close>; the numbers have none.\<close>

fun ac_del :: "accessor \<Rightarrow> (cobject, unit) py option" where
  "ac_del (IntField f) = None"
| "ac_del (BintField f) = None"
| "ac_del (ObjectField f) = Some (set_field f (ObjV PNone))"
| "ac_del (BuiltinField t f) = Some (set_field f (ObjV PNone))"
| "ac_del (ClassField t f) = Some (set_field f (ObjV PNone))"

abbreviation not_implemented_del :: pyexc where
  "not_implemented_del \<equiv> UserExc ''NotImplementedError: __del__''"

text \<open>The function of the table that assigns or, without a value, deletes.\<close>

definition setprop :: "accessor \<Rightarrow> pv option \<Rightarrow> (cobject, unit) py" where
  "setprop a v =
     (case v of
        Some v \<Rightarrow> ac_set a v
      | None \<Rightarrow> (case ac_del a of Some d \<Rightarrow> d | None \<Rightarrow> py_raise not_implemented_del))"

fun ac_kind :: "accessor \<Rightarrow> field_kind" where
  "ac_kind (IntField f) = CInt"
| "ac_kind (BintField f) = Bint"
| "ac_kind (ObjectField f) = AnyObject"
| "ac_kind (BuiltinField t f) = Exactly t"
| "ac_kind (ClassField t f) = Instance t"

fun holds_object :: "field_kind \<Rightarrow> bool" where
  "holds_object Bint \<longleftrightarrow> False"
| "holds_object CInt \<longleftrightarrow> False"
| "holds_object CULong \<longleftrightarrow> False"
| "holds_object _ \<longleftrightarrow> True"

section \<open>The contract of an attribute\<close>

text \<open>
  What an attribute of a field \<open>f\<close> of the kind \<open>k\<close> promises: reading converts the field; an assignment stores the converted value in that field and
  in no other, or raises and changes nothing; deleting an object stores None, and a number cannot be deleted.
\<close>

definition with_field :: "string \<Rightarrow> cvalue \<Rightarrow> cobject \<Rightarrow> cobject" where
  "with_field f w x = x \<lparr> co_val := (co_val x)(f := w) \<rparr>"

lemma with_field_simps [simp]:
  "co_val (with_field f w x) = (co_val x)(f := w)"
  "co_type (with_field f w x) = co_type x"
  "co_dict (with_field f w x) = co_dict x"
  by (simp_all add: with_field_def)

lemma set_field_app [simp]: "set_field f w x = (Inr (), with_field f w x)"
  by (simp add: set_field_def with_field_def)

lemma from_py_ok: "from_py k v = Inr w \<Longrightarrow> value_ok k w"
  by (cases "(k, v)" rule: from_py.cases) (auto split: if_splits sum.splits simp: map_sum_def)

locale cy_attribute =
  fixes get :: "cobject \<Rightarrow> pv" and put :: "pv \<Rightarrow> (cobject, unit) py" and remove :: "(cobject, unit) py option"
    and f :: string and k :: field_kind
  assumes get_field: "value_ok k (co_val x f) \<Longrightarrow> get x = to_py k (co_val x f)"
    and put_ok: "from_py k v = Inr w \<Longrightarrow> put v x = (Inr (), with_field f w x)"
    and put_error: "from_py k v = Inl e \<Longrightarrow> put v x = (Inl e, x)"
    and remove_object: "holds_object k \<Longrightarrow> \<exists>d. remove = Some d \<and> (\<forall>x. d x = (Inr (), with_field f (ObjV PNone) x))"
    and remove_number: "\<not> holds_object k \<Longrightarrow> remove = None"
begin

lemma put_get:
  assumes "put v x = (Inr (), y)"
  shows "\<exists>w. from_py k v = Inr w \<and> get y = to_py k w \<and> value_ok k w \<and> y = with_field f w x"
proof (cases "from_py k v")
  case (Inl e)
  with put_error assms show ?thesis by simp
next
  case (Inr w)
  moreover have "y = with_field f w x" using put_ok [OF Inr, of x] assms by simp
  ultimately show ?thesis using from_py_ok get_field [of y] by auto
qed

lemma put_failed: "put v x = (Inl e, y) \<Longrightarrow> y = x \<and> from_py k v = Inl e"
  using put_ok put_error by (cases "from_py k v") auto

lemma put_back: "value_ok k (co_val x f) \<Longrightarrow> put (get x) x = (Inr (), x)"
  using put_ok [of "get x" "co_val x f" x] by (simp add: get_field from_to_py with_field_def)

end

interpretation accessor: cy_attribute "ac_get a" "ac_set a" "ac_del a" "ac_name a" "ac_kind a" for a
proof (unfold_locales, goal_cases)
  case (1 x)
  then show ?case
    by (cases a; cases "co_val x (ac_name a)") (auto simp: int_of_def obj_of_def PyInt_From_int_def)
next
  case (2 v w x)
  then show ?case
    by (cases a) (auto simp: py_bind_app py_lift_def has_type_def split: sum.splits if_splits)
next
  case (3 v e x)
  then show ?case
    by (cases a) (auto simp: py_bind_app py_lift_def has_type_def split: sum.splits if_splits)
next
  case 4
  then show ?case by (cases a) auto
next
  case 5
  then show ?case by (cases a) auto
qed

section \<open>Types, and what can happen to an object\<close>

text \<open>
  The type of a class: its accessors, and the fields that the three functions of the collector go through. \<^verbatim>\<open>tp_traverse\<close> calls \<open>visit\<close> for every
  field until it answers other than 0; \<^verbatim>\<open>tp_clear\<close> replaces every field by None; \<^verbatim>\<open>tp_dealloc\<close> drops the reference of every field.
\<close>

record cytype =
  ct_class :: cyclass
  ct_getsets :: "accessor list"
  ct_traverse :: "string list"
  ct_clear :: "string list"
  ct_dealloc :: "string list"

fun tp_traverse :: "(pv \<Rightarrow> 's \<Rightarrow> int \<times> 's) \<Rightarrow> string list \<Rightarrow> cobject \<Rightarrow> 's \<Rightarrow> int \<times> 's" where
  "tp_traverse visit [] self s = (0, s)"
| "tp_traverse visit (f # fs) self s =
     (case visit (obj_of (co_val self f)) s of (e, s') \<Rightarrow> if e \<noteq> 0 then (e, s') else tp_traverse visit fs self s')"

definition tp_clear :: "cytype \<Rightarrow> cobject \<Rightarrow> cobject" where
  "tp_clear T self = fold (\<lambda>f. with_field f (ObjV PNone)) (ct_clear T) self"

text \<open>The references that are dropped, in their order.\<close>

definition tp_dealloc :: "cytype \<Rightarrow> cobject \<Rightarrow> pv list" where
  "tp_dealloc T self = map (\<lambda>f. obj_of (co_val self f)) (ct_dealloc T)"

text \<open>
  What Python code and the collector do to an object: assign or delete an attribute, set the pickled state, or clear. A name without an accessor goes
  to the dictionary of the instance, if there is one.
\<close>

datatype object_op = SetAttr string pv | DelAttr string | SetState pv | Clear

definition find_accessor :: "cytype \<Rightarrow> string \<Rightarrow> accessor option" where
  "find_accessor T name = find (\<lambda>a. ac_name a = name) (ct_getsets T)"

definition generic_setattr :: "string \<Rightarrow> pv option \<Rightarrow> (cobject, unit) py" where
  "generic_setattr name v =
     py_bind (py_gets co_dict) (\<lambda>d. case d of
       None \<Rightarrow> py_raise AttributeError
     | Some d \<Rightarrow>
         (case v of
            Some v \<Rightarrow> py_modify (\<lambda>x. x \<lparr> co_dict := Some (AList.update name v d) \<rparr>)
          | None \<Rightarrow> if map_of d name = None then py_raise AttributeError
              else py_modify (\<lambda>x. x \<lparr> co_dict := Some (AList.delete name d) \<rparr>)))"

definition cy_setattr :: "cytype \<Rightarrow> string \<Rightarrow> pv option \<Rightarrow> (cobject, unit) py" where
  "cy_setattr T name v = (case find_accessor T name of Some a \<Rightarrow> setprop a v | None \<Rightarrow> generic_setattr name v)"

fun object_step ::
  "((string \<times> pv) list \<Rightarrow> pv \<Rightarrow> pyexc + (string \<times> pv) list) \<Rightarrow> cytype \<Rightarrow> object_op \<Rightarrow> (cobject, unit) py" where
  "object_step update T (SetAttr name v) = cy_setattr T name (Some v)"
| "object_step update T (DelAttr name) = cy_setattr T name None"
| "object_step update T (SetState v) = setstate_cython update (ct_class T) v"
| "object_step update T Clear = py_modify (tp_clear T)"

text \<open>A sequence of them; an exception goes to the caller, who may go on with the object.\<close>

definition run_ops ::
  "((string \<times> pv) list \<Rightarrow> pv \<Rightarrow> pyexc + (string \<times> pv) list) \<Rightarrow> cytype \<Rightarrow> object_op list \<Rightarrow> cobject \<Rightarrow> cobject" where
  "run_ops update T ops x = fold (\<lambda>op x. snd (object_step update T op x)) ops x"

section \<open>The contract of a type\<close>

text \<open>The values of the fields that hold objects: these are the references that the object owns.\<close>

definition owned :: "cyclass \<Rightarrow> cobject \<Rightarrow> pv list" where
  "owned c x = map (\<lambda>(f, k). obj_of (co_val x f)) (filter (\<lambda>(f, k). holds_object k) (cc_struct c))"

definition is_string_kind :: "field_kind \<Rightarrow> bool" where
  "is_string_kind k \<longleftrightarrow> k = Exactly ''str''"

text \<open>
  The accessors are those of fields of the struct, with the kind of the struct; deallocation drops every field that holds an object, once; the collector
  traverses and clears the same fields, which are all that hold objects but for strings, which are in no cycle.
\<close>

locale cy_type = pickled_class "ct_class T" for T :: cytype +
  assumes struct_distinct: "distinct (map fst (cc_struct (ct_class T)))"
    and accessors: "list_all (\<lambda>a. (ac_name a, ac_kind a) \<in> set (cc_struct (ct_class T))) (ct_getsets T)"
    and dealloc_fields: "mset (ct_dealloc T) = mset (map fst (filter (\<lambda>(f, k). holds_object k) (cc_struct (ct_class T))))"
    and clear_fields: "set (ct_clear T) = set (map fst (filter (\<lambda>(f, k). holds_object k \<and> \<not> is_string_kind k) (cc_struct (ct_class T))))"
    and traverse_fields: "ct_traverse T = ct_clear T"
begin

abbreviation c :: cyclass where
  "c \<equiv> ct_class T"

lemma kind_unique: "(f, k) \<in> set (cc_struct c) \<Longrightarrow> (f, k') \<in> set (cc_struct c) \<Longrightarrow> k = k'"
  using struct_distinct by (metis eq_key_imp_eq_value)

lemma object_ok_field: "object_ok c x \<Longrightarrow> (f, k) \<in> set (cc_struct c) \<Longrightarrow> value_ok k (co_val x f)"
  by (auto simp: object_ok_def list_all_iff)

lemma object_ok_with_field:
  assumes "object_ok c x" and "(f, k) \<in> set (cc_struct c)" and "value_ok k w"
  shows "object_ok c (with_field f w x)"
proof -
  have "value_ok k' (((co_val x)(f := w)) g)" if g: "(g, k') \<in> set (cc_struct c)" for g k'
    using kind_unique [OF assms(2), of k'] assms(3) g object_ok_field [OF assms(1) g] by (cases "g = f") auto
  with assms(1) show ?thesis by (auto simp: object_ok_def list_all_iff)
qed

lemma find_accessor_field:
  assumes "find_accessor T name = Some a"
  shows "ac_name a = name" "(name, ac_kind a) \<in> set (cc_struct c)"
proof -
  show name: "ac_name a = name" using assms by (auto simp: find_accessor_def find_Some_iff)
  have "a \<in> set (ct_getsets T)" using assms by (auto simp: find_accessor_def find_Some_iff)
  with accessors name show "(name, ac_kind a) \<in> set (cc_struct c)" by (auto simp: list_all_iff)
qed

text \<open>An assignment reads back as the converted value and leaves the other attributes alone, or it raises and the object is as before.\<close>

lemma setattr_spec:
  assumes "object_ok c x" and "find_accessor T name = Some a"
  shows "case cy_setattr T name (Some v) x of
      (Inl e, y) \<Rightarrow> y = x \<and> from_py (ac_kind a) v = Inl e
    | (Inr _, y) \<Rightarrow> object_ok c y \<and> (\<exists>w. from_py (ac_kind a) v = Inr w \<and> ac_get a y = to_py (ac_kind a) w) \<and>
        (\<forall>b. ac_name b \<noteq> name \<longrightarrow> ac_get b y = ac_get b x)"
proof -
  note fld = find_accessor_field [OF assms(2)]
  have other: "ac_get b (with_field name w x) = ac_get b x" if "ac_name b \<noteq> name" for b w
    using that by (cases b) auto
  show ?thesis
  proof (cases "ac_set a v x")
    case (Pair r y)
    then show ?thesis
      using accessor.put_failed [of a v x] accessor.put_get [of a v x y] assms fld other
        object_ok_with_field [OF assms(1) fld(2)]
      by (cases r) (fastforce simp: cy_setattr_def setprop_def)+
  qed
qed

lemma setprop_ok:
  assumes "object_ok c x" and "find_accessor T name = Some a"
  shows "object_ok c (snd (setprop a v x))"
proof (cases v)
  case (Some v')
  then show ?thesis
    using setattr_spec [OF assms, of v'] assms by (auto simp: cy_setattr_def split: prod.splits sum.splits)
next
  case None
  note fld = find_accessor_field [OF assms(2)]
  show ?thesis
  proof (cases "holds_object (ac_kind a)")
    case True
    then have "value_ok (ac_kind a) (ObjV PNone)" by (cases "ac_kind a") (auto simp: has_type_def)
    then show ?thesis
      using None accessor.remove_object [OF True] object_ok_with_field [OF assms(1) fld(2)] fld(1)
      by (auto simp: setprop_def)
  next
    case False
    then show ?thesis using None accessor.remove_number [OF False] assms by (simp add: setprop_def)
  qed
qed

lemma generic_setattr_ok: "object_ok c x \<Longrightarrow> object_ok c (snd (generic_setattr name v x))"
  by (auto simp: generic_setattr_def object_ok_def py_bind_app split: option.splits)

lemma set_fields_ok:
  assumes "object_ok c x" and "set fks \<subseteq> set (cc_struct c)"
  shows "object_ok c (snd (set_fields fks state x))"
  using assms
proof (induction fks state arbitrary: x rule: set_fields.induct)
  case (3 fk fks v state)
  show ?case
  proof (cases "from_py (snd fk) v")
    case (Inl e)
    with 3 show ?thesis by (simp add: py_bind_app py_lift_def)
  next
    case (Inr w)
    have "object_ok c (with_field (fst fk) w x)"
      by (rule object_ok_with_field [where k = "snd fk"]) (use 3 from_py_ok [OF Inr] in auto)
    with 3 Inr show ?thesis by (simp add: py_bind_app py_then_app py_lift_def)
  qed
qed simp_all

lemma set_state_ok: "object_ok c x \<Longrightarrow> object_ok c (snd (setstate_cython update c v x))"
proof -
  assume ok: "object_ok c x"
  have dict: "object_ok c (y \<lparr> co_dict := Some d' \<rparr>)" if "object_ok c y" "co_dict y = Some d" for y d d'
    using that by (auto simp: object_ok_def)
  have fields: "object_ok c (snd (set_fields (cc_set_state c) xs x))" for xs
    by (rule set_fields_ok [OF ok]) (simp add: same_fields all_fields)
  have "object_ok c (snd (set_state update c xs x))" for xs
    using fields [of xs] dict
    by (cases "set_fields (cc_set_state c) xs x")
      (auto simp: set_state_def py_bind_app py_then_app py_lift_def split: sum.splits option.splits)
  with ok show ?thesis by (auto simp: setstate_cython_def split: pv.splits)
qed

lemma tp_clear_ok: "object_ok c x \<Longrightarrow> object_ok c (tp_clear T x)"
proof -
  assume "object_ok c x"
  moreover have "set fs \<subseteq> set (ct_clear T) \<Longrightarrow> object_ok c y \<Longrightarrow> object_ok c (fold (\<lambda>f. with_field f (ObjV PNone)) fs y)" for fs y
  proof (induction fs arbitrary: y)
    case (Cons f fs)
    then obtain k where "(f, k) \<in> set (cc_struct c)" "holds_object k" using clear_fields by auto
    moreover from this have "value_ok k (ObjV PNone)" by (cases k) (auto simp: has_type_def)
    ultimately show ?case using Cons object_ok_with_field by auto
  qed simp
  ultimately show ?thesis by (simp add: tp_clear_def)
qed

lemma object_step_ok: "object_ok c x \<Longrightarrow> object_ok c (snd (object_step update T op x))"
  by (cases op) (auto simp: cy_setattr_def setprop_ok generic_setattr_ok set_state_ok tp_clear_ok split: option.split)

lemma run_ops_ok: "object_ok c x \<Longrightarrow> object_ok c (run_ops update T ops x)"
  unfolding run_ops_def by (induction ops arbitrary: x) (simp_all add: object_step_ok)

lemma tp_new_ok: "tp_new c t = Inr x \<Longrightarrow> object_ok c x"
proof -
  assume x: "tp_new c t = Inr x"
  have "value_ok k (initial_value k)" for k by (cases k) (auto simp: has_type_def)
  moreover have "map_of (cc_struct c) f = Some k" if "(f, k) \<in> set (cc_struct c)" for f k
    using that struct_distinct by simp
  ultimately show ?thesis
    using x by (auto simp: tp_new_def object_ok_def list_all_iff split: if_splits)
qed

lemma co_val_clear: "co_val (fold (\<lambda>f. with_field f (ObjV PNone)) fs x) g = (if g \<in> set fs then ObjV PNone else co_val x g)"
  by (induction fs arbitrary: x) auto

text \<open>After the collector has cleared an object, the only references it still has are to None and to strings.\<close>

lemma clear_owned:
  assumes "object_ok c x" and "v \<in> set (owned c (tp_clear T x))"
  shows "v = PNone \<or> hd (type_names v) = ''str''"
proof -
  from assms(2) obtain f k where f: "(f, k) \<in> set (cc_struct c)" "holds_object k" "v = obj_of (co_val (tp_clear T x) f)"
    by (auto simp: owned_def)
  show ?thesis
  proof (cases "is_string_kind k")
    case True
    then show ?thesis
      using f object_ok_field [OF tp_clear_ok [OF assms(1)] f(1)]
      by (cases "co_val (tp_clear T x) f") (auto simp: is_string_kind_def has_type_def obj_of_def)
  next
    case False
    with f clear_fields have "f \<in> set (ct_clear T)" by force
    then show ?thesis using f by (simp add: tp_clear_def co_val_clear obj_of_def)
  qed
qed

lemma traverse_all:
  assumes "\<And>v s. fst (visit v s) = 0"
  shows "tp_traverse visit fs x s = (0, fold (\<lambda>f s. snd (visit (obj_of (co_val x f)) s)) fs s)"
  using assms by (induction fs arbitrary: s) (auto split: prod.split dest: arg_cong [where f = fst])

lemma dealloc_owned: "mset (tp_dealloc T x) = mset (owned c x)"
proof -
  have "mset (tp_dealloc T x) = image_mset (\<lambda>f. obj_of (co_val x f)) (mset (ct_dealloc T))"
    by (simp add: tp_dealloc_def)
  also have "\<dots> = mset (owned c x)"
    by (simp only: dealloc_fields owned_def mset_map [symmetric] map_map) (simp add: comp_def case_prod_unfold)
  finally show ?thesis .
qed

end

end
