(* ===== verification/CyCall.thy ===== *)
theory CyCall
  imports CyObject
begin

text \<open>
  How Python calls the compiled functions: the wrappers \<^verbatim>\<open>__pyx_pw_...\<close> that take the positional and the keyword arguments of a call apart
  and convert them to the C types of the parameters, with \<^verbatim>\<open>__Pyx_ParseOptionalKeywords\<close>, \<^verbatim>\<open>__Pyx_GetKwValue_FASTCALL\<close>,
  \<^verbatim>\<open>__Pyx_CheckKeywordStrings\<close>, \<^verbatim>\<open>__Pyx_RaiseArgtupleInvalid\<close> and \<^verbatim>\<open>__Pyx_ArgTypeTest\<close>. The signatures of the functions are in
  \<open>CyCallTables\<close>. The wrappers find the arguments with counters and a second pass over the keywords; they are shown to do what the
  rules of the language say.
\<close>

section \<open>Signatures and calls\<close>

text \<open>The C type of a parameter, and a value of it. The checksum of the unpickling functions is a \<^verbatim>\<open>long\<close>, which no field is.\<close>

datatype arg_kind = Field field_kind | CLong

datatype argv = CV cvalue | LongV "64 word"

record param =
  pm_name :: string
  pm_kind :: arg_kind
  pm_default :: "argv option"

abbreviation required :: "param \<Rightarrow> bool" where
  "required p \<equiv> pm_default p = None"

definition arg :: "string \<Rightarrow> field_kind \<Rightarrow> param" where
  "arg name k = \<lparr> pm_name = name, pm_kind = Field k, pm_default = None \<rparr>"

definition long_arg :: "string \<Rightarrow> param" where
  "long_arg name = \<lparr> pm_name = name, pm_kind = CLong, pm_default = None \<rparr>"

definition opt_arg :: "string \<Rightarrow> field_kind \<Rightarrow> cvalue \<Rightarrow> param" where
  "opt_arg name k v = \<lparr> pm_name = name, pm_kind = Field k, pm_default = Some (CV v) \<rparr>"

text \<open>
  A function has named parameters, or takes everything (\<^verbatim>\<open>*args\<close>); in the second case keywords may be allowed, and are passed on or not.
  \<open>sg_fastcall\<close>: the keywords come as a tuple of names, not as a dictionary.
\<close>

datatype shape = Params "param list" | StarArgs bool bool

record signature =
  sg_name :: string
  sg_fastcall :: bool
  sg_shape :: shape

text \<open>The name of a keyword is a string, or some other object in a dictionary of keywords.\<close>

datatype kwname = KStr string | KOther nat

type_synonym kw_list = "(kwname \<times> pv) list"

section \<open>Errors\<close>

text \<open>All but the last are a \<^verbatim>\<open>TypeError\<close>; the last is what a conversion raises.\<close>

datatype call_error =
    ArgtupleInvalid bool nat nat nat
  | MultipleValues string
  | UnexpectedKeyword kwname
  | KeywordsNotStrings
  | ArgumentType string
  | ConversionError pyexc

definition error_class :: "call_error \<Rightarrow> pyexc" where
  "error_class e = (case e of ConversionError x \<Rightarrow> x | _ \<Rightarrow> TypeError)"

text \<open>What \<^verbatim>\<open>__Pyx_RaiseArgtupleInvalid\<close> says: how many arguments are expected, and the word before the number.\<close>

definition argtuple_expected :: "bool \<Rightarrow> nat \<Rightarrow> nat \<Rightarrow> nat \<Rightarrow> string \<times> nat" where
  "argtuple_expected exact num_min num_max num_found =
     (let (more_or_less, num_expected) = (if num_found < num_min then (''at least'', num_min) else (''at most'', num_max)) in
      (if exact then ''exactly'' else more_or_less, num_expected))"

definition num_required :: "param list \<Rightarrow> nat" where
  "num_required ps = length (filter required ps)"

definition argtuple_error :: "param list \<Rightarrow> nat \<Rightarrow> call_error" where
  "argtuple_error ps found = ArgtupleInvalid (num_required ps = length ps) (num_required ps) (length ps) found"

section \<open>The wrapper of a function with named parameters\<close>

text \<open>\<^verbatim>\<open>__Pyx_GetKwValue_FASTCALL\<close>, and the lookup in the dictionary: the value of the first keyword of the name.\<close>

fun GetKwValue :: "kw_list \<Rightarrow> string \<Rightarrow> pv option" where
  "GetKwValue [] s = None"
| "GetKwValue ((k, v) # kw) s = (if k = KStr s then Some v else GetKwValue kw s)"

text \<open>The place of a keyword among the parameters.\<close>

fun name_index :: "string list \<Rightarrow> kwname \<Rightarrow> nat option" where
  "name_index [] k = None"
| "name_index (n # ns) k = (if k = KStr n then Some 0 else map_option Suc (name_index ns k))"

fun ParseOptionalKeywords :: "string list \<Rightarrow> nat \<Rightarrow> pv option list \<Rightarrow> kw_list \<Rightarrow> call_error + pv option list" where
  "ParseOptionalKeywords argnames num_pos_args values [] = Inr values"
| "ParseOptionalKeywords argnames num_pos_args values ((key, value) # kwds) =
     (case name_index (drop num_pos_args argnames) key of
        Some i \<Rightarrow> ParseOptionalKeywords argnames num_pos_args (values[num_pos_args + i := Some value]) kwds
      | None \<Rightarrow>
          (case key of
             KStr s \<Rightarrow> if s \<in> set (take num_pos_args argnames) then Inl (MultipleValues s) else Inl (UnexpectedKeyword key)
           | KOther n \<Rightarrow> Inl KeywordsNotStrings))"

text \<open>
  The second \<^verbatim>\<open>switch\<close> of a wrapper, from the parameter \<open>i\<close> on. A required parameter has to be among the keywords; an optional one is looked
  for only while keywords are left, which \<open>kw_args\<close> counts.
\<close>

fun keyword_switch :: "param list \<Rightarrow> nat \<Rightarrow> param list \<Rightarrow> kw_list \<Rightarrow> nat \<Rightarrow> call_error + pv option list \<times> nat" where
  "keyword_switch all i [] kwds kw_args = Inr ([], kw_args)"
| "keyword_switch all i (p # ps) kwds kw_args =
     (if required p then
        (case GetKwValue kwds (pm_name p) of
           Some v \<Rightarrow> map_sum id (apfst (Cons (Some v))) (keyword_switch all (Suc i) ps kwds (kw_args - 1))
         | None \<Rightarrow> Inl (argtuple_error all i))
      else
        (case if kw_args > 0 then GetKwValue kwds (pm_name p) else None of
           Some v \<Rightarrow> map_sum id (apfst (Cons (Some v))) (keyword_switch all (Suc i) ps kwds (kw_args - 1))
         | None \<Rightarrow> map_sum id (apfst (Cons None)) (keyword_switch all (Suc i) ps kwds kw_args)))"

definition unpack_values :: "param list \<Rightarrow> pv list \<Rightarrow> kw_list option \<Rightarrow> call_error + pv option list" where
  "unpack_values ps args kwds =
     (case kwds of
        Some kw \<Rightarrow>
          if length args > length ps then Inl (argtuple_error ps (length args))
          else
            (case keyword_switch ps (length args) (drop (length args) ps) kw (length kw) of
               Inl e \<Rightarrow> Inl e
             | Inr (vs, kw_args) \<Rightarrow>
                 let values = map Some args @ vs in
                 if kw_args > 0 then ParseOptionalKeywords (map pm_name ps) (length args) values kw else Inr values)
      | None \<Rightarrow>
          if num_required ps \<le> length args \<and> length args \<le> length ps
          then Inr (map Some args @ replicate (length ps - length args) None)
          else Inl (argtuple_error ps (length args)))"

section \<open>Conversion of the arguments\<close>

definition int_as_clong :: "int \<Rightarrow> pyexc + 64 word" where
  "int_as_clong n = (if - (2 ^ 63) \<le> n \<and> n < 2 ^ 63 then Inr (of_int n) else Inl OverflowError)"

text \<open>The numbers are converted while the arguments are taken apart, the types of objects are tested afterwards.\<close>

fun convert_number :: "arg_kind \<Rightarrow> pv \<Rightarrow> call_error + argv" where
  "convert_number CLong v = (case as_int v of Inl e \<Rightarrow> Inl (ConversionError e) | Inr i \<Rightarrow> map_sum ConversionError LongV (int_as_clong i))"
| "convert_number (Field CInt) v = map_sum ConversionError CV (from_py CInt v)"
| "convert_number (Field CULong) v = map_sum ConversionError CV (from_py CULong v)"
| "convert_number (Field Bint) v = map_sum ConversionError CV (from_py Bint v)"
| "convert_number (Field k) v = Inr (CV (ObjV v))"

definition take_value :: "param \<Rightarrow> pv option \<Rightarrow> call_error + argv" where
  "take_value p v =
     (case v of
        Some v \<Rightarrow> convert_number (pm_kind p) v
      | None \<Rightarrow> (case pm_default p of Some d \<Rightarrow> Inr d | None \<Rightarrow> Inr (CV (ObjV PNone))))"

fun take_values :: "param list \<Rightarrow> pv option list \<Rightarrow> call_error + argv list" where
  "take_values (p # ps) (v # vs) =
     (case take_value p v of Inl e \<Rightarrow> Inl e | Inr a \<Rightarrow> map_sum id (Cons a) (take_values ps vs))"
| "take_values _ _ = Inr []"

definition ArgTypeTest :: "param \<Rightarrow> argv \<Rightarrow> bool" where
  "ArgTypeTest p a \<longleftrightarrow>
     (case (pm_kind p, a) of
        (Field (Exactly t), CV (ObjV v)) \<Rightarrow> hd (type_names v) = t \<or> v = PNone
      | (Field (Instance t), CV (ObjV v)) \<Rightarrow> v = PNone \<or> t \<in> set (type_names v)
      | _ \<Rightarrow> True)"

fun test_types :: "param list \<Rightarrow> argv list \<Rightarrow> call_error + unit" where
  "test_types (p # ps) (a # as) = (if ArgTypeTest p a then test_types ps as else Inl (ArgumentType (pm_name p)))"
| "test_types _ _ = Inr ()"

section \<open>A call\<close>

text \<open>\<^verbatim>\<open>__Pyx_CheckKeywordStrings\<close> names the first keyword of a tuple and the last one of a dictionary.\<close>

definition CheckKeywordStrings :: "bool \<Rightarrow> kw_list \<Rightarrow> bool \<Rightarrow> call_error + unit" where
  "CheckKeywordStrings fastcall kw kw_allowed =
     (if fastcall then
        (if kw = [] \<or> kw_allowed then Inr () else Inl (UnexpectedKeyword (fst (hd kw))))
      else if \<not> list_all (\<lambda>(k, v). case k of KStr s \<Rightarrow> True | KOther n \<Rightarrow> False) kw then Inl KeywordsNotStrings
      else if \<not> kw_allowed \<and> kw \<noteq> [] then Inl (UnexpectedKeyword (fst (last kw)))
      else Inr ())"

text \<open>What the compiled function is called with.\<close>

datatype call = CallWith "argv list" | CallStar "pv list" kw_list

definition call_named :: "param list \<Rightarrow> pv list \<Rightarrow> kw_list option \<Rightarrow> call_error + argv list" where
  "call_named ps args kwds =
     (case unpack_values ps args kwds of
        Inl e \<Rightarrow> Inl e
      | Inr values \<Rightarrow>
          (case take_values ps values of
             Inl e \<Rightarrow> Inl e
           | Inr as \<Rightarrow> (case test_types ps as of Inl e \<Rightarrow> Inl e | Inr _ \<Rightarrow> Inr as)))"

definition pyx_pw :: "signature \<Rightarrow> pv list \<Rightarrow> kw_list option \<Rightarrow> call_error + call" where
  "pyx_pw sg args kwds =
     (case sg_shape sg of
        Params [] \<Rightarrow>
          if args \<noteq> [] then Inl (ArgtupleInvalid True 0 0 (length args))
          else (case kwds of
                  None \<Rightarrow> Inr (CallWith [])
                | Some kw \<Rightarrow> if kw = [] then Inr (CallWith []) else map_sum id (\<lambda>_. CallWith []) (CheckKeywordStrings (sg_fastcall sg) kw False))
      | Params ps \<Rightarrow> map_sum id CallWith (call_named ps args kwds)
      | StarArgs allowed passed \<Rightarrow>
          (case kwds of
             None \<Rightarrow> Inr (CallStar args [])
           | Some kw \<Rightarrow> map_sum id (\<lambda>_. CallStar args (if passed then kw else [])) (CheckKeywordStrings (sg_fastcall sg) kw allowed)))"

section \<open>The rules of the language\<close>

text \<open>
  The reference: positional arguments go to the first parameters; every parameter that is left takes its value from the keyword of its name or from its
  default; a keyword has to name one of them. The first rule that is broken is reported.
\<close>

definition missing :: "kw_list \<Rightarrow> param \<Rightarrow> bool" where
  "missing kw p \<longleftrightarrow> required p \<and> GetKwValue kw (pm_name p) = None"

definition keyword_error :: "param list \<Rightarrow> nat \<Rightarrow> kwname \<Rightarrow> call_error" where
  "keyword_error ps n key =
     (case key of
        KStr s \<Rightarrow> if s \<in> set (map pm_name (take n ps)) then MultipleValues s else UnexpectedKeyword key
      | KOther m \<Rightarrow> KeywordsNotStrings)"

definition misplaced :: "param list \<Rightarrow> kwname \<times> pv \<Rightarrow> bool" where
  "misplaced rest kv \<longleftrightarrow> fst kv \<notin> KStr ` set (map pm_name rest)"

definition bind_reference :: "param list \<Rightarrow> pv list \<Rightarrow> kw_list \<Rightarrow> call_error + pv option list" where
  "bind_reference ps args kw =
     (let n = length args; rest = drop n ps in
      if n > length ps then Inl (argtuple_error ps n)
      else if list_ex (missing kw) rest then Inl (argtuple_error ps (n + length (takeWhile (\<lambda>p. \<not> missing kw p) rest)))
      else
        case find (misplaced rest) kw of
          Some (key, v) \<Rightarrow> Inl (keyword_error ps n key)
        | None \<Rightarrow> Inr (map Some args @ map (\<lambda>p. GetKwValue kw (pm_name p)) rest))"

text \<open>
  The value of a parameter: what was bound to it converted to its C type, or its default. When a conversion fails, the first number that
  cannot be converted is reported, and when there is none the first object that has the wrong type.
\<close>

definition arg_value :: "param \<Rightarrow> pv option \<Rightarrow> pyexc + argv" where
  "arg_value p v =
     (case v of
        None \<Rightarrow> Inr (case pm_default p of None \<Rightarrow> CV (ObjV PNone) | Some d \<Rightarrow> d)
      | Some v \<Rightarrow>
          (case pm_kind p of
             CLong \<Rightarrow>
               (case as_int v of
                  Inl e \<Rightarrow> Inl e
                | Inr n \<Rightarrow> if - (2 ^ 63) \<le> n \<and> n < 2 ^ 63 then Inr (LongV (word_of_int n)) else Inl OverflowError)
           | Field k \<Rightarrow> map_sum id CV (from_py k v)))"

definition is_number :: "param \<Rightarrow> bool" where
  "is_number p \<longleftrightarrow> pm_kind p \<in> {CLong, Field CInt, Field CULong, Field Bint}"

definition reference_args :: "param list \<Rightarrow> pv option list \<Rightarrow> call_error + argv list" where
  "reference_args ps vs =
     (case find (\<lambda>(p, v). is_number p \<and> isl (arg_value p v)) (zip ps vs) of
        Some (p, v) \<Rightarrow> Inl (ConversionError (projl (arg_value p v)))
      | None \<Rightarrow>
          (case find (\<lambda>(p, v). isl (arg_value p v)) (zip ps vs) of
             Some (p, v) \<Rightarrow> Inl (ArgumentType (pm_name p))
           | None \<Rightarrow> Inr (map (\<lambda>(p, v). projr (arg_value p v)) (zip ps vs))))"

text \<open>
  Which results of a call the rules allow. A function without parameters refuses keywords, and names one of them; a function that takes
  everything gets the arguments as they are.
\<close>

definition keyword_refused :: "kw_list \<Rightarrow> call_error \<Rightarrow> bool" where
  "keyword_refused kw e \<longleftrightarrow>
     (\<exists>k \<in> fst ` set kw. e = UnexpectedKeyword k) \<or> (e = KeywordsNotStrings \<and> (\<exists>n. KOther n \<in> fst ` set kw))"

definition call_rule :: "signature \<Rightarrow> pv list \<Rightarrow> kw_list \<Rightarrow> call_error + call \<Rightarrow> bool" where
  "call_rule sg args kw r \<longleftrightarrow>
     (case sg_shape sg of
        Params ps \<Rightarrow>
          (case bind_reference ps args kw of
             Inr vs \<Rightarrow> r = map_sum id CallWith (reference_args ps vs)
           | Inl e \<Rightarrow> if ps = [] \<and> args = [] then \<exists>e'. r = Inl e' \<and> keyword_refused kw e' else r = Inl e)
      | StarArgs allowed passed \<Rightarrow>
          if kw = [] \<or> allowed \<and> (sg_fastcall sg \<or> (\<forall>n. KOther n \<notin> fst ` set kw))
          then r = Inr (CallStar args (if passed then kw else []))
          else \<exists>e'. r = Inl e' \<and> keyword_refused kw e')"

section \<open>The wrapper follows the rules\<close>

lemma GetKwValue_Some: "GetKwValue kw s = Some v \<Longrightarrow> (KStr s, v) \<in> set kw"
  by (induction kw s rule: GetKwValue.induct) (auto split: if_splits)

lemma GetKwValue_None: "GetKwValue kw s = None \<longleftrightarrow> KStr s \<notin> fst ` set kw"
  by (induction kw s rule: GetKwValue.induct) (auto split: if_splits)

lemma name_index_None: "name_index ns k = None \<longleftrightarrow> k \<notin> KStr ` set ns"
  by (induction ns) auto

lemma name_index_Some: "name_index ns k = Some i \<Longrightarrow> i < length ns \<and> k = KStr (ns ! i)"
  by (induction ns arbitrary: i) (auto split: if_splits)

text \<open>Keywords that are not those of the parameters in \<open>done\<close>.\<close>

definition kw_left :: "string set \<Rightarrow> kw_list \<Rightarrow> nat" where
  "kw_left done kw = length (filter (\<lambda>(k, v). k \<notin> KStr ` done) kw)"

lemma kw_left_insert:
  assumes "distinct (map fst kw)" and "n \<notin> done"
  shows "kw_left (insert n done) kw = (if GetKwValue kw n = None then kw_left done kw else kw_left done kw - 1)"
    and "GetKwValue kw n \<noteq> None \<Longrightarrow> kw_left done kw > 0"
proof -
  have 1: "kw_left (insert n done) kw + (if GetKwValue kw n = None then 0 else 1) = kw_left done kw"
    using assms
  proof (induction kw)
    case (Cons a kw)
    obtain k v where a: "a = (k, v)" by fastforce
    show ?case
    proof (cases "k = KStr n")
      case True
      then have "GetKwValue kw n = None" using Cons.prems a by (auto simp: GetKwValue_None)
      with Cons a True show ?thesis by (auto simp: kw_left_def)
    next
      case False
      with Cons a show ?thesis by (auto simp: kw_left_def)
    qed
  qed (simp add: kw_left_def)
  then show "kw_left (insert n done) kw = (if GetKwValue kw n = None then kw_left done kw else kw_left done kw - 1)"
    by (auto split: if_splits)
  show "GetKwValue kw n \<noteq> None \<Longrightarrow> kw_left done kw > 0" using 1 by auto
qed

lemma kw_left_zero: "kw_left done kw = 0 \<longleftrightarrow> fst ` set kw \<subseteq> KStr ` done"
  by (auto simp: kw_left_def filter_empty_conv)

text \<open>A value of the type of a parameter.\<close>

fun arg_ok :: "arg_kind \<Rightarrow> argv \<Rightarrow> bool" where
  "arg_ok (Field k) (CV w) \<longleftrightarrow> value_ok k w"
| "arg_ok CLong (LongV w) \<longleftrightarrow> True"
| "arg_ok _ _ \<longleftrightarrow> False"

definition default_ok :: "param \<Rightarrow> bool" where
  "default_ok p \<longleftrightarrow> (case pm_default p of None \<Rightarrow> True | Some d \<Rightarrow> arg_ok (pm_kind p) d)"

text \<open>The two passes over the arguments, conversion and type test, find what the reference says.\<close>

lemma number_taken:
  assumes "is_number p" and "default_ok p" and "required p \<longrightarrow> v \<noteq> None"
  shows "take_value p v = map_sum ConversionError id (arg_value p v)" and "take_value p v = Inr a \<Longrightarrow> ArgTypeTest p a"
  using assms
  by (auto simp: take_value_def arg_value_def is_number_def int_as_clong_def ArgTypeTest_def sum.map_comp o_def id_def
      split: option.splits sum.splits simp del: from_py.simps)

lemma value_argument: "value_ok k w \<Longrightarrow> pm_kind p = Field k \<Longrightarrow> ArgTypeTest p (CV w)"
  by (cases "(k, w)" rule: value_ok.cases) (auto simp: ArgTypeTest_def has_type_def)

lemma take_value_error: "take_value p v = Inl e \<Longrightarrow> \<exists>x. e = ConversionError x"
  by (cases "(pm_kind p, the v)" rule: convert_number.cases)
    (auto simp: take_value_def map_sum_def simp del: from_py.simps split: option.splits sum.splits)

lemma take_values_error: "take_values ps vs = Inl e \<Longrightarrow> \<exists>x. e = ConversionError x"
  by (induction ps vs rule: take_values.induct) (auto simp: map_sum_def dest: take_value_error split: sum.splits)

lemma test_types_error: "test_types ps as = Inl e \<Longrightarrow> \<exists>n. e = ArgumentType n"
  by (induction ps as rule: test_types.induct) (auto split: if_splits)

lemma object_taken:
  assumes "\<not> is_number p" and "default_ok p" and "required p \<longrightarrow> v \<noteq> None"
  obtains a where "take_value p v = Inr a" and "ArgTypeTest p a \<longleftrightarrow> \<not> isl (arg_value p v)"
    and "\<not> isl (arg_value p v) \<Longrightarrow> arg_value p v = Inr a"
proof -
  obtain k where k: "pm_kind p = Field k" "k \<notin> {CInt, CULong, Bint}"
    using assms(1) by (cases "pm_kind p") (auto simp: is_number_def)
  show ?thesis
  proof (cases v)
    case None
    then obtain d where d: "pm_default p = Some d" using assms(3) by auto
    then have "arg_ok (Field k) d" using assms(2) k by (simp add: default_ok_def)
    then have "ArgTypeTest p d"
      using k value_argument [of k _ p] by (cases d) auto
    with None d show ?thesis by (intro that [of d]) (simp_all add: take_value_def arg_value_def)
  next
    case (Some x)
    have "take_value p v = Inr (CV (ObjV x))" using k Some by (cases k) (simp_all add: take_value_def)
    moreover have "ArgTypeTest p (CV (ObjV x)) \<longleftrightarrow> has_type k x"
      using k by (cases k) (auto simp: ArgTypeTest_def has_type_def)
    moreover have "arg_value p v = (if has_type k x then Inr (CV (ObjV x)) else Inl TypeError)"
      using k Some by (cases k) (simp_all add: arg_value_def)
    ultimately show ?thesis by (intro that [of "CV (ObjV x)"]) (simp_all split: if_splits)
  qed
qed

lemma args_follow_reference:
  assumes "list_all2 (\<lambda>p v. required p \<longrightarrow> v \<noteq> None) ps vs" and "list_all default_ok ps"
  shows "(case take_values ps vs of
      Inl e \<Rightarrow> Inl e
    | Inr as \<Rightarrow> (case test_types ps as of Inl e \<Rightarrow> Inl e | Inr _ \<Rightarrow> Inr as)) = reference_args ps vs"
  using assms
proof (induction ps vs rule: list_all2_induct)
  case (Cons p ps v vs)
  then have IH: "(case take_values ps vs of
      Inl e \<Rightarrow> Inl e
    | Inr as \<Rightarrow> (case test_types ps as of Inl e \<Rightarrow> Inl e | Inr _ \<Rightarrow> Inr as)) = reference_args ps vs"
    and p: "default_ok p" "required p \<longrightarrow> v \<noteq> None" by auto
  show ?case
  proof (cases "is_number p")
    case True
    show ?thesis
    proof (cases "arg_value p v")
      case (Inl e)
      with True number_taken(1) [OF True p] show ?thesis by (simp add: reference_args_def)
    next
      case (Inr a)
      with number_taken [OF True p] have "take_value p v = Inr a" "ArgTypeTest p a" by simp_all
      with Inr IH show ?thesis
        by (auto simp: reference_args_def map_sum_def split: sum.splits option.splits)
    qed
  next
    case False
    obtain a where a: "take_value p v = Inr a" "ArgTypeTest p a \<longleftrightarrow> \<not> isl (arg_value p v)"
      "\<not> isl (arg_value p v) \<Longrightarrow> arg_value p v = Inr a"
      using object_taken [OF False p] by metis
    show ?thesis
    proof (cases "isl (arg_value p v)")
      case True
      with a False IH show ?thesis
        by (auto simp: reference_args_def map_sum_def dest: take_values_error test_types_error split: sum.splits option.splits)
    next
      case False
      with a IH show ?thesis
        by (auto simp: reference_args_def map_sum_def split: sum.splits option.splits)
    qed
  qed
qed (simp add: reference_args_def)

text \<open>What the wrapper relies on: the names are different, required parameters come before optional ones, and the defaults have the right type.\<close>

locale entry_point =
  fixes ps :: "param list"
  assumes names: "distinct (map pm_name ps)"
    and optional_last: "sorted_wrt (\<lambda>p q. required q \<longrightarrow> required p) ps"
    and defaults: "list_all default_ok ps"
begin

lemma keyword_switch_spec:
  assumes "distinct (map fst kw)" and "distinct (map pm_name rest)" and "done \<inter> set (map pm_name rest) = {}"
  shows "keyword_switch all i rest kw (kw_left done kw) =
    (if list_ex (missing kw) rest then Inl (argtuple_error all (i + length (takeWhile (\<lambda>p. \<not> missing kw p) rest)))
     else Inr (map (\<lambda>p. GetKwValue kw (pm_name p)) rest, kw_left (done \<union> set (map pm_name rest)) kw))"
  using assms(2,3)
proof (induction rest arbitrary: i "done")
  case (Cons p rest)
  let ?done = "insert (pm_name p) done"
  have IH: "keyword_switch all (Suc i) rest kw (kw_left ?done kw) =
    (if list_ex (missing kw) rest then Inl (argtuple_error all (Suc i + length (takeWhile (\<lambda>p. \<not> missing kw p) rest)))
     else Inr (map (\<lambda>p. GetKwValue kw (pm_name p)) rest, kw_left (?done \<union> set (map pm_name rest)) kw))"
    by (rule Cons.IH) (use Cons.prems in auto)
  have p: "pm_name p \<notin> done" using Cons.prems by auto
  note left = kw_left_insert [OF assms(1) p]
  show ?case
  proof (cases "GetKwValue kw (pm_name p)")
    case None
    moreover from None have "missing kw p \<longleftrightarrow> required p" by (simp add: missing_def)
    ultimately show ?thesis using IH left by auto
  next
    case (Some v)
    moreover from Some have "\<not> missing kw p" by (simp add: missing_def)
    ultimately show ?thesis using IH left by auto
  qed
qed simp

lemma ParseOptionalKeywords_error:
  assumes "find (misplaced (drop n ps)) kw = Some (key, v)"
  shows "ParseOptionalKeywords (map pm_name ps) n values kw = Inl (keyword_error ps n key)"
  using assms
proof (induction kw arbitrary: "values")
  case (Cons a kw)
  obtain k x where a: "a = (k, x)" by fastforce
  show ?case
  proof (cases "misplaced (drop n ps) a")
    case True
    then have "name_index (drop n (map pm_name ps)) k = None" using a by (simp add: misplaced_def name_index_None drop_map)
    with True Cons.prems a show ?thesis by (auto simp: keyword_error_def take_map split: kwname.split)
  next
    case False
    then have "name_index (drop n (map pm_name ps)) k \<noteq> None" using a by (simp add: misplaced_def name_index_None drop_map)
    with False Cons a show ?thesis by auto
  qed
qed simp

lemma find_misplaced: "find (misplaced rest) kw = None \<longleftrightarrow> kw_left (set (map pm_name rest)) kw = 0"
  by (auto simp: find_None_iff misplaced_def kw_left_zero)

lemma unpack_with_keywords:
  assumes "distinct (map fst kw)"
  shows "unpack_values ps args (Some kw) = bind_reference ps args kw"
proof (cases "length args > length ps")
  case False
  let ?rest = "drop (length args) ps"
  have "distinct (map pm_name ?rest)" using names by (metis distinct_drop drop_map)
  note switch = keyword_switch_spec [OF assms this, of "{}" ps "length args"]
  have left: "kw_left {} kw = length kw" by (simp add: kw_left_def case_prod_unfold)
  show ?thesis
  proof (cases "find (misplaced ?rest) kw")
    case None
    moreover from None have "kw_left (set (map pm_name ?rest)) kw = 0" by (simp only: find_misplaced)
    ultimately show ?thesis using False switch left by (auto simp: unpack_values_def bind_reference_def Let_def)
  next
    case (Some kv)
    obtain key v where kv: "kv = (key, v)" by fastforce
    have "kw_left (set (map pm_name ?rest)) kw \<noteq> 0" using Some find_misplaced [of ?rest kw] by simp
    with False switch left Some kv ParseOptionalKeywords_error [of "length args" kw key v] show ?thesis
      by (auto simp: unpack_values_def bind_reference_def Let_def)
  qed
qed (simp add: unpack_values_def bind_reference_def)

lemma required_prefix: "n < num_required ps \<longleftrightarrow> n < length ps \<and> required (ps ! n)"
proof -
  have "num_required qs \<le> length qs \<and> (n < num_required qs \<longleftrightarrow> n < length qs \<and> required (qs ! n))"
    if "sorted_wrt (\<lambda>p q. required q \<longrightarrow> required p) qs" for qs :: "param list"
    using that
  proof (induction qs arbitrary: n)
    case (Cons q qs)
    show ?case
    proof (cases "required q")
      case True
      with Cons show ?thesis by (cases n) (auto simp: num_required_def)
    next
      case False
      then have "filter required qs = []" using Cons.prems by (auto simp: filter_empty_conv)
      with False Cons.prems show ?thesis by (cases n) (auto simp: num_required_def)
    qed
  qed (simp add: num_required_def)
  with optional_last show ?thesis by blast
qed

lemma unpack_without_keywords: "unpack_values ps args None = bind_reference ps args []"
proof (cases "length args > length ps")
  case False
  have missing: "missing [] p \<longleftrightarrow> required p" for p by (simp add: missing_def)
  show ?thesis
  proof (cases "num_required ps \<le> length args")
    case True
    have "\<not> required (ps ! i)" if "length args \<le> i" "i < length ps" for i
      using required_prefix [of i] True that by linarith
    then have "\<not> list_ex (missing []) (drop (length args) ps)"
      by (auto simp: list_ex_iff missing in_set_conv_nth)
    moreover have "map (\<lambda>p. GetKwValue [] (pm_name p)) (drop (length args) ps) = replicate (length ps - length args) None"
      by (simp add: map_replicate_const)
    ultimately show ?thesis using True False by (simp add: unpack_values_def bind_reference_def Let_def)
  next
    case too_few: False
    then have "length args < length ps" "required (ps ! length args)" using required_prefix [of "length args"] by auto
    then obtain p rest where "drop (length args) ps = p # rest" "required p" by (metis Cons_nth_drop_Suc)
    with too_few False show ?thesis by (simp add: unpack_values_def bind_reference_def Let_def missing)
  qed
qed (auto simp: unpack_values_def bind_reference_def)

lemma unpack_follows_rules:
  assumes "distinct (map fst (case kwds of None \<Rightarrow> [] | Some kw \<Rightarrow> kw))"
  shows "unpack_values ps args kwds = bind_reference ps args (case kwds of None \<Rightarrow> [] | Some kw \<Rightarrow> kw)"
  using assms by (cases kwds) (simp_all add: unpack_with_keywords unpack_without_keywords)

lemma reference_values:
  assumes "bind_reference ps args kw = Inr vs"
  shows "list_all2 (\<lambda>p v. required p \<longrightarrow> v \<noteq> None) ps vs"
proof -
  let ?n = "length args"
  from assms have n: "?n \<le> length ps" and ok: "\<not> list_ex (missing kw) (drop ?n ps)"
    and vs: "vs = map Some args @ map (\<lambda>p. GetKwValue kw (pm_name p)) (drop ?n ps)"
    by (auto simp: bind_reference_def Let_def split: if_splits option.splits)
  have "list_all2 (\<lambda>p v. required p \<longrightarrow> v \<noteq> None) (take ?n ps) (map Some args)"
    using n by (simp add: list_all2_conv_all_nth)
  moreover have "list_all2 (\<lambda>p v. required p \<longrightarrow> v \<noteq> None) (drop ?n ps) (map (\<lambda>p. GetKwValue kw (pm_name p)) (drop ?n ps))"
    using ok by (auto simp: list_all2_map2 list_ex_iff missing_def intro!: list.rel_refl_strong)
  ultimately show ?thesis using vs list_all2_appendI by fastforce
qed

lemma call_follows_rules:
  assumes "distinct (map fst (case kwds of None \<Rightarrow> [] | Some kw \<Rightarrow> kw))"
  shows "call_named ps args kwds =
    (case bind_reference ps args (case kwds of None \<Rightarrow> [] | Some kw \<Rightarrow> kw) of Inl e \<Rightarrow> Inl e | Inr vs \<Rightarrow> reference_args ps vs)"
  using args_follow_reference [OF reference_values defaults]
  by (auto simp: call_named_def unpack_follows_rules [OF assms] split: sum.split)

lemma take_value_ok:
  assumes "default_ok p" and "required p \<longrightarrow> v \<noteq> None" and "take_value p v = Inr a" and "ArgTypeTest p a"
  shows "arg_ok (pm_kind p) a"
proof (cases v)
  case None
  with assms show ?thesis by (auto simp: take_value_def default_ok_def split: option.splits)
next
  case (Some x)
  with assms have c: "convert_number (pm_kind p) x = Inr a" by (simp add: take_value_def)
  have num: "arg_ok (Field k) a" if "map_sum ConversionError CV (from_py k x) = Inr a" for k
    using that from_py_ok [of k x] by (cases "from_py k x") auto
  show ?thesis
  proof (cases "(pm_kind p, x)" rule: convert_number.cases)
    case (1 v)
    then show ?thesis using c by (cases "int_as_clong (projr (as_int v))") (auto split: sum.splits simp: map_sum_def)
  qed (use c num assms(4) in \<open>auto simp: ArgTypeTest_def has_type_def simp del: from_py.simps\<close>)
qed

lemma call_typed:
  assumes "distinct (map fst (case kwds of None \<Rightarrow> [] | Some kw \<Rightarrow> kw))" and "call_named ps args kwds = Inr as"
  shows "list_all2 (\<lambda>p a. arg_ok (pm_kind p) a) ps as"
proof -
  from assms obtain vs where vs: "bind_reference ps args (case kwds of None \<Rightarrow> [] | Some kw \<Rightarrow> kw) = Inr vs" "take_values ps vs = Inr as"
    "test_types ps as = Inr ()"
    by (auto simp: call_named_def unpack_follows_rules split: sum.splits)
  have "list_all2 (\<lambda>p a. arg_ok (pm_kind p) a) qs as"
    if "list_all2 (\<lambda>p v. required p \<longrightarrow> v \<noteq> None) qs vs" "list_all default_ok qs" "take_values qs vs = Inr as" "test_types qs as = Inr ()" for qs as
    using that
  proof (induction qs vs arbitrary: as rule: list_all2_induct)
    case (Cons q qs v vs)
    from Cons.prems obtain a as' where "take_value q v = Inr a" "take_values qs vs = Inr as'" "as = a # as'"
      by (auto split: sum.splits simp: map_sum_def)
    moreover from this Cons.prems have "ArgTypeTest q a" "test_types qs as' = Inr ()" by (auto split: if_splits)
    ultimately show ?case using Cons take_value_ok by auto
  qed simp
  with reference_values [OF vs(1)] defaults vs show ?thesis by blast
qed

end

end
