(* ===== verification/CyCallTables.thy ===== *)
theory CyCallTables
  imports CyCall
begin

text \<open>
  The signatures of the functions that Python can call in the three compiled modules, as their wrappers take the arguments apart: the names and C types of
  the parameters, the defaults, and how keywords arrive. Every one of them satisfies what the wrapper relies on.
\<close>

section \<open>\<^verbatim>\<open>pydevd_cython.c\<close>\<close>

definition cy_PyDBAdditionalThreadInfo_init_sig :: signature where
  "cy_PyDBAdditionalThreadInfo_init_sig = \<lparr> sg_name = ''__init__'', sg_fastcall = False, sg_shape =
     Params [] \<rparr>"

definition cy_PyDBAdditionalThreadInfo_get_related_thread_sig :: signature where
  "cy_PyDBAdditionalThreadInfo_get_related_thread_sig = \<lparr> sg_name = ''_get_related_thread'', sg_fastcall = True, sg_shape =
     Params [] \<rparr>"

definition cy_PyDBAdditionalThreadInfo_is_stepping_sig :: signature where
  "cy_PyDBAdditionalThreadInfo_is_stepping_sig = \<lparr> sg_name = ''_is_stepping'', sg_fastcall = True, sg_shape =
     Params [] \<rparr>"

definition cy_PyDBAdditionalThreadInfo_get_topmost_frame_sig :: signature where
  "cy_PyDBAdditionalThreadInfo_get_topmost_frame_sig = \<lparr> sg_name = ''get_topmost_frame'', sg_fastcall = True, sg_shape =
     Params [arg ''thread'' AnyObject] \<rparr>"

definition cy_PyDBAdditionalThreadInfo_update_stepping_info_sig :: signature where
  "cy_PyDBAdditionalThreadInfo_update_stepping_info_sig = \<lparr> sg_name = ''update_stepping_info'', sg_fastcall = True, sg_shape =
     Params [] \<rparr>"

definition cy_PyDBAdditionalThreadInfo_reduce_cython_sig :: signature where
  "cy_PyDBAdditionalThreadInfo_reduce_cython_sig = \<lparr> sg_name = ''__reduce_cython__'', sg_fastcall = True, sg_shape =
     Params [] \<rparr>"

definition cy_PyDBAdditionalThreadInfo_setstate_cython_sig :: signature where
  "cy_PyDBAdditionalThreadInfo_setstate_cython_sig = \<lparr> sg_name = ''__setstate_cython__'', sg_fastcall = True, sg_shape =
     Params [arg ''__pyx_state'' AnyObject] \<rparr>"

definition cy_set_additional_thread_info_sig :: signature where
  "cy_set_additional_thread_info_sig = \<lparr> sg_name = ''set_additional_thread_info'', sg_fastcall = True, sg_shape =
     Params [arg ''thread'' AnyObject] \<rparr>"

definition cy_add_additional_info_sig :: signature where
  "cy_add_additional_info_sig = \<lparr> sg_name = ''add_additional_info'', sg_fastcall = True, sg_shape =
     Params [arg ''info'' (Instance ''PyDBAdditionalThreadInfo'')] \<rparr>"

definition cy_remove_additional_info_sig :: signature where
  "cy_remove_additional_info_sig = \<lparr> sg_name = ''remove_additional_info'', sg_fastcall = True, sg_shape =
     Params [arg ''info'' (Instance ''PyDBAdditionalThreadInfo'')] \<rparr>"

definition cy_get_smart_step_into_variant_from_frame_offset_sig :: signature where
  "cy_get_smart_step_into_variant_from_frame_offset_sig = \<lparr> sg_name = ''get_smart_step_into_variant_from_frame_offset'', sg_fastcall = False, sg_shape =
     StarArgs True False \<rparr>"

definition cy_is_unhandled_exception_sig :: signature where
  "cy_is_unhandled_exception_sig = \<lparr> sg_name = ''is_unhandled_exception'', sg_fastcall = True, sg_shape =
     Params [arg ''container_obj'' AnyObject, arg ''py_db'' AnyObject, arg ''frame'' AnyObject, arg ''last_raise_line'' CInt,
            arg ''raise_lines'' (Exactly ''set'')] \<rparr>"

definition cy_TryExceptContainerObj_init_sig :: signature where
  "cy_TryExceptContainerObj_init_sig = \<lparr> sg_name = ''__init__'', sg_fastcall = False, sg_shape =
     Params [] \<rparr>"

definition cy_TryExceptContainerObj_reduce_cython_sig :: signature where
  "cy_TryExceptContainerObj_reduce_cython_sig = \<lparr> sg_name = ''__reduce_cython__'', sg_fastcall = True, sg_shape =
     Params [] \<rparr>"

definition cy_TryExceptContainerObj_setstate_cython_sig :: signature where
  "cy_TryExceptContainerObj_setstate_cython_sig = \<lparr> sg_name = ''__setstate_cython__'', sg_fastcall = True, sg_shape =
     Params [arg ''__pyx_state'' AnyObject] \<rparr>"

definition cy_PyDBFrame_init_sig :: signature where
  "cy_PyDBFrame_init_sig = \<lparr> sg_name = ''__init__'', sg_fastcall = False, sg_shape =
     Params [arg ''args'' (Exactly ''tuple'')] \<rparr>"

definition cy_PyDBFrame_set_suspend_sig :: signature where
  "cy_PyDBFrame_set_suspend_sig = \<lparr> sg_name = ''set_suspend'', sg_fastcall = False, sg_shape =
     StarArgs True True \<rparr>"

definition cy_PyDBFrame_do_wait_suspend_sig :: signature where
  "cy_PyDBFrame_do_wait_suspend_sig = \<lparr> sg_name = ''do_wait_suspend'', sg_fastcall = False, sg_shape =
     StarArgs True True \<rparr>"

definition cy_PyDBFrame_trace_exception_sig :: signature where
  "cy_PyDBFrame_trace_exception_sig = \<lparr> sg_name = ''trace_exception'', sg_fastcall = True, sg_shape =
     Params [arg ''frame'' AnyObject, arg ''event'' (Exactly ''str''), arg ''arg'' AnyObject] \<rparr>"

definition cy_PyDBFrame_handle_user_exception_sig :: signature where
  "cy_PyDBFrame_handle_user_exception_sig = \<lparr> sg_name = ''handle_user_exception'', sg_fastcall = True, sg_shape =
     Params [arg ''frame'' AnyObject] \<rparr>"

definition cy_PyDBFrame_trace_dispatch_sig :: signature where
  "cy_PyDBFrame_trace_dispatch_sig = \<lparr> sg_name = ''trace_dispatch'', sg_fastcall = True, sg_shape =
     Params [arg ''frame'' AnyObject, arg ''event'' (Exactly ''str''), arg ''arg'' AnyObject] \<rparr>"

definition cy_PyDBFrame_reduce_cython_sig :: signature where
  "cy_PyDBFrame_reduce_cython_sig = \<lparr> sg_name = ''__reduce_cython__'', sg_fastcall = True, sg_shape =
     Params [] \<rparr>"

definition cy_PyDBFrame_setstate_cython_sig :: signature where
  "cy_PyDBFrame_setstate_cython_sig = \<lparr> sg_name = ''__setstate_cython__'', sg_fastcall = True, sg_shape =
     Params [arg ''__pyx_state'' AnyObject] \<rparr>"

definition cy_should_stop_on_exception_sig :: signature where
  "cy_should_stop_on_exception_sig = \<lparr> sg_name = ''should_stop_on_exception'', sg_fastcall = True, sg_shape =
     Params [arg ''py_db'' AnyObject, arg ''info'' (Instance ''PyDBAdditionalThreadInfo''), arg ''frame'' AnyObject,
            arg ''thread'' AnyObject, arg ''arg'' AnyObject, arg ''prev_user_uncaught_exc_info'' AnyObject,
            opt_arg ''is_unwind'' AnyObject (ObjV (PBool False))] \<rparr>"

definition cy_handle_exception_sig :: signature where
  "cy_handle_exception_sig = \<lparr> sg_name = ''handle_exception'', sg_fastcall = True, sg_shape =
     Params [arg ''py_db'' AnyObject, arg ''thread'' AnyObject, arg ''frame'' AnyObject, arg ''arg'' AnyObject,
            arg ''exception_type'' (Exactly ''str'')] \<rparr>"

definition cy_notify_skipped_step_in_because_of_filters_sig :: signature where
  "cy_notify_skipped_step_in_because_of_filters_sig = \<lparr> sg_name = ''notify_skipped_step_in_because_of_filters'', sg_fastcall = True, sg_shape =
     Params [arg ''py_db'' AnyObject, arg ''frame'' AnyObject] \<rparr>"

definition cy_SafeCallWrapper_init_sig :: signature where
  "cy_SafeCallWrapper_init_sig = \<lparr> sg_name = ''__init__'', sg_fastcall = False, sg_shape =
     Params [arg ''method_object'' AnyObject] \<rparr>"

definition cy_SafeCallWrapper_call_sig :: signature where
  "cy_SafeCallWrapper_call_sig = \<lparr> sg_name = ''__call__'', sg_fastcall = False, sg_shape =
     StarArgs False False \<rparr>"

definition cy_SafeCallWrapper_get_method_object_sig :: signature where
  "cy_SafeCallWrapper_get_method_object_sig = \<lparr> sg_name = ''get_method_object'', sg_fastcall = True, sg_shape =
     Params [] \<rparr>"

definition cy_SafeCallWrapper_reduce_cython_sig :: signature where
  "cy_SafeCallWrapper_reduce_cython_sig = \<lparr> sg_name = ''__reduce_cython__'', sg_fastcall = True, sg_shape =
     Params [] \<rparr>"

definition cy_SafeCallWrapper_setstate_cython_sig :: signature where
  "cy_SafeCallWrapper_setstate_cython_sig = \<lparr> sg_name = ''__setstate_cython__'', sg_fastcall = True, sg_shape =
     Params [arg ''__pyx_state'' AnyObject] \<rparr>"

definition cy_fix_top_level_trace_and_get_trace_func_sig :: signature where
  "cy_fix_top_level_trace_and_get_trace_func_sig = \<lparr> sg_name = ''fix_top_level_trace_and_get_trace_func'', sg_fastcall = True, sg_shape =
     Params [arg ''py_db'' AnyObject, arg ''frame'' AnyObject] \<rparr>"

definition cy_trace_dispatch_sig :: signature where
  "cy_trace_dispatch_sig = \<lparr> sg_name = ''trace_dispatch'', sg_fastcall = True, sg_shape =
     Params [arg ''py_db'' AnyObject, arg ''frame'' AnyObject, arg ''event'' AnyObject, arg ''arg'' AnyObject] \<rparr>"

definition cy_TopLevelThreadTracerOnlyUnhandledExceptions_init_sig :: signature where
  "cy_TopLevelThreadTracerOnlyUnhandledExceptions_init_sig = \<lparr> sg_name = ''__init__'', sg_fastcall = False, sg_shape =
     Params [arg ''args'' (Exactly ''tuple'')] \<rparr>"

definition cy_TopLevelThreadTracerOnlyUnhandledExceptions_trace_unhandled_exceptions_sig :: signature where
  "cy_TopLevelThreadTracerOnlyUnhandledExceptions_trace_unhandled_exceptions_sig = \<lparr> sg_name = ''trace_unhandled_exceptions'', sg_fastcall = True, sg_shape =
     Params [arg ''frame'' AnyObject, arg ''event'' AnyObject, arg ''arg'' AnyObject] \<rparr>"

definition cy_TopLevelThreadTracerOnlyUnhandledExceptions_get_trace_dispatch_func_sig :: signature where
  "cy_TopLevelThreadTracerOnlyUnhandledExceptions_get_trace_dispatch_func_sig = \<lparr> sg_name = ''get_trace_dispatch_func'', sg_fastcall = True, sg_shape =
     Params [] \<rparr>"

definition cy_TopLevelThreadTracerOnlyUnhandledExceptions_reduce_cython_sig :: signature where
  "cy_TopLevelThreadTracerOnlyUnhandledExceptions_reduce_cython_sig = \<lparr> sg_name = ''__reduce_cython__'', sg_fastcall = True, sg_shape =
     Params [] \<rparr>"

definition cy_TopLevelThreadTracerOnlyUnhandledExceptions_setstate_cython_sig :: signature where
  "cy_TopLevelThreadTracerOnlyUnhandledExceptions_setstate_cython_sig = \<lparr> sg_name = ''__setstate_cython__'', sg_fastcall = True, sg_shape =
     Params [arg ''__pyx_state'' AnyObject] \<rparr>"

definition cy_TopLevelThreadTracerNoBackFrame_init_sig :: signature where
  "cy_TopLevelThreadTracerNoBackFrame_init_sig = \<lparr> sg_name = ''__init__'', sg_fastcall = False, sg_shape =
     Params [arg ''frame_trace_dispatch'' AnyObject, arg ''args'' (Exactly ''tuple'')] \<rparr>"

definition cy_TopLevelThreadTracerNoBackFrame_trace_dispatch_and_unhandled_exceptions_sig :: signature where
  "cy_TopLevelThreadTracerNoBackFrame_trace_dispatch_and_unhandled_exceptions_sig = \<lparr> sg_name = ''trace_dispatch_and_unhandled_exceptions'', sg_fastcall = True, sg_shape =
     Params [arg ''frame'' AnyObject, arg ''event'' AnyObject, arg ''arg'' AnyObject] \<rparr>"

definition cy_TopLevelThreadTracerNoBackFrame_get_trace_dispatch_func_sig :: signature where
  "cy_TopLevelThreadTracerNoBackFrame_get_trace_dispatch_func_sig = \<lparr> sg_name = ''get_trace_dispatch_func'', sg_fastcall = True, sg_shape =
     Params [] \<rparr>"

definition cy_TopLevelThreadTracerNoBackFrame_reduce_cython_sig :: signature where
  "cy_TopLevelThreadTracerNoBackFrame_reduce_cython_sig = \<lparr> sg_name = ''__reduce_cython__'', sg_fastcall = True, sg_shape =
     Params [] \<rparr>"

definition cy_TopLevelThreadTracerNoBackFrame_setstate_cython_sig :: signature where
  "cy_TopLevelThreadTracerNoBackFrame_setstate_cython_sig = \<lparr> sg_name = ''__setstate_cython__'', sg_fastcall = True, sg_shape =
     Params [arg ''__pyx_state'' AnyObject] \<rparr>"

definition cy_ThreadTracer_init_sig :: signature where
  "cy_ThreadTracer_init_sig = \<lparr> sg_name = ''__init__'', sg_fastcall = False, sg_shape =
     Params [arg ''args'' (Exactly ''tuple'')] \<rparr>"

definition cy_ThreadTracer_call_sig :: signature where
  "cy_ThreadTracer_call_sig = \<lparr> sg_name = ''__call__'', sg_fastcall = False, sg_shape =
     Params [arg ''frame'' AnyObject, arg ''event'' AnyObject, arg ''arg'' AnyObject] \<rparr>"

definition cy_ThreadTracer_reduce_cython_sig :: signature where
  "cy_ThreadTracer_reduce_cython_sig = \<lparr> sg_name = ''__reduce_cython__'', sg_fastcall = True, sg_shape =
     Params [] \<rparr>"

definition cy_ThreadTracer_setstate_cython_sig :: signature where
  "cy_ThreadTracer_setstate_cython_sig = \<lparr> sg_name = ''__setstate_cython__'', sg_fastcall = True, sg_shape =
     Params [arg ''__pyx_state'' AnyObject] \<rparr>"

definition cy_call_sig :: signature where
  "cy_call_sig = \<lparr> sg_name = ''__call__'', sg_fastcall = True, sg_shape =
     Params [arg ''self'' AnyObject, arg ''frame'' AnyObject, arg ''event'' AnyObject, arg ''arg'' AnyObject] \<rparr>"

definition cy_fix_top_level_trace_and_get_trace_func2_sig :: signature where
  "cy_fix_top_level_trace_and_get_trace_func2_sig = \<lparr> sg_name = ''fix_top_level_trace_and_get_trace_func'', sg_fastcall = False, sg_shape =
     StarArgs True False \<rparr>"

definition cy_pyx_unpickle_PyDBAdditionalThreadInfo_sig :: signature where
  "cy_pyx_unpickle_PyDBAdditionalThreadInfo_sig = \<lparr> sg_name = ''__pyx_unpickle_PyDBAdditionalThreadInfo'', sg_fastcall = True, sg_shape =
     Params [arg ''__pyx_type'' AnyObject, long_arg ''__pyx_checksum'', arg ''__pyx_state'' AnyObject] \<rparr>"

definition cy_pyx_unpickle_TryExceptContainerObj_sig :: signature where
  "cy_pyx_unpickle_TryExceptContainerObj_sig = \<lparr> sg_name = ''__pyx_unpickle__TryExceptContainerObj'', sg_fastcall = True, sg_shape =
     Params [arg ''__pyx_type'' AnyObject, long_arg ''__pyx_checksum'', arg ''__pyx_state'' AnyObject] \<rparr>"

definition cy_pyx_unpickle_PyDBFrame_sig :: signature where
  "cy_pyx_unpickle_PyDBFrame_sig = \<lparr> sg_name = ''__pyx_unpickle_PyDBFrame'', sg_fastcall = True, sg_shape =
     Params [arg ''__pyx_type'' AnyObject, long_arg ''__pyx_checksum'', arg ''__pyx_state'' AnyObject] \<rparr>"

definition cy_pyx_unpickle_SafeCallWrapper_sig :: signature where
  "cy_pyx_unpickle_SafeCallWrapper_sig = \<lparr> sg_name = ''__pyx_unpickle_SafeCallWrapper'', sg_fastcall = True, sg_shape =
     Params [arg ''__pyx_type'' AnyObject, long_arg ''__pyx_checksum'', arg ''__pyx_state'' AnyObject] \<rparr>"

definition cy_pyx_unpickle_TopLevelThreadTracerOnlyUnhandledExceptions_sig :: signature where
  "cy_pyx_unpickle_TopLevelThreadTracerOnlyUnhandledExceptions_sig = \<lparr> sg_name = ''__pyx_unpickle_TopLevelThreadTracerOnlyUnhandledExceptions'', sg_fastcall = True, sg_shape =
     Params [arg ''__pyx_type'' AnyObject, long_arg ''__pyx_checksum'', arg ''__pyx_state'' AnyObject] \<rparr>"

definition cy_pyx_unpickle_TopLevelThreadTracerNoBackFrame_sig :: signature where
  "cy_pyx_unpickle_TopLevelThreadTracerNoBackFrame_sig = \<lparr> sg_name = ''__pyx_unpickle_TopLevelThreadTracerNoBackFrame'', sg_fastcall = True, sg_shape =
     Params [arg ''__pyx_type'' AnyObject, long_arg ''__pyx_checksum'', arg ''__pyx_state'' AnyObject] \<rparr>"

definition cy_pyx_unpickle_ThreadTracer_sig :: signature where
  "cy_pyx_unpickle_ThreadTracer_sig = \<lparr> sg_name = ''__pyx_unpickle_ThreadTracer'', sg_fastcall = True, sg_shape =
     Params [arg ''__pyx_type'' AnyObject, long_arg ''__pyx_checksum'', arg ''__pyx_state'' AnyObject] \<rparr>"

section \<open>\<^verbatim>\<open>_pydevd_sys_monitoring_cython.c\<close>\<close>

definition mon_wrap_exc_sig :: signature where
  "mon_wrap_exc_sig = \<lparr> sg_name = ''wrap'', sg_fastcall = True, sg_shape =
     Params [arg ''code'' AnyObject, arg ''instruction'' AnyObject, arg ''exc'' AnyObject] \<rparr>"

definition mon_wrap_instruction_offset_sig :: signature where
  "mon_wrap_instruction_offset_sig = \<lparr> sg_name = ''wrap'', sg_fastcall = True, sg_shape =
     Params [arg ''code'' AnyObject, arg ''instruction_offset'' AnyObject] \<rparr>"

definition mon_wrap_line_sig :: signature where
  "mon_wrap_line_sig = \<lparr> sg_name = ''wrap'', sg_fastcall = True, sg_shape =
     Params [arg ''code'' AnyObject, arg ''line'' CInt] \<rparr>"

definition mon_wrap_to_offset_sig :: signature where
  "mon_wrap_to_offset_sig = \<lparr> sg_name = ''wrap'', sg_fastcall = True, sg_shape =
     Params [arg ''code'' AnyObject, arg ''from_offset'' CInt, arg ''to_offset'' CInt] \<rparr>"

definition mon_wrap_retval_sig :: signature where
  "mon_wrap_retval_sig = \<lparr> sg_name = ''wrap'', sg_fastcall = True, sg_shape =
     Params [arg ''code'' AnyObject, arg ''instruction'' AnyObject, arg ''retval'' AnyObject] \<rparr>"

definition mon_get_smart_step_into_variant_from_frame_offset_sig :: signature where
  "mon_get_smart_step_into_variant_from_frame_offset_sig = \<lparr> sg_name = ''get_smart_step_into_variant_from_frame_offset'', sg_fastcall = False, sg_shape =
     StarArgs True False \<rparr>"

definition mon_ThreadInfo_init_sig :: signature where
  "mon_ThreadInfo_init_sig = \<lparr> sg_name = ''__init__'', sg_fastcall = False, sg_shape =
     Params [arg ''thread'' AnyObject, arg ''thread_ident'' CULong, arg ''trace'' Bint,
            arg ''additional_info'' (Instance ''PyDBAdditionalThreadInfo'')] \<rparr>"

definition mon_ThreadInfo_reduce_cython_sig :: signature where
  "mon_ThreadInfo_reduce_cython_sig = \<lparr> sg_name = ''__reduce_cython__'', sg_fastcall = True, sg_shape =
     Params [] \<rparr>"

definition mon_ThreadInfo_setstate_cython_sig :: signature where
  "mon_ThreadInfo_setstate_cython_sig = \<lparr> sg_name = ''__setstate_cython__'', sg_fastcall = True, sg_shape =
     Params [arg ''__pyx_state'' AnyObject] \<rparr>"

definition mon_DeleteDummyThreadOnDel_init_sig :: signature where
  "mon_DeleteDummyThreadOnDel_init_sig = \<lparr> sg_name = ''__init__'', sg_fastcall = True, sg_shape =
     Params [arg ''self'' AnyObject, arg ''dummy_thread'' AnyObject] \<rparr>"

definition mon_FuncCodeInfo_init_sig :: signature where
  "mon_FuncCodeInfo_init_sig = \<lparr> sg_name = ''__init__'', sg_fastcall = False, sg_shape =
     Params [] \<rparr>"

definition mon_FuncCodeInfo_get_line_of_offset_sig :: signature where
  "mon_FuncCodeInfo_get_line_of_offset_sig = \<lparr> sg_name = ''get_line_of_offset'', sg_fastcall = True, sg_shape =
     Params [arg ''offset'' AnyObject] \<rparr>"

definition mon_FuncCodeInfo_reduce_cython_sig :: signature where
  "mon_FuncCodeInfo_reduce_cython_sig = \<lparr> sg_name = ''__reduce_cython__'', sg_fastcall = True, sg_shape =
     Params [] \<rparr>"

definition mon_FuncCodeInfo_setstate_cython_sig :: signature where
  "mon_FuncCodeInfo_setstate_cython_sig = \<lparr> sg_name = ''__setstate_cython__'', sg_fastcall = True, sg_shape =
     Params [arg ''__pyx_state'' AnyObject] \<rparr>"

definition mon_CodeLineInfo_init_sig :: signature where
  "mon_CodeLineInfo_init_sig = \<lparr> sg_name = ''__init__'', sg_fastcall = False, sg_shape =
     Params [arg ''line_to_offset'' (Exactly ''dict''), arg ''first_line'' CInt, arg ''last_line'' CInt] \<rparr>"

definition mon_CodeLineInfo_reduce_cython_sig :: signature where
  "mon_CodeLineInfo_reduce_cython_sig = \<lparr> sg_name = ''__reduce_cython__'', sg_fastcall = True, sg_shape =
     Params [] \<rparr>"

definition mon_CodeLineInfo_setstate_cython_sig :: signature where
  "mon_CodeLineInfo_setstate_cython_sig = \<lparr> sg_name = ''__setstate_cython__'', sg_fastcall = True, sg_shape =
     Params [arg ''__pyx_state'' AnyObject] \<rparr>"

definition mon_get_func_code_info_sig :: signature where
  "mon_get_func_code_info_sig = \<lparr> sg_name = ''_get_func_code_info'', sg_fastcall = True, sg_shape =
     Params [arg ''code_obj'' AnyObject, arg ''frame_or_depth'' AnyObject] \<rparr>"

definition mon_disable_code_tracing_sig :: signature where
  "mon_disable_code_tracing_sig = \<lparr> sg_name = ''disable_code_tracing'', sg_fastcall = True, sg_shape =
     Params [arg ''code'' AnyObject] \<rparr>"

definition mon_enable_code_tracing_sig :: signature where
  "mon_enable_code_tracing_sig = \<lparr> sg_name = ''enable_code_tracing'', sg_fastcall = True, sg_shape =
     Params [arg ''thread_ident'' CULong, arg ''code'' AnyObject, arg ''frame'' AnyObject] \<rparr>"

definition mon_TryExceptContainerObj_init_sig :: signature where
  "mon_TryExceptContainerObj_init_sig = \<lparr> sg_name = ''__init__'', sg_fastcall = False, sg_shape =
     Params [arg ''try_except_infos'' (Exactly ''list'')] \<rparr>"

definition mon_TryExceptContainerObj_reduce_cython_sig :: signature where
  "mon_TryExceptContainerObj_reduce_cython_sig = \<lparr> sg_name = ''__reduce_cython__'', sg_fastcall = True, sg_shape =
     Params [] \<rparr>"

definition mon_TryExceptContainerObj_setstate_cython_sig :: signature where
  "mon_TryExceptContainerObj_setstate_cython_sig = \<lparr> sg_name = ''__setstate_cython__'', sg_fastcall = True, sg_shape =
     Params [arg ''__pyx_state'' AnyObject] \<rparr>"

definition mon_start_monitoring_sig :: signature where
  "mon_start_monitoring_sig = \<lparr> sg_name = ''start_monitoring'', sg_fastcall = True, sg_shape =
     Params [opt_arg ''all_threads'' Bint (IntV 0)] \<rparr>"

definition mon_stop_monitoring_sig :: signature where
  "mon_stop_monitoring_sig = \<lparr> sg_name = ''stop_monitoring'', sg_fastcall = True, sg_shape =
     Params [opt_arg ''all_threads'' AnyObject (ObjV (PBool False))] \<rparr>"

definition mon_update_monitor_events_sig :: signature where
  "mon_update_monitor_events_sig = \<lparr> sg_name = ''update_monitor_events'', sg_fastcall = True, sg_shape =
     Params [opt_arg ''suspend_requested'' AnyObject (ObjV PNone)] \<rparr>"

definition mon_do_wait_suspend_sig :: signature where
  "mon_do_wait_suspend_sig = \<lparr> sg_name = ''_do_wait_suspend'', sg_fastcall = True, sg_shape =
     Params [arg ''py_db'' AnyObject, arg ''thread_info'' (Instance ''ThreadInfo''), arg ''frame'' AnyObject,
            arg ''event'' AnyObject, arg ''arg'' AnyObject] \<rparr>"

definition mon_pyx_unpickle_ThreadInfo_sig :: signature where
  "mon_pyx_unpickle_ThreadInfo_sig = \<lparr> sg_name = ''__pyx_unpickle_ThreadInfo'', sg_fastcall = True, sg_shape =
     Params [arg ''__pyx_type'' AnyObject, long_arg ''__pyx_checksum'', arg ''__pyx_state'' AnyObject] \<rparr>"

definition mon_pyx_unpickle_FuncCodeInfo_sig :: signature where
  "mon_pyx_unpickle_FuncCodeInfo_sig = \<lparr> sg_name = ''__pyx_unpickle_FuncCodeInfo'', sg_fastcall = True, sg_shape =
     Params [arg ''__pyx_type'' AnyObject, long_arg ''__pyx_checksum'', arg ''__pyx_state'' AnyObject] \<rparr>"

definition mon_pyx_unpickle_CodeLineInfo_sig :: signature where
  "mon_pyx_unpickle_CodeLineInfo_sig = \<lparr> sg_name = ''__pyx_unpickle__CodeLineInfo'', sg_fastcall = True, sg_shape =
     Params [arg ''__pyx_type'' AnyObject, long_arg ''__pyx_checksum'', arg ''__pyx_state'' AnyObject] \<rparr>"

definition mon_pyx_unpickle_TryExceptContainerObj_sig :: signature where
  "mon_pyx_unpickle_TryExceptContainerObj_sig = \<lparr> sg_name = ''__pyx_unpickle__TryExceptContainerObj'', sg_fastcall = True, sg_shape =
     Params [arg ''__pyx_type'' AnyObject, long_arg ''__pyx_checksum'', arg ''__pyx_state'' AnyObject] \<rparr>"

section \<open>\<^verbatim>\<open>pydevd_frame_evaluator.c\<close>\<close>

definition fe_ThreadInfo_reduce_cython_sig :: signature where
  "fe_ThreadInfo_reduce_cython_sig = \<lparr> sg_name = ''__reduce_cython__'', sg_fastcall = True, sg_shape =
     Params [] \<rparr>"

definition fe_ThreadInfo_setstate_cython_sig :: signature where
  "fe_ThreadInfo_setstate_cython_sig = \<lparr> sg_name = ''__setstate_cython__'', sg_fastcall = True, sg_shape =
     Params [arg ''__pyx_state'' AnyObject] \<rparr>"

definition fe_FuncCodeInfo_init_sig :: signature where
  "fe_FuncCodeInfo_init_sig = \<lparr> sg_name = ''__init__'', sg_fastcall = False, sg_shape =
     Params [] \<rparr>"

definition fe_FuncCodeInfo_reduce_cython_sig :: signature where
  "fe_FuncCodeInfo_reduce_cython_sig = \<lparr> sg_name = ''__reduce_cython__'', sg_fastcall = True, sg_shape =
     Params [] \<rparr>"

definition fe_FuncCodeInfo_setstate_cython_sig :: signature where
  "fe_FuncCodeInfo_setstate_cython_sig = \<lparr> sg_name = ''__setstate_cython__'', sg_fastcall = True, sg_shape =
     Params [arg ''__pyx_state'' AnyObject] \<rparr>"

definition fe_dummy_trace_dispatch_sig :: signature where
  "fe_dummy_trace_dispatch_sig = \<lparr> sg_name = ''dummy_trace_dispatch'', sg_fastcall = True, sg_shape =
     Params [arg ''frame'' AnyObject, arg ''event'' (Exactly ''str''), arg ''arg'' AnyObject] \<rparr>"

definition fe_decref_py_sig :: signature where
  "fe_decref_py_sig = \<lparr> sg_name = ''decref_py'', sg_fastcall = True, sg_shape =
     Params [arg ''obj'' AnyObject] \<rparr>"

definition fe_CodeLineInfo_init_sig :: signature where
  "fe_CodeLineInfo_init_sig = \<lparr> sg_name = ''__init__'', sg_fastcall = False, sg_shape =
     Params [arg ''line_to_offset'' (Exactly ''dict''), arg ''first_line'' CInt, arg ''last_line'' CInt] \<rparr>"

definition fe_CodeLineInfo_reduce_cython_sig :: signature where
  "fe_CodeLineInfo_reduce_cython_sig = \<lparr> sg_name = ''__reduce_cython__'', sg_fastcall = True, sg_shape =
     Params [] \<rparr>"

definition fe_CodeLineInfo_setstate_cython_sig :: signature where
  "fe_CodeLineInfo_setstate_cython_sig = \<lparr> sg_name = ''__setstate_cython__'', sg_fastcall = True, sg_shape =
     Params [arg ''__pyx_state'' AnyObject] \<rparr>"

definition fe_get_code_line_info_sig :: signature where
  "fe_get_code_line_info_sig = \<lparr> sg_name = ''_get_code_line_info'', sg_fastcall = True, sg_shape =
     Params [arg ''code_obj'' AnyObject] \<rparr>"

definition fe_get_cached_code_obj_info_py_sig :: signature where
  "fe_get_cached_code_obj_info_py_sig = \<lparr> sg_name = ''get_cached_code_obj_info_py'', sg_fastcall = True, sg_shape =
     Params [arg ''code_obj_py'' AnyObject] \<rparr>"

definition fe_CacheValue_init_sig :: signature where
  "fe_CacheValue_init_sig = \<lparr> sg_name = ''__init__'', sg_fastcall = False, sg_shape =
     Params [arg ''code_obj_py'' AnyObject, arg ''code_line_info'' (Instance ''_CodeLineInfo''),
            arg ''breakpoints_hit_at_lines'' (Exactly ''set'')] \<rparr>"

definition fe_CacheValue_compute_force_stay_in_untraced_mode_sig :: signature where
  "fe_CacheValue_compute_force_stay_in_untraced_mode_sig = \<lparr> sg_name = ''compute_force_stay_in_untraced_mode'', sg_fastcall = True, sg_shape =
     Params [arg ''breakpoints'' AnyObject] \<rparr>"

definition fe_CacheValue_reduce_cython_sig :: signature where
  "fe_CacheValue_reduce_cython_sig = \<lparr> sg_name = ''__reduce_cython__'', sg_fastcall = True, sg_shape =
     Params [] \<rparr>"

definition fe_CacheValue_setstate_cython_sig :: signature where
  "fe_CacheValue_setstate_cython_sig = \<lparr> sg_name = ''__setstate_cython__'', sg_fastcall = True, sg_shape =
     Params [arg ''__pyx_state'' AnyObject] \<rparr>"

definition fe_generate_code_with_breakpoints_py_sig :: signature where
  "fe_generate_code_with_breakpoints_py_sig = \<lparr> sg_name = ''generate_code_with_breakpoints_py'', sg_fastcall = True, sg_shape =
     Params [arg ''code_obj_py'' AnyObject, arg ''breakpoints'' (Exactly ''dict'')] \<rparr>"

definition fe_pyx_unpickle_ThreadInfo_sig :: signature where
  "fe_pyx_unpickle_ThreadInfo_sig = \<lparr> sg_name = ''__pyx_unpickle_ThreadInfo'', sg_fastcall = True, sg_shape =
     Params [arg ''__pyx_type'' AnyObject, long_arg ''__pyx_checksum'', arg ''__pyx_state'' AnyObject] \<rparr>"

definition fe_pyx_unpickle_FuncCodeInfo_sig :: signature where
  "fe_pyx_unpickle_FuncCodeInfo_sig = \<lparr> sg_name = ''__pyx_unpickle_FuncCodeInfo'', sg_fastcall = True, sg_shape =
     Params [arg ''__pyx_type'' AnyObject, long_arg ''__pyx_checksum'', arg ''__pyx_state'' AnyObject] \<rparr>"

definition fe_pyx_unpickle_CodeLineInfo_sig :: signature where
  "fe_pyx_unpickle_CodeLineInfo_sig = \<lparr> sg_name = ''__pyx_unpickle__CodeLineInfo'', sg_fastcall = True, sg_shape =
     Params [arg ''__pyx_type'' AnyObject, long_arg ''__pyx_checksum'', arg ''__pyx_state'' AnyObject] \<rparr>"

definition fe_pyx_unpickle_CacheValue_sig :: signature where
  "fe_pyx_unpickle_CacheValue_sig = \<lparr> sg_name = ''__pyx_unpickle__CacheValue'', sg_fastcall = True, sg_shape =
     Params [arg ''__pyx_type'' AnyObject, long_arg ''__pyx_checksum'', arg ''__pyx_state'' AnyObject] \<rparr>"

section \<open>All entry points\<close>

definition entry_points :: "signature list" where
  "entry_points =
     [cy_PyDBAdditionalThreadInfo_init_sig, cy_PyDBAdditionalThreadInfo_get_related_thread_sig,
      cy_PyDBAdditionalThreadInfo_is_stepping_sig, cy_PyDBAdditionalThreadInfo_get_topmost_frame_sig,
      cy_PyDBAdditionalThreadInfo_update_stepping_info_sig, cy_PyDBAdditionalThreadInfo_reduce_cython_sig,
      cy_PyDBAdditionalThreadInfo_setstate_cython_sig, cy_set_additional_thread_info_sig, cy_add_additional_info_sig,
      cy_remove_additional_info_sig, cy_get_smart_step_into_variant_from_frame_offset_sig, cy_is_unhandled_exception_sig,
      cy_TryExceptContainerObj_init_sig, cy_TryExceptContainerObj_reduce_cython_sig, cy_TryExceptContainerObj_setstate_cython_sig,
      cy_PyDBFrame_init_sig, cy_PyDBFrame_set_suspend_sig, cy_PyDBFrame_do_wait_suspend_sig, cy_PyDBFrame_trace_exception_sig,
      cy_PyDBFrame_handle_user_exception_sig, cy_PyDBFrame_trace_dispatch_sig, cy_PyDBFrame_reduce_cython_sig,
      cy_PyDBFrame_setstate_cython_sig, cy_should_stop_on_exception_sig, cy_handle_exception_sig,
      cy_notify_skipped_step_in_because_of_filters_sig, cy_SafeCallWrapper_init_sig, cy_SafeCallWrapper_call_sig,
      cy_SafeCallWrapper_get_method_object_sig, cy_SafeCallWrapper_reduce_cython_sig, cy_SafeCallWrapper_setstate_cython_sig,
      cy_fix_top_level_trace_and_get_trace_func_sig, cy_trace_dispatch_sig, cy_TopLevelThreadTracerOnlyUnhandledExceptions_init_sig,
      cy_TopLevelThreadTracerOnlyUnhandledExceptions_trace_unhandled_exceptions_sig,
      cy_TopLevelThreadTracerOnlyUnhandledExceptions_get_trace_dispatch_func_sig,
      cy_TopLevelThreadTracerOnlyUnhandledExceptions_reduce_cython_sig,
      cy_TopLevelThreadTracerOnlyUnhandledExceptions_setstate_cython_sig, cy_TopLevelThreadTracerNoBackFrame_init_sig,
      cy_TopLevelThreadTracerNoBackFrame_trace_dispatch_and_unhandled_exceptions_sig,
      cy_TopLevelThreadTracerNoBackFrame_get_trace_dispatch_func_sig, cy_TopLevelThreadTracerNoBackFrame_reduce_cython_sig,
      cy_TopLevelThreadTracerNoBackFrame_setstate_cython_sig, cy_ThreadTracer_init_sig, cy_ThreadTracer_call_sig,
      cy_ThreadTracer_reduce_cython_sig, cy_ThreadTracer_setstate_cython_sig, cy_call_sig,
      cy_fix_top_level_trace_and_get_trace_func2_sig, cy_pyx_unpickle_PyDBAdditionalThreadInfo_sig,
      cy_pyx_unpickle_TryExceptContainerObj_sig, cy_pyx_unpickle_PyDBFrame_sig, cy_pyx_unpickle_SafeCallWrapper_sig,
      cy_pyx_unpickle_TopLevelThreadTracerOnlyUnhandledExceptions_sig, cy_pyx_unpickle_TopLevelThreadTracerNoBackFrame_sig,
      cy_pyx_unpickle_ThreadTracer_sig, mon_wrap_exc_sig, mon_wrap_instruction_offset_sig, mon_wrap_line_sig, mon_wrap_to_offset_sig,
      mon_wrap_retval_sig, mon_get_smart_step_into_variant_from_frame_offset_sig, mon_ThreadInfo_init_sig,
      mon_ThreadInfo_reduce_cython_sig, mon_ThreadInfo_setstate_cython_sig, mon_DeleteDummyThreadOnDel_init_sig,
      mon_FuncCodeInfo_init_sig, mon_FuncCodeInfo_get_line_of_offset_sig, mon_FuncCodeInfo_reduce_cython_sig,
      mon_FuncCodeInfo_setstate_cython_sig, mon_CodeLineInfo_init_sig, mon_CodeLineInfo_reduce_cython_sig,
      mon_CodeLineInfo_setstate_cython_sig, mon_get_func_code_info_sig, mon_disable_code_tracing_sig, mon_enable_code_tracing_sig,
      mon_TryExceptContainerObj_init_sig, mon_TryExceptContainerObj_reduce_cython_sig, mon_TryExceptContainerObj_setstate_cython_sig,
      mon_start_monitoring_sig, mon_stop_monitoring_sig, mon_update_monitor_events_sig, mon_do_wait_suspend_sig,
      mon_pyx_unpickle_ThreadInfo_sig, mon_pyx_unpickle_FuncCodeInfo_sig, mon_pyx_unpickle_CodeLineInfo_sig,
      mon_pyx_unpickle_TryExceptContainerObj_sig, fe_ThreadInfo_reduce_cython_sig, fe_ThreadInfo_setstate_cython_sig,
      fe_FuncCodeInfo_init_sig, fe_FuncCodeInfo_reduce_cython_sig, fe_FuncCodeInfo_setstate_cython_sig, fe_dummy_trace_dispatch_sig,
      fe_decref_py_sig, fe_CodeLineInfo_init_sig, fe_CodeLineInfo_reduce_cython_sig, fe_CodeLineInfo_setstate_cython_sig,
      fe_get_code_line_info_sig, fe_get_cached_code_obj_info_py_sig, fe_CacheValue_init_sig,
      fe_CacheValue_compute_force_stay_in_untraced_mode_sig, fe_CacheValue_reduce_cython_sig, fe_CacheValue_setstate_cython_sig,
      fe_generate_code_with_breakpoints_py_sig, fe_pyx_unpickle_ThreadInfo_sig, fe_pyx_unpickle_FuncCodeInfo_sig,
      fe_pyx_unpickle_CodeLineInfo_sig, fe_pyx_unpickle_CacheValue_sig]"

definition params_ok :: "param list \<Rightarrow> bool" where
  "params_ok ps \<longleftrightarrow> distinct (map pm_name ps) \<and> sorted_wrt (\<lambda>p q. required q \<longrightarrow> required p) ps \<and> list_all default_ok ps"

lemma entry_point_params: "entry_point ps \<longleftrightarrow> params_ok ps"
  by (simp add: entry_point_def params_ok_def)

lemma entry_points_ok: "list_all (\<lambda>sg. case sg_shape sg of Params ps \<Rightarrow> params_ok ps | StarArgs _ _ \<Rightarrow> True) entry_points"
  by code_simp

lemma entry_pointI: "sg \<in> set entry_points \<Longrightarrow> sg_shape sg = Params ps \<Longrightarrow> entry_point ps"
  using entry_points_ok by (auto simp: list_all_iff entry_point_params)

text \<open>The parameters of the wrapper of a function of the three modules; a function that takes everything has none.\<close>

definition entry_params :: "signature \<Rightarrow> param list" where
  "entry_params sg = (if sg \<in> set entry_points then case sg_shape sg of Params ps \<Rightarrow> ps | StarArgs _ _ \<Rightarrow> [] else [])"

lemma entry_params_of: "sg \<in> set entry_points \<Longrightarrow> sg_shape sg = Params ps \<Longrightarrow> entry_params sg = ps"
  by (simp add: entry_params_def)

interpretation ep: entry_point "entry_params sg" for sg
  using entry_pointI [of sg] by (auto simp: entry_params_def entry_point_params params_ok_def split: shape.split)

lemma pyx_pw_typed:
  assumes "entry_point ps" and "sg_shape sg = Params ps" and "distinct (map fst (case kwds of None \<Rightarrow> [] | Some kw \<Rightarrow> kw))"
    and "pyx_pw sg args kwds = Inr c"
  shows "\<exists>as. c = CallWith as \<and> list_all2 (\<lambda>p a. arg_ok (pm_kind p) a) ps as"
proof (cases ps)
  case Nil
  with assms(2,4) show ?thesis by (auto simp: pyx_pw_def map_sum_def split: if_splits option.splits sum.splits)
next
  case Cons
  with assms(2,4) obtain as where "c = CallWith as" "call_named ps args kwds = Inr as"
    by (cases "call_named ps args kwds") (auto simp: pyx_pw_def)
  with entry_point.call_typed [OF assms(1,3)] show ?thesis by blast
qed

text \<open>The test of keywords that a function without named parameters makes.\<close>

lemma strings_only: "list_all (\<lambda>(k, v). case k of KStr s \<Rightarrow> True | KOther n \<Rightarrow> False) kw \<longleftrightarrow> (\<forall>n. KOther n \<notin> fst ` set kw)"
  by (induction kw) (auto split: kwname.split)

lemma CheckKeywordStrings_spec:
  "if kw = [] \<or> allowed \<and> (fastcall \<or> (\<forall>n. KOther n \<notin> fst ` set kw)) then CheckKeywordStrings fastcall kw allowed = Inr ()
   else \<exists>e. CheckKeywordStrings fastcall kw allowed = Inl e \<and> keyword_refused kw e"
proof (cases "kw = []")
  case False
  then have "keyword_refused kw (UnexpectedKeyword (fst (hd kw)))" "keyword_refused kw (UnexpectedKeyword (fst (last kw)))"
    by (auto simp: keyword_refused_def)
  moreover have "keyword_refused kw KeywordsNotStrings" if "\<not> (\<forall>n. KOther n \<notin> fst ` set kw)"
    using that by (simp add: keyword_refused_def)
  ultimately show ?thesis using False unfolding CheckKeywordStrings_def strings_only by simp
qed (simp add: CheckKeywordStrings_def)

text \<open>A wrapper for named parameters; the one of a function without parameters only counts.\<close>

lemma pyx_pw_params:
  assumes "sg \<in> set entry_points" and "sg_shape sg = Params ps"
    and "distinct (map fst (case kwds of None \<Rightarrow> [] | Some kw \<Rightarrow> kw))"
  shows "call_rule sg args (case kwds of None \<Rightarrow> [] | Some kw \<Rightarrow> kw) (pyx_pw sg args kwds)"
proof (cases ps)
  case Nil
  let ?kw = "case kwds of None \<Rightarrow> [] | Some kw \<Rightarrow> kw"
  show ?thesis
  proof (cases "args = [] \<and> ?kw \<noteq> []")
    case True
    then obtain kw where kw: "kwds = Some kw" "kw \<noteq> []" by (cases kwds) auto
    moreover from kw have "\<exists>e. bind_reference [] [] kw = Inl e"
      by (cases kw) (auto simp: bind_reference_def misplaced_def)
    ultimately show ?thesis
      using True CheckKeywordStrings_spec [of kw False "sg_fastcall sg"] assms(2) Nil by (auto simp: call_rule_def pyx_pw_def)
  next
    case False
    with assms(2) Nil show ?thesis
      by (cases kwds) (auto simp: call_rule_def pyx_pw_def bind_reference_def argtuple_error_def num_required_def reference_args_def)
  qed
next
  case Cons
  with assms(2) ep.call_follows_rules [OF assms(3), of sg args] entry_params_of [OF assms(1,2)] show ?thesis
    by (auto simp: call_rule_def pyx_pw_def split: sum.split)
qed

lemma pyx_pw_star:
  assumes "sg_shape sg = StarArgs allowed passed"
  shows "call_rule sg args (case kwds of None \<Rightarrow> [] | Some kw \<Rightarrow> kw) (pyx_pw sg args kwds)"
proof (cases kwds)
  case (Some kw)
  then show ?thesis
    using assms CheckKeywordStrings_spec [of kw allowed "sg_fastcall sg"]
    by (auto simp: call_rule_def pyx_pw_def split: if_splits)
qed (use assms in \<open>simp add: call_rule_def pyx_pw_def\<close>)

text \<open>C26. 
  The wrappers of the compiled functions call them, or refuse a call, as the rules of the language say, for every call whose keywords
  are different. A function with named parameters is called with the values that the positional arguments, the keywords and the
  defaults give to them, each converted to the C type of its parameter; the first rule that is broken, number that cannot be
  converted or object of a wrong type is reported. A function without parameters is called without any, and one that takes
  everything with the arguments as they are.
\<close>

theorem wrapper_binds_arguments:
  assumes "sg \<in> set entry_points" and "distinct (map fst (case kwds of None \<Rightarrow> [] | Some kw \<Rightarrow> kw))"
  shows "call_rule sg args (case kwds of None \<Rightarrow> [] | Some kw \<Rightarrow> kw) (pyx_pw sg args kwds) \<and>
    (case pyx_pw sg args kwds of
       Inr (CallWith as) \<Rightarrow> \<exists>ps. sg_shape sg = Params ps \<and> list_all2 (\<lambda>p a. arg_ok (pm_kind p) a) ps as
     | _ \<Rightarrow> True)"
proof (cases "sg_shape sg")
  case (Params ps)
  show ?thesis
    using pyx_pw_params [OF assms(1) Params assms(2)]
      pyx_pw_typed [OF entry_pointI [OF assms(1) Params] Params assms(2)] Params
    by (auto split: sum.split call.split)
next
  case (StarArgs allowed passed)
  then show ?thesis using pyx_pw_star [OF StarArgs]
    by (auto simp: pyx_pw_def map_sum_def split: sum.split call.split option.splits)
qed

theorem wrapper_binds_arguments_witness:
  "pyx_pw mon_start_monitoring_sig [] (Some [(KStr ''all_threads'', PBool True)]) = Inr (CallWith [CV (IntV 1)]) \<and>
   pyx_pw mon_start_monitoring_sig [PNone] (Some [(KStr ''all_threads'', PBool True)]) = Inl (MultipleValues ''all_threads'') \<and>
   pyx_pw mon_start_monitoring_sig [] None = Inr (CallWith [CV (IntV 0)])"
proof -
  have "mon_start_monitoring_sig \<in> set entry_points" by (simp add: entry_points_def)
  note rule = wrapper_binds_arguments [OF this]
  have shape: "sg_shape mon_start_monitoring_sig = Params [opt_arg ''all_threads'' Bint (IntV 0)]"
    by (simp add: mon_start_monitoring_sig_def)
  have bound: "bind_reference [opt_arg ''all_threads'' Bint (IntV 0)] [] [(KStr ''all_threads'', PBool True)] = Inr [Some (PBool True)]"
    "bind_reference [opt_arg ''all_threads'' Bint (IntV 0)] [] [] = Inr [None]"
    "bind_reference [opt_arg ''all_threads'' Bint (IntV 0)] [PNone] [(KStr ''all_threads'', PBool True)] =
      Inl (MultipleValues ''all_threads'')"
    by code_simp+
  have args: "reference_args [opt_arg ''all_threads'' Bint (IntV 0)] [Some (PBool True)] = Inr [CV (IntV 1)]"
    "reference_args [opt_arg ''all_threads'' Bint (IntV 0)] [None] = Inr [CV (IntV 0)]"
    by (simp_all add: reference_args_def arg_value_def opt_arg_def is_number_def)
  show ?thesis
    using rule [of "Some [(KStr ''all_threads'', PBool True)]" "[]"] rule [of "Some [(KStr ''all_threads'', PBool True)]" "[PNone]"]
      rule [of None "[]"]
    by (simp add: call_rule_def shape bound args)
qed

end
