(* ===== verification/CyPickleTables.thy ===== *)
theory CyPickleTables
  imports CyPickle
begin

text \<open>
  The tables of the classes of the three compiled modules: the fields of the struct, the fields in the tuple of \<^verbatim>\<open>__reduce_cython__\<close> in their
  order, those that decide whether the state is set separately, the fields that \<^verbatim>\<open>__set_state\<close> takes from the tuple with the conversion of each, and the
  checksums. Each class is an instance of the interface, so every one of them can be pickled and copied without loss.
\<close>

section \<open>\<^verbatim>\<open>PyDBAdditionalThreadInfo\<close> of \<^verbatim>\<open>pydevd_cython.c\<close>\<close>

definition cy_PyDBAdditionalThreadInfo_struct :: "(string \<times> field_kind) list" where
  "cy_PyDBAdditionalThreadInfo_struct =
     [(''pydev_state'', CInt), (''pydev_step_stop'', AnyObject), (''pydev_original_step_cmd'', CInt), (''pydev_step_cmd'', CInt),
      (''pydev_notify_kill'', Bint), (''pydev_smart_step_stop'', AnyObject), (''pydev_django_resolve_frame'', Bint),
      (''pydev_call_from_jinja2'', AnyObject), (''pydev_call_inside_jinja2'', AnyObject), (''is_tracing'', CInt),
      (''conditional_breakpoint_exception'', Exactly ''tuple''), (''pydev_message'', Exactly ''str''), (''suspend_type'', CInt),
      (''pydev_next_line'', CInt), (''pydev_func_name'', Exactly ''str''), (''suspended_at_unhandled'', Bint),
      (''trace_suspend_type'', Exactly ''str''), (''top_level_thread_tracer_no_back_frames'', AnyObject),
      (''top_level_thread_tracer_unhandled'', AnyObject), (''thread_tracer'', AnyObject), (''step_in_initial_location'', AnyObject),
      (''pydev_smart_parent_offset'', CInt), (''pydev_smart_child_offset'', CInt),
      (''pydev_smart_step_into_variants'', Exactly ''tuple''), (''target_id_to_smart_step_into_variant'', Exactly ''dict''),
      (''pydev_use_scoped_step_frame'', Bint), (''weak_thread'', AnyObject), (''is_in_wait_loop'', Bint)]"

definition cy_PyDBAdditionalThreadInfo_state :: "(string \<times> field_kind) list" where
  "cy_PyDBAdditionalThreadInfo_state =
     [(''conditional_breakpoint_exception'', Exactly ''tuple''), (''is_in_wait_loop'', Bint), (''is_tracing'', CInt),
      (''pydev_call_from_jinja2'', AnyObject), (''pydev_call_inside_jinja2'', AnyObject), (''pydev_django_resolve_frame'', Bint),
      (''pydev_func_name'', Exactly ''str''), (''pydev_message'', Exactly ''str''), (''pydev_next_line'', CInt),
      (''pydev_notify_kill'', Bint), (''pydev_original_step_cmd'', CInt), (''pydev_smart_child_offset'', CInt),
      (''pydev_smart_parent_offset'', CInt), (''pydev_smart_step_into_variants'', Exactly ''tuple''),
      (''pydev_smart_step_stop'', AnyObject), (''pydev_state'', CInt), (''pydev_step_cmd'', CInt), (''pydev_step_stop'', AnyObject),
      (''pydev_use_scoped_step_frame'', Bint), (''step_in_initial_location'', AnyObject), (''suspend_type'', CInt),
      (''suspended_at_unhandled'', Bint), (''target_id_to_smart_step_into_variant'', Exactly ''dict''), (''thread_tracer'', AnyObject),
      (''top_level_thread_tracer_no_back_frames'', AnyObject), (''top_level_thread_tracer_unhandled'', AnyObject),
      (''trace_suspend_type'', Exactly ''str''), (''weak_thread'', AnyObject)]"

definition cy_PyDBAdditionalThreadInfo_use_setstate :: "string list" where
  "cy_PyDBAdditionalThreadInfo_use_setstate =
     [''conditional_breakpoint_exception'', ''pydev_call_from_jinja2'', ''pydev_call_inside_jinja2'', ''pydev_func_name'',
      ''pydev_message'', ''pydev_smart_step_into_variants'', ''pydev_smart_step_stop'', ''pydev_step_stop'',
      ''step_in_initial_location'', ''target_id_to_smart_step_into_variant'', ''thread_tracer'',
      ''top_level_thread_tracer_no_back_frames'', ''top_level_thread_tracer_unhandled'', ''trace_suspend_type'', ''weak_thread'']"

definition cy_PyDBAdditionalThreadInfo_set_state :: "(string \<times> field_kind) list" where
  "cy_PyDBAdditionalThreadInfo_set_state =
     [(''conditional_breakpoint_exception'', Exactly ''tuple''), (''is_in_wait_loop'', Bint), (''is_tracing'', CInt),
      (''pydev_call_from_jinja2'', AnyObject), (''pydev_call_inside_jinja2'', AnyObject), (''pydev_django_resolve_frame'', Bint),
      (''pydev_func_name'', Exactly ''str''), (''pydev_message'', Exactly ''str''), (''pydev_next_line'', CInt),
      (''pydev_notify_kill'', Bint), (''pydev_original_step_cmd'', CInt), (''pydev_smart_child_offset'', CInt),
      (''pydev_smart_parent_offset'', CInt), (''pydev_smart_step_into_variants'', Exactly ''tuple''),
      (''pydev_smart_step_stop'', AnyObject), (''pydev_state'', CInt), (''pydev_step_cmd'', CInt), (''pydev_step_stop'', AnyObject),
      (''pydev_use_scoped_step_frame'', Bint), (''step_in_initial_location'', AnyObject), (''suspend_type'', CInt),
      (''suspended_at_unhandled'', Bint), (''target_id_to_smart_step_into_variant'', Exactly ''dict''), (''thread_tracer'', AnyObject),
      (''top_level_thread_tracer_no_back_frames'', AnyObject), (''top_level_thread_tracer_unhandled'', AnyObject),
      (''trace_suspend_type'', Exactly ''str''), (''weak_thread'', AnyObject)]"

definition cy_PyDBAdditionalThreadInfo_checksums :: "int list" where
  "cy_PyDBAdditionalThreadInfo_checksums = [0xd33aa14, 0x024feed, 0x4342dfb]"

definition cy_PyDBAdditionalThreadInfo_class :: cyclass where
  "cy_PyDBAdditionalThreadInfo_class = \<lparr> cc_name = ''PyDBAdditionalThreadInfo'', cc_struct = cy_PyDBAdditionalThreadInfo_struct, cc_state = cy_PyDBAdditionalThreadInfo_state, cc_use_setstate = cy_PyDBAdditionalThreadInfo_use_setstate,
     cc_set_state = cy_PyDBAdditionalThreadInfo_set_state, cc_checksums = cy_PyDBAdditionalThreadInfo_checksums \<rparr>"

interpretation cy_PyDBAdditionalThreadInfo: pickled_class cy_PyDBAdditionalThreadInfo_class
  by unfold_locales code_simp+

section \<open>\<^verbatim>\<open>_TryExceptContainerObj\<close> of \<^verbatim>\<open>pydevd_cython.c\<close>\<close>

definition cy_TryExceptContainerObj_struct :: "(string \<times> field_kind) list" where
  "cy_TryExceptContainerObj_struct =
     [(''try_except_infos'', Exactly ''list'')]"

definition cy_TryExceptContainerObj_state :: "(string \<times> field_kind) list" where
  "cy_TryExceptContainerObj_state =
     [(''try_except_infos'', Exactly ''list'')]"

definition cy_TryExceptContainerObj_use_setstate :: "string list" where
  "cy_TryExceptContainerObj_use_setstate =
     [''try_except_infos'']"

definition cy_TryExceptContainerObj_set_state :: "(string \<times> field_kind) list" where
  "cy_TryExceptContainerObj_set_state =
     [(''try_except_infos'', Exactly ''list'')]"

definition cy_TryExceptContainerObj_checksums :: "int list" where
  "cy_TryExceptContainerObj_checksums = [0xdbf5e44, 0xde17cd3, 0xc8b6eb1]"

definition cy_TryExceptContainerObj_class :: cyclass where
  "cy_TryExceptContainerObj_class = \<lparr> cc_name = ''_TryExceptContainerObj'', cc_struct = cy_TryExceptContainerObj_struct, cc_state = cy_TryExceptContainerObj_state, cc_use_setstate = cy_TryExceptContainerObj_use_setstate,
     cc_set_state = cy_TryExceptContainerObj_set_state, cc_checksums = cy_TryExceptContainerObj_checksums \<rparr>"

interpretation cy_TryExceptContainerObj: pickled_class cy_TryExceptContainerObj_class
  by unfold_locales code_simp+

section \<open>\<^verbatim>\<open>PyDBFrame\<close> of \<^verbatim>\<open>pydevd_cython.c\<close>\<close>

definition cy_PyDBFrame_struct :: "(string \<times> field_kind) list" where
  "cy_PyDBFrame_struct =
     [(''_args'', Exactly ''tuple''), (''should_skip'', CInt), (''exc_info'', AnyObject)]"

definition cy_PyDBFrame_state :: "(string \<times> field_kind) list" where
  "cy_PyDBFrame_state =
     [(''_args'', Exactly ''tuple''), (''exc_info'', AnyObject), (''should_skip'', CInt)]"

definition cy_PyDBFrame_use_setstate :: "string list" where
  "cy_PyDBFrame_use_setstate =
     [''_args'', ''exc_info'']"

definition cy_PyDBFrame_set_state :: "(string \<times> field_kind) list" where
  "cy_PyDBFrame_set_state =
     [(''_args'', Exactly ''tuple''), (''exc_info'', AnyObject), (''should_skip'', CInt)]"

definition cy_PyDBFrame_checksums :: "int list" where
  "cy_PyDBFrame_checksums = [0x3a8c26e, 0xb793695, 0x506e682]"

definition cy_PyDBFrame_class :: cyclass where
  "cy_PyDBFrame_class = \<lparr> cc_name = ''PyDBFrame'', cc_struct = cy_PyDBFrame_struct, cc_state = cy_PyDBFrame_state, cc_use_setstate = cy_PyDBFrame_use_setstate,
     cc_set_state = cy_PyDBFrame_set_state, cc_checksums = cy_PyDBFrame_checksums \<rparr>"

interpretation cy_PyDBFrame: pickled_class cy_PyDBFrame_class
  by unfold_locales code_simp+

section \<open>\<^verbatim>\<open>SafeCallWrapper\<close> of \<^verbatim>\<open>pydevd_cython.c\<close>\<close>

definition cy_SafeCallWrapper_struct :: "(string \<times> field_kind) list" where
  "cy_SafeCallWrapper_struct =
     [(''method_object'', AnyObject)]"

definition cy_SafeCallWrapper_state :: "(string \<times> field_kind) list" where
  "cy_SafeCallWrapper_state =
     [(''method_object'', AnyObject)]"

definition cy_SafeCallWrapper_use_setstate :: "string list" where
  "cy_SafeCallWrapper_use_setstate =
     [''method_object'']"

definition cy_SafeCallWrapper_set_state :: "(string \<times> field_kind) list" where
  "cy_SafeCallWrapper_set_state =
     [(''method_object'', AnyObject)]"

definition cy_SafeCallWrapper_checksums :: "int list" where
  "cy_SafeCallWrapper_checksums = [0xa14289b, 0x3cc10aa, 0x77c077b]"

definition cy_SafeCallWrapper_class :: cyclass where
  "cy_SafeCallWrapper_class = \<lparr> cc_name = ''SafeCallWrapper'', cc_struct = cy_SafeCallWrapper_struct, cc_state = cy_SafeCallWrapper_state, cc_use_setstate = cy_SafeCallWrapper_use_setstate,
     cc_set_state = cy_SafeCallWrapper_set_state, cc_checksums = cy_SafeCallWrapper_checksums \<rparr>"

interpretation cy_SafeCallWrapper: pickled_class cy_SafeCallWrapper_class
  by unfold_locales code_simp+

section \<open>\<^verbatim>\<open>TopLevelThreadTracerOnlyUnhandledExceptions\<close> of \<^verbatim>\<open>pydevd_cython.c\<close>\<close>

definition cy_TopLevelThreadTracerOnlyUnhandledExceptions_struct :: "(string \<times> field_kind) list" where
  "cy_TopLevelThreadTracerOnlyUnhandledExceptions_struct =
     [(''_args'', Exactly ''tuple'')]"

definition cy_TopLevelThreadTracerOnlyUnhandledExceptions_state :: "(string \<times> field_kind) list" where
  "cy_TopLevelThreadTracerOnlyUnhandledExceptions_state =
     [(''_args'', Exactly ''tuple'')]"

definition cy_TopLevelThreadTracerOnlyUnhandledExceptions_use_setstate :: "string list" where
  "cy_TopLevelThreadTracerOnlyUnhandledExceptions_use_setstate =
     [''_args'']"

definition cy_TopLevelThreadTracerOnlyUnhandledExceptions_set_state :: "(string \<times> field_kind) list" where
  "cy_TopLevelThreadTracerOnlyUnhandledExceptions_set_state =
     [(''_args'', Exactly ''tuple'')]"

definition cy_TopLevelThreadTracerOnlyUnhandledExceptions_checksums :: "int list" where
  "cy_TopLevelThreadTracerOnlyUnhandledExceptions_checksums = [0x121e1fb, 0xf3a61b1, 0x3d7902a]"

definition cy_TopLevelThreadTracerOnlyUnhandledExceptions_class :: cyclass where
  "cy_TopLevelThreadTracerOnlyUnhandledExceptions_class = \<lparr> cc_name = ''TopLevelThreadTracerOnlyUnhandledExceptions'', cc_struct = cy_TopLevelThreadTracerOnlyUnhandledExceptions_struct, cc_state = cy_TopLevelThreadTracerOnlyUnhandledExceptions_state, cc_use_setstate = cy_TopLevelThreadTracerOnlyUnhandledExceptions_use_setstate,
     cc_set_state = cy_TopLevelThreadTracerOnlyUnhandledExceptions_set_state, cc_checksums = cy_TopLevelThreadTracerOnlyUnhandledExceptions_checksums \<rparr>"

interpretation cy_TopLevelThreadTracerOnlyUnhandledExceptions: pickled_class cy_TopLevelThreadTracerOnlyUnhandledExceptions_class
  by unfold_locales code_simp+

section \<open>\<^verbatim>\<open>TopLevelThreadTracerNoBackFrame\<close> of \<^verbatim>\<open>pydevd_cython.c\<close>\<close>

definition cy_TopLevelThreadTracerNoBackFrame_struct :: "(string \<times> field_kind) list" where
  "cy_TopLevelThreadTracerNoBackFrame_struct =
     [(''_frame_trace_dispatch'', AnyObject), (''_args'', Exactly ''tuple''), (''try_except_infos'', AnyObject),
      (''_last_exc_arg'', AnyObject), (''_raise_lines'', Exactly ''set''), (''_last_raise_line'', CInt)]"

definition cy_TopLevelThreadTracerNoBackFrame_state :: "(string \<times> field_kind) list" where
  "cy_TopLevelThreadTracerNoBackFrame_state =
     [(''_args'', Exactly ''tuple''), (''_frame_trace_dispatch'', AnyObject), (''_last_exc_arg'', AnyObject),
      (''_last_raise_line'', CInt), (''_raise_lines'', Exactly ''set''), (''try_except_infos'', AnyObject)]"

definition cy_TopLevelThreadTracerNoBackFrame_use_setstate :: "string list" where
  "cy_TopLevelThreadTracerNoBackFrame_use_setstate =
     [''_args'', ''_frame_trace_dispatch'', ''_last_exc_arg'', ''_raise_lines'', ''try_except_infos'']"

definition cy_TopLevelThreadTracerNoBackFrame_set_state :: "(string \<times> field_kind) list" where
  "cy_TopLevelThreadTracerNoBackFrame_set_state =
     [(''_args'', Exactly ''tuple''), (''_frame_trace_dispatch'', AnyObject), (''_last_exc_arg'', AnyObject),
      (''_last_raise_line'', CInt), (''_raise_lines'', Exactly ''set''), (''try_except_infos'', AnyObject)]"

definition cy_TopLevelThreadTracerNoBackFrame_checksums :: "int list" where
  "cy_TopLevelThreadTracerNoBackFrame_checksums = [0x3f5f7e9, 0x0ff9c96, 0xa3a9ec1]"

definition cy_TopLevelThreadTracerNoBackFrame_class :: cyclass where
  "cy_TopLevelThreadTracerNoBackFrame_class = \<lparr> cc_name = ''TopLevelThreadTracerNoBackFrame'', cc_struct = cy_TopLevelThreadTracerNoBackFrame_struct, cc_state = cy_TopLevelThreadTracerNoBackFrame_state, cc_use_setstate = cy_TopLevelThreadTracerNoBackFrame_use_setstate,
     cc_set_state = cy_TopLevelThreadTracerNoBackFrame_set_state, cc_checksums = cy_TopLevelThreadTracerNoBackFrame_checksums \<rparr>"

interpretation cy_TopLevelThreadTracerNoBackFrame: pickled_class cy_TopLevelThreadTracerNoBackFrame_class
  by unfold_locales code_simp+

section \<open>\<^verbatim>\<open>ThreadTracer\<close> of \<^verbatim>\<open>pydevd_cython.c\<close>\<close>

definition cy_ThreadTracer_struct :: "(string \<times> field_kind) list" where
  "cy_ThreadTracer_struct =
     [(''_args'', Exactly ''tuple'')]"

definition cy_ThreadTracer_state :: "(string \<times> field_kind) list" where
  "cy_ThreadTracer_state =
     [(''_args'', Exactly ''tuple'')]"

definition cy_ThreadTracer_use_setstate :: "string list" where
  "cy_ThreadTracer_use_setstate =
     [''_args'']"

definition cy_ThreadTracer_set_state :: "(string \<times> field_kind) list" where
  "cy_ThreadTracer_set_state =
     [(''_args'', Exactly ''tuple'')]"

definition cy_ThreadTracer_checksums :: "int list" where
  "cy_ThreadTracer_checksums = [0x121e1fb, 0xf3a61b1, 0x3d7902a]"

definition cy_ThreadTracer_class :: cyclass where
  "cy_ThreadTracer_class = \<lparr> cc_name = ''ThreadTracer'', cc_struct = cy_ThreadTracer_struct, cc_state = cy_ThreadTracer_state, cc_use_setstate = cy_ThreadTracer_use_setstate,
     cc_set_state = cy_ThreadTracer_set_state, cc_checksums = cy_ThreadTracer_checksums \<rparr>"

interpretation cy_ThreadTracer: pickled_class cy_ThreadTracer_class
  by unfold_locales code_simp+

section \<open>\<^verbatim>\<open>ThreadInfo\<close> of \<^verbatim>\<open>_pydevd_sys_monitoring_cython.c\<close>\<close>

definition mon_ThreadInfo_struct :: "(string \<times> field_kind) list" where
  "mon_ThreadInfo_struct =
     [(''thread_ident'', CULong), (''additional_info'', Instance ''PyDBAdditionalThreadInfo''), (''thread'', AnyObject),
      (''trace'', AnyObject), (''_use_is_stopped'', AnyObject)]"

definition mon_ThreadInfo_state :: "(string \<times> field_kind) list" where
  "mon_ThreadInfo_state =
     [(''_use_is_stopped'', AnyObject), (''additional_info'', Instance ''PyDBAdditionalThreadInfo''), (''thread'', AnyObject),
      (''thread_ident'', CULong), (''trace'', AnyObject)]"

definition mon_ThreadInfo_use_setstate :: "string list" where
  "mon_ThreadInfo_use_setstate =
     [''_use_is_stopped'', ''additional_info'', ''thread'', ''trace'']"

definition mon_ThreadInfo_set_state :: "(string \<times> field_kind) list" where
  "mon_ThreadInfo_set_state =
     [(''_use_is_stopped'', AnyObject), (''additional_info'', Instance ''PyDBAdditionalThreadInfo''), (''thread'', AnyObject),
      (''thread_ident'', CULong), (''trace'', AnyObject)]"

definition mon_ThreadInfo_checksums :: "int list" where
  "mon_ThreadInfo_checksums = [0x4dea5f4, 0x3d65484, 0xf9220dc]"

definition mon_ThreadInfo_class :: cyclass where
  "mon_ThreadInfo_class = \<lparr> cc_name = ''ThreadInfo'', cc_struct = mon_ThreadInfo_struct, cc_state = mon_ThreadInfo_state, cc_use_setstate = mon_ThreadInfo_use_setstate,
     cc_set_state = mon_ThreadInfo_set_state, cc_checksums = mon_ThreadInfo_checksums \<rparr>"

interpretation mon_ThreadInfo: pickled_class mon_ThreadInfo_class
  by unfold_locales code_simp+

section \<open>\<^verbatim>\<open>FuncCodeInfo\<close> of \<^verbatim>\<open>_pydevd_sys_monitoring_cython.c\<close>\<close>

definition mon_FuncCodeInfo_struct :: "(string \<times> field_kind) list" where
  "mon_FuncCodeInfo_struct =
     [(''co_filename'', Exactly ''str''), (''canonical_normalized_filename'', Exactly ''str''), (''abs_path_filename'', Exactly ''str''),
      (''always_skip_code'', Bint), (''breakpoint_found'', Bint), (''function_breakpoint_found'', Bint),
      (''plugin_line_breakpoint_found'', Bint), (''plugin_call_breakpoint_found'', Bint), (''plugin_line_stepping'', Bint),
      (''plugin_call_stepping'', Bint), (''plugin_return_stepping'', Bint), (''pydb_mtime'', CInt),
      (''bp_line_to_breakpoint'', Exactly ''dict''), (''function_breakpoint'', AnyObject), (''always_filtered_out'', Bint),
      (''filtered_out_force_checked'', Bint), (''try_except_container_obj'', AnyObject), (''code_obj'', AnyObject),
      (''co_name'', Exactly ''str'')]"

definition mon_FuncCodeInfo_state :: "(string \<times> field_kind) list" where
  "mon_FuncCodeInfo_state =
     [(''abs_path_filename'', Exactly ''str''), (''always_filtered_out'', Bint), (''always_skip_code'', Bint),
      (''bp_line_to_breakpoint'', Exactly ''dict''), (''breakpoint_found'', Bint), (''canonical_normalized_filename'', Exactly ''str''),
      (''co_filename'', Exactly ''str''), (''co_name'', Exactly ''str''), (''code_obj'', AnyObject),
      (''filtered_out_force_checked'', Bint), (''function_breakpoint'', AnyObject), (''function_breakpoint_found'', Bint),
      (''plugin_call_breakpoint_found'', Bint), (''plugin_call_stepping'', Bint), (''plugin_line_breakpoint_found'', Bint),
      (''plugin_line_stepping'', Bint), (''plugin_return_stepping'', Bint), (''pydb_mtime'', CInt),
      (''try_except_container_obj'', AnyObject)]"

definition mon_FuncCodeInfo_use_setstate :: "string list" where
  "mon_FuncCodeInfo_use_setstate =
     [''abs_path_filename'', ''bp_line_to_breakpoint'', ''canonical_normalized_filename'', ''co_filename'', ''co_name'', ''code_obj'',
      ''function_breakpoint'', ''try_except_container_obj'']"

definition mon_FuncCodeInfo_set_state :: "(string \<times> field_kind) list" where
  "mon_FuncCodeInfo_set_state =
     [(''abs_path_filename'', Exactly ''str''), (''always_filtered_out'', Bint), (''always_skip_code'', Bint),
      (''bp_line_to_breakpoint'', Exactly ''dict''), (''breakpoint_found'', Bint), (''canonical_normalized_filename'', Exactly ''str''),
      (''co_filename'', Exactly ''str''), (''co_name'', Exactly ''str''), (''code_obj'', AnyObject),
      (''filtered_out_force_checked'', Bint), (''function_breakpoint'', AnyObject), (''function_breakpoint_found'', Bint),
      (''plugin_call_breakpoint_found'', Bint), (''plugin_call_stepping'', Bint), (''plugin_line_breakpoint_found'', Bint),
      (''plugin_line_stepping'', Bint), (''plugin_return_stepping'', Bint), (''pydb_mtime'', CInt),
      (''try_except_container_obj'', AnyObject)]"

definition mon_FuncCodeInfo_checksums :: "int list" where
  "mon_FuncCodeInfo_checksums = [0x3f403d2, 0x5f5636f, 0xb44aa80]"

definition mon_FuncCodeInfo_class :: cyclass where
  "mon_FuncCodeInfo_class = \<lparr> cc_name = ''FuncCodeInfo'', cc_struct = mon_FuncCodeInfo_struct, cc_state = mon_FuncCodeInfo_state, cc_use_setstate = mon_FuncCodeInfo_use_setstate,
     cc_set_state = mon_FuncCodeInfo_set_state, cc_checksums = mon_FuncCodeInfo_checksums \<rparr>"

interpretation mon_FuncCodeInfo: pickled_class mon_FuncCodeInfo_class
  by unfold_locales code_simp+

section \<open>\<^verbatim>\<open>_CodeLineInfo\<close> of \<^verbatim>\<open>_pydevd_sys_monitoring_cython.c\<close>\<close>

definition mon_CodeLineInfo_struct :: "(string \<times> field_kind) list" where
  "mon_CodeLineInfo_struct =
     [(''line_to_offset'', Exactly ''dict''), (''first_line'', CInt), (''last_line'', CInt)]"

definition mon_CodeLineInfo_state :: "(string \<times> field_kind) list" where
  "mon_CodeLineInfo_state =
     [(''first_line'', CInt), (''last_line'', CInt), (''line_to_offset'', Exactly ''dict'')]"

definition mon_CodeLineInfo_use_setstate :: "string list" where
  "mon_CodeLineInfo_use_setstate =
     [''line_to_offset'']"

definition mon_CodeLineInfo_set_state :: "(string \<times> field_kind) list" where
  "mon_CodeLineInfo_set_state =
     [(''first_line'', CInt), (''last_line'', CInt), (''line_to_offset'', Exactly ''dict'')]"

definition mon_CodeLineInfo_checksums :: "int list" where
  "mon_CodeLineInfo_checksums = [0x5a9bcd5, 0x0267473, 0x3fbbd02]"

definition mon_CodeLineInfo_class :: cyclass where
  "mon_CodeLineInfo_class = \<lparr> cc_name = ''_CodeLineInfo'', cc_struct = mon_CodeLineInfo_struct, cc_state = mon_CodeLineInfo_state, cc_use_setstate = mon_CodeLineInfo_use_setstate,
     cc_set_state = mon_CodeLineInfo_set_state, cc_checksums = mon_CodeLineInfo_checksums \<rparr>"

interpretation mon_CodeLineInfo: pickled_class mon_CodeLineInfo_class
  by unfold_locales code_simp+

section \<open>\<^verbatim>\<open>_TryExceptContainerObj\<close> of \<^verbatim>\<open>_pydevd_sys_monitoring_cython.c\<close>\<close>

definition mon_TryExceptContainerObj_struct :: "(string \<times> field_kind) list" where
  "mon_TryExceptContainerObj_struct =
     [(''try_except_infos'', Exactly ''list'')]"

definition mon_TryExceptContainerObj_state :: "(string \<times> field_kind) list" where
  "mon_TryExceptContainerObj_state =
     [(''try_except_infos'', Exactly ''list'')]"

definition mon_TryExceptContainerObj_use_setstate :: "string list" where
  "mon_TryExceptContainerObj_use_setstate =
     [''try_except_infos'']"

definition mon_TryExceptContainerObj_set_state :: "(string \<times> field_kind) list" where
  "mon_TryExceptContainerObj_set_state =
     [(''try_except_infos'', Exactly ''list'')]"

definition mon_TryExceptContainerObj_checksums :: "int list" where
  "mon_TryExceptContainerObj_checksums = [0xdbf5e44, 0xde17cd3, 0xc8b6eb1]"

definition mon_TryExceptContainerObj_class :: cyclass where
  "mon_TryExceptContainerObj_class = \<lparr> cc_name = ''_TryExceptContainerObj'', cc_struct = mon_TryExceptContainerObj_struct, cc_state = mon_TryExceptContainerObj_state, cc_use_setstate = mon_TryExceptContainerObj_use_setstate,
     cc_set_state = mon_TryExceptContainerObj_set_state, cc_checksums = mon_TryExceptContainerObj_checksums \<rparr>"

interpretation mon_TryExceptContainerObj: pickled_class mon_TryExceptContainerObj_class
  by unfold_locales code_simp+

section \<open>\<^verbatim>\<open>ThreadInfo\<close> of \<^verbatim>\<open>pydevd_frame_evaluator.c\<close>\<close>

definition fe_ThreadInfo_struct :: "(string \<times> field_kind) list" where
  "fe_ThreadInfo_struct =
     [(''additional_info'', Instance ''PyDBAdditionalThreadInfo''), (''is_pydevd_thread'', Bint), (''inside_frame_eval'', CInt),
      (''fully_initialized'', Bint), (''thread_trace_func'', AnyObject), (''_can_create_dummy_thread'', Bint),
      (''force_stay_in_untraced_mode'', Bint)]"

definition fe_ThreadInfo_state :: "(string \<times> field_kind) list" where
  "fe_ThreadInfo_state =
     [(''_can_create_dummy_thread'', Bint), (''additional_info'', Instance ''PyDBAdditionalThreadInfo''),
      (''force_stay_in_untraced_mode'', Bint), (''fully_initialized'', Bint), (''inside_frame_eval'', CInt),
      (''is_pydevd_thread'', Bint), (''thread_trace_func'', AnyObject)]"

definition fe_ThreadInfo_use_setstate :: "string list" where
  "fe_ThreadInfo_use_setstate =
     [''additional_info'', ''thread_trace_func'']"

definition fe_ThreadInfo_set_state :: "(string \<times> field_kind) list" where
  "fe_ThreadInfo_set_state =
     [(''_can_create_dummy_thread'', Bint), (''additional_info'', Instance ''PyDBAdditionalThreadInfo''),
      (''force_stay_in_untraced_mode'', Bint), (''fully_initialized'', Bint), (''inside_frame_eval'', CInt),
      (''is_pydevd_thread'', Bint), (''thread_trace_func'', AnyObject)]"

definition fe_ThreadInfo_checksums :: "int list" where
  "fe_ThreadInfo_checksums = [0xe535b68, 0xb8148ba, 0x0af4089]"

definition fe_ThreadInfo_class :: cyclass where
  "fe_ThreadInfo_class = \<lparr> cc_name = ''ThreadInfo'', cc_struct = fe_ThreadInfo_struct, cc_state = fe_ThreadInfo_state, cc_use_setstate = fe_ThreadInfo_use_setstate,
     cc_set_state = fe_ThreadInfo_set_state, cc_checksums = fe_ThreadInfo_checksums \<rparr>"

interpretation fe_ThreadInfo: pickled_class fe_ThreadInfo_class
  by unfold_locales code_simp+

section \<open>\<^verbatim>\<open>FuncCodeInfo\<close> of \<^verbatim>\<open>pydevd_frame_evaluator.c\<close>\<close>

definition fe_FuncCodeInfo_struct :: "(string \<times> field_kind) list" where
  "fe_FuncCodeInfo_struct =
     [(''co_filename'', Exactly ''str''), (''co_name'', Exactly ''str''), (''canonical_normalized_filename'', Exactly ''str''),
      (''always_skip_code'', Bint), (''breakpoint_found'', Bint), (''new_code'', AnyObject), (''breakpoints_mtime'', CInt)]"

definition fe_FuncCodeInfo_state :: "(string \<times> field_kind) list" where
  "fe_FuncCodeInfo_state =
     [(''always_skip_code'', Bint), (''breakpoint_found'', Bint), (''breakpoints_mtime'', CInt),
      (''canonical_normalized_filename'', Exactly ''str''), (''co_filename'', Exactly ''str''), (''co_name'', Exactly ''str''),
      (''new_code'', AnyObject)]"

definition fe_FuncCodeInfo_use_setstate :: "string list" where
  "fe_FuncCodeInfo_use_setstate =
     [''canonical_normalized_filename'', ''co_filename'', ''co_name'', ''new_code'']"

definition fe_FuncCodeInfo_set_state :: "(string \<times> field_kind) list" where
  "fe_FuncCodeInfo_set_state =
     [(''always_skip_code'', Bint), (''breakpoint_found'', Bint), (''breakpoints_mtime'', CInt),
      (''canonical_normalized_filename'', Exactly ''str''), (''co_filename'', Exactly ''str''), (''co_name'', Exactly ''str''),
      (''new_code'', AnyObject)]"

definition fe_FuncCodeInfo_checksums :: "int list" where
  "fe_FuncCodeInfo_checksums = [0x450d2d6, 0x956dcaa, 0xb3ee05d]"

definition fe_FuncCodeInfo_class :: cyclass where
  "fe_FuncCodeInfo_class = \<lparr> cc_name = ''FuncCodeInfo'', cc_struct = fe_FuncCodeInfo_struct, cc_state = fe_FuncCodeInfo_state, cc_use_setstate = fe_FuncCodeInfo_use_setstate,
     cc_set_state = fe_FuncCodeInfo_set_state, cc_checksums = fe_FuncCodeInfo_checksums \<rparr>"

interpretation fe_FuncCodeInfo: pickled_class fe_FuncCodeInfo_class
  by unfold_locales code_simp+

section \<open>\<^verbatim>\<open>_CodeLineInfo\<close> of \<^verbatim>\<open>pydevd_frame_evaluator.c\<close>\<close>

definition fe_CodeLineInfo_struct :: "(string \<times> field_kind) list" where
  "fe_CodeLineInfo_struct =
     [(''line_to_offset'', Exactly ''dict''), (''first_line'', CInt), (''last_line'', CInt)]"

definition fe_CodeLineInfo_state :: "(string \<times> field_kind) list" where
  "fe_CodeLineInfo_state =
     [(''first_line'', CInt), (''last_line'', CInt), (''line_to_offset'', Exactly ''dict'')]"

definition fe_CodeLineInfo_use_setstate :: "string list" where
  "fe_CodeLineInfo_use_setstate =
     [''line_to_offset'']"

definition fe_CodeLineInfo_set_state :: "(string \<times> field_kind) list" where
  "fe_CodeLineInfo_set_state =
     [(''first_line'', CInt), (''last_line'', CInt), (''line_to_offset'', Exactly ''dict'')]"

definition fe_CodeLineInfo_checksums :: "int list" where
  "fe_CodeLineInfo_checksums = [0x5a9bcd5, 0x0267473, 0x3fbbd02]"

definition fe_CodeLineInfo_class :: cyclass where
  "fe_CodeLineInfo_class = \<lparr> cc_name = ''_CodeLineInfo'', cc_struct = fe_CodeLineInfo_struct, cc_state = fe_CodeLineInfo_state, cc_use_setstate = fe_CodeLineInfo_use_setstate,
     cc_set_state = fe_CodeLineInfo_set_state, cc_checksums = fe_CodeLineInfo_checksums \<rparr>"

interpretation fe_CodeLineInfo: pickled_class fe_CodeLineInfo_class
  by unfold_locales code_simp+

section \<open>\<^verbatim>\<open>_CacheValue\<close> of \<^verbatim>\<open>pydevd_frame_evaluator.c\<close>\<close>

definition fe_CacheValue_struct :: "(string \<times> field_kind) list" where
  "fe_CacheValue_struct =
     [(''code_obj_py'', AnyObject), (''code_line_info'', Instance ''_CodeLineInfo''), (''breakpoints_hit_at_lines'', Exactly ''set''),
      (''code_lines_as_set'', Exactly ''set'')]"

definition fe_CacheValue_state :: "(string \<times> field_kind) list" where
  "fe_CacheValue_state =
     [(''breakpoints_hit_at_lines'', Exactly ''set''), (''code_line_info'', Instance ''_CodeLineInfo''),
      (''code_lines_as_set'', Exactly ''set''), (''code_obj_py'', AnyObject)]"

definition fe_CacheValue_use_setstate :: "string list" where
  "fe_CacheValue_use_setstate =
     [''breakpoints_hit_at_lines'', ''code_line_info'', ''code_lines_as_set'', ''code_obj_py'']"

definition fe_CacheValue_set_state :: "(string \<times> field_kind) list" where
  "fe_CacheValue_set_state =
     [(''breakpoints_hit_at_lines'', Exactly ''set''), (''code_line_info'', Instance ''_CodeLineInfo''),
      (''code_lines_as_set'', Exactly ''set''), (''code_obj_py'', AnyObject)]"

definition fe_CacheValue_checksums :: "int list" where
  "fe_CacheValue_checksums = [0xac42a46, 0xedff7c3, 0x3d481b9]"

definition fe_CacheValue_class :: cyclass where
  "fe_CacheValue_class = \<lparr> cc_name = ''_CacheValue'', cc_struct = fe_CacheValue_struct, cc_state = fe_CacheValue_state, cc_use_setstate = fe_CacheValue_use_setstate,
     cc_set_state = fe_CacheValue_set_state, cc_checksums = fe_CacheValue_checksums \<rparr>"

interpretation fe_CacheValue: pickled_class fe_CacheValue_class
  by unfold_locales code_simp+

section \<open>All classes\<close>

definition pickled_classes :: "cyclass list" where
  "pickled_classes =
     [cy_PyDBAdditionalThreadInfo_class, cy_TryExceptContainerObj_class, cy_PyDBFrame_class, cy_SafeCallWrapper_class,
      cy_TopLevelThreadTracerOnlyUnhandledExceptions_class, cy_TopLevelThreadTracerNoBackFrame_class, cy_ThreadTracer_class,
      mon_ThreadInfo_class, mon_FuncCodeInfo_class, mon_CodeLineInfo_class, mon_TryExceptContainerObj_class, fe_ThreadInfo_class,
      fe_FuncCodeInfo_class, fe_CodeLineInfo_class, fe_CacheValue_class]"

lemma pickled_classes_ok: "c \<in> set pickled_classes \<Longrightarrow> pickled_class c"
  using cy_PyDBAdditionalThreadInfo.pickled_class_axioms cy_TryExceptContainerObj.pickled_class_axioms
    cy_PyDBFrame.pickled_class_axioms cy_SafeCallWrapper.pickled_class_axioms
    cy_TopLevelThreadTracerOnlyUnhandledExceptions.pickled_class_axioms cy_TopLevelThreadTracerNoBackFrame.pickled_class_axioms
    cy_ThreadTracer.pickled_class_axioms mon_ThreadInfo.pickled_class_axioms
    mon_FuncCodeInfo.pickled_class_axioms mon_CodeLineInfo.pickled_class_axioms
    mon_TryExceptContainerObj.pickled_class_axioms fe_ThreadInfo.pickled_class_axioms
    fe_FuncCodeInfo.pickled_class_axioms fe_CodeLineInfo.pickled_class_axioms
    fe_CacheValue.pickled_class_axioms
  by (auto simp: pickled_classes_def)

text \<open>C35. 
  Every compiled class can be pickled and copied without loss: the object that is rebuilt from what \<^verbatim>\<open>__reduce_cython__\<close> returns has the same type, the
  same dictionary and the same value in every field of the struct.
\<close>

theorem pickle_roundtrip:
  assumes "c \<in> set pickled_classes" and "object_ok c x" and "\<And>d. update [] (PDict d) = Inr d"
  shows "\<exists>y. rebuild update c (reduce_cython c x) = Inr y \<and> co_type y = co_type x \<and> co_dict y = co_dict x \<and>
    list_all (\<lambda>(f, k). co_val y f = co_val x f) (cc_struct c)"
  by (rule pickled_class.roundtrip [OF pickled_classes_ok]) (use assms in auto)

definition demo_frame :: cobject where
  "demo_frame = \<lparr> co_type = \<lparr> ty_bases = [''PyDBFrame'', ''object''], ty_has_dict = False \<rparr>,
     co_val = (\<lambda>f. if f = ''should_skip'' then IntV (-1) else if f = ''_args'' then ObjV (PTuple [PInt 1]) else ObjV PNone), co_dict = None \<rparr>"

theorem pickle_roundtrip_witness:
  "\<exists>y. rebuild (\<lambda>d v. case v of PDict m \<Rightarrow> Inr m | _ \<Rightarrow> Inl TypeError) cy_PyDBFrame_class (reduce_cython cy_PyDBFrame_class demo_frame) = Inr y \<and>
     co_val y ''should_skip'' = IntV (-1) \<and> co_val y ''_args'' = ObjV (PTuple [PInt 1])"
proof -
  have "cy_PyDBFrame_class \<in> set pickled_classes" by (simp add: pickled_classes_def)
  moreover have "object_ok cy_PyDBFrame_class demo_frame"
    by (simp add: object_ok_def cy_PyDBFrame_class_def cy_PyDBFrame_struct_def demo_frame_def has_type_def)
  ultimately show ?thesis
    using pickle_roundtrip [of cy_PyDBFrame_class demo_frame "\<lambda>d v. case v of PDict m \<Rightarrow> Inr m | _ \<Rightarrow> Inl TypeError"]
    by (auto simp: cy_PyDBFrame_class_def cy_PyDBFrame_struct_def demo_frame_def)
qed

end
