(* ===== verification/CyObjectTables.thy ===== *)
theory CyObjectTables
  imports CyObject CyPickleTables
begin

text \<open>
  The tables of the compiled classes for \<open>CyObject\<close>: one definition for each attribute with its getter, setter and deleter, the attributes of each
  class, and the fields that the functions of the garbage collector go through. The classes of \<^verbatim>\<open>_pydevd_sys_monitoring_cython.c\<close>, and
  \<^verbatim>\<open>PyDBFrame\<close> and \<^verbatim>\<open>SafeCallWrapper\<close>, have no attributes that Python can see. Each type satisfies the contract.
\<close>

section \<open>\<^verbatim>\<open>PyDBAdditionalThreadInfo\<close> of \<^verbatim>\<open>pydevd_cython.c\<close>\<close>

definition cy_PyDBAdditionalThreadInfo_pydev_state :: accessor where
  "cy_PyDBAdditionalThreadInfo_pydev_state = IntField ''pydev_state''"

definition cy_PyDBAdditionalThreadInfo_pydev_step_stop :: accessor where
  "cy_PyDBAdditionalThreadInfo_pydev_step_stop = ObjectField ''pydev_step_stop''"

definition cy_PyDBAdditionalThreadInfo_pydev_original_step_cmd :: accessor where
  "cy_PyDBAdditionalThreadInfo_pydev_original_step_cmd = IntField ''pydev_original_step_cmd''"

definition cy_PyDBAdditionalThreadInfo_pydev_step_cmd :: accessor where
  "cy_PyDBAdditionalThreadInfo_pydev_step_cmd = IntField ''pydev_step_cmd''"

definition cy_PyDBAdditionalThreadInfo_pydev_notify_kill :: accessor where
  "cy_PyDBAdditionalThreadInfo_pydev_notify_kill = BintField ''pydev_notify_kill''"

definition cy_PyDBAdditionalThreadInfo_pydev_smart_step_stop :: accessor where
  "cy_PyDBAdditionalThreadInfo_pydev_smart_step_stop = ObjectField ''pydev_smart_step_stop''"

definition cy_PyDBAdditionalThreadInfo_pydev_django_resolve_frame :: accessor where
  "cy_PyDBAdditionalThreadInfo_pydev_django_resolve_frame = BintField ''pydev_django_resolve_frame''"

definition cy_PyDBAdditionalThreadInfo_pydev_call_from_jinja2 :: accessor where
  "cy_PyDBAdditionalThreadInfo_pydev_call_from_jinja2 = ObjectField ''pydev_call_from_jinja2''"

definition cy_PyDBAdditionalThreadInfo_pydev_call_inside_jinja2 :: accessor where
  "cy_PyDBAdditionalThreadInfo_pydev_call_inside_jinja2 = ObjectField ''pydev_call_inside_jinja2''"

definition cy_PyDBAdditionalThreadInfo_is_tracing :: accessor where
  "cy_PyDBAdditionalThreadInfo_is_tracing = IntField ''is_tracing''"

definition cy_PyDBAdditionalThreadInfo_conditional_breakpoint_exception :: accessor where
  "cy_PyDBAdditionalThreadInfo_conditional_breakpoint_exception = BuiltinField ''tuple'' ''conditional_breakpoint_exception''"

definition cy_PyDBAdditionalThreadInfo_pydev_message :: accessor where
  "cy_PyDBAdditionalThreadInfo_pydev_message = BuiltinField ''str'' ''pydev_message''"

definition cy_PyDBAdditionalThreadInfo_suspend_type :: accessor where
  "cy_PyDBAdditionalThreadInfo_suspend_type = IntField ''suspend_type''"

definition cy_PyDBAdditionalThreadInfo_pydev_next_line :: accessor where
  "cy_PyDBAdditionalThreadInfo_pydev_next_line = IntField ''pydev_next_line''"

definition cy_PyDBAdditionalThreadInfo_pydev_func_name :: accessor where
  "cy_PyDBAdditionalThreadInfo_pydev_func_name = BuiltinField ''str'' ''pydev_func_name''"

definition cy_PyDBAdditionalThreadInfo_suspended_at_unhandled :: accessor where
  "cy_PyDBAdditionalThreadInfo_suspended_at_unhandled = BintField ''suspended_at_unhandled''"

definition cy_PyDBAdditionalThreadInfo_trace_suspend_type :: accessor where
  "cy_PyDBAdditionalThreadInfo_trace_suspend_type = BuiltinField ''str'' ''trace_suspend_type''"

definition cy_PyDBAdditionalThreadInfo_top_level_thread_tracer_no_back_frames :: accessor where
  "cy_PyDBAdditionalThreadInfo_top_level_thread_tracer_no_back_frames = ObjectField ''top_level_thread_tracer_no_back_frames''"

definition cy_PyDBAdditionalThreadInfo_top_level_thread_tracer_unhandled :: accessor where
  "cy_PyDBAdditionalThreadInfo_top_level_thread_tracer_unhandled = ObjectField ''top_level_thread_tracer_unhandled''"

definition cy_PyDBAdditionalThreadInfo_thread_tracer :: accessor where
  "cy_PyDBAdditionalThreadInfo_thread_tracer = ObjectField ''thread_tracer''"

definition cy_PyDBAdditionalThreadInfo_step_in_initial_location :: accessor where
  "cy_PyDBAdditionalThreadInfo_step_in_initial_location = ObjectField ''step_in_initial_location''"

definition cy_PyDBAdditionalThreadInfo_pydev_smart_parent_offset :: accessor where
  "cy_PyDBAdditionalThreadInfo_pydev_smart_parent_offset = IntField ''pydev_smart_parent_offset''"

definition cy_PyDBAdditionalThreadInfo_pydev_smart_child_offset :: accessor where
  "cy_PyDBAdditionalThreadInfo_pydev_smart_child_offset = IntField ''pydev_smart_child_offset''"

definition cy_PyDBAdditionalThreadInfo_pydev_smart_step_into_variants :: accessor where
  "cy_PyDBAdditionalThreadInfo_pydev_smart_step_into_variants = BuiltinField ''tuple'' ''pydev_smart_step_into_variants''"

definition cy_PyDBAdditionalThreadInfo_target_id_to_smart_step_into_variant :: accessor where
  "cy_PyDBAdditionalThreadInfo_target_id_to_smart_step_into_variant = BuiltinField ''dict'' ''target_id_to_smart_step_into_variant''"

definition cy_PyDBAdditionalThreadInfo_pydev_use_scoped_step_frame :: accessor where
  "cy_PyDBAdditionalThreadInfo_pydev_use_scoped_step_frame = BintField ''pydev_use_scoped_step_frame''"

definition cy_PyDBAdditionalThreadInfo_weak_thread :: accessor where
  "cy_PyDBAdditionalThreadInfo_weak_thread = ObjectField ''weak_thread''"

definition cy_PyDBAdditionalThreadInfo_is_in_wait_loop :: accessor where
  "cy_PyDBAdditionalThreadInfo_is_in_wait_loop = BintField ''is_in_wait_loop''"

definition cy_PyDBAdditionalThreadInfo_getsets :: "accessor list" where
  "cy_PyDBAdditionalThreadInfo_getsets =
     [cy_PyDBAdditionalThreadInfo_pydev_state, cy_PyDBAdditionalThreadInfo_pydev_step_stop,
      cy_PyDBAdditionalThreadInfo_pydev_original_step_cmd, cy_PyDBAdditionalThreadInfo_pydev_step_cmd,
      cy_PyDBAdditionalThreadInfo_pydev_notify_kill, cy_PyDBAdditionalThreadInfo_pydev_smart_step_stop,
      cy_PyDBAdditionalThreadInfo_pydev_django_resolve_frame, cy_PyDBAdditionalThreadInfo_pydev_call_from_jinja2,
      cy_PyDBAdditionalThreadInfo_pydev_call_inside_jinja2, cy_PyDBAdditionalThreadInfo_is_tracing,
      cy_PyDBAdditionalThreadInfo_conditional_breakpoint_exception, cy_PyDBAdditionalThreadInfo_pydev_message,
      cy_PyDBAdditionalThreadInfo_suspend_type, cy_PyDBAdditionalThreadInfo_pydev_next_line, cy_PyDBAdditionalThreadInfo_pydev_func_name,
      cy_PyDBAdditionalThreadInfo_suspended_at_unhandled, cy_PyDBAdditionalThreadInfo_trace_suspend_type,
      cy_PyDBAdditionalThreadInfo_top_level_thread_tracer_no_back_frames, cy_PyDBAdditionalThreadInfo_top_level_thread_tracer_unhandled,
      cy_PyDBAdditionalThreadInfo_thread_tracer, cy_PyDBAdditionalThreadInfo_step_in_initial_location,
      cy_PyDBAdditionalThreadInfo_pydev_smart_parent_offset, cy_PyDBAdditionalThreadInfo_pydev_smart_child_offset,
      cy_PyDBAdditionalThreadInfo_pydev_smart_step_into_variants, cy_PyDBAdditionalThreadInfo_target_id_to_smart_step_into_variant,
      cy_PyDBAdditionalThreadInfo_pydev_use_scoped_step_frame, cy_PyDBAdditionalThreadInfo_weak_thread,
      cy_PyDBAdditionalThreadInfo_is_in_wait_loop]"

definition cy_PyDBAdditionalThreadInfo_traverse :: "string list" where
  "cy_PyDBAdditionalThreadInfo_traverse =
     [''pydev_step_stop'', ''pydev_smart_step_stop'', ''pydev_call_from_jinja2'', ''pydev_call_inside_jinja2'',
      ''conditional_breakpoint_exception'', ''top_level_thread_tracer_no_back_frames'', ''top_level_thread_tracer_unhandled'',
      ''thread_tracer'', ''step_in_initial_location'', ''pydev_smart_step_into_variants'', ''target_id_to_smart_step_into_variant'',
      ''weak_thread'']"

definition cy_PyDBAdditionalThreadInfo_clear :: "string list" where
  "cy_PyDBAdditionalThreadInfo_clear =
     [''pydev_step_stop'', ''pydev_smart_step_stop'', ''pydev_call_from_jinja2'', ''pydev_call_inside_jinja2'',
      ''conditional_breakpoint_exception'', ''top_level_thread_tracer_no_back_frames'', ''top_level_thread_tracer_unhandled'',
      ''thread_tracer'', ''step_in_initial_location'', ''pydev_smart_step_into_variants'', ''target_id_to_smart_step_into_variant'',
      ''weak_thread'']"

definition cy_PyDBAdditionalThreadInfo_dealloc :: "string list" where
  "cy_PyDBAdditionalThreadInfo_dealloc =
     [''pydev_step_stop'', ''pydev_smart_step_stop'', ''pydev_call_from_jinja2'', ''pydev_call_inside_jinja2'',
      ''conditional_breakpoint_exception'', ''pydev_message'', ''pydev_func_name'', ''trace_suspend_type'',
      ''top_level_thread_tracer_no_back_frames'', ''top_level_thread_tracer_unhandled'', ''thread_tracer'', ''step_in_initial_location'',
      ''pydev_smart_step_into_variants'', ''target_id_to_smart_step_into_variant'', ''weak_thread'']"

definition cy_PyDBAdditionalThreadInfo_type :: cytype where
  "cy_PyDBAdditionalThreadInfo_type = \<lparr> ct_class = cy_PyDBAdditionalThreadInfo_class, ct_getsets = cy_PyDBAdditionalThreadInfo_getsets, ct_traverse = cy_PyDBAdditionalThreadInfo_traverse, ct_clear = cy_PyDBAdditionalThreadInfo_clear, ct_dealloc = cy_PyDBAdditionalThreadInfo_dealloc \<rparr>"

interpretation cy_PyDBAdditionalThreadInfo_type: cy_type cy_PyDBAdditionalThreadInfo_type
  by unfold_locales code_simp+

section \<open>\<^verbatim>\<open>_TryExceptContainerObj\<close> of \<^verbatim>\<open>pydevd_cython.c\<close>\<close>

definition cy_TryExceptContainerObj_try_except_infos :: accessor where
  "cy_TryExceptContainerObj_try_except_infos = BuiltinField ''list'' ''try_except_infos''"

definition cy_TryExceptContainerObj_getsets :: "accessor list" where
  "cy_TryExceptContainerObj_getsets =
     [cy_TryExceptContainerObj_try_except_infos]"

definition cy_TryExceptContainerObj_traverse :: "string list" where
  "cy_TryExceptContainerObj_traverse =
     [''try_except_infos'']"

definition cy_TryExceptContainerObj_clear :: "string list" where
  "cy_TryExceptContainerObj_clear =
     [''try_except_infos'']"

definition cy_TryExceptContainerObj_dealloc :: "string list" where
  "cy_TryExceptContainerObj_dealloc =
     [''try_except_infos'']"

definition cy_TryExceptContainerObj_type :: cytype where
  "cy_TryExceptContainerObj_type = \<lparr> ct_class = cy_TryExceptContainerObj_class, ct_getsets = cy_TryExceptContainerObj_getsets, ct_traverse = cy_TryExceptContainerObj_traverse, ct_clear = cy_TryExceptContainerObj_clear, ct_dealloc = cy_TryExceptContainerObj_dealloc \<rparr>"

interpretation cy_TryExceptContainerObj_type: cy_type cy_TryExceptContainerObj_type
  by unfold_locales code_simp+

section \<open>\<^verbatim>\<open>PyDBFrame\<close> of \<^verbatim>\<open>pydevd_cython.c\<close>\<close>

definition cy_PyDBFrame_traverse :: "string list" where
  "cy_PyDBFrame_traverse =
     [''_args'', ''exc_info'']"

definition cy_PyDBFrame_clear :: "string list" where
  "cy_PyDBFrame_clear =
     [''_args'', ''exc_info'']"

definition cy_PyDBFrame_dealloc :: "string list" where
  "cy_PyDBFrame_dealloc =
     [''_args'', ''exc_info'']"

definition cy_PyDBFrame_type :: cytype where
  "cy_PyDBFrame_type = \<lparr> ct_class = cy_PyDBFrame_class, ct_getsets = [], ct_traverse = cy_PyDBFrame_traverse, ct_clear = cy_PyDBFrame_clear, ct_dealloc = cy_PyDBFrame_dealloc \<rparr>"

interpretation cy_PyDBFrame_type: cy_type cy_PyDBFrame_type
  by unfold_locales code_simp+

section \<open>\<^verbatim>\<open>SafeCallWrapper\<close> of \<^verbatim>\<open>pydevd_cython.c\<close>\<close>

definition cy_SafeCallWrapper_traverse :: "string list" where
  "cy_SafeCallWrapper_traverse =
     [''method_object'']"

definition cy_SafeCallWrapper_clear :: "string list" where
  "cy_SafeCallWrapper_clear =
     [''method_object'']"

definition cy_SafeCallWrapper_dealloc :: "string list" where
  "cy_SafeCallWrapper_dealloc =
     [''method_object'']"

definition cy_SafeCallWrapper_type :: cytype where
  "cy_SafeCallWrapper_type = \<lparr> ct_class = cy_SafeCallWrapper_class, ct_getsets = [], ct_traverse = cy_SafeCallWrapper_traverse, ct_clear = cy_SafeCallWrapper_clear, ct_dealloc = cy_SafeCallWrapper_dealloc \<rparr>"

interpretation cy_SafeCallWrapper_type: cy_type cy_SafeCallWrapper_type
  by unfold_locales code_simp+

section \<open>\<^verbatim>\<open>TopLevelThreadTracerOnlyUnhandledExceptions\<close> of \<^verbatim>\<open>pydevd_cython.c\<close>\<close>

definition cy_TopLevelThreadTracerOnlyUnhandledExceptions_args :: accessor where
  "cy_TopLevelThreadTracerOnlyUnhandledExceptions_args = BuiltinField ''tuple'' ''_args''"

definition cy_TopLevelThreadTracerOnlyUnhandledExceptions_getsets :: "accessor list" where
  "cy_TopLevelThreadTracerOnlyUnhandledExceptions_getsets =
     [cy_TopLevelThreadTracerOnlyUnhandledExceptions_args]"

definition cy_TopLevelThreadTracerOnlyUnhandledExceptions_traverse :: "string list" where
  "cy_TopLevelThreadTracerOnlyUnhandledExceptions_traverse =
     [''_args'']"

definition cy_TopLevelThreadTracerOnlyUnhandledExceptions_clear :: "string list" where
  "cy_TopLevelThreadTracerOnlyUnhandledExceptions_clear =
     [''_args'']"

definition cy_TopLevelThreadTracerOnlyUnhandledExceptions_dealloc :: "string list" where
  "cy_TopLevelThreadTracerOnlyUnhandledExceptions_dealloc =
     [''_args'']"

definition cy_TopLevelThreadTracerOnlyUnhandledExceptions_type :: cytype where
  "cy_TopLevelThreadTracerOnlyUnhandledExceptions_type = \<lparr> ct_class = cy_TopLevelThreadTracerOnlyUnhandledExceptions_class, ct_getsets = cy_TopLevelThreadTracerOnlyUnhandledExceptions_getsets, ct_traverse = cy_TopLevelThreadTracerOnlyUnhandledExceptions_traverse, ct_clear = cy_TopLevelThreadTracerOnlyUnhandledExceptions_clear, ct_dealloc = cy_TopLevelThreadTracerOnlyUnhandledExceptions_dealloc \<rparr>"

interpretation cy_TopLevelThreadTracerOnlyUnhandledExceptions_type: cy_type cy_TopLevelThreadTracerOnlyUnhandledExceptions_type
  by unfold_locales code_simp+

section \<open>\<^verbatim>\<open>TopLevelThreadTracerNoBackFrame\<close> of \<^verbatim>\<open>pydevd_cython.c\<close>\<close>

definition cy_TopLevelThreadTracerNoBackFrame_frame_trace_dispatch :: accessor where
  "cy_TopLevelThreadTracerNoBackFrame_frame_trace_dispatch = ObjectField ''_frame_trace_dispatch''"

definition cy_TopLevelThreadTracerNoBackFrame_args :: accessor where
  "cy_TopLevelThreadTracerNoBackFrame_args = BuiltinField ''tuple'' ''_args''"

definition cy_TopLevelThreadTracerNoBackFrame_try_except_infos :: accessor where
  "cy_TopLevelThreadTracerNoBackFrame_try_except_infos = ObjectField ''try_except_infos''"

definition cy_TopLevelThreadTracerNoBackFrame_last_exc_arg :: accessor where
  "cy_TopLevelThreadTracerNoBackFrame_last_exc_arg = ObjectField ''_last_exc_arg''"

definition cy_TopLevelThreadTracerNoBackFrame_raise_lines :: accessor where
  "cy_TopLevelThreadTracerNoBackFrame_raise_lines = BuiltinField ''set'' ''_raise_lines''"

definition cy_TopLevelThreadTracerNoBackFrame_last_raise_line :: accessor where
  "cy_TopLevelThreadTracerNoBackFrame_last_raise_line = IntField ''_last_raise_line''"

definition cy_TopLevelThreadTracerNoBackFrame_getsets :: "accessor list" where
  "cy_TopLevelThreadTracerNoBackFrame_getsets =
     [cy_TopLevelThreadTracerNoBackFrame_frame_trace_dispatch, cy_TopLevelThreadTracerNoBackFrame_args,
      cy_TopLevelThreadTracerNoBackFrame_try_except_infos, cy_TopLevelThreadTracerNoBackFrame_last_exc_arg,
      cy_TopLevelThreadTracerNoBackFrame_raise_lines, cy_TopLevelThreadTracerNoBackFrame_last_raise_line]"

definition cy_TopLevelThreadTracerNoBackFrame_traverse :: "string list" where
  "cy_TopLevelThreadTracerNoBackFrame_traverse =
     [''_frame_trace_dispatch'', ''_args'', ''try_except_infos'', ''_last_exc_arg'', ''_raise_lines'']"

definition cy_TopLevelThreadTracerNoBackFrame_clear :: "string list" where
  "cy_TopLevelThreadTracerNoBackFrame_clear =
     [''_frame_trace_dispatch'', ''_args'', ''try_except_infos'', ''_last_exc_arg'', ''_raise_lines'']"

definition cy_TopLevelThreadTracerNoBackFrame_dealloc :: "string list" where
  "cy_TopLevelThreadTracerNoBackFrame_dealloc =
     [''_frame_trace_dispatch'', ''_args'', ''try_except_infos'', ''_last_exc_arg'', ''_raise_lines'']"

definition cy_TopLevelThreadTracerNoBackFrame_type :: cytype where
  "cy_TopLevelThreadTracerNoBackFrame_type = \<lparr> ct_class = cy_TopLevelThreadTracerNoBackFrame_class, ct_getsets = cy_TopLevelThreadTracerNoBackFrame_getsets, ct_traverse = cy_TopLevelThreadTracerNoBackFrame_traverse, ct_clear = cy_TopLevelThreadTracerNoBackFrame_clear, ct_dealloc = cy_TopLevelThreadTracerNoBackFrame_dealloc \<rparr>"

interpretation cy_TopLevelThreadTracerNoBackFrame_type: cy_type cy_TopLevelThreadTracerNoBackFrame_type
  by unfold_locales code_simp+

section \<open>\<^verbatim>\<open>ThreadTracer\<close> of \<^verbatim>\<open>pydevd_cython.c\<close>\<close>

definition cy_ThreadTracer_args :: accessor where
  "cy_ThreadTracer_args = BuiltinField ''tuple'' ''_args''"

definition cy_ThreadTracer_getsets :: "accessor list" where
  "cy_ThreadTracer_getsets =
     [cy_ThreadTracer_args]"

definition cy_ThreadTracer_traverse :: "string list" where
  "cy_ThreadTracer_traverse =
     [''_args'']"

definition cy_ThreadTracer_clear :: "string list" where
  "cy_ThreadTracer_clear =
     [''_args'']"

definition cy_ThreadTracer_dealloc :: "string list" where
  "cy_ThreadTracer_dealloc =
     [''_args'']"

definition cy_ThreadTracer_type :: cytype where
  "cy_ThreadTracer_type = \<lparr> ct_class = cy_ThreadTracer_class, ct_getsets = cy_ThreadTracer_getsets, ct_traverse = cy_ThreadTracer_traverse, ct_clear = cy_ThreadTracer_clear, ct_dealloc = cy_ThreadTracer_dealloc \<rparr>"

interpretation cy_ThreadTracer_type: cy_type cy_ThreadTracer_type
  by unfold_locales code_simp+

section \<open>\<^verbatim>\<open>ThreadInfo\<close> of \<^verbatim>\<open>_pydevd_sys_monitoring_cython.c\<close>\<close>

definition mon_ThreadInfo_traverse :: "string list" where
  "mon_ThreadInfo_traverse =
     [''additional_info'', ''thread'', ''trace'', ''_use_is_stopped'']"

definition mon_ThreadInfo_clear :: "string list" where
  "mon_ThreadInfo_clear =
     [''additional_info'', ''thread'', ''trace'', ''_use_is_stopped'']"

definition mon_ThreadInfo_dealloc :: "string list" where
  "mon_ThreadInfo_dealloc =
     [''additional_info'', ''thread'', ''trace'', ''_use_is_stopped'']"

definition mon_ThreadInfo_type :: cytype where
  "mon_ThreadInfo_type = \<lparr> ct_class = mon_ThreadInfo_class, ct_getsets = [], ct_traverse = mon_ThreadInfo_traverse, ct_clear = mon_ThreadInfo_clear, ct_dealloc = mon_ThreadInfo_dealloc \<rparr>"

interpretation mon_ThreadInfo_type: cy_type mon_ThreadInfo_type
  by unfold_locales code_simp+

section \<open>\<^verbatim>\<open>FuncCodeInfo\<close> of \<^verbatim>\<open>_pydevd_sys_monitoring_cython.c\<close>\<close>

definition mon_FuncCodeInfo_traverse :: "string list" where
  "mon_FuncCodeInfo_traverse =
     [''bp_line_to_breakpoint'', ''function_breakpoint'', ''try_except_container_obj'', ''code_obj'']"

definition mon_FuncCodeInfo_clear :: "string list" where
  "mon_FuncCodeInfo_clear =
     [''bp_line_to_breakpoint'', ''function_breakpoint'', ''try_except_container_obj'', ''code_obj'']"

definition mon_FuncCodeInfo_dealloc :: "string list" where
  "mon_FuncCodeInfo_dealloc =
     [''co_filename'', ''canonical_normalized_filename'', ''abs_path_filename'', ''bp_line_to_breakpoint'', ''function_breakpoint'',
      ''try_except_container_obj'', ''code_obj'', ''co_name'']"

definition mon_FuncCodeInfo_type :: cytype where
  "mon_FuncCodeInfo_type = \<lparr> ct_class = mon_FuncCodeInfo_class, ct_getsets = [], ct_traverse = mon_FuncCodeInfo_traverse, ct_clear = mon_FuncCodeInfo_clear, ct_dealloc = mon_FuncCodeInfo_dealloc \<rparr>"

interpretation mon_FuncCodeInfo_type: cy_type mon_FuncCodeInfo_type
  by unfold_locales code_simp+

section \<open>\<^verbatim>\<open>_CodeLineInfo\<close> of \<^verbatim>\<open>_pydevd_sys_monitoring_cython.c\<close>\<close>

definition mon_CodeLineInfo_traverse :: "string list" where
  "mon_CodeLineInfo_traverse =
     [''line_to_offset'']"

definition mon_CodeLineInfo_clear :: "string list" where
  "mon_CodeLineInfo_clear =
     [''line_to_offset'']"

definition mon_CodeLineInfo_dealloc :: "string list" where
  "mon_CodeLineInfo_dealloc =
     [''line_to_offset'']"

definition mon_CodeLineInfo_type :: cytype where
  "mon_CodeLineInfo_type = \<lparr> ct_class = mon_CodeLineInfo_class, ct_getsets = [], ct_traverse = mon_CodeLineInfo_traverse, ct_clear = mon_CodeLineInfo_clear, ct_dealloc = mon_CodeLineInfo_dealloc \<rparr>"

interpretation mon_CodeLineInfo_type: cy_type mon_CodeLineInfo_type
  by unfold_locales code_simp+

section \<open>\<^verbatim>\<open>_TryExceptContainerObj\<close> of \<^verbatim>\<open>_pydevd_sys_monitoring_cython.c\<close>\<close>

definition mon_TryExceptContainerObj_traverse :: "string list" where
  "mon_TryExceptContainerObj_traverse =
     [''try_except_infos'']"

definition mon_TryExceptContainerObj_clear :: "string list" where
  "mon_TryExceptContainerObj_clear =
     [''try_except_infos'']"

definition mon_TryExceptContainerObj_dealloc :: "string list" where
  "mon_TryExceptContainerObj_dealloc =
     [''try_except_infos'']"

definition mon_TryExceptContainerObj_type :: cytype where
  "mon_TryExceptContainerObj_type = \<lparr> ct_class = mon_TryExceptContainerObj_class, ct_getsets = [], ct_traverse = mon_TryExceptContainerObj_traverse, ct_clear = mon_TryExceptContainerObj_clear, ct_dealloc = mon_TryExceptContainerObj_dealloc \<rparr>"

interpretation mon_TryExceptContainerObj_type: cy_type mon_TryExceptContainerObj_type
  by unfold_locales code_simp+

section \<open>\<^verbatim>\<open>ThreadInfo\<close> of \<^verbatim>\<open>pydevd_frame_evaluator.c\<close>\<close>

definition fe_ThreadInfo_additional_info :: accessor where
  "fe_ThreadInfo_additional_info = ClassField ''PyDBAdditionalThreadInfo'' ''additional_info''"

definition fe_ThreadInfo_is_pydevd_thread :: accessor where
  "fe_ThreadInfo_is_pydevd_thread = BintField ''is_pydevd_thread''"

definition fe_ThreadInfo_inside_frame_eval :: accessor where
  "fe_ThreadInfo_inside_frame_eval = IntField ''inside_frame_eval''"

definition fe_ThreadInfo_fully_initialized :: accessor where
  "fe_ThreadInfo_fully_initialized = BintField ''fully_initialized''"

definition fe_ThreadInfo_thread_trace_func :: accessor where
  "fe_ThreadInfo_thread_trace_func = ObjectField ''thread_trace_func''"

definition fe_ThreadInfo_force_stay_in_untraced_mode :: accessor where
  "fe_ThreadInfo_force_stay_in_untraced_mode = BintField ''force_stay_in_untraced_mode''"

definition fe_ThreadInfo_getsets :: "accessor list" where
  "fe_ThreadInfo_getsets =
     [fe_ThreadInfo_additional_info, fe_ThreadInfo_is_pydevd_thread, fe_ThreadInfo_inside_frame_eval, fe_ThreadInfo_fully_initialized,
      fe_ThreadInfo_thread_trace_func, fe_ThreadInfo_force_stay_in_untraced_mode]"

definition fe_ThreadInfo_traverse :: "string list" where
  "fe_ThreadInfo_traverse =
     [''additional_info'', ''thread_trace_func'']"

definition fe_ThreadInfo_clear :: "string list" where
  "fe_ThreadInfo_clear =
     [''additional_info'', ''thread_trace_func'']"

definition fe_ThreadInfo_dealloc :: "string list" where
  "fe_ThreadInfo_dealloc =
     [''additional_info'', ''thread_trace_func'']"

definition fe_ThreadInfo_type :: cytype where
  "fe_ThreadInfo_type = \<lparr> ct_class = fe_ThreadInfo_class, ct_getsets = fe_ThreadInfo_getsets, ct_traverse = fe_ThreadInfo_traverse, ct_clear = fe_ThreadInfo_clear, ct_dealloc = fe_ThreadInfo_dealloc \<rparr>"

interpretation fe_ThreadInfo_type: cy_type fe_ThreadInfo_type
  by unfold_locales code_simp+

section \<open>\<^verbatim>\<open>FuncCodeInfo\<close> of \<^verbatim>\<open>pydevd_frame_evaluator.c\<close>\<close>

definition fe_FuncCodeInfo_co_filename :: accessor where
  "fe_FuncCodeInfo_co_filename = BuiltinField ''str'' ''co_filename''"

definition fe_FuncCodeInfo_co_name :: accessor where
  "fe_FuncCodeInfo_co_name = BuiltinField ''str'' ''co_name''"

definition fe_FuncCodeInfo_canonical_normalized_filename :: accessor where
  "fe_FuncCodeInfo_canonical_normalized_filename = BuiltinField ''str'' ''canonical_normalized_filename''"

definition fe_FuncCodeInfo_breakpoint_found :: accessor where
  "fe_FuncCodeInfo_breakpoint_found = BintField ''breakpoint_found''"

definition fe_FuncCodeInfo_new_code :: accessor where
  "fe_FuncCodeInfo_new_code = ObjectField ''new_code''"

definition fe_FuncCodeInfo_breakpoints_mtime :: accessor where
  "fe_FuncCodeInfo_breakpoints_mtime = IntField ''breakpoints_mtime''"

definition fe_FuncCodeInfo_getsets :: "accessor list" where
  "fe_FuncCodeInfo_getsets =
     [fe_FuncCodeInfo_co_filename, fe_FuncCodeInfo_co_name, fe_FuncCodeInfo_canonical_normalized_filename,
      fe_FuncCodeInfo_breakpoint_found, fe_FuncCodeInfo_new_code, fe_FuncCodeInfo_breakpoints_mtime]"

definition fe_FuncCodeInfo_traverse :: "string list" where
  "fe_FuncCodeInfo_traverse =
     [''new_code'']"

definition fe_FuncCodeInfo_clear :: "string list" where
  "fe_FuncCodeInfo_clear =
     [''new_code'']"

definition fe_FuncCodeInfo_dealloc :: "string list" where
  "fe_FuncCodeInfo_dealloc =
     [''co_filename'', ''co_name'', ''canonical_normalized_filename'', ''new_code'']"

definition fe_FuncCodeInfo_type :: cytype where
  "fe_FuncCodeInfo_type = \<lparr> ct_class = fe_FuncCodeInfo_class, ct_getsets = fe_FuncCodeInfo_getsets, ct_traverse = fe_FuncCodeInfo_traverse, ct_clear = fe_FuncCodeInfo_clear, ct_dealloc = fe_FuncCodeInfo_dealloc \<rparr>"

interpretation fe_FuncCodeInfo_type: cy_type fe_FuncCodeInfo_type
  by unfold_locales code_simp+

section \<open>\<^verbatim>\<open>_CodeLineInfo\<close> of \<^verbatim>\<open>pydevd_frame_evaluator.c\<close>\<close>

definition fe_CodeLineInfo_line_to_offset :: accessor where
  "fe_CodeLineInfo_line_to_offset = BuiltinField ''dict'' ''line_to_offset''"

definition fe_CodeLineInfo_first_line :: accessor where
  "fe_CodeLineInfo_first_line = IntField ''first_line''"

definition fe_CodeLineInfo_last_line :: accessor where
  "fe_CodeLineInfo_last_line = IntField ''last_line''"

definition fe_CodeLineInfo_getsets :: "accessor list" where
  "fe_CodeLineInfo_getsets =
     [fe_CodeLineInfo_line_to_offset, fe_CodeLineInfo_first_line, fe_CodeLineInfo_last_line]"

definition fe_CodeLineInfo_traverse :: "string list" where
  "fe_CodeLineInfo_traverse =
     [''line_to_offset'']"

definition fe_CodeLineInfo_clear :: "string list" where
  "fe_CodeLineInfo_clear =
     [''line_to_offset'']"

definition fe_CodeLineInfo_dealloc :: "string list" where
  "fe_CodeLineInfo_dealloc =
     [''line_to_offset'']"

definition fe_CodeLineInfo_type :: cytype where
  "fe_CodeLineInfo_type = \<lparr> ct_class = fe_CodeLineInfo_class, ct_getsets = fe_CodeLineInfo_getsets, ct_traverse = fe_CodeLineInfo_traverse, ct_clear = fe_CodeLineInfo_clear, ct_dealloc = fe_CodeLineInfo_dealloc \<rparr>"

interpretation fe_CodeLineInfo_type: cy_type fe_CodeLineInfo_type
  by unfold_locales code_simp+

section \<open>\<^verbatim>\<open>_CacheValue\<close> of \<^verbatim>\<open>pydevd_frame_evaluator.c\<close>\<close>

definition fe_CacheValue_code_obj_py :: accessor where
  "fe_CacheValue_code_obj_py = ObjectField ''code_obj_py''"

definition fe_CacheValue_code_line_info :: accessor where
  "fe_CacheValue_code_line_info = ClassField ''_CodeLineInfo'' ''code_line_info''"

definition fe_CacheValue_breakpoints_hit_at_lines :: accessor where
  "fe_CacheValue_breakpoints_hit_at_lines = BuiltinField ''set'' ''breakpoints_hit_at_lines''"

definition fe_CacheValue_code_lines_as_set :: accessor where
  "fe_CacheValue_code_lines_as_set = BuiltinField ''set'' ''code_lines_as_set''"

definition fe_CacheValue_getsets :: "accessor list" where
  "fe_CacheValue_getsets =
     [fe_CacheValue_code_obj_py, fe_CacheValue_code_line_info, fe_CacheValue_breakpoints_hit_at_lines, fe_CacheValue_code_lines_as_set]"

definition fe_CacheValue_traverse :: "string list" where
  "fe_CacheValue_traverse =
     [''code_obj_py'', ''code_line_info'', ''breakpoints_hit_at_lines'', ''code_lines_as_set'']"

definition fe_CacheValue_clear :: "string list" where
  "fe_CacheValue_clear =
     [''code_obj_py'', ''code_line_info'', ''breakpoints_hit_at_lines'', ''code_lines_as_set'']"

definition fe_CacheValue_dealloc :: "string list" where
  "fe_CacheValue_dealloc =
     [''code_obj_py'', ''code_line_info'', ''breakpoints_hit_at_lines'', ''code_lines_as_set'']"

definition fe_CacheValue_type :: cytype where
  "fe_CacheValue_type = \<lparr> ct_class = fe_CacheValue_class, ct_getsets = fe_CacheValue_getsets, ct_traverse = fe_CacheValue_traverse, ct_clear = fe_CacheValue_clear, ct_dealloc = fe_CacheValue_dealloc \<rparr>"

interpretation fe_CacheValue_type: cy_type fe_CacheValue_type
  by unfold_locales code_simp+

section \<open>All types\<close>

definition cytypes :: "cytype list" where
  "cytypes =
     [cy_PyDBAdditionalThreadInfo_type, cy_TryExceptContainerObj_type, cy_PyDBFrame_type, cy_SafeCallWrapper_type,
      cy_TopLevelThreadTracerOnlyUnhandledExceptions_type, cy_TopLevelThreadTracerNoBackFrame_type, cy_ThreadTracer_type,
      mon_ThreadInfo_type, mon_FuncCodeInfo_type, mon_CodeLineInfo_type, mon_TryExceptContainerObj_type, fe_ThreadInfo_type,
      fe_FuncCodeInfo_type, fe_CodeLineInfo_type, fe_CacheValue_type]"

lemma cytypes_ok: "T \<in> set cytypes \<Longrightarrow> cy_type T"
  using cy_PyDBAdditionalThreadInfo_type.cy_type_axioms cy_TryExceptContainerObj_type.cy_type_axioms
    cy_PyDBFrame_type.cy_type_axioms cy_SafeCallWrapper_type.cy_type_axioms
    cy_TopLevelThreadTracerOnlyUnhandledExceptions_type.cy_type_axioms cy_TopLevelThreadTracerNoBackFrame_type.cy_type_axioms
    cy_ThreadTracer_type.cy_type_axioms mon_ThreadInfo_type.cy_type_axioms
    mon_FuncCodeInfo_type.cy_type_axioms mon_CodeLineInfo_type.cy_type_axioms
    mon_TryExceptContainerObj_type.cy_type_axioms fe_ThreadInfo_type.cy_type_axioms
    fe_FuncCodeInfo_type.cy_type_axioms fe_CodeLineInfo_type.cy_type_axioms
    fe_CacheValue_type.cy_type_axioms
  by (auto simp: cytypes_def)

text \<open>C36. 
  An object of a compiled class, from its creation on and whatever Python code and the collector do to it, in any order and with any exceptions on the
  way, has in every field a value of the type of the field (so numbers are in their range and objects of the declared class). When it is deallocated,
  exactly the references that its fields own are dropped; once it is cleared, it refers to nothing but None and strings, so no cycle goes through it.
\<close>

theorem object_life:
  assumes "T \<in> set cytypes" and "tp_new (ct_class T) t = Inr x"
  shows "let y = run_ops update T ops x in
    object_ok (ct_class T) y \<and> mset (tp_dealloc T y) = mset (owned (ct_class T) y) \<and>
    list_all (\<lambda>v. v = PNone \<or> hd (type_names v) = ''str'') (owned (ct_class T) (tp_clear T y))"
proof -
  have "object_ok (ct_class T) (run_ops update T ops x)"
    by (rule cy_type.run_ops_ok [OF cytypes_ok [OF assms(1)] cy_type.tp_new_ok [OF cytypes_ok [OF assms(1)] assms(2)]])
  then show ?thesis
    using cytypes_ok [OF assms(1)]
    by (auto simp: Let_def list_all_iff cy_type.dealloc_owned dest: cy_type.clear_owned)
qed

definition info_type :: pytype where
  "info_type = \<lparr> ty_bases = [''PyDBAdditionalThreadInfo'', ''object''], ty_has_dict = False \<rparr>"

definition new_info :: cobject where
  "new_info = (case tp_new cy_PyDBAdditionalThreadInfo_class info_type of Inr x \<Rightarrow> x)"

lemma tp_new_info: "tp_new (ct_class cy_PyDBAdditionalThreadInfo_type) info_type = Inr new_info"
  by (simp add: new_info_def tp_new_def cy_PyDBAdditionalThreadInfo_type_def cy_PyDBAdditionalThreadInfo_class_def info_type_def)

theorem object_life_witness:
  "let y = run_ops (\<lambda>d v. Inl TypeError) cy_PyDBAdditionalThreadInfo_type
       [SetAttr ''pydev_step_cmd'' (PInt 108), SetAttr ''pydev_step_cmd'' (PInt (2 ^ 31)), SetAttr ''pydev_message'' (PInt 3), Clear] new_info in
     object_ok cy_PyDBAdditionalThreadInfo_class y \<and> ac_get cy_PyDBAdditionalThreadInfo_pydev_step_cmd y = PInt 108 \<and>
     ac_get cy_PyDBAdditionalThreadInfo_pydev_message y = PNone"
proof -
  let ?ops = "[SetAttr ''pydev_step_cmd'' (PInt 108), SetAttr ''pydev_step_cmd'' (PInt (2 ^ 31)), SetAttr ''pydev_message'' (PInt 3), Clear]"
  have "cy_PyDBAdditionalThreadInfo_type \<in> set cytypes" by (simp add: cytypes_def)
  moreover have "ct_class cy_PyDBAdditionalThreadInfo_type = cy_PyDBAdditionalThreadInfo_class"
    by (simp add: cy_PyDBAdditionalThreadInfo_type_def)
  moreover have "ac_get cy_PyDBAdditionalThreadInfo_pydev_step_cmd (run_ops (\<lambda>d v. Inl TypeError) cy_PyDBAdditionalThreadInfo_type ?ops new_info) = PInt 108"
    "ac_get cy_PyDBAdditionalThreadInfo_pydev_message (run_ops (\<lambda>d v. Inl TypeError) cy_PyDBAdditionalThreadInfo_type ?ops new_info) = PNone"
    by code_simp+
  ultimately show ?thesis
    using object_life [OF _ tp_new_info, of "\<lambda>d v. Inl TypeError" ?ops] by (simp add: Let_def)
qed

text \<open>C25. 
  An assignment to an attribute of a compiled class either raises what the conversion to the type of the field raises and leaves the object as it was,
  or the attribute reads back as the converted value and every other attribute reads as before.
\<close>

theorem attribute_assignment:
  assumes "T \<in> set cytypes" and "object_ok (ct_class T) x" and "find_accessor T name = Some a"
  shows "case cy_setattr T name (Some v) x of
      (Inl e, y) \<Rightarrow> y = x \<and> from_py (ac_kind a) v = Inl e
    | (Inr _, y) \<Rightarrow> object_ok (ct_class T) y \<and> (\<exists>w. from_py (ac_kind a) v = Inr w \<and> ac_get a y = to_py (ac_kind a) w) \<and>
        (\<forall>b. ac_name b \<noteq> name \<longrightarrow> ac_get b y = ac_get b x)"
  by (rule cy_type.setattr_spec [OF cytypes_ok]) (use assms in auto)

theorem attribute_assignment_witness:
  "cy_setattr cy_PyDBAdditionalThreadInfo_type ''pydev_next_line'' (Some (PInt (- 2147483649))) new_info = (Inl OverflowError, new_info) \<and>
   ac_get cy_PyDBAdditionalThreadInfo_pydev_next_line
     (snd (cy_setattr cy_PyDBAdditionalThreadInfo_type ''pydev_next_line'' (Some (PInt 7)) new_info)) = PInt 7"
proof -
  have T: "cy_PyDBAdditionalThreadInfo_type \<in> set cytypes" by (simp add: cytypes_def)
  have ok: "object_ok (ct_class cy_PyDBAdditionalThreadInfo_type) new_info"
    by (rule cy_type.tp_new_ok [OF cytypes_ok [OF T] tp_new_info])
  have a: "find_accessor cy_PyDBAdditionalThreadInfo_type ''pydev_next_line'' = Some cy_PyDBAdditionalThreadInfo_pydev_next_line"
    by code_simp
  have k: "ac_kind cy_PyDBAdditionalThreadInfo_pydev_next_line = CInt" by code_simp
  have err: "from_py CInt (PInt (- 2147483649)) = Inl OverflowError" and good: "from_py CInt (PInt 7) = Inr (IntV 7)"
    and seven: "to_py CInt (IntV 7) = PInt 7" by code_simp+
  show ?thesis
    using attribute_assignment [OF T ok a, of "PInt (- 2147483649)"] attribute_assignment [OF T ok a, of "PInt 7"]
    by (auto simp: k err good seven simp del: from_py.simps to_py.simps split: prod.splits sum.splits)
qed

end
