(* ===== verification/CyInit.thy ===== *)
theory CyInit
  imports CyCallTables CyObjectTables
begin

text \<open>
  The construction of objects of the compiled classes: \<^verbatim>\<open>tp_new\<close>, the wrapper of \<^verbatim>\<open>__init__\<close> and \<^verbatim>\<open>__init__\<close> itself, which assigns the fields one
  after the other. A constructed object has well-typed fields, with the values of the arguments.
\<close>

section \<open>\<^verbatim>\<open>__init__\<close> as a list of assignments\<close>

text \<open>
  Where a field gets its value from: a parameter, a constant, a parameter of type \<^verbatim>\<open>bint\<close> made an object again, \<^verbatim>\<open>hasattr\<close> of a parameter, or the set of
  the keys of \<^verbatim>\<open>line_to_offset\<close> of a parameter, which is read from the struct without a test for None.
\<close>

datatype init_source = FromArg nat | Const cvalue | BoolOfArg nat | HasAttr nat string | LinesOfArg nat

text \<open>What is outside: \<^verbatim>\<open>hasattr\<close>, and \<^verbatim>\<open>set(x.line_to_offset)\<close> for an object \<^verbatim>\<open>x\<close>.\<close>

record init_env =
  ie_hasattr :: "pv \<Rightarrow> string \<Rightarrow> pyexc + bool"
  ie_lines :: "pv \<Rightarrow> pyexc + pv list"

datatype init_error = CallError call_error | Raised pyexc | FieldOfNone

definition cv :: "argv \<Rightarrow> cvalue" where
  "cv a = (case a of CV v \<Rightarrow> v | LongV w \<Rightarrow> ObjV PNone)"

definition init_value :: "init_env \<Rightarrow> argv list \<Rightarrow> init_source \<Rightarrow> init_error + cvalue" where
  "init_value env as src =
     (case src of
        FromArg i \<Rightarrow> Inr (cv (as ! i))
      | Const v \<Rightarrow> Inr v
      | BoolOfArg i \<Rightarrow> Inr (ObjV (PBool (int_of (cv (as ! i)) \<noteq> 0)))
      | HasAttr i name \<Rightarrow> map_sum Raised (\<lambda>b. ObjV (PBool b)) (ie_hasattr env (obj_of (cv (as ! i))) name)
      | LinesOfArg i \<Rightarrow>
          if obj_of (cv (as ! i)) = PNone then Inl FieldOfNone
          else map_sum Raised (\<lambda>xs. ObjV (PSet xs)) (ie_lines env (obj_of (cv (as ! i)))))"

fun run_init :: "init_env \<Rightarrow> argv list \<Rightarrow> (string \<times> init_source) list \<Rightarrow> cobject \<Rightarrow> init_error + cobject" where
  "run_init env as [] self = Inr self"
| "run_init env as ((f, src) # steps) self =
     (case init_value env as src of Inl e \<Rightarrow> Inl e | Inr v \<Rightarrow> run_init env as steps (with_field f v self))"

record constructor =
  cn_type :: cytype
  cn_sig :: signature
  cn_init :: "(string \<times> init_source) list"

definition construct :: "init_env \<Rightarrow> constructor \<Rightarrow> pytype \<Rightarrow> pv list \<Rightarrow> kw_list option \<Rightarrow> init_error + cobject" where
  "construct env C t args kwds =
     (case tp_new (ct_class (cn_type C)) t of
        Inl e \<Rightarrow> Inl (Raised e)
      | Inr self \<Rightarrow>
          (case pyx_pw (cn_sig C) args kwds of
             Inr (CallWith as) \<Rightarrow> run_init env as (cn_init C) self
           | Inr (CallStar _ _) \<Rightarrow> Inl (Raised TypeError)
           | Inl e \<Rightarrow> Inl (CallError e)))"

section \<open>The constructors of the classes\<close>

definition cy_PyDBAdditionalThreadInfo_init :: "(string \<times> init_source) list" where
  "cy_PyDBAdditionalThreadInfo_init =
     [(''pydev_state'', Const (IntV 1)), (''pydev_step_stop'', Const (ObjV PNone)), (''pydev_original_step_cmd'', Const (IntV (-1))),
      (''pydev_step_cmd'', Const (IntV (-1))), (''pydev_notify_kill'', Const (IntV 0)), (''pydev_django_resolve_frame'', Const (IntV 0)),
      (''pydev_call_from_jinja2'', Const (ObjV PNone)), (''pydev_call_inside_jinja2'', Const (ObjV PNone)), (''is_tracing'', Const (IntV 0)),
      (''conditional_breakpoint_exception'', Const (ObjV PNone)), (''pydev_message'', Const (ObjV (PStr []))), (''suspend_type'', Const (IntV 1)),
      (''pydev_next_line'', Const (IntV (-1))), (''pydev_func_name'', Const (ObjV (PStr ''.invalid.''))), (''suspended_at_unhandled'', Const (IntV 0)),
      (''trace_suspend_type'', Const (ObjV (PStr ''trace''))), (''top_level_thread_tracer_no_back_frames'', Const (ObjV (PList []))),
      (''top_level_thread_tracer_unhandled'', Const (ObjV PNone)), (''thread_tracer'', Const (ObjV PNone)), (''step_in_initial_location'', Const (ObjV PNone)),
      (''pydev_smart_parent_offset'', Const (IntV (-1))), (''pydev_smart_child_offset'', Const (IntV (-1))),
      (''pydev_smart_step_into_variants'', Const (ObjV (PTuple []))), (''target_id_to_smart_step_into_variant'', Const (ObjV (PDict []))),
      (''pydev_use_scoped_step_frame'', Const (IntV 0)), (''weak_thread'', Const (ObjV PNone)), (''is_in_wait_loop'', Const (IntV 0))]"

definition cy_TryExceptContainerObj_init :: "(string \<times> init_source) list" where
  "cy_TryExceptContainerObj_init = [(''try_except_infos'', Const (ObjV PNone))]"

definition cy_PyDBFrame_init :: "(string \<times> init_source) list" where
  "cy_PyDBFrame_init = [(''_args'', FromArg 0), (''should_skip'', Const (IntV (-1))), (''exc_info'', Const (ObjV (PTuple [])))]"

definition cy_SafeCallWrapper_init :: "(string \<times> init_source) list" where
  "cy_SafeCallWrapper_init = [(''method_object'', FromArg 0)]"

definition cy_TopLevelThreadTracerOnlyUnhandledExceptions_init :: "(string \<times> init_source) list" where
  "cy_TopLevelThreadTracerOnlyUnhandledExceptions_init = [(''_args'', FromArg 0)]"

definition cy_TopLevelThreadTracerNoBackFrame_init :: "(string \<times> init_source) list" where
  "cy_TopLevelThreadTracerNoBackFrame_init =
     [(''_frame_trace_dispatch'', FromArg 0), (''_args'', FromArg 1), (''try_except_infos'', Const (ObjV PNone)), (''_last_exc_arg'', Const (ObjV PNone)),
      (''_raise_lines'', Const (ObjV (PSet []))), (''_last_raise_line'', Const (IntV (-1)))]"

definition cy_ThreadTracer_init :: "(string \<times> init_source) list" where
  "cy_ThreadTracer_init = [(''_args'', FromArg 0)]"

definition mon_ThreadInfo_init :: "(string \<times> init_source) list" where
  "mon_ThreadInfo_init =
     [(''thread'', FromArg 0), (''thread_ident'', FromArg 1), (''additional_info'', FromArg 3), (''trace'', BoolOfArg 2),
      (''_use_is_stopped'', HasAttr 0 ''_is_stopped'')]"

definition mon_FuncCodeInfo_init :: "(string \<times> init_source) list" where
  "mon_FuncCodeInfo_init =
     [(''co_filename'', Const (ObjV (PStr []))), (''canonical_normalized_filename'', Const (ObjV (PStr []))), (''abs_path_filename'', Const (ObjV (PStr []))),
      (''always_skip_code'', Const (IntV 0)), (''breakpoint_found'', Const (IntV 0)), (''function_breakpoint_found'', Const (IntV 0)),
      (''plugin_line_breakpoint_found'', Const (IntV 0)), (''plugin_call_breakpoint_found'', Const (IntV 0)), (''plugin_line_stepping'', Const (IntV 0)),
      (''plugin_call_stepping'', Const (IntV 0)), (''plugin_return_stepping'', Const (IntV 0)), (''pydb_mtime'', Const (IntV (-1))),
      (''bp_line_to_breakpoint'', Const (ObjV (PDict []))), (''function_breakpoint'', Const (ObjV PNone)), (''always_filtered_out'', Const (IntV 0)),
      (''filtered_out_force_checked'', Const (IntV 0)), (''try_except_container_obj'', Const (ObjV PNone)), (''code_obj'', Const (ObjV PNone)),
      (''co_name'', Const (ObjV (PStr [])))]"

definition mon_CodeLineInfo_init :: "(string \<times> init_source) list" where
  "mon_CodeLineInfo_init = [(''line_to_offset'', FromArg 0), (''first_line'', FromArg 1), (''last_line'', FromArg 2)]"

definition mon_TryExceptContainerObj_init :: "(string \<times> init_source) list" where
  "mon_TryExceptContainerObj_init = [(''try_except_infos'', FromArg 0)]"

definition fe_FuncCodeInfo_init :: "(string \<times> init_source) list" where
  "fe_FuncCodeInfo_init =
     [(''co_filename'', Const (ObjV (PStr []))), (''canonical_normalized_filename'', Const (ObjV (PStr []))), (''always_skip_code'', Const (IntV 0)),
      (''breakpoint_found'', Const (IntV 0)), (''new_code'', Const (ObjV PNone)), (''breakpoints_mtime'', Const (IntV (-1)))]"

definition fe_CodeLineInfo_init :: "(string \<times> init_source) list" where
  "fe_CodeLineInfo_init = [(''line_to_offset'', FromArg 0), (''first_line'', FromArg 1), (''last_line'', FromArg 2)]"

definition fe_CacheValue_init :: "(string \<times> init_source) list" where
  "fe_CacheValue_init =
     [(''code_obj_py'', FromArg 0), (''code_line_info'', FromArg 1), (''breakpoints_hit_at_lines'', FromArg 2), (''code_lines_as_set'', LinesOfArg 1)]"

definition constructors :: "constructor list" where
  "constructors =
     [\<lparr> cn_type = cy_PyDBAdditionalThreadInfo_type, cn_sig = cy_PyDBAdditionalThreadInfo_init_sig, cn_init = cy_PyDBAdditionalThreadInfo_init \<rparr>,
      \<lparr> cn_type = cy_TryExceptContainerObj_type, cn_sig = cy_TryExceptContainerObj_init_sig, cn_init = cy_TryExceptContainerObj_init \<rparr>,
      \<lparr> cn_type = cy_PyDBFrame_type, cn_sig = cy_PyDBFrame_init_sig, cn_init = cy_PyDBFrame_init \<rparr>,
      \<lparr> cn_type = cy_SafeCallWrapper_type, cn_sig = cy_SafeCallWrapper_init_sig, cn_init = cy_SafeCallWrapper_init \<rparr>,
      \<lparr> cn_type = cy_TopLevelThreadTracerOnlyUnhandledExceptions_type, cn_sig = cy_TopLevelThreadTracerOnlyUnhandledExceptions_init_sig,
        cn_init = cy_TopLevelThreadTracerOnlyUnhandledExceptions_init \<rparr>,
      \<lparr> cn_type = cy_TopLevelThreadTracerNoBackFrame_type, cn_sig = cy_TopLevelThreadTracerNoBackFrame_init_sig,
        cn_init = cy_TopLevelThreadTracerNoBackFrame_init \<rparr>,
      \<lparr> cn_type = cy_ThreadTracer_type, cn_sig = cy_ThreadTracer_init_sig, cn_init = cy_ThreadTracer_init \<rparr>,
      \<lparr> cn_type = mon_ThreadInfo_type, cn_sig = mon_ThreadInfo_init_sig, cn_init = mon_ThreadInfo_init \<rparr>,
      \<lparr> cn_type = mon_FuncCodeInfo_type, cn_sig = mon_FuncCodeInfo_init_sig, cn_init = mon_FuncCodeInfo_init \<rparr>,
      \<lparr> cn_type = mon_CodeLineInfo_type, cn_sig = mon_CodeLineInfo_init_sig, cn_init = mon_CodeLineInfo_init \<rparr>,
      \<lparr> cn_type = mon_TryExceptContainerObj_type, cn_sig = mon_TryExceptContainerObj_init_sig, cn_init = mon_TryExceptContainerObj_init \<rparr>,
      \<lparr> cn_type = fe_FuncCodeInfo_type, cn_sig = fe_FuncCodeInfo_init_sig, cn_init = fe_FuncCodeInfo_init \<rparr>,
      \<lparr> cn_type = fe_CodeLineInfo_type, cn_sig = fe_CodeLineInfo_init_sig, cn_init = fe_CodeLineInfo_init \<rparr>,
      \<lparr> cn_type = fe_CacheValue_type, cn_sig = fe_CacheValue_init_sig, cn_init = fe_CacheValue_init \<rparr>]"

section \<open>Constructed objects\<close>

text \<open>The source of a field fits its kind.\<close>

definition source_fits :: "param list \<Rightarrow> init_source \<Rightarrow> field_kind \<Rightarrow> bool" where
  "source_fits ps src k \<longleftrightarrow>
     (case src of
        FromArg i \<Rightarrow> i < length ps \<and> pm_kind (ps ! i) = Field k
      | Const v \<Rightarrow> value_ok k v
      | BoolOfArg i \<Rightarrow> k = AnyObject
      | HasAttr i name \<Rightarrow> k = AnyObject
      | LinesOfArg i \<Rightarrow> k = Exactly ''set'')"

definition constructor_ok :: "constructor \<Rightarrow> bool" where
  "constructor_ok C \<longleftrightarrow>
     (case sg_shape (cn_sig C) of
        Params ps \<Rightarrow> params_ok ps \<and> distinct (map fst (cn_init C)) \<and>
          list_all (\<lambda>(f, src). case map_of (cc_struct (ct_class (cn_type C))) f of None \<Rightarrow> False | Some k \<Rightarrow> source_fits ps src k) (cn_init C)
      | StarArgs _ _ \<Rightarrow> False)"

lemma constructors_ok: "list_all constructor_ok constructors"
  by code_simp

lemma init_value_ok:
  assumes "source_fits ps src k" and "list_all2 (\<lambda>p a. arg_ok (pm_kind p) a) ps as" and "init_value env as src = Inr v"
  shows "value_ok k v"
proof (cases src)
  case (FromArg i)
  with assms have "arg_ok (Field k) (as ! i)" by (auto simp: source_fits_def list_all2_conv_all_nth)
  with FromArg assms(3) show ?thesis by (cases "as ! i") (auto simp: init_value_def cv_def)
next
  case (HasAttr i name)
  with assms(1,3) show ?thesis by (auto simp: source_fits_def init_value_def map_sum_def split: sum.splits)
next
  case (LinesOfArg i)
  with assms(1,3) show ?thesis by (auto simp: source_fits_def init_value_def map_sum_def has_type_def split: sum.splits if_splits)
qed (use assms(1,3) in \<open>auto simp: source_fits_def init_value_def\<close>)

lemma run_init_ok:
  assumes "cy_type T" and "list_all2 (\<lambda>p a. arg_ok (pm_kind p) a) ps as"
    and "list_all (\<lambda>(f, src). case map_of (cc_struct (ct_class T)) f of None \<Rightarrow> False | Some k \<Rightarrow> source_fits ps src k) steps"
    and "distinct (map fst steps)" and "object_ok (ct_class T) self" and "run_init env as steps self = Inr x"
  shows "object_ok (ct_class T) x \<and> co_type x = co_type self \<and> (\<forall>f. f \<notin> fst ` set steps \<longrightarrow> co_val x f = co_val self f) \<and>
    list_all (\<lambda>(f, src). init_value env as src = Inr (co_val x f)) steps"
  using assms(3-)
proof (induction steps arbitrary: self)
  case (Cons s steps)
  obtain f src where s: "s = (f, src)" by fastforce
  from Cons.prems s obtain k where k: "map_of (cc_struct (ct_class T)) f = Some k" "source_fits ps src k" by (auto split: option.splits)
  from Cons.prems s obtain v where v: "init_value env as src = Inr v" "run_init env as steps (with_field f v self) = Inr x"
    by (auto split: sum.splits)
  have "object_ok (ct_class T) (with_field f v self)"
    by (rule cy_type.object_ok_with_field [OF assms(1) Cons.prems(3) map_of_SomeD [OF k(1)] init_value_ok [OF k(2) assms(2) v(1)]])
  from Cons.IH [OF _ _ this v(2)] Cons.prems s v show ?case by (auto simp: list_all_iff)
qed simp

lemma constructors_types: "C \<in> set constructors \<Longrightarrow> cy_type (cn_type C)"
  by (rule cytypes_ok) (auto simp: constructors_def cytypes_def)

text \<open>The first field that cannot get its value ends the initialization.\<close>

lemma run_init_result:
  "case find (\<lambda>(f, src). isl (init_value env as src)) steps of
     Some (f, src) \<Rightarrow> run_init env as steps self = Inl (projl (init_value env as src)) \<and> (f, src) \<in> set steps
   | None \<Rightarrow> \<exists>x. run_init env as steps self = Inr x"
proof (induction steps arbitrary: self)
  case (Cons s steps)
  obtain f src where s: "s = (f, src)" by fastforce
  show ?case
  proof (cases "init_value env as src")
    case (Inl e)
    then show ?thesis using s by simp
  next
    case (Inr v)
    with Cons [of "with_field f v self"] s show ?thesis by (auto split: option.splits)
  qed
qed simp

lemma value_from_outside: "isl (init_value env as src) \<Longrightarrow> (\<exists>i name. src = HasAttr i name) \<or> (\<exists>i. src = LinesOfArg i)"
  by (cases src) (auto simp: init_value_def)

text \<open>The arguments that a call has by the rules of the language.\<close>

definition arguments_of :: "param list \<Rightarrow> pv list \<Rightarrow> kw_list \<Rightarrow> call_error + argv list" where
  "arguments_of ps args kw = (case bind_reference ps args kw of Inl e \<Rightarrow> Inl e | Inr vs \<Rightarrow> reference_args ps vs)"

lemma wrapper_arguments:
  assumes "call_rule sg args kw r" and "sg_shape sg = Params ps"
  shows "case arguments_of ps args kw of Inl e \<Rightarrow> \<exists>e'. r = Inl e' \<and> (ps \<noteq> [] \<longrightarrow> e' = e) | Inr as \<Rightarrow> r = Inr (CallWith as)"
  using assms by (auto simp: call_rule_def arguments_of_def split: sum.splits if_splits)

text \<open>C37. 
  A call of a compiled class whose arguments fit the signature of \<^verbatim>\<open>__init__\<close> makes an object of the type that was asked for: well typed, with the
  value that its source gives for every field that \<^verbatim>\<open>__init__\<close> assigns and the value of \<^verbatim>\<open>tp_new\<close> for the others. It fails only when a
  value from outside cannot be had: when \<^verbatim>\<open>hasattr\<close> raises, or the lines of a \<^verbatim>\<open>_CacheValue\<close> cannot be read, which for None is
  not an exception but a read of a field that is not there. A call whose arguments do not fit raises the error of the wrapper.
\<close>

theorem constructed_object:
  assumes "C \<in> set constructors" and "sg_shape (cn_sig C) = Params ps" and "tp_new (ct_class (cn_type C)) t = Inr self"
    and "distinct (map fst (case kwds of None \<Rightarrow> [] | Some kw \<Rightarrow> kw))"
  shows "case arguments_of ps args (case kwds of None \<Rightarrow> [] | Some kw \<Rightarrow> kw) of
      Inl e \<Rightarrow> \<exists>e'. construct env C t args kwds = Inl (CallError e') \<and> (ps \<noteq> [] \<longrightarrow> e' = e)
    | Inr as \<Rightarrow>
        (case find (\<lambda>(f, src). isl (init_value env as src)) (cn_init C) of
           Some (f, src) \<Rightarrow> construct env C t args kwds = Inl (projl (init_value env as src)) \<and>
             ((\<exists>i name. src = HasAttr i name) \<or> (\<exists>i. src = LinesOfArg i))
         | None \<Rightarrow> \<exists>x. construct env C t args kwds = Inr x \<and> object_ok (ct_class (cn_type C)) x \<and> co_type x = t \<and>
             list_all (\<lambda>(f, src). init_value env as src = Inr (co_val x f)) (cn_init C) \<and>
             (\<forall>f. f \<notin> fst ` set (cn_init C) \<longrightarrow> co_val x f = co_val self f))"
proof -
  let ?kw = "case kwds of None \<Rightarrow> [] | Some kw \<Rightarrow> kw"
  from assms(1) constructors_ok have "constructor_ok C" by (auto simp: list_all_iff)
  with assms(2) have ok: "distinct (map fst (cn_init C))"
    "list_all (\<lambda>(f, src). case map_of (cc_struct (ct_class (cn_type C))) f of None \<Rightarrow> False | Some k \<Rightarrow> source_fits ps src k) (cn_init C)"
    by (auto simp: constructor_ok_def)
  from assms(1) have sig: "cn_sig C \<in> set entry_points" by (auto simp: constructors_def entry_points_def)
  note call = wrapper_arguments [OF pyx_pw_params [OF sig assms(2,4), of args] assms(2)]
  show ?thesis
  proof (cases "arguments_of ps args ?kw")
    case (Inl e)
    with call assms(3) show ?thesis by (auto simp: construct_def)
  next
    case (Inr as)
    with call have pw: "pyx_pw (cn_sig C) args kwds = Inr (CallWith as)" by simp
    with assms(3) have run: "construct env C t args kwds = run_init env as (cn_init C) self" by (simp add: construct_def)
    show ?thesis
    proof (cases "find (\<lambda>(f, src). isl (init_value env as src)) (cn_init C)")
      case None
      then obtain x where x: "run_init env as (cn_init C) self = Inr x"
        using run_init_result [of env as "cn_init C" self] by auto
      have T: "cy_type (cn_type C)" by (rule constructors_types [OF assms(1)])
      have self: "object_ok (ct_class (cn_type C)) self" by (rule cy_type.tp_new_ok [OF T assms(3)])
      have typed: "list_all2 (\<lambda>p a. arg_ok (pm_kind p) a) ps as"
        using pyx_pw_typed [OF entry_pointI [OF sig assms(2)] assms(2,4) pw] by simp
      have "co_type self = t" using assms(3) by (auto simp: tp_new_def split: if_splits)
      with run_init_ok [OF T typed ok(2,1) self x] run x Inr None show ?thesis by simp
    next
      case (Some s)
      obtain f src where s: "s = (f, src)" by fastforce
      have "isl (init_value env as src)" using Some s by (auto simp: find_Some_iff)
      with run_init_result [of env as "cn_init C" self] value_from_outside run Inr Some s show ?thesis by simp
    qed
  qed
qed

definition demo_env :: init_env where
  "demo_env = \<lparr> ie_hasattr = (\<lambda>v n. Inr False), ie_lines = (\<lambda>v. Inr [PInt 7]) \<rparr>"

definition line_info_type :: pytype where
  "line_info_type = \<lparr> ty_bases = [''_CodeLineInfo'', ''object''], ty_has_dict = False \<rparr>"

definition line_info_constructor :: constructor where
  "line_info_constructor = \<lparr> cn_type = fe_CodeLineInfo_type, cn_sig = fe_CodeLineInfo_init_sig, cn_init = fe_CodeLineInfo_init \<rparr>"

theorem constructed_object_witness:
  "(\<exists>x. construct demo_env line_info_constructor line_info_type [PDict []]
      (Some [(KStr ''last_line'', PInt 9), (KStr ''first_line'', PInt 3)]) = Inr x \<and>
      object_ok fe_CodeLineInfo_class x \<and> co_val x ''last_line'' = IntV 9) \<and>
   construct demo_env line_info_constructor line_info_type [PInt 1]
     (Some [(KStr ''last_line'', PInt 9), (KStr ''first_line'', PInt 3)]) = Inl (CallError (ArgumentType ''line_to_offset''))"
proof -
  let ?kw = "Some [(KStr ''last_line'', PInt 9), (KStr ''first_line'', PInt 3)]"
  let ?ps = "[arg ''line_to_offset'' (Exactly ''dict''), arg ''first_line'' CInt, arg ''last_line'' CInt]"
  have C: "line_info_constructor \<in> set constructors" by (simp add: constructors_def line_info_constructor_def)
  have shape: "sg_shape (cn_sig line_info_constructor) = Params ?ps"
    by (simp add: line_info_constructor_def fe_CodeLineInfo_init_sig_def)
  have new: "\<exists>self. tp_new (ct_class (cn_type line_info_constructor)) line_info_type = Inr self"
    by (simp add: tp_new_def line_info_type_def line_info_constructor_def fe_CodeLineInfo_type_def fe_CodeLineInfo_class_def)
  have args: "arguments_of ?ps [PDict []] (case ?kw of None \<Rightarrow> [] | Some kw \<Rightarrow> kw) = Inr [CV (ObjV (PDict [])), CV (IntV 3), CV (IntV 9)]"
    "arguments_of ?ps [PInt 1] (case ?kw of None \<Rightarrow> [] | Some kw \<Rightarrow> kw) = Inl (ArgumentType ''line_to_offset'')"
    by code_simp+
  have "find (\<lambda>(f, src). isl (init_value demo_env [CV (ObjV (PDict [])), CV (IntV 3), CV (IntV 9)] src)) (cn_init line_info_constructor) = None"
    by (simp add: line_info_constructor_def fe_CodeLineInfo_init_def init_value_def)
  with new constructed_object [OF C shape, where t = line_info_type and kwds = ?kw and args = "[PDict []]" and env = demo_env]
    constructed_object [OF C shape, where t = line_info_type and kwds = ?kw and args = "[PInt 1]" and env = demo_env]
  show ?thesis unfolding args
    by (auto simp: line_info_constructor_def fe_CodeLineInfo_type_def fe_CodeLineInfo_init_def init_value_def cv_def)
qed

text \<open>A \<^verbatim>\<open>_CacheValue\<close> for no line information: the wrapper lets None through, and the constructor reads a field of it.\<close>

definition cache_value_constructor :: constructor where
  "cache_value_constructor = \<lparr> cn_type = fe_CacheValue_type, cn_sig = fe_CacheValue_init_sig, cn_init = fe_CacheValue_init \<rparr>"

lemma cache_value_of_none:
  "case construct env cache_value_constructor \<lparr> ty_bases = [''_CacheValue'', ''object''], ty_has_dict = False \<rparr> [PNone, PNone, PSet []] None of
     Inl e \<Rightarrow> e = FieldOfNone | Inr x \<Rightarrow> False"
  by code_simp

end
