(* ===== verification/CyInts.thy ===== *)
theory CyInts
  imports CyRuntime
begin

text \<open>
  The fast paths that Cython compiles arithmetic, comparison, indexing and slicing to: \<^verbatim>\<open>__Pyx_PyInt_AddObjC\<close>, \<^verbatim>\<open>__Pyx_PyInt_AndObjC\<close> and
  \<^verbatim>\<open>__Pyx_PyInt_BoolEqObjC\<close> for an integer and a constant of the program, \<^verbatim>\<open>__Pyx_GetItemInt_List_Fast\<close>, \<^verbatim>\<open>__Pyx_GetItemInt_Tuple_Fast\<close> and
  \<^verbatim>\<open>__Pyx_crop_slice\<close>. They work on the digits of the integer and on 64-bit C integers; here they are shown to compute what Python means.
\<close>

section \<open>The operand as a C long\<close>

text \<open>
  A compact integer, or the digits assembled by the \<^verbatim>\<open>switch\<close>. Its guards \<^verbatim>\<open>8 * sizeof(long) - 1 > n * PyLong_SHIFT\<close> hold for \<open>n = 2\<close> only, for
  \<^verbatim>\<open>long\<close> and for \<^verbatim>\<open>long long\<close>; integers with more digits fall through to the default.
\<close>

definition long_operand :: "pylong \<Rightarrow> 64 word option" where
  "long_operand x =
     (case pl_digits x of
        [] \<Rightarrow> Some 0
      | [d] \<Rightarrow> Some (if pl_neg x then - of_nat d else of_nat d)
      | [d0, d1] \<Rightarrow>
          (let m = (push_bit 30 (of_nat d1) OR of_nat d0 :: 64 word) in Some (if pl_neg x then - m else m))
      | _ \<Rightarrow> None)"

text \<open>The result of an operation is a Python integer, given by its value.\<close>

definition PyInt_AddObjC :: "pylong \<Rightarrow> 64 word \<Rightarrow> int" where
  "PyInt_AddObjC op1 intval =
     (if pl_digits op1 = [] then sint intval
      else case long_operand op1 of
        Some a \<Rightarrow> sint (a + intval)
      | None \<Rightarrow> pylong_value op1 + sint intval)"

abbreviation PyLong_MASK :: "64 word" where
  "PyLong_MASK \<equiv> mask 30"

text \<open>Zero is stored with one digit 0 that does not count.\<close>

definition first_digit :: "pylong \<Rightarrow> 64 word" where
  "first_digit x = (case pl_digits x of [] \<Rightarrow> 0 | d # _ \<Rightarrow> of_nat d)"

definition is_pos :: "pylong \<Rightarrow> bool" where
  "is_pos x \<longleftrightarrow> pl_digits x \<noteq> [] \<and> \<not> pl_neg x"

definition is_neg :: "pylong \<Rightarrow> bool" where
  "is_neg x \<longleftrightarrow> pl_digits x \<noteq> [] \<and> pl_neg x"

definition PyInt_AndObjC :: "pylong \<Rightarrow> 64 word \<Rightarrow> int" where
  "PyInt_AndObjC op1 intval =
     (if intval AND PyLong_MASK = intval then
        (let last_digit = first_digit op1 in
         sint (intval AND (if is_pos op1 then last_digit else PyLong_MASK - last_digit + 1)))
      else if pl_digits op1 = [] then 0
      else case long_operand op1 of
        Some a \<Rightarrow> sint (a AND intval)
      | None \<Rightarrow> pylong_value op1 AND sint intval)"

text \<open>\<^verbatim>\<open>__Pyx_PyInt_BoolEqObjC\<close> compares the number of digits first; the digits are read only when it is right.\<close>

definition equal_digits :: "pylong \<Rightarrow> 64 word \<Rightarrow> nat \<Rightarrow> bool" where
  "equal_digits op1 uintval n \<longleftrightarrow>
     length (pl_digits op1) = n \<and>
     list_all (\<lambda>i. of_nat (pl_digits op1 ! i) = drop_bit (30 * i) uintval AND PyLong_MASK) [0..<n]"

definition PyInt_BoolEqObjC :: "pylong \<Rightarrow> 64 word \<Rightarrow> bool" where
  "PyInt_BoolEqObjC op1 intval \<longleftrightarrow>
     (if intval = 0 then pl_digits op1 = []
      else if intval <s 0 \<and> \<not> is_neg op1 then False
      else if 0 <s intval \<and> is_neg op1 then False
      else
        let uintval = (if intval <s 0 then - intval else intval) in
        if drop_bit 60 uintval \<noteq> 0 then equal_digits op1 uintval 3
        else if drop_bit 30 uintval \<noteq> 0 then equal_digits op1 uintval 2
        else equal_digits op1 uintval 1)"

section \<open>The operations are exact\<close>

lemma sint_of_int_long:
  "- (2 ^ 63) \<le> n \<Longrightarrow> n < 2 ^ 63 \<Longrightarrow> sint (of_int n :: 64 word) = n"
  by (simp add: sint_sbintrunc' signed_take_bit_int_eq_self_iff)

lemma sint_small:
  assumes "uint (w :: 64 word) < 2 ^ 63"
  shows "sint w = uint w"
proof -
  have "- (2 ^ 63) \<le> uint w" by (rule order_trans [of _ 0]) simp_all
  with sint_of_int_long [of "uint w"] assms show ?thesis by simp
qed

lemma and_low_bits: "take_bit n a AND b = take_bit n a AND take_bit n (b :: int)"
  by (rule bit_eqI) (auto simp: bit_simps)

lemma long_operand_value:
  assumes "pylong_ok x" and "long_operand x = Some a"
  shows "a = of_int (pylong_value x)" and "\<bar>pylong_value x\<bar> < 2 ^ 60" and "sint a = pylong_value x"
proof -
  obtain neg ds where x: "x = PyLong neg ds" by (cases x)
  have "a = of_int (pylong_value x) \<and> \<bar>pylong_value x\<bar> < 2 ^ 60"
  proof (cases ds rule: remdups_adj.cases)
    case 1
    with assms x show ?thesis by (simp add: long_operand_def pylong_value_def)
  next
    case (2 d)
    with assms x show ?thesis by (auto simp: long_operand_def pylong_value_def pylong_ok_def)
  next
    case (3 d0 d1 r)
    with assms x have r: "r = []" "d0 < 2 ^ 30" "d1 < 2 ^ 30"
      by (auto simp: long_operand_def pylong_ok_def split: list.splits)
    have a: "a = (if neg then - of_int (int (d0 + 2 ^ 30 * d1)) else of_int (int (d0 + 2 ^ 30 * d1)))"
      using assms(2) 3 r x two_digits_word [OF r(2,3)] by (simp add: long_operand_def Let_def split: if_splits)
    have "d0 + 2 ^ 30 * d1 < 2 ^ 60" using r by simp
    then show ?thesis using a 3 r x by (auto simp: pylong_value_def)
  qed
  then show "a = of_int (pylong_value x)" "\<bar>pylong_value x\<bar> < 2 ^ 60" by simp_all
  then show "sint a = pylong_value x"
    using sint_of_int_long [of "pylong_value x"] by simp
qed

lemma add_exact:
  assumes "pylong_ok op1" and "\<bar>sint intval\<bar> \<le> 2 ^ 62"
  shows "PyInt_AddObjC op1 intval = pylong_value op1 + sint intval"
proof (cases "long_operand op1")
  case None
  then show ?thesis by (auto simp: PyInt_AddObjC_def long_operand_def)
next
  case (Some a)
  note a = long_operand_value [OF assms(1) Some]
  have "a + intval = of_int (pylong_value op1 + sint intval)" using a(1) by simp
  moreover have "- (2 ^ 63) \<le> pylong_value op1 + sint intval" "pylong_value op1 + sint intval < 2 ^ 63"
    using a(2) assms(2) by auto
  ultimately have "sint (a + intval) = pylong_value op1 + sint intval"
    using sint_of_int_long by metis
  then show ?thesis using Some by (auto simp: PyInt_AddObjC_def pylong_value_def)
qed

lemma first_digit_value:
  assumes "pylong_ok x"
  shows "uint (first_digit x) = int (digits_value (pl_digits x)) mod 2 ^ 30"
proof (cases "pl_digits x")
  case (Cons d ds)
  with assms have d: "d < 2 ^ 30" by (simp add: pylong_ok_def)
  then have "uint (of_nat d :: 64 word) = int d" by (simp add: unsigned_of_nat take_bit_nat_eq_self)
  with Cons d show ?thesis by (simp add: first_digit_def zmod_int)
qed (simp add: first_digit_def)

text \<open>The complement of the first digit has the low bits of the negative number.\<close>

lemma low_bits_of_operand:
  assumes "pylong_ok op1"
  shows "take_bit 30 (uint (if is_pos op1 then first_digit op1 else PyLong_MASK - first_digit op1 + 1)) = take_bit 30 (pylong_value op1)"
proof (cases "is_pos op1")
  case True
  then show ?thesis using first_digit_value [OF assms] by (simp add: is_pos_def pylong_value_def take_bit_eq_mod)
next
  case False
  have "PyLong_MASK - first_digit op1 + 1 = of_int (2 ^ 30 - uint (first_digit op1))" by (simp add: mask_eq_exp_minus_1)
  then have "take_bit 30 (uint (PyLong_MASK - first_digit op1 + 1)) = take_bit 30 (2 ^ 30 - uint (first_digit op1))"
    by (simp only: uint_word_of_int_eq take_bit_take_bit) simp
  also have "\<dots> = (- int (digits_value (pl_digits op1))) mod 2 ^ 30"
    using first_digit_value [OF assms] by (simp add: take_bit_eq_mod mod_diff_right_eq mod_simps)
  also have "\<dots> = take_bit 30 (pylong_value op1)"
    using False by (auto simp: is_pos_def pylong_value_def take_bit_eq_mod)
  finally show ?thesis using False by simp
qed

lemma and_small_constant:
  assumes "pylong_ok op1" and "intval AND PyLong_MASK = intval"
  shows "PyInt_AndObjC op1 intval = pylong_value op1 AND sint intval"
proof -
  let ?b = "uint intval" and ?l = "if is_pos op1 then first_digit op1 else PyLong_MASK - first_digit op1 + 1"
  have "take_bit 30 intval = intval" using assms(2) by (simp add: take_bit_eq_mask)
  then have b: "take_bit 30 ?b = ?b" by (metis unsigned_take_bit_eq)
  then have bound: "?b < 2 ^ 30" by (metis take_bit_int_less_exp)
  have "uint (intval AND ?l) = take_bit 30 ?b AND uint ?l" by (simp only: b unsigned_and_eq)
  also have "\<dots> = take_bit 30 ?b AND take_bit 30 (pylong_value op1)"
    by (simp only: and_low_bits [of 30 ?b "uint ?l"] low_bits_of_operand [OF assms(1)])
  also have "\<dots> = pylong_value op1 AND ?b"
    using and_low_bits [of 30 ?b "pylong_value op1"] b by (simp add: and.commute)
  finally have u: "uint (intval AND ?l) = pylong_value op1 AND ?b" .
  have "uint (intval AND ?l) < 2 ^ 63" unfolding u using bound AND_upper2 [of ?b "pylong_value op1"] by simp
  then show ?thesis
    using assms(2) u bound by (simp add: PyInt_AndObjC_def Let_def sint_small)
qed

lemma and_exact:
  assumes "pylong_ok op1"
  shows "PyInt_AndObjC op1 intval = pylong_value op1 AND sint intval"
proof (cases "intval AND PyLong_MASK = intval")
  case True
  then show ?thesis by (rule and_small_constant [OF assms])
next
  case False
  show ?thesis
  proof (cases "long_operand op1")
    case None
    with False show ?thesis by (auto simp: PyInt_AndObjC_def long_operand_def)
  next
    case (Some a)
    then show ?thesis
      using False long_operand_value(3) [OF assms Some] by (auto simp: PyInt_AndObjC_def signed_and_eq pylong_value_def)
  qed
qed

text \<open>The digits of a number are determined by it.\<close>

fun digits_of :: "nat \<Rightarrow> nat list" where
  "digits_of n = (if n = 0 then [] else n mod 2 ^ 30 # digits_of (n div 2 ^ 30))"

declare digits_of.simps [simp del]

lemma digits_value_zero: "\<forall>d \<in> set ds. d < 2 ^ 30 \<Longrightarrow> ds \<noteq> [] \<longrightarrow> last ds \<noteq> 0 \<Longrightarrow> digits_value ds = 0 \<longleftrightarrow> ds = []"
  by (induction ds rule: digits_value.induct) (auto split: if_splits)

lemma digits_of_value:
  "\<forall>d \<in> set ds. d < 2 ^ 30 \<Longrightarrow> ds \<noteq> [] \<longrightarrow> last ds \<noteq> 0 \<Longrightarrow> digits_of (digits_value ds) = ds"
proof (induction ds rule: digits_value.induct)
  case (2 d ds)
  then have "digits_of (digits_value ds) = ds" by (auto split: if_splits)
  moreover have "digits_value (d # ds) \<noteq> 0" using digits_value_zero [of "d # ds"] 2 by simp
  ultimately show ?case using 2 by (subst digits_of.simps) simp
qed (simp add: digits_of.simps)

lemma value_of_digits: "digits_value (digits_of n) = n"
proof (induction n rule: digits_of.induct)
  case (1 n)
  then show ?case by (cases "n = 0") (simp_all add: digits_of.simps [of n] digits_of.simps [of 0])
qed

lemma digits_of_small:
  "0 < n \<Longrightarrow> n < 2 ^ 30 \<Longrightarrow> digits_of n = [n]"
  "2 ^ 30 \<le> n \<Longrightarrow> n < 2 ^ 60 \<Longrightarrow> digits_of n = [n mod 2 ^ 30, n div 2 ^ 30]"
  "2 ^ 60 \<le> n \<Longrightarrow> n < 2 ^ 90 \<Longrightarrow> digits_of n = [n mod 2 ^ 30, n div 2 ^ 30 mod 2 ^ 30, n div 2 ^ 60]"
proof -
  show 1: "digits_of n = [n]" if "0 < n" "n < 2 ^ 30" for n
    using that by (simp add: digits_of.simps [of n] digits_of.simps [of 0])
  show 2: "digits_of n = [n mod 2 ^ 30, n div 2 ^ 30]" if "2 ^ 30 \<le> n" "n < 2 ^ 60" for n
    using that 1 [of "n div 2 ^ 30"] by (simp add: digits_of.simps [of n] div_greater_zero_iff less_mult_imp_div_less)
  show "digits_of n = [n mod 2 ^ 30, n div 2 ^ 30 mod 2 ^ 30, n div 2 ^ 60]" if "2 ^ 60 \<le> n" "n < 2 ^ 90"
  proof -
    have "2 ^ 30 \<le> n div 2 ^ 30" using div_le_mono [OF that(1), of "2 ^ 30"] by simp
    moreover have "n div 2 ^ 30 < 2 ^ 60" using that(2) by (intro less_mult_imp_div_less) simp
    ultimately show ?thesis using 2 [of "n div 2 ^ 30"] that(1) by (simp add: digits_of.simps [of n] flip: div_mult2_eq)
  qed
qed

lemma unat_bound: "unat (u :: 64 word) < 2 ^ 64"
  using unsigned_less [of u] by simp

lemma equal_digits_digits_of:
  assumes "pylong_ok x" and "digits_of (unat u) = map (\<lambda>i. unat u div 2 ^ (30 * i) mod 2 ^ 30) [0..<n]"
  shows "equal_digits x u n \<longleftrightarrow> digits_value (pl_digits x) = unat u"
proof -
  have digit: "of_nat d = drop_bit (30 * i) u AND PyLong_MASK \<longleftrightarrow> d = unat u div 2 ^ (30 * i) mod 2 ^ 30" if "d < 2 ^ 30" for d i
  proof -
    have lt: "unat u < 18446744073709551616" using unat_bound [of u] by simp
    have "unat (of_nat d :: 64 word) = d" using that by (simp add: unsigned_of_nat take_bit_nat_eq_self)
    moreover have "unat (drop_bit (30 * i) u AND PyLong_MASK) = unat u div 2 ^ (30 * i) mod 2 ^ 30"
      by (simp only: unsigned_take_bit_eq unsigned_drop_bit_eq flip: take_bit_eq_mask) (simp add: take_bit_eq_mod drop_bit_eq_div lt)
    ultimately show ?thesis by (metis unsigned_word_eqI)
  qed
  have "equal_digits x u n \<longleftrightarrow> pl_digits x = digits_of (unat u)"
  proof (cases "length (pl_digits x) = n")
    case True
    then have "pl_digits x ! i < 2 ^ 30" if "i < n" for i using assms(1) that by (simp add: pylong_ok_def)
    then have "(\<forall>i < n. of_nat (pl_digits x ! i) = drop_bit (30 * i) u AND PyLong_MASK) \<longleftrightarrow>
        (\<forall>i < n. pl_digits x ! i = unat u div 2 ^ (30 * i) mod 2 ^ 30)"
      by (simp only: digit cong: imp_cong)
    with True show ?thesis by (auto simp only: equal_digits_def list_all_iff list_eq_iff_nth_eq assms(2) length_map length_upt nth_map nth_upt
        set_upt atLeastLessThan_iff diff_zero add_0)
  next
    case False
    then show ?thesis by (auto simp: equal_digits_def assms(2) dest: arg_cong [of _ _ length])
  qed
  also have "\<dots> \<longleftrightarrow> digits_value (pl_digits x) = unat u"
    using digits_of_value [of "pl_digits x"] assms(1) value_of_digits by (metis pylong_ok_def)
  finally show ?thesis .
qed

lemma abs_of_long: "int (unat (if intval <s 0 then - intval else intval)) = \<bar>sint (intval :: 64 word)\<bar>"
proof -
  have bounds: "- (2 ^ 63) \<le> sint intval" "sint intval < 2 ^ 63"
    using sint_ge [of intval] sint_lt [of intval] by simp_all
  have uint: "uint (of_int n :: 64 word) = n" if "0 \<le> n" "n < 2 ^ 64" for n
    using that by (simp add: uint_word_of_int_eq take_bit_int_eq_self)
  show ?thesis
  proof (cases "intval <s 0")
    case True
    then have "uint (- intval) = - sint intval" using uint [of "- sint intval"] bounds by (simp add: word_sless_alt)
    with True show ?thesis by (simp add: word_sless_alt)
  next
    case False
    then have "uint intval = sint intval" using uint [of "sint intval"] bounds by (simp add: word_sless_alt)
    with False show ?thesis by (simp add: word_sless_alt)
  qed
qed

lemma drop_bit_zero: "drop_bit k (u :: 64 word) = 0 \<longleftrightarrow> unat u < 2 ^ k" if "k < 64"
proof -
  have lt: "unat u < 18446744073709551616" using unat_bound [of u] by simp
  have "drop_bit k u = 0 \<longleftrightarrow> unat (drop_bit k u) = 0" by (simp add: unat_eq_0)
  also have "\<dots> \<longleftrightarrow> unat u div 2 ^ k = 0" by (simp only: unsigned_drop_bit_eq) (simp add: take_bit_eq_mod drop_bit_eq_div lt)
  finally show ?thesis by (simp add: div_eq_0_iff)
qed

lemma equal_digits_value:
  assumes "pylong_ok op1" and "0 < unat u" and "unat u \<le> 2 ^ 63"
  shows "(if drop_bit 60 u \<noteq> 0 then equal_digits op1 u 3
          else if drop_bit 30 u \<noteq> 0 then equal_digits op1 u 2
          else equal_digits op1 u 1) \<longleftrightarrow> digits_value (pl_digits op1) = unat u"
proof -
  consider "unat u < 2 ^ 30" | "2 ^ 30 \<le> unat u" "unat u < 2 ^ 60" | "2 ^ 60 \<le> unat u" "unat u < 2 ^ 90" using assms(3) by fastforce
  then show ?thesis
  proof cases
    case 1
    with digits_of_small(1) [OF assms(2) 1] equal_digits_digits_of [OF assms(1), of u 1] show ?thesis by (simp add: drop_bit_zero)
  next
    case 2
    then have "unat u div 2 ^ 30 < 2 ^ 30" by (intro less_mult_imp_div_less) simp
    with 2 digits_of_small(2) [OF 2] equal_digits_digits_of [OF assms(1), of u 2] show ?thesis
      by (simp add: drop_bit_zero upt_rec)
  next
    case 3
    then have "unat u div 2 ^ 60 < 2 ^ 30" by (intro less_mult_imp_div_less) simp
    with 3 digits_of_small(3) [OF 3] equal_digits_digits_of [OF assms(1), of u 3] show ?thesis
      by (simp add: drop_bit_zero upt_rec)
  qed
qed

lemma eq_exact:
  assumes "pylong_ok op1"
  shows "PyInt_BoolEqObjC op1 intval \<longleftrightarrow> pylong_value op1 = sint intval"
proof -
  let ?u = "if intval <s 0 then - intval else intval"
  have nonempty: "digits_value (pl_digits op1) = 0 \<longleftrightarrow> pl_digits op1 = []"
    using digits_value_zero assms by (simp add: pylong_ok_def)
  note u = abs_of_long [of intval]
  have "\<bar>sint intval\<bar> \<le> 2 ^ 63" using sint_ge [of intval] sint_lt [of intval] by simp
  then have "int (unat ?u) \<le> int (2 ^ 63)" using u by simp
  then have le: "unat ?u \<le> 2 ^ 63" by (simp only: of_nat_le_iff)
  show ?thesis
  proof (cases "intval = 0")
    case True
    with nonempty show ?thesis by (auto simp: PyInt_BoolEqObjC_def pylong_value_def)
  next
    case False
    then have pos: "0 < unat ?u" by (simp add: unat_gt_0)
    then have nonzero: "sint intval \<noteq> 0" using u by linarith
    have same: "digits_value (pl_digits op1) = unat ?u \<longleftrightarrow> int (digits_value (pl_digits op1)) = \<bar>sint intval\<bar>"
      by (simp only: of_nat_eq_iff flip: u)
    show ?thesis
      unfolding PyInt_BoolEqObjC_def Let_def equal_digits_value [OF assms pos le] same
      using False nonzero nonempty
      by (auto simp: word_sless_alt is_neg_def pylong_value_def)
  qed
qed

section \<open>Indexing and slicing\<close>

text \<open>\<^verbatim>\<open>Py_ssize_t\<close> has 64 bits; the comparison of \<^verbatim>\<open>__Pyx_is_valid_index\<close> is one of unsigned numbers.\<close>

definition is_valid_index :: "64 word \<Rightarrow> 64 word \<Rightarrow> bool" where
  "is_valid_index i limit \<longleftrightarrow> i < limit"

text \<open>The item, or None for an \<^verbatim>\<open>IndexError\<close>. This is what \<^verbatim>\<open>PyObject_GetItem\<close> answers for a list or a tuple.\<close>

definition PySequence_item :: "'a list \<Rightarrow> int \<Rightarrow> 'a option" where
  "PySequence_item xs i =
     (let j = (if i < 0 then i + int (length xs) else i) in
      if 0 \<le> j \<and> j < int (length xs) then Some (xs ! nat j) else None)"

text \<open>
  The fast path for lists, and the same for tuples. Without the check of the bounds the item is read wherever it is; the program has the check
  on everywhere.
\<close>

definition GetItemInt_Fast :: "'a list \<Rightarrow> 64 word \<Rightarrow> bool \<Rightarrow> bool \<Rightarrow> 'a option" where
  "GetItemInt_Fast xs i wraparound boundscheck =
     (let size = of_nat (length xs) :: 64 word;
          wrapped_i = (if wraparound \<and> i <s 0 then i + size else i)
      in if \<not> boundscheck \<or> is_valid_index wrapped_i size then Some (xs ! unat wrapped_i)
         else PySequence_item xs (sint i))"

lemma valid_index:
  assumes "length xs < 2 ^ 63"
  shows "is_valid_index j (of_nat (length xs)) \<longleftrightarrow> 0 \<le> sint j \<and> sint j < int (length xs)"
    and "0 \<le> sint j \<Longrightarrow> unat j = nat (sint j)"
proof -
  have size: "uint (of_nat (length xs) :: 64 word) = int (length xs)" using assms by (simp add: unsigned_of_nat take_bit_nat_eq_self)
  have nonneg: "uint j = sint j" if "0 \<le> sint j"
  proof -
    have "sint j < 2 ^ 63" using sint_lt [of j] by simp
    then have "uint (of_int (sint j) :: 64 word) = sint j" using that by (simp add: uint_word_of_int_eq take_bit_int_eq_self del: of_int_sint)
    then show ?thesis by simp
  qed
  then show "0 \<le> sint j \<Longrightarrow> unat j = nat (sint j)" by (metis nat_int of_nat_unat)
  have neg: "2 ^ 63 \<le> uint j" if "sint j < 0" using sint_small [of j] that by (rule_tac ccontr) auto
  show "is_valid_index j (of_nat (length xs)) \<longleftrightarrow> 0 \<le> sint j \<and> sint j < int (length xs)"
    using size nonneg neg assms by (cases "0 \<le> sint j") (auto simp: is_valid_index_def word_less_def)
qed

lemma getitem_exact:
  assumes "length xs < 2 ^ 63"
  shows "GetItemInt_Fast xs i wraparound True = PySequence_item xs (sint i)"
proof -
  let ?n = "int (length xs)" and ?s = "of_nat (length xs) :: 64 word"
  have bounds: "- (2 ^ 63) \<le> sint i" using sint_ge [of i] by simp
  have wrap: "sint (i + ?s) = sint i + ?n" if "sint i < 0"
    using sint_of_int_long [of "sint i + ?n"] that assms bounds by simp
  show ?thesis
    using wrap valid_index [OF assms, of i] valid_index [OF assms, of "i + ?s"]
    by (auto simp: GetItemInt_Fast_def PySequence_item_def word_sless_alt Let_def)
qed

text \<open>\<^verbatim>\<open>__Pyx_crop_slice\<close> and the two functions that use it. A length that is not positive gives the empty sequence.\<close>

definition crop_slice :: "64 word \<Rightarrow> 64 word \<Rightarrow> 64 word \<Rightarrow> 64 word \<times> 64 word" where
  "crop_slice start stop len =
     (let start = (if start <s 0 then (if start + len <s 0 then 0 else start + len) else start);
          stop = (if stop <s 0 then stop + len else if len <s stop then len else stop)
      in (start, stop - start))"

definition GetSlice :: "'a list \<Rightarrow> 64 word \<Rightarrow> 64 word \<Rightarrow> 'a list" where
  "GetSlice xs start stop =
     (let (start, n) = crop_slice start stop (of_nat (length xs)) in
      if n <=s 0 then [] else take (unat n) (drop (unat start) xs))"

definition PySlice :: "'a list \<Rightarrow> int \<Rightarrow> int \<Rightarrow> 'a list" where
  "PySlice xs start stop =
     (let n = int (length xs);
          a = (if start < 0 then max 0 (start + n) else start);
          b = (if stop < 0 then stop + n else min stop n)
      in take (nat (b - a)) (drop (nat a) xs))"

lemma slice_exact:
  assumes "length xs < 2 ^ 63" and "sint start \<le> int (length xs) \<or> 0 \<le> sint stop"
  shows "GetSlice xs start stop = PySlice xs (sint start) (sint stop)"
proof -
  let ?L = "int (length xs)" and ?s = "sint start" and ?p = "sint stop" and ?len = "of_nat (length xs) :: 64 word"
  let ?a = "if ?s < 0 then max 0 (?s + ?L) else ?s" and ?b = "if ?p < 0 then ?p + ?L else min ?p ?L"
  have bounds: "- (2 ^ 63) \<le> ?s" "?s < 2 ^ 63" "- (2 ^ 63) \<le> ?p" "?p < 2 ^ 63"
    using sint_ge [of start] sint_lt [of start] sint_ge [of stop] sint_lt [of stop] by simp_all
  have len: "sint ?len = ?L" using sint_of_int_long [of ?L] assms(1) by simp
  have add: "sint (w + ?len) = sint w + ?L" if "sint w < 0" for w
    using sint_of_int_long [of "sint w + ?L"] that assms(1) sint_ge [of w] by simp
  obtain start' n where crop: "crop_slice start stop ?len = (start', n)" by fastforce
  have start': "sint start' = ?a"
    using crop add [of start] by (auto simp: crop_slice_def Let_def word_sless_alt)
  have stop': "n = of_int ?b - start'"
    using crop add [of stop] len by (auto simp: crop_slice_def Let_def word_sless_alt min_def)
  have "n = of_int (?b - ?a)" unfolding stop' by (simp flip: start')
  moreover have "- (2 ^ 63) \<le> ?b - ?a" "?b - ?a < 2 ^ 63" using assms bounds by (auto simp: min_def max_def)
  ultimately have n: "sint n = ?b - ?a" using sint_of_int_long by blast
  have "unat n = nat (?b - ?a)" if "0 < ?b - ?a" using valid_index(2) [OF assms(1), of n] n that by simp
  moreover have "unat start' = nat ?a" using valid_index(2) [OF assms(1), of start'] start' by simp
  ultimately show ?thesis
    using crop n by (auto simp: GetSlice_def PySlice_def word_sle_eq Let_def)
qed

section \<open>The fast paths compute what Python means\<close>

text \<open>C34. 
  The compiled arithmetic of the tracers on Python integers of any size, with a constant of the program (for example \<^verbatim>\<open>co_flags & 0xa0\<close>,
  \<^verbatim>\<open>i + 1\<close>, \<^verbatim>\<open>file_type == 1\<close>), is exact: neither the digits that are assembled inline nor the 64-bit operations lose anything, as long as the constant of an
  addition has at most 62 bits.
\<close>

theorem int_fast_paths_exact:
  assumes "pylong_ok op1" and "\<bar>sint intval\<bar> \<le> 2 ^ 62"
  shows "PyInt_AddObjC op1 intval = pylong_value op1 + sint intval \<and>
    PyInt_AndObjC op1 intval = pylong_value op1 AND sint intval \<and>
    (PyInt_BoolEqObjC op1 intval \<longleftrightarrow> pylong_value op1 = sint intval)"
  using add_exact [OF assms] and_exact [OF assms(1)] eq_exact [OF assms(1)] by simp

theorem int_fast_paths_exact_witness:
  "PyInt_AddObjC (PyLong True [5, 2 ^ 29]) 1 = - (2 ^ 59) - 4 \<and>
   PyInt_AndObjC (PyLong True [5, 2 ^ 29]) 1 = (- (2 ^ 59) - 5) AND 1 \<and> \<not> PyInt_BoolEqObjC (PyLong True [5, 2 ^ 29]) 1"
proof -
  have ok: "pylong_ok (PyLong True [5, 2 ^ 29])" by (simp add: pylong_ok_def)
  show ?thesis using int_fast_paths_exact [OF ok, of 1] by (simp add: pylong_value_def)
qed

text \<open>With a larger constant the addition wraps around, which C leaves undefined.\<close>

lemma add_wraps_around: "PyInt_AddObjC (PyLong False [1]) (2 ^ 63 - 1) = - (2 ^ 63)"
  by (simp add: PyInt_AddObjC_def long_operand_def)

text \<open>
  Indexing lists and tuples and slicing them in the compiled code is that of Python, with negative indices and past the end, for every index and every
  length that fits: the item, an \<^verbatim>\<open>IndexError\<close>, or the part of the sequence.
\<close>

lemma sequence_fast_paths_exact:
  assumes "length xs < 2 ^ 63" and "sint start \<le> int (length xs) \<or> 0 \<le> sint stop"
  shows "GetItemInt_Fast xs i wraparound True = PySequence_item xs (sint i) \<and>
    GetSlice xs start stop = PySlice xs (sint start) (sint stop)"
  using getitem_exact [OF assms(1)] slice_exact [OF assms] by simp

lemma sequence_fast_paths_example:
  "GetItemInt_Fast ''abcd'' (- 1) True True = Some (CHR ''d'') \<and> GetItemInt_Fast ''abcd'' (- 5) True True = None \<and>
   GetSlice ''abcd'' 0 3 = ''abc''"
proof -
  have "PySequence_item ''abcd'' (- 1) = Some (CHR ''d'')" "PySequence_item ''abcd'' (- 5) = None" "PySlice ''abcd'' 0 3 = ''abc''"
    by (simp_all add: PySequence_item_def PySlice_def)
  then show ?thesis
    using sequence_fast_paths_exact [of "''abcd''" 0 3 "- 1" True] sequence_fast_paths_exact [of "''abcd''" 0 3 "- 5" True] by simp
qed

text \<open>Without the second hypothesis the length of a slice wraps around and the copy would read past the sequence.\<close>

lemma slice_length_wraps: "crop_slice (2 ^ 63 - 1) (2 ^ 63) 3 = (2 ^ 63 - 1, 4)"
  by (simp add: crop_slice_def word_sless_alt)

end
