(* ===== verification/CySetup.thy ===== *)
theory CySetup
  imports Prelude
begin

text \<open>
  How the compiled classes get into the pickling protocol: \<^verbatim>\<open>__Pyx_setup_reduce\<close>, which the initialisation of the modules calls for every class that can
  be pickled, renames \<^verbatim>\<open>__reduce_cython__\<close> and \<^verbatim>\<open>__setstate_cython__\<close> unless the class has pickling functions of its own.
\<close>

text \<open>A method: which object it is, and its \<^verbatim>\<open>__name__\<close>. A type: its own dictionary, and those of its bases up to \<^verbatim>\<open>object\<close>.\<close>

record pymethod =
  me_object :: string
  me_name :: "string option"

type_synonym tp_dict = "string \<rightharpoonup> pymethod"

record typeobj =
  to_dict :: tp_dict
  to_bases :: "tp_dict list"

fun mro_lookup :: "tp_dict list \<Rightarrow> string \<Rightarrow> pymethod option" where
  "mro_lookup [] name = None"
| "mro_lookup (d # ds) name = (case d name of Some m \<Rightarrow> Some m | None \<Rightarrow> mro_lookup ds name)"

definition PyType_Lookup :: "typeobj \<Rightarrow> string \<Rightarrow> pymethod option" where
  "PyType_Lookup T name = mro_lookup (to_dict T # to_bases T) name"

definition object_lookup :: "typeobj \<Rightarrow> string \<Rightarrow> pymethod option" where
  "object_lookup T name = last (to_dict T # to_bases T) name"

definition setup_reduce_is_named :: "pymethod \<Rightarrow> string \<Rightarrow> bool" where
  "setup_reduce_is_named meth name \<longleftrightarrow> me_name meth = Some name"

text \<open>\<^verbatim>\<open>PyDict_SetItem\<close> and \<^verbatim>\<open>PyDict_DelItem\<close>; the second raises \<^verbatim>\<open>KeyError\<close> for a name that only a base has.\<close>

definition rename_method :: "string \<Rightarrow> string \<Rightarrow> pymethod \<Rightarrow> typeobj \<Rightarrow> pyexc + typeobj" where
  "rename_method new old m T =
     (if to_dict T old = None then Inl (UserExc ''KeyError'')
      else Inr (T \<lparr> to_dict := ((to_dict T)(new \<mapsto> m))(old := None) \<rparr>))"

definition setup_setstate :: "typeobj \<Rightarrow> pyexc + typeobj" where
  "setup_setstate T =
     (let setstate = PyType_Lookup T ''__setstate__'' in
      if setstate = None \<or> setup_reduce_is_named (the setstate) ''__setstate_cython__'' then
        (case PyType_Lookup T ''__setstate_cython__'' of
           Some m \<Rightarrow> rename_method ''__setstate__'' ''__setstate_cython__'' m T
         | None \<Rightarrow> if setstate = None then Inl RuntimeError else Inr T)
      else Inr T)"

definition setup_reduce_methods :: "typeobj \<Rightarrow> pyexc + typeobj" where
  "setup_reduce_methods T =
     (case (object_lookup T ''__reduce__'', PyType_Lookup T ''__reduce__'') of
        (Some object_reduce, Some reduce) \<Rightarrow>
          if reduce = object_reduce \<or> setup_reduce_is_named reduce ''__reduce_cython__'' then
            (case PyType_Lookup T ''__reduce_cython__'' of
               Some m \<Rightarrow> (case rename_method ''__reduce__'' ''__reduce_cython__'' m T of Inl e \<Rightarrow> Inl e | Inr T' \<Rightarrow> setup_setstate T')
             | None \<Rightarrow> if reduce = object_reduce then Inl RuntimeError else setup_setstate T)
          else Inr T
      | (None, _) \<Rightarrow> Inl RuntimeError
      | (_, None) \<Rightarrow> Inl AttributeError)"

text \<open>A class with a \<^verbatim>\<open>__getstate__\<close> or a \<^verbatim>\<open>__reduce_ex__\<close> of its own is left alone.\<close>

definition setup_reduce :: "typeobj \<Rightarrow> pyexc + typeobj" where
  "setup_reduce T =
     (if PyType_Lookup T ''__getstate__'' \<noteq> None \<and> object_lookup T ''__getstate__'' \<noteq> PyType_Lookup T ''__getstate__'' then Inr T
      else case (object_lookup T ''__reduce_ex__'', PyType_Lookup T ''__reduce_ex__'') of
        (Some object_reduce_ex, Some reduce_ex) \<Rightarrow> if reduce_ex = object_reduce_ex then setup_reduce_methods T else Inr T
      | (None, _) \<Rightarrow> Inl RuntimeError
      | (_, None) \<Rightarrow> Inl AttributeError)"

text \<open>A type whose pickling functions are those of \<^verbatim>\<open>object\<close>, with the two functions that Cython generates in its own dictionary.\<close>

definition picklable :: "typeobj \<Rightarrow> pymethod \<Rightarrow> pymethod \<Rightarrow> bool" where
  "picklable T reduce setstate \<longleftrightarrow>
     to_bases T \<noteq> [] \<and> to_dict T ''__reduce_cython__'' = Some reduce \<and> to_dict T ''__setstate_cython__'' = Some setstate \<and>
     PyType_Lookup T ''__getstate__'' = object_lookup T ''__getstate__'' \<and>
     object_lookup T ''__reduce_ex__'' \<noteq> None \<and> PyType_Lookup T ''__reduce_ex__'' = object_lookup T ''__reduce_ex__'' \<and>
     object_lookup T ''__reduce__'' \<noteq> None \<and> PyType_Lookup T ''__reduce__'' = object_lookup T ''__reduce__'' \<and>
     PyType_Lookup T ''__setstate__'' = None"

text \<open>Such a type gets them as its pickling functions, under the names of the protocol only, and nothing else of it changes.\<close>

lemma setup_reduce_picklable:
  assumes "picklable T reduce setstate"
  shows "setup_reduce T = Inr (T \<lparr> to_dict := (to_dict T)(''__reduce__'' \<mapsto> reduce, ''__reduce_cython__'' := None,
    ''__setstate__'' \<mapsto> setstate, ''__setstate_cython__'' := None) \<rparr>)"
  using assms
  by (auto simp: picklable_def setup_reduce_def setup_reduce_methods_def setup_setstate_def rename_method_def PyType_Lookup_def
    object_lookup_def Let_def fun_upd_twist split: option.splits)

text \<open>Setting a type up again, as after a reload of its module, changes nothing.\<close>

lemma setup_reduce_again:
  assumes "picklable T reduce setstate" and "me_name reduce = Some ''__reduce_cython__''" and "me_name setstate = Some ''__setstate_cython__''"
    and "list_all (\<lambda>d. d ''__reduce_cython__'' = None \<and> d ''__setstate_cython__'' = None) (to_bases T)"
    and "setup_reduce T = Inr T'" and "object_lookup T ''__reduce__'' \<noteq> Some reduce"
  shows "setup_reduce T' = Inr T'"
proof -
  have none: "mro_lookup ds name = None" if "list_all (\<lambda>d. d name = None) ds" for ds name
    using that by (induction ds) auto
  have "mro_lookup (to_bases T) ''__reduce_cython__'' = None" "mro_lookup (to_bases T) ''__setstate_cython__'' = None"
    using assms(4) by (auto intro!: none simp: list_all_iff)
  moreover have bases: "to_bases T' = to_bases T"
    and dict: "to_dict T' = (to_dict T)(''__reduce__'' \<mapsto> reduce, ''__reduce_cython__'' := None,
      ''__setstate__'' \<mapsto> setstate, ''__setstate_cython__'' := None)"
    using assms(5) by (auto simp: setup_reduce_picklable [OF assms(1)])
  ultimately have T': "PyType_Lookup T' ''__reduce__'' = Some reduce" "PyType_Lookup T' ''__setstate__'' = Some setstate"
      "PyType_Lookup T' ''__reduce_cython__'' = None" "PyType_Lookup T' ''__setstate_cython__'' = None"
      "PyType_Lookup T' ''__getstate__'' = PyType_Lookup T ''__getstate__''" "PyType_Lookup T' ''__reduce_ex__'' = PyType_Lookup T ''__reduce_ex__''"
      "\<And>name. object_lookup T' name = object_lookup T name"
    using assms(1) bases dict by (auto simp: PyType_Lookup_def object_lookup_def picklable_def)
  obtain rx where rx: "object_lookup T ''__reduce_ex__'' = Some rx" using assms(1) by (auto simp: picklable_def)
  obtain r where r: "object_lookup T ''__reduce__'' = Some r" using assms(1) by (auto simp: picklable_def)
  have "PyType_Lookup T ''__getstate__'' = object_lookup T ''__getstate__''" "PyType_Lookup T ''__reduce_ex__'' = Some rx"
    using assms(1) rx by (simp_all add: picklable_def)
  moreover have "reduce \<noteq> r" using assms(6) r by auto
  ultimately show ?thesis
    using assms(2,3) rx r by (simp add: setup_reduce_def setup_reduce_methods_def setup_setstate_def setup_reduce_is_named_def T')
qed

text \<open>A class that says itself how it is pickled keeps that.\<close>

lemma setup_reduce_own:
  assumes "to_bases T \<noteq> []" and "last (to_bases T) ''__getstate__'' \<noteq> Some m" and "to_dict T ''__getstate__'' = Some m"
  shows "setup_reduce T = Inr T"
  using assms by (simp add: setup_reduce_def PyType_Lookup_def object_lookup_def)

text \<open>A class like those of the modules, with nothing but its generated functions.\<close>

definition object_dict :: tp_dict where
  "object_dict = [''__reduce__'' \<mapsto> \<lparr> me_object = ''object.__reduce__'', me_name = Some ''__reduce__'' \<rparr>,
     ''__reduce_ex__'' \<mapsto> \<lparr> me_object = ''object.__reduce_ex__'', me_name = Some ''__reduce_ex__'' \<rparr>]"

lemma setup_reduce_example:
  "case setup_reduce
      \<lparr> to_dict = [''__reduce_cython__'' \<mapsto> \<lparr> me_object = ''reduce'', me_name = Some ''__reduce_cython__'' \<rparr>,
          ''__setstate_cython__'' \<mapsto> \<lparr> me_object = ''setstate'', me_name = Some ''__setstate_cython__'' \<rparr>],
        to_bases = [object_dict] \<rparr> of
    Inl e \<Rightarrow> False
  | Inr T \<Rightarrow> map_option me_object (PyType_Lookup T ''__reduce__'') = Some ''reduce'' \<and>
      map_option me_object (PyType_Lookup T ''__setstate__'') = Some ''setstate''"
  by code_simp

end
