(* ===== verification/CyExc.thy ===== *)
theory CyExc
  imports Prelude
begin

text \<open>
  The functions with which compiled code handles exceptions. Compiled code has no exceptions of its own: a function returns NULL and leaves the exception in
  the thread state, and a \<^verbatim>\<open>try\<close> statement is jumps and calls of \<^verbatim>\<open>__Pyx_ExceptionSave\<close>, \<^verbatim>\<open>__Pyx_GetException\<close>,
  \<^verbatim>\<open>__Pyx_ExceptionSwap\<close>, \<^verbatim>\<open>__Pyx_ExceptionReset\<close>, \<^verbatim>\<open>__Pyx_ErrFetch\<close> and \<^verbatim>\<open>__Pyx_ErrRestore\<close>, with
  \<^verbatim>\<open>__Pyx_PyErr_ExceptionMatches\<close> for the clauses. The functions are modelled as they are for Python 3.12 and later. The tests of classes are shown to be
  those of the language; a function that uses the others is in \<open>CompiledThreadInfo\<close>.
\<close>

section \<open>Classes of exceptions\<close>

text \<open>A class: its name, \<^verbatim>\<open>tp_mro\<close> (NULL for a class that is not ready) and the classes that \<^verbatim>\<open>tp_base\<close> leads to.\<close>

record cls =
  c_name :: string
  c_mro :: "string list option"
  c_bases :: "string list"

text \<open>\<^verbatim>\<open>__Pyx_InBases\<close>\<close>

fun InBases :: "string list \<Rightarrow> string \<Rightarrow> bool" where
  "InBases [] b \<longleftrightarrow> b = ''object''"
| "InBases (a # as) b \<longleftrightarrow> (if a = b then True else InBases as b)"

definition IsSubtype :: "cls \<Rightarrow> cls \<Rightarrow> bool" where
  "IsSubtype a b \<longleftrightarrow>
     (if c_name a = c_name b then True
      else case c_mro a of Some mro \<Rightarrow> c_name b \<in> set mro | None \<Rightarrow> InBases (c_bases a) (c_name b))"

definition IsAnySubtype2 :: "cls \<Rightarrow> cls \<Rightarrow> cls \<Rightarrow> bool" where
  "IsAnySubtype2 c a b \<longleftrightarrow>
     (if c_name c = c_name a \<or> c_name c = c_name b then True
      else case c_mro c of
        Some mro \<Rightarrow> list_ex (\<lambda>base. base = c_name a \<or> base = c_name b) mro
      | None \<Rightarrow> InBases (c_bases c) (c_name a) \<or> InBases (c_bases c) (c_name b))"

text \<open>What stands after \<^verbatim>\<open>except\<close>: a class, a tuple, or something else.\<close>

datatype matchee = MClass cls | MTuple "matchee list" | MOther

definition is_exception_class :: "cls \<Rightarrow> bool" where
  "is_exception_class c \<longleftrightarrow> (case c_mro c of Some mro \<Rightarrow> ''BaseException'' \<in> set mro | None \<Rightarrow> InBases (c_bases c) ''BaseException'')"

definition same_class :: "cls \<Rightarrow> matchee \<Rightarrow> bool" where
  "same_class c m \<longleftrightarrow> (case m of MClass d \<Rightarrow> c_name c = c_name d | _ \<Rightarrow> False)"

text \<open>In a tuple the classes are compared first, and what is not a class of exceptions is passed over.\<close>

definition GivenExceptionMatchesTuple :: "cls \<Rightarrow> matchee list \<Rightarrow> bool" where
  "GivenExceptionMatchesTuple exc_type tuple \<longleftrightarrow>
     (if list_ex (same_class exc_type) tuple then True
      else list_ex (\<lambda>t. case t of MClass c \<Rightarrow> is_exception_class c \<and> IsSubtype exc_type c | _ \<Rightarrow> False) tuple)"

text \<open>What is neither a class of exceptions nor a tuple goes to \<^verbatim>\<open>PyErr_GivenExceptionMatches\<close>, which compares identities.\<close>

definition GivenExceptionMatches :: "cls \<Rightarrow> matchee \<Rightarrow> bool" where
  "GivenExceptionMatches err exc_type \<longleftrightarrow>
     (if same_class err exc_type then True
      else if is_exception_class err then
        (case exc_type of
           MClass c \<Rightarrow> if is_exception_class c then IsSubtype err c else False
         | MTuple ts \<Rightarrow> GivenExceptionMatchesTuple err ts
         | MOther \<Rightarrow> False)
      else False)"

definition ExceptionMatchesTuple :: "cls \<Rightarrow> matchee list \<Rightarrow> bool" where
  "ExceptionMatchesTuple exc_type tuple \<longleftrightarrow>
     (if list_ex (same_class exc_type) tuple then True else list_ex (GivenExceptionMatches exc_type) tuple)"

section \<open>The thread state\<close>

text \<open>
  An exception object with its class as the model tells classes apart; the exception that is on its way (\<^verbatim>\<open>current_exception\<close>), the stack of the exceptions
  that are handled (\<^verbatim>\<open>exc_info\<close>, innermost first; NULL and None are the same), and the tracebacks of the objects.
\<close>

record exc =
  ex_id :: nat
  ex_exc :: pyexc

record tstate =
  ts_current :: "exc option"
  ts_exc_info :: "exc option list"
  ts_traceback :: "nat \<Rightarrow> int list"

type_synonym exc_triple = "pyexc option \<times> exc option \<times> int list"

definition triple_of :: "tstate \<Rightarrow> exc option \<Rightarrow> exc_triple" where
  "triple_of ts v = (case v of None \<Rightarrow> (None, None, []) | Some x \<Rightarrow> (Some (ex_exc x), Some x, ts_traceback ts (ex_id x)))"

definition ErrFetch :: "tstate \<Rightarrow> exc_triple \<times> tstate" where
  "ErrFetch ts = (triple_of ts (ts_current ts), ts \<lparr> ts_current := None \<rparr>)"

definition ErrRestore :: "exc_triple \<Rightarrow> tstate \<Rightarrow> tstate" where
  "ErrRestore t ts =
     (case t of (ty, v, tb) \<Rightarrow>
       (case v of
          None \<Rightarrow> ts \<lparr> ts_current := None \<rparr>
        | Some x \<Rightarrow> ts \<lparr> ts_traceback := (ts_traceback ts)(ex_id x := tb), ts_current := Some x \<rparr>))"

fun GetTopmostException :: "exc option list \<Rightarrow> exc option" where
  "GetTopmostException [] = None"
| "GetTopmostException (v # items) = (if v = None \<and> items \<noteq> [] then GetTopmostException items else v)"

definition ExceptionSave :: "tstate \<Rightarrow> exc_triple" where
  "ExceptionSave ts = triple_of ts (GetTopmostException (ts_exc_info ts))"

definition set_top :: "exc option \<Rightarrow> tstate \<Rightarrow> tstate" where
  "set_top v ts = ts \<lparr> ts_exc_info := v # tl (ts_exc_info ts) \<rparr>"

definition ExceptionReset :: "exc_triple \<Rightarrow> tstate \<Rightarrow> tstate" where
  "ExceptionReset t ts = set_top (fst (snd t)) ts"

definition ExceptionSwap :: "exc_triple \<Rightarrow> tstate \<Rightarrow> exc_triple \<times> tstate" where
  "ExceptionSwap t ts = (triple_of ts (hd (ts_exc_info ts)), set_top (fst (snd t)) ts)"

definition GetException :: "tstate \<Rightarrow> exc_triple \<times> tstate" where
  "GetException ts = (let v = ts_current ts in (triple_of ts v, set_top v (ts \<lparr> ts_current := None \<rparr>)))"

text \<open>\<^verbatim>\<open>__Pyx_AddTraceback\<close> adds a line to the traceback of the exception that is on its way.\<close>

definition AddTraceback :: "int \<Rightarrow> tstate \<Rightarrow> tstate" where
  "AddTraceback line ts =
     (case ts_current ts of
        None \<Rightarrow> ts
      | Some x \<Rightarrow> ts \<lparr> ts_traceback := (ts_traceback ts)(ex_id x := line # ts_traceback ts (ex_id x)) \<rparr>)"

section \<open>The classes that the model tells apart\<close>

definition exc_class :: "string list \<Rightarrow> cls" where
  "exc_class mro = \<lparr> c_name = hd mro, c_mro = Some mro, c_bases = tl mro \<rparr>"

abbreviation exception_bases :: "string list" where
  "exception_bases \<equiv> [''Exception'', ''BaseException'', ''object'']"

fun class_of :: "pyexc \<Rightarrow> cls" where
  "class_of SystemExit = exc_class [''SystemExit'', ''BaseException'', ''object'']"
| "class_of KeyboardInterrupt = exc_class [''KeyboardInterrupt'', ''BaseException'', ''object'']"
| "class_of GeneratorExit = exc_class [''GeneratorExit'', ''BaseException'', ''object'']"
| "class_of StopIteration = exc_class (''StopIteration'' # exception_bases)"
| "class_of StopAsyncIteration = exc_class (''StopAsyncIteration'' # exception_bases)"
| "class_of AttributeError = exc_class (''AttributeError'' # exception_bases)"
| "class_of TypeError = exc_class (''TypeError'' # exception_bases)"
| "class_of OverflowError = exc_class (''OverflowError'' # ''ArithmeticError'' # exception_bases)"
| "class_of AssertionError = exc_class (''AssertionError'' # exception_bases)"
| "class_of RuntimeError = exc_class (''RuntimeError'' # exception_bases)"
| "class_of PickleError = exc_class (''PickleError'' # exception_bases)"
| "class_of (UserExc name) = exc_class (name # exception_bases)"
| "class_of (UserBaseExc name) = exc_class [name, ''BaseException'', ''object'']"

definition Exception_class :: cls where
  "Exception_class = exc_class exception_bases"

definition ExceptionMatches :: "matchee \<Rightarrow> tstate \<Rightarrow> bool" where
  "ExceptionMatches err ts \<longleftrightarrow>
     (case ts_current ts of
        None \<Rightarrow> False
      | Some x \<Rightarrow>
          if same_class (class_of (ex_exc x)) err then True
          else (case err of
                  MTuple tuple \<Rightarrow> ExceptionMatchesTuple (class_of (ex_exc x)) tuple
                | _ \<Rightarrow> GivenExceptionMatches (class_of (ex_exc x)) err))"

section \<open>What a clause catches\<close>

text \<open>The classes that a clause names; tuples are flat.\<close>

fun pattern_classes :: "matchee \<Rightarrow> cls list" where
  "pattern_classes (MClass c) = [c]"
| "pattern_classes (MTuple ms) = concat (map (\<lambda>m. case m of MClass c \<Rightarrow> [c] | _ \<Rightarrow> []) ms)"
| "pattern_classes MOther = []"

definition catches :: "matchee option \<Rightarrow> pyexc \<Rightarrow> bool" where
  "catches p e \<longleftrightarrow>
     (case p of
        None \<Rightarrow> True
      | Some m \<Rightarrow> list_ex (\<lambda>c. c_name c \<in> set (the (c_mro (class_of e)))) (pattern_classes m))"

text \<open>Clauses name classes of exceptions.\<close>

definition pattern_ok :: "matchee option \<Rightarrow> bool" where
  "pattern_ok p \<longleftrightarrow>
     (case p of
        None \<Rightarrow> True
      | Some (MClass c) \<Rightarrow> is_exception_class c
      | Some (MTuple ms) \<Rightarrow> list_all (\<lambda>m. case m of MClass c \<Rightarrow> is_exception_class c | _ \<Rightarrow> False) ms
      | Some MOther \<Rightarrow> False)"

section \<open>Matching\<close>

lemma class_of_mro:
  obtains mro where "c_mro (class_of e) = Some mro" "c_name (class_of e) \<in> set mro" "''BaseException'' \<in> set mro"
  by (cases e) (auto simp: exc_class_def)

lemma exception_class_of [simp]: "is_exception_class (class_of e)"
  by (rule class_of_mro [of e]) (simp add: is_exception_class_def)

lemma IsSubtype_class_of: "IsSubtype (class_of e) c \<longleftrightarrow> c_name c \<in> set (the (c_mro (class_of e)))"
  by (rule class_of_mro [of e]) (auto simp: IsSubtype_def)

lemma IsAnySubtype2_iff: "IsAnySubtype2 c a b \<longleftrightarrow> IsSubtype c a \<or> IsSubtype c b"
  by (auto simp: IsAnySubtype2_def IsSubtype_def list_ex_iff split: option.splits)

lemma same_class_subtype: "same_class (class_of e) (MClass c) \<Longrightarrow> c_name c \<in> set (the (c_mro (class_of e)))"
  by (rule class_of_mro [of e]) (auto simp: same_class_def)

lemma GivenExceptionMatches_class:
  "is_exception_class c \<Longrightarrow> GivenExceptionMatches (class_of e) (MClass c) \<longleftrightarrow> c_name c \<in> set (the (c_mro (class_of e)))"
  using same_class_subtype [of e c] by (auto simp: GivenExceptionMatches_def IsSubtype_class_of)

lemma ExceptionMatches_catches:
  assumes "pattern_ok (Some m)" and "ts_current ts = Some x"
  shows "ExceptionMatches m ts \<longleftrightarrow> catches (Some m) (ex_exc x)"
proof (cases m)
  case (MClass c)
  with assms show ?thesis
    using same_class_subtype [of "ex_exc x" c]
    by (auto simp: ExceptionMatches_def catches_def pattern_ok_def GivenExceptionMatches_class)
next
  case (MTuple ms)
  let ?P = "\<lambda>m. case m of MClass c \<Rightarrow> c_name c \<in> set (the (c_mro (class_of (ex_exc x)))) | _ \<Rightarrow> False"
  have "GivenExceptionMatches (class_of (ex_exc x)) t \<longleftrightarrow> ?P t" "same_class (class_of (ex_exc x)) t \<Longrightarrow> ?P t" if "t \<in> set ms" for t
    using that assms MTuple same_class_subtype [of "ex_exc x"]
    by (auto simp: pattern_ok_def list_all_iff GivenExceptionMatches_class split: matchee.splits)
  then have "ExceptionMatchesTuple (class_of (ex_exc x)) ms \<longleftrightarrow> list_ex ?P ms"
    by (auto simp: ExceptionMatchesTuple_def list_ex_iff)
  moreover have "list_ex ?P ms \<longleftrightarrow> catches (Some m) (ex_exc x)"
    unfolding MTuple catches_def by (induction ms) (simp_all split: matchee.split)
  ultimately show ?thesis using MTuple assms(2) by (simp add: ExceptionMatches_def same_class_def)
next
  case MOther
  with assms show ?thesis by (simp add: pattern_ok_def)
qed

text \<open>\<^verbatim>\<open>except Exception\<close> catches what the model takes it to catch (no other class has this name).\<close>

lemma catches_Exception:
  "e \<noteq> UserBaseExc ''Exception'' \<Longrightarrow> catches (Some (MClass Exception_class)) e \<longleftrightarrow> is_Exception e"
  by (cases e) (auto simp: catches_def Exception_class_def exc_class_def)

section \<open>The stack of handled exceptions\<close>

lemma topmost_set: "GetTopmostException (GetTopmostException (v # rest) # rest) = GetTopmostException (v # rest)"
  by (cases v; cases "GetTopmostException rest") (simp_all split: if_splits)

lemma topmost_Some [simp]: "GetTopmostException (Some y # rest) = Some y"
  by simp

declare GetTopmostException.simps(2) [simp del]

lemma set_top_simps [simp]:
  "ts_exc_info (set_top v ts) = v # tl (ts_exc_info ts)"
  "ts_current (set_top v ts) = ts_current ts"
  by (simp_all add: set_top_def)

lemma AddTraceback_simps [simp]:
  "ts_exc_info (AddTraceback line ts) = ts_exc_info ts"
  "ts_current (AddTraceback line ts) = ts_current ts"
  by (simp_all add: AddTraceback_def split: option.split)

lemma ErrRestore_simps [simp]:
  "ts_exc_info (ErrRestore t ts) = ts_exc_info ts"
  "ts_current (ErrRestore t ts) = fst (snd t)"
  by (auto simp: ErrRestore_def split: option.split prod.split)

lemma triple_of_value [simp]: "fst (snd (triple_of ts v)) = v" "fst (triple_of ts v) = map_option ex_exc v"
  by (simp_all add: triple_of_def split: option.split)

lemma GetException_simps [simp]:
  "ts_exc_info (snd (GetException ts)) = ts_current ts # tl (ts_exc_info ts)"
  "ts_current (snd (GetException ts)) = None"
  "fst (snd (fst (GetException ts))) = ts_current ts"
  by (simp_all add: GetException_def Let_def)

lemma ExceptionSwap_simps [simp]:
  "ts_exc_info (snd (ExceptionSwap t ts)) = fst (snd t) # tl (ts_exc_info ts)"
  "ts_current (snd (ExceptionSwap t ts)) = ts_current ts"
  "fst (snd (fst (ExceptionSwap t ts))) = hd (ts_exc_info ts)"
  by (simp_all add: ExceptionSwap_def)


text \<open>An exception that is put aside and brought back is the same one, with its traceback.\<close>

lemma ErrRestore_ErrFetch: "ErrRestore (fst (ErrFetch ts)) (snd (ErrFetch ts)) = ts"
  by (cases "ts_current ts") (auto simp: ErrFetch_def ErrRestore_def triple_of_def fun_upd_idem)

lemma ExceptionSwap_back:
  "ts_exc_info ts \<noteq> [] \<Longrightarrow> ExceptionReset (fst (ExceptionSwap t ts)) (snd (ExceptionSwap t ts)) = ts"
  by (cases "ts_exc_info ts") (auto simp: ExceptionSwap_def ExceptionReset_def set_top_def)

text \<open>What \<^verbatim>\<open>__Pyx_ExceptionSave\<close> has saved comes back, whatever the handlers in between have put on top of the stack.\<close>

lemma ExceptionReset_saved:
  assumes "ts_exc_info ts = v # rest" and "ts_exc_info ts' = w # rest"
  shows "\<exists>u. ts_exc_info (ExceptionReset (ExceptionSave ts) ts') = u # rest \<and>
    GetTopmostException (u # rest) = GetTopmostException (v # rest)"
  using assms topmost_set by (simp add: ExceptionReset_def ExceptionSave_def)

end
