(* ===== verification/Frames.thy ===== *)
theory Frames
  imports Prelude "HOL-Library.Sublist"
begin

text \<open>
  Code objects, frames, tracebacks and smart-step variants, with the pure walks over them that the
  tracers of \<^verbatim>\<open>pydevd_cython.c\<close> run.

  A frame is identified by \<open>f_id\<close> (Python's \<^verbatim>\<open>is\<close>); its code and its caller are part of the value,
  its current line, last instruction, locals and trace function live in the world of the
  later theories, under the same identity, because they change while the frame runs. A loop over
  \<^verbatim>\<open>f_back\<close> is a structural recursion; \<open>call_stack\<close> is the reference list the loops are compared
  with.

  The locale \<open>frame_match\<close> is the interface of the frame comparisons (identity, and the
  scoped comparison for IPython cells): the search lemmas are proved in it once.
\<close>

section \<open>Code objects\<close>

text \<open>
  \<open>co_body\<close> stands for the remaining content that code equality compares (bytecode, constants,
  names). Code equality in CPython does not look at \<^verbatim>\<open>co_filename\<close>; a dict keyed by code objects is
  therefore keyed by \<open>code_key\<close>.
\<close>

record code =
  co_filename :: string
  co_name :: string
  co_firstlineno :: int
  co_flags :: nat
  co_linestarts :: "(int \<times> int option) list"
  co_body :: "nat list"

type_synonym code_key = "string \<times> int \<times> nat \<times> (int \<times> int option) list \<times> nat list"

definition code_key :: "code \<Rightarrow> code_key" where
  "code_key c = (co_name c, co_firstlineno c, co_flags c, co_linestarts c, co_body c)"

text \<open>\<^verbatim>\<open>co_flags & 0xA0\<close>: CO_GENERATOR or CO_COROUTINE.\<close>

definition is_coroutine_or_generator :: "code \<Rightarrow> bool" where
  "is_coroutine_or_generator c \<longleftrightarrow> bit (co_flags c) 5 \<or> bit (co_flags c) 7"

text \<open>The line starts of a code object that have a line (\<^verbatim>\<open>dis.findlinestarts\<close> filtered).\<close>

definition func_lines :: "code \<Rightarrow> int list" where
  "func_lines c = List.map_filter snd (co_linestarts c)"

section \<open>Frames\<close>

datatype frame = Frame (f_id: nat) (f_code: code) (f_back: "frame option")

definition frame_is :: "frame option \<Rightarrow> frame option \<Rightarrow> bool" where
  "frame_is a b \<longleftrightarrow> map_option f_id a = map_option f_id b"

lemma frame_is_refl [simp]: "frame_is a a"
  by (simp add: frame_is_def)

lemma frame_is_sym: "frame_is a b \<Longrightarrow> frame_is b a"
  by (simp add: frame_is_def)

lemma frame_is_trans: "frame_is a b \<Longrightarrow> frame_is b c \<Longrightarrow> frame_is a c"
  by (simp add: frame_is_def)

lemma frame_is_None [simp]: "frame_is None b \<longleftrightarrow> b = None" "frame_is a None \<longleftrightarrow> a = None"
  by (auto simp: frame_is_def)

lemma frame_is_Some [simp]: "frame_is (Some f) (Some g) \<longleftrightarrow> f_id f = f_id g"
  by (simp add: frame_is_def)

fun call_stack :: "frame \<Rightarrow> frame list" where
  "call_stack (Frame i c b) =
     Frame i c b # (case b of None \<Rightarrow> [] | Some g \<Rightarrow> call_stack g)"

definition callers :: "frame \<Rightarrow> frame list" where
  "callers f = (case f_back f of None \<Rightarrow> [] | Some g \<Rightarrow> call_stack g)"

lemma call_stack_callers: "call_stack f = f # callers f"
  by (cases f) (simp add: callers_def)

lemma call_stack_self [simp]: "f \<in> set (call_stack f)"
  by (simp add: call_stack_callers)

section \<open>Walks over the stack\<close>

text \<open>\<^verbatim>\<open>_get_unfiltered_back_frame\<close>: the loop from \<^verbatim>\<open>frame.f_back\<close> outwards.\<close>

fun unfiltered_from :: "bool \<Rightarrow> (frame \<Rightarrow> bool) \<Rightarrow> frame \<Rightarrow> frame option" where
  "unfiltered_from enabled filtered (Frame i c b) =
     (if \<not> enabled then Some (Frame i c b)
      else if filtered (Frame i c b)
      then (case b of None \<Rightarrow> None | Some g \<Rightarrow> unfiltered_from enabled filtered g)
      else Some (Frame i c b))"

definition get_unfiltered_back_frame :: "bool \<Rightarrow> (frame \<Rightarrow> bool) \<Rightarrow> frame \<Rightarrow> frame option" where
  "get_unfiltered_back_frame enabled filtered f =
     (case f_back f of None \<Rightarrow> None | Some g \<Rightarrow> unfiltered_from enabled filtered g)"

lemma unfiltered_from_find:
  "unfiltered_from enabled filtered f = find (\<lambda>g. \<not> enabled \<or> \<not> filtered g) (call_stack f)"
  by (induction enabled filtered f rule: unfiltered_from.induct) (auto split: option.splits)

lemma get_unfiltered_back_frame_find:
  "get_unfiltered_back_frame enabled filtered f =
     find (\<lambda>g. \<not> enabled \<or> \<not> filtered g) (callers f)"
  by (simp add: get_unfiltered_back_frame_def callers_def unfiltered_from_find split: option.splits)

text \<open>
  The loop \<^verbatim>\<open>f = frame; while f is not None: if same(stop, f): break; f = f.f_back; else: ...\<close>, used
  for the coroutine step: true when the loop leaves by \<^verbatim>\<open>break\<close>.
\<close>

fun reaches_frame :: "(frame option \<Rightarrow> frame option \<Rightarrow> bool) \<Rightarrow> frame option \<Rightarrow> frame \<Rightarrow> bool" where
  "reaches_frame same stop (Frame i c b) =
     (if same stop (Some (Frame i c b)) then True
      else (case b of None \<Rightarrow> False | Some g \<Rightarrow> reaches_frame same stop g))"

lemma reaches_frame_iff:
  "reaches_frame same stop f \<longleftrightarrow> (\<exists>g \<in> set (call_stack f). same stop (Some g))"
  by (induction same stop f rule: reaches_frame.induct) (auto split: option.splits)

text \<open>
  The scoped step of \<^verbatim>\<open>trace_dispatch\<close>: the loop that looks outwards for a frame named
  \<^verbatim>\<open>PYDEVD_IPYTHON_CONTEXT[1]\<close> whose caller is named \<^verbatim>\<open>PYDEVD_IPYTHON_CONTEXT[2]\<close>.
\<close>

type_synonym ipython_context = "string \<times> string \<times> string"

definition PYDEVD_IPYTHON_CONTEXT :: ipython_context where
  "PYDEVD_IPYTHON_CONTEXT = (''interactiveshell.py'', ''run_code'', ''run_ast_nodes'')"

definition back_named :: "frame option \<Rightarrow> string \<Rightarrow> bool" where
  "back_named fo n \<longleftrightarrow> (case fo of None \<Rightarrow> False | Some f \<Rightarrow> co_name (f_code f) = n)"

fun ipython_call_above :: "ipython_context \<Rightarrow> frame \<Rightarrow> bool" where
  "ipython_call_above ctx (Frame i c b) =
     (if co_name c = fst (snd ctx) \<and> back_named b (snd (snd ctx)) then True
      else (case b of None \<Rightarrow> False | Some g \<Rightarrow> ipython_call_above ctx g))"

definition stop_inside_ipython :: "ipython_context \<Rightarrow> frame \<Rightarrow> bool" where
  "stop_inside_ipython ctx f =
     (case f_back f of None \<Rightarrow> False | Some g \<Rightarrow> ipython_call_above ctx g)"

lemma ipython_call_above_iff:
  "ipython_call_above ctx f \<longleftrightarrow>
     (\<exists>g \<in> set (call_stack f). co_name (f_code g) = fst (snd ctx) \<and> back_named (f_back g) (snd (snd ctx)))"
  by (induction ctx f rule: ipython_call_above.induct) (auto split: option.splits)

text \<open>\<^verbatim>\<open>if filename.endswith(".pyc"): filename = filename[:-1]\<close>\<close>

definition strip_pyc :: "string \<Rightarrow> string" where
  "strip_pyc s = (if suffix ''.pyc'' s then butlast s else s)"

section \<open>The same logical frame\<close>

text \<open>
  \<^verbatim>\<open>PyDBFrame._is_same_frame\<close>. With a scoped step two different frames are the same when they run the
  same file and the current one was called by IPython's two evaluation functions.
\<close>

definition is_same_frame ::
  "ipython_context \<Rightarrow> bool \<Rightarrow> frame option \<Rightarrow> frame option \<Rightarrow> bool" where
  "is_same_frame ctx scoped target_frame current_frame =
     (if frame_is target_frame current_frame then True
      else if scoped then
        (case (target_frame, current_frame) of
           (Some t, Some c) \<Rightarrow>
             if co_filename (f_code t) = co_filename (f_code c) then
               (case f_back c of
                  None \<Rightarrow> False
                | Some f \<Rightarrow>
                    if co_name (f_code f) = fst (snd ctx) then back_named (f_back f) (snd (snd ctx))
                    else False)
             else False
         | _ \<Rightarrow> False)
      else False)"

locale frame_match =
  fixes same :: "frame option \<Rightarrow> frame option \<Rightarrow> bool"
  assumes same_is: "frame_is a b \<Longrightarrow> same a b"
    and same_None: "same a None \<Longrightarrow> a = None"
    and same_target: "same None b \<Longrightarrow> b = None"
begin

lemma reaches_self: "reaches_frame same (Some f) f"
  using same_is [of "Some f" "Some f"] by (cases f) simp

lemma reaches_caller: "g \<in> set (call_stack f) \<Longrightarrow> reaches_frame same (Some g) f"
  using same_is [of "Some g" "Some g"] by (auto simp: reaches_frame_iff)

lemma not_reaches_None: "\<not> reaches_frame same None f"
  using same_target by (auto simp: reaches_frame_iff)

lemma reaches_outwards:
  "g \<in> set (call_stack f) \<Longrightarrow> reaches_frame same stop g \<Longrightarrow>
   set (call_stack g) \<subseteq> set (call_stack f) \<Longrightarrow> reaches_frame same stop f"
  by (auto simp: reaches_frame_iff)

end

lemma is_same_frame_unscoped: "is_same_frame ctx False a b = frame_is a b"
  by (simp add: is_same_frame_def)

lemma is_same_frame_of_is [simp]: "frame_is a b \<Longrightarrow> is_same_frame ctx sc a b"
  by (simp add: is_same_frame_def)

lemma is_same_frame_None [simp]: "is_same_frame ctx sc None b \<longleftrightarrow> b = None"
  "is_same_frame ctx sc a None \<longleftrightarrow> a = None"
  by (auto simp: is_same_frame_def split: option.splits)

interpretation sf: frame_match "is_same_frame ctx scoped" for ctx scoped
  by unfold_locales simp_all

lemma is_same_frame_scoped:
  "is_same_frame ctx True (Some t) (Some c) \<longleftrightarrow>
     f_id t = f_id c \<or>
     co_filename (f_code t) = co_filename (f_code c) \<and>
     (\<exists>f g. f_back c = Some f \<and> co_name (f_code f) = fst (snd ctx) \<and>
            f_back f = Some g \<and> co_name (f_code g) = snd (snd ctx))"
  by (auto simp: is_same_frame_def back_named_def split: option.splits)

section \<open>Tracebacks\<close>

datatype traceback = TB (tb_frame: frame) (tb_lineno: int) (tb_next: "traceback option")

text \<open>\<^verbatim>\<open>while trace_obj.tb_next is not None: trace_obj = trace_obj.tb_next\<close>\<close>

fun innermost_tb :: "traceback \<Rightarrow> traceback" where
  "innermost_tb (TB f l n) = (case n of None \<Rightarrow> TB f l n | Some t \<Rightarrow> innermost_tb t)"

lemma innermost_tb_next [simp]: "tb_next (innermost_tb t) = None"
  by (induction t rule: innermost_tb.induct) (auto split: option.splits)

fun tb_list :: "traceback \<Rightarrow> traceback list" where
  "tb_list (TB f l n) = TB f l n # (case n of None \<Rightarrow> [] | Some t \<Rightarrow> tb_list t)"

lemma tb_list_not_Nil [simp]: "tb_list t \<noteq> []"
  by (cases t) simp

lemma innermost_tb_last: "innermost_tb t = last (tb_list t)"
  by (induction t rule: innermost_tb.induct) (auto split: option.splits)

definition just_raised :: "traceback option \<Rightarrow> bool" where
  "just_raised t = (case t of None \<Rightarrow> False | Some u \<Rightarrow> tb_next u = None)"

definition importlib_files :: "string list" where
  "importlib_files = [''<frozen importlib._bootstrap>'', ''<frozen importlib._bootstrap_external>'']"

definition FILES_WITH_IMPORT_HOOKS :: "string list" where
  "FILES_WITH_IMPORT_HOOKS = [''pydev_monkey_qt.py'', ''pydev_import_hook.py'']"

fun ignore_exception_trace :: "traceback \<Rightarrow> bool" where
  "ignore_exception_trace (TB f l n) =
     (let filename = co_filename (f_code f) in
      if filename \<in> set importlib_files then True
      else if list_ex (\<lambda>e. suffix e filename) FILES_WITH_IMPORT_HOOKS then True
      else (case n of None \<Rightarrow> False | Some t \<Rightarrow> ignore_exception_trace t))"

lemma ignore_exception_trace_iff:
  "ignore_exception_trace t \<longleftrightarrow>
     (\<exists>u \<in> set (tb_list t). co_filename (f_code (tb_frame u)) \<in> set importlib_files \<or>
        (\<exists>e \<in> set FILES_WITH_IMPORT_HOOKS. suffix e (co_filename (f_code (tb_frame u)))))"
  by (induction t rule: ignore_exception_trace.induct)
    (auto simp: Let_def list_ex_iff split: option.splits)

declare ignore_exception_trace.simps [simp del]

section \<open>Smart step into variants\<close>

datatype variant = Variant (v_uid: nat) (v_offset: int) (v_children: "variant list option")

text \<open>Python's \<^verbatim>\<open>bisect\<close> (right): the loop over \<open>lo\<close> and \<open>hi\<close>.\<close>

function bisect_right :: "int list \<Rightarrow> int \<Rightarrow> nat \<Rightarrow> nat \<Rightarrow> nat" where
  "bisect_right xs x lo hi =
     (if lo < hi then
        (let mid = (lo + hi) div 2 in
         if x < xs ! mid then bisect_right xs x lo mid else bisect_right xs x (mid + 1) hi)
      else lo)"
  by pat_completeness auto
termination by (relation "measure (\<lambda>(xs, x, lo, hi). hi - lo)") auto

declare bisect_right.simps [simp del]

lemma bisect_right_bounds:
  "lo \<le> hi \<Longrightarrow> lo \<le> bisect_right xs x lo hi \<and> bisect_right xs x lo hi \<le> hi"
proof (induction xs x lo hi rule: bisect_right.induct)
  case (1 xs x lo hi)
  show ?case
    using 1 by (subst (1 2) bisect_right.simps) (fastforce simp: Let_def)
qed

text \<open>On sorted offsets the loop returns the number of offsets that are at most \<open>x\<close>.\<close>

lemma bisect_right_split:
  assumes "sorted xs" "lo \<le> hi" "hi \<le> length xs"
    and "\<And>i. i < lo \<Longrightarrow> xs ! i \<le> x" "\<And>i. hi \<le> i \<Longrightarrow> i < length xs \<Longrightarrow> x < xs ! i"
  shows "(\<forall>i < bisect_right xs x lo hi. xs ! i \<le> x) \<and>
         (\<forall>i. bisect_right xs x lo hi \<le> i \<longrightarrow> i < length xs \<longrightarrow> x < xs ! i)"
  using assms
proof (induction xs x lo hi rule: bisect_right.induct)
  case (1 xs x lo hi)
  define mid where "mid = (lo + hi) div 2"
  show ?case
  proof (cases "lo < hi")
    case False
    then have "bisect_right xs x lo hi = lo" "hi = lo"
      using 1(4) by (auto simp: bisect_right.simps)
    then show ?thesis using 1(6,7) by auto
  next
    case True
    then have mid: "lo \<le> mid" "mid < hi" "mid < length xs"
      using 1(5) by (auto simp: mid_def)
    show ?thesis
    proof (cases "x < xs ! mid")
      case less: True
      have hi: "x < xs ! i" if "mid \<le> i" "i < length xs" for i
        using sorted_nth_mono [OF 1(3) that] less by (rule order.strict_trans2 [rotated])
      have eq: "bisect_right xs x lo hi = bisect_right xs x lo mid"
        using True less by (subst bisect_right.simps) (simp add: mid_def Let_def)
      show ?thesis
        unfolding eq by (rule 1(1) [OF True mid_def less 1(3) mid(1) less_imp_le [OF mid(3)] 1(6) hi])
    next
      case ge: False
      have lo: "xs ! i \<le> x" if "i < mid + 1" for i
        using sorted_nth_mono [OF 1(3), of i mid] that mid(3) ge by linarith
      have eq: "bisect_right xs x lo hi = bisect_right xs x (mid + 1) hi"
        using True ge by (subst bisect_right.simps) (simp add: mid_def Let_def)
      from mid(2) have "mid + 1 \<le> hi" by simp
      then show ?thesis
        unfolding eq by (rule 1(2) [OF True mid_def ge 1(3) _ 1(5) lo 1(7)])
    qed
  qed
qed

definition get_smart_step_into_variant_from_frame_offset ::
  "int \<Rightarrow> variant list \<Rightarrow> variant option" where
  "get_smart_step_into_variant_from_frame_offset lasti variants =
     (if variants = [] then None
      else (let i = bisect_right (map v_offset variants) lasti 0 (length variants) in
            if i = 0 then None else Some (variants ! (i - 1))))"

text \<open>Python's \<^verbatim>\<open>is\<close> on the results of two lookups.\<close>

definition variant_is :: "variant option \<Rightarrow> variant option \<Rightarrow> bool" where
  "variant_is a b \<longleftrightarrow> map_option v_uid a = map_option v_uid b"

lemma smart_variant_member:
  "get_smart_step_into_variant_from_frame_offset x vs = Some v \<Longrightarrow> v \<in> set vs"
proof -
  assume a: "get_smart_step_into_variant_from_frame_offset x vs = Some v"
  let ?i = "bisect_right (map v_offset vs) x 0 (length vs)"
  have "?i \<le> length vs" using bisect_right_bounds [of 0 "length vs"] by simp
  moreover have "?i \<noteq> 0" "v = vs ! (?i - 1)"
    using a by (auto simp: get_smart_step_into_variant_from_frame_offset_def Let_def split: if_splits)
  ultimately show ?thesis by (auto intro!: nth_mem)
qed

end
