(* ===== verification/ThreadRegistry.thy ===== *)
theory ThreadRegistry
  imports Frames
begin

text \<open>
  \<^verbatim>\<open>PyDBAdditionalThreadInfo\<close> (the C struct of \<^verbatim>\<open>pydevd_cython.c\<close>) and the module-level registry
  of these objects: \<^verbatim>\<open>_all_infos\<close>, \<^verbatim>\<open>_infos_stepping\<close>, \<^verbatim>\<open>_next_additional_info\<close>, with
  \<^verbatim>\<open>set_additional_thread_info\<close>, \<^verbatim>\<open>_update_stepping_info\<close>, \<^verbatim>\<open>add_additional_info\<close>,
  \<^verbatim>\<open>remove_additional_info\<close> and \<^verbatim>\<open>any_thread_stepping\<close>.

  The objects live in a heap \<open>infos\<close> indexed by their identity; \<open>fresh_info\<close> is the next identity.
  A Python set is a list of identities without duplicates, in the order the set is iterated.
  Threads are identified by a number; the fields of \<open>py_thread\<close> are what the code reads of a
  \<^verbatim>\<open>threading.Thread\<close> object, of its weak reference and of \<^verbatim>\<open>is_thread_alive\<close>. A missing
  \<^verbatim>\<open>additional_info\<close> attribute and the value None are the same value \<open>None\<close>: the code
  treats both alike.
\<close>

section \<open>Constants\<close>

definition STATE_RUN :: cint where "STATE_RUN = 1"
definition STATE_SUSPEND :: cint where "STATE_SUSPEND = 2"
definition PYTHON_SUSPEND :: cint where "PYTHON_SUSPEND = 1"

lemma state_values [simp]: "STATE_RUN \<noteq> STATE_SUSPEND" "STATE_SUSPEND \<noteq> STATE_RUN"
  by (simp_all add: STATE_RUN_def STATE_SUSPEND_def)

section \<open>The thread information object\<close>

record thread_info =
  pydev_state :: cint
  pydev_step_stop :: "frame option"
  pydev_original_step_cmd :: cint
  pydev_step_cmd :: cint
  pydev_notify_kill :: bool
  pydev_smart_step_stop :: "frame option"
  pydev_django_resolve_frame :: bool
  pydev_call_from_jinja2 :: "frame option"
  pydev_call_inside_jinja2 :: "frame option"
  is_tracing :: cint
  conditional_breakpoint_exception :: "(string \<times> string list) option"
  pydev_message :: "string option"
  suspend_type :: cint
  pydev_next_line :: cint
  pydev_func_name :: "string option"
  suspended_at_unhandled :: bool
  trace_suspend_type :: "string option"
  top_level_thread_tracer_no_back_frames :: "nat list"
  top_level_thread_tracer_unhandled :: "nat option"
  thread_tracer :: "nat option"
  step_in_initial_location :: "(frame \<times> int option) option"
  pydev_smart_parent_offset :: cint
  pydev_smart_child_offset :: cint
  pydev_smart_step_into_variants :: "variant list option"
  target_id_to_smart_step_into_variant :: "(int \<times> variant) list option"
  pydev_use_scoped_step_frame :: bool
  weak_thread :: "nat option"
  is_in_wait_loop :: bool

text \<open>
  \<^verbatim>\<open>tp_new\<close> zeroes the struct and sets every object field to None; \<^verbatim>\<open>__init__\<close> then assigns all fields
  but \<^verbatim>\<open>pydev_smart_step_stop\<close>.
\<close>

definition tp_new_info :: thread_info where
  "tp_new_info = \<lparr> pydev_state = 0, pydev_step_stop = None, pydev_original_step_cmd = 0,
     pydev_step_cmd = 0, pydev_notify_kill = False, pydev_smart_step_stop = None,
     pydev_django_resolve_frame = False, pydev_call_from_jinja2 = None,
     pydev_call_inside_jinja2 = None, is_tracing = 0, conditional_breakpoint_exception = None,
     pydev_message = None, suspend_type = 0, pydev_next_line = 0, pydev_func_name = None,
     suspended_at_unhandled = False, trace_suspend_type = None,
     top_level_thread_tracer_no_back_frames = [], top_level_thread_tracer_unhandled = None,
     thread_tracer = None, step_in_initial_location = None, pydev_smart_parent_offset = 0,
     pydev_smart_child_offset = 0, pydev_smart_step_into_variants = None,
     target_id_to_smart_step_into_variant = None, pydev_use_scoped_step_frame = False,
     weak_thread = None, is_in_wait_loop = False \<rparr>"

definition init_info :: "thread_info \<Rightarrow> thread_info" where
  "init_info self = self \<lparr> pydev_state := STATE_RUN, pydev_step_stop := None,
     pydev_original_step_cmd := -1, pydev_step_cmd := -1, pydev_notify_kill := False,
     pydev_django_resolve_frame := False, pydev_call_from_jinja2 := None,
     pydev_call_inside_jinja2 := None, is_tracing := 0, conditional_breakpoint_exception := None,
     pydev_message := Some [], suspend_type := PYTHON_SUSPEND, pydev_next_line := -1,
     pydev_func_name := Some ''.invalid.'', suspended_at_unhandled := False,
     trace_suspend_type := Some ''trace'', top_level_thread_tracer_no_back_frames := [],
     top_level_thread_tracer_unhandled := None, thread_tracer := None,
     step_in_initial_location := None, pydev_smart_parent_offset := -1,
     pydev_smart_child_offset := -1, pydev_smart_step_into_variants := Some [],
     target_id_to_smart_step_into_variant := Some [], pydev_use_scoped_step_frame := False,
     weak_thread := None, is_in_wait_loop := False \<rparr>"

definition PyDBAdditionalThreadInfo :: thread_info where
  "PyDBAdditionalThreadInfo = init_info tp_new_info"

definition is_stepping :: "thread_info \<Rightarrow> bool" where
  "is_stepping self =
     (if pydev_state self = STATE_RUN \<and> pydev_step_cmd self \<noteq> -1 then True
      else if pydev_state self = STATE_SUSPEND \<and> is_in_wait_loop self then True
      else False)"

lemma new_info_not_stepping [simp]: "\<not> is_stepping PyDBAdditionalThreadInfo"
  by (simp add: PyDBAdditionalThreadInfo_def init_info_def is_stepping_def)

lemma is_stepping_weak_thread [simp]: "is_stepping (f \<lparr> weak_thread := w \<rparr>) = is_stepping f"
  by (simp add: is_stepping_def)

section \<open>Threads and the registry\<close>

record py_thread =
  t_ident :: "int option"
  t_alive :: bool
  t_collected :: bool
  t_additional_info :: "nat option"
  t_do_not_trace :: bool
  t_stop_reason :: int

record registry =
  infos :: "nat \<Rightarrow> thread_info"
  fresh_info :: nat
  next_additional_info :: nat
  all_infos :: "nat list"
  infos_stepping :: "nat list"
  threads :: "nat \<Rightarrow> py_thread"
  active :: "int \<rightharpoonup> nat"
  current_frames :: "int \<rightharpoonup> frame"
  global_debugger :: "bool option"
  events_set :: "nat list"

text \<open>\<open>global_debugger\<close>: None without a debugger, otherwise its \<^verbatim>\<open>pydb_disposed\<close>.\<close>

definition upd_info :: "nat \<Rightarrow> (thread_info \<Rightarrow> thread_info) \<Rightarrow> registry \<Rightarrow> registry" where
  "upd_info i f r = r \<lparr> infos := (infos r)(i := f (infos r i)) \<rparr>"

definition upd_thread :: "nat \<Rightarrow> (py_thread \<Rightarrow> py_thread) \<Rightarrow> registry \<Rightarrow> registry" where
  "upd_thread t f r = r \<lparr> threads := (threads r)(t := f (threads r t)) \<rparr>"

text \<open>Python's \<^verbatim>\<open>set.add\<close> and \<^verbatim>\<open>set.discard\<close>.\<close>

definition set_add :: "'a \<Rightarrow> 'a list \<Rightarrow> 'a list" where
  "set_add x xs = (if x \<in> set xs then xs else xs @ [x])"

lemma set_set_add [simp]: "set (set_add x xs) = insert x (set xs)"
  by (auto simp: set_add_def)

lemma distinct_set_add [simp]: "distinct (set_add x xs) = distinct xs"
  by (auto simp: set_add_def)

definition set_discard :: "'a \<Rightarrow> 'a list \<Rightarrow> 'a list" where
  "set_discard x xs = removeAll x xs"

section \<open>Operations of the thread information object\<close>

datatype related = RelNone | RelFalse | RelThread nat

definition get_related_thread :: "registry \<Rightarrow> nat \<Rightarrow> related" where
  "get_related_thread r self =
     (if pydev_notify_kill (infos r self) then RelNone
      else case weak_thread (infos r self) of
        None \<Rightarrow> RelNone
      | Some t \<Rightarrow>
          if t_collected (threads r t) then RelFalse
          else if \<not> t_alive (threads r t) then RelNone
          else (case t_ident (threads r t) of
                  None \<Rightarrow> RelNone
                | Some n \<Rightarrow> if active r n \<noteq> Some t then RelNone else RelThread t))"

definition get_topmost_frame :: "registry \<Rightarrow> nat \<Rightarrow> frame option" where
  "get_topmost_frame r t =
     (case t_ident (threads r t) of None \<Rightarrow> None | Some n \<Rightarrow> current_frames r n)"

text \<open>The loop that drops the entries that are no longer valid, and the loop that collects the
  entries that are stepping. Each also yields the value its loop variable is left with.\<close>

fun keep_related :: "registry \<Rightarrow> nat list \<Rightarrow> nat \<Rightarrow> nat list \<Rightarrow> nat list \<times> nat" where
  "keep_related r [] info acc = (acc, info)"
| "keep_related r (i # is) info acc =
     keep_related r is i (if get_related_thread r i \<noteq> RelNone then set_add i acc else acc)"

fun collect_stepping :: "registry \<Rightarrow> nat list \<Rightarrow> nat \<Rightarrow> nat list \<Rightarrow> nat list \<times> nat" where
  "collect_stepping r [] info acc = (acc, info)"
| "collect_stepping r (i # is) info acc =
     collect_stepping r is i (if is_stepping (infos r i) then set_add i acc else acc)"

text \<open>The block after the lock is released: it reads \<^verbatim>\<open>info\<close>, which the two loops have rebound.\<close>

definition set_event_for :: "nat \<Rightarrow> (registry, unit) py" where
  "set_event_for info = (\<lambda>r.
     case global_debugger r of
       None \<Rightarrow> (Inr (), r)
     | Some disposed \<Rightarrow>
         if disposed then (Inr (), r)
         else (case weak_thread (infos r info) of
                 None \<Rightarrow> (Inl TypeError, r)
               | Some t \<Rightarrow>
                   if t_collected (threads r t) then (Inr (), r)
                   else (Inr (), r \<lparr> events_set := events_set r @ [t] \<rparr>)))"

definition update_stepping_info :: "nat \<Rightarrow> (registry, unit) py" where
  "update_stepping_info info = (\<lambda>r.
     let (new_all_infos, info1) = keep_related r (all_infos r) info [];
         r1 = r \<lparr> all_infos := new_all_infos \<rparr>;
         (new_stepping, info2) = collect_stepping r1 (all_infos r1) info1 [];
         r2 = r1 \<lparr> infos_stepping := new_stepping \<rparr>
     in set_event_for info2 r2)"

definition add_additional_info :: "nat \<Rightarrow> registry \<Rightarrow> registry" where
  "add_additional_info info r =
     (let r1 = r \<lparr> all_infos := set_add info (all_infos r) \<rparr>
      in if is_stepping (infos r1 info) then r1 \<lparr> infos_stepping := set_add info (infos_stepping r1) \<rparr>
         else r1)"

definition remove_additional_info :: "nat \<Rightarrow> registry \<Rightarrow> registry" where
  "remove_additional_info info r =
     r \<lparr> all_infos := set_discard info (all_infos r),
         infos_stepping := set_discard info (infos_stepping r) \<rparr>"

definition any_thread_stepping :: "registry \<Rightarrow> bool" where
  "any_thread_stepping r \<longleftrightarrow> infos_stepping r \<noteq> []"

text \<open>\<^verbatim>\<open>del _next_additional_info[:]; _next_additional_info.append(PyDBAdditionalThreadInfo())\<close>\<close>

definition renew_next_info :: "registry \<Rightarrow> registry" where
  "renew_next_info r =
     (let n = fresh_info r
      in r \<lparr> infos := (infos r)(n := PyDBAdditionalThreadInfo), fresh_info := n + 1,
             next_additional_info := n \<rparr>)"

definition set_additional_thread_info :: "nat \<Rightarrow> registry \<Rightarrow> nat \<times> registry" where
  "set_additional_thread_info thread r =
     (case t_additional_info (threads r thread) of
        Some i \<Rightarrow> (i, r)
      | None \<Rightarrow>
          (case t_additional_info (threads r thread) of
             Some i \<Rightarrow> (i, r)
           | None \<Rightarrow>
               (let i = next_additional_info r;
                    r1 = upd_thread thread (\<lambda>t. t \<lparr> t_additional_info := Some i \<rparr>) r;
                    r2 = upd_info i (\<lambda>f. f \<lparr> weak_thread := Some thread \<rparr>) r1;
                    r3 = add_additional_info i r2
                in (i, renew_next_info r3))))"

text \<open>\<^verbatim>\<open>mark_thread_suspended\<close> of \<^verbatim>\<open>pydevd_thread_lifecycle.py\<close>, the client that suspends a thread.\<close>

abbreviation (input) CMD_STEP_INTO :: cint where "CMD_STEP_INTO \<equiv> 107"

definition mark_thread_suspended :: "nat \<Rightarrow> cint \<Rightarrow> cint \<Rightarrow> (registry, unit) py" where
  "mark_thread_suspended thread stop_reason original_step_cmd = (\<lambda>r0.
     let (i, r) = set_additional_thread_info thread r0;
         reason = (if original_step_cmd \<noteq> -1 then original_step_cmd else stop_reason);
         r = upd_info i (\<lambda>f. f \<lparr> suspend_type := PYTHON_SUSPEND \<rparr>) r;
         r = upd_thread thread (\<lambda>t. t \<lparr> t_stop_reason := sint reason \<rparr>) r;
         r = (if pydev_step_cmd (infos r i) = -1
              then upd_info i (\<lambda>f. f \<lparr> pydev_step_cmd := CMD_STEP_INTO, pydev_step_stop := None \<rparr>) r
              else r);
         r = upd_info i (\<lambda>f. f \<lparr> pydev_state := STATE_SUSPEND \<rparr>) r
     in update_stepping_info i r)"

section \<open>What the stepping update computes\<close>

lemma set_add_filter:
  "distinct (acc @ i # is) \<Longrightarrow>
   (if P i then set_add i acc else acc) @ filter P is = acc @ filter P (i # is)"
  by (auto simp: set_add_def)

lemma keep_related_filter:
  "distinct (acc @ is) \<Longrightarrow>
   keep_related r is info acc =
     (acc @ filter (\<lambda>i. get_related_thread r i \<noteq> RelNone) is, last (info # is))"
proof (induction r "is" info acc rule: keep_related.induct)
  case (2 r i "is" info acc)
  then have "distinct ((if get_related_thread r i \<noteq> RelNone then set_add i acc else acc) @ is)"
    by (auto simp: set_add_def)
  with 2 show ?case by (auto simp: set_add_def)
qed simp

lemma collect_stepping_filter:
  "distinct (acc @ is) \<Longrightarrow>
   collect_stepping r is info acc =
     (acc @ filter (\<lambda>i. is_stepping (infos r i)) is, last (info # is))"
proof (induction r "is" info acc rule: collect_stepping.induct)
  case (2 r i "is" info acc)
  then have "distinct ((if is_stepping (infos r i) then set_add i acc else acc) @ is)"
    by (auto simp: set_add_def)
  with 2 show ?case by (auto simp: set_add_def)
qed simp

definition related_infos :: "registry \<Rightarrow> nat list" where
  "related_infos r = filter (\<lambda>i. get_related_thread r i \<noteq> RelNone) (all_infos r)"

definition refreshed :: "registry \<Rightarrow> registry" where
  "refreshed r = r \<lparr> all_infos := related_infos r,
     infos_stepping := filter (\<lambda>i. is_stepping (infos r i)) (related_infos r) \<rparr>"

definition notified_info :: "registry \<Rightarrow> nat \<Rightarrow> nat" where
  "notified_info r info = last (info # all_infos r @ related_infos r)"

lemma update_stepping_info_run:
  assumes "distinct (all_infos r)"
  shows "update_stepping_info info r = set_event_for (notified_info r info) (refreshed r)"
proof -
  have "keep_related r (all_infos r) info [] = (related_infos r, last (info # all_infos r))"
    using keep_related_filter [of "[]"] assms by (simp add: related_infos_def)
  moreover have "distinct (related_infos r)" using assms by (simp add: related_infos_def)
  then have "collect_stepping (r \<lparr> all_infos := related_infos r \<rparr>) (related_infos r)
       (last (info # all_infos r)) [] =
     (filter (\<lambda>i. is_stepping (infos r i)) (related_infos r), notified_info r info)"
    using collect_stepping_filter [of "[]"] by (simp add: notified_info_def)
  ultimately show ?thesis
    by (simp add: update_stepping_info_def refreshed_def Let_def)
qed

lemma set_event_for_keeps:
  "snd (set_event_for i r) = r \<lparr> events_set := events_set (snd (set_event_for i r)) \<rparr>"
  by (auto simp: set_event_for_def split: option.splits)

lemma update_stepping_info_state:
  assumes "distinct (all_infos r)"
  shows "\<exists>ev. snd (update_stepping_info info r) = refreshed r \<lparr> events_set := ev \<rparr>"
  using set_event_for_keeps [of "notified_info r info" "refreshed r"]
  by (metis assms update_stepping_info_run)

section \<open>The registry invariant\<close>

text \<open>
  The pre-created object is not yet registered and belongs to no thread; a thread and its
  information object point at each other; the stepping set is part of the registered set.
\<close>

definition reg_ok :: "registry \<Rightarrow> bool" where
  "reg_ok r \<longleftrightarrow>
     distinct (all_infos r) \<and> distinct (infos_stepping r) \<and>
     set (infos_stepping r) \<subseteq> set (all_infos r) \<and>
     (\<forall>i \<in> set (all_infos r). i < fresh_info r \<and> i \<noteq> next_additional_info r) \<and>
     next_additional_info r < fresh_info r \<and>
     \<not> is_stepping (infos r (next_additional_info r)) \<and>
     (\<forall>t i. t_additional_info (threads r t) = Some i \<longrightarrow>
        i < fresh_info r \<and> i \<noteq> next_additional_info r \<and> weak_thread (infos r i) = Some t)"

lemma reg_okD:
  assumes "reg_ok r"
  shows "distinct (all_infos r)" "distinct (infos_stepping r)"
    "set (infos_stepping r) \<subseteq> set (all_infos r)" "next_additional_info r < fresh_info r"
    "\<not> is_stepping (infos r (next_additional_info r))"
    "\<And>i. i \<in> set (all_infos r) \<Longrightarrow> i < fresh_info r \<and> i \<noteq> next_additional_info r"
    "\<And>t i. t_additional_info (threads r t) = Some i \<Longrightarrow>
       i < fresh_info r \<and> i \<noteq> next_additional_info r \<and> weak_thread (infos r i) = Some t"
  using assms by (auto simp: reg_ok_def)

lemma reg_ok_events [simp]: "reg_ok (r \<lparr> events_set := ev \<rparr>) = reg_ok r"
  by (simp add: reg_ok_def)

lemma reg_ok_refreshed: "reg_ok r \<Longrightarrow> reg_ok (refreshed r)"
  by (auto simp: reg_ok_def refreshed_def related_infos_def)

lemma reg_ok_update_stepping:
  assumes "reg_ok r"
  shows "reg_ok (snd (update_stepping_info info r))"
proof -
  obtain ev where "snd (update_stepping_info info r) = refreshed r \<lparr> events_set := ev \<rparr>"
    using update_stepping_info_state reg_okD(1) [OF assms] by blast
  then show ?thesis using reg_ok_refreshed [OF assms] by simp
qed

lemma reg_ok_add:
  assumes "reg_ok r" "i < fresh_info r" "i \<noteq> next_additional_info r"
  shows "reg_ok (add_additional_info i r)"
  using assms by (auto simp: reg_ok_def add_additional_info_def Let_def)

lemma reg_ok_remove:
  assumes "reg_ok r"
  shows "reg_ok (remove_additional_info i r)"
  using assms by (auto simp: reg_ok_def remove_additional_info_def set_discard_def distinct_removeAll)

text \<open>Writing fields other than the link to the thread keeps the invariant, except on the
  pre-created object.\<close>

lemma reg_ok_upd_info:
  assumes "reg_ok r" "\<And>f. weak_thread (g f) = weak_thread f" "i \<noteq> next_additional_info r"
  shows "reg_ok (upd_info i g r)"
  using assms by (auto simp: reg_ok_def upd_info_def)

lemma set_additional_thread_info_known:
  "t_additional_info (threads r t) = Some i \<Longrightarrow> set_additional_thread_info t r = (i, r)"
  by (simp add: set_additional_thread_info_def)

lemma set_additional_thread_info_new:
  assumes "reg_ok r" "t_additional_info (threads r t) = None"
  shows "set_additional_thread_info t r =
    (next_additional_info r,
     r \<lparr> threads := (threads r)(t := (threads r t) \<lparr> t_additional_info := Some (next_additional_info r) \<rparr>),
         infos := (infos r)
           (next_additional_info r := (infos r (next_additional_info r)) \<lparr> weak_thread := Some t \<rparr>,
            fresh_info r := PyDBAdditionalThreadInfo),
         all_infos := all_infos r @ [next_additional_info r],
         fresh_info := fresh_info r + 1,
         next_additional_info := fresh_info r \<rparr>)"
proof -
  have "next_additional_info r \<notin> set (all_infos r)" "next_additional_info r \<noteq> fresh_info r"
    "\<not> is_stepping (infos r (next_additional_info r))"
    using reg_okD [OF assms(1)] by auto
  then show ?thesis
    using assms(2)
    by (simp add: set_additional_thread_info_def Let_def upd_thread_def upd_info_def
        add_additional_info_def renew_next_info_def set_add_def fun_upd_twist)
qed

lemma reg_ok_set_additional:
  assumes "reg_ok r"
  shows "reg_ok (snd (set_additional_thread_info t r))"
proof (cases "t_additional_info (threads r t)")
  case None
  show ?thesis
    unfolding set_additional_thread_info_new [OF assms None]
    using assms None by (auto simp: reg_ok_def less_Suc_eq)
next
  case (Some i)
  with assms show ?thesis by (simp add: set_additional_thread_info_known)
qed

section \<open>The registry as an interface\<close>

text \<open>
  What the tracers rely on: attaching an information object to a thread is idempotent, visible
  from then on, never shared by two threads and never disturbs another thread.
\<close>

locale info_registry =
  fixes attach :: "nat \<Rightarrow> 'r \<Rightarrow> nat \<times> 'r"
    and lookup :: "'r \<Rightarrow> nat \<Rightarrow> nat option"
    and invar :: "'r \<Rightarrow> bool"
  assumes invar_attach: "invar r \<Longrightarrow> invar (snd (attach t r))"
    and attach_lookup: "invar r \<Longrightarrow> lookup (snd (attach t r)) t = Some (fst (attach t r))"
    and attach_known: "lookup r t = Some i \<Longrightarrow> attach t r = (i, r)"
    and attach_others: "invar r \<Longrightarrow> u \<noteq> t \<Longrightarrow> lookup (snd (attach t r)) u = lookup r u"
    and lookup_inj: "invar r \<Longrightarrow> lookup r t = Some i \<Longrightarrow> lookup r u = Some i \<Longrightarrow> t = u"
begin

lemma attach_idem:
  "invar r \<Longrightarrow> attach t (snd (attach t r)) = attach t r"
  using attach_known [OF attach_lookup] by (metis prod.collapse)

lemma attach_stable:
  "invar r \<Longrightarrow> lookup r u = Some i \<Longrightarrow> lookup (snd (attach t r)) u = Some i"
  using attach_others [of r u t] attach_known [of r t] by (cases "u = t") auto

lemma attach_distinct:
  assumes "invar r" "u \<noteq> t" "lookup r u = Some i"
  shows "fst (attach t r) \<noteq> i"
  using assms attach_stable attach_lookup invar_attach lookup_inj by metis

lemma attach_all:
  "invar r \<Longrightarrow>
   invar (fold (\<lambda>t r. snd (attach t r)) ts r) \<and>
   (\<forall>u i. lookup r u = Some i \<longrightarrow> lookup (fold (\<lambda>t r. snd (attach t r)) ts r) u = Some i) \<and>
   (\<forall>t \<in> set ts. lookup (fold (\<lambda>t r. snd (attach t r)) ts r) t \<noteq> None)"
proof (induction ts arbitrary: r)
  case (Cons t ts)
  then have "invar (snd (attach t r))" by (simp add: invar_attach)
  from Cons.IH [OF this] show ?case
    using Cons.prems attach_stable attach_lookup by fastforce
qed simp

end

lemma lookup_set_additional:
  assumes "reg_ok r"
  shows "t_additional_info (threads (snd (set_additional_thread_info t r)) u) =
    (if u = t then Some (fst (set_additional_thread_info t r)) else t_additional_info (threads r u))"
proof (cases "t_additional_info (threads r t)")
  case None
  show ?thesis unfolding set_additional_thread_info_new [OF assms None] by simp
next
  case (Some i)
  then show ?thesis by (simp add: set_additional_thread_info_known)
qed

interpretation ir: info_registry set_additional_thread_info
  "\<lambda>r t. t_additional_info (threads r t)" reg_ok
proof unfold_locales
  fix r t u i
  assume ok: "reg_ok r" and "t_additional_info (threads r t) = Some i"
    and "t_additional_info (threads r u) = Some i"
  then show "t = u" using reg_okD(7) [OF ok] by (metis option.inject)
qed (auto simp: lookup_set_additional set_additional_thread_info_known reg_ok_set_additional)

section \<open>Racing callers of \<^verbatim>\<open>set_additional_thread_info\<close>\<close>

text \<open>
  The double-checked lock, one step per access to shared state. A caller \<open>c\<close> wants the information
  object of the thread \<open>tgt c\<close>. The first read is not protected by the lock, so it can fall
  between any two writes of the caller that holds it.
\<close>

datatype pc =
    Fast | WantLock | Reread | Assign nat | LinkWeak nat | Register nat | Renew nat
  | Unlock nat | Done nat

record race =
  r_reg :: registry
  r_pc :: "nat \<Rightarrow> pc"
  r_lock :: "nat option"

definition goto :: "nat \<Rightarrow> pc \<Rightarrow> race \<Rightarrow> race" where
  "goto c p s = s \<lparr> r_pc := (r_pc s)(c := p) \<rparr>"

definition on_reg :: "(registry \<Rightarrow> registry) \<Rightarrow> race \<Rightarrow> race" where
  "on_reg f s = s \<lparr> r_reg := f (r_reg s) \<rparr>"

abbreviation info_of :: "race \<Rightarrow> nat \<Rightarrow> nat option" where
  "info_of s t \<equiv> t_additional_info (threads (r_reg s) t)"

inductive race_step :: "(nat \<Rightarrow> nat) \<Rightarrow> race \<Rightarrow> race \<Rightarrow> bool" for tgt where
  fast_hit: "r_pc s c = Fast \<Longrightarrow> info_of s (tgt c) = Some i \<Longrightarrow> race_step tgt s (goto c (Done i) s)"
| fast_miss: "r_pc s c = Fast \<Longrightarrow> info_of s (tgt c) = None \<Longrightarrow> race_step tgt s (goto c WantLock s)"
| acquire: "r_pc s c = WantLock \<Longrightarrow> r_lock s = None \<Longrightarrow>
    race_step tgt s (goto c Reread s \<lparr> r_lock := Some c \<rparr>)"
| reread_hit: "r_pc s c = Reread \<Longrightarrow> info_of s (tgt c) = Some i \<Longrightarrow>
    race_step tgt s (goto c (Unlock i) s)"
| reread_miss: "r_pc s c = Reread \<Longrightarrow> info_of s (tgt c) = None \<Longrightarrow>
    race_step tgt s (goto c (Assign (next_additional_info (r_reg s))) s)"
| assign: "r_pc s c = Assign i \<Longrightarrow>
    race_step tgt s (goto c (LinkWeak i)
      (on_reg (upd_thread (tgt c) (\<lambda>t. t \<lparr> t_additional_info := Some i \<rparr>)) s))"
| link: "r_pc s c = LinkWeak i \<Longrightarrow>
    race_step tgt s (goto c (Register i)
      (on_reg (upd_info i (\<lambda>f. f \<lparr> weak_thread := Some (tgt c) \<rparr>)) s))"
| register: "r_pc s c = Register i \<Longrightarrow>
    race_step tgt s (goto c (Renew i) (on_reg (add_additional_info i) s))"
| renew: "r_pc s c = Renew i \<Longrightarrow>
    race_step tgt s (goto c (Unlock i) (on_reg renew_next_info s))"
| unlock: "r_pc s c = Unlock i \<Longrightarrow>
    race_step tgt s (goto c (Done i) s \<lparr> r_lock := None \<rparr>)"

inductive race_reachable :: "(nat \<Rightarrow> nat) \<Rightarrow> registry \<Rightarrow> race \<Rightarrow> bool" for tgt r0 where
  start: "race_reachable tgt r0 \<lparr> r_reg = r0, r_pc = (\<lambda>_. Fast), r_lock = None \<rparr>"
| step: "race_reachable tgt r0 s \<Longrightarrow> race_step tgt s s' \<Longrightarrow> race_reachable tgt r0 s'"

fun in_lock :: "pc \<Rightarrow> bool" where
  "in_lock Fast = False"
| "in_lock WantLock = False"
| "in_lock (Done i) = False"
| "in_lock p = True"

fun uses_next :: "pc \<Rightarrow> bool" where
  "uses_next (LinkWeak i) = True"
| "uses_next (Register i) = True"
| "uses_next (Renew i) = True"
| "uses_next p = False"

text \<open>What a caller knows at each point: \<open>I\<close> gives the object of each thread, \<open>n\<close> is the
  pre-created object and \<open>t\<close> the thread of the caller.\<close>

fun pc_fact :: "(nat \<Rightarrow> nat option) \<Rightarrow> nat \<Rightarrow> nat \<Rightarrow> pc \<Rightarrow> bool" where
  "pc_fact I n t (Assign i) = (i = n \<and> I t = None)"
| "pc_fact I n t (LinkWeak i) = (i = n \<and> I t = Some i)"
| "pc_fact I n t (Register i) = (i = n \<and> I t = Some i)"
| "pc_fact I n t (Renew i) = (i = n \<and> I t = Some i)"
| "pc_fact I n t (Unlock i) = (I t = Some i)"
| "pc_fact I n t (Done i) = (I t = Some i)"
| "pc_fact I n t p = True"

definition race_inv ::
  "(nat \<Rightarrow> nat) \<Rightarrow> (nat \<Rightarrow> nat option) \<Rightarrow> nat \<Rightarrow> nat \<Rightarrow> (nat \<Rightarrow> pc) \<Rightarrow> nat option \<Rightarrow> bool" where
  "race_inv tgt I n fr P L \<longleftrightarrow>
     (\<forall>c. pc_fact I n (tgt c) (P c)) \<and>
     (\<forall>c. in_lock (P c) \<longleftrightarrow> L = Some c) \<and>
     (\<forall>t u i. I t = Some i \<longrightarrow> I u = Some i \<longrightarrow> t = u) \<and>
     (\<forall>t i. I t = Some i \<longrightarrow> i < fr) \<and> n < fr \<and>
     (\<forall>t. I t = Some n \<longrightarrow> (\<exists>c. uses_next (P c) \<and> tgt c = t))"

lemma race_invD:
  assumes "race_inv tgt I n fr P L"
  shows "pc_fact I n (tgt c) (P c)" "in_lock (P c) \<longleftrightarrow> L = Some c"
    "I t = Some i \<Longrightarrow> I u = Some i \<Longrightarrow> t = u" "I t = Some i \<Longrightarrow> i < fr" "n < fr"
    "I t = Some n \<Longrightarrow> \<exists>c. uses_next (P c) \<and> tgt c = t"
  using assms by (auto simp: race_inv_def)

lemma uses_next_in_lock: "uses_next p \<Longrightarrow> in_lock p"
  by (cases p) simp_all

text \<open>A caller moves without writing to the registry.\<close>

lemma race_inv_goto:
  assumes inv: "race_inv tgt I n fr P L"
    and here: "pc_fact I n (tgt c) p" and un: "uses_next (P c) \<Longrightarrow> uses_next p"
    and lock: "\<And>d. in_lock ((P(c := p)) d) \<longleftrightarrow> L' = Some d"
  shows "race_inv tgt I n fr (P(c := p)) L'"
proof -
  have "pc_fact I n (tgt d) ((P(c := p)) d)" for d
    using race_invD(1) [OF inv, of d] here by simp
  moreover have "\<exists>d. uses_next ((P(c := p)) d) \<and> tgt d = t" if "I t = Some n" for t
    using race_invD(6) [OF inv that] un by (metis fun_upd_apply)
  ultimately show ?thesis
    using race_invD(3-5) [OF inv] lock unfolding race_inv_def by blast
qed

lemma lock_same:
  "race_inv tgt I n fr P L \<Longrightarrow> in_lock p = in_lock (P c) \<Longrightarrow> in_lock ((P(c := p)) d) \<longleftrightarrow> L = Some d"
  using race_invD(2) [of tgt I n fr P L d] by (cases "d = c") auto

text \<open>The two steps that change what the others can see.\<close>

lemma race_inv_assign:
  assumes inv: "race_inv tgt I n fr P L" and pc: "P c = Assign i"
  shows "race_inv tgt (I(tgt c := Some i)) n fr (P(c := LinkWeak i)) L"
proof -
  have i: "i = n" and none: "I (tgt c) = None"
    using race_invD(1) [OF inv, of c] pc by simp_all
  have only: "d = c" if "in_lock (P d)" for d
    using race_invD(2) [OF inv, of d] race_invD(2) [OF inv, of c] that pc by simp
  have no_use: "I t \<noteq> Some n" for t
    using race_invD(6) [OF inv, of t] only uses_next_in_lock pc by force
  have "pc_fact (I(tgt c := Some i)) n (tgt d) ((P(c := LinkWeak i)) d)" for d
    using race_invD(1) [OF inv, of d] only [of d] none i by (cases "P d") auto
  then show ?thesis
    using race_invD(3-5) [OF inv] no_use lock_same [OF inv, of "LinkWeak i" c] pc i
    unfolding race_inv_def by (auto split: if_splits)
qed

lemma race_inv_renew:
  assumes inv: "race_inv tgt I n fr P L" and pc: "P c = Renew i"
  shows "race_inv tgt I fr (fr + 1) (P(c := Unlock i)) L"
proof -
  have only: "d = c" if "in_lock (P d)" for d
    using race_invD(2) [OF inv, of d] race_invD(2) [OF inv, of c] that pc by simp
  have "pc_fact I fr (tgt d) ((P(c := Unlock i)) d)" for d
    using race_invD(1) [OF inv, of d] only [of d] pc by (cases "P d") auto
  then show ?thesis
    using race_invD(3-5) [OF inv] lock_same [OF inv, of "Unlock i" c] pc
    unfolding race_inv_def by (auto simp: less_Suc_eq) (meson less_irrefl)+
qed

definition race_ok :: "(nat \<Rightarrow> nat) \<Rightarrow> race \<Rightarrow> bool" where
  "race_ok tgt s = race_inv tgt (info_of s) (next_additional_info (r_reg s)) (fresh_info (r_reg s))
     (r_pc s) (r_lock s)"

lemmas race_defs = goto_def on_reg_def upd_thread_def upd_info_def add_additional_info_def
  renew_next_info_def Let_def

lemma race_ok_move:
  assumes "race_ok tgt s"
    and "pc_fact (info_of s) (next_additional_info (r_reg s)) (tgt c) p"
    and "uses_next (r_pc s c) \<Longrightarrow> uses_next p"
    and "\<And>d. in_lock (((r_pc s)(c := p)) d) \<longleftrightarrow> l = Some d"
  shows "race_ok tgt (goto c p s \<lparr> r_lock := l \<rparr>)"
  using race_inv_goto [OF assms(1) [unfolded race_ok_def] assms(2-4)]
  by (simp add: race_ok_def goto_def)

lemma race_ok_lock: "race_ok tgt s \<Longrightarrow> in_lock (r_pc s d) \<longleftrightarrow> r_lock s = Some d"
  unfolding race_ok_def by (rule race_invD(2))

lemma race_ok_fact:
  "race_ok tgt s \<Longrightarrow> pc_fact (info_of s) (next_additional_info (r_reg s)) (tgt c) (r_pc s c)"
  unfolding race_ok_def by (rule race_invD(1))

lemma race_ok_step:
  assumes "race_step tgt s s'" and "race_ok tgt s"
  shows "race_ok tgt s'"
  using assms
proof (induction rule: race_step.induct)
  case (fast_hit s c i)
  then show ?case
    unfolding race_ok_def by (auto simp: goto_def intro!: race_inv_goto lock_same)
next
  case (fast_miss s c)
  then show ?case
    unfolding race_ok_def by (auto simp: goto_def intro!: race_inv_goto lock_same)
next
  case (acquire s c)
  then have free: "\<not> in_lock (r_pc s d)" for d
    using race_ok_lock [OF acquire(3), of d] by simp
  from acquire(1,3) show ?case by (auto intro!: race_ok_move simp: free split: if_splits)
next
  case (reread_hit s c i)
  then show ?case
    unfolding race_ok_def by (auto simp: goto_def intro!: race_inv_goto lock_same)
next
  case (reread_miss s c)
  then show ?case
    unfolding race_ok_def by (auto simp: goto_def intro!: race_inv_goto lock_same)
next
  case (assign s c i)
  let ?s' = "goto c (LinkWeak i) (on_reg (upd_thread (tgt c) (\<lambda>t. t \<lparr> t_additional_info := Some i \<rparr>)) s)"
  have "info_of ?s' = (info_of s)(tgt c := Some i)" by (auto simp: race_defs)
  with assign show ?case
    unfolding race_ok_def using race_inv_assign by (simp add: race_defs)
next
  case (link s c i)
  then show ?case
    using race_ok_fact [OF link(2), of c]
    unfolding race_ok_def by (auto simp: race_defs intro!: race_inv_goto lock_same)
next
  case (register s c i)
  then show ?case
    using race_ok_fact [OF register(2), of c]
    unfolding race_ok_def by (auto simp: race_defs intro!: race_inv_goto lock_same)
next
  case (renew s c i)
  then show ?case
    unfolding race_ok_def using race_inv_renew by (simp add: race_defs)
next
  case (unlock s c i)
  have "r_lock s = Some c" using race_ok_lock [OF unlock(2), of c] unlock(1) by simp
  then have "in_lock (r_pc s d) \<longleftrightarrow> d = c" for d
    using race_ok_lock [OF unlock(2), of d] by auto
  then show ?case
    using race_ok_fact [OF unlock(2), of c] unlock by (intro race_ok_move) auto
qed

lemma race_ok_reachable: "race_reachable tgt r0 s \<Longrightarrow> reg_ok r0 \<Longrightarrow> race_ok tgt s"
proof (induction rule: race_reachable.induct)
  case start
  then show ?case
    using reg_okD(7) [OF start] reg_okD(4) [OF start] ir.lookup_inj [OF start]
    by (auto simp: race_ok_def race_inv_def)
qed (blast intro: race_ok_step)

text \<open>A caller that is not done either can move or waits for the lock, whose holder can move.\<close>

lemma race_caller_moves:
  assumes "r_pc s c \<noteq> WantLock \<or> r_lock s = None" and "\<forall>i. r_pc s c \<noteq> Done i"
  shows "\<exists>s'. race_step tgt s s'"
proof (cases "r_pc s c")
  case Fast
  then show ?thesis by (cases "info_of s (tgt c)") (blast intro: race_step.intros)+
next
  case Reread
  then show ?thesis by (cases "info_of s (tgt c)") (blast intro: race_step.intros)+
qed (use assms in \<open>auto intro: race_step.intros\<close>)

lemma race_no_deadlock:
  assumes ok: "race_ok tgt s" and c: "\<forall>i. r_pc s c \<noteq> Done i"
  shows "\<exists>s'. race_step tgt s s'"
proof (cases "r_lock s")
  case None
  then show ?thesis using race_caller_moves c by blast
next
  case (Some h)
  then have "in_lock (r_pc s h)" using ok unfolding race_ok_def by (simp add: race_invD(2))
  then show ?thesis by (intro race_caller_moves [of s h]) (cases "r_pc s h"; simp)+
qed

text \<open>How many steps a caller can still take at most.\<close>

fun steps_left :: "pc \<Rightarrow> nat" where
  "steps_left Fast = 8"
| "steps_left WantLock = 7"
| "steps_left Reread = 6"
| "steps_left (Assign i) = 5"
| "steps_left (LinkWeak i) = 4"
| "steps_left (Register i) = 3"
| "steps_left (Renew i) = 2"
| "steps_left (Unlock i) = 1"
| "steps_left (Done i) = 0"

lemma steps_left_le: "steps_left p \<le> 8"
  by (cases p) auto

lemma race_step_mover:
  assumes "race_step tgt s s'"
  shows "\<exists>c p. r_pc s' = (r_pc s)(c := p) \<and> steps_left p < steps_left (r_pc s c)"
  using assms
proof (induction rule: race_step.induct)
qed (auto simp: goto_def on_reg_def intro!: exI)

lemma race_step_measure:
  assumes "race_step tgt s s'" and "finite C" and "\<forall>c. c \<notin> C \<longrightarrow> r_pc s' c = r_pc s c"
  shows "(\<Sum>c\<in>C. steps_left (r_pc s' c)) < (\<Sum>c\<in>C. steps_left (r_pc s c))"
proof -
  obtain c p where c: "r_pc s' = (r_pc s)(c := p)" "steps_left p < steps_left (r_pc s c)"
    using race_step_mover [OF assms(1)] by blast
  then have "c \<in> C" using assms(3) by fastforce
  then show ?thesis using c assms(2) by (intro sum_strict_mono_ex1) auto
qed

section \<open>The initial registry\<close>

text \<open>
  The state the module-level statements set up: one pre-created object and empty sets. The threads
  are those of the interpreter; here every thread is alive, known to \<^verbatim>\<open>threading._active\<close> under its own
  number, and has no information object yet.
\<close>

definition boot_thread :: "nat \<Rightarrow> py_thread" where
  "boot_thread t = \<lparr> t_ident = Some (int t), t_alive = True, t_collected = False,
     t_additional_info = None, t_do_not_trace = False, t_stop_reason = 0 \<rparr>"

definition boot_registry :: registry where
  "boot_registry = \<lparr> infos = (\<lambda>_. PyDBAdditionalThreadInfo), fresh_info = 1,
     next_additional_info = 0, all_infos = [], infos_stepping = [], threads = boot_thread,
     active = (\<lambda>n. if 0 \<le> n then Some (nat n) else None), current_frames = Map.empty,
     global_debugger = Some False, events_set = [] \<rparr>"

lemma reg_ok_boot [simp]: "reg_ok boot_registry"
  by (simp add: reg_ok_def boot_registry_def boot_thread_def)

text \<open>The registry after the threads 1 and 2 were seen by a tracer.\<close>

definition two_threads :: registry where
  "two_threads = snd (set_additional_thread_info 2 (snd (set_additional_thread_info 1 boot_registry)))"

lemma reg_ok_two_threads [simp]: "reg_ok two_threads"
  by (simp add: two_threads_def reg_ok_set_additional)

lemma two_threads_run:
  "two_threads = boot_registry \<lparr> fresh_info := 3, next_additional_info := 2, all_infos := [0, 1],
     infos := (\<lambda>_. PyDBAdditionalThreadInfo)
       (0 := PyDBAdditionalThreadInfo \<lparr> weak_thread := Some 1 \<rparr>,
        1 := PyDBAdditionalThreadInfo \<lparr> weak_thread := Some 2 \<rparr>),
     threads := boot_thread (1 := (boot_thread 1) \<lparr> t_additional_info := Some 0 \<rparr>,
                             2 := (boot_thread 2) \<lparr> t_additional_info := Some 1 \<rparr>) \<rparr>"
  by (auto simp: two_threads_def boot_registry_def boot_thread_def set_additional_thread_info_def
      Let_def upd_thread_def upd_info_def add_additional_info_def renew_next_info_def set_add_def
      fun_eq_iff)

lemma related_two_threads: "related_infos two_threads = [0, 1]"
  "get_related_thread two_threads (Suc 0) = RelThread 2"
  by (simp_all add: related_infos_def get_related_thread_def two_threads_run boot_registry_def
      boot_thread_def PyDBAdditionalThreadInfo_def init_info_def)

section \<open>Suspending a thread\<close>

lemma reg_ok_upd_thread:
  assumes "reg_ok r" "\<And>x. t_additional_info (g x) = t_additional_info x"
  shows "reg_ok (upd_thread t g r)"
  using assms by (auto simp: reg_ok_def upd_thread_def split: if_splits)

lemma mark_thread_suspended_cmd:
  "mark_thread_suspended t reason orig r0 =
     (let (i, r) = set_additional_thread_info t r0;
          r = upd_info i (\<lambda>f. f \<lparr> suspend_type := PYTHON_SUSPEND \<rparr>) r;
          r = upd_thread t (\<lambda>t. t \<lparr> t_stop_reason := sint (if orig \<noteq> -1 then orig else reason) \<rparr>) r;
          r = upd_info i (\<lambda>f. if pydev_step_cmd f = -1
                then f \<lparr> pydev_step_cmd := CMD_STEP_INTO, pydev_step_stop := None \<rparr> else f) r;
          r = upd_info i (\<lambda>f. f \<lparr> pydev_state := STATE_SUSPEND \<rparr>) r
      in update_stepping_info i r)"
  by (auto simp: mark_thread_suspended_def Let_def upd_info_def split: prod.splits)

lemma reg_ok_mark_thread_suspended:
  assumes "reg_ok r0"
  shows "reg_ok (snd (mark_thread_suspended t reason orig r0))"
proof -
  obtain i r where run: "set_additional_thread_info t r0 = (i, r)"
    by (cases "set_additional_thread_info t r0")
  have ok: "reg_ok r" using reg_ok_set_additional [OF assms, of t] run by simp
  have "t_additional_info (threads r t) = Some i"
    using ir.attach_lookup [OF assms, of t] run by simp
  then have "i \<noteq> next_additional_info r" using reg_okD(7) [OF ok] by blast
  then show ?thesis
    unfolding mark_thread_suspended_cmd run Let_def prod.case
    by (intro reg_ok_update_stepping reg_ok_upd_info reg_ok_upd_thread ok)
      (auto simp: upd_info_def upd_thread_def)
qed

section \<open>Properties\<close>

text \<open>C6. Every operation on the registry keeps the registry invariant: \<^verbatim>\<open>_infos_stepping\<close> is a part of
  \<^verbatim>\<open>_all_infos\<close>, neither has duplicates, the pre-created object is unregistered and unowned, and a
  thread and its information object point at each other. The initial registry satisfies it.\<close>

theorem registry_invariant:
  "reg_ok boot_registry \<and>
   (\<forall>r t i reason orig. reg_ok r \<longrightarrow>
      reg_ok (snd (set_additional_thread_info t r)) \<and>
      reg_ok (snd (update_stepping_info i r)) \<and>
      reg_ok (remove_additional_info i r) \<and>
      reg_ok (snd (mark_thread_suspended t reason orig r)) \<and>
      (i < fresh_info r \<and> i \<noteq> next_additional_info r \<longrightarrow> reg_ok (add_additional_info i r)))"
  by (simp add: reg_ok_set_additional reg_ok_update_stepping reg_ok_remove
      reg_ok_mark_thread_suspended reg_ok_add)

theorem registry_invariant_witness:
  "reg_ok (snd (mark_thread_suspended 3 111 (-1) (snd (set_additional_thread_info 2 boot_registry))))"
  using registry_invariant by simp

text \<open>\<^verbatim>\<open>_update_stepping_info\<close> leaves in \<^verbatim>\<open>_all_infos\<close> exactly the registered objects whose related thread
  is not None and in \<^verbatim>\<open>_infos_stepping\<close> exactly those of them that are stepping, it changes no information
  object and no thread, and afterwards \<^verbatim>\<open>any_thread_stepping\<close> tells whether one of them is stepping.\<close>

lemma update_stepping_info_spec:
  assumes "reg_ok r"
  shows "all_infos (snd (update_stepping_info info r)) =
           filter (\<lambda>i. get_related_thread r i \<noteq> RelNone) (all_infos r) \<and>
         infos_stepping (snd (update_stepping_info info r)) =
           filter (\<lambda>i. get_related_thread r i \<noteq> RelNone \<and> is_stepping (infos r i)) (all_infos r) \<and>
         infos (snd (update_stepping_info info r)) = infos r \<and>
         threads (snd (update_stepping_info info r)) = threads r \<and>
         (any_thread_stepping (snd (update_stepping_info info r)) \<longleftrightarrow>
           (\<exists>i. i \<in> set (all_infos r) \<and> get_related_thread r i \<noteq> RelNone \<and> is_stepping (infos r i)))"
proof -
  obtain ev where eq: "snd (update_stepping_info info r) = refreshed r \<lparr> events_set := ev \<rparr>"
    using update_stepping_info_state reg_okD(1) [OF assms] by blast
  show ?thesis
    unfolding eq by (auto simp: refreshed_def related_infos_def any_thread_stepping_def
        filter_empty_conv conj_commute)
qed

text \<open>\<^verbatim>\<open>set_additional_thread_info\<close> returns an object that belongs to the thread from then on and whose
  weak reference is the thread; a second call returns the same object and changes nothing; the
  objects of other threads stay as they are and are different ones.\<close>

lemma set_additional_thread_info_contract:
  assumes "reg_ok r"
  shows "t_additional_info (threads (snd (set_additional_thread_info t r)) t) =
           Some (fst (set_additional_thread_info t r)) \<and>
         weak_thread (infos (snd (set_additional_thread_info t r)) (fst (set_additional_thread_info t r)))
           = Some t \<and>
         set_additional_thread_info t (snd (set_additional_thread_info t r)) =
           set_additional_thread_info t r \<and>
         (u \<noteq> t \<longrightarrow>
           t_additional_info (threads (snd (set_additional_thread_info t r)) u) =
             t_additional_info (threads r u) \<and>
           t_additional_info (threads r u) \<noteq> Some (fst (set_additional_thread_info t r)))"
  using ir.attach_lookup [OF assms, of t] ir.attach_idem [OF assms, of t]
    ir.attach_others [OF assms, of u t] ir.attach_distinct [OF assms, of u t]
    reg_okD(7) [OF ir.invar_attach [OF assms], of t t]
  by auto

text \<open>C22. However the racing callers of \<^verbatim>\<open>set_additional_thread_info\<close> interleave, callers that have returned
  got the same object if they asked for the same thread and different objects otherwise.\<close>

theorem racing_callers_agree:
  assumes "reg_ok r0" and "race_reachable tgt r0 s"
    and "r_pc s c = Done i" and "r_pc s d = Done j"
  shows "i = j \<longleftrightarrow> tgt c = tgt d"
proof -
  have ok: "race_ok tgt s" using race_ok_reachable [OF assms(2,1)] .
  have "info_of s (tgt c) = Some i" "info_of s (tgt d) = Some j"
    using race_ok_fact [OF ok, of c] race_ok_fact [OF ok, of d] assms(3,4) by simp_all
  then show ?thesis using ok race_invD(3) unfolding race_ok_def by (metis option.inject)
qed

theorem racing_callers_agree_witness:
  "\<exists>s. race_reachable (\<lambda>c. c) two_threads s \<and> r_pc s 1 = Done 0 \<and> r_pc s 2 = Done 1 \<and> (0::nat) \<noteq> 1"
proof -
  let ?s0 = "\<lparr> r_reg = two_threads, r_pc = (\<lambda>_. Fast), r_lock = None \<rparr>"
  let ?s1 = "goto 1 (Done 0) ?s0"
  let ?s2 = "goto 2 (Done 1) ?s1"
  have "race_step (\<lambda>c. c) ?s0 ?s1" "race_step (\<lambda>c. c) ?s1 ?s2"
    by (rule race_step.fast_hit; simp add: goto_def two_threads_run)+
  then have reach: "race_reachable (\<lambda>c. c) two_threads ?s2"
    using race_reachable.start race_reachable.step by blast
  have "(0::nat) = 1 \<longleftrightarrow> (1::nat) = 2"
    by (rule racing_callers_agree [OF reg_ok_two_threads reach]) (simp_all add: goto_def)
  then show ?thesis using reach by (intro exI [of _ ?s2]) (simp add: goto_def)
qed

text \<open>Racing callers never deadlock: while some caller has not returned, a step is possible.\<close>

lemma racing_callers_progress:
  assumes "reg_ok r0" and "race_reachable tgt r0 s" and "\<forall>i. r_pc s c \<noteq> Done i"
  shows "\<exists>s'. race_step tgt s s'"
  using race_no_deadlock [OF race_ok_reachable [OF assms(2,1)] assms(3)] .

text \<open>C24. Races end: however the calls of finitely many callers interleave, there are at most eight steps for each of
  them. With the progress above, all of them return.\<close>

theorem racing_callers_terminate:
  assumes "finite C" and "\<forall>k < n. race_step tgt (S k) (S (Suc k))"
    and "\<forall>k < n. \<forall>c. c \<notin> C \<longrightarrow> r_pc (S (Suc k)) c = r_pc (S k) c"
  shows "n \<le> 8 * card C"
proof -
  have "n + (\<Sum>c\<in>C. steps_left (r_pc (S n) c)) \<le> (\<Sum>c\<in>C. steps_left (r_pc (S 0) c))"
    using assms(2,3)
  proof (induction n)
    case (Suc n)
    then show ?case using race_step_measure [OF _ assms(1), of tgt "S n" "S (Suc n)"] by fastforce
  qed simp
  moreover have "(\<Sum>c\<in>C. steps_left (r_pc (S 0) c)) \<le> of_nat (card C) * 8"
    by (rule sum_bounded_above) (rule steps_left_le)
  ultimately show ?thesis by simp
qed

theorem racing_callers_terminate_witness:
  "race_step (\<lambda>c. c) \<lparr> r_reg = two_threads, r_pc = (\<lambda>_. Fast), r_lock = None \<rparr>
     (goto 1 (Done 0) \<lparr> r_reg = two_threads, r_pc = (\<lambda>_. Fast), r_lock = None \<rparr>) \<and> (1::nat) \<le> 8 * card {1::nat}"
proof -
  let ?s0 = "\<lparr> r_reg = two_threads, r_pc = (\<lambda>_. Fast), r_lock = None \<rparr>"
  have step: "race_step (\<lambda>c. c) ?s0 (goto 1 (Done 0) ?s0)"
    by (rule race_step.fast_hit) (simp_all add: two_threads_run)
  then have "(1::nat) \<le> 8 * card {1::nat}"
    using racing_callers_terminate [of "{1}" 1 "\<lambda>c. c" "\<lambda>k. if k = 0 then ?s0 else goto 1 (Done 0) ?s0"]
    by (simp add: goto_def)
  with step show ?thesis by blast
qed

text \<open>After \<^verbatim>\<open>_update_stepping_info(info)\<close> the event that is set is not that of \<^verbatim>\<open>info\<close>: the two loops rebind the
  name, so it is the event of the thread of the object that the last loop visited last.\<close>

lemma update_stepping_info_sets_last_event:
  assumes "reg_ok r" and "global_debugger r = Some False"
    and "related_infos r = ks @ [k]" and "get_related_thread r k = RelThread t"
  shows "update_stepping_info info r =
           (Inr (), refreshed r \<lparr> events_set := events_set r @ [t] \<rparr>)"
proof -
  have "notified_info r info = k" using assms(3) by (simp add: notified_info_def)
  moreover have "weak_thread (infos r k) = Some t" "\<not> t_collected (threads r t)"
    using assms(4) by (auto simp: get_related_thread_def split: if_splits option.splits)
  ultimately show ?thesis
    using update_stepping_info_run [OF reg_okD(1) [OF assms(1)], of info] assms(2)
    by (simp add: set_event_for_def refreshed_def)
qed

text \<open>An object whose thread was garbage collected stays in \<^verbatim>\<open>_all_infos\<close>: \<^verbatim>\<open>_get_related_thread\<close> returns
  False for it, and the update only drops objects for which it returns None.\<close>

lemma collected_thread_stays_registered:
  assumes "reg_ok r" and "i \<in> set (all_infos r)" and "\<not> pydev_notify_kill (infos r i)"
    and "weak_thread (infos r i) = Some t" and "t_collected (threads r t)"
  shows "i \<in> set (all_infos (snd (update_stepping_info info r)))"
proof -
  obtain ev where eq: "snd (update_stepping_info info r) = refreshed r \<lparr> events_set := ev \<rparr>"
    using update_stepping_info_state reg_okD(1) [OF assms(1)] by blast
  show ?thesis
    unfolding eq using assms(2-5)
    by (simp add: refreshed_def related_infos_def get_related_thread_def)
qed

end
