(* ===== verification/CompiledThreadInfo.thy ===== *)
theory CompiledThreadInfo
  imports CyExc ThreadRegistry
begin

text \<open>
  The compiled \<^verbatim>\<open>set_additional_thread_info\<close>, label by label: the \<^verbatim>\<open>try\<close> whose \<^verbatim>\<open>except\<close> clause does the work under the lock, the second
  \<^verbatim>\<open>try\<close> inside it, and every call that may return an error. A label is a definition, and the code behind it its body; the numbers of the labels are
  those of the C code. The function of \<open>ThreadRegistry\<close> is what it computes when its calls succeed.
\<close>

section \<open>The calls\<close>

text \<open>The calls of the function that may fail, in the order of the code.\<close>

datatype site =
    GetAttr1 | NewAttributeError | GetException1
  | LockName | LookupExit | LookupEnter | CallEnter
  | GetAttr2 | GetException2
  | NextName | NextItem | SetAdditionalInfo
  | WeakrefName | WeakrefRef | CallRef | SetWeakThread
  | InfoType | CallAdd | DelName | DelSlice | AppendName | NewInfo | AppendInfo
  | GetException3 | PackTuple | CallExitError | ExitTrue
  | CallExit

text \<open>
  What is outside: which calls fail, with the exception and the registry that they leave (a call that fails may have done anything), whether \<^verbatim>\<open>__exit__\<close>
  answers true, and what the other threads do to the registry until the lock is acquired.
\<close>

record calls =
  ca_fails :: "site \<Rightarrow> registry \<Rightarrow> (exc \<times> registry) option"
  ca_swallows :: bool
  ca_meanwhile :: "registry \<Rightarrow> registry"

datatype lock_call = EnterCalled | ExitCalled "exc option"

text \<open>
  \<^verbatim>\<open>additional_info\<close> is NULL (None), \<^verbatim>\<open>None\<close> (Some None) or an object; \<open>sa_exit\<close> says whether \<^verbatim>\<open>__pyx_t_9\<close> holds \<^verbatim>\<open>__exit__\<close>;
  \<open>sa_next_empty\<close>, that \<^verbatim>\<open>_next_additional_info\<close> is empty.
\<close>

record info_locals =
  sa_reg :: registry
  sa_info :: "nat option option"
  sa_exit :: bool
  sa_lock :: "lock_call list"
  sa_next_empty :: bool

text \<open>What the function returns: NULL or the value of \<^verbatim>\<open>additional_info\<close>.\<close>

type_synonym left = "nat option option \<times> tstate \<times> info_locals"

text \<open>A call of \<open>site\<close> in a line of the source: with an error the exception is in the thread state and the code goes on at a label.\<close>

definition attempt ::
  "calls \<Rightarrow> site \<Rightarrow> int \<Rightarrow> (int \<Rightarrow> tstate \<Rightarrow> info_locals \<Rightarrow> left) \<Rightarrow> (tstate \<Rightarrow> info_locals \<Rightarrow> left) \<Rightarrow>
   tstate \<Rightarrow> info_locals \<Rightarrow> left" where
  "attempt ca site line error go_on ts s =
     (case ca_fails ca site (sa_reg s) of
        Some (x, r) \<Rightarrow> error line (ts \<lparr> ts_current := Some x \<rparr>) (s \<lparr> sa_reg := r \<rparr>)
      | None \<Rightarrow> go_on ts s)"

definition raise_here :: "pyexc \<Rightarrow> int \<Rightarrow> (int \<Rightarrow> tstate \<Rightarrow> info_locals \<Rightarrow> left) \<Rightarrow> tstate \<Rightarrow> info_locals \<Rightarrow> left" where
  "raise_here e line error ts s = error line (ts \<lparr> ts_current := Some \<lparr> ex_id = 0, ex_exc = e \<rparr> \<rparr>) s"

section \<open>The end of the function\<close>

definition L1_error :: "int \<Rightarrow> tstate \<Rightarrow> info_locals \<Rightarrow> left" where
  "L1_error line ts s = (None, AddTraceback line ts, s)"

definition L8_try_end :: "tstate \<Rightarrow> info_locals \<Rightarrow> left" where
  "L8_try_end ts s =
     (case sa_info s of
        None \<Rightarrow> raise_here (UserExc ''UnboundLocalError'') 253 L1_error ts s
      | Some v \<Rightarrow> (Some v, ts, s))"

definition L5_except_error :: "exc_triple \<Rightarrow> int \<Rightarrow> tstate \<Rightarrow> info_locals \<Rightarrow> left" where
  "L5_except_error saved line ts s = L1_error line (ExceptionReset saved ts) s"

definition L4_exception_handled :: "exc_triple \<Rightarrow> tstate \<Rightarrow> info_locals \<Rightarrow> left" where
  "L4_exception_handled saved ts s = L8_try_end (ExceptionReset saved ts) s"

section \<open>The \<^verbatim>\<open>with\<close> statement\<close>

text \<open>The normal exit calls \<^verbatim>\<open>__exit__\<close>, unless it was called for an exception.\<close>

definition L25_try_end :: "calls \<Rightarrow> exc_triple \<Rightarrow> tstate \<Rightarrow> info_locals \<Rightarrow> left" where
  "L25_try_end ca saved ts s =
     (if sa_exit s then
        attempt ca CallExit 233 (L5_except_error saved) (L4_exception_handled saved) ts
          (s \<lparr> sa_exit := False, sa_lock := sa_lock s @ [ExitCalled None] \<rparr>)
      else L4_exception_handled saved ts s)"

definition L20_except_error :: "exc_triple \<Rightarrow> exc_triple \<Rightarrow> int \<Rightarrow> tstate \<Rightarrow> info_locals \<Rightarrow> left" where
  "L20_except_error saved saved2 line ts s = L5_except_error saved line (ExceptionReset saved2 ts) s"

definition L19_exception_handled :: "calls \<Rightarrow> exc_triple \<Rightarrow> exc_triple \<Rightarrow> tstate \<Rightarrow> info_locals \<Rightarrow> left" where
  "L19_exception_handled ca saved saved2 ts s = L25_try_end ca saved (ExceptionReset saved2 ts) s"

text \<open>An exception in the block: \<^verbatim>\<open>__exit__\<close> is told, and the exception goes on unless it answers true.\<close>

definition L18_error :: "calls \<Rightarrow> exc_triple \<Rightarrow> exc_triple \<Rightarrow> int \<Rightarrow> tstate \<Rightarrow> info_locals \<Rightarrow> left" where
  "L18_error ca saved saved2 line ts s =
     (let error = L20_except_error saved saved2 in
      attempt ca GetException3 233 error (\<lambda>ts s.
        (let (t, ts) = GetException ts in
         attempt ca PackTuple 233 error (\<lambda>ts s.
           attempt ca CallExitError 233 error (\<lambda>ts s.
             attempt ca ExitTrue 233 error (\<lambda>ts s.
               if \<not> ca_swallows ca then error 233 (ErrRestore t ts) s
               else L19_exception_handled ca saved saved2 ts s) ts s) ts
             (s \<lparr> sa_exit := False, sa_lock := sa_lock s @ [ExitCalled (fst (snd t))] \<rparr>)) ts s)) (AddTraceback line ts) s)"

text \<open>\<^verbatim>\<open>additional_info.weak_thread = weakref.ref(thread)\<close>, \<^verbatim>\<open>add_additional_info\<close> and the next object.\<close>

definition renew_next ::
  "calls \<Rightarrow> (int \<Rightarrow> tstate \<Rightarrow> info_locals \<Rightarrow> left) \<Rightarrow> (tstate \<Rightarrow> info_locals \<Rightarrow> left) \<Rightarrow> tstate \<Rightarrow> info_locals \<Rightarrow> left" where
  "renew_next ca error leave_block =
     attempt ca DelName 250 error
      (attempt ca DelSlice 250 error (\<lambda>ts s.
        attempt ca AppendName 251 error
         (attempt ca NewInfo 251 error
           (attempt ca AppendInfo 251 error (\<lambda>ts s.
             leave_block ts (s \<lparr> sa_reg := renew_next_info (sa_reg s), sa_next_empty := False \<rparr>)))) ts
         (s \<lparr> sa_next_empty := True \<rparr>)))"

definition register_info ::
  "calls \<Rightarrow> nat \<Rightarrow> nat \<Rightarrow> (int \<Rightarrow> tstate \<Rightarrow> info_locals \<Rightarrow> left) \<Rightarrow> (tstate \<Rightarrow> info_locals \<Rightarrow> left) \<Rightarrow>
   tstate \<Rightarrow> info_locals \<Rightarrow> left" where
  "register_info ca thread i error leave_block =
     attempt ca WeakrefName 248 error
      (attempt ca WeakrefRef 248 error
       (attempt ca CallRef 248 error
        (attempt ca SetWeakThread 248 error (\<lambda>ts s.
          attempt ca InfoType 249 error
           (attempt ca CallAdd 249 error (\<lambda>ts s.
             renew_next ca error leave_block ts (s \<lparr> sa_reg := add_additional_info i (sa_reg s) \<rparr>))) ts
           (s \<lparr> sa_reg := upd_info i (\<lambda>f. f \<lparr> weak_thread := Some thread \<rparr>) (sa_reg s) \<rparr>)))))"

text \<open>The block after the second \<^verbatim>\<open>try\<close>: the next object is published when the thread still has none.\<close>

definition L33_try_end :: "calls \<Rightarrow> nat \<Rightarrow> exc_triple \<Rightarrow> exc_triple \<Rightarrow> tstate \<Rightarrow> info_locals \<Rightarrow> left" where
  "L33_try_end ca thread saved saved2 ts s =
     (let error = L18_error ca saved saved2; leave_block = L25_try_end ca saved in
      if sa_info s = Some None then
        attempt ca NextName 246 error
         (attempt ca NextItem 246 error (\<lambda>ts s.
           if sa_next_empty s then raise_here (UserExc ''IndexError'') 246 error ts s
           else
             (let i = next_additional_info (sa_reg s) in
              attempt ca SetAdditionalInfo 247 error (\<lambda>ts s.
                register_info ca thread i error leave_block ts
                  (s \<lparr> sa_reg := upd_thread thread (\<lambda>t. t \<lparr> t_additional_info := Some i \<rparr>) (sa_reg s) \<rparr>)) ts
                (s \<lparr> sa_info := Some (Some i) \<rparr>)))) ts s
      else leave_block ts s)"

text \<open>The second \<^verbatim>\<open>try\<close>.\<close>

definition L26_error :: "calls \<Rightarrow> nat \<Rightarrow> exc_triple \<Rightarrow> exc_triple \<Rightarrow> exc_triple \<Rightarrow> int \<Rightarrow> tstate \<Rightarrow> info_locals \<Rightarrow> left" where
  "L26_error ca thread saved saved2 saved3 line ts s =
     attempt ca GetException2 238 (\<lambda>line ts s. L18_error ca saved saved2 line (ExceptionReset saved3 ts) s) (\<lambda>ts s.
       (let (t, ts) = GetException ts in
        L33_try_end ca thread saved saved2 (ExceptionReset saved3 ts) (s \<lparr> sa_info := Some None \<rparr>))) (AddTraceback line ts) s"

definition locked_block :: "calls \<Rightarrow> nat \<Rightarrow> exc_triple \<Rightarrow> tstate \<Rightarrow> info_locals \<Rightarrow> left" where
  "locked_block ca thread saved ts s =
     (let saved2 = ExceptionSave ts; saved3 = ExceptionSave ts in
      attempt ca GetAttr2 237 (L26_error ca thread saved saved2 saved3) (\<lambda>ts s.
        L33_try_end ca thread saved saved2 ts (s \<lparr> sa_info := Some (t_additional_info (threads (sa_reg s) thread)) \<rparr>)) ts s)"

text \<open>\<^verbatim>\<open>__exit__\<close> is looked up before \<^verbatim>\<open>__enter__\<close> is called.\<close>

definition L12_error :: "exc_triple \<Rightarrow> int \<Rightarrow> tstate \<Rightarrow> info_locals \<Rightarrow> left" where
  "L12_error saved line ts s = L5_except_error saved line ts (s \<lparr> sa_exit := False \<rparr>)"

definition with_lock :: "calls \<Rightarrow> nat \<Rightarrow> exc_triple \<Rightarrow> tstate \<Rightarrow> info_locals \<Rightarrow> left" where
  "with_lock ca thread saved =
     attempt ca LockName 233 (L5_except_error saved)
      (attempt ca LookupExit 233 (L5_except_error saved) (\<lambda>ts s.
        attempt ca LookupEnter 233 (L12_error saved)
         (attempt ca CallEnter 233 (L12_error saved) (\<lambda>ts s.
           locked_block ca thread saved ts
             (s \<lparr> sa_lock := sa_lock s @ [EnterCalled], sa_reg := ca_meanwhile ca (sa_reg s) \<rparr>))) ts
         (s \<lparr> sa_exit := True \<rparr>)))"

section \<open>The function\<close>

definition L3_error :: "calls \<Rightarrow> nat \<Rightarrow> exc_triple \<Rightarrow> int \<Rightarrow> tstate \<Rightarrow> info_locals \<Rightarrow> left" where
  "L3_error ca thread saved line ts s =
     attempt ca GetException1 232 (L5_except_error saved) (\<lambda>ts s.
       (let (t, ts) = GetException ts in with_lock ca thread saved ts s)) (AddTraceback line ts) s"

definition compiled_set_additional_thread_info :: "calls \<Rightarrow> nat \<Rightarrow> tstate \<Rightarrow> info_locals \<Rightarrow> left" where
  "compiled_set_additional_thread_info ca thread ts s =
     (let saved = ExceptionSave ts in
      attempt ca GetAttr1 229 (L3_error ca thread saved) (\<lambda>ts s.
        (let v = t_additional_info (threads (sa_reg s) thread); s = s \<lparr> sa_info := Some v \<rparr> in
         if v = None then
           attempt ca NewAttributeError 231 (L3_error ca thread saved) (raise_here AttributeError 231 (L3_error ca thread saved)) ts s
         else L8_try_end ts s)) ts s)"

section \<open>Every way out of the function\<close>

text \<open>
  What holds when the function is left: it returns NULL exactly when there is an exception in the thread state, the exception that is being handled is
  \<open>h\<close> and the stack below is \<open>rest\<close>, and \<^verbatim>\<open>__exit__\<close> was called once if \<^verbatim>\<open>__enter__\<close> was. There is one gap: no call of \<^verbatim>\<open>__exit__\<close> when
  the exception cannot be passed to it.
\<close>

definition locks_ok :: "calls \<Rightarrow> lock_call list \<Rightarrow> bool" where
  "locks_ok ca l \<longleftrightarrow> l = [] \<or> (\<exists>e. l = [EnterCalled, ExitCalled e]) \<or>
     (l = [EnterCalled] \<and> (\<exists>r. ca_fails ca GetException3 r \<noteq> None \<or> ca_fails ca PackTuple r \<noteq> None))"

definition left_ok :: "calls \<Rightarrow> exc option list \<Rightarrow> exc option \<Rightarrow> left \<Rightarrow> bool" where
  "left_ok ca rest h x \<longleftrightarrow>
     (case x of (result, ts, s) \<Rightarrow>
        (result = None \<longleftrightarrow> ts_current ts \<noteq> None) \<and> tl (ts_exc_info ts) = rest \<and> ts_exc_info ts \<noteq> [] \<and>
        GetTopmostException (ts_exc_info ts) = h \<and> locks_ok ca (sa_lock s))"

definition raising :: "exc option list \<Rightarrow> tstate \<Rightarrow> bool" where
  "raising rest ts \<longleftrightarrow> ts_current ts \<noteq> None \<and> ts_exc_info ts \<noteq> [] \<and> tl (ts_exc_info ts) = rest"

definition calm :: "exc option list \<Rightarrow> tstate \<Rightarrow> bool" where
  "calm rest ts \<longleftrightarrow> ts_current ts = None \<and> ts_exc_info ts \<noteq> [] \<and> tl (ts_exc_info ts) = rest"

text \<open>\<open>h\<close> is what the function saved at its start.\<close>

definition saved_top :: "exc option list \<Rightarrow> exc option \<Rightarrow> exc_triple \<Rightarrow> bool" where
  "saved_top rest h saved \<longleftrightarrow> fst (snd saved) = h \<and> GetTopmostException (h # rest) = h"

definition in_block :: "info_locals \<Rightarrow> bool" where
  "in_block s \<longleftrightarrow> sa_exit s \<and> sa_lock s = [EnterCalled]"

lemma in_block_simps [simp]:
  "in_block (s \<lparr> sa_reg := r \<rparr>) = in_block s" "in_block (s \<lparr> sa_info := v \<rparr>) = in_block s" "in_block (s \<lparr> sa_next_empty := b \<rparr>) = in_block s"
  by (simp_all add: in_block_def)

lemma calm_raising [simp]: "calm rest ts \<Longrightarrow> raising rest (ts \<lparr> ts_current := Some x \<rparr>)"
  by (simp add: calm_def raising_def)

lemma ExceptionReset_simps [simp]:
  "ts_exc_info (ExceptionReset t ts) = fst (snd t) # tl (ts_exc_info ts)" "ts_current (ExceptionReset t ts) = ts_current ts"
  by (simp_all add: ExceptionReset_def)

lemma handled_simps [simp]:
  "raising rest (ExceptionReset t ts) = (ts_current ts \<noteq> None \<and> tl (ts_exc_info ts) = rest)"
  "calm rest (ExceptionReset t ts) = (ts_current ts = None \<and> tl (ts_exc_info ts) = rest)"
  "raising rest (AddTraceback line ts) = raising rest ts"
  "raising rest ts \<Longrightarrow> calm rest (snd (GetException ts))"
  by (auto simp: raising_def calm_def ExceptionReset_def)

lemma raising_again: "raising rest ts \<Longrightarrow> raising rest (AddTraceback line ts \<lparr> ts_current := Some x \<rparr>)"
  by (simp add: raising_def)

lemma raising_tl: "raising rest ts \<Longrightarrow> tl (ts_exc_info ts) = rest"
  by (simp add: raising_def)

lemma attempt_ok:
  assumes "\<And>x r. ca_fails ca site (sa_reg s) = Some (x, r) \<Longrightarrow>
      left_ok ca rest h (error line (ts \<lparr> ts_current := Some x \<rparr>) (s \<lparr> sa_reg := r \<rparr>))"
    and "ca_fails ca site (sa_reg s) = None \<Longrightarrow> left_ok ca rest h (go_on ts s)"
  shows "left_ok ca rest h (attempt ca site line error go_on ts s)"
  using assms by (auto simp: attempt_def split: option.split)

lemma locks_ok_simps [simp]: "locks_ok ca []" "locks_ok ca [EnterCalled, ExitCalled e]"
  by (simp_all add: locks_ok_def)

lemma locks_ok_gap: "ca_fails ca site r = Some x \<Longrightarrow> site \<in> {GetException3, PackTuple} \<Longrightarrow> locks_ok ca [EnterCalled]"
  unfolding locks_ok_def by (metis insertE option.distinct(1) singletonD)

lemma L5_ok: "raising rest ts \<Longrightarrow> saved_top rest h saved \<Longrightarrow> locks_ok ca (sa_lock s) \<Longrightarrow> left_ok ca rest h (L5_except_error saved line ts s)"
  by (simp add: L5_except_error_def L1_error_def left_ok_def raising_def saved_top_def ExceptionReset_def)

lemma L4_ok: "calm rest ts \<Longrightarrow> saved_top rest h saved \<Longrightarrow> locks_ok ca (sa_lock s) \<Longrightarrow> left_ok ca rest h (L4_exception_handled saved ts s)"
  by (auto simp: L4_exception_handled_def L8_try_end_def raise_here_def L1_error_def left_ok_def calm_def saved_top_def
      ExceptionReset_def split: option.split)

lemma L25_ok:
  assumes "calm rest ts" and "saved_top rest h saved" and "in_block s \<or> \<not> sa_exit s \<and> locks_ok ca (sa_lock s)"
  shows "left_ok ca rest h (L25_try_end ca saved ts s)"
proof (cases "sa_exit s")
  case True
  with assms(3) have "sa_lock s = [EnterCalled]" by (simp add: in_block_def)
  with True assms(1,2) show ?thesis
    by (auto intro!: attempt_ok L5_ok L4_ok simp: L25_try_end_def locks_ok_def)
next
  case False
  with assms show ?thesis by (auto intro!: L4_ok simp: L25_try_end_def in_block_def)
qed

lemma L20_ok:
  "raising rest ts \<Longrightarrow> saved_top rest h saved \<Longrightarrow> locks_ok ca (sa_lock s) \<Longrightarrow> left_ok ca rest h (L20_except_error saved saved2 line ts s)"
  unfolding L20_except_error_def by (rule L5_ok) (simp_all add: raising_def)

lemma L18_ok:
  assumes "raising rest ts" and "saved_top rest h saved" and "in_block s"
  shows "left_ok ca rest h (L18_error ca saved saved2 line ts s)"
proof -
  let ?ts = "snd (GetException (AddTraceback line ts))" and ?t = "fst (GetException (AddTraceback line ts))"
  have calm: "calm rest ?ts" using assms(1) by simp
  have cur: "fst (snd ?t) \<noteq> None" using assms(1) by (simp add: raising_def)
  have exits: "left_ok ca rest h (if \<not> ca_swallows ca then L20_except_error saved saved2 233 (ErrRestore ?t ?ts) s'
      else L19_exception_handled ca saved saved2 ?ts s')"
    if "\<not> sa_exit s' \<and> sa_lock s' = [EnterCalled, ExitCalled (fst (snd ?t))]" for s'
    using that calm cur assms(2) unfolding L19_exception_handled_def
    by (auto intro!: L20_ok L25_ok simp: locks_ok_def calm_def raising_def)
  show ?thesis
    unfolding L18_error_def Let_def split_beta
    by (intro attempt_ok)
      (use assms calm exits in \<open>auto intro!: L20_ok attempt_ok raising_again dest: locks_ok_gap simp: in_block_def\<close>)
qed

text \<open>The publication of the next object, for any way to go on.\<close>

lemma renew_next_ok:
  assumes "calm rest ts" and "in_block s"
    and "\<And>line ts s. raising rest ts \<Longrightarrow> in_block s \<Longrightarrow> left_ok ca rest h (error line ts s)"
    and "\<And>ts s. calm rest ts \<Longrightarrow> in_block s \<Longrightarrow> left_ok ca rest h (leave_block ts s)"
  shows "left_ok ca rest h (renew_next ca error leave_block ts s)"
  unfolding renew_next_def by (intro attempt_ok assms(3,4)) (simp_all add: assms(1,2))

lemma register_info_ok:
  assumes "calm rest ts" and "in_block s"
    and "\<And>line ts s. raising rest ts \<Longrightarrow> in_block s \<Longrightarrow> left_ok ca rest h (error line ts s)"
    and "\<And>ts s. calm rest ts \<Longrightarrow> in_block s \<Longrightarrow> left_ok ca rest h (leave_block ts s)"
  shows "left_ok ca rest h (register_info ca thread i error leave_block ts s)"
  unfolding register_info_def by (intro attempt_ok renew_next_ok assms(3,4)) (simp_all add: assms(1,2))

lemma L33_ok:
  assumes "calm rest ts" and "saved_top rest h saved" and "in_block s"
  shows "left_ok ca rest h (L33_try_end ca thread saved saved2 ts s)"
proof -
  let ?P = "left_ok ca rest h"
  have error: "?P (L18_error ca saved saved2 line ts s)" if "raising rest ts" "in_block s" for line ts s
    using L18_ok [OF that(1) assms(2) that(2)] .
  have leave: "?P (L25_try_end ca saved ts s)" if "calm rest ts" "in_block s" for ts s
    using L25_ok [OF that(1) assms(2)] that(2) by simp
  show ?thesis
    unfolding L33_try_end_def Let_def raise_here_def
    by (cases "sa_info s = Some None"; cases "sa_next_empty s") (auto intro!: attempt_ok register_info_ok error leave simp: assms(1,3))
qed

lemma L26_ok:
  assumes "raising rest ts" and "saved_top rest h saved" and "in_block s"
  shows "left_ok ca rest h (L26_error ca thread saved saved2 saved3 line ts s)"
  unfolding L26_error_def using assms
  by (auto intro!: attempt_ok L18_ok L33_ok simp: split_beta raising_tl)

lemma with_lock_ok:
  assumes "calm rest ts" and "saved_top rest h saved" and "sa_lock s = []" and "\<not> sa_exit s"
  shows "left_ok ca rest h (with_lock ca thread saved ts s)"
proof -
  have block: "left_ok ca rest h (locked_block ca thread saved ts s)" if "in_block s" for s
    unfolding locked_block_def Let_def using assms(1,2) that by (auto intro!: attempt_ok L26_ok L33_ok)
  show ?thesis
    unfolding with_lock_def L12_error_def using assms
    by (auto intro!: attempt_ok L5_ok block simp: in_block_def locks_ok_def)
qed

lemma L3_ok:
  assumes "raising rest ts" and "saved_top rest h saved" and "sa_lock s = []" and "\<not> sa_exit s"
  shows "left_ok ca rest h (L3_error ca thread saved line ts s)"
  unfolding L3_error_def using assms
  by (auto intro!: attempt_ok L5_ok with_lock_ok raising_again simp: split_beta)

lemma compiled_set_additional_thread_info_left:
  assumes "ts_current ts = None" and "ts_exc_info ts = v # rest" and "sa_lock s = []" and "\<not> sa_exit s"
  shows "left_ok ca rest (GetTopmostException (v # rest)) (compiled_set_additional_thread_info ca thread ts s)"
proof -
  let ?saved = "ExceptionSave ts"
  have saved: "saved_top rest (GetTopmostException (v # rest)) ?saved"
    using assms(2) topmost_set by (simp add: saved_top_def ExceptionSave_def)
  have calm: "calm rest ts" using assms(1,2) by (simp add: calm_def)
  have L8: "left_ok ca rest (GetTopmostException (v # rest)) (L8_try_end ts s')" if "sa_info s' \<noteq> None" "sa_lock s' = []" for s'
    using assms(1,2) that by (auto simp: left_ok_def L8_try_end_def locks_ok_def)
  show ?thesis
    unfolding compiled_set_additional_thread_info_def Let_def raise_here_def using calm saved assms(3,4)
    by (auto intro!: attempt_ok L3_ok L8)
qed

section \<open>What the function computes\<close>

text \<open>All calls succeed but for the reads of the attribute, which fail when the thread does not have it.\<close>

definition calls_succeed :: "calls \<Rightarrow> nat \<Rightarrow> bool" where
  "calls_succeed ca thread \<longleftrightarrow>
     (\<forall>site r. case ca_fails ca site r of
        None \<Rightarrow> True
      | Some (x, r') \<Rightarrow> site \<in> {GetAttr1, GetAttr2} \<and> r' = r \<and> t_additional_info (threads r thread) = None)"

lemma attempt_succeeds: "calls_succeed ca thread \<Longrightarrow> site \<notin> {GetAttr1, GetAttr2} \<Longrightarrow> attempt ca site line error go_on ts s = go_on ts s"
  by (auto simp: calls_succeed_def attempt_def split: option.splits dest!: spec [of _ site] spec [of _ "sa_reg s"])

lemma attempt_read:
  assumes "calls_succeed ca thread" and "site \<in> {GetAttr1, GetAttr2}"
  shows "attempt ca site line error go_on ts s = go_on ts s \<or>
    (t_additional_info (threads (sa_reg s) thread) = None \<and>
     (\<exists>x. attempt ca site line error go_on ts s = error line (ts \<lparr> ts_current := Some x \<rparr>) s))"
proof (cases "ca_fails ca site (sa_reg s)")
  case (Some z)
  obtain x r where z: "z = (x, r)" by fastforce
  have "r = sa_reg s \<and> t_additional_info (threads (sa_reg s) thread) = None"
    using assms(1) Some z unfolding calls_succeed_def by (auto dest!: spec [of _ site] spec [of _ "sa_reg s"])
  with Some z show ?thesis by (auto simp: attempt_def)
qed (simp add: attempt_def)

text \<open>The outcome of the work under the lock on a registry \<open>r\<close>.\<close>

definition published :: "nat \<Rightarrow> registry \<Rightarrow> left \<Rightarrow> bool" where
  "published thread r x \<longleftrightarrow>
     (case (x, set_additional_thread_info thread r) of ((result, ts, s), (i, r')) \<Rightarrow>
        result = Some (Some i) \<and> sa_reg s = r' \<and> sa_lock s = [EnterCalled, ExitCalled None] \<and> \<not> sa_next_empty s)"

lemma L33_publishes:
  assumes "calls_succeed ca thread" and "in_block s" and "\<not> sa_next_empty s"
    and "sa_info s = Some (t_additional_info (threads (sa_reg s) thread))"
  shows "published thread (sa_reg s) (L33_try_end ca thread saved saved2 ts s)"
proof -
  note go = attempt_succeeds [OF assms(1)]
  have leave: "L25_try_end ca saved ts s = (Some v, ExceptionReset saved ts, s \<lparr> sa_exit := False, sa_lock := [EnterCalled, ExitCalled None] \<rparr>)"
    if "in_block s" "sa_info s = Some v" for v ts s
    using that by (simp add: L25_try_end_def go L4_exception_handled_def L8_try_end_def in_block_def)
  show ?thesis
  proof (cases "t_additional_info (threads (sa_reg s) thread)")
    case None
    with assms(2-4) show ?thesis
      by (simp add: L33_try_end_def register_info_def renew_next_def go leave Let_def published_def set_additional_thread_info_def)
  next
    case (Some i)
    with assms(2-4) show ?thesis by (simp add: L33_try_end_def leave Let_def published_def set_additional_thread_info_def)
  qed
qed

lemma locked_block_publishes:
  assumes "calls_succeed ca thread" and "in_block s" and "\<not> sa_next_empty s"
  shows "published thread (sa_reg s) (locked_block ca thread saved ts s)"
proof -
  let ?sv = "ExceptionSave ts"
  have ok: "published thread (sa_reg s) (L33_try_end ca thread saved ?sv ts'
      (s \<lparr> sa_info := Some (t_additional_info (threads (sa_reg s) thread)) \<rparr>))" for ts'
    using L33_publishes [OF assms(1), of "s \<lparr> sa_info := Some (t_additional_info (threads (sa_reg s) thread)) \<rparr>" saved ?sv ts'] assms(2,3) by simp
  have handler: "published thread (sa_reg s) (L26_error ca thread saved ?sv ?sv line ts' s)"
    if "t_additional_info (threads (sa_reg s) thread) = None" for line ts'
    using ok that by (simp add: L26_error_def attempt_succeeds [OF assms(1)] split_beta)
  from attempt_read [OF assms(1), of GetAttr2 237 "L26_error ca thread saved ?sv ?sv"
      "\<lambda>ts s. L33_try_end ca thread saved ?sv ts (s \<lparr> sa_info := Some (t_additional_info (threads (sa_reg s) thread)) \<rparr>)" ts s]
  show ?thesis using ok handler unfolding locked_block_def Let_def by auto
qed

lemma L3_publishes:
  assumes "calls_succeed ca thread" and "sa_lock s = []" and "\<not> sa_next_empty s"
  shows "published thread (ca_meanwhile ca (sa_reg s)) (L3_error ca thread saved line ts s)"
  using assms(2,3) locked_block_publishes [OF assms(1),
      of "s \<lparr> sa_exit := True, sa_lock := [EnterCalled], sa_reg := ca_meanwhile ca (sa_reg s) \<rparr>" saved]
  by (simp add: L3_error_def with_lock_def attempt_succeeds [OF assms(1)] split_beta in_block_def)

lemma compiled_set_additional_thread_info_computes:
  assumes "calls_succeed ca thread" and "sa_lock s = []" and "\<not> sa_next_empty s"
  shows "case t_additional_info (threads (sa_reg s) thread) of
      Some i \<Rightarrow> \<exists>s'. compiled_set_additional_thread_info ca thread ts s = (Some (Some i), ts, s') \<and> sa_reg s' = sa_reg s \<and> sa_lock s' = []
    | None \<Rightarrow> published thread (ca_meanwhile ca (sa_reg s)) (compiled_set_additional_thread_info ca thread ts s)"
proof -
  let ?saved = "ExceptionSave ts" and ?s = "s \<lparr> sa_info := Some (t_additional_info (threads (sa_reg s) thread)) \<rparr>"
  have handler: "published thread (ca_meanwhile ca (sa_reg s)) (L3_error ca thread ?saved line ts' s')"
    if "s' \<in> {s, ?s}" for line ts' s'
    using L3_publishes [OF assms(1), of s' ?saved line ts'] that assms(2,3) by auto
  from attempt_read [OF assms(1), of GetAttr1 229 "L3_error ca thread ?saved"
      "\<lambda>ts s. let v = t_additional_info (threads (sa_reg s) thread); s = s \<lparr> sa_info := Some v \<rparr> in
         if v = None then attempt ca NewAttributeError 231 (L3_error ca thread ?saved) (raise_here AttributeError 231 (L3_error ca thread ?saved)) ts s
         else L8_try_end ts s" ts s]
  show ?thesis using handler assms(2)
    by (cases "t_additional_info (threads (sa_reg s) thread)")
      (auto simp: compiled_set_additional_thread_info_def Let_def attempt_succeeds [OF assms(1)] raise_here_def L8_try_end_def)
qed

section \<open>The property\<close>

text \<open>C38. 
  The compiled \<^verbatim>\<open>set_additional_thread_info\<close>, whichever of its calls fail: it returns NULL exactly when it leaves an exception in the thread state, the
  exception that its caller is handling is handled again with the stack below unchanged, and the lock is released once if it was acquired, but for the
  failure to fetch the exception for \<^verbatim>\<open>__exit__\<close>. When the calls succeed, except that the attribute may be missing, it returns the object of the thread or
  does the work of \<^term>\<open>set_additional_thread_info\<close> on the registry that the other threads have left when the lock is acquired.
\<close>

theorem compiled_set_additional_thread_info_correct:
  assumes "ts_current ts = None" and "ts_exc_info ts \<noteq> []" and "sa_lock s = []" and "\<not> sa_exit s"
  shows "case compiled_set_additional_thread_info ca thread ts s of (result, ts', s') \<Rightarrow>
    (result = None \<longleftrightarrow> ts_current ts' \<noteq> None) \<and> ts_exc_info ts' \<noteq> [] \<and> tl (ts_exc_info ts') = tl (ts_exc_info ts) \<and>
    GetTopmostException (ts_exc_info ts') = GetTopmostException (ts_exc_info ts) \<and> locks_ok ca (sa_lock s') \<and>
    (calls_succeed ca thread \<and> \<not> sa_next_empty s \<longrightarrow>
       (case t_additional_info (threads (sa_reg s) thread) of
          Some i \<Rightarrow> result = Some (Some i) \<and> sa_reg s' = sa_reg s \<and> sa_lock s' = []
        | None \<Rightarrow>
            (case set_additional_thread_info thread (ca_meanwhile ca (sa_reg s)) of (i, r) \<Rightarrow>
               result = Some (Some i) \<and> sa_reg s' = r \<and> sa_lock s' = [EnterCalled, ExitCalled None])))"
proof -
  obtain v rest where v: "ts_exc_info ts = v # rest" using assms(2) by (cases "ts_exc_info ts") auto
  obtain result ts' s' where run: "compiled_set_additional_thread_info ca thread ts s = (result, ts', s')" by (metis prod_cases3)
  have "left_ok ca rest (GetTopmostException (v # rest)) (result, ts', s')"
    using compiled_set_additional_thread_info_left [OF assms(1) v assms(3,4), of ca thread] run by simp
  moreover note compiled_set_additional_thread_info_computes [of ca thread s ts]
  ultimately show ?thesis using assms(3) v run
    by (auto simp: left_ok_def published_def split: option.splits prod.splits)
qed

text \<open>A thread without the attribute, and the same when the weak reference cannot be made.\<close>

definition quiet_calls :: calls where
  "quiet_calls = \<lparr> ca_fails = (\<lambda>site r. if site \<in> {GetAttr1, GetAttr2} \<and> t_additional_info (threads r 2) = None
       then Some (\<lparr> ex_id = 1, ex_exc = AttributeError \<rparr>, r) else None),
     ca_swallows = False, ca_meanwhile = id \<rparr>"

definition no_weakref :: calls where
  "no_weakref = quiet_calls \<lparr> ca_fails := (\<lambda>site r. if site = CallRef then Some (\<lparr> ex_id = 9, ex_exc = TypeError \<rparr>, r) else ca_fails quiet_calls site r) \<rparr>"

definition handling :: tstate where
  "handling = \<lparr> ts_current = None, ts_exc_info = [None, Some \<lparr> ex_id = 5, ex_exc = RuntimeError \<rparr>], ts_traceback = \<lambda>_. [] \<rparr>"

definition fresh_locals :: info_locals where
  "fresh_locals = \<lparr> sa_reg = boot_registry, sa_info = None, sa_exit = False, sa_lock = [], sa_next_empty = False \<rparr>"

theorem compiled_set_additional_thread_info_correct_witness:
  "(case compiled_set_additional_thread_info quiet_calls 2 handling fresh_locals of (result, ts', s') \<Rightarrow>
      result \<noteq> None \<and> ts_current ts' = None \<and> sa_lock s' = [EnterCalled, ExitCalled None] \<and>
      sa_reg s' = snd (set_additional_thread_info 2 boot_registry)) \<and>
   (case compiled_set_additional_thread_info no_weakref 2 handling fresh_locals of (result, ts', s') \<Rightarrow>
      GetTopmostException (ts_exc_info ts') = Some \<lparr> ex_id = 5, ex_exc = RuntimeError \<rparr> \<and> locks_ok no_weakref (sa_lock s'))"
proof -
  have ok: "calls_succeed quiet_calls 2" by (simp add: calls_succeed_def quiet_calls_def)
  have new: "t_additional_info (threads boot_registry 2) = None" by (simp add: boot_registry_def boot_thread_def)
  note theorem_at = compiled_set_additional_thread_info_correct [of handling fresh_locals _ 2]
  show ?thesis
    using theorem_at [of quiet_calls] theorem_at [of no_weakref] ok new
    by (auto simp: handling_def fresh_locals_def quiet_calls_def GetTopmostException.simps split: prod.splits)
qed

end
