(* ===== verification/World.thy ===== *)
theory World
  imports ThreadRegistry CyRuntime
begin

text \<open>
  The state the tracers of \<^verbatim>\<open>pydevd_cython.c\<close> work on and the services they call.

  \<open>world\<close> gathers the thread registry, the attributes of \<^verbatim>\<open>PyDB\<close> the tracers read, the mutable
  attributes of frames, the objects the tracers create and their caches. \<open>services\<close> is
  everything they call outside the compiled module: the questions asked of \<^verbatim>\<open>PyDB\<close> about a frame
  or a file (functions without effect), and the calls that act (suspend, wait for the user,
  evaluate a condition, the plugins), each an arbitrary state transformer that may also raise.
  Every such call is recorded in \<open>w_calls\<close> before it runs, so that a property can say which calls
  happen and which do not. Log messages have no entry there except the ones that report
  an exception.
\<close>

section \<open>Values and tracers\<close>

type_synonym abs_path = "string \<times> string \<times> string"

datatype trace_arg = ArgNone | ArgValue string | ArgExc pyexc string "traceback option"

datatype tracefun =
    NO_FTRACE | TraceDispatch nat | TraceException nat | ThreadTracerCall nat
  | TraceUnhandled nat | TraceNoBack nat | SafeCallWrapper tracefun

text \<open>\<^verbatim>\<open>None if is_call else NO_FTRACE\<close>\<close>

definition no_trace :: "bool \<Rightarrow> tracefun option" where
  "no_trace is_call = (if is_call then None else Some NO_FTRACE)"

record try_except_info =
  try_line :: int
  except_line :: int
  except_end_line :: int
  raise_lines_in_except :: "int list"

definition is_line_in_try_block :: "try_except_info \<Rightarrow> int \<Rightarrow> bool" where
  "is_line_in_try_block t line \<longleftrightarrow> try_line t \<le> line \<and> line < except_line t"

definition is_line_in_except_block :: "try_except_info \<Rightarrow> int \<Rightarrow> bool" where
  "is_line_in_except_block t line \<longleftrightarrow> except_line t \<le> line \<and> line \<le> except_end_line t"

record breakpoint =
  bp_id :: nat
  func_name :: string
  bp_has_condition :: bool
  bp_expression :: "string option"
  is_logpoint :: bool
  suspend_policy :: string

record exc_breakpoint =
  qname :: string
  exc_type :: "pyexc option"
  exc_condition :: "string option"
  exc_expression :: "string option"
  notify_on_first_raise_only :: bool
  ignore_libraries :: bool

text \<open>The value of \<^verbatim>\<open>PyDBFrame.exc_info\<close> when it is not the empty tuple.\<close>

type_synonym exc_info_t = "trace_arg \<times> int option \<times> int option list"

record pydbframe =
  pf_path :: abs_path
  pf_info :: nat
  pf_thread :: nat
  pf_key :: code_key
  should_skip :: cint
  exc_info :: "exc_info_t option"

lemma keeps_trace_arg [keeps_rules]:
  "(x = ArgNone \<Longrightarrow> keeps f m) \<Longrightarrow> (\<And>v. x = ArgValue v \<Longrightarrow> keeps f (n v)) \<Longrightarrow>
   (\<And>e v t. x = ArgExc e v t \<Longrightarrow> keeps f (k e v t)) \<Longrightarrow>
   keeps f (case x of ArgNone \<Rightarrow> m | ArgValue v \<Rightarrow> n v | ArgExc e v t \<Rightarrow> k e v t)"
  by (cases x) auto

text \<open>
  The tracer objects of a thread: \<^verbatim>\<open>ThreadTracer\<close>, \<^verbatim>\<open>TopLevelThreadTracerOnlyUnhandledExceptions\<close> (both
  hold a debugger, a thread and an information object) and
  \<^verbatim>\<open>TopLevelThreadTracerNoBackFrame\<close>.
\<close>

record no_back_frame =
  nb_frame_trace_dispatch :: "tracefun option"
  nb_thread :: nat
  nb_info :: nat
  nb_try_except_infos :: "try_except_info list option"
  nb_last_exc_arg :: "trace_arg option"
  nb_raise_lines :: "int option list"
  nb_last_raise_line :: cint

datatype tracer_obj =
    NoTracer | ThreadTracerObj nat nat nat | OnlyUnhandledObj nat nat nat
  | NoBackFrameObj no_back_frame

section \<open>The state\<close>

record pydb =
  pydb_disposed :: bool
  quitting :: bool
  has_plugin :: bool
  has_plugin_line_breaks :: bool
  has_plugin_exception_breaks :: bool
  break_on_caught_exceptions :: "(string \<times> exc_breakpoint) list"
  break_on_user_uncaught_exceptions :: "(string \<times> exc_breakpoint) list"
  skip_on_exceptions_thrown_in_same_context :: bool
  ignore_exceptions_thrown_in_lines_with_ignore_exception :: bool
  user_lines_ignored :: "string \<rightharpoonup> (int \<rightharpoonup> bool)"
  is_files_filter_enabled :: bool
  show_return_values :: bool
  remove_return_values_flag :: bool
  breakpoints :: "string \<rightharpoonup> (int \<times> breakpoint) list"
  function_breakpoint_name_to_breakpoint :: "string \<rightharpoonup> breakpoint"

record f_locals =
  return_values_dict :: "(string \<times> trace_arg) list option"
  exception_entry :: "trace_arg option"

datatype call =
    CallSetSuspend nat cint bool cint
  | CallWaitSuspend nat nat string
  | CallCondition nat | CallExcCondition string | CallExpression nat | CallExcExpression string
  | CallPlugin string
  | CallSendCaught nat | CallSendCaughtProceeded nat
  | CallSetTraceForFrameAndParents nat nat
  | CallStopOnUnhandled nat
  | CallNotifySkipped nat | CallNotifyThreadNotAlive nat | CallDisableTracing | CallEnableTracing
  | OutIoMessage string | OutConsoleMessage pyexc | LogException

record world =
  w_reg :: registry
  w_dbg :: pydb
  w_lineno :: "nat \<Rightarrow> int option"
  w_lasti :: "nat \<Rightarrow> int"
  w_locals :: "nat \<Rightarrow> f_locals"
  w_ftrace :: "nat \<rightharpoonup> tracefun"
  w_pf :: "nat \<Rightarrow> pydbframe"
  w_fresh :: nat
  w_tracers :: "nat \<Rightarrow> tracer_obj"
  w_db_id :: nat
  w_frame_cache :: "code_key \<rightharpoonup> int"
  w_line_cache :: "code_key \<times> int \<rightharpoonup> int"
  w_returns_cache :: "code_key \<rightharpoonup> int list"
  w_try_exc_cache :: "code_key \<rightharpoonup> try_except_info list option"
  w_cache_skips :: "code_key \<rightharpoonup> int"
  w_notified_skipped :: bool
  w_lines_ignored :: "string \<rightharpoonup> (int \<rightharpoonup> bool)"
  w_stat_info :: "string \<rightharpoonup> (int \<times> int) option"
  w_calls :: "call list"

text \<open>
  The dict \<^verbatim>\<open>frame_skips_cache\<close> has four kinds of keys (a code object, a code object with a line, with
  \<^verbatim>\<open>"returns"\<close> and with \<^verbatim>\<open>"try_exc_info"\<close>); here it is the four maps \<open>w_frame_cache\<close>,
  \<open>w_line_cache\<close>, \<open>w_returns_cache\<close> and \<open>w_try_exc_cache\<close>.
\<close>

section \<open>Services\<close>

type_synonym stop_info = "(string \<times> string) list"

record services =
  sv_ipython_context :: ipython_context
  sv_py313_0 :: bool
  sv_apply_files_filter :: "frame \<Rightarrow> string \<Rightarrow> bool \<Rightarrow> bool"
  sv_get_file_type :: "frame \<Rightarrow> int option"
  sv_in_project_scope :: "frame \<Rightarrow> string \<Rightarrow> bool"
  sv_abs_path :: "frame \<Rightarrow> abs_path"
  sv_collect_return_lines :: "code \<Rightarrow> int list"
  sv_collect_try_except_info :: "code \<Rightarrow> try_except_info list"
  sv_should_trace_hook :: "(code \<Rightarrow> string \<Rightarrow> bool) option"
  sv_findlinestarts_raises :: "code \<Rightarrow> bool"
  sv_get_clsname_for_code :: "code \<Rightarrow> frame \<Rightarrow> pyexc + string option"
  sv_ignore_system_exit_code :: "string \<Rightarrow> bool"
  sv_exclude_exception_by_filter :: "exc_breakpoint \<Rightarrow> traceback \<Rightarrow> bool"
  sv_issubclass :: "pyexc \<Rightarrow> pyexc \<Rightarrow> bool"
  sv_exc_qname :: "pyexc \<Rightarrow> string"
  sv_stat :: "string \<Rightarrow> (int \<times> int) option"
  sv_getline :: "string \<Rightarrow> int \<Rightarrow> pyexc + string"
  sv_ignore_tag_matches :: "string \<Rightarrow> bool"
  sv_bootstrap_self :: "frame \<Rightarrow> nat option"
  sv_get_ident :: "int option"
  sv_current_thread :: nat
  sv_set_suspend :: "nat \<Rightarrow> cint \<Rightarrow> bool \<Rightarrow> cint \<Rightarrow> (world, unit) py"
  sv_do_wait_suspend :: "nat \<Rightarrow> frame \<Rightarrow> string \<Rightarrow> trace_arg \<Rightarrow> string option \<Rightarrow> (world, unit) py"
  sv_handle_breakpoint_condition :: "nat \<Rightarrow> breakpoint \<Rightarrow> frame \<Rightarrow> (world, bool) py"
  sv_handle_exc_condition :: "nat \<Rightarrow> exc_breakpoint \<Rightarrow> frame \<Rightarrow> (world, bool) py"
  sv_handle_breakpoint_expression :: "nat \<Rightarrow> breakpoint \<Rightarrow> frame \<Rightarrow> (world, unit) py"
  sv_handle_exc_expression :: "nat \<Rightarrow> exc_breakpoint \<Rightarrow> frame \<Rightarrow> (world, unit) py"
  sv_send_caught_exception_stack :: "nat \<Rightarrow> trace_arg \<Rightarrow> (world, unit) py"
  sv_send_caught_exception_stack_proceeded :: "nat \<Rightarrow> (world, unit) py"
  sv_set_trace_for_frame_and_parents :: "nat \<Rightarrow> frame \<Rightarrow> (world, unit) py"
  sv_stop_on_unhandled_exception :: "nat \<Rightarrow> nat \<Rightarrow> trace_arg \<Rightarrow> (world, unit) py"
  sv_notify_skipped :: "frame \<Rightarrow> (world, unit) py"
  sv_notify_thread_not_alive :: "nat \<Rightarrow> (world, unit) py"
  sv_disable_tracing :: "(world, unit) py"
  sv_enable_tracing :: "tracefun \<Rightarrow> (world, unit) py"
  pl_can_skip :: "frame \<Rightarrow> (world, bool) py"
  pl_get_breakpoint :: "frame \<Rightarrow> string \<Rightarrow> nat \<Rightarrow> (world, (breakpoint \<times> frame \<times> string) option) py"
  pl_suspend :: "nat \<Rightarrow> frame \<Rightarrow> string option \<Rightarrow> (world, frame option) py"
  pl_cmd_step_into :: "frame \<Rightarrow> string \<Rightarrow> nat \<Rightarrow> nat \<Rightarrow> stop_info \<Rightarrow> bool \<Rightarrow>
    (world, (bool \<times> bool) option \<times> stop_info) py"
  pl_cmd_step_over :: "frame \<Rightarrow> string \<Rightarrow> nat \<Rightarrow> nat \<Rightarrow> stop_info \<Rightarrow> bool \<Rightarrow>
    (world, (bool \<times> bool) option \<times> stop_info) py"
  pl_stop :: "frame \<Rightarrow> string \<Rightarrow> nat \<Rightarrow> stop_info \<Rightarrow> trace_arg \<Rightarrow> cint \<Rightarrow> (world, unit) py"
  pl_exception_break :: "frame \<Rightarrow> nat \<Rightarrow> trace_arg \<Rightarrow> bool \<Rightarrow> (world, (bool \<times> frame) option) py"

text \<open>A call of a service is recorded, then runs.\<close>

definition do_call :: "call \<Rightarrow> (world, 'a) py \<Rightarrow> (world, 'a) py" where
  "do_call c m = py_then (py_modify (\<lambda>w. w \<lparr> w_calls := w_calls w @ [c] \<rparr>)) m"

definition emit :: "call \<Rightarrow> (world, unit) py" where
  "emit c = py_modify (\<lambda>w. w \<lparr> w_calls := w_calls w @ [c] \<rparr>)"

text \<open>An observation that no service changes.\<close>

definition services_keep :: "(world \<Rightarrow> 'b) \<Rightarrow> services \<Rightarrow> bool" where
  "services_keep f sv \<longleftrightarrow>
     (\<forall>t c b d. keeps f (sv_set_suspend sv t c b d)) \<and>
     (\<forall>t g e a x. keeps f (sv_do_wait_suspend sv t g e a x)) \<and>
     (\<forall>i b g. keeps f (sv_handle_breakpoint_condition sv i b g)) \<and>
     (\<forall>i b g. keeps f (sv_handle_exc_condition sv i b g)) \<and>
     (\<forall>i b g. keeps f (sv_handle_breakpoint_expression sv i b g)) \<and>
     (\<forall>i b g. keeps f (sv_handle_exc_expression sv i b g)) \<and>
     (\<forall>t a. keeps f (sv_send_caught_exception_stack sv t a)) \<and>
     (\<forall>t. keeps f (sv_send_caught_exception_stack_proceeded sv t)) \<and>
     (\<forall>t g. keeps f (sv_set_trace_for_frame_and_parents sv t g)) \<and>
     (\<forall>t i a. keeps f (sv_stop_on_unhandled_exception sv t i a)) \<and>
     (\<forall>g. keeps f (sv_notify_skipped sv g)) \<and>
     (\<forall>t. keeps f (sv_notify_thread_not_alive sv t)) \<and>
     keeps f (sv_disable_tracing sv) \<and>
     (\<forall>tf. keeps f (sv_enable_tracing sv tf)) \<and>
     (\<forall>g. keeps f (pl_can_skip sv g)) \<and>
     (\<forall>g e i. keeps f (pl_get_breakpoint sv g e i)) \<and>
     (\<forall>t g b. keeps f (pl_suspend sv t g b)) \<and>
     (\<forall>g e i t si b. keeps f (pl_cmd_step_into sv g e i t si b)) \<and>
     (\<forall>g e i t si b. keeps f (pl_cmd_step_over sv g e i t si b)) \<and>
     (\<forall>g e t si a c. keeps f (pl_stop sv g e t si a c)) \<and>
     (\<forall>g t a u. keeps f (pl_exception_break sv g t a u))"

lemma services_keepD [keeps_rules]:
  assumes "services_keep f sv"
  shows "keeps f (sv_set_suspend sv t c b d)" "keeps f (sv_do_wait_suspend sv t g e a x)"
    "keeps f (sv_handle_breakpoint_condition sv i bp g)" "keeps f (sv_handle_exc_condition sv i eb g)"
    "keeps f (sv_handle_breakpoint_expression sv i bp g)" "keeps f (sv_handle_exc_expression sv i eb g)"
    "keeps f (sv_send_caught_exception_stack sv t a)"
    "keeps f (sv_send_caught_exception_stack_proceeded sv t)"
    "keeps f (sv_set_trace_for_frame_and_parents sv t g)"
    "keeps f (sv_stop_on_unhandled_exception sv t i a)" "keeps f (sv_notify_skipped sv g)"
    "keeps f (sv_notify_thread_not_alive sv t)" "keeps f (sv_disable_tracing sv)"
    "keeps f (sv_enable_tracing sv tf)" "keeps f (pl_can_skip sv g)"
    "keeps f (pl_get_breakpoint sv g e i)" "keeps f (pl_suspend sv t g bt)"
    "keeps f (pl_cmd_step_into sv g e i t si b)" "keeps f (pl_cmd_step_over sv g e i t si b)"
    "keeps f (pl_stop sv g e t si a c)" "keeps f (pl_exception_break sv g t a b)"
  using assms by (simp_all add: services_keep_def)

section \<open>Access to the state\<close>

definition get_info :: "nat \<Rightarrow> (thread_info \<Rightarrow> 'a) \<Rightarrow> (world, 'a) py" where
  "get_info i f = py_gets (\<lambda>w. f (infos (w_reg w) i))"

definition set_info :: "nat \<Rightarrow> (thread_info \<Rightarrow> thread_info) \<Rightarrow> (world, unit) py" where
  "set_info i f = py_modify (\<lambda>w. w \<lparr> w_reg := upd_info i f (w_reg w) \<rparr>)"

definition get_db :: "(pydb \<Rightarrow> 'a) \<Rightarrow> (world, 'a) py" where
  "get_db f = py_gets (\<lambda>w. f (w_dbg w))"

definition get_pf :: "nat \<Rightarrow> (pydbframe \<Rightarrow> 'a) \<Rightarrow> (world, 'a) py" where
  "get_pf p f = py_gets (\<lambda>w. f (w_pf w p))"

definition set_pf :: "nat \<Rightarrow> (pydbframe \<Rightarrow> pydbframe) \<Rightarrow> (world, unit) py" where
  "set_pf p f = py_modify (\<lambda>w. w \<lparr> w_pf := (w_pf w)(p := f (w_pf w p)) \<rparr>)"

definition on_registry :: "(registry, 'a) py \<Rightarrow> (world, 'a) py" where
  "on_registry m = py_zoom w_reg (\<lambda>r w. w \<lparr> w_reg := r \<rparr>) m"

definition f_lineno :: "frame \<Rightarrow> (world, int option) py" where
  "f_lineno f = py_gets (\<lambda>w. w_lineno w (f_id f))"

lemmas access_defs = get_info_def set_info_def get_db_def get_pf_def set_pf_def f_lineno_def

text \<open>\<open>tracing_depth i w\<close> is \<^verbatim>\<open>info.is_tracing\<close> of the information object \<open>i\<close>.\<close>

definition tracing_depth :: "nat \<Rightarrow> world \<Rightarrow> cint" where
  "tracing_depth i w = is_tracing (infos (w_reg w) i)"

text \<open>The frame comparison of the tracer: \<^verbatim>\<open>self._is_same_frame\<close>.\<close>

definition same_frame :: "services \<Rightarrow> nat \<Rightarrow> frame option \<Rightarrow> frame option \<Rightarrow> (world, bool) py" where
  "same_frame sv info target current =
     py_bind (get_info info pydev_use_scoped_step_frame)
       (\<lambda>scoped. py_ret (is_same_frame (sv_ipython_context sv) scoped target current))"

text \<open>\<^verbatim>\<open>x\<close> as a C int: None is a TypeError, a number out of range an OverflowError.\<close>

definition opt_as_cint :: "int option \<Rightarrow> pyexc + cint" where
  "opt_as_cint x = (case x of None \<Rightarrow> Inl TypeError | Some n \<Rightarrow> int_as_cint n)"

lemma keeps_do_call [keeps_rules]:
  "(\<And>w. f (w \<lparr> w_calls := w_calls w @ [c] \<rparr>) = f w) \<Longrightarrow> keeps f m \<Longrightarrow> keeps f (do_call c m)"
  unfolding do_call_def by (intro keeps_rules)

lemma keeps_emit [keeps_rules]: "(\<And>w. f (w \<lparr> w_calls := w_calls w @ [c] \<rparr>) = f w) \<Longrightarrow> keeps f (emit c)"
  unfolding emit_def by (intro keeps_rules)

lemma keeps_access [keeps_rules]:
  "keeps f (get_info i g)" "keeps f (get_db h)" "keeps f (get_pf p k)" "keeps f (f_lineno fr)"
  "keeps f (same_frame sv i a b)"
  by (simp_all add: access_defs same_frame_def keeps_rules)

end
