(* ===== verification/Scenario.thy ===== *)
theory Scenario
  imports World
begin

text \<open>
  A concrete debugging session on which the properties are exercised: a client that answers every
  stop with \<^verbatim>\<open>continue\<close>, no plugins, no filters, and a program of two frames. \<open>plain_set_suspend\<close> and
  \<open>plain_wait\<close> are what \<^verbatim>\<open>PyDB.set_suspend\<close> and the end of \<^verbatim>\<open>PyDB.do_wait_suspend\<close> do to the thread:
  \<^verbatim>\<open>mark_thread_suspended\<close> and \<^verbatim>\<open>internal_run_thread\<close> of \<^verbatim>\<open>pydevd_thread_lifecycle.py\<close>.
\<close>

definition for_thread :: "nat \<Rightarrow> (nat \<Rightarrow> (registry, unit) py) \<Rightarrow> (world, unit) py" where
  "for_thread t m = on_registry (\<lambda>r.
     case t_additional_info (threads r t) of None \<Rightarrow> (Inr (), r) | Some i \<Rightarrow> m i r)"

definition plain_set_suspend :: "nat \<Rightarrow> cint \<Rightarrow> bool \<Rightarrow> cint \<Rightarrow> (world, unit) py" where
  "plain_set_suspend t reason all orig = for_thread t (\<lambda>i. mark_thread_suspended t reason orig)"

definition internal_run_thread :: "nat \<Rightarrow> (registry, unit) py" where
  "internal_run_thread i = (\<lambda>r. update_stepping_info i (upd_info i (\<lambda>f. f \<lparr>
     pydev_original_step_cmd := -1, pydev_step_cmd := -1, pydev_step_stop := None,
     pydev_state := STATE_RUN \<rparr>) r))"

definition plain_wait ::
  "nat \<Rightarrow> frame \<Rightarrow> string \<Rightarrow> trace_arg \<Rightarrow> string option \<Rightarrow> (world, unit) py" where
  "plain_wait t f e a x = for_thread t internal_run_thread"

definition plain_services :: services where
  "plain_services = \<lparr>
     sv_ipython_context = PYDEVD_IPYTHON_CONTEXT, sv_py313_0 = False,
     sv_apply_files_filter = (\<lambda>f n b. False), sv_get_file_type = (\<lambda>f. None),
     sv_in_project_scope = (\<lambda>f n. True),
     sv_abs_path = (\<lambda>f. (co_filename (f_code f), co_filename (f_code f), co_filename (f_code f))),
     sv_collect_return_lines = (\<lambda>c. []), sv_collect_try_except_info = (\<lambda>c. []),
     sv_should_trace_hook = None, sv_findlinestarts_raises = (\<lambda>c. False),
     sv_get_clsname_for_code = (\<lambda>c f. Inr None), sv_ignore_system_exit_code = (\<lambda>v. False),
     sv_exclude_exception_by_filter = (\<lambda>b t. False), sv_issubclass = (\<lambda>a b. a = b),
     sv_exc_qname = (\<lambda>e. case e of UserExc n \<Rightarrow> n | _ \<Rightarrow> ''builtins''), sv_stat = (\<lambda>n. None),
     sv_getline = (\<lambda>n l. Inr []), sv_ignore_tag_matches = (\<lambda>l. False),
     sv_bootstrap_self = (\<lambda>f. None), sv_get_ident = Some 1, sv_current_thread = 1,
     sv_set_suspend = plain_set_suspend, sv_do_wait_suspend = plain_wait,
     sv_handle_breakpoint_condition = (\<lambda>i b f. py_ret False),
     sv_handle_exc_condition = (\<lambda>i b f. py_ret False),
     sv_handle_breakpoint_expression = (\<lambda>i b f. py_ret ()),
     sv_handle_exc_expression = (\<lambda>i b f. py_ret ()),
     sv_send_caught_exception_stack = (\<lambda>t a. py_ret ()),
     sv_send_caught_exception_stack_proceeded = (\<lambda>t. py_ret ()),
     sv_set_trace_for_frame_and_parents = (\<lambda>t f. py_ret ()),
     sv_stop_on_unhandled_exception = (\<lambda>t i a. py_ret ()), sv_notify_skipped = (\<lambda>f. py_ret ()),
     sv_notify_thread_not_alive = (\<lambda>t. py_ret ()), sv_disable_tracing = py_ret (),
     sv_enable_tracing = (\<lambda>t. py_ret ()), pl_can_skip = (\<lambda>f. py_ret True),
     pl_get_breakpoint = (\<lambda>f e i. py_ret None), pl_suspend = (\<lambda>t f b. py_ret None),
     pl_cmd_step_into = (\<lambda>f e i t s b. py_ret (None, s)),
     pl_cmd_step_over = (\<lambda>f e i t s b. py_ret (None, s)),
     pl_stop = (\<lambda>f e t s a c. py_ret ()), pl_exception_break = (\<lambda>f t a u. py_ret None) \<rparr>"

lemma plain_services_fields [simp]:
  "sv_ipython_context plain_services = PYDEVD_IPYTHON_CONTEXT"
  "sv_py313_0 plain_services = False"
  "sv_apply_files_filter plain_services = (\<lambda>f n b. False)"
  "sv_get_file_type plain_services = (\<lambda>f. None)"
  "sv_in_project_scope plain_services = (\<lambda>f n. True)"
  "sv_abs_path plain_services = (\<lambda>f. (co_filename (f_code f), co_filename (f_code f), co_filename (f_code f)))"
  "sv_collect_return_lines plain_services = (\<lambda>c. [])"
  "sv_collect_try_except_info plain_services = (\<lambda>c. [])"
  "sv_should_trace_hook plain_services = None"
  "sv_findlinestarts_raises plain_services = (\<lambda>c. False)"
  "sv_get_clsname_for_code plain_services = (\<lambda>c f. Inr None)"
  "sv_ignore_system_exit_code plain_services = (\<lambda>v. False)"
  "sv_exclude_exception_by_filter plain_services = (\<lambda>b t. False)"
  "sv_issubclass plain_services = (\<lambda>a b. a = b)"
  "sv_exc_qname plain_services = (\<lambda>e. case e of UserExc n \<Rightarrow> n | _ \<Rightarrow> ''builtins'')"
  "sv_stat plain_services = (\<lambda>n. None)"
  "sv_getline plain_services = (\<lambda>n l. Inr [])"
  "sv_ignore_tag_matches plain_services = (\<lambda>l. False)"
  "sv_bootstrap_self plain_services = (\<lambda>f. None)"
  "sv_get_ident plain_services = Some 1"
  "sv_current_thread plain_services = 1"
  "sv_set_suspend plain_services = plain_set_suspend"
  "sv_do_wait_suspend plain_services = plain_wait"
  "sv_handle_breakpoint_condition plain_services = (\<lambda>i b f. py_ret False)"
  "sv_handle_exc_condition plain_services = (\<lambda>i b f. py_ret False)"
  "sv_handle_breakpoint_expression plain_services = (\<lambda>i b f. py_ret ())"
  "sv_handle_exc_expression plain_services = (\<lambda>i b f. py_ret ())"
  "sv_send_caught_exception_stack plain_services = (\<lambda>t a. py_ret ())"
  "sv_send_caught_exception_stack_proceeded plain_services = (\<lambda>t. py_ret ())"
  "sv_set_trace_for_frame_and_parents plain_services = (\<lambda>t f. py_ret ())"
  "sv_stop_on_unhandled_exception plain_services = (\<lambda>t i a. py_ret ())"
  "sv_notify_skipped plain_services = (\<lambda>f. py_ret ())"
  "sv_notify_thread_not_alive plain_services = (\<lambda>t. py_ret ())"
  "sv_disable_tracing plain_services = py_ret ()"
  "sv_enable_tracing plain_services = (\<lambda>t. py_ret ())"
  "pl_can_skip plain_services = (\<lambda>f. py_ret True)"
  "pl_get_breakpoint plain_services = (\<lambda>f e i. py_ret None)"
  "pl_suspend plain_services = (\<lambda>t f b. py_ret None)"
  "pl_cmd_step_into plain_services = (\<lambda>f e i t s b. py_ret (None, s))"
  "pl_cmd_step_over plain_services = (\<lambda>f e i t s b. py_ret (None, s))"
  "pl_stop plain_services = (\<lambda>f e t s a c. py_ret ())"
  "pl_exception_break plain_services = (\<lambda>f t a u. py_ret None)"
  by (simp_all add: plain_services_def)

section \<open>What these services leave unchanged\<close>

lemma update_stepping_keeps [keeps_rules]: "keeps infos (update_stepping_info j)"
  by (rule keepsI) (auto simp: update_stepping_info_def set_event_for_def Let_def
      split: prod.splits option.splits)

lemma depth_update_stepping: "is_tracing (infos (snd (update_stepping_info j r)) i) = is_tracing (infos r i)"
  using keepsD [OF update_stepping_keeps, of j r] by simp

lemma depth_for_thread:
  assumes "\<And>r j. t_additional_info (threads r t) = Some j \<Longrightarrow>
     is_tracing (infos (snd (m j r)) i) = is_tracing (infos r i)"
  shows "keeps (tracing_depth i) (for_thread t m)"
  unfolding keeps_def for_thread_def on_registry_def py_zoom_def tracing_depth_def
  using assms by (auto split: option.splits prod.splits) (metis snd_conv)

lemma plain_keeps_depth [simp]: "services_keep (tracing_depth i) plain_services"
proof -
  have "keeps (tracing_depth i) (plain_set_suspend t c b d)" for t c b d
    unfolding plain_set_suspend_def
    by (rule depth_for_thread)
      (auto simp: mark_thread_suspended_def set_additional_thread_info_known depth_update_stepping
        upd_info_def upd_thread_def Let_def)
  moreover have "keeps (tracing_depth i) (plain_wait t f e a x)" for t f e a x
    unfolding plain_wait_def
    by (rule depth_for_thread)
      (auto simp: internal_run_thread_def depth_update_stepping upd_info_def)
  ultimately show ?thesis
    by (simp add: services_keep_def plain_services_def keeps_ret)
qed

text \<open>They act on the registry only.\<close>

lemma keeps_on_registry: "(\<And>w r. f (w \<lparr> w_reg := r \<rparr>) = f w) \<Longrightarrow> keeps f (on_registry m)"
  unfolding on_registry_def keeps_def by (simp add: py_zoom_def split: prod.splits)

lemma plain_keeps:
  assumes "\<And>w r. f (w \<lparr> w_reg := r \<rparr>) = f w"
  shows "services_keep f plain_services"
  by (simp add: services_keep_def plain_services_def plain_set_suspend_def plain_wait_def
      for_thread_def keeps_ret keeps_on_registry [OF assms])

text \<open>The same session with a client that does not react at all.\<close>

definition quiet_services :: services where
  "quiet_services = plain_services \<lparr> sv_set_suspend := (\<lambda>t c b d. py_ret ()),
     sv_do_wait_suspend := (\<lambda>t f e a x. py_ret ()) \<rparr>"

lemma quiet_keeps: "services_keep f quiet_services"
  by (simp add: services_keep_def quiet_services_def plain_services_def keeps_ret)

text \<open>A client that is told about a stop, with the thread marked as suspended, and does not react.\<close>

definition stopping_services :: services where
  "stopping_services = quiet_services \<lparr> sv_set_suspend :=
     (\<lambda>t c b d. set_info 0 (\<lambda>i. i \<lparr> pydev_state := STATE_SUSPEND \<rparr>)) \<rparr>"

lemma stopping_fields:
  "sv_findlinestarts_raises stopping_services = (\<lambda>c. False)"
  "sv_should_trace_hook stopping_services = None"
  "sv_ipython_context stopping_services = PYDEVD_IPYTHON_CONTEXT"
  "sv_get_file_type stopping_services = (\<lambda>f. None)"
  "sv_abs_path stopping_services = sv_abs_path plain_services"
  by (simp_all add: stopping_services_def quiet_services_def)

lemma services_keep_stopping:
  assumes "\<And>w r. f (w \<lparr> w_reg := r \<rparr>) = f w"
  shows "services_keep f stopping_services"
  using assms by (simp add: services_keep_def stopping_services_def quiet_services_def keeps_ret
      set_info_def keeps_modify)

section \<open>The program\<close>

definition demo_code :: "string \<Rightarrow> string \<Rightarrow> code" where
  "demo_code file name = \<lparr> co_filename = file, co_name = name, co_firstlineno = 1, co_flags = 3,
     co_linestarts = [(0, Some 1), (2, Some 2), (4, None), (6, Some 3)], co_body = [] \<rparr>"

definition main_frame :: frame where
  "main_frame = Frame 0 (demo_code ''a.py'' ''<module>'') None"

definition f_frame :: frame where
  "f_frame = Frame 1 (demo_code ''a.py'' ''f'') (Some main_frame)"

definition plain_db :: pydb where
  "plain_db = \<lparr> pydb_disposed = False, quitting = False, has_plugin = False,
     has_plugin_line_breaks = False, has_plugin_exception_breaks = False,
     break_on_caught_exceptions = [], break_on_user_uncaught_exceptions = [],
     skip_on_exceptions_thrown_in_same_context = False,
     ignore_exceptions_thrown_in_lines_with_ignore_exception = False,
     user_lines_ignored = Map.empty, is_files_filter_enabled = False, show_return_values = False,
     remove_return_values_flag = False, breakpoints = Map.empty,
     function_breakpoint_name_to_breakpoint = Map.empty \<rparr>"

text \<open>Thread 1 runs \<^verbatim>\<open>f\<close> at line 2; the PyDBFrame of \<open>f\<close> has identity 0.\<close>

definition empty_locals :: f_locals where
  "empty_locals = \<lparr> return_values_dict = None, exception_entry = None \<rparr>"

definition demo_pf :: pydbframe where
  "demo_pf = \<lparr> pf_path = (''a.py'', ''a.py'', ''a.py''), pf_info = 0, pf_thread = 1,
     pf_key = code_key (demo_code ''a.py'' ''f''), should_skip = -1, exc_info = None \<rparr>"

lemma demo_pf_fields [simp]:
  "pf_path demo_pf = (''a.py'', ''a.py'', ''a.py'')" "pf_info demo_pf = 0" "pf_thread demo_pf = 1"
  "pf_key demo_pf = code_key (demo_code ''a.py'' ''f'')" "should_skip demo_pf = -1"
  "exc_info demo_pf = None"
  by (simp_all add: demo_pf_def)

definition demo_world :: world where
  "demo_world = \<lparr> w_reg = two_threads, w_dbg = plain_db, w_lineno = (\<lambda>f. Some 2), w_lasti = (\<lambda>f. 0),
     w_locals = (\<lambda>f. empty_locals), w_ftrace = Map.empty,
     w_pf = (\<lambda>p. demo_pf),
     w_fresh = 1, w_tracers = (\<lambda>k. NoTracer), w_db_id = 0, w_frame_cache = Map.empty,
     w_line_cache = Map.empty, w_returns_cache = Map.empty, w_try_exc_cache = Map.empty,
     w_cache_skips = Map.empty, w_notified_skipped = False, w_lines_ignored = Map.empty,
     w_stat_info = Map.empty, w_calls = [] \<rparr>"

definition demo_breakpoint :: breakpoint where
  "demo_breakpoint = \<lparr> bp_id = 7, func_name = ''None'', bp_has_condition = False, bp_expression = None,
     is_logpoint = False, suspend_policy = ''NONE'' \<rparr>"

definition demo_exc_breakpoint :: exc_breakpoint where
  "demo_exc_breakpoint = \<lparr> qname = ''E'', exc_type = None, exc_condition = None, exc_expression = None,
     notify_on_first_raise_only = False, ignore_libraries = False \<rparr>"

lemma plain_db_fields [simp]:
  "pydb_disposed plain_db = False"
  "quitting plain_db = False"
  "has_plugin plain_db = False"
  "has_plugin_line_breaks plain_db = False"
  "has_plugin_exception_breaks plain_db = False"
  "break_on_caught_exceptions plain_db = []"
  "break_on_user_uncaught_exceptions plain_db = []"
  "skip_on_exceptions_thrown_in_same_context plain_db = False"
  "ignore_exceptions_thrown_in_lines_with_ignore_exception plain_db = False"
  "user_lines_ignored plain_db = Map.empty"
  "is_files_filter_enabled plain_db = False"
  "show_return_values plain_db = False"
  "remove_return_values_flag plain_db = False"
  "breakpoints plain_db = Map.empty"
  "function_breakpoint_name_to_breakpoint plain_db = Map.empty"
  by (simp_all add: plain_db_def)

lemma demo_world_fields [simp]:
  "w_reg demo_world = two_threads"
  "w_dbg demo_world = plain_db"
  "w_lineno demo_world = (\<lambda>f. Some 2)"
  "w_lasti demo_world = (\<lambda>f. 0)"
  "w_locals demo_world = (\<lambda>f. empty_locals)"
  "w_ftrace demo_world = Map.empty"
  "w_pf demo_world = (\<lambda>p. demo_pf)"
  "w_fresh demo_world = 1"
  "w_tracers demo_world = (\<lambda>k. NoTracer)"
  "w_db_id demo_world = 0"
  "w_frame_cache demo_world = Map.empty"
  "w_line_cache demo_world = Map.empty"
  "w_returns_cache demo_world = Map.empty"
  "w_try_exc_cache demo_world = Map.empty"
  "w_cache_skips demo_world = Map.empty"
  "w_notified_skipped demo_world = False"
  "w_lines_ignored demo_world = Map.empty"
  "w_stat_info demo_world = Map.empty"
  "w_calls demo_world = []"
  by (simp_all add: demo_world_def)

lemma demo_breakpoint_fields [simp]:
  "bp_id demo_breakpoint = 7"
  "func_name demo_breakpoint = ''None''"
  "bp_has_condition demo_breakpoint = False"
  "bp_expression demo_breakpoint = None"
  "is_logpoint demo_breakpoint = False"
  "suspend_policy demo_breakpoint = ''NONE''"
  by (simp_all add: demo_breakpoint_def)

lemma demo_exc_breakpoint_fields [simp]:
  "qname demo_exc_breakpoint = ''E''"
  "exc_type demo_exc_breakpoint = None"
  "exc_condition demo_exc_breakpoint = None"
  "exc_expression demo_exc_breakpoint = None"
  "notify_on_first_raise_only demo_exc_breakpoint = False"
  "ignore_libraries demo_exc_breakpoint = False"
  by (simp_all add: demo_exc_breakpoint_def)

lemma demo_code_fields [simp]:
  "co_filename (demo_code file name) = file" "co_name (demo_code file name) = name"
  "co_firstlineno (demo_code file name) = 1" "co_flags (demo_code file name) = 3"
  "co_linestarts (demo_code file name) = [(0, Some 1), (2, Some 2), (4, None), (6, Some 3)]"
  "func_lines (demo_code file name) = [1, 2, 3]" "\<not> is_coroutine_or_generator (demo_code file name)"
  by (simp_all add: demo_code_def func_lines_def is_coroutine_or_generator_def map_filter_simps
      bit_iff_odd)

lemma demo_frame_fields [simp]:
  "f_id f_frame = 1" "f_code f_frame = demo_code ''a.py'' ''f''" "f_back f_frame = Some main_frame"
  "f_id main_frame = 0" "f_code main_frame = demo_code ''a.py'' ''<module>''" "f_back main_frame = None"
  by (simp_all add: f_frame_def main_frame_def)

lemma demo_trace_not_ignored [simp]: "\<not> ignore_exception_trace (TB f_frame n None)"
  by (simp add: ignore_exception_trace.simps importlib_files_def FILES_WITH_IMPORT_HOOKS_def
      suffix_to_prefix)

lemma demo_info [simp]:
  "infos two_threads 0 = PyDBAdditionalThreadInfo \<lparr> weak_thread := Some 1 \<rparr>"
  "threads two_threads (Suc 0) = (boot_thread 1) \<lparr> t_additional_info := Some 0 \<rparr>"
  by (simp_all add: two_threads_run)

lemma new_info_fields [simp]:
  "pydev_state PyDBAdditionalThreadInfo = STATE_RUN" "pydev_step_cmd PyDBAdditionalThreadInfo = -1"
  "pydev_step_stop PyDBAdditionalThreadInfo = None"
  "pydev_original_step_cmd PyDBAdditionalThreadInfo = -1" "is_tracing PyDBAdditionalThreadInfo = 0"
  "pydev_use_scoped_step_frame PyDBAdditionalThreadInfo = False"
  by (simp_all add: PyDBAdditionalThreadInfo_def init_info_def)

text \<open>The session with other debugger settings or with other fields of the thread's information object.\<close>

definition with_db :: "(pydb \<Rightarrow> pydb) \<Rightarrow> world \<Rightarrow> world" where
  "with_db g w = w \<lparr> w_dbg := g (w_dbg w) \<rparr>"

definition with_info :: "(thread_info \<Rightarrow> thread_info) \<Rightarrow> world \<Rightarrow> world" where
  "with_info g w = w \<lparr> w_reg := upd_info 0 g (w_reg w) \<rparr>"

lemmas scenario_defs = with_db_def with_info_def upd_info_def

end
