(* ===== verification/ExceptionStop.thy ===== *)
theory ExceptionStop
  imports Scenario
begin

text \<open>
  Exceptions: \<^verbatim>\<open>is_unhandled_exception\<close>, \<^verbatim>\<open>should_stop_on_exception\<close> and \<^verbatim>\<open>handle_exception\<close> of
  \<^verbatim>\<open>pydevd_cython.c\<close>, with the helpers of \<^verbatim>\<open>pydevd_frame_utils.py\<close> and
  \<^verbatim>\<open>pydevd_breakpoints.py\<close> they call.

  The set of raise lines in \<^verbatim>\<open>exc_info\<close> is passed as a value: the code adds to the set of the
  previous tuple and then stores a new tuple around it, so the two differ only when a
  condition raises in between.
\<close>

definition EXCEPTION_TYPE_HANDLED :: string where "EXCEPTION_TYPE_HANDLED = ''HANDLED''"
definition EXCEPTION_TYPE_USER_UNHANDLED :: string where
  "EXCEPTION_TYPE_USER_UNHANDLED = ''USER_UNHANDLED''"

section \<open>Unhandled exceptions\<close>

text \<open>The loop over all \<^verbatim>\<open>try..except\<close> blocks that looks for a raise in an except block. A frame
  without a line makes the comparison of the block raise.\<close>

fun raised_in_except :: "try_except_info list \<Rightarrow> int option \<Rightarrow> pyexc + bool" where
  "raised_in_except [] line = Inr False"
| "raised_in_except (t # ts) None = Inl TypeError"
| "raised_in_except (t # ts) (Some line) =
     (if is_line_in_except_block t line \<and>
         (line = except_line t \<or> line \<in> set (raise_lines_in_except t))
      then Inr True else raised_in_except ts (Some line))"

text \<open>
  \<^verbatim>\<open>is_unhandled_exception\<close>: \<open>container\<close> is \<^verbatim>\<open>container_obj.try_except_infos\<close>, which the
  function fills in when it is None.
\<close>

definition is_unhandled_exception ::
  "(code \<Rightarrow> try_except_info list) \<Rightarrow> code \<Rightarrow> int option \<Rightarrow> cint \<Rightarrow> int option list \<Rightarrow>
   try_except_info list option \<Rightarrow> (pyexc + bool) \<times> try_except_info list option" where
  "is_unhandled_exception collect code lineno last_raise_line raise_lines container =
     (if lineno \<in> set raise_lines then (Inr True, container)
      else
        (let infos = (case container of None \<Rightarrow> collect code | Some ts \<Rightarrow> ts) in
         if infos = [] then (Inr True, Some infos)
         else
           (let valid = filter (\<lambda>t. is_line_in_try_block t (sint last_raise_line)) infos in
            if valid = [] then (Inr True, Some infos)
            else (raised_in_except infos lineno, Some infos))))"

lemma raised_in_except_Some:
  "raised_in_except ts (Some line) =
     Inr (\<exists>t \<in> set ts. is_line_in_except_block t line \<and>
            (line = except_line t \<or> line \<in> set (raise_lines_in_except t)))"
  by (induction ts) auto

section \<open>Exception breakpoints\<close>

text \<open>\<^verbatim>\<open>get_exception_breakpoint\<close>: the exact name first, otherwise the most specific base class in
  the order of the dict.\<close>

fun best_exc_breakpoint ::
  "(pyexc \<Rightarrow> pyexc \<Rightarrow> bool) \<Rightarrow> pyexc \<Rightarrow> exc_breakpoint list \<Rightarrow> exc_breakpoint option \<Rightarrow>
   exc_breakpoint option" where
  "best_exc_breakpoint sub e [] best = best"
| "best_exc_breakpoint sub e (b # bs) best =
     best_exc_breakpoint sub e bs
       (case exc_type b of
          None \<Rightarrow> best
        | Some ty \<Rightarrow>
            if sub e ty \<and> (case best of None \<Rightarrow> True
                                     | Some c \<Rightarrow> (case exc_type c of None \<Rightarrow> False | Some tc \<Rightarrow> sub ty tc))
            then Some b else best)"

definition get_exception_breakpoint ::
  "services \<Rightarrow> pyexc \<Rightarrow> (string \<times> exc_breakpoint) list \<Rightarrow> exc_breakpoint option" where
  "get_exception_breakpoint sv e exceptions =
     (case map_of exceptions (sv_exc_qname sv e) of
        Some b \<Rightarrow> Some b
      | None \<Rightarrow> best_exc_breakpoint (sv_issubclass sv) e (map snd exceptions) None)"

section \<open>The exception entry in the locals of a frame\<close>

definition add_exception_to_frame :: "frame \<Rightarrow> trace_arg \<Rightarrow> (world, unit) py" where
  "add_exception_to_frame f a = py_modify (\<lambda>w. w \<lparr> w_locals :=
     (w_locals w)(f_id f := (w_locals w (f_id f)) \<lparr> exception_entry := Some a \<rparr>) \<rparr>)"

text \<open>On Python 3.13.0 the entry is set to None instead of being removed.\<close>

definition remove_exception_from_frame :: "services \<Rightarrow> frame \<Rightarrow> (world, unit) py" where
  "remove_exception_from_frame sv f = py_modify (\<lambda>w. w \<lparr> w_locals :=
     (w_locals w)(f_id f := (w_locals w (f_id f)) \<lparr> exception_entry :=
        (if sv_py313_0 sv then Some ArgNone else None) \<rparr>) \<rparr>)"

section \<open>\<^verbatim>\<open>should_stop_on_exception\<close>\<close>

text \<open>The plugin's answer; an exception of the plugin is logged and ignored.\<close>

definition plugin_exception_break ::
  "services \<Rightarrow> frame \<Rightarrow> nat \<Rightarrow> trace_arg \<Rightarrow> bool \<Rightarrow> (world, bool \<times> frame) py" where
  "plugin_exception_break sv frame thread arg is_unwind =
     py_try
       (py_bind (get_db has_plugin) (\<lambda>p.
          if p then
            py_bind (do_call (CallPlugin ''exception_break'')
                      (pl_exception_break sv frame thread arg is_unwind))
              (\<lambda>r. case r of None \<Rightarrow> py_ret (False, frame) | Some (stop, f) \<Rightarrow> py_ret (stop, f))
          else py_ret (False, frame)))
       (\<lambda>e. py_then (emit LogException) (py_ret (False, frame)))"

text \<open>The frame is user code and its caller is library code (or there is none).\<close>

definition user_code_called_by_library :: "services \<Rightarrow> frame \<Rightarrow> bool" where
  "user_code_called_by_library sv f \<longleftrightarrow>
     \<not> sv_apply_files_filter sv f (co_filename (f_code f)) True \<and>
     (case f_back f of None \<Rightarrow> True
      | Some b \<Rightarrow> sv_apply_files_filter sv b (co_filename (f_code b)) True)"

definition collect_exc_info ::
  "trace_arg \<Rightarrow> int option \<Rightarrow> exc_info_t option \<Rightarrow> exc_info_t" where
  "collect_exc_info arg line prev =
     (case prev of
        None \<Rightarrow> (arg, line, [line])
      | Some (a, l, ls) \<Rightarrow> (arg, line, List.insert line ls))"

text \<open>The exclusions that are only checked for caught exceptions.\<close>

definition caught_excluded :: "pydb \<Rightarrow> exc_breakpoint \<Rightarrow> traceback \<Rightarrow> bool" where
  "caught_excluded db b trace =
     (let was_just_raised = (tb_next trace = None);
          same_context = skip_on_exceptions_thrown_in_same_context db in
      if notify_on_first_raise_only b \<and> same_context \<and> \<not> was_just_raised \<and> \<not> just_raised (tb_next trace)
      then True
      else if notify_on_first_raise_only b \<and> \<not> same_context \<and> \<not> was_just_raised then True
      else if was_just_raised \<and> same_context then True
      else False)"

text \<open>One round of the loop over the matching breakpoints: does it say stop, and the collected
  \<^verbatim>\<open>exc_info\<close>.\<close>

definition check_exc_break ::
  "services \<Rightarrow> nat \<Rightarrow> frame \<Rightarrow> trace_arg \<Rightarrow> traceback \<Rightarrow> exc_info_t option \<Rightarrow>
   exc_breakpoint \<Rightarrow> bool \<Rightarrow> exc_info_t option \<Rightarrow> (world, bool \<times> exc_info_t option) py" where
  "check_exc_break sv info frame arg trace prev b is_user_uncaught maybe =
     (if sv_exclude_exception_by_filter sv b trace then py_ret (False, maybe)
      else
        py_bind (if exc_condition b = None then py_ret True
                 else do_call (CallExcCondition (qname b)) (sv_handle_exc_condition sv info b frame))
          (\<lambda>holds.
            if \<not> holds then py_ret (False, maybe)
            else if is_user_uncaught then
              (if user_code_called_by_library sv frame then
                 py_bind (f_lineno frame)
                   (\<lambda>line. py_ret (False, Some (collect_exc_info arg line prev)))
               else py_ret (False, maybe))
            else py_bind (get_db id) (\<lambda>db. py_ret (\<not> caught_excluded db b trace, maybe))))"

fun check_excs_loop ::
  "services \<Rightarrow> nat \<Rightarrow> frame \<Rightarrow> trace_arg \<Rightarrow> traceback \<Rightarrow> exc_info_t option \<Rightarrow>
   (exc_breakpoint \<times> bool) list \<Rightarrow> exc_info_t option \<Rightarrow>
   (world, exc_breakpoint option \<times> exc_info_t option) py" where
  "check_excs_loop sv info frame arg trace prev [] maybe = py_ret (None, maybe)"
| "check_excs_loop sv info frame arg trace prev ((b, u) # bs) maybe =
     py_bind (check_exc_break sv info frame arg trace prev b u maybe)
       (\<lambda>(stop, maybe').
          if stop then
            py_then (set_info info (\<lambda>i. i \<lparr> pydev_message := Some (qname b) \<rparr>))
              (py_ret (Some b, maybe'))
          else check_excs_loop sv info frame arg trace prev bs maybe')"

definition exc_breaks_for :: "services \<Rightarrow> pydb \<Rightarrow> pyexc \<Rightarrow> (exc_breakpoint \<times> bool) list" where
  "exc_breaks_for sv db e =
     (case get_exception_breakpoint sv e (break_on_user_uncaught_exceptions db) of
        None \<Rightarrow> [] | Some b \<Rightarrow> [(b, True)]) @
     (case get_exception_breakpoint sv e (break_on_caught_exceptions db) of
        None \<Rightarrow> [] | Some b \<Rightarrow> [(b, False)])"

definition never_stop_on :: "services \<Rightarrow> pyexc \<Rightarrow> string \<Rightarrow> traceback \<Rightarrow> bool" where
  "never_stop_on sv e value trace =
     (if e = SystemExit \<and> sv_ignore_system_exit_code sv value then True
      else if e \<in> {GeneratorExit, StopIteration, StopAsyncIteration} then True
      else if ignore_exception_trace trace then True
      else False)"

definition should_stop_on_exception ::
  "services \<Rightarrow> nat \<Rightarrow> frame \<Rightarrow> nat \<Rightarrow> trace_arg \<Rightarrow> exc_info_t option \<Rightarrow> bool \<Rightarrow>
   (world, bool \<times> frame \<times> exc_info_t option) py" where
  "should_stop_on_exception sv info frame thread arg prev is_unwind =
     py_bind (get_info info pydev_state) (\<lambda>state.
       if state = STATE_SUSPEND then py_ret (False, frame, prev)
       else case arg of
         ArgExc e value (Some trace) \<Rightarrow>
           py_bind (plugin_exception_break sv frame thread arg is_unwind) (\<lambda>(pstop, frame).
             py_bind
               (if pstop then py_ret (True, None, prev)
                else if never_stop_on sv e value trace then py_ret (False, None, prev)
                else
                  py_bind (get_db id) (\<lambda>db.
                    py_bind (check_excs_loop sv info frame arg trace prev (exc_breaks_for sv db e) prev)
                      (\<lambda>(b, maybe). py_ret (b \<noteq> None, b, maybe))))
               (\<lambda>(should_stop, b, maybe).
                 py_then
                   (if should_stop then
                      py_then (add_exception_to_frame frame arg)
                        (case b of
                           None \<Rightarrow> py_ret ()
                         | Some b \<Rightarrow>
                             if exc_expression b \<noteq> None
                             then do_call (CallExcExpression (qname b))
                                    (sv_handle_exc_expression sv info b frame)
                             else py_ret ())
                    else py_ret ())
                   (py_ret (should_stop, frame, maybe))))
       | ArgExc e value None \<Rightarrow> py_ret (False, frame, prev)
       | _ \<Rightarrow> py_raise TypeError)"

section \<open>\<^verbatim>\<open>handle_exception\<close>\<close>

text \<open>The cache of the lines of one file where exceptions are ignored, emptied when the file
  changed.\<close>

definition refresh_lines_ignored :: "services \<Rightarrow> abs_path \<Rightarrow> (world, int \<rightharpoonup> bool) py" where
  "refresh_lines_ignored sv path = (\<lambda>w.
     let absolute = fst path; canonical = fst (snd path);
         lines = (case w_lines_ignored w canonical of None \<Rightarrow> Map.empty | Some m \<Rightarrow> m);
         curr = sv_stat sv absolute;
         last = (case w_stat_info w absolute of None \<Rightarrow> None | Some st \<Rightarrow> st)
     in if last \<noteq> curr
        then (Inr Map.empty, w \<lparr> w_stat_info := (w_stat_info w)(absolute \<mapsto> curr),
                                 w_lines_ignored := (w_lines_ignored w)(canonical \<mapsto> Map.empty) \<rparr>)
        else (Inr lines, w \<lparr> w_lines_ignored := (w_lines_ignored w)(canonical \<mapsto> lines) \<rparr>))"

definition set_line_ignored :: "string \<Rightarrow> int \<Rightarrow> bool \<Rightarrow> (world, unit) py" where
  "set_line_ignored canonical line v = py_modify (\<lambda>w. w \<lparr> w_lines_ignored :=
     (w_lines_ignored w)(canonical \<mapsto>
       ((case w_lines_ignored w canonical of None \<Rightarrow> Map.empty | Some m \<Rightarrow> m)(line \<mapsto> v))) \<rparr>)"

text \<open>One traceback entry: true when the exception must be ignored there.\<close>

definition ignored_at :: "services \<Rightarrow> traceback \<Rightarrow> (world, bool) py" where
  "ignored_at sv t =
     (let path = sv_abs_path sv (tb_frame t); canonical = fst (snd path) in
      py_bind (refresh_lines_ignored sv path) (\<lambda>lines.
        py_bind (get_db user_lines_ignored) (\<lambda>user.
          let merged = (case user canonical of None \<Rightarrow> lines | Some u \<Rightarrow> lines ++ u) in
          (case merged (tb_lineno t) of
             None \<Rightarrow>
               py_bind
                 (case sv_getline sv (fst path) (tb_lineno t) of
                    Inl e \<Rightarrow> py_then (emit LogException) (py_ret [])
                  | Inr l \<Rightarrow> py_ret l)
                 (\<lambda>line.
                   let tagged = sv_ignore_tag_matches sv line in
                   py_then (set_line_ignored canonical (tb_lineno t) tagged) (py_ret tagged))
           | Some v \<Rightarrow> py_ret v))))"

definition ignored_anywhere :: "services \<Rightarrow> traceback \<Rightarrow> traceback \<Rightarrow> (world, bool) py" where
  "ignored_anywhere sv initial innermost =
     py_bind (get_db ignore_exceptions_thrown_in_lines_with_ignore_exception) (\<lambda>enabled.
       if enabled then
         py_bind (ignored_at sv initial) (\<lambda>a.
           if a then py_ret True else ignored_at sv innermost)
       else py_ret False)"

text \<open>The block that suspends; whatever goes wrong in it is logged.\<close>

definition suspend_on_exception ::
  "services \<Rightarrow> nat \<Rightarrow> frame \<Rightarrow> trace_arg \<Rightarrow> string \<Rightarrow> (world, unit) py" where
  "suspend_on_exception sv thread frame arg exception_type =
     py_try
       (py_then (do_call (CallSendCaught thread) (sv_send_caught_exception_stack sv thread arg))
         (py_finally
           (py_then
             (do_call (CallSetSuspend thread 137 False (-1)) (sv_set_suspend sv thread 137 False (-1)))
             (do_call (CallWaitSuspend thread (f_id frame) ''exception'')
               (sv_do_wait_suspend sv thread frame ''exception'' arg (Some exception_type))))
           (do_call (CallSendCaughtProceeded thread)
             (sv_send_caught_exception_stack_proceeded sv thread))))
       (\<lambda>e. emit LogException)"

definition handle_exception ::
  "services \<Rightarrow> nat \<Rightarrow> frame \<Rightarrow> trace_arg \<Rightarrow> string \<Rightarrow> (world, bool) py" where
  "handle_exception sv thread frame arg exception_type =
     py_finally
       (case arg of
          ArgExc e v (Some initial) \<Rightarrow>
            (let trace_obj = (if tb_next initial = None \<and> f_id (tb_frame initial) = f_id frame
                              then initial else innermost_tb initial) in
             py_bind (ignored_anywhere sv initial trace_obj) (\<lambda>ignored.
               if ignored then py_ret False
               else
                 py_then (suspend_on_exception sv thread frame arg exception_type)
                   (py_then
                     (do_call (CallSetTraceForFrameAndParents thread (f_id frame))
                       (sv_set_trace_for_frame_and_parents sv thread frame))
                     (py_ret True))))
        | ArgExc e v None \<Rightarrow> py_raise AttributeError
        | _ \<Rightarrow> py_raise TypeError)
       (remove_exception_from_frame sv frame)"

section \<open>How the functions run\<close>

lemma should_stop_without_plugin:
  assumes "pydev_state (infos (w_reg w) info) \<noteq> STATE_SUSPEND" and "\<not> has_plugin (w_dbg w)"
    and "never_stop_on sv e v trace"
  shows "should_stop_on_exception sv info frame t (ArgExc e v (Some trace)) prev u w =
    (Inr (False, frame, prev), w)"
  using assms by (simp add: should_stop_on_exception_def plugin_exception_break_def py_simps access_defs)

lemma check_exc_break_user:
  assumes "check_exc_break sv info frame arg trace prev b True maybe w = (Inr (stop, m), w')"
  shows "\<not> stop \<and> (m = maybe \<or> (\<exists>line. m = Some (collect_exc_info arg line prev)))"
  using assms unfolding check_exc_break_def
  by (auto simp: py_simps access_defs split: if_splits prod.splits sum.splits)

lemma suspend_on_exception_safe: "never_raises (suspend_on_exception sv t frame arg ty)"
  unfolding suspend_on_exception_def emit_def by (intro safe_rules)

lemma do_call_app [py_simps]:
  "do_call c m w = m (w \<lparr> w_calls := w_calls w @ [c] \<rparr>)"
  by (simp add: do_call_def py_simps)

lemma emit_app [py_simps]: "emit c w = (Inr (), w \<lparr> w_calls := w_calls w @ [c] \<rparr>)"
  by (simp add: emit_def)

lemma never_raisesD: "never_raises m \<Longrightarrow> m s = (r, s') \<Longrightarrow> \<exists>x. r = Inr x"
  by (metis never_raises_def fst_conv)

text \<open>The calls of the block that suspends, in order, when the first two calls return.\<close>

lemma suspend_on_exception_calls:
  assumes k: "services_keep w_calls sv"
    and s1: "never_raises (sv_send_caught_exception_stack sv t arg)"
    and s2: "never_raises (sv_set_suspend sv t 137 False (-1))"
  shows "\<exists>rest. w_calls (snd (suspend_on_exception sv t frame arg ty w)) =
    w_calls w @ [CallSendCaught t, CallSetSuspend t 137 False (-1),
      CallWaitSuspend t (f_id frame) ''exception'', CallSendCaughtProceeded t] @ rest"
proof -
  note run = keeps_run [of w_calls]
  obtain r1 w1 where m1: "sv_send_caught_exception_stack sv t arg
      (w \<lparr> w_calls := w_calls w @ [CallSendCaught t] \<rparr>) = (r1, w1)" by fastforce
  obtain r2 w2 where m2: "sv_set_suspend sv t 137 False (-1)
      (w1 \<lparr> w_calls := w_calls w1 @ [CallSetSuspend t 137 False (-1)] \<rparr>) = (r2, w2)" by fastforce
  obtain r3 w3 where m3: "sv_do_wait_suspend sv t frame ''exception'' arg (Some ty)
      (w2 \<lparr> w_calls := w_calls w2 @ [CallWaitSuspend t (f_id frame) ''exception''] \<rparr>) = (r3, w3)"
    by fastforce
  obtain r4 w4 where m4: "sv_send_caught_exception_stack_proceeded sv t
      (w3 \<lparr> w_calls := w_calls w3 @ [CallSendCaughtProceeded t] \<rparr>) = (r4, w4)" by fastforce
  have c: "w_calls w1 = w_calls w @ [CallSendCaught t]"
    "w_calls w2 = w_calls w1 @ [CallSetSuspend t 137 False (-1)]"
    "w_calls w3 = w_calls w2 @ [CallWaitSuspend t (f_id frame) ''exception'']"
    "w_calls w4 = w_calls w3 @ [CallSendCaughtProceeded t]"
    using run [OF services_keepD(7) [OF k] m1] run [OF services_keepD(1) [OF k] m2]
      run [OF services_keepD(2) [OF k] m3] run [OF services_keepD(8) [OF k] m4] by simp_all
  obtain x1 x2 where "r1 = Inr x1" "r2 = Inr x2"
    using never_raisesD [OF s1 m1] never_raisesD [OF s2 m2] by auto
  then show ?thesis
    using m1 m2 m3 m4 c
    by (auto simp: suspend_on_exception_def py_simps split: sum.splits)
qed

section \<open>Properties\<close>

text \<open>\<^verbatim>\<open>is_unhandled_exception\<close> says that an exception leaves the frame unhandled exactly when the frame
  stands on a raise line, or no \<^verbatim>\<open>try\<close> block of the code contains the last raise, or the frame stands
  on an \<^verbatim>\<open>except\<close> line or a raise inside an \<^verbatim>\<open>except\<close> block; the cached block list does not change the
  answer.\<close>

lemma is_unhandled_exception_spec:
  assumes "container = None \<or> container = Some (collect c)"
  shows "fst (is_unhandled_exception collect c (Some line) last_raise raise_lines container) =
      Inr (Some line \<in> set raise_lines \<or>
           \<not> (\<exists>t. t \<in> set (collect c) \<and> is_line_in_try_block t (sint last_raise)) \<or>
           (\<exists>t. t \<in> set (collect c) \<and> is_line_in_except_block t line \<and>
                (line = except_line t \<or> line \<in> set (raise_lines_in_except t)))) \<and>
    snd (is_unhandled_exception collect c (Some line) last_raise raise_lines container)
      \<in> {container, Some (collect c)}"
  using assms
  by (auto simp: is_unhandled_exception_def raised_in_except_Some Let_def filter_empty_conv)

text \<open>A thread that is already suspended never stops on an exception, and nothing changes.\<close>

lemma suspended_thread_ignores_exceptions:
  assumes "pydev_state (infos (w_reg w) info) = STATE_SUSPEND"
  shows "should_stop_on_exception sv info frame t arg prev u w = (Inr (False, frame, prev), w)"
  using assms by (simp add: should_stop_on_exception_def py_simps access_defs)

text \<open>Without a plugin, exceptions that are control flow (GeneratorExit, StopIteration,
  StopAsyncIteration), ignored SystemExit codes and exceptions raised inside the import machinery never
  stop the thread and change nothing, whatever exception breakpoints there are.\<close>

lemma control_flow_exceptions_never_stop:
  assumes "\<not> has_plugin (w_dbg w)"
    and "e \<in> {GeneratorExit, StopIteration, StopAsyncIteration} \<or>
         e = SystemExit \<and> sv_ignore_system_exit_code sv v \<or> ignore_exception_trace trace"
  shows "should_stop_on_exception sv info frame t (ArgExc e v (Some trace)) prev u w =
    (Inr (False, frame, prev), w)"
proof (cases "pydev_state (infos (w_reg w) info) = STATE_SUSPEND")
  case True
  then show ?thesis by (simp add: should_stop_on_exception_def py_simps access_defs)
next
  case False
  have "never_stop_on sv e v trace" using assms(2) by (auto simp: never_stop_on_def)
  then show ?thesis by (rule should_stop_without_plugin [OF False assms(1)])
qed

text \<open>When only a user-unhandled exception breakpoint matches, \<^verbatim>\<open>should_stop_on_exception\<close> never stops: it
  returns the same frame and either the previous exception info or the new one with this line added.\<close>

lemma user_uncaught_only_collects:
  assumes "\<not> has_plugin (w_dbg w)"
    and "get_exception_breakpoint sv e (break_on_caught_exceptions (w_dbg w)) = None"
    and "should_stop_on_exception sv info frame t (ArgExc e v (Some trace)) prev u w
           = (Inr (stop, frame', xi), w')"
  shows "\<not> stop \<and> frame' = frame \<and>
    (xi = prev \<or> (\<exists>line. xi = Some (collect_exc_info (ArgExc e v (Some trace)) line prev)))"
proof (cases "pydev_state (infos (w_reg w) info) = STATE_SUSPEND \<or> never_stop_on sv e v trace")
  case True
  then show ?thesis
    using assms(3) should_stop_without_plugin [OF _ assms(1)]
    by (cases "pydev_state (infos (w_reg w) info) = STATE_SUSPEND")
      (auto simp: should_stop_on_exception_def py_simps access_defs)
next
  case False
  obtain b where "exc_breaks_for sv (w_dbg w) e = [] \<or> exc_breaks_for sv (w_dbg w) e = [(b, True)]"
    using assms(2)
    by (cases "get_exception_breakpoint sv e (break_on_user_uncaught_exceptions (w_dbg w))")
      (auto simp: exc_breaks_for_def)
  then show ?thesis
    using assms(1,3) False check_exc_break_user [of sv info frame _ trace prev b]
    by (fastforce simp: should_stop_on_exception_def plugin_exception_break_def py_simps access_defs
        split: prod.splits sum.splits if_splits)
qed

text \<open>Whatever happens in \<^verbatim>\<open>handle_exception\<close>, and also when it raises, the \<^verbatim>\<open>__exception__\<close> entry is gone from
  the locals of the frame when it returns (on Python 3.13.0 it is None).\<close>

lemma handle_exception_removes_entry:
  "exception_entry (w_locals (snd (handle_exception sv t frame arg ty w)) (f_id frame)) =
     (if sv_py313_0 sv then Some ArgNone else None)"
  by (auto simp: handle_exception_def py_finally_app remove_exception_from_frame_def split: prod.splits)

text \<open>An exception on a line the user marked as ignored is not reported: \<^verbatim>\<open>handle_exception\<close> returns False
  and calls no service.\<close>

lemma ignored_line_not_reported:
  assumes "ignore_exceptions_thrown_in_lines_with_ignore_exception (w_dbg w)"
    and "user_lines_ignored (w_dbg w) (fst (snd (sv_abs_path sv (tb_frame initial)))) = Some lines"
    and "lines (tb_lineno initial) = Some True"
  shows "fst (handle_exception sv t frame (ArgExc e v (Some initial)) ty w) = Inr False \<and>
         w_calls (snd (handle_exception sv t frame (ArgExc e v (Some initial)) ty w)) = w_calls w"
  using assms
  by (simp add: handle_exception_def ignored_anywhere_def ignored_at_def refresh_lines_ignored_def
      remove_exception_from_frame_def py_simps access_defs Let_def map_add_def)

text \<open>An exception that is not ignored is reported: \<^verbatim>\<open>handle_exception\<close> sends the stack, suspends the thread with
  \<^verbatim>\<open>CMD_STEP_CAUGHT_EXCEPTION\<close>, waits in the frame and always sends the matching proceeded message,
  in this order, and returns True even if waiting raised.\<close>

lemma handle_exception_suspends:
  assumes "services_keep w_calls sv"
    and "\<not> ignore_exceptions_thrown_in_lines_with_ignore_exception (w_dbg w)"
    and "never_raises (sv_send_caught_exception_stack sv t (ArgExc e v (Some tb)))"
    and "never_raises (sv_set_suspend sv t 137 False (-1))"
    and "never_raises (sv_set_trace_for_frame_and_parents sv t frame)"
  shows "fst (handle_exception sv t frame (ArgExc e v (Some tb)) ty w) = Inr True \<and>
    (\<exists>rest. w_calls (snd (handle_exception sv t frame (ArgExc e v (Some tb)) ty w)) =
       w_calls w @ [CallSendCaught t, CallSetSuspend t 137 False (-1),
         CallWaitSuspend t (f_id frame) ''exception'', CallSendCaughtProceeded t] @ rest)"
proof -
  let ?arg = "ArgExc e v (Some tb)"
  obtain r1 w1 where m1: "suspend_on_exception sv t frame ?arg ty w = (r1, w1)" by fastforce
  obtain x1 where r1: "r1 = Inr x1" using never_raisesD [OF suspend_on_exception_safe m1] by auto
  obtain rest where c1: "w_calls w1 = w_calls w @ [CallSendCaught t, CallSetSuspend t 137 False (-1),
      CallWaitSuspend t (f_id frame) ''exception'', CallSendCaughtProceeded t] @ rest"
    using suspend_on_exception_calls [OF assms(1,3,4), of frame ty w] m1 by auto
  let ?w1 = "w1 \<lparr> w_calls := w_calls w1 @ [CallSetTraceForFrameAndParents t (f_id frame)] \<rparr>"
  obtain r2 w2 where m2: "sv_set_trace_for_frame_and_parents sv t frame ?w1 = (r2, w2)" by fastforce
  obtain x2 where r2: "r2 = Inr x2" using never_raisesD [OF assms(5) m2] by auto
  have c2: "w_calls w2 = w_calls w1 @ [CallSetTraceForFrameAndParents t (f_id frame)]"
    using keeps_run [OF services_keepD(9) [OF assms(1)] m2] by simp
  show ?thesis
    using assms(2) m1 r1 m2 r2 c1 c2
    by (simp add: handle_exception_def ignored_anywhere_def remove_exception_from_frame_def
        py_simps access_defs Let_def)
qed

end
