(* ===== verification/FrameTracer.thy ===== *)
theory FrameTracer
  imports ExceptionStop
begin

text \<open>
  \<^verbatim>\<open>PyDBFrame\<close> of \<^verbatim>\<open>pydevd_cython.c\<close>: the trace function of one frame. \<open>trace_dispatch\<close> is the C
  function of that name; it is cut into blocks along the comments of its source, each block one
  definition that either returns from the function or hands its locals to the next block.

  The trace events are the strings the interpreter passes. \<open>self\<close> is the identity of the
  PyDBFrame; its argument tuple never changes and is passed as the value \<open>a\<close>.
\<close>

section \<open>Commands\<close>

abbreviation (input) CMD_STEP_OVER :: cint where "CMD_STEP_OVER \<equiv> 108"
abbreviation (input) CMD_STEP_RETURN :: cint where "CMD_STEP_RETURN \<equiv> 109"
abbreviation (input) CMD_SET_BREAK :: cint where "CMD_SET_BREAK \<equiv> 111"
abbreviation (input) CMD_SMART_STEP_INTO :: cint where "CMD_SMART_STEP_INTO \<equiv> 128"
abbreviation (input) CMD_STEP_INTO_MY_CODE :: cint where "CMD_STEP_INTO_MY_CODE \<equiv> 144"
abbreviation (input) CMD_STEP_OVER_MY_CODE :: cint where "CMD_STEP_OVER_MY_CODE \<equiv> 159"
abbreviation (input) CMD_STEP_RETURN_MY_CODE :: cint where "CMD_STEP_RETURN_MY_CODE \<equiv> 160"
abbreviation (input) CMD_STEP_INTO_COROUTINE :: cint where "CMD_STEP_INTO_COROUTINE \<equiv> 206"
abbreviation (input) CMD_SET_FUNCTION_BREAK :: cint where "CMD_SET_FUNCTION_BREAK \<equiv> 208"

abbreviation (input) PYDEV_FILE :: int where "PYDEV_FILE \<equiv> 2"

section \<open>Small methods of \<^verbatim>\<open>PyDBFrame\<close>\<close>

definition new_PyDBFrame :: "abs_path \<Rightarrow> nat \<Rightarrow> nat \<Rightarrow> code_key \<Rightarrow> pydbframe" where
  "new_PyDBFrame path info thread key =
     \<lparr> pf_path = path, pf_info = info, pf_thread = thread, pf_key = key,
       should_skip = -1, exc_info = None \<rparr>"

definition set_suspend :: "services \<Rightarrow> nat \<Rightarrow> cint \<Rightarrow> bool \<Rightarrow> cint \<Rightarrow> (world, unit) py" where
  "set_suspend sv thread stop_reason suspend_other_threads original_step_cmd =
     do_call (CallSetSuspend thread stop_reason suspend_other_threads original_step_cmd)
       (sv_set_suspend sv thread stop_reason suspend_other_threads original_step_cmd)"

definition do_wait_suspend ::
  "services \<Rightarrow> nat \<Rightarrow> frame \<Rightarrow> string \<Rightarrow> trace_arg \<Rightarrow> (world, unit) py" where
  "do_wait_suspend sv thread frame event arg =
     do_call (CallWaitSuspend thread (f_id frame) event)
       (sv_do_wait_suspend sv thread frame event arg None)"

definition get_func_name :: "services \<Rightarrow> frame \<Rightarrow> (world, string) py" where
  "get_func_name sv frame =
     (let func_name = co_name (f_code frame) in
      case sv_get_clsname_for_code sv (f_code frame) frame of
        Inl e \<Rightarrow> py_then (emit LogException) (py_ret func_name)
      | Inr None \<Rightarrow> py_ret func_name
      | Inr (Some cls_name) \<Rightarrow> py_ret (cls_name @ ''.'' @ func_name))"

definition upd_locals :: "frame \<Rightarrow> (f_locals \<Rightarrow> f_locals) \<Rightarrow> (world, unit) py" where
  "upd_locals f g = py_modify (\<lambda>w. w \<lparr> w_locals :=
     (w_locals w)(f_id f := g (w_locals w (f_id f))) \<rparr>)"

definition dict_set :: "string \<Rightarrow> trace_arg \<Rightarrow> (string \<times> trace_arg) list \<Rightarrow> (string \<times> trace_arg) list" where
  "dict_set k v d = (if k \<in> fst ` set d then map (\<lambda>(k', v'). if k' = k then (k', v) else (k', v')) d
                     else d @ [(k, v)])"

definition show_return_value :: "services \<Rightarrow> frame \<Rightarrow> trace_arg \<Rightarrow> (world, unit) py" where
  "show_return_value sv frame arg =
     (case f_back frame of
        None \<Rightarrow> py_ret ()
      | Some back \<Rightarrow>
          py_then
            (upd_locals back (\<lambda>l. if return_values_dict l = None
                                   then l \<lparr> return_values_dict := Some [] \<rparr> else l))
            (py_bind (get_func_name sv frame) (\<lambda>name.
               upd_locals back (\<lambda>l. l \<lparr> return_values_dict :=
                 map_option (dict_set name arg) (return_values_dict l) \<rparr>))))"

definition remove_return_values :: "frame \<Rightarrow> (world, unit) py" where
  "remove_return_values frame =
     py_then (upd_locals frame (\<lambda>l. l \<lparr> return_values_dict := None \<rparr>))
       (case f_back frame of
          None \<Rightarrow> py_ret ()
        | Some back \<Rightarrow> upd_locals back (\<lambda>l. l \<lparr> return_values_dict := None \<rparr>))"

definition handle_user_exception :: "services \<Rightarrow> nat \<Rightarrow> frame \<Rightarrow> (world, bool) py" where
  "handle_user_exception sv self frame =
     py_bind (get_pf self id) (\<lambda>a.
       case exc_info a of
         None \<Rightarrow> py_ret False
       | Some (exc_arg, _, _) \<Rightarrow>
           handle_exception sv (pf_thread a) frame exc_arg EXCEPTION_TYPE_USER_UNHANDLED)"

section \<open>\<^verbatim>\<open>trace_exception\<close>\<close>

text \<open>The exception event, shared by \<^verbatim>\<open>trace_exception\<close> and both branches of \<^verbatim>\<open>trace_dispatch\<close>: true when
  \<^verbatim>\<open>handle_exception\<close> stopped. It also yields the frame, which a plugin may have replaced.\<close>

definition on_exception_event :: "services \<Rightarrow> nat \<Rightarrow> frame \<Rightarrow> trace_arg \<Rightarrow> (world, bool \<times> frame) py" where
  "on_exception_event sv self frame arg =
     py_bind (get_pf self id) (\<lambda>a.
       py_bind (should_stop_on_exception sv (pf_info a) frame (pf_thread a) arg (exc_info a) False)
         (\<lambda>(should_stop, frame, exc_info').
           py_then (set_pf self (\<lambda>p. p \<lparr> exc_info := exc_info' \<rparr>))
             (if should_stop
              then py_bind (handle_exception sv (pf_thread a) frame arg EXCEPTION_TYPE_HANDLED)
                     (\<lambda>stopped. py_ret (stopped, frame))
              else py_ret (False, frame))))"

text \<open>\<^verbatim>\<open>frame_skips_cache[(frame_cache_key, "try_exc_info")]\<close>: the container is created on first use.\<close>

definition unhandled_in_frame :: "services \<Rightarrow> code_key \<Rightarrow> frame \<Rightarrow> exc_info_t \<Rightarrow> (world, bool) py" where
  "unhandled_in_frame sv key frame xi = (\<lambda>w.
     let container = (case w_try_exc_cache w key of None \<Rightarrow> None | Some c \<Rightarrow> c);
         w1 = (case w_try_exc_cache w key of
                 None \<Rightarrow> w \<lparr> w_try_exc_cache := (w_try_exc_cache w)(key \<mapsto> None) \<rparr> | Some c \<Rightarrow> w) in
     case opt_as_cint (fst (snd xi)) of
       Inl e \<Rightarrow> (Inl e, w1)
     | Inr last_raise_line \<Rightarrow>
         (let (r, container') = is_unhandled_exception (sv_collect_try_except_info sv) (f_code frame)
                (w_lineno w (f_id frame)) last_raise_line (snd (snd xi)) container
          in (r, w1 \<lparr> w_try_exc_cache := (w_try_exc_cache w1)(key \<mapsto> container') \<rparr>)))"

definition trace_exception ::
  "services \<Rightarrow> nat \<Rightarrow> frame \<Rightarrow> string \<Rightarrow> trace_arg \<Rightarrow> (world, tracefun option) py" where
  "trace_exception sv self frame event arg =
     (if event = ''exception'' then
        py_bind (on_exception_event sv self frame arg) (\<lambda>(stopped, _).
          py_ret (Some (if stopped then TraceDispatch self else TraceException self)))
      else if event = ''return'' then
        py_bind (get_pf self id) (\<lambda>a.
          case exc_info a of
            None \<Rightarrow> py_ret (Some (TraceException self))
          | Some xi \<Rightarrow>
              if arg \<noteq> ArgNone then py_ret (Some (TraceException self))
              else
                py_bind (unhandled_in_frame sv (pf_key a) frame xi) (\<lambda>unhandled.
                  if \<not> unhandled then py_ret (Some (TraceException self))
                  else py_bind (handle_user_exception sv self frame) (\<lambda>stopped.
                    py_ret (Some (if stopped then TraceDispatch self else TraceException self)))))
      else py_ret (Some (TraceException self)))"

section \<open>\<^verbatim>\<open>trace_dispatch\<close>: the perceived event\<close>

type_synonym 'a td = "(world, (tracefun option, 'a) flow) py"

definition td_return :: "tracefun option \<Rightarrow> 'a td" where
  "td_return r = py_ret (Return r)"

definition td_next :: "'a \<Rightarrow> 'a td" where
  "td_next x = py_ret (Next x)"

definition has_exception_breakpoints :: "pydb \<Rightarrow> bool" where
  "has_exception_breakpoints db \<longleftrightarrow>
     break_on_caught_exceptions db \<noteq> [] \<or> break_on_user_uncaught_exceptions db \<noteq> [] \<or>
     has_plugin_exception_breaks db"

record perceived =
  is_line :: bool
  is_call :: bool
  is_return :: bool
  is_exception_event :: bool
  on_call_bp :: "breakpoint option"
  ev_frame :: frame

definition perceived_as :: "string \<Rightarrow> frame \<Rightarrow> perceived" where
  "perceived_as event frame =
     \<lparr> is_line = (event = ''line''), is_call = (event = ''call''), is_return = (event = ''return''),
       is_exception_event = (event = ''exception''), on_call_bp = None, ev_frame = frame \<rparr>"

text \<open>The lines on which a coroutine really returns, cached per code object.\<close>

definition return_lines_of :: "services \<Rightarrow> code_key \<Rightarrow> frame \<Rightarrow> (world, int list) py" where
  "return_lines_of sv key frame = (\<lambda>w.
     case w_returns_cache w key of
       Some ls \<Rightarrow> (Inr ls, w)
     | None \<Rightarrow>
         (let ls = remdups (sv_collect_return_lines sv (f_code frame))
          in (Inr ls, w \<lparr> w_returns_cache := (w_returns_cache w)(key \<mapsto> ls) \<rparr>)))"

text \<open>On the return of the coroutine that is being stepped: continue one level up.\<close>

definition unfiltered_back :: "services \<Rightarrow> frame \<Rightarrow> (world, frame option) py" where
  "unfiltered_back sv frame =
     py_bind (get_db is_files_filter_enabled) (\<lambda>enabled.
       py_ret (get_unfiltered_back_frame enabled
         (\<lambda>f. sv_apply_files_filter sv f (co_filename (f_code f)) False) frame))"

definition retarget_coroutine_step ::
  "services \<Rightarrow> nat \<Rightarrow> frame \<Rightarrow> frame option \<Rightarrow> cint \<Rightarrow> (world, unit) py" where
  "retarget_coroutine_step sv info frame stop_frame step_cmd =
     py_bind (get_info info pydev_use_scoped_step_frame) (\<lambda>scoped.
       if frame_is stop_frame (Some frame) \<and> \<not> scoped then
         (if step_cmd \<in> {CMD_STEP_OVER, CMD_STEP_OVER_MY_CODE, CMD_STEP_INTO, CMD_STEP_INTO_MY_CODE} then
            py_bind (unfiltered_back sv frame) (\<lambda>f.
              case f of
                Some b \<Rightarrow> set_info info (\<lambda>i. i \<lparr> pydev_step_cmd := CMD_STEP_INTO_COROUTINE,
                                                 pydev_step_stop := Some b \<rparr>)
              | None \<Rightarrow>
                  if step_cmd = CMD_STEP_OVER
                  then set_info info (\<lambda>i. i \<lparr> pydev_step_cmd := CMD_STEP_INTO, pydev_step_stop := None \<rparr>)
                  else if step_cmd = CMD_STEP_OVER_MY_CODE
                  then set_info info (\<lambda>i. i \<lparr> pydev_step_cmd := CMD_STEP_INTO_MY_CODE,
                                               pydev_step_stop := None \<rparr>)
                  else py_ret ())
          else if step_cmd = CMD_STEP_INTO_COROUTINE then
            py_bind (unfiltered_back sv frame) (\<lambda>f.
              case f of
                Some b \<Rightarrow> set_info info (\<lambda>i. i \<lparr> pydev_step_stop := Some b \<rparr>)
              | None \<Rightarrow> set_info info (\<lambda>i. i \<lparr> pydev_step_cmd := CMD_STEP_INTO,
                                                pydev_step_stop := None \<rparr>))
          else py_ret ())
       else py_ret ())"

definition coroutine_event ::
  "services \<Rightarrow> nat \<Rightarrow> pydbframe \<Rightarrow> bool \<Rightarrow> frame \<Rightarrow> string \<Rightarrow> trace_arg \<Rightarrow> cint \<Rightarrow> frame option \<Rightarrow> cint \<Rightarrow>
   perceived td" where
  "coroutine_event sv self a has_exc frame event arg line stop_frame step_cmd =
     (if event = ''line'' then td_next (perceived_as event frame)
      else if event = ''return'' then
        py_bind (return_lines_of sv (pf_key a) frame) (\<lambda>return_lines.
          if sint line \<notin> set return_lines then td_return (Some (TraceDispatch self))
          else
            py_bind (get_pf self exc_info) (\<lambda>xi.
              if xi \<noteq> None
              then py_then (handle_user_exception sv self frame) (td_return (Some (TraceDispatch self)))
              else py_then (retarget_coroutine_step sv (pf_info a) frame stop_frame step_cmd)
                     (td_next (perceived_as event frame))))
      else if event = ''exception'' then
        py_then (if has_exc then py_bind (on_exception_event sv self frame arg) (\<lambda>_. py_ret ())
                 else py_ret ())
          (td_return (Some (TraceDispatch self)))
      else td_return (Some (TraceDispatch self)))"

text \<open>On the return of the frame that is being stepped: stop at the next possible place.\<close>

definition step_into_on_return ::
  "nat \<Rightarrow> frame \<Rightarrow> frame option \<Rightarrow> cint \<Rightarrow> (world, unit) py" where
  "step_into_on_return info frame stop_frame step_cmd =
     py_bind (get_info info pydev_use_scoped_step_frame) (\<lambda>scoped.
       if frame_is stop_frame (Some frame) \<and> \<not> scoped \<and>
          step_cmd \<in> {CMD_STEP_OVER, CMD_STEP_RETURN, CMD_STEP_OVER_MY_CODE, CMD_STEP_RETURN_MY_CODE,
                       CMD_SMART_STEP_INTO}
       then set_info info (\<lambda>i. i \<lparr> pydev_step_cmd :=
                (if step_cmd \<in> {CMD_STEP_OVER, CMD_STEP_RETURN, CMD_SMART_STEP_INTO}
                 then CMD_STEP_INTO else CMD_STEP_INTO_MY_CODE),
              pydev_step_stop := None \<rparr>)
       else py_ret ())"

definition function_event ::
  "services \<Rightarrow> nat \<Rightarrow> pydbframe \<Rightarrow> bool \<Rightarrow> frame \<Rightarrow> string \<Rightarrow> trace_arg \<Rightarrow> frame option \<Rightarrow> cint \<Rightarrow>
   perceived td" where
  "function_event sv self a has_exc frame event arg stop_frame step_cmd =
     (if event = ''line'' then td_next (perceived_as event frame)
      else if event = ''return'' then
        py_then (step_into_on_return (pf_info a) frame stop_frame step_cmd)
          (py_bind (get_pf self exc_info) (\<lambda>xi.
            if xi \<noteq> None then
              py_bind (handle_user_exception sv self frame) (\<lambda>stopped.
                if stopped then td_return (Some (TraceDispatch self))
                else td_next (perceived_as event frame))
            else td_next (perceived_as event frame)))
      else if event = ''call'' then
        py_bind (f_lineno frame) (\<lambda>lineno.
          if Some (co_firstlineno (f_code frame)) = lineno then
            py_bind (get_db function_breakpoint_name_to_breakpoint) (\<lambda>m.
              td_next ((perceived_as event frame) \<lparr> on_call_bp := m (co_name (f_code frame)) \<rparr>))
          else td_next (perceived_as event frame))
      else if event = ''exception'' then
        (if has_exc then
           py_bind (on_exception_event sv self frame arg) (\<lambda>(stopped, frame).
             if stopped then td_return (Some (TraceDispatch self))
             else td_next (perceived_as event frame))
         else td_next (perceived_as event frame))
      else td_return (Some (TraceDispatch self)))"

end
