(* ===== verification/Dispatch.thy ===== *)
theory Dispatch
  imports FrameTracer
begin

text \<open>
  \<^verbatim>\<open>PyDBFrame.trace_dispatch\<close> continued: which frames can be skipped, the breakpoint caches,
  breakpoints, the step commands, the stop itself, and the whole function.
\<close>

section \<open>Frames that can be skipped\<close>

text \<open>The walk up to three frames for a smart step into.\<close>

definition smart_step_elsewhere :: "frame option \<Rightarrow> frame \<Rightarrow> bool" where
  "smart_step_elsewhere stop_frame frame \<longleftrightarrow>
     stop_frame \<noteq> None \<and> \<not> frame_is stop_frame (Some frame) \<and>
     \<not> frame_is stop_frame (f_back frame) \<and>
     (case f_back frame of None \<Rightarrow> True | Some b \<Rightarrow> \<not> frame_is stop_frame (f_back b))"

definition filtered_with_back :: "services \<Rightarrow> frame \<Rightarrow> bool" where
  "filtered_with_back sv frame \<longleftrightarrow>
     sv_apply_files_filter sv frame (co_filename (f_code frame)) True \<and>
     (case f_back frame of None \<Rightarrow> True
      | Some b \<Rightarrow> sv_apply_files_filter sv b (co_filename (f_code b)) True)"

text \<open>The step command alone: nothing here depends on breakpoints or plugins.\<close>

definition step_can_skip :: "services \<Rightarrow> bool \<Rightarrow> frame option \<Rightarrow> cint \<Rightarrow> frame \<Rightarrow> bool" where
  "step_can_skip sv scoped stop_frame step_cmd frame =
     (if step_cmd = -1 then True
      else if step_cmd \<in> {CMD_STEP_OVER, CMD_STEP_RETURN, CMD_STEP_OVER_MY_CODE, CMD_STEP_RETURN_MY_CODE} \<and>
              \<not> is_same_frame (sv_ipython_context sv) scoped stop_frame (Some frame) then True
      else if step_cmd = CMD_SMART_STEP_INTO \<and> smart_step_elsewhere stop_frame frame then True
      else if step_cmd = CMD_STEP_INTO_MY_CODE then filtered_with_back sv frame
      else if step_cmd = CMD_STEP_INTO_COROUTINE
      then \<not> reaches_frame (is_same_frame (sv_ipython_context sv) scoped) stop_frame frame
      else False)"

definition td_can_skip ::
  "services \<Rightarrow> nat \<Rightarrow> frame \<Rightarrow> frame option \<Rightarrow> cint \<Rightarrow> (world, bool) py" where
  "td_can_skip sv info frame stop_frame step_cmd =
     py_bind (get_info info id) (\<lambda>i.
       if pydev_state i \<noteq> STATE_RUN then py_ret False
       else if \<not> step_can_skip sv (pydev_use_scoped_step_frame i) stop_frame step_cmd frame then py_ret False
       else
         py_bind (get_db id) (\<lambda>db.
           py_bind
             (if has_plugin db \<and> (has_plugin_line_breaks db \<or> has_plugin_exception_breaks db)
              then do_call (CallPlugin ''can_skip'') (pl_can_skip sv frame)
              else py_ret True)
             (\<lambda>can_skip.
               py_bind (get_info info id) (\<lambda>i.
                 py_bind (get_db id) (\<lambda>db.
                   if can_skip \<and> show_return_values db \<and>
                      pydev_step_cmd i \<in> {CMD_STEP_OVER, CMD_STEP_OVER_MY_CODE} \<and>
                      is_same_frame (sv_ipython_context sv) (pydev_use_scoped_step_frame i)
                        stop_frame (f_back frame)
                   then py_ret False else py_ret can_skip)))))"

section \<open>The breakpoint caches\<close>

text \<open>\<^verbatim>\<open>for bp_line in breakpoints_for_file: if bp_line in func_lines\<close>, with the key read as a C int.\<close>

fun some_bp_line_in :: "int list \<Rightarrow> int list \<Rightarrow> pyexc + bool" where
  "some_bp_line_in [] lines = Inr False"
| "some_bp_line_in (l # ls) lines =
     (case int_as_cint l of
        Inl e \<Rightarrow> Inl e
      | Inr bp_line \<Rightarrow> if sint bp_line \<in> set lines then Inr True else some_bp_line_in ls lines)"

text \<open>The fallback without line numbers: match the function name of the breakpoint.\<close>

definition some_bp_named :: "string \<Rightarrow> breakpoint list \<Rightarrow> bool" where
  "some_bp_named co bps =
     (let curr_func_name = (if co \<in> {''?'', ''<module>'', ''<lambda>''} then [] else co)
      in list_ex (\<lambda>bp. func_name bp \<in> {''None'', curr_func_name}) bps)"

definition compute_has_breakpoint_in_frame ::
  "services \<Rightarrow> code \<Rightarrow> (int \<times> breakpoint) list \<Rightarrow> pyexc + bool" where
  "compute_has_breakpoint_in_frame sv c bps =
     (if sv_findlinestarts_raises sv c then Inr (some_bp_named (co_name c) (map snd bps))
      else some_bp_line_in (map fst bps) (func_lines c))"

definition has_breakpoint_in_frame ::
  "services \<Rightarrow> code_key \<Rightarrow> frame \<Rightarrow> (int \<times> breakpoint) list \<Rightarrow> (world, bool) py" where
  "has_breakpoint_in_frame sv key frame bps = (\<lambda>w.
     let cached = (case w_frame_cache w key of None \<Rightarrow> -1 | Some n \<Rightarrow> n) in
     if cached \<noteq> -1 then (Inr (cached = 1), w)
     else case compute_has_breakpoint_in_frame sv (f_code frame) bps of
       Inl e \<Rightarrow> (Inl e, w)
     | Inr b \<Rightarrow> (Inr b, w \<lparr> w_frame_cache := (w_frame_cache w)(key \<mapsto> (if b then 1 else 0)) \<rparr>))"

definition untraced :: "bool \<Rightarrow> nat \<Rightarrow> bool \<Rightarrow> tracefun option" where
  "untraced has_exc self call = (if has_exc then Some (TraceException self) else no_trace call)"

definition td_filter_breakpoints ::
  "services \<Rightarrow> nat \<Rightarrow> pydbframe \<Rightarrow> bool \<Rightarrow> perceived \<Rightarrow> cint \<Rightarrow> (int \<times> breakpoint) list option \<Rightarrow> bool \<Rightarrow>
   unit td" where
  "td_filter_breakpoints sv self a has_exc ev line bps can_skip =
     (if on_call_bp ev \<noteq> None then td_next ()
      else case bps of
        None \<Rightarrow> if can_skip then td_return (untraced has_exc self (is_call ev)) else td_next ()
      | Some [] \<Rightarrow> if can_skip then td_return (untraced has_exc self (is_call ev)) else td_next ()
      | Some (b # bs) \<Rightarrow>
          py_bind (py_gets (\<lambda>w. w_line_cache w (pf_key a, sint line))) (\<lambda>line_cache.
            if can_skip \<and> line_cache = Some 0 then td_return (Some (TraceDispatch self))
            else
              py_bind (has_breakpoint_in_frame sv (pf_key a) (ev_frame ev) (b # bs)) (\<lambda>has_bp.
                if can_skip \<and> \<not> has_bp then td_return (untraced has_exc self (is_call ev))
                else td_next ())))"

section \<open>Breakpoints\<close>

record hit =
  h_bp :: "breakpoint option"
  h_stop :: bool
  h_plugin :: bool
  h_reason :: cint
  h_frame :: frame
  h_type :: "string option"

definition no_hit :: "frame \<Rightarrow> hit" where
  "no_hit frame = \<lparr> h_bp = None, h_stop = False, h_plugin = False, h_reason = CMD_SET_BREAK,
     h_frame = frame, h_type = None \<rparr>"

definition td_find_breakpoint ::
  "services \<Rightarrow> nat \<Rightarrow> perceived \<Rightarrow> string \<Rightarrow> cint \<Rightarrow> (int \<times> breakpoint) list option \<Rightarrow> (world, hit) py" where
  "td_find_breakpoint sv info ev event line bps =
     (let frame = ev_frame ev in
      case on_call_bp ev of
        Some b \<Rightarrow> py_ret ((no_hit frame) \<lparr> h_bp := Some b, h_stop := True,
                           h_reason := CMD_SET_FUNCTION_BREAK \<rparr>)
      | None \<Rightarrow>
          py_bind (get_info info pydev_state) (\<lambda>state.
            case (if is_line ev \<and> state \<noteq> STATE_SUSPEND
                  then Option.bind bps (\<lambda>m. map_of m (sint line)) else None) of
              Some b \<Rightarrow> py_ret ((no_hit frame) \<lparr> h_bp := Some b, h_stop := True \<rparr>)
            | None \<Rightarrow>
                py_bind (get_db id) (\<lambda>db.
                  if has_plugin db \<and> has_plugin_line_breaks db then
                    py_bind (do_call (CallPlugin ''get_breakpoint'') (pl_get_breakpoint sv frame event info))
                      (\<lambda>r. case r of
                             None \<Rightarrow> py_ret (no_hit frame)
                           | Some (b, new_frame, bp_type) \<Rightarrow>
                               py_ret ((no_hit frame) \<lparr> h_bp := Some b, h_plugin := True,
                                 h_frame := new_frame, h_type := Some bp_type \<rparr>))
                  else py_ret (no_hit frame))))"

definition module_or_lambda_call :: "frame \<Rightarrow> cint \<Rightarrow> bool" where
  "module_or_lambda_call frame line \<longleftrightarrow>
     co_name (f_code frame) \<in> {''<lambda>'', ''<module>''} \<or>
     (line = 1 \<and> prefix ''<cell'' (co_name (f_code frame)))"

text \<open>A hit: its expression, its condition, the calls that are ignored, the log message.\<close>

definition td_check_condition :: "services \<Rightarrow> nat \<Rightarrow> breakpoint \<Rightarrow> hit \<Rightarrow> (world, hit) py" where
  "td_check_condition sv info b h =
     (if (h_stop h \<or> h_plugin h) \<and> bp_has_condition b then
        py_bind (do_call (CallCondition (bp_id b)) (sv_handle_breakpoint_condition sv info b (h_frame h)))
          (\<lambda>eval_result. py_ret (if eval_result then h else h \<lparr> h_stop := False, h_plugin := False \<rparr>))
      else py_ret h)"

definition td_logpoint :: "nat \<Rightarrow> breakpoint \<Rightarrow> hit \<Rightarrow> (world, hit) py" where
  "td_logpoint info b h =
     (if (h_stop h \<or> h_plugin h) \<and> is_logpoint b then
        py_bind (get_info info pydev_message) (\<lambda>msg.
          py_then
            (case msg of
               None \<Rightarrow> py_ret ()
             | Some m \<Rightarrow> if m \<noteq> [] then emit (OutIoMessage m) else py_ret ())
            (py_ret (h \<lparr> h_stop := False, h_plugin := False \<rparr>)))
      else py_ret h)"

definition td_on_hit ::
  "services \<Rightarrow> nat \<Rightarrow> nat \<Rightarrow> perceived \<Rightarrow> cint \<Rightarrow> hit \<Rightarrow> hit td" where
  "td_on_hit sv self info ev line h =
     (case h_bp h of
        None \<Rightarrow> td_next h
      | Some b \<Rightarrow>
          py_then
            (if bp_expression b \<noteq> None
             then do_call (CallExpression (bp_id b)) (sv_handle_breakpoint_expression sv info b (h_frame h))
             else py_ret ())
            (py_bind (td_check_condition sv info b h) (\<lambda>h1.
              if is_call ev \<and> module_or_lambda_call (ev_frame ev) line
              then td_return (Some (TraceDispatch self))
              else py_bind (td_logpoint info b h1) td_next)))"

definition shows_return_value ::
  "services \<Rightarrow> thread_info \<Rightarrow> frame option \<Rightarrow> frame \<Rightarrow> bool" where
  "shows_return_value sv i stop_frame frame =
     (let same = is_same_frame (sv_ipython_context sv) (pydev_use_scoped_step_frame i) in
      (pydev_step_cmd i \<in> {CMD_STEP_OVER, CMD_STEP_OVER_MY_CODE, CMD_SMART_STEP_INTO} \<and>
         same stop_frame (f_back frame)) \<or>
      (pydev_step_cmd i \<in> {CMD_STEP_RETURN, CMD_STEP_RETURN_MY_CODE} \<and> same stop_frame (Some frame)) \<or>
      pydev_step_cmd i \<in> {CMD_STEP_INTO, CMD_STEP_INTO_COROUTINE} \<or>
      (pydev_step_cmd i = CMD_STEP_INTO_MY_CODE \<and>
         (case f_back frame of None \<Rightarrow> False
          | Some b \<Rightarrow> \<not> sv_apply_files_filter sv b (co_filename (f_code b)) True)))"

definition td_return_values ::
  "services \<Rightarrow> nat \<Rightarrow> perceived \<Rightarrow> frame option \<Rightarrow> trace_arg \<Rightarrow> (world, unit) py" where
  "td_return_values sv info ev stop_frame arg =
     py_bind (get_db id) (\<lambda>db.
       if show_return_values db then
         py_bind (get_info info id) (\<lambda>i.
           if is_return ev \<and> shows_return_value sv i stop_frame (ev_frame ev)
           then show_return_value sv (ev_frame ev) arg else py_ret ())
       else if remove_return_values_flag db then
         py_finally (remove_return_values (ev_frame ev))
           (py_modify (\<lambda>w. w \<lparr> w_dbg := (w_dbg w) \<lparr> remove_return_values_flag := False \<rparr> \<rparr>))
       else py_ret ())"

definition td_suspend :: "services \<Rightarrow> nat \<Rightarrow> perceived \<Rightarrow> hit \<Rightarrow> (world, frame) py" where
  "td_suspend sv thread ev h =
     (if h_stop h then
        py_then (set_suspend sv thread (h_reason h)
                   (case h_bp h of None \<Rightarrow> False | Some b \<Rightarrow> suspend_policy b = ''ALL'') (-1))
          (py_ret (ev_frame ev))
      else
        py_bind (get_db has_plugin) (\<lambda>p.
          if h_plugin h \<and> p then
            py_bind (do_call (CallPlugin ''suspend'') (pl_suspend sv thread (ev_frame ev) (h_type h)))
              (\<lambda>r. case r of None \<Rightarrow> py_ret (ev_frame ev) | Some f \<Rightarrow> py_ret f)
          else py_ret (ev_frame ev)))"

definition td_wait_or_cache ::
  "services \<Rightarrow> nat \<Rightarrow> pydbframe \<Rightarrow> perceived \<Rightarrow> string \<Rightarrow> trace_arg \<Rightarrow> cint \<Rightarrow> hit \<Rightarrow> frame \<Rightarrow>
   (bool \<times> frame) td" where
  "td_wait_or_cache sv self a ev event arg line h frame =
     py_bind (get_info (pf_info a) pydev_state) (\<lambda>state.
       if state = STATE_SUSPEND then
         py_then (do_wait_suspend sv (pf_thread a) frame event arg)
           (td_return (Some (TraceDispatch self)))
       else
         py_then
           (if h_bp h = None \<and> is_line ev
            then py_modify (\<lambda>w. w \<lparr> w_line_cache := (w_line_cache w)((pf_key a, sint line) \<mapsto> 0) \<rparr>)
            else py_ret ())
           (td_next (h_stop h, frame)))"

definition td_breakpoint ::
  "services \<Rightarrow> nat \<Rightarrow> pydbframe \<Rightarrow> perceived \<Rightarrow> string \<Rightarrow> trace_arg \<Rightarrow> cint \<Rightarrow> frame option \<Rightarrow>
   (int \<times> breakpoint) list option \<Rightarrow> (bool \<times> frame) td" where
  "td_breakpoint sv self a ev event arg line stop_frame bps =
     py_bind (td_find_breakpoint sv (pf_info a) ev event line bps) (\<lambda>h0.
       py_flow (td_on_hit sv self (pf_info a) ev line h0) (\<lambda>h.
         py_then (td_return_values sv (pf_info a) ev stop_frame arg)
           (py_bind (td_suspend sv (pf_thread a) ev h) (\<lambda>frame.
             td_wait_or_cache sv self a ev event arg line h frame))))"

text \<open>The handler around the breakpoint block and around the step block: tell the user, raise again.\<close>

definition reporting :: "(world, 'a) py \<Rightarrow> (world, 'a) py" where
  "reporting m = py_try m (\<lambda>e.
     py_then (emit (OutConsoleMessage e))
       (py_then (if e \<in> {KeyboardInterrupt, SystemExit} then py_ret () else emit LogException)
         (py_raise e)))"

section \<open>Step commands\<close>

text \<open>\<^verbatim>\<open>pydevd_dont_trace.should_trace_hook\<close>, cached in \<^verbatim>\<open>self.should_skip\<close>.\<close>

definition td_should_skip :: "services \<Rightarrow> nat \<Rightarrow> pydbframe \<Rightarrow> frame \<Rightarrow> (world, bool) py" where
  "td_should_skip sv self a frame =
     (case sv_should_trace_hook sv of
        None \<Rightarrow> py_ret False
      | Some hook \<Rightarrow>
          py_bind (get_pf self should_skip) (\<lambda>cached.
            if cached = -1 then
              (let skip = (if \<not> hook (f_code frame) (fst (pf_path a)) then 1 else 0) in
               py_then (set_pf self (\<lambda>p. p \<lparr> should_skip := skip \<rparr>)) (py_ret (skip \<noteq> 0)))
            else py_ret (cached \<noteq> 0)))"

text \<open>Step into, line event: a plain step stops unless the file is filtered, a scoped step stops only
  below IPython's evaluation of a cell. None is the early return of the scoped step.\<close>

definition step_into_line ::
  "services \<Rightarrow> pydb \<Rightarrow> bool \<Rightarrow> bool \<Rightarrow> frame \<Rightarrow> bool \<Rightarrow> bool option" where
  "step_into_line sv db scoped force frame stop =
     (let filtered = (force \<or> is_files_filter_enabled db) \<and>
                     sv_apply_files_filter sv frame (co_filename (f_code frame)) force in
      if \<not> scoped then Some (\<not> filtered)
      else if filtered then None
      else
        (let filename = strip_pyc (co_filename (f_code frame));
             stop' = (if \<not> suffix (fst (sv_ipython_context sv)) filename
                      then (if stop_inside_ipython (sv_ipython_context sv) frame then True else stop)
                      else stop)
         in if stop' then Some True else None))"

definition step_into_return ::
  "services \<Rightarrow> pydb \<Rightarrow> thread_info \<Rightarrow> (nat \<Rightarrow> int option) \<Rightarrow> bool \<Rightarrow> frame \<Rightarrow> bool" where
  "step_into_return sv db i lineno force back =
     (if sv_get_file_type sv back = Some PYDEV_FILE then False
      else if force \<or> is_files_filter_enabled db then
        \<not> sv_apply_files_filter sv back (co_filename (f_code back)) force \<and>
        \<not> (case step_in_initial_location i of
              None \<Rightarrow> False
            | Some (f, l) \<Rightarrow> f_id f = f_id back \<and> l = lineno (f_id back))
      else True)"

definition td_step_into ::
  "services \<Rightarrow> pydbframe \<Rightarrow> perceived \<Rightarrow> string \<Rightarrow> frame \<Rightarrow> frame option \<Rightarrow> cint \<Rightarrow> bool \<Rightarrow>
   (bool \<times> bool \<times> stop_info) td" where
  "td_step_into sv a ev event frame stop_frame step_cmd stop0 =
     (let info = pf_info a; force = (step_cmd = CMD_STEP_INTO_MY_CODE) in
      py_bind (py_gets id) (\<lambda>w.
        let i = infos (w_reg w) info; db = w_dbg w; scoped = pydev_use_scoped_step_frame i in
        case (if is_line ev then step_into_line sv db scoped force frame stop0
              else Some (case f_back frame of
                           None \<Rightarrow> False
                         | Some back \<Rightarrow> is_return ev \<and> \<not> scoped \<and>
                             step_into_return sv db i (w_lineno w) force back)) of
          None \<Rightarrow> td_return (no_trace (is_call ev))
        | Some stop1 \<Rightarrow>
            (let stop2 = (stop1 \<and>
                   (step_cmd = CMD_STEP_INTO_COROUTINE \<longrightarrow>
                      reaches_frame (is_same_frame (sv_ipython_context sv) scoped) stop_frame frame)) in
             if has_plugin db then
               py_bind (do_call (CallPlugin ''cmd_step_into'')
                         (pl_cmd_step_into sv frame event info (pf_thread a) [] stop2))
                 (\<lambda>(r, stop_info).
                   case r of
                     None \<Rightarrow> td_next (stop2, False, stop_info)
                   | Some (stop, plugin_stop) \<Rightarrow> td_next (stop, plugin_stop, stop_info))
             else td_next (stop2, False, []))))"

definition td_step_over ::
  "services \<Rightarrow> pydbframe \<Rightarrow> perceived \<Rightarrow> string \<Rightarrow> frame \<Rightarrow> frame option \<Rightarrow> (bool \<times> bool \<times> stop_info) td" where
  "td_step_over sv a ev event frame stop_frame =
     py_bind (same_frame sv (pf_info a) stop_frame (Some frame)) (\<lambda>same.
       let stop = (same \<and> is_line ev) in
       py_bind (get_db has_plugin) (\<lambda>p.
         if p then
           py_bind (do_call (CallPlugin ''cmd_step_over'')
                     (pl_cmd_step_over sv frame event (pf_info a) (pf_thread a) [] stop))
             (\<lambda>(r, stop_info).
               case r of
                 None \<Rightarrow> td_next (stop, False, stop_info)
               | Some (stop, plugin_stop) \<Rightarrow> td_next (stop, plugin_stop, stop_info))
         else td_next (stop, False, [])))"

text \<open>Smart step into, by name: the function name and the line that the client asked for.\<close>

definition smart_func_name :: "frame \<Rightarrow> string" where
  "smart_func_name frame =
     (let n = co_name (f_code frame) in if n \<in> {''?'', ''<module>''} then [] else n)"

definition smart_variants :: "thread_info \<Rightarrow> variant list" where
  "smart_variants i = (case pydev_smart_step_into_variants i of None \<Rightarrow> [] | Some vs \<Rightarrow> vs)"

text \<open>Smart step into, line event in a frame called by the stepped frame (\<open>back\<close> is its caller). Without
  a caller or without a stepped frame the attribute reads of None raise.\<close>

definition smart_stop_in_parent ::
  "thread_info \<Rightarrow> (nat \<Rightarrow> int option) \<Rightarrow> (nat \<Rightarrow> int) \<Rightarrow> frame option \<Rightarrow> frame \<Rightarrow> frame option \<Rightarrow>
   pyexc + bool" where
  "smart_stop_in_parent i lineno lasti stop_frame frame back =
     (if pydev_smart_child_offset i \<noteq> -1 then Inr False
      else if 0 \<le> sint (pydev_smart_parent_offset i) \<and> smart_variants i \<noteq> [] then
        (case back of
           None \<Rightarrow> Inl AttributeError
         | Some b \<Rightarrow>
             Inr (variant_is
               (get_smart_step_into_variant_from_frame_offset (lasti (f_id b)) (smart_variants i))
               (get_smart_step_into_variant_from_frame_offset (sint (pydev_smart_parent_offset i))
                 (smart_variants i))))
      else if Some (smart_func_name frame) = pydev_func_name i then
        (case stop_frame of
           None \<Rightarrow> Inl AttributeError
         | Some sf \<Rightarrow> Inr (lineno (f_id sf) = Some (sint (pydev_next_line i))))
      else Inr False)"

text \<open>Line event two levels below: the child variant decides. The lookup of the parent variant may
  find none, and reading its children then raises.\<close>

definition smart_stop_in_child ::
  "thread_info \<Rightarrow> (nat \<Rightarrow> int) \<Rightarrow> frame \<Rightarrow> pyexc + bool" where
  "smart_stop_in_child i lasti back =
     (let parent = sint (pydev_smart_parent_offset i); child = sint (pydev_smart_child_offset i) in
      if 0 \<le> child \<and> 0 \<le> child then
        (if 0 \<le> parent \<and> smart_variants i \<noteq> [] then
           (case get_smart_step_into_variant_from_frame_offset parent (smart_variants i) of
              None \<Rightarrow> Inl AttributeError
            | Some v \<Rightarrow>
                (case v_children v of
                   None \<Rightarrow> Inr False
                 | Some cs \<Rightarrow>
                     Inr (cs \<noteq> [] \<and>
                       variant_is (get_smart_step_into_variant_from_frame_offset (lasti (f_id back)) cs)
                                  (get_smart_step_into_variant_from_frame_offset child cs))))
         else Inr False)
      else Inr False)"

definition td_smart_step ::
  "services \<Rightarrow> pydbframe \<Rightarrow> perceived \<Rightarrow> frame \<Rightarrow> frame option \<Rightarrow> (bool \<times> bool \<times> stop_info) td" where
  "td_smart_step sv a ev frame stop_frame =
     py_bind (py_gets id) (\<lambda>w.
       let i = infos (w_reg w) (pf_info a);
           same = is_same_frame (sv_ipython_context sv) (pydev_use_scoped_step_frame i);
           or_untrace = (\<lambda>stop. if stop then td_next (True, False, [])
                                else td_return (no_trace (is_call ev)));
           back = f_back frame in
       if same stop_frame (Some frame) \<and> is_return ev then td_next (True, False, [])
       else if same stop_frame back \<and> is_line ev then
         py_bind (py_lift (smart_stop_in_parent i (w_lineno w) (w_lasti w) stop_frame frame back)) or_untrace
       else (case back of
               None \<Rightarrow> td_next (False, False, [])
             | Some b \<Rightarrow>
                 if same stop_frame (f_back b) \<and> is_line ev
                 then py_bind (py_lift (smart_stop_in_child i (w_lasti w) b)) or_untrace
                 else td_next (False, False, [])))"

definition td_step ::
  "services \<Rightarrow> nat \<Rightarrow> pydbframe \<Rightarrow> perceived \<Rightarrow> string \<Rightarrow> frame \<Rightarrow> frame option \<Rightarrow> cint \<Rightarrow> bool \<Rightarrow>
   (bool \<times> bool \<times> stop_info) td" where
  "td_step sv self a ev event frame stop_frame step_cmd stop0 =
     py_bind (td_should_skip sv self a frame) (\<lambda>skip.
       if skip then td_next (False, False, [])
       else if step_cmd \<in> {CMD_STEP_INTO, CMD_STEP_INTO_MY_CODE, CMD_STEP_INTO_COROUTINE}
       then td_step_into sv a ev event frame stop_frame step_cmd stop0
       else if step_cmd \<in> {CMD_STEP_OVER, CMD_STEP_OVER_MY_CODE}
       then td_step_over sv a ev event frame stop_frame
       else if step_cmd = CMD_SMART_STEP_INTO
       then td_smart_step sv a ev frame stop_frame
       else if step_cmd \<in> {CMD_STEP_RETURN, CMD_STEP_RETURN_MY_CODE}
       then py_bind (same_frame sv (pf_info a) stop_frame (Some frame))
              (\<lambda>same. td_next (is_return ev \<and> same, False, []))
       else td_next (False, False, []))"

text \<open>Never stop on the return into a file of the debugger itself.\<close>

definition not_into_pydev_file :: "services \<Rightarrow> perceived \<Rightarrow> frame \<Rightarrow> cint \<Rightarrow> bool \<Rightarrow> bool" where
  "not_into_pydev_file sv ev frame step_cmd stop =
     (if stop \<and> step_cmd \<noteq> -1 \<and> is_return ev then
        (case f_back frame of
           None \<Rightarrow> stop
         | Some b \<Rightarrow> if sv_get_file_type sv b = Some PYDEV_FILE then False else stop)
      else stop)"

section \<open>The stop\<close>

definition DEBUG_STARTS :: "(string \<times> string) list" where
  "DEBUG_STARTS = [(''pydevd.py'', ''run''), (''_pydev_execfile.py'', ''execfile'')]"

definition TRACE_PROPERTY :: string where "TRACE_PROPERTY = ''pydevd_traceproperty.py''"

text \<open>The frame in which a return event is shown to the user, or an early return.\<close>

definition td_stop_back ::
  "services \<Rightarrow> nat \<Rightarrow> perceived \<Rightarrow> frame \<Rightarrow> (frame option) td" where
  "td_stop_back sv thread ev frame =
     (case f_back frame of
        None \<Rightarrow> td_next None
      | Some back \<Rightarrow>
          (let path = sv_abs_path sv back; base = snd (snd path) in
           if (base, co_name (f_code back)) \<in> set DEBUG_STARTS then td_next None
           else if base = TRACE_PROPERTY then td_return (no_trace (is_call ev))
           else case sv_should_trace_hook sv of
             None \<Rightarrow> td_next (Some back)
           | Some hook \<Rightarrow>
               if \<not> hook (f_code back) (fst path) then
                 py_then
                   (do_call (CallSetTraceForFrameAndParents thread (f_id back))
                     (sv_set_trace_for_frame_and_parents sv thread back))
                   (td_return (no_trace (is_call ev)))
               else td_next (Some back)))"

definition suspend_and_wait ::
  "services \<Rightarrow> pydbframe \<Rightarrow> frame \<Rightarrow> string \<Rightarrow> trace_arg \<Rightarrow> cint \<Rightarrow> (world, unit) py" where
  "suspend_and_wait sv a frame event arg step_cmd =
     py_bind (get_info (pf_info a) pydev_original_step_cmd) (\<lambda>orig.
       py_then (set_suspend sv (pf_thread a) step_cmd False orig)
         (do_wait_suspend sv (pf_thread a) frame event arg))"

definition td_run_free :: "nat \<Rightarrow> (world, unit) py" where
  "td_run_free info =
     py_then
       (set_info info (\<lambda>i. i \<lparr> pydev_step_stop := None, pydev_original_step_cmd := -1,
                              pydev_step_cmd := -1, pydev_state := STATE_RUN \<rparr>))
       (on_registry (update_stepping_info info))"

definition td_stop ::
  "services \<Rightarrow> pydbframe \<Rightarrow> perceived \<Rightarrow> string \<Rightarrow> trace_arg \<Rightarrow> frame \<Rightarrow> cint \<Rightarrow> bool \<Rightarrow> unit td" where
  "td_stop sv a ev event arg frame step_cmd stop =
     (if \<not> stop then td_next ()
      else if is_line ev then py_then (suspend_and_wait sv a frame event arg step_cmd) (td_next ())
      else if is_return ev then
        py_flow (td_stop_back sv (pf_thread a) ev frame) (\<lambda>back.
          py_then
            (case back of
               None \<Rightarrow> td_run_free (pf_info a)
             | Some b \<Rightarrow> suspend_and_wait sv a b event arg step_cmd)
            (td_next ()))
      else td_next ())"

definition td_step_block ::
  "services \<Rightarrow> nat \<Rightarrow> pydbframe \<Rightarrow> perceived \<Rightarrow> string \<Rightarrow> trace_arg \<Rightarrow> frame \<Rightarrow> frame option \<Rightarrow> cint \<Rightarrow> bool \<Rightarrow>
   (world, tracefun option) py" where
  "td_step_block sv self a ev event arg frame stop_frame step_cmd stop0 =
     py_body
       (py_flow (td_step sv self a ev event frame stop_frame step_cmd stop0)
         (\<lambda>(stop, plugin_stop, stop_info).
           if plugin_stop then
             py_then (do_call (CallPlugin ''stop'')
                       (pl_stop sv frame event (pf_thread a) stop_info arg step_cmd)) (td_next ())
           else td_stop sv a ev event arg frame step_cmd
                  (not_into_pydev_file sv ev frame step_cmd stop)))
       (\<lambda>_. py_bind (get_db quitting) (\<lambda>q.
          py_ret (if q then no_trace (is_call ev) else Some (TraceDispatch self))))"

section \<open>The whole function\<close>

definition td_perceive ::
  "services \<Rightarrow> nat \<Rightarrow> pydbframe \<Rightarrow> bool \<Rightarrow> frame \<Rightarrow> string \<Rightarrow> trace_arg \<Rightarrow> cint \<Rightarrow> frame option \<Rightarrow> cint \<Rightarrow>
   perceived td" where
  "td_perceive sv self a has_exc frame event arg line stop_frame step_cmd =
     (if is_coroutine_or_generator (f_code frame)
      then coroutine_event sv self a has_exc frame event arg line stop_frame step_cmd
      else function_event sv self a has_exc frame event arg stop_frame step_cmd)"

definition td_filter ::
  "services \<Rightarrow> nat \<Rightarrow> pydbframe \<Rightarrow> bool \<Rightarrow> perceived \<Rightarrow> cint \<Rightarrow> frame option \<Rightarrow> cint \<Rightarrow>
   (int \<times> breakpoint) list option td" where
  "td_filter sv self a has_exc ev line stop_frame step_cmd =
     (if is_exception_event ev then td_next None
      else
        py_bind (get_db breakpoints) (\<lambda>bpm.
          let bps = bpm (fst (snd (pf_path a))) in
          py_bind (td_can_skip sv (pf_info a) (ev_frame ev) stop_frame step_cmd) (\<lambda>can_skip.
            py_flow (td_filter_breakpoints sv self a has_exc ev line bps can_skip)
              (\<lambda>_. td_next bps))))"

definition td_main ::
  "services \<Rightarrow> nat \<Rightarrow> pydbframe \<Rightarrow> frame \<Rightarrow> string \<Rightarrow> trace_arg \<Rightarrow> (world, tracefun option) py" where
  "td_main sv self a frame event arg =
     py_bind (f_lineno frame) (\<lambda>lineno.
       py_bind (py_lift (int_as_cint (case lineno of None \<Rightarrow> 0 | Some n \<Rightarrow> n))) (\<lambda>line.
         py_bind (get_db id) (\<lambda>db.
           if pydb_disposed db then py_ret (no_trace (event = ''call''))
           else
             py_bind (get_info (pf_info a) id) (\<lambda>i.
               let has_exc = has_exception_breakpoints db;
                   stop_frame = pydev_step_stop i; step_cmd = pydev_step_cmd i in
               py_body
                 (py_flow (td_perceive sv self a has_exc frame event arg line stop_frame step_cmd) (\<lambda>ev.
                   py_flow (td_filter sv self a has_exc ev line stop_frame step_cmd) (\<lambda>bps.
                     py_flow (reporting (td_breakpoint sv self a ev event arg line stop_frame bps))
                       (\<lambda>(stop, frame). td_next (ev, stop, frame)))))
                 (\<lambda>(ev, stop, frame).
                   reporting (td_step_block sv self a ev event arg frame stop_frame step_cmd stop))))))"

text \<open>\<^verbatim>\<open>info.is_tracing += 1\<close> on entry, \<^verbatim>\<open>info.is_tracing -= 1\<close> in the final block.\<close>

definition enter_tracing :: "nat \<Rightarrow> world \<Rightarrow> world" where
  "enter_tracing info w = w \<lparr> w_reg := upd_info info (\<lambda>i. i \<lparr> is_tracing := is_tracing i + 1 \<rparr>) (w_reg w) \<rparr>"

definition leave_tracing :: "nat \<Rightarrow> world \<Rightarrow> world" where
  "leave_tracing info w = w \<lparr> w_reg := upd_info info (\<lambda>i. i \<lparr> is_tracing := is_tracing i - 1 \<rparr>) (w_reg w) \<rparr>"

definition trace_dispatch ::
  "services \<Rightarrow> nat \<Rightarrow> frame \<Rightarrow> string \<Rightarrow> trace_arg \<Rightarrow> (world, tracefun option) py" where
  "trace_dispatch sv self frame event arg =
     py_bind (get_pf self id) (\<lambda>a.
       py_then (py_modify (enter_tracing (pf_info a)))
         (py_finally (td_main sv self a frame event arg)
           (py_modify (leave_tracing (pf_info a)))))"

end
