(* ===== verification/DispatchLemmas.thy ===== *)
theory DispatchLemmas
  imports Dispatch
begin

text \<open>
  What the blocks of \<open>trace_dispatch\<close> leave unchanged. The locale \<open>observation\<close> is the interface: an
  observation of the world that does not look at what the tracer itself writes (apart from the
  re-entrancy counter and the cache of lines). Every block keeps such an observation when the
  services do; this is proved once and used for the counter and for the line cache.
  The locales \<open>reentrancy_counter\<close> and \<open>memo_cell\<close> capture the counter and the three caches of
  answers.
\<close>

section \<open>Observations that the tracer does not disturb\<close>

lemma keeps_td_flow [keeps_rules]: "keeps f (td_return r)" "keeps f (td_next x)"
  by (simp_all add: td_return_def td_next_def keeps_rules)

lemma keeps_reporting [keeps_rules]:
  "(\<And>w e. f (w \<lparr> w_calls := w_calls w @ [OutConsoleMessage e] \<rparr>) = f w) \<Longrightarrow>
   (\<And>w. f (w \<lparr> w_calls := w_calls w @ [LogException] \<rparr>) = f w) \<Longrightarrow>
   keeps f m \<Longrightarrow> keeps f (reporting m)"
  unfolding reporting_def by (intro keeps_rules)

locale observation =
  fixes f :: "world \<Rightarrow> 'b"
  assumes obs_calls: "f (w \<lparr> w_calls := c \<rparr>) = f w"
    and obs_locals: "f (w \<lparr> w_locals := l \<rparr>) = f w"
    and obs_pf: "f (w \<lparr> w_pf := p \<rparr>) = f w"
    and obs_frame_cache: "f (w \<lparr> w_frame_cache := fc \<rparr>) = f w"
    and obs_returns: "f (w \<lparr> w_returns_cache := rc \<rparr>) = f w"
    and obs_try_exc: "f (w \<lparr> w_try_exc_cache := tc \<rparr>) = f w"
    and obs_ignored: "f (w \<lparr> w_lines_ignored := li \<rparr>) = f w"
    and obs_stat: "f (w \<lparr> w_stat_info := st \<rparr>) = f w"
    and obs_flag: "f (w \<lparr> w_dbg := (w_dbg w) \<lparr> remove_return_values_flag := b \<rparr> \<rparr>) = f w"
    and obs_info: "(\<And>x. is_tracing (g x) = is_tracing x) \<Longrightarrow> f (w \<lparr> w_reg := upd_info j g (w_reg w) \<rparr>) = f w"
    and obs_stepping: "f (w \<lparr> w_reg := snd (update_stepping_info j (w_reg w)) \<rparr>) = f w"
begin

lemmas obs_simps = obs_calls obs_locals obs_pf obs_frame_cache obs_returns obs_try_exc obs_ignored
  obs_stat obs_flag obs_info obs_stepping

lemma obs_access:
  "(\<And>x. is_tracing (g x) = is_tracing x) \<Longrightarrow> keeps f (set_info j g)"
  "keeps f (set_pf p h)" "keeps f (upd_locals fr k)" "keeps f (add_exception_to_frame fr a)"
  "keeps f (remove_exception_from_frame sv fr)" "keeps f (on_registry (update_stepping_info j))"
  by (simp_all add: set_info_def set_pf_def upd_locals_def add_exception_to_frame_def
      remove_exception_from_frame_def keeps_modify obs_simps)
    (simp add: keeps_def on_registry_def py_zoom_app split_beta obs_stepping)

lemma obs_caches:
  "keeps f (return_lines_of sv key fr)" "keeps f (has_breakpoint_in_frame sv key fr bps)"
  "keeps f (unhandled_in_frame sv key fr xi)" "keeps f (refresh_lines_ignored sv path)"
  "keeps f (set_line_ignored can line v)"
  by (auto simp: keeps_def return_lines_of_def has_breakpoint_in_frame_def unhandled_in_frame_def
      refresh_lines_ignored_def set_line_ignored_def Let_def obs_simps
      split: option.splits sum.splits prod.splits)

lemmas obs_rules = keeps_rules obs_access obs_caches

lemma obs_check_exc_break:
  "services_keep f sv \<Longrightarrow> keeps f (check_exc_break sv j fr arg tr prev eb u m)"
  unfolding check_exc_break_def by (intro obs_rules; simp add: obs_simps)

lemma obs_check_excs_loop:
  assumes b: "services_keep f sv"
  shows "keeps f (check_excs_loop sv j fr arg tr prev bs m)"
proof (induction bs arbitrary: m)
  case Nil
  show ?case unfolding check_excs_loop.simps by (rule keeps_ret)
next
  case (Cons x bs)
  show ?case
    by (cases x, simp only: check_excs_loop.simps)
      (intro obs_rules obs_check_exc_break b Cons.IH; simp)
qed

lemma obs_should_stop_on_exception:
  "services_keep f sv \<Longrightarrow> keeps f (should_stop_on_exception sv j fr t arg prev u)"
  unfolding should_stop_on_exception_def plugin_exception_break_def
  by (intro obs_rules obs_check_excs_loop; simp add: obs_simps)

lemma obs_handle_exception:
  "services_keep f sv \<Longrightarrow> keeps f (handle_exception sv t fr arg ty)"
  unfolding handle_exception_def suspend_on_exception_def ignored_anywhere_def ignored_at_def
  by (intro obs_rules; simp add: obs_simps)

lemma obs_exception_event:
  "services_keep f sv \<Longrightarrow> keeps f (on_exception_event sv self fr arg)"
  "services_keep f sv \<Longrightarrow> keeps f (handle_user_exception sv self fr)"
  unfolding on_exception_event_def handle_user_exception_def
  by (intro obs_rules obs_should_stop_on_exception obs_handle_exception; simp)+

lemma obs_trace_exception:
  "services_keep f sv \<Longrightarrow> keeps f (trace_exception sv self fr event arg)"
  unfolding trace_exception_def by (intro obs_rules obs_exception_event; simp)

lemma obs_td_perceive:
  "services_keep f sv \<Longrightarrow> keeps f (td_perceive sv self a h fr event arg line sf cmd)"
  unfolding td_perceive_def coroutine_event_def function_event_def retarget_coroutine_step_def
    step_into_on_return_def unfiltered_back_def
  by (intro obs_rules obs_exception_event; simp)

lemma obs_td_filter:
  "services_keep f sv \<Longrightarrow> keeps f (td_filter sv self a h ev line sf cmd)"
  unfolding td_filter_def td_can_skip_def td_filter_breakpoints_def
  by (intro obs_rules; simp add: obs_simps)

lemma obs_td_return_values: "keeps f (td_return_values sv i ev sf arg)"
  unfolding td_return_values_def show_return_value_def get_func_name_def remove_return_values_def
  by (intro obs_rules; simp add: obs_simps)

lemma obs_td_hit:
  "services_keep f sv \<Longrightarrow> keeps f (td_find_breakpoint sv i ev event line bps)"
  "services_keep f sv \<Longrightarrow> keeps f (td_on_hit sv self i ev line h)"
  "services_keep f sv \<Longrightarrow> keeps f (td_suspend sv t ev h)"
  unfolding td_find_breakpoint_def td_on_hit_def td_check_condition_def td_logpoint_def td_suspend_def
    set_suspend_def
  by (intro obs_rules; simp add: obs_simps)+

lemma obs_do_wait_suspend:
  "services_keep f sv \<Longrightarrow> keeps f (do_wait_suspend sv t fr event arg)"
  unfolding do_wait_suspend_def by (intro obs_rules; simp add: obs_simps)

lemma obs_td_step_block:
  "services_keep f sv \<Longrightarrow> keeps f (td_step_block sv self a ev event arg fr sf cmd stop)"
  unfolding td_step_block_def td_step_def td_should_skip_def td_step_into_def td_step_over_def
    td_smart_step_def td_stop_def td_stop_back_def suspend_and_wait_def td_run_free_def set_suspend_def
  by (intro obs_rules obs_do_wait_suspend; simp add: obs_simps)

end

text \<open>An observation that does not look at the line cache either is kept by the whole body.\<close>

locale body_observation = observation +
  assumes obs_line_cache: "f (w \<lparr> w_line_cache := lc \<rparr>) = f w"
begin

lemma obs_td_breakpoint:
  "services_keep f sv \<Longrightarrow> keeps f (td_breakpoint sv self a ev event arg line sf bps)"
  unfolding td_breakpoint_def td_wait_or_cache_def
  by (intro obs_rules obs_td_hit obs_td_return_values obs_do_wait_suspend; simp add: obs_line_cache)

lemma obs_td_main:
  "services_keep f sv \<Longrightarrow> keeps f (td_main sv self a fr event arg)"
  unfolding td_main_def
  by (intro obs_rules obs_td_perceive obs_td_filter obs_td_breakpoint obs_td_step_block;
      simp add: obs_simps)

end

lemma update_stepping_infos: "infos (snd (update_stepping_info j r)) = infos r"
  using keepsD [OF update_stepping_keeps, of j r] .

interpretation depth: body_observation "tracing_depth i" for i
  by unfold_locales (simp_all add: tracing_depth_def upd_info_def update_stepping_infos)

section \<open>The re-entrancy counter\<close>

text \<open>
  A counter that is raised on entry and lowered in a final block. Whatever the section does in
  between, the counter is back at its value afterwards; inside it is one higher.
\<close>

locale reentrancy_counter =
  fixes depth :: "'w \<Rightarrow> cint" and enter :: "'w \<Rightarrow> 'w" and leave :: "'w \<Rightarrow> 'w"
  assumes depth_enter: "depth (enter w) = depth w + 1"
    and depth_leave: "depth (leave w) = depth w - 1"
begin

lemma section_balanced:
  "keeps depth m \<Longrightarrow> keeps depth (py_then (py_modify enter) (py_finally m (py_modify leave)))"
  by (rule keeps_bracket) (simp_all add: depth_enter depth_leave)

lemma section_not_zero: "depth w = 0 \<Longrightarrow> depth (enter w) \<noteq> 0"
  by (simp add: depth_enter)

end

interpretation rc: reentrancy_counter "tracing_depth i" "enter_tracing i" "leave_tracing i" for i
  by unfold_locales (simp_all add: tracing_depth_def enter_tracing_def leave_tracing_def upd_info_def)

lemma depth_section:
  assumes "keeps (tracing_depth i) m"
  shows "keeps (tracing_depth i)
    (py_then (py_modify (enter_tracing j)) (py_finally m (py_modify (leave_tracing j))))"
proof (cases "i = j")
  case True
  with assms show ?thesis using rc.section_balanced by blast
next
  case False
  then show ?thesis
    by (intro keeps_rules assms)
      (simp_all add: tracing_depth_def enter_tracing_def leave_tracing_def upd_info_def)
qed

lemma leave_enter [simp]: "leave_tracing i (enter_tracing i w) = w"
  by (simp add: leave_tracing_def enter_tracing_def upd_info_def)

lemma depth_trace_dispatch [keeps_rules]:
  assumes b: "services_keep (tracing_depth i) sv"
  shows "keeps (tracing_depth i) (trace_dispatch sv self fr event arg)"
  unfolding trace_dispatch_def by (intro keeps_bind keeps_access depth_section depth.obs_td_main b)

section \<open>Cached answers\<close>

text \<open>
  A computation that looks for its answer in a cell of the state and otherwise computes and
  stores it.
\<close>

locale memo_cell =
  fixes cell :: "'w \<Rightarrow> 'v option" and compute :: "pyexc + 'v" and run :: "('w, 'v) py"
  assumes hit: "cell w = Some v \<Longrightarrow> run w = (Inr v, w)"
    and miss: "cell w = None \<Longrightarrow> compute = Inr v \<Longrightarrow> fst (run w) = Inr v \<and> cell (snd (run w)) = Some v"
    and fail: "cell w = None \<Longrightarrow> compute = Inl e \<Longrightarrow> run w = (Inl e, w)"
begin

lemma agrees: "(\<And>v. cell w = Some v \<Longrightarrow> compute = Inr v) \<Longrightarrow> fst (run w) = compute"
  using hit [of w] miss [of w] fail [of w] by (cases "cell w"; cases compute; fastforce)

lemma stays_sound:
  "(\<And>v. cell w = Some v \<Longrightarrow> compute = Inr v) \<Longrightarrow> cell (snd (run w)) = Some v \<Longrightarrow> compute = Inr v"
  using hit [of w] miss [of w] fail [of w] by (cases "cell w"; cases compute; fastforce)

lemma again: "run w = (Inr v, w') \<Longrightarrow> run w' = (Inr v, w')"
  using hit miss [of w] fail [of w] by (cases "cell w"; cases compute; fastforce)

end

interpretation returns: memo_cell "\<lambda>w. w_returns_cache w key"
  "Inr (remdups (sv_collect_return_lines sv (f_code frame)))" "return_lines_of sv key frame"
  for sv key frame
  by unfold_locales (auto simp: return_lines_of_def Let_def)

definition frame_cache_cell :: "code_key \<Rightarrow> world \<Rightarrow> bool option" where
  "frame_cache_cell key w = (case w_frame_cache w key of
     None \<Rightarrow> None | Some n \<Rightarrow> if n = -1 then None else Some (n = 1))"

interpretation hasbp: memo_cell "frame_cache_cell key"
  "compute_has_breakpoint_in_frame sv (f_code frame) bps" "has_breakpoint_in_frame sv key frame bps"
  for sv key frame bps
  by unfold_locales
    (auto simp: has_breakpoint_in_frame_def frame_cache_cell_def Let_def split: option.splits if_splits)

definition should_skip_cell :: "services \<Rightarrow> nat \<Rightarrow> world \<Rightarrow> bool option" where
  "should_skip_cell sv self w = (if sv_should_trace_hook sv = None then Some False
     else if should_skip (w_pf w self) = -1 then None else Some (should_skip (w_pf w self) \<noteq> 0))"

definition hook_skips :: "services \<Rightarrow> code \<Rightarrow> string \<Rightarrow> bool" where
  "hook_skips sv c path = (case sv_should_trace_hook sv of None \<Rightarrow> False | Some hook \<Rightarrow> \<not> hook c path)"

interpretation skip: memo_cell "should_skip_cell sv self" "Inr (hook_skips sv (f_code frame) (fst (pf_path a)))"
  "td_should_skip sv self a frame" for sv self a frame
  by unfold_locales
    (auto simp: td_should_skip_def should_skip_cell_def hook_skips_def py_simps access_defs Let_def
      split: option.splits if_splits)

end
