(* ===== verification/ThreadTracer.thy ===== *)
theory ThreadTracer
  imports DispatchLemmas
begin

text \<open>
  The trace function of a thread: \<^verbatim>\<open>ThreadTracer.__call__\<close>, the two top-level tracers,
  \<^verbatim>\<open>SafeCallWrapper\<close>, \<^verbatim>\<open>fix_top_level_trace_and_get_trace_func\<close> and the module-level
  \<^verbatim>\<open>trace_dispatch\<close> of \<^verbatim>\<open>pydevd_cython.c\<close>.
\<close>

section \<open>\<^verbatim>\<open>ThreadTracer.__call__\<close>\<close>

text \<open>\<^verbatim>\<open>notify_skipped_step_in_because_of_filters\<close>: at most one notification per process.\<close>

definition notify_skipped_step_in_because_of_filters :: "services \<Rightarrow> frame \<Rightarrow> (world, unit) py" where
  "notify_skipped_step_in_because_of_filters sv frame =
     py_bind (py_gets w_notified_skipped) (\<lambda>notified.
       if notified then py_ret ()
       else py_then (py_modify (\<lambda>w. w \<lparr> w_notified_skipped := True \<rparr>))
              (do_call (CallNotifySkipped (f_id frame)) (sv_notify_skipped sv frame)))"

definition set_cache_skips :: "code_key \<Rightarrow> int \<Rightarrow> (world, unit) py" where
  "set_cache_skips key v = py_modify (\<lambda>w. w \<lparr> w_cache_skips := (w_cache_skips w)(key \<mapsto> v) \<rparr>)"

definition step_out_commands :: "cint set" where
  "step_out_commands = {CMD_STEP_INTO, CMD_STEP_INTO_MY_CODE, CMD_STEP_RETURN, CMD_STEP_RETURN_MY_CODE}"

definition maybe_notify_skipped :: "services \<Rightarrow> nat \<Rightarrow> frame \<Rightarrow> bool \<Rightarrow> (world, unit) py" where
  "maybe_notify_skipped sv info frame stepping =
     py_bind (get_info info pydev_original_step_cmd) (\<lambda>orig.
       py_bind (py_gets w_notified_skipped) (\<lambda>notified.
         if stepping \<and> orig \<in> {CMD_STEP_INTO, CMD_STEP_INTO_MY_CODE} \<and> \<not> notified
         then notify_skipped_step_in_because_of_filters sv frame else py_ret ()))"

text \<open>The test of \<^verbatim>\<open>cache_skips\<close>.\<close>

definition tt_cache ::
  "services \<Rightarrow> nat \<Rightarrow> frame \<Rightarrow> bool \<Rightarrow> cint \<Rightarrow> unit td" where
  "tt_cache sv info frame call step_cmd =
     py_bind (py_gets w_cache_skips) (\<lambda>skips.
       case skips (code_key (f_code frame)) of
         None \<Rightarrow> td_next ()
       | Some v \<Rightarrow>
           if step_cmd = -1 then td_return (no_trace call)
           else if v = 1 then
             py_then (maybe_notify_skipped sv info frame True)
               (py_bind (py_gets w_cache_skips) (\<lambda>skips.
                 case f_back frame of
                   Some back \<Rightarrow>
                     if step_cmd \<in> step_out_commands then
                       (if skips (code_key (f_code back)) = Some 1 then td_return (no_trace call)
                        else td_next ())
                     else td_return (no_trace call)
                 | None \<Rightarrow> td_return (no_trace call)))
           else td_next ())"

text \<open>Library files out of the project and files of the debugger are skipped for good.\<close>

definition tt_file_type :: "services \<Rightarrow> frame \<Rightarrow> bool \<Rightarrow> unit td" where
  "tt_file_type sv frame call =
     (let skip = py_then (set_cache_skips (code_key (f_code frame)) 1) (td_return (no_trace call)) in
      case sv_get_file_type sv frame of
        None \<Rightarrow> td_next ()
      | Some ty \<Rightarrow>
          if ty = 1 then
            (if \<not> sv_in_project_scope sv frame (fst (sv_abs_path sv frame)) then skip else td_next ())
          else skip)"

text \<open>Filtered files; when stepping in or out the caller counts too.\<close>

definition tt_filter :: "services \<Rightarrow> nat \<Rightarrow> frame \<Rightarrow> bool \<Rightarrow> cint \<Rightarrow> unit td" where
  "tt_filter sv info frame call step_cmd =
     py_bind (get_db is_files_filter_enabled) (\<lambda>enabled.
       if \<not> enabled then td_next ()
       else if \<not> sv_apply_files_filter sv frame (fst (sv_abs_path sv frame)) False then td_next ()
       else
         py_then (set_cache_skips (code_key (f_code frame)) 1)
           (py_then (maybe_notify_skipped sv info frame (step_cmd \<noteq> -1))
             (case f_back frame of
                Some back \<Rightarrow>
                  if step_cmd \<in> step_out_commands then
                    (if sv_apply_files_filter sv back (co_filename (f_code back)) False
                     then py_then (set_cache_skips (code_key (f_code back)) 1) (td_return (no_trace call))
                     else td_next ())
                  else td_return (no_trace call)
              | None \<Rightarrow> td_return (no_trace call))))"

text \<open>A new PyDBFrame for this frame; its answer is kept in \<^verbatim>\<open>frame.f_trace\<close> or in the cache.\<close>

definition new_pf :: "pydbframe \<Rightarrow> (world, nat) py" where
  "new_pf p = (\<lambda>w. (Inr (w_fresh w), w \<lparr> w_pf := (w_pf w)(w_fresh w := p), w_fresh := w_fresh w + 1 \<rparr>))"

definition set_f_trace :: "frame \<Rightarrow> tracefun option \<Rightarrow> (world, unit) py" where
  "set_f_trace f tf = py_modify (\<lambda>w. w \<lparr> w_ftrace := (w_ftrace w)(f_id f := tf) \<rparr>)"

definition tt_delegate ::
  "services \<Rightarrow> nat \<Rightarrow> nat \<Rightarrow> frame \<Rightarrow> string \<Rightarrow> trace_arg \<Rightarrow> (world, tracefun option) py" where
  "tt_delegate sv t info frame event arg =
     (let key = code_key (f_code frame) in
      py_bind (new_pf (new_PyDBFrame (sv_abs_path sv frame) info t key)) (\<lambda>p.
        py_bind (trace_dispatch sv p frame event arg) (\<lambda>ret.
          case ret of
            None \<Rightarrow> py_then (set_cache_skips key 2) (py_ret (no_trace (event = ''call'')))
          | Some tf \<Rightarrow> py_then (set_f_trace frame (Some (SafeCallWrapper tf))) (py_ret (Some tf)))))"

definition tt_main ::
  "services \<Rightarrow> nat \<Rightarrow> nat \<Rightarrow> frame \<Rightarrow> string \<Rightarrow> trace_arg \<Rightarrow> (world, tracefun option) py" where
  "tt_main sv t info frame event arg =
     py_bind (get_info info pydev_step_cmd) (\<lambda>step_cmd.
       let call = (event = ''call'') in
       py_body
         (py_bind (py_gets id) (\<lambda>w.
           if pydb_disposed (w_dbg w) then td_return (no_trace call)
           else if \<not> t_alive (threads (w_reg w) t) then
             py_then (do_call (CallNotifyThreadNotAlive t) (sv_notify_thread_not_alive sv t))
               (td_return (no_trace call))
           else
             py_flow (tt_cache sv info frame call step_cmd) (\<lambda>_.
               py_flow (tt_file_type sv frame call) (\<lambda>_.
                 tt_filter sv info frame call step_cmd))))
         (\<lambda>_. tt_delegate sv t info frame event arg))"

definition tt_handlers :: "string \<Rightarrow> pyexc \<Rightarrow> (world, tracefun option) py" where
  "tt_handlers event e =
     (if e = SystemExit then py_ret (no_trace (event = ''call''))
      else if is_Exception e then
        py_bind (get_db pydb_disposed) (\<lambda>disposed.
          py_then (if disposed then py_ret () else emit LogException)
            (py_ret (no_trace (event = ''call''))))
      else py_raise e)"

definition ThreadTracer_call ::
  "services \<Rightarrow> nat \<Rightarrow> nat \<Rightarrow> frame \<Rightarrow> string \<Rightarrow> trace_arg \<Rightarrow> (world, tracefun option) py" where
  "ThreadTracer_call sv t info frame event arg =
     py_bind (get_info info is_tracing) (\<lambda>depth.
       if depth \<noteq> 0 then py_ret (no_trace (event = ''call''))
       else
         py_then (py_modify (enter_tracing info))
           (py_finally
             (py_try (tt_main sv t info frame event arg) (tt_handlers event))
             (py_modify (leave_tracing info))))"

section \<open>Top-level tracers\<close>

definition trace_unhandled_exceptions ::
  "services \<Rightarrow> nat \<Rightarrow> string \<Rightarrow> trace_arg \<Rightarrow> (world, tracefun option) py" where
  "trace_unhandled_exceptions sv self event arg =
     py_bind (py_gets (\<lambda>w. w_tracers w self)) (\<lambda>obj.
       case obj of
         OnlyUnhandledObj db t info \<Rightarrow>
           py_then
             (if event = ''exception'' \<and> arg \<noteq> ArgNone then
                py_bind (get_info info suspended_at_unhandled) (\<lambda>already.
                  if already then py_ret ()
                  else
                    py_then (set_info info (\<lambda>i. i \<lparr> suspended_at_unhandled := True \<rparr>))
                      (do_call (CallStopOnUnhandled t) (sv_stop_on_unhandled_exception sv t info arg)))
              else py_ret ())
             (py_ret (Some (TraceUnhandled self)))
       | _ \<Rightarrow> py_raise TypeError)"

definition upd_no_back :: "nat \<Rightarrow> (no_back_frame \<Rightarrow> no_back_frame) \<Rightarrow> (world, unit) py" where
  "upd_no_back self f = py_modify (\<lambda>w. w \<lparr> w_tracers := (w_tracers w)(self :=
     (case w_tracers w self of NoBackFrameObj n \<Rightarrow> NoBackFrameObj (f n) | x \<Rightarrow> x)) \<rparr>)"

text \<open>
  \<^verbatim>\<open>trace_dispatch_and_unhandled_exceptions\<close>; \<open>run\<close> calls the wrapped trace function. The line is
  stored in a C int.
\<close>

definition nb_on_exception :: "nat \<Rightarrow> frame \<Rightarrow> trace_arg \<Rightarrow> (world, unit) py" where
  "nb_on_exception self frame arg =
     py_bind (f_lineno frame) (\<lambda>line.
       py_then (upd_no_back self (\<lambda>n. n \<lparr> nb_last_exc_arg := (if arg = ArgNone then None else Some arg),
                   nb_raise_lines := List.insert line (nb_raise_lines n) \<rparr>))
         (py_bind (py_lift (opt_as_cint line)) (\<lambda>l.
           upd_no_back self (\<lambda>n. n \<lparr> nb_last_raise_line := l \<rparr>))))"

definition nb_on_return :: "services \<Rightarrow> nat \<Rightarrow> no_back_frame \<Rightarrow> frame \<Rightarrow> trace_arg \<Rightarrow> (world, unit) py" where
  "nb_on_return sv self n frame exc_arg =
     py_finally
       (py_bind (get_info (nb_info n) suspended_at_unhandled) (\<lambda>already.
         if already then py_ret ()
         else
           py_bind (f_lineno frame) (\<lambda>line.
             let (r, infos') = is_unhandled_exception (sv_collect_try_except_info sv) (f_code frame) line
                   (nb_last_raise_line n) (nb_raise_lines n) (nb_try_except_infos n) in
             py_then (upd_no_back self (\<lambda>n. n \<lparr> nb_try_except_infos := infos' \<rparr>))
               (py_bind (py_lift r) (\<lambda>unhandled.
                 if unhandled
                 then do_call (CallStopOnUnhandled (nb_thread n))
                        (sv_stop_on_unhandled_exception sv (nb_thread n) (nb_info n) exc_arg)
                 else py_ret ())))))
       (upd_no_back self (\<lambda>n. n \<lparr> nb_last_exc_arg := None \<rparr>))"

definition get_no_back :: "nat \<Rightarrow> (world, no_back_frame) py" where
  "get_no_back self = py_bind (py_gets (\<lambda>w. w_tracers w self)) (\<lambda>obj.
     case obj of NoBackFrameObj n \<Rightarrow> py_ret n | _ \<Rightarrow> py_raise TypeError)"

definition trace_dispatch_and_unhandled_exceptions ::
  "services \<Rightarrow> (tracefun \<Rightarrow> (world, tracefun option) py) \<Rightarrow> nat \<Rightarrow> frame \<Rightarrow> string \<Rightarrow> trace_arg \<Rightarrow>
   (world, tracefun option) py" where
  "trace_dispatch_and_unhandled_exceptions sv run self frame event arg =
     py_bind (get_no_back self) (\<lambda>n0.
       py_then
         (case nb_frame_trace_dispatch n0 of
            None \<Rightarrow> py_ret ()
          | Some tf \<Rightarrow> py_bind (run tf) (\<lambda>tf'.
              upd_no_back self (\<lambda>n. n \<lparr> nb_frame_trace_dispatch := tf' \<rparr>)))
         (py_bind (get_no_back self) (\<lambda>n.
           py_then
             (if event = ''exception'' then nb_on_exception self frame arg
              else if event = ''return'' then
                (case nb_last_exc_arg n of
                   None \<Rightarrow> py_ret () | Some x \<Rightarrow> nb_on_return sv self n frame x)
              else py_ret ())
             (py_then (set_f_trace frame (Some (SafeCallWrapper (TraceNoBack self))))
               (py_ret (Some (TraceNoBack self)))))))"

section \<open>Calling a trace function\<close>

text \<open>
  \<^verbatim>\<open>SafeCallWrapper.__call__\<close> calls the wrapped function and wraps its result unless it is None. The
  functions a \<^verbatim>\<open>TopLevelThreadTracerNoBackFrame\<close> delegates to are never of that class themselves, so two levels
  are enough: \<open>call_frame_trace\<close> runs every other kind of trace function.
\<close>

fun call_frame_trace ::
  "services \<Rightarrow> frame \<Rightarrow> string \<Rightarrow> trace_arg \<Rightarrow> tracefun \<Rightarrow> (world, tracefun option) py" where
  "call_frame_trace sv frame event arg NO_FTRACE = py_then (set_f_trace frame None) (py_ret None)"
| "call_frame_trace sv frame event arg (TraceDispatch p) = trace_dispatch sv p frame event arg"
| "call_frame_trace sv frame event arg (TraceException p) = trace_exception sv p frame event arg"
| "call_frame_trace sv frame event arg (ThreadTracerCall k) =
     py_bind (py_gets (\<lambda>w. w_tracers w k)) (\<lambda>obj.
       case obj of
         ThreadTracerObj db t info \<Rightarrow> ThreadTracer_call sv t info frame event arg
       | _ \<Rightarrow> py_raise TypeError)"
| "call_frame_trace sv frame event arg (TraceUnhandled k) = trace_unhandled_exceptions sv k event arg"
| "call_frame_trace sv frame event arg (TraceNoBack k) = py_raise RuntimeError"
| "call_frame_trace sv frame event arg (SafeCallWrapper tf) =
     py_bind (call_frame_trace sv frame event arg tf) (\<lambda>ret. py_ret (map_option SafeCallWrapper ret))"

fun call_tracefun ::
  "services \<Rightarrow> frame \<Rightarrow> string \<Rightarrow> trace_arg \<Rightarrow> tracefun \<Rightarrow> (world, tracefun option) py" where
  "call_tracefun sv frame event arg (TraceNoBack k) =
     trace_dispatch_and_unhandled_exceptions sv (call_frame_trace sv frame event arg) k frame event arg"
| "call_tracefun sv frame event arg (SafeCallWrapper tf) =
     py_bind (call_tracefun sv frame event arg tf) (\<lambda>ret. py_ret (map_option SafeCallWrapper ret))"
| "call_tracefun sv frame event arg tf = call_frame_trace sv frame event arg tf"

section \<open>The first event of a thread\<close>

definition rfind :: "char \<Rightarrow> string \<Rightarrow> int" where
  "rfind c s = (if c \<in> set s then int (length s) - 1 - int (length (takeWhile (\<lambda>x. x \<noteq> c) (rev s))) else -1)"

text \<open>The name of a file without directories and without its last extension.\<close>

definition module_stem :: "string \<Rightarrow> string" where
  "module_stem filename =
     (let i = rfind CHR ''/'' filename; j = rfind (CHR 0x5C) filename; k = (if j > i then j else i);
          base = (if 0 \<le> k then drop (nat (k + 1)) filename else filename);
          d = rfind CHR ''.'' base
      in if 0 \<le> d then take (nat d) base else base)"

datatype top_search = TopReject | TopAt "frame option" "nat option" bool

text \<open>The loop over \<^verbatim>\<open>f_unhandled\<close>: the entry point of the thread, the thread found on the way, and whether only
  unhandled exceptions are traced there.\<close>

fun find_unhandled :: "services \<Rightarrow> bool \<Rightarrow> frame \<Rightarrow> top_search" where
  "find_unhandled sv force (Frame i c b) =
     (let f = Frame i c b; name = module_stem (co_filename c); fn = co_name c;
          continue = (\<lambda>force. case b of None \<Rightarrow> TopAt None None force
                                        | Some g \<Rightarrow> find_unhandled sv force g) in
      if name = ''threading'' then
        (if fn \<in> {''__bootstrap'', ''_bootstrap''} then TopReject
         else if fn \<in> {''__bootstrap_inner'', ''_bootstrap_inner''} then
           (case sv_bootstrap_self sv f of
              Some t \<Rightarrow> TopAt (Some f) (Some t) True
            | None \<Rightarrow> continue True)
         else continue force)
      else if name = ''pydev_monkey'' then
        (if fn = ''__call__'' then TopAt (Some f) None True else continue force)
      else if name = ''pydevd'' then
        (if fn \<in> {''run'', ''main''} then TopReject
         else if fn = ''_exec'' then TopAt (Some f) None True else continue force)
      else if name = ''pydevd_tracing'' then TopReject
      else (case b of None \<Rightarrow> TopAt (Some f) None force | Some g \<Rightarrow> find_unhandled sv force g))"

definition new_tracer :: "tracer_obj \<Rightarrow> (world, nat) py" where
  "new_tracer x = (\<lambda>w. (Inr (w_fresh w),
     w \<lparr> w_tracers := (w_tracers w)(w_fresh w := x), w_fresh := w_fresh w + 1 \<rparr>))"

definition thread_of_event :: "services \<Rightarrow> nat option \<Rightarrow> (world, nat option) py" where
  "thread_of_event sv found =
     (case found of
        Some t \<Rightarrow> py_ret (Some t)
      | None \<Rightarrow>
          (case sv_get_ident sv of
             Some n \<Rightarrow> py_gets (\<lambda>w. active (w_reg w) n)
           | None \<Rightarrow> py_ret (Some (sv_current_thread sv))))"

definition ensure_info :: "nat \<Rightarrow> (world, nat) py" where
  "ensure_info t = on_registry (\<lambda>r. case set_additional_thread_info t r of (i, r') \<Rightarrow> (Inr i, r'))"

text \<open>The tracer that is put on the entry point of the thread.\<close>

definition install_top_level ::
  "nat \<Rightarrow> nat \<Rightarrow> frame \<Rightarrow> bool \<Rightarrow> (world, tracefun) py" where
  "install_top_level t info f_unhandled force =
     py_bind (py_gets w_db_id) (\<lambda>db.
       py_bind
         (if f_back f_unhandled = None \<and> \<not> force then
            py_bind (new_tracer (ThreadTracerObj db t info)) (\<lambda>k.
              py_bind (new_tracer (NoBackFrameObj \<lparr> nb_frame_trace_dispatch = Some (ThreadTracerCall k),
                         nb_thread = t, nb_info = info, nb_try_except_infos = None,
                         nb_last_exc_arg = None, nb_raise_lines = [], nb_last_raise_line = -1 \<rparr>)) (\<lambda>n.
                py_then (set_info info (\<lambda>i. i \<lparr> top_level_thread_tracer_no_back_frames :=
                           top_level_thread_tracer_no_back_frames i @ [n] \<rparr>))
                  (py_ret (TraceNoBack n))))
          else
            py_bind (get_info info top_level_thread_tracer_unhandled) (\<lambda>existing.
              case existing of
                Some n \<Rightarrow> py_ret (TraceUnhandled n)
              | None \<Rightarrow>
                  py_bind (new_tracer (OnlyUnhandledObj db t info)) (\<lambda>n.
                    py_then (set_info info (\<lambda>i. i \<lparr> top_level_thread_tracer_unhandled := Some n \<rparr>))
                      (py_ret (TraceUnhandled n)))))
         (\<lambda>tf. py_then (set_f_trace f_unhandled (Some (SafeCallWrapper tf)))
                 (py_ret (SafeCallWrapper tf))))"

definition current_thread_tracer :: "nat \<Rightarrow> nat \<Rightarrow> (world, nat) py" where
  "current_thread_tracer t info =
     py_bind (py_gets id) (\<lambda>w.
       let fresh = py_bind (new_tracer (ThreadTracerObj (w_db_id w) t info)) (\<lambda>k.
             py_then (set_info info (\<lambda>i. i \<lparr> thread_tracer := Some k \<rparr>)) (py_ret k)) in
       case thread_tracer (infos (w_reg w) info) of
         None \<Rightarrow> fresh
       | Some k \<Rightarrow> (case w_tracers w k of
                       ThreadTracerObj db _ _ \<Rightarrow> if db \<noteq> w_db_id w then fresh else py_ret k
                     | _ \<Rightarrow> fresh))"

definition fix_top_level_trace_and_get_trace_func ::
  "services \<Rightarrow> frame \<Rightarrow> (world, tracefun option \<times> bool) py" where
  "fix_top_level_trace_and_get_trace_func sv frame =
     (case find_unhandled sv False frame of
        TopReject \<Rightarrow> py_ret (None, False)
      | TopAt f_unhandled found force \<Rightarrow>
          py_bind (thread_of_event sv found) (\<lambda>thread.
            case thread of
              None \<Rightarrow> py_ret (None, False)
            | Some t \<Rightarrow>
                py_bind (py_gets (\<lambda>w. t_do_not_trace (threads (w_reg w) t))) (\<lambda>dont.
                  if dont then
                    py_then (do_call CallDisableTracing (sv_disable_tracing sv)) (py_ret (None, False))
                  else
                    py_bind (ensure_info t) (\<lambda>info.
                      py_bind
                        (case f_unhandled of
                           None \<Rightarrow> py_ret None
                         | Some f \<Rightarrow> py_bind (install_top_level t info f force) (\<lambda>tf. py_ret (Some tf)))
                        (\<lambda>top.
                          if top \<noteq> None \<and> frame_is f_unhandled (Some frame) then py_ret (top, False)
                          else
                            py_bind (current_thread_tracer t info) (\<lambda>k.
                              py_ret (Some (SafeCallWrapper (ThreadTracerCall k)), True)))))))"

definition trace_dispatch_module ::
  "services \<Rightarrow> frame \<Rightarrow> string \<Rightarrow> trace_arg \<Rightarrow> (world, tracefun option) py" where
  "trace_dispatch_module sv frame event arg =
     py_bind (fix_top_level_trace_and_get_trace_func sv frame) (\<lambda>(thread_trace_func, apply_to_settrace).
       case thread_trace_func of
         None \<Rightarrow> py_ret (no_trace (event = ''call''))
       | Some tf \<Rightarrow>
           py_then
             (if apply_to_settrace then do_call CallEnableTracing (sv_enable_tracing sv tf) else py_ret ())
             (call_tracefun sv frame event arg tf))"

end
