(* ===== verification/DispatchProps.thy ===== *)
theory DispatchProps
  imports DispatchLemmas
begin

text \<open>
  The properties of \<open>trace_dispatch\<close>: the counter, skipped frames, breakpoints, the caches, the step
  commands, return values and the result of the function.
\<close>

section \<open>Running the function\<close>

lemmas td_simps = py_simps access_defs td_next_def td_return_def

lemma enter_tracing_fields [simp]:
  "w_dbg (enter_tracing i w) = w_dbg w" "w_lineno (enter_tracing i w) = w_lineno w"
  "w_lasti (enter_tracing i w) = w_lasti w" "w_pf (enter_tracing i w) = w_pf w"
  "w_frame_cache (enter_tracing i w) = w_frame_cache w" "w_line_cache (enter_tracing i w) = w_line_cache w"
  "w_calls (enter_tracing i w) = w_calls w" "w_locals (enter_tracing i w) = w_locals w"
  "w_returns_cache (enter_tracing i w) = w_returns_cache w"
  "infos (w_reg (enter_tracing i w)) =
     (infos (w_reg w))(i := (infos (w_reg w) i) \<lparr> is_tracing := is_tracing (infos (w_reg w) i) + 1 \<rparr>)"
  by (simp_all add: enter_tracing_def upd_info_def)

lemma leave_tracing_fields [simp]:
  "w_dbg (leave_tracing i w) = w_dbg w" "w_calls (leave_tracing i w) = w_calls w"
  "w_line_cache (leave_tracing i w) = w_line_cache w" "w_frame_cache (leave_tracing i w) = w_frame_cache w"
  "w_locals (leave_tracing i w) = w_locals w" "w_pf (leave_tracing i w) = w_pf w"
  by (simp_all add: leave_tracing_def)

lemma trace_dispatch_app:
  "trace_dispatch sv self frame event arg w =
     (case td_main sv self (w_pf w self) frame event arg (enter_tracing (pf_info (w_pf w self)) w) of
        (r, w') \<Rightarrow> (r, leave_tracing (pf_info (w_pf w self)) w'))"
  by (simp add: trace_dispatch_def td_simps split: prod.splits)

text \<open>The line of a frame as the function reads it: None counts as 0.\<close>

definition line_of :: "world \<Rightarrow> frame \<Rightarrow> int" where
  "line_of w frame = (case w_lineno w (f_id frame) of None \<Rightarrow> 0 | Some n \<Rightarrow> n)"

definition valid_line :: "world \<Rightarrow> frame \<Rightarrow> bool" where
  "valid_line w frame \<longleftrightarrow> INT_MIN \<le> line_of w frame \<and> line_of w frame \<le> INT_MAX"

lemma int_as_cint_line: "valid_line w frame \<Longrightarrow> int_as_cint (line_of w frame) = Inr (of_int (line_of w frame))"
  by (simp add: valid_line_def int_as_cint_def)

lemma sint_line [simp]: "valid_line w frame \<Longrightarrow> sint (of_int (line_of w frame) :: cint) = line_of w frame"
  by (simp add: valid_line_def sint_of_int_cint)

lemma valid_line_enter [simp]: "valid_line (enter_tracing i w) frame = valid_line w frame"
  "line_of (enter_tracing i w) frame = line_of w frame"
  by (simp_all add: valid_line_def line_of_def)

text \<open>The information object of the thread that a PyDBFrame traces.\<close>

abbreviation info_now :: "world \<Rightarrow> nat \<Rightarrow> thread_info" where
  "info_now w self \<equiv> infos (w_reg w) (pf_info (w_pf w self))"

abbreviation bps_now :: "world \<Rightarrow> nat \<Rightarrow> (int \<times> breakpoint) list option" where
  "bps_now w self \<equiv> breakpoints (w_dbg w) (fst (snd (pf_path (w_pf w self))))"

lemma td_main_run:
  assumes "valid_line w frame" and "\<not> pydb_disposed (w_dbg w)"
  shows "td_main sv self a frame event arg w =
    (let i = infos (w_reg w) (pf_info a); line = of_int (line_of w frame);
         has_exc = has_exception_breakpoints (w_dbg w);
         stop_frame = pydev_step_stop i; step_cmd = pydev_step_cmd i in
     py_body
       (py_flow (td_perceive sv self a has_exc frame event arg line stop_frame step_cmd) (\<lambda>ev.
         py_flow (td_filter sv self a has_exc ev line stop_frame step_cmd) (\<lambda>bps.
           py_flow (reporting (td_breakpoint sv self a ev event arg line stop_frame bps))
             (\<lambda>(stop, frame). td_next (ev, stop, frame)))))
       (\<lambda>(ev, stop, frame).
         reporting (td_step_block sv self a ev event arg frame stop_frame step_cmd stop)) w)"
  using int_as_cint_line [OF assms(1)] assms(2)
  by (simp add: td_main_def py_bind_app py_gets_app py_lift_app access_defs Let_def line_of_def)

text \<open>A line event, or a call that is no function breakpoint, is perceived as it is.\<close>

definition plain_event :: "world \<Rightarrow> frame \<Rightarrow> string \<Rightarrow> bool" where
  "plain_event w frame event \<longleftrightarrow> \<not> is_coroutine_or_generator (f_code frame) \<and>
     (event = ''line'' \<or>
      event = ''call'' \<and> function_breakpoint_name_to_breakpoint (w_dbg w) (co_name (f_code frame)) = None)"

lemma td_perceive_plain:
  assumes "plain_event w frame event"
  shows "td_perceive sv self a h frame event arg line sf cmd w = (Inr (Next (perceived_as event frame)), w)"
  using assms
  by (auto simp: plain_event_def td_perceive_def function_event_def td_simps perceived_as_def)

lemma td_can_skip_no_plugin:
  assumes "pydev_state (infos (w_reg w) i) = STATE_RUN"
    and "step_can_skip sv (pydev_use_scoped_step_frame (infos (w_reg w) i)) sf cmd frame"
    and "\<not> has_plugin (w_dbg w)" and "\<not> show_return_values (w_dbg w)"
  shows "td_can_skip sv i frame sf cmd w = (Inr True, w)"
  using assms by (simp add: td_can_skip_def td_simps)

definition bps_of :: "(string \<rightharpoonup> (int \<times> breakpoint) list) \<Rightarrow> pydbframe \<Rightarrow> (int \<times> breakpoint) list option" where
  "bps_of bpm a = bpm (fst (snd (pf_path a)))"

section \<open>Breakpoint blocks\<close>

lemma td_can_skip_pure:
  assumes "\<not> has_plugin (w_dbg w)"
  obtains c where "td_can_skip sv i frame sf cmd w = (Inr c, w)"
  using assms by (fastforce simp: td_can_skip_def td_simps split: if_splits)

lemma some_bp_line_in_spec:
  assumes "\<And>l. l \<in> set ls \<Longrightarrow> INT_MIN \<le> l \<and> l \<le> INT_MAX"
  shows "some_bp_line_in ls lines = Inr (\<exists>l. l \<in> set ls \<and> l \<in> set lines)"
  using assms
proof (induction ls)
  case (Cons l ls)
  then have "int_as_cint l = Inr (of_int l)" "sint (of_int l :: cint) = l"
    by (simp_all add: int_as_cint_def sint_of_int_cint)
  with Cons show ?case by auto
qed simp

text \<open>What the breakpoint caches may say about a code object with the breakpoints \<open>bps\<close> in its file.\<close>

definition caches_sound :: "services \<Rightarrow> code_key \<Rightarrow> code \<Rightarrow> (int \<times> breakpoint) list \<Rightarrow> world \<Rightarrow> bool" where
  "caches_sound sv key c bps w \<longleftrightarrow>
     (\<forall>v. frame_cache_cell key w = Some v \<longrightarrow> compute_has_breakpoint_in_frame sv c bps = Inr v) \<and>
     (\<forall>l. w_line_cache w (key, l) = Some 0 \<longrightarrow> map_of bps l = None)"

lemma caches_sound_enter [simp]:
  "caches_sound sv key c bps (enter_tracing i w) = caches_sound sv key c bps w"
  by (simp add: caches_sound_def frame_cache_cell_def)

lemma has_breakpoint_run:
  assumes "\<And>v. frame_cache_cell key w = Some v \<Longrightarrow> compute_has_breakpoint_in_frame sv (f_code frame) bps = Inr v"
    and "compute_has_breakpoint_in_frame sv (f_code frame) bps = Inr b"
  obtains fc where "has_breakpoint_in_frame sv key frame bps w = (Inr b, w \<lparr> w_frame_cache := fc \<rparr>)"
proof (cases "frame_cache_cell key w")
  case None
  then have "(case w_frame_cache w key of None \<Rightarrow> -1 | Some n \<Rightarrow> n) = -1"
    by (auto simp: frame_cache_cell_def split: option.splits if_splits)
  with assms(2) show ?thesis by (intro that) (simp add: has_breakpoint_in_frame_def)
next
  case (Some v)
  with assms have "v = b" by auto
  then have "has_breakpoint_in_frame sv key frame bps w = (Inr b, w \<lparr> w_frame_cache := w_frame_cache w \<rparr>)"
    using hasbp.hit [OF Some, of sv frame bps] by simp
  then show ?thesis by (rule that)
qed

text \<open>With sound caches a line that has a breakpoint is never filtered out.\<close>

lemma td_filter_line_breakpoint:
  assumes "bps_of (breakpoints (w_dbg w)) a = Some bps" and "map_of bps (sint line) = Some b"
    and "is_line ev" and "\<not> is_exception_event ev" and "\<not> has_plugin (w_dbg w)"
    and "caches_sound sv (pf_key a) (f_code (ev_frame ev)) bps w"
    and "compute_has_breakpoint_in_frame sv (f_code (ev_frame ev)) bps = Inr True"
  obtains fc where "td_filter sv self a has_exc ev line sf cmd w =
    (Inr (Next (Some bps)), w \<lparr> w_frame_cache := fc \<rparr>)"
proof -
  obtain c where skip: "td_can_skip sv (pf_info a) (ev_frame ev) sf cmd w = (Inr c, w)"
    using td_can_skip_pure [OF assms(5)] by metis
  obtain fc where has: "has_breakpoint_in_frame sv (pf_key a) (ev_frame ev) bps w
      = (Inr True, w \<lparr> w_frame_cache := fc \<rparr>)"
    using has_breakpoint_run [OF _ assms(7)] assms(6) by (metis caches_sound_def)
  have "w_line_cache w (pf_key a, sint line) \<noteq> Some 0"
    using assms(2,6) by (auto simp: caches_sound_def)
  moreover obtain x xs where bps: "bps = x # xs" using assms(2) by (cases bps) auto
  ultimately have "td_filter sv self a has_exc ev line sf cmd w =
      (Inr (Next (Some bps)), w \<lparr> w_frame_cache := fc \<rparr>) \<or>
      td_filter sv self a has_exc ev line sf cmd w =
      (Inr (Next (Some bps)), w \<lparr> w_frame_cache := w_frame_cache w \<rparr>)"
    using assms(1,4) skip has
    by (auto simp: td_filter_def td_filter_breakpoints_def bps_of_def td_simps Let_def)
  then show ?thesis using that by blast
qed

text \<open>What the suspending services do: they return, with the thread marked as suspended.\<close>

definition suspends :: "services \<Rightarrow> nat \<Rightarrow> nat \<Rightarrow> bool" where
  "suspends sv thread info \<longleftrightarrow>
     (\<forall>c p d w. \<exists>w'. sv_set_suspend sv thread c p d w = (Inr (), w') \<and>
        pydev_state (infos (w_reg w') info) = STATE_SUSPEND) \<and>
     (\<forall>f e a x. never_raises (sv_do_wait_suspend sv thread f e a x)) \<and> services_keep w_calls sv"

lemma suspends_set:
  assumes "suspends sv thread info"
  obtains w' where "set_suspend sv thread c p d w = (Inr (), w')"
    and "pydev_state (infos (w_reg w') info) = STATE_SUSPEND"
    and "w_calls w' = w_calls w @ [CallSetSuspend thread c p d]"
proof -
  let ?w = "w \<lparr> w_calls := w_calls w @ [CallSetSuspend thread c p d] \<rparr>"
  obtain w' where run: "sv_set_suspend sv thread c p d ?w = (Inr (), w')"
    and "pydev_state (infos (w_reg w') info) = STATE_SUSPEND"
    using assms unfolding suspends_def by blast
  moreover have "services_keep w_calls sv" using assms by (simp add: suspends_def)
  then have "w_calls w' = w_calls ?w" using keeps_run [OF services_keepD(1) run] by blast
  ultimately show ?thesis by (intro that) (simp_all add: set_suspend_def do_call_app)
qed

lemma suspends_wait:
  assumes "suspends sv thread info"
  obtains w' where "do_wait_suspend sv thread f e a w = (Inr (), w')"
    and "w_calls w' = w_calls w @ [CallWaitSuspend thread (f_id f) e]"
proof -
  let ?w = "w \<lparr> w_calls := w_calls w @ [CallWaitSuspend thread (f_id f) e] \<rparr>"
  have "never_raises (sv_do_wait_suspend sv thread f e a None)" "services_keep w_calls sv"
    using assms by (auto simp: suspends_def)
  then show ?thesis
    using that keeps_run [OF services_keepD(2), of w_calls sv thread f e a None ?w]
    by (cases "sv_do_wait_suspend sv thread f e a None ?w")
      (auto simp: do_wait_suspend_def do_call_app dest: never_raisesD)
qed

lemma reporting_ok: "m w = (Inr x, w') \<Longrightarrow> reporting m w = (Inr x, w')"
  by (simp add: reporting_def py_simps)

text \<open>The breakpoint block on a line with an unconditional breakpoint.\<close>

lemma td_breakpoint_plain_hit:
  assumes "pydev_state (infos (w_reg w) (pf_info a)) \<noteq> STATE_SUSPEND"
    and "\<not> remove_return_values_flag (w_dbg w)" and "map_of bps (sint line) = Some b"
    and "\<not> bp_has_condition b" "bp_expression b = None" "\<not> is_logpoint b"
    and susp: "suspends sv (pf_thread a) (pf_info a)"
  obtains w' where "reporting (td_breakpoint sv self a (perceived_as ''line'' frame) ''line'' arg line sf (Some bps)) w =
      (Inr (Return (Some (TraceDispatch self))), w')"
    and "w_calls w' = w_calls w @
      [CallSetSuspend (pf_thread a) CMD_SET_BREAK (suspend_policy b = ''ALL'') (-1),
       CallWaitSuspend (pf_thread a) (f_id frame) ''line'']"
proof -
  let ?ev = "perceived_as ''line'' frame"
  let ?h = "(no_hit frame) \<lparr> h_bp := Some b, h_stop := True \<rparr>"
  obtain w2 where w2: "set_suspend sv (pf_thread a) CMD_SET_BREAK (suspend_policy b = ''ALL'') (-1) w = (Inr (), w2)"
    "pydev_state (infos (w_reg w2) (pf_info a)) = STATE_SUSPEND"
    "w_calls w2 = w_calls w @ [CallSetSuspend (pf_thread a) CMD_SET_BREAK (suspend_policy b = ''ALL'') (-1)]"
    using suspends_set [OF susp] by metis
  obtain w3 where w3: "do_wait_suspend sv (pf_thread a) frame ''line'' arg w2 = (Inr (), w3)"
    "w_calls w3 = w_calls w2 @ [CallWaitSuspend (pf_thread a) (f_id frame) ''line'']"
    using suspends_wait [OF susp] by metis
  have "td_find_breakpoint sv (pf_info a) ?ev ''line'' line (Some bps) w = (Inr ?h, w)"
    using assms(1,3) by (simp add: td_find_breakpoint_def perceived_as_def td_simps Let_def)
  moreover have "td_on_hit sv self (pf_info a) ?ev line ?h w = (Inr (Next ?h), w)"
    using assms(4-6)
    by (simp add: td_on_hit_def td_check_condition_def td_logpoint_def perceived_as_def td_simps)
  moreover have "td_return_values sv (pf_info a) ?ev sf arg w = (Inr (), w)"
    using assms(2) by (simp add: td_return_values_def perceived_as_def td_simps)
  moreover have "td_suspend sv (pf_thread a) ?ev ?h w = (Inr frame, w2)"
    using w2(1) by (simp add: td_suspend_def perceived_as_def no_hit_def td_simps)
  moreover have "td_wait_or_cache sv self a ?ev ''line'' arg line ?h frame w2 =
      (Inr (Return (Some (TraceDispatch self))), w3)"
    using w2(2) w3(1) by (simp add: td_wait_or_cache_def td_simps)
  ultimately show ?thesis
    using w2(3) w3(2) by (intro that [of w3] reporting_ok) (simp_all add: td_breakpoint_def py_simps)
qed

section \<open>Hits that do not stop\<close>

definition is_suspension :: "call \<Rightarrow> bool" where
  "is_suspension c = (case c of CallSetSuspend t r p d \<Rightarrow> True | _ \<Rightarrow> False)"

text \<open>The suspensions asked for so far, and the state of the thread.\<close>

definition suspensions :: "nat \<Rightarrow> world \<Rightarrow> call list \<times> cint" where
  "suspensions i w = (filter is_suspension (w_calls w), pydev_state (infos (w_reg w) i))"

lemma suspensions_simps [simp]:
  "\<not> is_suspension c \<Longrightarrow> suspensions i (w \<lparr> w_calls := w_calls w @ [c] \<rparr>) = suspensions i w"
  "suspensions i (w \<lparr> w_locals := l \<rparr>) = suspensions i w"
  "suspensions i (w \<lparr> w_dbg := d \<rparr>) = suspensions i w"
  by (simp_all add: suspensions_def)

lemma is_suspension_simps [simp]:
  "\<not> is_suspension (CallCondition n)" "\<not> is_suspension (CallExpression n)"
  "\<not> is_suspension (OutIoMessage m)" "\<not> is_suspension LogException"
  "\<not> is_suspension (OutConsoleMessage e)"
  by (simp_all add: is_suspension_def)

lemma keeps_upd_locals:
  "(\<And>w l. f (w \<lparr> w_locals := l \<rparr>) = f w) \<Longrightarrow> keeps f (upd_locals fr g)"
  by (simp add: upd_locals_def keeps_modify)

lemma susp_return_values: "keeps (suspensions i) (td_return_values sv j ev sf arg)"
  unfolding td_return_values_def show_return_value_def get_func_name_def remove_return_values_def
  by (intro keeps_rules keeps_upd_locals; simp)

lemma safe_return_values: "never_raises (td_return_values sv j ev sf arg)"
proof -
  have "never_raises (upd_locals fr g)" for fr g by (simp add: upd_locals_def safe_modify)
  moreover have "never_raises (get_func_name sv fr)" for fr
    unfolding get_func_name_def emit_def Let_def
    by (cases "sv_get_clsname_for_code sv (f_code fr) fr") (auto intro!: safe_rules split: option.split)
  ultimately show ?thesis
    unfolding td_return_values_def show_return_value_def remove_return_values_def access_defs
    by (intro safe_rules) simp_all
qed

lemma td_on_hit_log_or_false:
  assumes "services_keep (suspensions i) sv" and "is_line ev" "\<not> is_call ev"
    and "h_bp h = Some b" "h_stop h \<or> h_plugin h"
    and "is_logpoint b \<or>
         bp_has_condition b \<and> outcomes Not (sv_handle_breakpoint_condition sv i b (h_frame h))"
  shows "keeps (suspensions i) (td_on_hit sv self i ev line h)"
    and "outcomes (\<lambda>x. \<exists>h'. x = Next h' \<and> h_bp h' = Some b \<and> \<not> h_stop h' \<and> \<not> h_plugin h')
           (td_on_hit sv self i ev line h)"
proof -
  show "keeps (suspensions i) (td_on_hit sv self i ev line h)"
    unfolding td_on_hit_def td_check_condition_def td_logpoint_def
    by (intro keeps_rules assms(1); simp)
  have check: "outcomes (\<lambda>h1. h_bp h1 = Some b \<and> (is_logpoint b \<or> \<not> h_stop h1 \<and> \<not> h_plugin h1))
      (td_check_condition sv i b h)"
    using assms(4-6) unfolding td_check_condition_def outcomes_def
    by (auto simp: py_simps do_call_app split: prod.splits sum.splits) (metis fst_conv)+
  have post: "outcomes (\<lambda>x. \<exists>h'. x = Next h' \<and> h_bp h' = Some b \<and> \<not> h_stop h' \<and> \<not> h_plugin h')
      (py_bind (td_logpoint i b h1) td_next)"
    if "h_bp h1 = Some b \<and> (is_logpoint b \<or> \<not> h_stop h1 \<and> \<not> h_plugin h1)" for h1
  proof (rule outcomes_bind_via)
    show "outcomes (\<lambda>h2. h_bp h2 = Some b \<and> \<not> h_stop h2 \<and> \<not> h_plugin h2) (td_logpoint i b h1)"
      using that unfolding td_logpoint_def by (auto intro!: outcome_rules)
  qed (auto simp: td_next_def intro!: outcome_rules)
  have "td_on_hit sv self i ev line h = py_then
      (if bp_expression b \<noteq> None
       then do_call (CallExpression (bp_id b)) (sv_handle_breakpoint_expression sv i b (h_frame h))
       else py_ret ())
      (py_bind (td_check_condition sv i b h) (\<lambda>h1. py_bind (td_logpoint i b h1) td_next))"
    using assms(3,4) by (simp add: td_on_hit_def)
  then show "outcomes (\<lambda>x. \<exists>h'. x = Next h' \<and> h_bp h' = Some b \<and> \<not> h_stop h' \<and> \<not> h_plugin h')
      (td_on_hit sv self i ev line h)"
    by (simp only:) (intro outcomes_then outcomes_bind_via [OF check] post)
qed

text \<open>After a hit that does not stop, the rest of the block leaves the thread running.\<close>

lemma td_after_hit:
  assumes "\<not> h_stop h" "\<not> h_plugin h" "h_bp h = Some b"
    and "pydev_state (infos (w_reg w) (pf_info a)) \<noteq> STATE_SUSPEND"
  obtains w' where "py_then (td_return_values sv (pf_info a) ev sf arg)
       (py_bind (td_suspend sv (pf_thread a) ev h) (\<lambda>frame.
          td_wait_or_cache sv self a ev event arg line h frame)) w = (Inr (Next (False, ev_frame ev)), w')"
    and "suspensions (pf_info a) w' = suspensions (pf_info a) w"
proof -
  obtain r w' where run: "td_return_values sv (pf_info a) ev sf arg w = (r, w')" by fastforce
  then have r: "r = Inr ()" using never_raisesD [OF safe_return_values] by fastforce
  have same: "suspensions (pf_info a) w' = suspensions (pf_info a) w"
    using keeps_run [OF susp_return_values run] .
  then have "pydev_state (infos (w_reg w') (pf_info a)) \<noteq> STATE_SUSPEND"
    using assms(4) by (simp add: suspensions_def)
  then show ?thesis
    using run r assms(1-3) by (intro that [OF _ same]) (simp add: td_suspend_def td_wait_or_cache_def td_simps)
qed

lemma td_breakpoint_log_or_false:
  fixes sf :: "frame option" and arg :: trace_arg and self :: nat
  assumes k: "services_keep (suspensions (pf_info a)) sv"
    and st: "pydev_state (infos (w_reg w) (pf_info a)) \<noteq> STATE_SUSPEND"
    and b: "map_of bps (sint line) = Some b"
    and lf: "is_logpoint b \<or>
         bp_has_condition b \<and> outcomes Not (sv_handle_breakpoint_condition sv (pf_info a) b frame)"
  defines "m \<equiv> td_breakpoint sv self a (perceived_as ''line'' frame) ''line'' arg line sf (Some bps)"
  shows "suspensions (pf_info a) (snd (m w)) = suspensions (pf_info a) w \<and>
    (\<forall>r. fst (m w) = Inr r \<longrightarrow> r = Next (False, frame))"
proof -
  let ?ev = "perceived_as ''line'' frame" and ?i = "pf_info a"
  let ?h = "(no_hit frame) \<lparr> h_bp := Some b, h_stop := True \<rparr>"
  have find: "td_find_breakpoint sv ?i ?ev ''line'' line (Some bps) w = (Inr ?h, w)"
    using st b by (simp add: td_find_breakpoint_def perceived_as_def td_simps Let_def)
  note hit = td_on_hit_log_or_false [OF k, of ?ev ?h b self line]
  have keep: "keeps (suspensions ?i) (td_on_hit sv self ?i ?ev line ?h)"
    and out: "outcomes (\<lambda>x. \<exists>h'. x = Next h' \<and> h_bp h' = Some b \<and> \<not> h_stop h' \<and> \<not> h_plugin h')
      (td_on_hit sv self ?i ?ev line ?h)"
    by (rule hit; use lf in \<open>simp add: perceived_as_def no_hit_def\<close>)+
  obtain r1 w1 where run: "td_on_hit sv self ?i ?ev line ?h w = (r1, w1)" by fastforce
  have same: "suspensions ?i w1 = suspensions ?i w" using keeps_run [OF keep run] .
  show ?thesis
  proof (cases r1)
    case (Inl e)
    then show ?thesis using find run same by (simp add: m_def td_breakpoint_def py_simps)
  next
    case (Inr x)
    then obtain h' where h': "x = Next h'" "h_bp h' = Some b" "\<not> h_stop h'" "\<not> h_plugin h'"
      using outcomesD [OF out] run by blast
    have "pydev_state (infos (w_reg w1) ?i) \<noteq> STATE_SUSPEND"
      using same st by (simp add: suspensions_def)
    then show ?thesis
      using td_after_hit [OF h'(3,4,2), of w1 a sv ?ev sf arg self "''line''" line] find run Inr h'(1) same
      by (fastforce simp: m_def td_breakpoint_def py_bind_app py_flow_app perceived_as_def)
  qed
qed

lemma stopping_suspends: "suspends stopping_services (Suc 0) 0"
proof -
  have "services_keep w_calls stopping_services" by (rule services_keep_stopping) simp
  then show ?thesis
    by (simp add: suspends_def) (simp add: stopping_services_def quiet_services_def set_info_def
        upd_info_def safe_ret)
qed

section \<open>Properties\<close>

text \<open>C4. \<^verbatim>\<open>trace_dispatch\<close> leaves \<^verbatim>\<open>info.is_tracing\<close> of every thread as it found it, on every path and also when it
  raises, provided the services do.\<close>

theorem trace_dispatch_balanced:
  assumes "services_keep (tracing_depth i) sv"
  shows "tracing_depth i (snd (trace_dispatch sv self frame event arg w)) = tracing_depth i w"
  using keepsD [OF depth_trace_dispatch [OF assms]] .

theorem trace_dispatch_balanced_witness:
  "tracing_depth 0 (snd (trace_dispatch plain_services 0 f_frame ''line'' ArgNone demo_world)) = 0"
  by (subst trace_dispatch_balanced) (simp_all add: tracing_depth_def)

text \<open>After the debugger is disposed \<^verbatim>\<open>trace_dispatch\<close> only switches tracing off for the frame (None for a
  call, NO_FTRACE otherwise) and changes nothing.\<close>

lemma disposed_switches_off:
  assumes "pydb_disposed (w_dbg w)" and "valid_line w frame"
  shows "trace_dispatch sv self frame event arg w = (Inr (no_trace (event = ''call'')), w)"
  using assms(1) int_as_cint_line [OF assms(2)]
  by (simp add: trace_dispatch_app td_main_def td_simps line_of_def)

text \<open>C31. A line event, or a call event that is no function breakpoint, in a frame that is neither a coroutine
  nor a generator and that the step command lets the tracer skip, has no effect when there is no plugin, the
  return values are not shown and the file has no breakpoints (no entry, or an empty one after the last was
  removed): the world is unchanged, and the frame is traced further only for exceptions, if there are
  exception breakpoints. Return and exception events are not covered: they update the step state and the
  collected exception, see the properties on step return and on exceptions.\<close>

theorem skipped_frame_untouched:
  assumes "valid_line w frame" and "\<not> pydb_disposed (w_dbg w)" and "plain_event w frame event"
    and "pydev_state (info_now w self) = STATE_RUN"
    and "step_can_skip sv (pydev_use_scoped_step_frame (info_now w self))
           (pydev_step_stop (info_now w self)) (pydev_step_cmd (info_now w self)) frame"
    and "\<not> has_plugin (w_dbg w)" and "\<not> show_return_values (w_dbg w)" and "bps_now w self \<in> {None, Some []}"
  shows "trace_dispatch sv self frame event arg w =
    (Inr (untraced (has_exception_breakpoints (w_dbg w)) self (event = ''call'')), w)"
proof -
  let ?i = "pf_info (w_pf w self)" and ?w = "enter_tracing (pf_info (w_pf w self)) w"
  have ev: "plain_event ?w frame event" using assms(3) by (simp add: plain_event_def)
  have skip: "td_can_skip sv ?i frame (pydev_step_stop (info_now w self))
      (pydev_step_cmd (info_now w self)) ?w = (Inr True, ?w)"
    by (rule td_can_skip_no_plugin) (use assms in simp_all)
  have "event \<noteq> ''exception''" using assms(3) by (auto simp: plain_event_def)
  then show ?thesis
    using assms(1,2,8) skip
    by (auto simp: trace_dispatch_app td_main_run td_perceive_plain [OF ev] td_filter_def
        td_filter_breakpoints_def perceived_as_def td_simps Let_def)
qed

theorem skipped_frame_untouched_witness:
  "trace_dispatch plain_services 0 f_frame ''line'' ArgNone demo_world = (Inr (Some NO_FTRACE), demo_world)"
  by (subst skipped_frame_untouched)
    (simp_all add: valid_line_def line_of_def INT_MIN_def INT_MAX_def plain_event_def step_can_skip_def
      untraced_def no_trace_def has_exception_breakpoints_def)

text \<open>C1. A line event on a line with an unconditional breakpoint suspends the thread there: the tracer asks
  for the suspension with \<^verbatim>\<open>CMD_SET_BREAK\<close> and the breakpoint's policy, waits in this frame, and keeps
  tracing it. Neither the step command nor the caches can make it miss the line, as long as the caches are
  sound.\<close>

theorem breakpoint_suspends:
  assumes "valid_line w frame" and "\<not> pydb_disposed (w_dbg w)"
    and "\<not> is_coroutine_or_generator (f_code frame)"
    and "pydev_state (info_now w self) \<noteq> STATE_SUSPEND" and "\<not> has_plugin (w_dbg w)"
    and "\<not> remove_return_values_flag (w_dbg w)"
    and "bps_now w self = Some bps" and "map_of bps (line_of w frame) = Some b"
    and "\<not> bp_has_condition b" and "bp_expression b = None" and "\<not> is_logpoint b"
    and "caches_sound sv (pf_key (w_pf w self)) (f_code frame) bps w"
    and "compute_has_breakpoint_in_frame sv (f_code frame) bps = Inr True"
    and "suspends sv (pf_thread (w_pf w self)) (pf_info (w_pf w self))"
  shows "fst (trace_dispatch sv self frame ''line'' arg w) = Inr (Some (TraceDispatch self)) \<and>
    w_calls (snd (trace_dispatch sv self frame ''line'' arg w)) = w_calls w @
      [CallSetSuspend (pf_thread (w_pf w self)) CMD_SET_BREAK (suspend_policy b = ''ALL'') (-1),
       CallWaitSuspend (pf_thread (w_pf w self)) (f_id frame) ''line'']"
proof -
  let ?a = "w_pf w self" and ?w = "enter_tracing (pf_info (w_pf w self)) w"
  let ?i = "info_now w self" and ?line = "of_int (line_of w frame) :: cint"
  obtain fc where filter: "td_filter sv self ?a (has_exception_breakpoints (w_dbg w))
      (perceived_as ''line'' frame) ?line (pydev_step_stop ?i) (pydev_step_cmd ?i) ?w =
      (Inr (Next (Some bps)), ?w \<lparr> w_frame_cache := fc \<rparr>)"
    by (rule td_filter_line_breakpoint [of ?w ?a bps ?line b "perceived_as ''line'' frame" sv])
      (use assms in \<open>simp_all add: bps_of_def perceived_as_def\<close>)
  obtain w' where bp: "reporting (td_breakpoint sv self ?a (perceived_as ''line'' frame) ''line'' arg
      ?line (pydev_step_stop ?i) (Some bps)) (?w \<lparr> w_frame_cache := fc \<rparr>) =
      (Inr (Return (Some (TraceDispatch self))), w')"
    and calls: "w_calls w' = w_calls w @
      [CallSetSuspend (pf_thread ?a) CMD_SET_BREAK (suspend_policy b = ''ALL'') (-1),
       CallWaitSuspend (pf_thread ?a) (f_id frame) ''line'']"
    by (rule td_breakpoint_plain_hit [of "?w \<lparr> w_frame_cache := fc \<rparr>" ?a bps ?line b sv])
      (use assms in simp_all)
  have ev: "plain_event ?w frame ''line''" using assms(3) by (simp add: plain_event_def)
  have "td_main sv self ?a frame ''line'' arg ?w = (Inr (Some (TraceDispatch self)), w')"
    using assms(1,2) filter bp
    by (simp add: td_main_run td_perceive_plain [OF ev] py_body_app py_flow_app Let_def)
  then show ?thesis using calls by (simp add: trace_dispatch_app)
qed

theorem breakpoint_suspends_witness:
  "w_calls (snd (trace_dispatch stopping_services 0 f_frame ''line'' ArgNone
     (with_db (\<lambda>d. d \<lparr> breakpoints := [''a.py'' \<mapsto> [(2, demo_breakpoint)]] \<rparr>) demo_world))) =
   [CallSetSuspend 1 CMD_SET_BREAK False (-1), CallWaitSuspend 1 1 ''line'']"
proof -
  let ?w = "with_db (\<lambda>d. d \<lparr> breakpoints := [''a.py'' \<mapsto> [(2, demo_breakpoint)]] \<rparr>) demo_world"
  have "w_calls (snd (trace_dispatch stopping_services 0 f_frame ''line'' ArgNone ?w)) = w_calls ?w @
      [CallSetSuspend (pf_thread (w_pf ?w 0)) CMD_SET_BREAK (suspend_policy demo_breakpoint = ''ALL'') (-1),
       CallWaitSuspend (pf_thread (w_pf ?w 0)) (f_id f_frame) ''line'']"
    by (rule breakpoint_suspends [where bps = "[(2, demo_breakpoint)]", THEN conjunct2])
      (simp_all add: scenario_defs valid_line_def line_of_def INT_MIN_def INT_MAX_def caches_sound_def
        frame_cache_cell_def compute_has_breakpoint_in_frame_def int_as_cint_def stopping_suspends stopping_fields)
  then show ?thesis by (simp add: scenario_defs)
qed

text \<open>A logpoint never suspends: when the line's breakpoint is a logpoint, the breakpoint block asks for
  no suspension, leaves the thread's state alone and, if it returns, goes on without a stop.\<close>

lemma logpoint_never_suspends:
  assumes "services_keep (suspensions (pf_info a)) sv"
    and "pydev_state (infos (w_reg w) (pf_info a)) \<noteq> STATE_SUSPEND"
    and "map_of bps (sint line) = Some b" and "is_logpoint b"
  shows "suspensions (pf_info a) (snd (td_breakpoint sv self a (perceived_as ''line'' frame) ''line'' arg
           line sf (Some bps) w)) = suspensions (pf_info a) w \<and>
         (\<forall>r. fst (td_breakpoint sv self a (perceived_as ''line'' frame) ''line'' arg line sf (Some bps) w)
           = Inr r \<longrightarrow> r = Next (False, frame))"
  using td_breakpoint_log_or_false [OF assms(1-3)] assms(4) by simp

text \<open>A conditional breakpoint whose condition does not hold never suspends the thread.\<close>

lemma false_condition_never_suspends:
  assumes "services_keep (suspensions (pf_info a)) sv"
    and "pydev_state (infos (w_reg w) (pf_info a)) \<noteq> STATE_SUSPEND"
    and "map_of bps (sint line) = Some b" and "bp_has_condition b"
    and "outcomes Not (sv_handle_breakpoint_condition sv (pf_info a) b frame)"
  shows "suspensions (pf_info a) (snd (td_breakpoint sv self a (perceived_as ''line'' frame) ''line'' arg
           line sf (Some bps) w)) = suspensions (pf_info a) w \<and>
         (\<forall>r. fst (td_breakpoint sv self a (perceived_as ''line'' frame) ''line'' arg line sf (Some bps) w)
           = Inr r \<longrightarrow> r = Next (False, frame))"
  using td_breakpoint_log_or_false [OF assms(1-3)] assms(4,5) by simp

end
