(* ===== verification/StepProps.thy ===== *)
theory StepProps
  imports DispatchProps
begin

text \<open>
  Further properties of \<open>trace_dispatch\<close>: its result, the cache of lines without breakpoints, the step
  commands and the values shown on return.
\<close>

section \<open>The result of the function\<close>

definition perceives :: "string \<Rightarrow> perceived \<Rightarrow> bool" where
  "perceives event ev \<longleftrightarrow> is_line ev = (event = ''line'') \<and> is_call ev = (event = ''call'') \<and>
     is_return ev = (event = ''return'') \<and> is_exception_event ev = (event = ''exception'')"

text \<open>None only for a call, NO_FTRACE only otherwise, or one of the two trace methods of the PyDBFrame.\<close>

definition result_ok :: "nat \<Rightarrow> string \<Rightarrow> tracefun option \<Rightarrow> bool" where
  "result_ok self event r \<longleftrightarrow> (case r of
     None \<Rightarrow> event = ''call''
   | Some tf \<Rightarrow> tf = NO_FTRACE \<and> event \<noteq> ''call'' \<or> tf = TraceDispatch self \<or> tf = TraceException self)"

lemma result_ok_simps [simp]:
  "result_ok self event (Some (TraceDispatch self))" "result_ok self event (Some (TraceException self))"
  "result_ok self event (no_trace (event = ''call''))"
  "perceives event ev \<Longrightarrow> result_ok self event (no_trace (is_call ev))"
  "perceives event ev \<Longrightarrow> result_ok self event (untraced h self (is_call ev))"
  by (auto simp: result_ok_def no_trace_def untraced_def perceives_def)

lemma perceives_as [simp]:
  "perceives event (perceived_as event fr)"
  "perceives event ((perceived_as event fr) \<lparr> on_call_bp := m \<rparr>)"
  by (simp_all add: perceives_def perceived_as_def)

lemma outcomes_td [outcome_rules]:
  "Q r \<Longrightarrow> outcomes (flow_ok Q R) (td_return r)" "R y \<Longrightarrow> outcomes (flow_ok Q R) (td_next y)"
  by (simp_all add: td_return_def td_next_def outcomes_ret)

lemma outcomes_reporting [outcome_rules]: "outcomes P m \<Longrightarrow> outcomes P (reporting m)"
  unfolding reporting_def by (intro outcome_rules)

lemma result_td_perceive:
  "outcomes (flow_ok (result_ok self event) (perceives event))
     (td_perceive sv self a h fr event arg line sf cmd)"
  unfolding td_perceive_def coroutine_event_def function_event_def
  by (intro outcome_rules; simp)

lemma result_td_filter:
  "perceives event ev \<Longrightarrow> outcomes (flow_ok (result_ok self event) (\<lambda>_. True))
     (td_filter sv self a h ev line sf cmd)"
  unfolding td_filter_def td_filter_breakpoints_def
  by (intro outcome_rules outcomes_flow_via [where R = "\<lambda>_. True"]; simp)

lemma result_td_breakpoint:
  "outcomes (flow_ok (result_ok self event) (\<lambda>_. True)) (td_breakpoint sv self a ev event arg line sf bps)"
  unfolding td_breakpoint_def td_on_hit_def td_wait_or_cache_def
  by (intro outcome_rules outcomes_flow_via [where R = "\<lambda>_. True"]; simp)

lemma result_td_step:
  "perceives event ev \<Longrightarrow> outcomes (flow_ok (result_ok self event) (\<lambda>_. True))
     (td_step sv self a ev event fr sf cmd stop)"
  unfolding td_step_def td_step_into_def td_step_over_def td_smart_step_def
  by (intro outcome_rules; simp)

lemma result_td_stop:
  "perceives event ev \<Longrightarrow> outcomes (flow_ok (result_ok self event) (\<lambda>_. True))
     (td_stop sv a ev event arg fr cmd stop)"
  unfolding td_stop_def td_stop_back_def
  by (intro outcome_rules outcomes_flow_via [where R = "\<lambda>_. True"]; simp)

lemma result_td_step_block:
  "perceives event ev \<Longrightarrow> outcomes (result_ok self event) (td_step_block sv self a ev event arg fr sf cmd stop)"
  unfolding td_step_block_def
  by (intro outcome_rules outcomes_body_via [where R = "\<lambda>_. True"] outcomes_flow_via [where R = "\<lambda>_. True"]
      result_td_step result_td_stop; simp)

lemma result_td_main: "outcomes (result_ok self event) (td_main sv self a fr event arg)"
proof -
  have flow: "outcomes (flow_ok (result_ok self event) (\<lambda>(ev, _). perceives event ev))
     (py_flow (td_perceive sv self a h fr event arg line sf cmd) (\<lambda>ev.
        py_flow (td_filter sv self a h ev line sf cmd) (\<lambda>bps.
          py_flow (reporting (td_breakpoint sv self a ev event arg line sf bps))
            (\<lambda>(stop, frame). td_next (ev, stop, frame)))))" for h line sf cmd
    by (intro outcomes_flow_via [OF result_td_perceive] outcomes_flow_via [OF result_td_filter]
        outcomes_flow_via [where R = "\<lambda>_. True"] outcomes_reporting result_td_breakpoint outcome_rules; simp)
  show ?thesis
    unfolding td_main_def Let_def
    by (intro outcomes_bind outcomes_if outcomes_ret outcomes_body_via [OF flow])
      (auto intro!: outcome_rules result_td_step_block)
qed

text \<open>C11. When \<^verbatim>\<open>trace_dispatch\<close> returns, the result is None (only for a call event), NO_FTRACE (only for another
  event), or the method \<^verbatim>\<open>trace_dispatch\<close> or \<^verbatim>\<open>trace_exception\<close> of the same PyDBFrame.\<close>

theorem trace_dispatch_result:
  assumes "fst (trace_dispatch sv self frame event arg w) = Inr r"
  shows "r = None \<and> event = ''call'' \<or> r = Some NO_FTRACE \<and> event \<noteq> ''call'' \<or>
         r = Some (TraceDispatch self) \<or> r = Some (TraceException self)"
proof -
  have "result_ok self event r"
    using result_td_main assms unfolding outcomes_def
    by (auto simp: trace_dispatch_app split: prod.splits) (metis fst_conv)
  then show ?thesis by (auto simp: result_ok_def split: option.splits)
qed

theorem trace_dispatch_result_witness:
  "\<exists>r. fst (trace_dispatch plain_services 0 f_frame ''c_call'' ArgNone demo_world) = Inr r \<and>
     r \<noteq> None"
proof -
  have run: "fst (trace_dispatch plain_services 0 f_frame ''c_call'' ArgNone demo_world) =
      Inr (Some (TraceDispatch 0))"
    by (simp add: trace_dispatch_app td_main_def td_perceive_def function_event_def td_simps
        int_as_cint_def INT_MIN_def INT_MAX_def Let_def)
  from trace_dispatch_result [OF run] run show ?thesis by auto
qed

section \<open>The cache of lines without breakpoints\<close>

definition bp_view :: "world \<Rightarrow> (code_key \<times> int \<rightharpoonup> int) \<times> (string \<rightharpoonup> (int \<times> breakpoint) list) \<times> bool" where
  "bp_view w = (w_line_cache w, breakpoints (w_dbg w), has_plugin (w_dbg w))"

interpretation view: observation bp_view
  by unfold_locales (simp_all add: bp_view_def)

text \<open>A cached line has no breakpoint.\<close>

definition line_cache_sound :: "code_key \<Rightarrow> string \<Rightarrow> world \<Rightarrow> bool" where
  "line_cache_sound key path w \<longleftrightarrow> (\<forall>l. w_line_cache w (key, l) = Some 0 \<longrightarrow>
     Option.bind (breakpoints (w_dbg w) path) (\<lambda>m. map_of m l) = None)"

lemma line_cache_sound_view:
  "bp_view w' = bp_view w \<Longrightarrow> line_cache_sound key path w \<Longrightarrow> line_cache_sound key path w'"
  by (simp add: bp_view_def line_cache_sound_def)

text \<open>Without a plugin a missing hit means that the line was looked up and has no breakpoint, or that the thread
  is suspended.\<close>

lemma td_find_breakpoint_none:
  assumes "\<not> has_plugin (w_dbg w)" and "td_find_breakpoint sv i ev event line bps w = (r, w')"
  shows "w' = w \<and> (\<exists>h. r = Inr h \<and> (h_bp h = None \<longrightarrow> h = no_hit (ev_frame ev) \<and>
    (is_line ev \<longrightarrow> pydev_state (infos (w_reg w) i) = STATE_SUSPEND \<or>
       Option.bind bps (\<lambda>m. map_of m (sint line)) = None)))"
proof (cases "on_call_bp ev")
  case (Some b)
  with assms(2) show ?thesis by (auto simp: td_find_breakpoint_def py_simps)
next
  case None
  let ?found = "if is_line ev \<and> pydev_state (infos (w_reg w) i) \<noteq> STATE_SUSPEND
    then Option.bind bps (\<lambda>m. map_of m (sint line)) else None"
  show ?thesis
  proof (cases ?found)
    case None
    with \<open>on_call_bp ev = None\<close> assms have "r = Inr (no_hit (ev_frame ev))" "w' = w"
      by (simp_all add: td_find_breakpoint_def py_bind_app access_defs Let_def)
    with None show ?thesis by (simp split: if_splits)
  next
    case (Some b)
    with \<open>on_call_bp ev = None\<close> assms(2) show ?thesis
      by (auto simp: td_find_breakpoint_def py_bind_app access_defs Let_def)
  qed
qed

lemma td_on_hit_keeps_bp:
  assumes "h_bp h = Some b"
  shows "outcomes (flow_ok (\<lambda>_. True) (\<lambda>h'. h_bp h' = Some b)) (td_on_hit sv self i ev line h)"
proof -
  have check: "outcomes (\<lambda>h1. h_bp h1 = Some b) (td_check_condition sv i b h)"
    unfolding td_check_condition_def using assms by (auto intro!: outcome_rules)
  have log: "outcomes (\<lambda>h2. h_bp h2 = Some b) (td_logpoint i b h1)" if "h_bp h1 = Some b" for h1
    unfolding td_logpoint_def using that by (auto intro!: outcome_rules)
  show ?thesis
    unfolding td_on_hit_def assms option.case
    by (intro outcomes_then outcomes_bind_via [OF check] outcomes_if outcomes_td(1)
        outcomes_bind_via [OF log] outcomes_td(2); simp)
qed

lemma td_wait_or_cache_hit:
  "services_keep bp_view sv \<Longrightarrow> h_bp h = Some b \<Longrightarrow>
   keeps bp_view (td_wait_or_cache sv self a ev event arg line h fr)"
  unfolding td_wait_or_cache_def by (intro view.obs_rules view.obs_do_wait_suspend; simp)

lemma td_return_values_state:
  "keeps (\<lambda>w. pydev_state (infos (w_reg w) i)) (td_return_values sv j ev sf arg)"
  using susp_return_values [of i] by (simp add: keeps_def suspensions_def)

text \<open>The block after a hit does not touch the cache.\<close>

lemma td_breakpoint_hit_view:
  assumes k: "services_keep bp_view sv" and hb: "h_bp h = Some b"
    and find: "td_find_breakpoint sv (pf_info a) ev event line bps w = (Inr h, w)"
  shows "bp_view (snd (td_breakpoint sv self a ev event arg line sf bps w)) = bp_view w"
proof -
  obtain r1 w1 where hit: "td_on_hit sv self (pf_info a) ev line h w = (r1, w1)" by fastforce
  have v1: "bp_view w1 = bp_view w" using keeps_run [OF view.obs_td_hit(2) [OF k] hit] .
  have rest: "keeps bp_view (py_then (td_return_values sv (pf_info a) ev sf arg)
      (py_bind (td_suspend sv (pf_thread a) ev h') (\<lambda>fr. td_wait_or_cache sv self a ev event arg line h' fr)))"
    if "h_bp h' = Some b" for h'
    by (intro keeps_then keeps_bind view.obs_td_return_values view.obs_td_hit(3) [OF k]
        td_wait_or_cache_hit [OF k that])
  show ?thesis
  proof (cases "\<exists>h'. r1 = Inr (Next h')")
    case True
    then obtain h' where h': "r1 = Inr (Next h')" by blast
    then have "h_bp h' = Some b"
      using outcomesD [OF td_on_hit_keeps_bp [OF hb]] hit by fastforce
    from keepsD [OF rest [OF this], of w1] show ?thesis
      using find hit h' v1 by (simp add: td_breakpoint_def py_bind_app py_flow_app)
  next
    case False
    then have "snd (td_breakpoint sv self a ev event arg line sf bps w) = w1"
      using find hit by (auto simp: td_breakpoint_def py_bind_app py_flow_app split: sum.split flow.split)
    then show ?thesis using v1 by simp
  qed
qed

text \<open>Without a hit it runs the end of the block in a state that differs only in the return values.\<close>

lemma td_breakpoint_miss:
  assumes "td_find_breakpoint sv (pf_info a) ev event line bps w = (Inr (no_hit (ev_frame ev)), w)"
  obtains w2 where "td_breakpoint sv self a ev event arg line sf bps w =
      td_wait_or_cache sv self a ev event arg line (no_hit (ev_frame ev)) (ev_frame ev) w2"
    and "bp_view w2 = bp_view w"
    and "pydev_state (infos (w_reg w2) (pf_info a)) = pydev_state (infos (w_reg w) (pf_info a))"
proof -
  obtain r2 w2 where ret: "td_return_values sv (pf_info a) ev sf arg w = (r2, w2)" by fastforce
  have "r2 = Inr ()" using never_raisesD [OF safe_return_values ret] by auto
  then have "td_breakpoint sv self a ev event arg line sf bps w =
      td_wait_or_cache sv self a ev event arg line (no_hit (ev_frame ev)) (ev_frame ev) w2"
    using assms ret by (simp add: td_breakpoint_def td_on_hit_def td_suspend_def no_hit_def td_simps)
  then show ?thesis
    using that keeps_run [OF view.obs_td_return_values ret] keeps_run [OF td_return_values_state ret] by blast
qed

lemma td_breakpoint_line_cache:
  assumes k: "services_keep bp_view sv" and np: "\<not> has_plugin (w_dbg w)"
    and bps: "is_line ev \<Longrightarrow> bps = breakpoints (w_dbg w) path"
    and sound: "line_cache_sound (pf_key a) path w"
  shows "line_cache_sound (pf_key a) path (snd (td_breakpoint sv self a ev event arg line sf bps w))"
proof -
  let ?st = "\<lambda>w. pydev_state (infos (w_reg w) (pf_info a))"
  let ?bp = "Option.bind bps (\<lambda>m. map_of m (sint line))"
  obtain h where find: "td_find_breakpoint sv (pf_info a) ev event line bps w = (Inr h, w)"
    and none: "h_bp h = None \<Longrightarrow> h = no_hit (ev_frame ev) \<and> (is_line ev \<longrightarrow> ?st w = STATE_SUSPEND \<or> ?bp = None)"
    using td_find_breakpoint_none [OF np] by (metis surj_pair)
  show ?thesis
  proof (cases "h_bp h")
    case (Some b)
    show ?thesis using td_breakpoint_hit_view [OF k Some find] sound by (rule line_cache_sound_view)
  next
    case None
    with find none have find': "td_find_breakpoint sv (pf_info a) ev event line bps w = (Inr (no_hit (ev_frame ev)), w)"
      by simp
    obtain w2 where block: "td_breakpoint sv self a ev event arg line sf bps w =
        td_wait_or_cache sv self a ev event arg line (no_hit (ev_frame ev)) (ev_frame ev) w2"
      and v2: "bp_view w2 = bp_view w" and s2: "?st w2 = ?st w"
      using td_breakpoint_miss [OF find'] by metis
    have s: "line_cache_sound (pf_key a) path w2" using v2 sound by (rule line_cache_sound_view)
    show ?thesis
    proof (cases "?st w = STATE_SUSPEND")
      case True
      then have "snd (td_wait_or_cache sv self a ev event arg line (no_hit (ev_frame ev)) (ev_frame ev) w2) =
          snd (do_wait_suspend sv (pf_thread a) (ev_frame ev) event arg w2)"
        using s2 by (auto simp: td_wait_or_cache_def td_simps split: prod.splits sum.splits)
      then show ?thesis
        unfolding block using keepsD [OF view.obs_do_wait_suspend [OF k]] s by (metis line_cache_sound_view)
    next
      case False
      have "is_line ev \<Longrightarrow> Option.bind (breakpoints (w_dbg w2) path) (\<lambda>m. map_of m (sint line)) = None"
        using none [OF None] False bps v2 by (simp add: bp_view_def)
      then show ?thesis
        unfolding block using False s2 s
        by (auto simp: td_wait_or_cache_def td_simps no_hit_def line_cache_sound_def)
    qed
  qed
qed

lemma td_filter_breakpoints_of:
  assumes run: "td_filter sv self a h ev line sf cmd w = (Inr (Next bps), w')" and "\<not> is_exception_event ev"
  shows "bps = breakpoints (w_dbg w) (fst (snd (pf_path a)))"
proof -
  let ?bps = "breakpoints (w_dbg w) (fst (snd (pf_path a)))"
  obtain rc wc where skip: "td_can_skip sv (pf_info a) (ev_frame ev) sf cmd w = (rc, wc)" by fastforce
  then obtain c where c: "rc = Inr c"
    using assms by (cases rc) (auto simp: td_filter_def py_bind_app access_defs Let_def)
  obtain rf wf where "td_filter_breakpoints sv self a h ev line ?bps c wc = (rf, wf)" by fastforce
  with assms skip c show ?thesis
    by (auto simp: td_filter_def py_bind_app py_flow_app td_next_def access_defs Let_def
        split: sum.splits flow.splits)
qed

lemma reporting_view: "bp_view (snd (reporting m w)) = bp_view (snd (m w))"
proof -
  obtain r w' where "m w = (r, w')" by fastforce
  then show ?thesis by (cases r) (simp_all add: reporting_def py_simps emit_app bp_view_def)
qed

lemma td_blocks_line_cache:
  fixes arg :: trace_arg
  assumes k: "services_keep bp_view sv" and np: "\<not> has_plugin (w_dbg w)"
    and sound: "line_cache_sound (pf_key a) (fst (snd (pf_path a))) w"
  shows "line_cache_sound (pf_key a) (fst (snd (pf_path a)))
    (snd (py_flow (td_perceive sv self a h fr event arg line sf cmd) (\<lambda>ev.
       py_flow (td_filter sv self a h ev line sf cmd) (\<lambda>bps.
         py_flow (reporting (td_breakpoint sv self a ev event arg line sf bps))
           (\<lambda>(stop, frame). td_next (ev, stop, frame)))) w))"
proof -
  let ?P = "line_cache_sound (pf_key a) (fst (snd (pf_path a)))"
  obtain r1 w1 where perceive: "td_perceive sv self a h fr event arg line sf cmd w = (r1, w1)" by fastforce
  have v1: "bp_view w1 = bp_view w" using keeps_run [OF view.obs_td_perceive [OF k] perceive] .
  have P1: "?P w1" using v1 sound by (rule line_cache_sound_view)
  show ?thesis
  proof (cases "\<exists>ev. r1 = Inr (Next ev)")
    case False
    then show ?thesis using perceive P1 by (auto simp: py_flow_app split: sum.split flow.split)
  next
    case True
    then obtain ev where ev: "r1 = Inr (Next ev)" by blast
    then have "perceives event ev" using outcomesD [OF result_td_perceive] perceive by fastforce
    then have line: "is_line ev \<Longrightarrow> \<not> is_exception_event ev" by (auto simp: perceives_def)
    obtain r2 w2 where filter: "td_filter sv self a h ev line sf cmd w1 = (r2, w2)" by fastforce
    have v2: "bp_view w2 = bp_view w1" using keeps_run [OF view.obs_td_filter [OF k] filter] .
    have P2: "?P w2" using v2 P1 by (rule line_cache_sound_view)
    show ?thesis
    proof (cases "\<exists>bps. r2 = Inr (Next bps)")
      case False
      then show ?thesis using perceive ev filter P2 by (auto simp: py_flow_app split: sum.split flow.split)
    next
      case True
      then obtain bps where bps: "r2 = Inr (Next bps)" by blast
      have "is_line ev \<Longrightarrow> bps = breakpoints (w_dbg w2) (fst (snd (pf_path a)))"
        using td_filter_breakpoints_of filter bps line v2 by (auto simp: bp_view_def)
      moreover have "\<not> has_plugin (w_dbg w2)" using v1 v2 np by (simp add: bp_view_def)
      ultimately have "?P (snd (td_breakpoint sv self a ev event arg line sf bps w2))"
        using td_breakpoint_line_cache [OF k] P2 by blast
      then have "?P (snd (reporting (td_breakpoint sv self a ev event arg line sf bps) w2))"
        by (rule line_cache_sound_view [OF reporting_view])
      then show ?thesis
        using perceive ev filter bps
        by (auto simp: py_flow_app td_next_def split: sum.split flow.split prod.split)
    qed
  qed
qed

text \<open>C12. The cache of lines without breakpoints stays sound: if no line with a breakpoint is cached before
  \<^verbatim>\<open>trace_dispatch\<close> runs, none is cached afterwards, on every path, without plugins and while the services leave
  the breakpoints and the cache alone.\<close>

theorem line_cache_stays_sound:
  assumes "services_keep bp_view sv" and "\<not> has_plugin (w_dbg w)"
    and "line_cache_sound (pf_key (w_pf w self)) (fst (snd (pf_path (w_pf w self)))) w"
  shows "line_cache_sound (pf_key (w_pf w self)) (fst (snd (pf_path (w_pf w self))))
    (snd (trace_dispatch sv self frame event arg w))"
proof -
  let ?a = "w_pf w self" and ?w = "enter_tracing (pf_info (w_pf w self)) w"
  let ?P = "line_cache_sound (pf_key ?a) (fst (snd (pf_path ?a)))"
  have P: "?P ?w" using assms(3) by (simp add: line_cache_sound_def)
  have step: "?P (snd (reporting (td_step_block sv self ?a ev event arg fr sf cmd stop) w'))"
    if "?P w'" for ev fr sf cmd stop w'
  proof (rule line_cache_sound_view)
    show "bp_view (snd (reporting (td_step_block sv self ?a ev event arg fr sf cmd stop) w')) = bp_view w'"
      unfolding reporting_view by (rule keepsD [OF view.obs_td_step_block [OF assms(1)]])
  qed (rule that)
  have "?P (snd (td_main sv self ?a frame event arg ?w))"
  proof (cases "valid_line w frame \<and> \<not> pydb_disposed (w_dbg w)")
    case False
    then show ?thesis using P
      by (auto simp: td_main_def py_bind_app access_defs line_of_def valid_line_def int_as_cint_def)
  next
    case True
    let ?i = "info_now w self" and ?h = "has_exception_breakpoints (w_dbg w)"
    let ?line = "of_int (line_of w frame) :: cint"
    let ?m = "py_flow (td_perceive sv self ?a ?h frame event arg ?line (pydev_step_stop ?i) (pydev_step_cmd ?i))
      (\<lambda>ev. py_flow (td_filter sv self ?a ?h ev ?line (pydev_step_stop ?i) (pydev_step_cmd ?i)) (\<lambda>bps.
        py_flow (reporting (td_breakpoint sv self ?a ev event arg ?line (pydev_step_stop ?i) bps))
          (\<lambda>(stop, frame). td_next (ev, stop, frame))))"
    obtain r w1 where m: "?m ?w = (r, w1)" by fastforce
    have "?P (snd (?m ?w))" using assms(2) P by (intro td_blocks_line_cache [OF assms(1)]) simp_all
    then have "?P w1" by (simp only: m snd_conv)
    then show ?thesis
      using True m by (auto simp: td_main_run py_body_app Let_def step split: sum.split flow.split prod.split)
  qed
  then show ?thesis by (simp add: trace_dispatch_app line_cache_sound_def split_beta)
qed

theorem line_cache_stays_sound_witness:
  "line_cache_sound (pf_key demo_pf) ''a.py'' (snd (trace_dispatch quiet_services 0 f_frame ''line'' ArgNone
     (with_db (\<lambda>d. d \<lparr> breakpoints := [''a.py'' \<mapsto> [(3, demo_breakpoint)]] \<rparr>) demo_world)))"
  using line_cache_stays_sound [OF quiet_keeps, of "with_db (\<lambda>d. d \<lparr> breakpoints :=
      [''a.py'' \<mapsto> [(3, demo_breakpoint)]] \<rparr>) demo_world" 0 f_frame "''line''" ArgNone]
  by (simp add: scenario_defs line_cache_sound_def)

section \<open>Step over and step return\<close>

text \<open>The breakpoint block in a file without breakpoints and without plugins: it only caches the line.\<close>

lemma td_breakpoint_none_here:
  assumes "pydev_state (infos (w_reg w) (pf_info a)) \<noteq> STATE_SUSPEND" and "\<not> has_plugin (w_dbg w)"
    and "\<not> show_return_values (w_dbg w)" and "\<not> remove_return_values_flag (w_dbg w)"
    and "on_call_bp ev = None" and "Option.bind bps (\<lambda>m. map_of m (sint line)) = None"
  shows "reporting (td_breakpoint sv self a ev event arg line sf bps) w = (Inr (Next (False, ev_frame ev)),
    if is_line ev then w \<lparr> w_line_cache := (w_line_cache w)((pf_key a, sint line) \<mapsto> 0) \<rparr> else w)"
  using assms
  by (simp add: reporting_def td_breakpoint_def td_find_breakpoint_def td_on_hit_def td_return_values_def
      td_suspend_def td_wait_or_cache_def no_hit_def td_simps Let_def)

lemmas td_breakpoint_nothing = td_breakpoint_none_here [where bps = None, simplified]

text \<open>The breakpoint filter without plugins: it changes nothing but the frame cache, and a frame that the
  step command does not let the tracer skip passes it.\<close>

lemma td_filter_passes:
  assumes "\<not> has_plugin (w_dbg w)" and "\<not> is_exception_event ev" and "on_call_bp ev = None"
    and "\<And>bps. bps_of (breakpoints (w_dbg w)) a = Some bps \<Longrightarrow>
           \<exists>b. compute_has_breakpoint_in_frame sv (f_code (ev_frame ev)) bps = Inr b"
  obtains c r fc where "td_can_skip sv (pf_info a) (ev_frame ev) sf cmd w = (Inr c, w)"
    and "td_filter sv self a h ev line sf cmd w = (Inr r, w \<lparr> w_frame_cache := fc \<rparr>)"
    and "r = Next (bps_of (breakpoints (w_dbg w)) a) \<or> c \<and> (\<exists>t. r = Return t)"
proof -
  obtain c where skip: "td_can_skip sv (pf_info a) (ev_frame ev) sf cmd w = (Inr c, w)"
    using td_can_skip_pure [OF assms(1)] by metis
  note run = td_filter_def td_filter_breakpoints_def bps_of_def td_simps Let_def
  have unchanged: "w \<lparr> w_frame_cache := w_frame_cache w \<rparr> = w" by simp
  show ?thesis
  proof (cases "bps_of (breakpoints (w_dbg w)) a")
    case None
    then have "td_filter sv self a h ev line sf cmd w =
        (Inr (if c then Return (untraced h self (is_call ev)) else Next None), w)"
      using assms(2,3) skip by (simp add: run)
    with None show ?thesis by - (rule that [OF skip, of "if c then Return (untraced h self (is_call ev)) else Next None" "w_frame_cache w"]; auto split: if_splits)
  next
    case (Some bps)
    show ?thesis
    proof (cases bps)
      case Nil
      with Some have "td_filter sv self a h ev line sf cmd w =
          (Inr (if c then Return (untraced h self (is_call ev)) else Next (Some bps)), w)"
        using assms(2,3) skip by (simp add: run)
      with Some show ?thesis by - (rule that [OF skip, of "if c then Return (untraced h self (is_call ev)) else Next (Some bps)" "w_frame_cache w"]; auto split: if_splits)
    next
      case (Cons x xs)
      obtain b fc where has: "has_breakpoint_in_frame sv (pf_key a) (ev_frame ev) bps w
          = (Inr b, w \<lparr> w_frame_cache := fc \<rparr>)"
      proof -
        obtain b where "compute_has_breakpoint_in_frame sv (f_code (ev_frame ev)) bps = Inr b"
          using assms(4) [OF Some] by metis
        then show ?thesis
          using that [of _ "w_frame_cache w"] that [of b]
          by (cases "(case w_frame_cache w (pf_key a) of None \<Rightarrow> -1 | Some n \<Rightarrow> n) = -1")
            (auto simp: has_breakpoint_in_frame_def)
      qed
      show ?thesis
      proof (cases "c \<and> w_line_cache w (pf_key a, sint line) = Some 0")
        case True
        then have "td_filter sv self a h ev line sf cmd w = (Inr (Return (Some (TraceDispatch self))), w)"
          using Some Cons assms(2,3) skip by (simp add: run)
        with True show ?thesis by - (rule that [OF skip, of "Return (Some (TraceDispatch self))" "w_frame_cache w"]; auto split: if_splits)
      next
        case False
        then have "td_filter sv self a h ev line sf cmd w =
            (Inr (if c \<and> \<not> b then Return (untraced h self (is_call ev)) else Next (Some bps)),
             w \<lparr> w_frame_cache := fc \<rparr>)"
          using Some Cons assms(2,3) skip has by (auto simp: run)
        with Some show ?thesis by - (rule that [OF skip, of "if c \<and> \<not> b then Return (untraced h self (is_call ev)) else Next (Some bps)" fc]; auto split: if_splits)
      qed
    qed
  qed
qed

lemma suspend_and_wait_run:
  assumes "suspends sv (pf_thread a) (pf_info a)"
  obtains w' where "suspend_and_wait sv a frame event arg cmd w = (Inr (), w')"
    and "w_calls w' = w_calls w @
      [CallSetSuspend (pf_thread a) cmd False (pydev_original_step_cmd (infos (w_reg w) (pf_info a))),
       CallWaitSuspend (pf_thread a) (f_id frame) event]"
proof -
  let ?orig = "pydev_original_step_cmd (infos (w_reg w) (pf_info a))"
  obtain w2 where w2: "set_suspend sv (pf_thread a) cmd False ?orig w = (Inr (), w2)"
    "w_calls w2 = w_calls w @ [CallSetSuspend (pf_thread a) cmd False ?orig]"
    using suspends_set [OF assms] by metis
  obtain w3 where w3: "do_wait_suspend sv (pf_thread a) frame event arg w2 = (Inr (), w3)"
    "w_calls w3 = w_calls w2 @ [CallWaitSuspend (pf_thread a) (f_id frame) event]"
    using suspends_wait [OF assms] by metis
  show ?thesis
    by (rule that [of w3]) (use w2 w3 in \<open>simp_all add: suspend_and_wait_def py_simps access_defs\<close>)
qed

text \<open>The step block when the step command stops in the frame \<open>shown\<close>.\<close>

lemma td_step_block_stops:
  assumes "td_step sv self a ev event frame sf cmd stop0 w = (Inr (Next (True, False, [])), w)"
    and "not_into_pydev_file sv ev frame cmd True"
    and "is_line ev \<and> shown = frame \<or>
         \<not> is_line ev \<and> is_return ev \<and> td_stop_back sv (pf_thread a) ev frame w = (Inr (Next (Some shown)), w)"
    and "suspends sv (pf_thread a) (pf_info a)"
  obtains r w' where "reporting (td_step_block sv self a ev event arg frame sf cmd stop0) w = (Inr r, w')"
    and "w_calls w' = w_calls w @
      [CallSetSuspend (pf_thread a) cmd False (pydev_original_step_cmd (infos (w_reg w) (pf_info a))),
       CallWaitSuspend (pf_thread a) (f_id shown) event]"
proof -
  obtain w' where run: "suspend_and_wait sv a shown event arg cmd w = (Inr (), w')"
    and calls: "w_calls w' = w_calls w @
      [CallSetSuspend (pf_thread a) cmd False (pydev_original_step_cmd (infos (w_reg w) (pf_info a))),
       CallWaitSuspend (pf_thread a) (f_id shown) event]"
    using suspend_and_wait_run [OF assms(4)] by metis
  have "td_stop sv a ev event arg frame cmd True w = (Inr (Next ()), w')"
    using assms(3) run by (auto simp: td_stop_def py_flow_app td_simps)
  then obtain r where "td_step_block sv self a ev event arg frame sf cmd stop0 w = (Inr r, w')"
    using assms(1,2) by (simp add: td_step_block_def py_body_app py_flow_app py_simps access_defs)
  then have "reporting (td_step_block sv self a ev event arg frame sf cmd stop0) w = (Inr r, w')"
    by (rule reporting_ok)
  then show ?thesis using calls by (rule that)
qed

text \<open>A step block whose step does not stop asks for nothing.\<close>

lemma td_step_block_goes_on:
  assumes "td_step sv self a ev event frame sf cmd stop0 w = (Inr (Next (False, False, [])), w)"
  obtains r where "reporting (td_step_block sv self a ev event arg frame sf cmd stop0) w = (Inr r, w)"
proof -
  have "\<not> not_into_pydev_file sv ev frame cmd False" by (simp add: not_into_pydev_file_def)
  then obtain r where "td_step_block sv self a ev event arg frame sf cmd stop0 w = (Inr r, w)"
    using assms by (simp add: td_step_block_def td_stop_def td_next_def py_body_app py_flow_app py_simps access_defs)
  then show ?thesis by (intro that) (rule reporting_ok)
qed

text \<open>C28. Step over stops at the next line of the stepped frame and nowhere else: at a line event on a line
  without a breakpoint the tracer suspends the thread, with the step command, and waits in the frame of the
  event if that is the stepped frame; in every other frame the event asks for no suspension at all, also in
  one that is not skipped because its code has a breakpoint on another line.\<close>

theorem step_over_stops:
  assumes "valid_line w frame" and "\<not> pydb_disposed (w_dbg w)"
    and "\<not> is_coroutine_or_generator (f_code frame)"
    and "pydev_state (info_now w self) = STATE_RUN"
    and "pydev_step_cmd (info_now w self) \<in> {CMD_STEP_OVER, CMD_STEP_OVER_MY_CODE}"
    and "\<not> has_plugin (w_dbg w)" and "\<not> show_return_values (w_dbg w)"
    and "\<not> remove_return_values_flag (w_dbg w)"
    and "\<And>bps. bps_now w self = Some bps \<Longrightarrow> map_of bps (line_of w frame) = None \<and>
           (\<exists>b. compute_has_breakpoint_in_frame sv (f_code frame) bps = Inr b)"
    and "sv_should_trace_hook sv = None"
    and "suspends sv (pf_thread (w_pf w self)) (pf_info (w_pf w self))"
  shows "w_calls (snd (trace_dispatch sv self frame ''line'' arg w)) = w_calls w @
      (if is_same_frame (sv_ipython_context sv) (pydev_use_scoped_step_frame (info_now w self))
            (pydev_step_stop (info_now w self)) (Some frame)
       then [CallSetSuspend (pf_thread (w_pf w self)) (pydev_step_cmd (info_now w self)) False
               (pydev_original_step_cmd (info_now w self)),
             CallWaitSuspend (pf_thread (w_pf w self)) (f_id frame) ''line'']
       else [])"
proof -
  let ?a = "w_pf w self" and ?w = "enter_tracing (pf_info (w_pf w self)) w" and ?i = "info_now w self"
  let ?ev = "perceived_as ''line'' frame" and ?line = "of_int (line_of w frame) :: cint"
  let ?h = "has_exception_breakpoints (w_dbg w)" and ?sf = "pydev_step_stop ?i" and ?cmd = "pydev_step_cmd ?i"
  let ?same = "is_same_frame (sv_ipython_context sv) (pydev_use_scoped_step_frame ?i) ?sf (Some frame)"
  let ?bps = "bps_of (breakpoints (w_dbg w)) ?a"
  let ?stop = "[CallSetSuspend (pf_thread ?a) ?cmd False (pydev_original_step_cmd ?i),
    CallWaitSuspend (pf_thread ?a) (f_id frame) ''line'']"
  have ev: "plain_event ?w frame ''line''" using assms(3) by (simp add: plain_event_def)
  have found: "\<exists>b. compute_has_breakpoint_in_frame sv (f_code (ev_frame ?ev)) bps = Inr b"
    if "bps_of (breakpoints (w_dbg ?w)) ?a = Some bps" for bps
    using that assms(9) by (simp add: bps_of_def perceived_as_def)
  obtain c r fc where skip: "td_can_skip sv (pf_info ?a) frame ?sf ?cmd ?w = (Inr c, ?w)"
    and filter: "td_filter sv self ?a ?h ?ev ?line ?sf ?cmd ?w = (Inr r, ?w \<lparr> w_frame_cache := fc \<rparr>)"
    and r: "r = Next ?bps \<or> c \<and> (\<exists>t. r = Return t)"
    by (rule td_filter_passes [of ?w ?ev ?a sv ?sf ?cmd self ?h ?line])
      (use assms(6) found in \<open>simp_all add: perceived_as_def\<close>)
  have passes: "\<not> c" if "?same"
    using skip that assms(4,5) by (auto simp: td_can_skip_def step_can_skip_def td_simps)
  show ?thesis
  proof (cases "\<exists>t. r = Return t")
    case True
    then have "\<not> ?same" using passes r by auto
    with True show ?thesis
      using assms(1,2) filter
      by (auto simp: trace_dispatch_app td_main_run td_perceive_plain [OF ev] py_body_app py_flow_app Let_def)
  next
    case False
    let ?w1 = "?w \<lparr> w_frame_cache := fc, w_line_cache := (w_line_cache w)((pf_key ?a, line_of w frame) \<mapsto> 0) \<rparr>"
    have none: "Option.bind ?bps (\<lambda>m. map_of m (sint ?line)) = None"
      using assms(1,9) by (cases "?bps") (auto simp: bps_of_def)
    have bp: "reporting (td_breakpoint sv self ?a ?ev ''line'' arg ?line ?sf ?bps) (?w \<lparr> w_frame_cache := fc \<rparr>) =
        (Inr (Next (False, frame)), ?w1)"
      using assms(1,4,6-8) none by (subst td_breakpoint_none_here) (simp_all add: perceived_as_def)
    have step: "td_step sv self ?a ?ev ''line'' frame ?sf ?cmd False ?w1 = (Inr (Next (?same, False, [])), ?w1)"
      using assms(5,6,10)
      by (auto simp: td_step_def td_should_skip_def td_step_over_def same_frame_def perceived_as_def td_simps)
    obtain r' w' where block: "reporting (td_step_block sv self ?a ?ev ''line'' arg frame ?sf ?cmd False) ?w1 = (Inr r', w')"
      and calls: "w_calls w' = w_calls w @ (if ?same then ?stop else [])"
    proof (cases "?same")
      case True
      show ?thesis
        by (rule td_step_block_stops [where shown = frame and frame = frame])
          (use step True assms(11) in \<open>auto simp: perceived_as_def not_into_pydev_file_def intro: that\<close>)
    next
      case False
      with step have "td_step sv self ?a ?ev ''line'' frame ?sf ?cmd False ?w1 = (Inr (Next (False, False, [])), ?w1)"
        by simp
      then obtain t where "reporting (td_step_block sv self ?a ?ev ''line'' arg frame ?sf ?cmd False) ?w1 = (Inr t, ?w1)"
        by (rule td_step_block_goes_on)
      with False show ?thesis by - (rule that, assumption, simp)
    qed
    have "r = Next ?bps" using r False by auto
    then show ?thesis
      using assms(1,2) filter bp block calls
      by (simp add: trace_dispatch_app td_main_run td_perceive_plain [OF ev] py_body_app py_flow_app
          td_next_def Let_def)
  qed
qed

theorem step_over_stops_witness:
  "w_calls (snd (trace_dispatch stopping_services 0 f_frame ''line'' ArgNone
     (with_db (\<lambda>d. d \<lparr> breakpoints := [''a.py'' \<mapsto> [(3, demo_breakpoint)]] \<rparr>)
       (with_info (\<lambda>i. i \<lparr> pydev_step_cmd := CMD_STEP_OVER, pydev_step_stop := Some f_frame \<rparr>) demo_world)))) =
   [CallSetSuspend 1 CMD_STEP_OVER False (-1), CallWaitSuspend 1 1 ''line'']"
proof -
  let ?w = "with_db (\<lambda>d. d \<lparr> breakpoints := [''a.py'' \<mapsto> [(3, demo_breakpoint)]] \<rparr>)
    (with_info (\<lambda>i. i \<lparr> pydev_step_cmd := CMD_STEP_OVER, pydev_step_stop := Some f_frame \<rparr>) demo_world)"
  have "w_calls (snd (trace_dispatch stopping_services 0 f_frame ''line'' ArgNone ?w)) = w_calls ?w @
      (if is_same_frame (sv_ipython_context stopping_services) (pydev_use_scoped_step_frame (info_now ?w 0))
            (pydev_step_stop (info_now ?w 0)) (Some f_frame)
       then [CallSetSuspend (pf_thread (w_pf ?w 0)) (pydev_step_cmd (info_now ?w 0)) False
               (pydev_original_step_cmd (info_now ?w 0)),
             CallWaitSuspend (pf_thread (w_pf ?w 0)) (f_id f_frame) ''line'']
       else [])"
    by (rule step_over_stops, simp_all add: scenario_defs valid_line_def line_of_def INT_MIN_def INT_MAX_def
        stopping_fields stopping_suspends compute_has_breakpoint_in_frame_def int_as_cint_def
        sint_of_int_cint, blast)
  then show ?thesis by (simp add: scenario_defs is_same_frame_def stopping_fields)
qed

end
