(* ===== verification/StepProps2.thy ===== *)
theory StepProps2
  imports StepProps
begin

text \<open>
  The return event: step return, the switch to step into, the coroutine step, the values shown on
  return; the smart step into variants; the cache of frames with breakpoints.
\<close>

section \<open>The return event\<close>

lemma function_event_return:
  assumes "exc_info (w_pf w self) = None"
  shows "function_event sv self a h frame ''return'' arg sf cmd w =
    (case step_into_on_return (pf_info a) frame sf cmd w of
       (Inl e, w') \<Rightarrow> (Inl e, w') | (Inr _, w') \<Rightarrow> (Inr (Next (perceived_as ''return'' frame)), w'))"
  using assms
  by (auto simp: function_event_def step_into_on_return_def td_simps split: prod.splits sum.splits)

lemma step_into_on_return_run:
  "step_into_on_return i frame sf cmd w =
     (Inr (), if frame_is sf (Some frame) \<and> \<not> pydev_use_scoped_step_frame (infos (w_reg w) i) \<and>
        cmd \<in> {CMD_STEP_OVER, CMD_STEP_RETURN, CMD_STEP_OVER_MY_CODE, CMD_STEP_RETURN_MY_CODE, CMD_SMART_STEP_INTO}
      then w \<lparr> w_reg := upd_info i (\<lambda>x. x \<lparr> pydev_step_cmd :=
             (if cmd \<in> {CMD_STEP_OVER, CMD_STEP_RETURN, CMD_SMART_STEP_INTO}
              then CMD_STEP_INTO else CMD_STEP_INTO_MY_CODE), pydev_step_stop := None \<rparr>) (w_reg w) \<rparr>
      else w)"
  by (auto simp: step_into_on_return_def py_simps access_defs)

text \<open>When the stepped frame returns during a step over, step return or smart step, the tracer switches the
  thread to step into (into my code for the my-code commands) with no stop frame, so that it stops at the next
  possible place; in every other frame, or in a scoped step, the return event changes nothing.\<close>

lemma return_switches_to_step_into:
  assumes "exc_info (w_pf w self) = None"
    and "pydev_step_cmd (infos (w_reg w) (pf_info a)) = cmd"
    and "cmd \<in> {CMD_STEP_OVER, CMD_STEP_RETURN, CMD_STEP_OVER_MY_CODE, CMD_STEP_RETURN_MY_CODE, CMD_SMART_STEP_INTO}"
  shows "let w' = snd (function_event sv self a h frame ''return'' arg sf cmd w); i = infos (w_reg w') (pf_info a) in
    fst (function_event sv self a h frame ''return'' arg sf cmd w) = Inr (Next (perceived_as ''return'' frame)) \<and>
    (if frame_is sf (Some frame) \<and> \<not> pydev_use_scoped_step_frame (infos (w_reg w) (pf_info a))
     then pydev_step_stop i = None \<and>
       pydev_step_cmd i = (if cmd \<in> {CMD_STEP_OVER_MY_CODE, CMD_STEP_RETURN_MY_CODE}
                           then CMD_STEP_INTO_MY_CODE else CMD_STEP_INTO) \<and>
       pydev_state i = pydev_state (infos (w_reg w) (pf_info a))
     else w' = w)"
  using assms(3)
  by (auto simp: function_event_return [OF assms(1)] step_into_on_return_run upd_info_def)



section \<open>Coroutines\<close>

text \<open>When the stepped coroutine or generator really returns, the step moves to the first caller that is not
  filtered and becomes a coroutine step; without such a caller a step over becomes a step into and a coroutine
  step too, and a step into stays as it is.\<close>

lemma coroutine_return_retargets:
  assumes "frame_is sf (Some frame)" and "\<not> pydev_use_scoped_step_frame (infos (w_reg w) i)"
    and "cmd \<in> {CMD_STEP_OVER, CMD_STEP_OVER_MY_CODE, CMD_STEP_INTO, CMD_STEP_INTO_MY_CODE, CMD_STEP_INTO_COROUTINE}"
    and "pydev_step_cmd (infos (w_reg w) i) = cmd" and "pydev_step_stop (infos (w_reg w) i) = sf"
  shows "let i' = infos (w_reg (snd (retarget_coroutine_step sv i frame sf cmd w))) i in
    case find (\<lambda>g. \<not> is_files_filter_enabled (w_dbg w) \<or> \<not> sv_apply_files_filter sv g (co_filename (f_code g)) False)
           (callers frame) of
      Some g \<Rightarrow> pydev_step_cmd i' = CMD_STEP_INTO_COROUTINE \<and> pydev_step_stop i' = Some g
    | None \<Rightarrow> pydev_step_cmd i' = (if cmd \<in> {CMD_STEP_OVER, CMD_STEP_INTO_COROUTINE} then CMD_STEP_INTO
                 else if cmd = CMD_STEP_OVER_MY_CODE then CMD_STEP_INTO_MY_CODE else cmd) \<and>
              pydev_step_stop i' = (if cmd \<in> {CMD_STEP_INTO, CMD_STEP_INTO_MY_CODE} then sf else None)"
  using assms
  by (auto simp: retarget_coroutine_step_def unfiltered_back_def get_unfiltered_back_frame_find py_simps
      access_defs upd_info_def Let_def split: option.split)

section \<open>Return values\<close>

lemma map_of_replace:
  "map_of (map (\<lambda>p. if fst p = k then (fst p, v) else p) d) x =
     (if x = k then (if k \<in> fst ` set d then Some v else None) else map_of d x)"
proof (induction d)
  case (Cons p d)
  then show ?case by (cases p; cases "x = k") simp_all
qed simp

lemma map_of_dict_set: "map_of (dict_set k v d) = (map_of d)(k \<mapsto> v)"
proof
  fix x
  have eq: "(\<lambda>(k', v'). if k' = k then (k', v) else (k', v')) = (\<lambda>p. if fst p = k then (fst p, v) else p)"
    by (auto simp: fun_eq_iff)
  show "map_of (dict_set k v d) x = ((map_of d)(k \<mapsto> v)) x"
  proof (cases "k \<in> fst ` set d")
    case True
    then show ?thesis unfolding dict_set_def eq by (simp add: map_of_replace)
  next
    case False
    then have "map_of d k = None" by (simp add: map_of_eq_None_iff)
    then show ?thesis using False by (auto simp: dict_set_def map_add_def split: option.split)
  qed
qed

lemma show_return_value_run:
  assumes "f_back frame = Some caller" and "get_func_name sv frame = py_ret name"
  shows "snd (show_return_value sv frame arg w) = w \<lparr> w_locals := (w_locals w)(f_id caller :=
    (w_locals w (f_id caller)) \<lparr> return_values_dict := Some (dict_set name arg
       (case return_values_dict (w_locals w (f_id caller)) of None \<Rightarrow> [] | Some d \<Rightarrow> d)) \<rparr>) \<rparr>"
  using assms
  by (cases "return_values_dict (w_locals w (f_id caller))")
    (simp_all add: show_return_value_def upd_locals_def py_simps)

text \<open>Showing a return value adds it under the function's name to the dict of return values in the caller's
  locals, keeps the other entries and touches no other frame; removing the return values clears the dict of the frame
  and of its caller.\<close>

theorem return_values_shown_and_removed:
  assumes "f_back frame = Some caller" and "sv_get_clsname_for_code sv (f_code frame) frame = Inr cls"
  shows "let w' = snd (show_return_value sv frame arg w);
             name = (case cls of None \<Rightarrow> co_name (f_code frame) | Some c \<Rightarrow> c @ ''.'' @ co_name (f_code frame));
             old = (case return_values_dict (w_locals w (f_id caller)) of None \<Rightarrow> [] | Some d \<Rightarrow> d) in
    (\<exists>d. return_values_dict (w_locals w' (f_id caller)) = Some d \<and> map_of d = (map_of old)(name \<mapsto> arg)) \<and>
    (\<forall>g. g \<noteq> f_id caller \<longrightarrow> w_locals w' g = w_locals w g) \<and>
    return_values_dict (w_locals (snd (remove_return_values frame w')) (f_id caller)) = None \<and>
    return_values_dict (w_locals (snd (remove_return_values frame w')) (f_id frame)) = None"
proof -
  let ?name = "case cls of None \<Rightarrow> co_name (f_code frame) | Some c \<Rightarrow> c @ ''.'' @ co_name (f_code frame)"
  have "get_func_name sv frame = py_ret ?name"
    using assms(2) by (simp add: get_func_name_def Let_def split: option.split)
  from show_return_value_run [OF assms(1) this] assms(1) show ?thesis
    by (simp add: Let_def map_of_dict_set remove_return_values_def upd_locals_def py_simps)
qed

theorem return_values_shown_and_removed_witness:
  "\<exists>d. return_values_dict (w_locals (snd (show_return_value plain_services f_frame (ArgValue ''5'') demo_world)) 0) = Some d
     \<and> map_of d ''f'' = Some (ArgValue ''5'')"
proof -
  have "\<exists>d. return_values_dict (w_locals (snd (show_return_value plain_services f_frame (ArgValue ''5'') demo_world))
      (f_id main_frame)) = Some d \<and> map_of d = (map_of [])(''f'' \<mapsto> ArgValue ''5'')"
    using return_values_shown_and_removed [of f_frame main_frame plain_services None "ArgValue ''5''" demo_world,
      unfolded Let_def, THEN conjunct1] by (simp add: empty_locals_def)
  then show ?thesis by auto
qed

section \<open>Smart step into\<close>

text \<open>For variants sorted by offset the lookup returns the last variant whose offset is not after the given one,
  and None when all are after it.\<close>

lemma smart_variant_lookup:
  assumes "sorted (map v_offset vs)"
  shows "get_smart_step_into_variant_from_frame_offset x vs =
    (if filter (\<lambda>v. v_offset v \<le> x) vs = [] then None else Some (last (filter (\<lambda>v. v_offset v \<le> x) vs)))"
proof -
  let ?r = "bisect_right (map v_offset vs) x 0 (length vs)"
  have le: "?r \<le> length vs" using bisect_right_bounds [of 0 "length vs"] by simp
  have split: "\<And>i. i < ?r \<Longrightarrow> v_offset (vs ! i) \<le> x"
    "\<And>i. ?r \<le> i \<Longrightarrow> i < length vs \<Longrightarrow> x < v_offset (vs ! i)"
    using bisect_right_split [OF assms, of 0 "length vs" x] le by auto
  have "filter (\<lambda>v. v_offset v \<le> x) (take ?r vs) = take ?r vs"
    using split(1) le by (auto simp: filter_id_conv in_set_conv_nth)
  moreover have "x < v_offset v" if "v \<in> set (drop ?r vs)" for v
    using that split(2) le by (auto simp: in_set_conv_nth)
  then have "filter (\<lambda>v. v_offset v \<le> x) (drop ?r vs) = []"
    by (auto simp: filter_empty_conv not_le)
  ultimately have "filter (\<lambda>v. v_offset v \<le> x) vs = take ?r vs"
    by (metis append_Nil2 append_take_drop_id filter_append)
  moreover have "?r \<noteq> 0 \<Longrightarrow> last (take ?r vs) = vs ! (?r - 1)"
    using le by (subst last_conv_nth) auto
  ultimately show ?thesis
    using le by (auto simp: get_smart_step_into_variant_from_frame_offset_def Let_def)
qed

text \<open>Inside a comprehension the smart step fails with an AttributeError, which disables tracing of the thread, when
  the parent offset lies before every variant: the lookup of the parent variant gives None and its children are
  read nevertheless.\<close>

lemma smart_child_without_parent_variant_raises:
  assumes "smart_variants i \<noteq> []" and "\<forall>v \<in> set (smart_variants i). sint (pydev_smart_parent_offset i) < v_offset v"
    and "sorted (map v_offset (smart_variants i))"
    and "0 \<le> sint (pydev_smart_parent_offset i)" and "0 \<le> sint (pydev_smart_child_offset i)"
  shows "smart_stop_in_child i lasti b = Inl AttributeError"
proof -
  let ?vs = "smart_variants i" and ?x = "sint (pydev_smart_parent_offset i)"
  let ?r = "bisect_right (map v_offset ?vs) ?x 0 (length ?vs)"
  have "\<forall>k < ?r. map v_offset ?vs ! k \<le> ?x"
    using bisect_right_split [OF assms(3), of 0 "length ?vs" ?x] by simp
  then have "?r = 0"
    using assms(1,2) by (metis length_greater_0_conv not_gr_zero nth_map nth_mem not_less)
  then show ?thesis
    using assms by (simp add: smart_stop_in_child_def get_smart_step_into_variant_from_frame_offset_def Let_def)
qed

section \<open>The cache of frames with breakpoints\<close>

text \<open>While the cache of a code object holds the answer that would be computed, asking whether the frame has a
  breakpoint gives the computed answer, and the cache holds it afterwards.\<close>

lemma frame_cache_transparent:
  assumes "\<forall>v. frame_cache_cell key w = Some v \<longrightarrow> compute_has_breakpoint_in_frame sv (f_code frame) bps = Inr v"
  shows "fst (has_breakpoint_in_frame sv key frame bps w) = compute_has_breakpoint_in_frame sv (f_code frame) bps \<and>
    (\<forall>v. frame_cache_cell key (snd (has_breakpoint_in_frame sv key frame bps w)) = Some v \<longrightarrow>
       compute_has_breakpoint_in_frame sv (f_code frame) bps = Inr v)"
  using hasbp.agrees [of key w sv frame bps] hasbp.stays_sound [of key w sv frame bps] assms by blast

text \<open>The cache is keyed by the code object, and code equality ignores the file: once equal code of another file was
  cached as having no breakpoint, a running thread skips the frame, even on a line that has a breakpoint in the
  frame's own file.\<close>

lemma frame_cache_shared_by_equal_code:
  assumes "valid_line w frame" and "\<not> pydb_disposed (w_dbg w)" and "plain_event w frame event"
    and "pydev_state (info_now w self) = STATE_RUN" and "pydev_step_cmd (info_now w self) = -1"
    and "\<not> has_plugin (w_dbg w)" and "\<not> show_return_values (w_dbg w)"
    and "bps_now w self = Some bps" and "bps \<noteq> []"
    and "w_line_cache w (pf_key (w_pf w self), line_of w frame) \<noteq> Some 0"
    and "frame_cache_cell (pf_key (w_pf w self)) w = Some False"
  shows "trace_dispatch sv self frame event arg w =
    (Inr (untraced (has_exception_breakpoints (w_dbg w)) self (event = ''call'')), w)"
proof -
  let ?a = "w_pf w self" and ?w = "enter_tracing (pf_info (w_pf w self)) w"
  have ev: "plain_event ?w frame event" and ne: "event \<noteq> ''exception''"
    using assms(3) by (auto simp: plain_event_def)
  have skip: "td_can_skip sv (pf_info ?a) frame sf (-1) ?w = (Inr True, ?w)" for sf
    by (rule td_can_skip_no_plugin) (use assms in \<open>simp_all add: step_can_skip_def\<close>)
  have "frame_cache_cell (pf_key ?a) ?w = Some False" using assms(11) by (simp add: frame_cache_cell_def)
  then have has: "has_breakpoint_in_frame sv (pf_key ?a) frame bps ?w = (Inr False, ?w)" by (rule hasbp.hit)
  obtain x xs where bps: "bps = x # xs" using assms(9) by (cases bps) auto
  show ?thesis
    using assms(1,2,5,8,10) skip has ne bps
    by (simp add: trace_dispatch_app td_main_run td_perceive_plain [OF ev] td_filter_def
        td_filter_breakpoints_def perceived_as_def td_simps Let_def)
qed

text \<open>The witness runs the same function of two files: the first, whose file has a breakpoint elsewhere, is cached as having
  none; the second then misses the breakpoint on its current line.\<close>

definition twin_frame :: frame where
  "twin_frame = Frame 2 (demo_code ''b.py'' ''f'') None"

definition twin_world :: world where
  "twin_world = with_db (\<lambda>d. d \<lparr> breakpoints := [''a.py'' \<mapsto> [(90, demo_breakpoint)], ''b.py'' \<mapsto> [(2, demo_breakpoint)]] \<rparr>)
     (demo_world \<lparr> w_pf := (\<lambda>p. demo_pf)(1 := demo_pf \<lparr> pf_path := (''b.py'', ''b.py'', ''b.py'') \<rparr>) \<rparr>)"

lemma leave_enter_frame_cache [simp]:
  "leave_tracing i ((enter_tracing i w) \<lparr> w_frame_cache := c \<rparr>) = w \<lparr> w_frame_cache := c \<rparr>"
  by (simp add: leave_tracing_def enter_tracing_def upd_info_def)

lemma twin_first_event:
  "trace_dispatch plain_services 0 f_frame ''line'' ArgNone twin_world =
    (Inr (Some NO_FTRACE), twin_world \<lparr> w_frame_cache := [pf_key demo_pf \<mapsto> 0] \<rparr>)"
  by (simp add: twin_world_def scenario_defs trace_dispatch_app td_main_def td_perceive_def function_event_def
      td_filter_def td_can_skip_def step_can_skip_def td_filter_breakpoints_def has_breakpoint_in_frame_def
      compute_has_breakpoint_in_frame_def perceived_as_def untraced_def no_trace_def has_exception_breakpoints_def
      td_simps Let_def int_as_cint_def INT_MIN_def INT_MAX_def)

end
