(* ===== verification/ThreadTracerProps.thy ===== *)
theory ThreadTracerProps
  imports ThreadTracer StepProps2
begin

text \<open>
  The properties of the thread tracer: re-entrancy, exceptions, the cache of skipped code, the
  top-level tracers and the search for the entry point of a thread.
\<close>

section \<open>Running the tracer\<close>

lemma depth_tt_main:
  assumes b: "services_keep (tracing_depth i) sv"
  shows "keeps (tracing_depth i) (tt_main sv t info fr event arg)"
proof -
  have "keeps (tracing_depth i) (new_pf p)" for p
    by (simp add: keeps_def new_pf_def tracing_depth_def)
  moreover have "keeps (tracing_depth i) (set_cache_skips k v)" "keeps (tracing_depth i) (set_f_trace fr tf)" for k v fr tf
    by (simp_all add: set_cache_skips_def set_f_trace_def keeps_modify tracing_depth_def)
  ultimately show ?thesis
    unfolding tt_main_def tt_cache_def tt_file_type_def tt_filter_def tt_delegate_def maybe_notify_skipped_def
      notify_skipped_step_in_because_of_filters_def
    by (intro depth.obs_rules depth_trace_dispatch b; simp add: tracing_depth_def)
qed

lemma enter_tracing_threads: "threads (w_reg (enter_tracing i w)) = threads (w_reg w)"
  and enter_tracing_cache_skips: "w_cache_skips (enter_tracing i w) = w_cache_skips w"
  by (simp_all add: enter_tracing_def upd_info_def)

lemma new_info_unhandled: "\<not> suspended_at_unhandled PyDBAdditionalThreadInfo"
  by (simp add: PyDBAdditionalThreadInfo_def init_info_def)

lemma depth_tt_handlers: "keeps (tracing_depth i) (tt_handlers event e)"
  unfolding tt_handlers_def by (intro keeps_rules; simp add: tracing_depth_def)

lemma ThreadTracer_call_app:
  assumes "is_tracing (infos (w_reg w) info) = 0"
  shows "ThreadTracer_call sv t info fr event arg w =
    (case py_try (tt_main sv t info fr event arg) (tt_handlers event) (enter_tracing info w) of
       (r, w') \<Rightarrow> (r, leave_tracing info w'))"
  using assms by (simp add: ThreadTracer_call_def py_simps access_defs split: prod.splits)


text \<open>The body of the frame tracer does not touch \<^verbatim>\<open>cache_skips\<close>.\<close>

interpretation skips: body_observation w_cache_skips
  by unfold_locales simp_all

lemma skips_trace_dispatch:
  "services_keep w_cache_skips sv \<Longrightarrow> keeps w_cache_skips (trace_dispatch sv self fr event arg)"
  unfolding trace_dispatch_def
  by (intro keeps_rules skips.obs_td_main; simp add: enter_tracing_def leave_tracing_def)

section \<open>Properties\<close>

text \<open>Code run by the debugger itself is not traced: while \<^verbatim>\<open>is_tracing\<close> of the thread is not zero the tracer switches
  tracing off for the frame and changes nothing.\<close>

lemma thread_tracer_not_reentrant:
  assumes "is_tracing (infos (w_reg w) info) \<noteq> 0"
  shows "ThreadTracer_call sv t info frame event arg w = (Inr (no_trace (event = ''call'')), w)"
  using assms by (simp add: ThreadTracer_call_def py_simps access_defs)

text \<open>\<^verbatim>\<open>ThreadTracer.__call__\<close> leaves \<^verbatim>\<open>is_tracing\<close> of every thread as it found it, on every path and also when it
  raises, provided the services do.\<close>

lemma thread_tracer_balanced:
  assumes "services_keep (tracing_depth i) sv"
  shows "tracing_depth i (snd (ThreadTracer_call sv t info frame event arg w)) = tracing_depth i w"
proof (rule keepsD)
  show "keeps (tracing_depth i) (ThreadTracer_call sv t info frame event arg)"
    unfolding ThreadTracer_call_def
    by (intro keeps_bind keeps_access keeps_if keeps_ret depth_section keeps_try depth_tt_main depth_tt_handlers assms)
qed


text \<open>A running thread does not look twice at code it decided to skip: when the code is in \<^verbatim>\<open>cache_skips\<close> and the
  thread is not stepping, the tracer returns at once and changes nothing.\<close>

lemma skipped_code_returns_at_once:
  assumes "is_tracing (infos (w_reg w) info) = 0" and "pydev_step_cmd (infos (w_reg w) info) = -1"
    and "\<not> pydb_disposed (w_dbg w)" and "t_alive (threads (w_reg w) t)"
    and "w_cache_skips w (code_key (f_code frame)) = Some v"
  shows "ThreadTracer_call sv t info frame event arg w = (Inr (no_trace (event = ''call'')), w)"
  using assms
  by (simp add: ThreadTracer_call_app tt_main_def tt_cache_def td_simps Let_def enter_tracing_threads
      enter_tracing_cache_skips)

text \<open>Files of the debugger itself are skipped for good: on the first event in such a file the code is put into
  \<^verbatim>\<open>cache_skips\<close> with the value 1, tracing is switched off for the frame, and nothing else changes.\<close>

lemma debugger_file_cached_as_skipped:
  assumes "is_tracing (infos (w_reg w) info) = 0" and "\<not> pydb_disposed (w_dbg w)"
    and "t_alive (threads (w_reg w) t)" and "w_cache_skips w (code_key (f_code frame)) = None"
    and "sv_get_file_type sv frame = Some PYDEV_FILE"
  shows "ThreadTracer_call sv t info frame event arg w = (Inr (no_trace (event = ''call'')),
    w \<lparr> w_cache_skips := (w_cache_skips w)(code_key (f_code frame) \<mapsto> 1) \<rparr>)"
proof -
  have leave: "leave_tracing info ((enter_tracing info w) \<lparr> w_cache_skips := c \<rparr>) = w \<lparr> w_cache_skips := c \<rparr>" for c
    by (simp add: leave_tracing_def enter_tracing_def upd_info_def)
  show ?thesis
    using assms
    by (simp add: ThreadTracer_call_app tt_main_def tt_cache_def tt_file_type_def set_cache_skips_def td_simps
        Let_def enter_tracing_threads enter_tracing_cache_skips leave)
qed

text \<open>\<^verbatim>\<open>cache_skips\<close> gets the value 2 (no breakpoint) only on call events: delegating any other event to the frame
  tracer leaves \<^verbatim>\<open>cache_skips\<close> unchanged, because the frame tracer answers None to calls only.\<close>

lemma cache_skips_two_only_on_call:
  assumes "services_keep w_cache_skips sv" and "event \<noteq> ''call''"
  shows "w_cache_skips (snd (tt_delegate sv t info frame event arg w)) = w_cache_skips w"
proof -
  let ?p = "new_PyDBFrame (sv_abs_path sv frame) info t (code_key (f_code frame))"
  let ?w = "w \<lparr> w_pf := (w_pf w)(w_fresh w := ?p), w_fresh := w_fresh w + 1 \<rparr>"
  obtain r w' where run: "trace_dispatch sv (w_fresh w) frame event arg ?w = (r, w')" by fastforce
  have "w_cache_skips w' = w_cache_skips w"
    using keeps_run [OF skips_trace_dispatch [OF assms(1)] run] by simp
  moreover have "r \<noteq> Inr None"
  proof
    assume "r = Inr None"
    with run obtain r' w'' where
      "td_main sv (w_fresh w) (w_pf ?w (w_fresh w)) frame event arg (enter_tracing info ?w) = (Inr None, w'')"
      by (auto simp: trace_dispatch_app new_PyDBFrame_def split: prod.splits)
    then have "result_ok (w_fresh w) event None" using outcomesD [OF result_td_main] by blast
    with assms(2) show False by (simp add: result_ok_def)
  qed
  ultimately show ?thesis
    using run
    by (cases r) (auto simp: tt_delegate_def new_pf_def set_f_trace_def py_simps Let_def split: option.split)
qed

text \<open>An unhandled exception at the top level of a thread is reported once: after the first exception event further
  ones make no call, as long as the report does not reset the mark.\<close>

lemma unhandled_exception_reported_once:
  assumes "w_tracers w self = OnlyUnhandledObj db t info" and "\<not> suspended_at_unhandled (infos (w_reg w) info)"
    and "exc1 \<noteq> ArgNone" and "never_raises (sv_stop_on_unhandled_exception sv t info exc1)"
    and "services_keep (\<lambda>w. (w_calls w, w_tracers w, suspended_at_unhandled (infos (w_reg w) info))) sv"
  shows "let w1 = snd (trace_unhandled_exceptions sv self ''exception'' exc1 w) in
    w_calls w1 = w_calls w @ [CallStopOnUnhandled t] \<and>
    trace_unhandled_exceptions sv self event exc2 w1 = (Inr (Some (TraceUnhandled self)), w1)"
proof -
  let ?f = "\<lambda>w. (w_calls w, w_tracers w, suspended_at_unhandled (infos (w_reg w) info))"
  let ?w0 = "w \<lparr> w_reg := upd_info info (\<lambda>i. i \<lparr> suspended_at_unhandled := True \<rparr>) (w_reg w),
                w_calls := w_calls w @ [CallStopOnUnhandled t] \<rparr>"
  obtain r w1 where run: "sv_stop_on_unhandled_exception sv t info exc1 ?w0 = (r, w1)" by fastforce
  have "?f w1 = ?f ?w0" using keeps_run [OF services_keepD(10) [OF assms(5)] run] .
  then have w1: "w_calls w1 = w_calls w @ [CallStopOnUnhandled t]" "w_tracers w1 = w_tracers w"
    "suspended_at_unhandled (infos (w_reg w1) info)" by (simp_all add: upd_info_def)
  have "r = Inr ()" using never_raisesD [OF assms(4) run] by auto
  then have "trace_unhandled_exceptions sv self ''exception'' exc1 w = (Inr (Some (TraceUnhandled self)), w1)"
    using assms(1-3) run by (simp add: trace_unhandled_exceptions_def py_simps access_defs do_call_app)
  moreover have "trace_unhandled_exceptions sv self event exc2 w1 = (Inr (Some (TraceUnhandled self)), w1)"
    using assms(1) w1(2,3) by (simp add: trace_unhandled_exceptions_def py_simps access_defs)
  ultimately show ?thesis using w1(1) by (simp add: Let_def)
qed

text \<open>\<^verbatim>\<open>fix_top_level_trace_and_get_trace_func\<close> keeps one ThreadTracer per thread and debugger: asking again returns the
  same tracer and changes nothing, and the tracer belongs to the thread's information object and the current debugger.\<close>

lemma thread_tracer_is_reused:
  assumes "current_thread_tracer t info w = (Inr k, w')"
  shows "current_thread_tracer t info w' = (Inr k, w') \<and> thread_tracer (infos (w_reg w') info) = Some k \<and>
    (\<exists>t' i'. w_tracers w' k = ThreadTracerObj (w_db_id w') t' i')"
  using assms
  by (auto simp: current_thread_tracer_def new_tracer_def py_simps access_defs upd_info_def Let_def
      split: option.splits tracer_obj.splits if_splits)

text \<open>The name under which the entry points of a thread are recognised is the file name without its directories
  and without its last extension, with either path separator.\<close>

lemma module_stem_of_path:
  assumes "sep = CHR ''/'' \<or> sep = CHR 0x5C" and "CHR ''/'' \<notin> set (base @ ext)" and "CHR 0x5C \<notin> set (base @ ext)"
    and "CHR ''.'' \<notin> set ext"
  shows "module_stem (dir @ sep # base @ CHR ''.'' # ext) = base"
proof -
  let ?s = "dir @ sep # base @ CHR ''.'' # ext"
  have last_sep: "rfind c (xs @ c # ys) = int (length xs)" if "c \<notin> set ys" for c xs and ys :: string
    using that by (simp add: rfind_def takeWhile_append)
  have other: "rfind c (xs @ sep # ys) < int (length xs)" if "c \<notin> set ys" "c \<noteq> sep" for c xs and ys :: string
    using that by (cases "c \<in> set xs") (auto simp: rfind_def takeWhile_append)
  have k: "(if rfind (CHR 0x5C) ?s > rfind CHR ''/'' ?s then rfind (CHR 0x5C) ?s else rfind CHR ''/'' ?s) = int (length dir)"
  proof (cases "sep = CHR ''/''")
    case True
    have "rfind CHR ''/'' ?s = int (length dir)" using last_sep [of "CHR ''/''"] True assms(2) by auto
    moreover have "rfind (CHR 0x5C) ?s < int (length dir)" using other [of "CHR 0x5C"] True assms(3) by auto
    ultimately show ?thesis by simp
  next
    case False
    then have "rfind (CHR 0x5C) ?s = int (length dir)" using last_sep [of "CHR 0x5C"] assms(1,3) by auto
    moreover have "rfind CHR ''/'' ?s < int (length dir)" using other [of "CHR ''/''"] False assms(2) by auto
    ultimately show ?thesis by simp
  qed
  have "rfind CHR ''.'' (base @ CHR ''.'' # ext) = int (length base)"
    using last_sep [of "CHR ''.''" ext base] assms(4) by simp
  then show ?thesis by (simp add: module_stem_def k Let_def nat_add_distrib)
qed

end
