(* ===== verification/MonState.thy ===== *)
theory MonState
  imports Dispatch
begin

text \<open>
  The state of the \<^verbatim>\<open>sys.monitoring\<close> backend (\<^verbatim>\<open>_pydevd_sys_monitoring_cython.c\<close>): the part of
  \<^verbatim>\<open>sys.monitoring\<close> that it uses, the thread-local values, the \<^verbatim>\<open>FuncCodeInfo\<close> objects and their cache.
  It contains the state of the settrace backend, because both work on the same debugger, thread
  registry and frames.

  A handler runs in a thread with identifier \<open>me\<close> and for the frame \<open>cur\<close> that triggered the event. A code
  object is identified by its contents including its file name; as a key of a dict it is \<open>code_key\<close>,
  since the comparison of code objects ignores the file name.
\<close>

section \<open>\<^verbatim>\<open>sys.monitoring\<close>\<close>

datatype mon_event = PY_START | PY_RESUME | PY_RETURN | PY_UNWIND | LINE | JUMP | RAISE

datatype mon_callback =
    StartMethodEvent | LineEvent | JumpEvent | ReturnEvent | RaiseEvent | UnwindEvent

datatype mon_result = M_None | M_DISABLE

record monitor =
  mo_tool :: "string option"
  mo_events :: "mon_event set"
  mo_callbacks :: "mon_event \<rightharpoonup> mon_callback"
  mo_local :: "code \<Rightarrow> mon_event set"
  mo_restarts :: nat

section \<open>Objects of the backend\<close>

text \<open>\<^verbatim>\<open>ThreadInfo\<close>; \<open>ti_info\<close> is None for the debugger's own daemon threads.\<close>

record mon_thread_info =
  ti_thread :: nat
  ti_ident :: int
  ti_info :: "nat option"
  ti_trace :: bool
  ti_use_is_stopped :: bool

text \<open>An exception object: its identity, class, value and traceback.\<close>

record mon_exc =
  x_id :: nat
  x_type :: pyexc
  x_value :: string
  x_tb :: "traceback option"

definition exc_arg :: "mon_exc \<Rightarrow> trace_arg" where
  "exc_arg x = ArgExc (x_type x) (x_value x) (x_tb x)"

record tls =
  tl_thread_info :: "mon_thread_info option"
  tl_bootstrap :: "(frame \<times> bool) option"
  tl_unhandled :: "(nat \<times> frame) option"
  tl_user_uncaught :: "exc_info_t option"
  tl_disable_next_line :: "(string \<times> int option) option"
  tl_dummy_ref :: "nat option"

definition empty_tls :: tls where
  "empty_tls = \<lparr> tl_thread_info = None, tl_bootstrap = None, tl_unhandled = None, tl_user_uncaught = None,
     tl_disable_next_line = None, tl_dummy_ref = None \<rparr>"

record func_code_info =
  fc_co_filename :: string
  canonical_normalized_filename :: string
  abs_path_filename :: string
  always_skip_code :: bool
  breakpoint_found :: bool
  function_breakpoint_found :: bool
  plugin_line_breakpoint_found :: bool
  plugin_call_breakpoint_found :: bool
  plugin_line_stepping :: bool
  plugin_call_stepping :: bool
  plugin_return_stepping :: bool
  pydb_mtime :: cint
  bp_line_to_breakpoint :: "(int \<times> breakpoint) list"
  function_breakpoint :: "breakpoint option"
  always_filtered_out :: bool
  filtered_out_force_checked :: bool
  try_except_container_obj :: "try_except_info list option"
  fc_code_obj :: "code option"
  fc_co_name :: string

definition new_FuncCodeInfo :: func_code_info where
  "new_FuncCodeInfo = \<lparr> fc_co_filename = [], canonical_normalized_filename = [], abs_path_filename = [],
     always_skip_code = False, breakpoint_found = False, function_breakpoint_found = False,
     plugin_line_breakpoint_found = False, plugin_call_breakpoint_found = False,
     plugin_line_stepping = False, plugin_call_stepping = False, plugin_return_stepping = False,
     pydb_mtime = -1, bp_line_to_breakpoint = [], function_breakpoint = None,
     always_filtered_out = False, filtered_out_force_checked = False, try_except_container_obj = None,
     fc_code_obj = None, fc_co_name = [] \<rparr>"

record code_line_info =
  line_to_offset :: "(int \<times> int) list"
  first_line :: cint
  last_line :: cint

section \<open>The state\<close>

record mon =
  m_w :: world
  m_mo :: monitor
  m_tls :: "int \<Rightarrow> tls"
  m_fci :: "nat \<Rightarrow> func_code_info"
  m_fci_fresh :: nat
  m_fci_cache :: "code_key \<rightharpoonup> nat"
  m_line_info :: "code_key \<rightharpoonup> code_line_info"
  m_file_types :: "int \<times> string \<times> code_key \<rightharpoonup> int option"
  m_mtime :: int
  m_break_on_uncaught :: bool
  m_bp_files :: "string list"
  m_fn_bp_names :: "string list"
  m_threads :: "nat list"
  m_daemon :: "nat \<Rightarrow> bool"
  m_dummy :: "nat \<Rightarrow> bool"
  m_is_stopped :: "nat \<Rightarrow> bool option"
  m_notified :: bool

text \<open>
  \<open>m_mtime\<close> and \<open>m_break_on_uncaught\<close> are fields of the debugger that only this backend reads, \<open>m_bp_files\<close> and
  \<open>m_fn_bp_names\<close> the keys of its breakpoint dicts, \<open>m_threads\<close> is \<^verbatim>\<open>threading.enumerate()\<close>, \<open>m_daemon\<close> the
  attribute \<^verbatim>\<open>is_pydev_daemon_thread\<close>, \<open>m_is_stopped\<close> the attribute \<^verbatim>\<open>_is_stopped\<close> of threads (None: no such
  attribute), \<open>m_notified\<close> the global \<^verbatim>\<open>_global_notify_skipped_step_in\<close> of this module.
\<close>

record mservices =
  ms_sv :: services
  ms_py313 :: bool
  ms_abs_path_of_file :: "string \<Rightarrow> abs_path"
  ms_co_lines :: "code \<Rightarrow> (int option \<times> int option \<times> int option) list"
  ms_frame_thread :: "frame \<Rightarrow> string \<Rightarrow> nat option"
  ms_dummy_thread :: "int \<Rightarrow> nat"
  mp_is_tracked_frame :: "frame \<Rightarrow> bool"
  mp_required_events_breakpoint :: "string list"
  mp_required_events_stepping :: "string list"

section \<open>Access\<close>

definition on_w :: "(world, 'a) py \<Rightarrow> (mon, 'a) py" where
  "on_w m = py_zoom m_w (\<lambda>w s. s \<lparr> m_w := w \<rparr>) m"

definition get_tls :: "int \<Rightarrow> (tls \<Rightarrow> 'a) \<Rightarrow> (mon, 'a) py" where
  "get_tls me f = py_gets (\<lambda>s. f (m_tls s me))"

definition set_tls :: "int \<Rightarrow> (tls \<Rightarrow> tls) \<Rightarrow> (mon, unit) py" where
  "set_tls me f = py_modify (\<lambda>s. s \<lparr> m_tls := (m_tls s)(me := f (m_tls s me)) \<rparr>)"

definition get_fci :: "nat \<Rightarrow> (func_code_info \<Rightarrow> 'a) \<Rightarrow> (mon, 'a) py" where
  "get_fci n f = py_gets (\<lambda>s. f (m_fci s n))"

definition m_info :: "nat \<Rightarrow> (thread_info \<Rightarrow> 'a) \<Rightarrow> (mon, 'a) py" where
  "m_info i f = on_w (get_info i f)"

definition m_db :: "(pydb \<Rightarrow> 'a) \<Rightarrow> (mon, 'a) py" where
  "m_db f = on_w (get_db f)"

text \<open>\<^verbatim>\<open>py_db is None or py_db.pydb_disposed\<close>\<close>

definition no_debugger :: "(mon, bool) py" where
  "no_debugger = py_gets (\<lambda>s. global_debugger (w_reg (m_w s)) = None \<or> pydb_disposed (w_dbg (m_w s)))"

text \<open>Reading a field of \<^verbatim>\<open>thread_info.additional_info\<close> when it is None is undefined in the generated C, which
  does not check for None; it is an exception of its own here.\<close>

definition undefined_access :: pyexc where
  "undefined_access = UserExc ''field of None''"

definition additional_info :: "mon_thread_info \<Rightarrow> (mon, nat) py" where
  "additional_info ti = (case ti_info ti of None \<Rightarrow> py_raise undefined_access | Some i \<Rightarrow> py_ret i)"

lemmas mon_access_defs = get_tls_def set_tls_def get_fci_def m_info_def m_db_def no_debugger_def
  additional_info_def

lemma on_w_app [py_simps, simp]: "on_w m s = (case m (m_w s) of (r, w) \<Rightarrow> (r, s \<lparr> m_w := w \<rparr>))"
  by (simp add: on_w_def py_zoom_app)

lemma m_info_app [py_simps, simp]: "m_info i f s = (Inr (f (infos (w_reg (m_w s)) i)), s)"
  by (simp add: m_info_def get_info_def)

lemma m_db_app [py_simps, simp]: "m_db f s = (Inr (f (w_dbg (m_w s))), s)"
  by (simp add: m_db_def get_db_def)

lemma get_tls_app [py_simps, simp]: "get_tls me f s = (Inr (f (m_tls s me)), s)"
  by (simp add: get_tls_def)

lemma set_tls_app [py_simps, simp]:
  "set_tls me f s = (Inr (), s \<lparr> m_tls := (m_tls s)(me := f (m_tls s me)) \<rparr>)"
  by (simp add: set_tls_def)

lemma get_fci_app [py_simps, simp]: "get_fci n f s = (Inr (f (m_fci s n)), s)"
  by (simp add: get_fci_def)

lemma no_debugger_app [py_simps, simp]:
  "no_debugger s = (Inr (global_debugger (w_reg (m_w s)) = None \<or> pydb_disposed (w_dbg (m_w s))), s)"
  by (simp add: no_debugger_def)

text \<open>What the handlers leave unchanged.\<close>

lemma keeps_on_w: "keeps g m \<Longrightarrow> (\<And>s w. g w = g (m_w s) \<Longrightarrow> f (s \<lparr> m_w := w \<rparr>) = f s) \<Longrightarrow> keeps f (on_w m)"
  unfolding on_w_def by (rule keeps_zoom)

lemma keeps_on_w_outside [keeps_rules]: "(\<And>s w. f (s \<lparr> m_w := w \<rparr>) = f s) \<Longrightarrow> keeps f (on_w m)"
  by (simp add: keeps_def split: prod.split)

lemma keeps_mon_access [keeps_rules]:
  "keeps f (m_info i g)" "keeps f (m_db h)" "keeps f (get_tls me k)" "keeps f (get_fci n l)"
  "keeps f no_debugger" "keeps f (additional_info ti)"
  by (simp_all add: keeps_def additional_info_def split: option.split)

lemma keeps_set_tls [keeps_rules]:
  "(\<And>s t. f (s \<lparr> m_tls := t \<rparr>) = f s) \<Longrightarrow> keeps f (set_tls me g)"
  by (simp add: keeps_def)

section \<open>The calls of \<^verbatim>\<open>sys.monitoring\<close>\<close>

definition ValueError :: pyexc where "ValueError = UserExc ''builtins.ValueError''"

definition upd_mo :: "(monitor \<Rightarrow> monitor) \<Rightarrow> (mon, unit) py" where
  "upd_mo f = py_modify (\<lambda>s. s \<lparr> m_mo := f (m_mo s) \<rparr>)"

definition get_mo :: "(monitor \<Rightarrow> 'a) \<Rightarrow> (mon, 'a) py" where
  "get_mo f = py_gets (\<lambda>s. f (m_mo s))"

text \<open>The tool identifier must be in use (not in use) for most calls.\<close>

definition mo_in_use :: "(mon, unit) py" where
  "mo_in_use = py_bind (get_mo mo_tool) (\<lambda>t. if t = None then py_raise ValueError else py_ret ())"

definition mo_use_tool_id :: "string \<Rightarrow> (mon, unit) py" where
  "mo_use_tool_id name = py_bind (get_mo mo_tool) (\<lambda>t.
     if t \<noteq> None then py_raise ValueError else upd_mo (\<lambda>m. m \<lparr> mo_tool := Some name \<rparr>))"

definition mo_free_tool_id :: "(mon, unit) py" where
  "mo_free_tool_id = upd_mo (\<lambda>m. m \<lparr> mo_tool := None \<rparr>)"

definition mo_register_callback :: "mon_event \<Rightarrow> mon_callback option \<Rightarrow> (mon, unit) py" where
  "mo_register_callback e c = upd_mo (\<lambda>m. m \<lparr> mo_callbacks := (mo_callbacks m)(e := c) \<rparr>)"

definition mo_set_events :: "mon_event set \<Rightarrow> (mon, unit) py" where
  "mo_set_events es = py_then mo_in_use (upd_mo (\<lambda>m. m \<lparr> mo_events := es \<rparr>))"

definition mo_get_local_events :: "code \<Rightarrow> (mon, mon_event set) py" where
  "mo_get_local_events c = py_then mo_in_use (get_mo (\<lambda>m. mo_local m c))"

definition mo_set_local_events :: "code \<Rightarrow> mon_event set \<Rightarrow> (mon, unit) py" where
  "mo_set_local_events c es = py_then mo_in_use
     (upd_mo (\<lambda>m. m \<lparr> mo_local := (mo_local m)(c := es) \<rparr>))"

definition mo_restart_events :: "(mon, unit) py" where
  "mo_restart_events = upd_mo (\<lambda>m. m \<lparr> mo_restarts := mo_restarts m + 1 \<rparr>)"

lemma upd_mo_app [py_simps, simp]: "upd_mo f s = (Inr (), s \<lparr> m_mo := f (m_mo s) \<rparr>)"
  by (simp add: upd_mo_def)

lemma get_mo_app [py_simps, simp]: "get_mo f s = (Inr (f (m_mo s)), s)"
  by (simp add: get_mo_def)

lemma mo_in_use_app [py_simps]:
  "mo_in_use s = (if mo_tool (m_mo s) = None then Inl ValueError else Inr (), s)"
  by (simp add: mo_in_use_def py_simps)

lemmas mo_defs = mo_use_tool_id_def mo_free_tool_id_def mo_register_callback_def mo_set_events_def
  mo_get_local_events_def mo_set_local_events_def mo_restart_events_def

lemma keeps_mo_read [keeps_rules]: "keeps f (get_mo g)" "keeps f mo_in_use"
  by (simp_all add: keeps_def mo_in_use_app)

lemma keeps_upd_mo [keeps_rules]: "(\<And>s. f (s \<lparr> m_mo := g (m_mo s) \<rparr>) = f s) \<Longrightarrow> keeps f (upd_mo g)"
  by (simp add: keeps_def)

lemma keeps_mo [keeps_rules]:
  assumes "\<And>s m. f (s \<lparr> m_mo := m \<rparr>) = f s"
  shows "keeps f (mo_use_tool_id n)" "keeps f mo_free_tool_id" "keeps f (mo_register_callback e c)"
    "keeps f (mo_set_events es)" "keeps f (mo_get_local_events k)" "keeps f (mo_set_local_events k es)"
    "keeps f mo_restart_events"
  unfolding mo_defs by (intro keeps_rules assms)+

end
