(* ===== verification/MonCode.thy ===== *)
theory MonCode
  imports MonState ThreadTracer "HOL-Library.AList"
begin

text \<open>
  Threads, code objects and local events of the \<^verbatim>\<open>sys.monitoring\<close> backend: \<^verbatim>\<open>ThreadInfo\<close> and how it is found,
  \<^verbatim>\<open>FuncCodeInfo\<close> with its cache, the functions that enable events and start and stop monitoring.
\<close>

section \<open>The frames that start a thread\<close>

text \<open>\<^verbatim>\<open>splitext(basename(filename))[0]\<close>; a name that starts with its only dots has no extension.\<close>

definition path_stem :: "string \<Rightarrow> string" where
  "path_stem filename =
     (let base = drop (nat (rfind CHR ''/'' filename + 1)) filename;
          stem = take (nat (rfind CHR ''.'' base)) base
      in if list_ex (\<lambda>c. c \<noteq> CHR ''.'') stem then stem else base)"

definition frame_stem :: "frame \<Rightarrow> string" where
  "frame_stem f = path_stem (co_filename (f_code f))"

text \<open>The loop of \<^verbatim>\<open>_get_bootstrap_frame\<close>.\<close>

fun find_bootstrap :: "frame \<Rightarrow> frame option \<times> bool" where
  "find_bootstrap (Frame i c b) =
     (let f = Frame i c b; name = frame_stem f; fn = co_name c;
          continue = (case b of None \<Rightarrow> (None, False) | Some g \<Rightarrow> find_bootstrap g) in
      if name = ''threading'' then
        (if fn \<in> {''__bootstrap'', ''_bootstrap''} then (None, False)
         else if fn \<in> {''__bootstrap_inner'', ''_bootstrap_inner'', ''is_alive''} then (Some f, True)
         else continue)
      else if name = ''pydev_monkey'' then
        (if fn = ''__call__'' then (Some f, True) else continue)
      else if name = ''pydevd'' then
        (if fn \<in> {''run'', ''main''} then (None, False)
         else if fn = ''_exec'' then (Some f, True) else continue)
      else if b = None then (Some f, False)
      else continue)"

definition get_bootstrap_frame :: "int \<Rightarrow> frame \<Rightarrow> (mon, frame option \<times> bool) py" where
  "get_bootstrap_frame me cur =
     py_bind (get_tls me tl_bootstrap) (\<lambda>known.
       case known of
         Some (f, internal) \<Rightarrow> py_ret (Some f, internal)
       | None \<Rightarrow>
           (case find_bootstrap cur of
              (None, internal) \<Rightarrow> py_ret (None, internal)
            | (Some f, internal) \<Rightarrow>
                py_then (set_tls me (\<lambda>t. t \<lparr> tl_bootstrap := Some (f, internal) \<rparr>))
                  (py_ret (Some f, internal))))"

text \<open>\<^verbatim>\<open>_get_unhandled_exception_frame\<close>: the last frame before the code that runs threads.\<close>

definition runs_threads :: "frame \<Rightarrow> bool" where
  "runs_threads f =
     (let name = frame_stem f; fn = co_name (f_code f) in
      if name = ''threading''
      then fn \<in> {''__bootstrap'', ''_bootstrap'', ''__bootstrap_inner'', ''_bootstrap_inner'', ''run''}
      else if name = ''pydev_monkey'' then fn = ''__call__''
      else if name = ''pydevd'' then fn \<in> {''_exec'', ''run'', ''main''}
      else if name \<in> {''pydevd_runpy'', ''<frozen runpy>'', ''runpy''}
      then prefix ''run'' fn \<or> prefix ''_run'' fn
      else False)"

fun unhandled_from :: "frame \<Rightarrow> frame" where
  "unhandled_from (Frame i c b) =
     (case b of
        None \<Rightarrow> Frame i c b
      | Some g \<Rightarrow> if runs_threads g then Frame i c b else unhandled_from g)"

definition get_unhandled_exception_frame :: "int \<Rightarrow> frame \<Rightarrow> mon_exc \<Rightarrow> (mon, frame) py" where
  "get_unhandled_exception_frame me cur exc =
     py_bind (get_tls me tl_unhandled) (\<lambda>known.
       let search = py_then
             (set_tls me (\<lambda>t. t \<lparr> tl_unhandled := Some (x_id exc, unhandled_from cur) \<rparr>))
             (py_ret (unhandled_from cur)) in
       case known of
         Some (x, f) \<Rightarrow> if x = x_id exc then py_ret f
                        else py_then (set_tls me (\<lambda>t. t \<lparr> tl_unhandled := None \<rparr>)) search
       | None \<Rightarrow> search)"

section \<open>\<^verbatim>\<open>ThreadInfo\<close>\<close>

text \<open>\<^verbatim>\<open>ThreadInfo.__init__\<close>\<close>

definition new_ThreadInfo :: "nat \<Rightarrow> int \<Rightarrow> bool \<Rightarrow> nat option \<Rightarrow> (mon, mon_thread_info) py" where
  "new_ThreadInfo t ident trace info =
     py_gets (\<lambda>s. \<lparr> ti_thread = t, ti_ident = ident, ti_info = info, ti_trace = trace,
                    ti_use_is_stopped = (m_is_stopped s t \<noteq> None) \<rparr>)"

definition mon_is_thread_alive :: "mon_thread_info \<Rightarrow> (mon, bool) py" where
  "mon_is_thread_alive ti =
     (if ti_use_is_stopped ti then
        py_bind (py_gets (\<lambda>s. m_is_stopped s (ti_thread ti)))
          (\<lambda>st. case st of None \<Rightarrow> py_raise AttributeError | Some b \<Rightarrow> py_ret (\<not> b))
      else py_gets (\<lambda>s. t_alive (threads (w_reg (m_w s)) (ti_thread ti))))"

text \<open>\<^verbatim>\<open>threading.current_thread()\<close>: a thread that is not active gets a dummy thread.\<close>

definition mon_current_thread :: "mservices \<Rightarrow> int \<Rightarrow> (mon, nat) py" where
  "mon_current_thread ms me = (\<lambda>s.
     let r = w_reg (m_w s) in
     case active r me of
       Some t \<Rightarrow> (Inr t, s)
     | None \<Rightarrow>
         (let t = ms_dummy_thread ms me;
              dummy = \<lparr> t_ident = Some me, t_alive = True, t_collected = False, t_additional_info = None,
                        t_do_not_trace = False, t_stop_reason = 0 \<rparr>;
              r' = r \<lparr> active := (active r)(me \<mapsto> t), threads := (threads r)(t := dummy) \<rparr>
          in (Inr t, s \<lparr> m_w := (m_w s) \<lparr> w_reg := r' \<rparr>, m_dummy := (m_dummy s)(t := True),
                          m_threads := m_threads s @ [t] \<rparr>)))"

text \<open>\<^verbatim>\<open>_DeleteDummyThreadOnDel.__del__\<close>, run when the thread-local values of the thread are dropped.\<close>

definition delete_dummy_thread :: "int \<Rightarrow> nat \<Rightarrow> registry \<Rightarrow> registry" where
  "delete_dummy_thread ident t r =
     (if active r ident = Some t then r \<lparr> active := (active r)(ident := None) \<rparr> else r)"

definition bootstrap_thread :: "mservices \<Rightarrow> frame \<Rightarrow> nat option" where
  "bootstrap_thread ms f =
     (let fn = co_name (f_code f) in
      if fn \<in> {''__bootstrap_inner'', ''_bootstrap_inner'', ''is_alive''} then ms_frame_thread ms f ''self''
      else if fn \<in> {''_exec'', ''__call__''} then ms_frame_thread ms f ''t''
      else None)"

definition create_thread_info :: "mservices \<Rightarrow> int \<Rightarrow> frame \<Rightarrow> (mon, mon_thread_info option) py" where
  "create_thread_info ms me cur =
     py_bind (get_bootstrap_frame me cur) (\<lambda>(f_bootstrap, internal).
       case f_bootstrap of
         None \<Rightarrow> py_ret None
       | Some f \<Rightarrow>
           py_bind (if internal then py_ret (bootstrap_thread ms f)
                    else py_bind (mon_current_thread ms me) (\<lambda>t. py_ret (Some t))) (\<lambda>t0.
             py_bind (py_gets id) (\<lambda>s.
               case (case t0 of Some t \<Rightarrow> Some t | None \<Rightarrow> active (w_reg (m_w s)) me) of
                 None \<Rightarrow> py_ret None
               | Some t \<Rightarrow>
                   py_then
                     (if m_dummy s t \<and> \<not> ms_py313 ms
                      then set_tls me (\<lambda>l. l \<lparr> tl_dummy_ref := Some t \<rparr>) else py_ret ())
                     (if m_daemon s t
                      then py_bind (new_ThreadInfo t me False None) (\<lambda>ti. py_ret (Some ti))
                      else py_bind (on_w (ensure_info t)) (\<lambda>i.
                             py_bind (new_ThreadInfo t me True (Some i)) (\<lambda>ti. py_ret (Some ti)))))))"

definition get_thread_info :: "mservices \<Rightarrow> bool \<Rightarrow> int \<Rightarrow> frame \<Rightarrow> (mon, mon_thread_info option) py" where
  "get_thread_info ms create me cur =
     py_bind (get_tls me tl_thread_info) (\<lambda>known.
       case known of
         Some ti \<Rightarrow> py_ret (Some ti)
       | None \<Rightarrow>
           if \<not> create then py_ret None
           else py_bind (create_thread_info ms me cur) (\<lambda>ti.
             case ti of
               None \<Rightarrow> py_ret None
             | Some ti \<Rightarrow> py_then (set_tls me (\<lambda>t. t \<lparr> tl_thread_info := Some ti \<rparr>)) (py_ret (Some ti))))"

definition reset_thread_local_info :: "(mon, unit) py" where
  "reset_thread_local_info = py_modify (\<lambda>s. s \<lparr> m_tls := (\<lambda>_. empty_tls) \<rparr>)"

section \<open>\<^verbatim>\<open>FuncCodeInfo\<close>\<close>

text \<open>\<^verbatim>\<open>co_lines\<close> gives half-open ranges; the test includes the end of the range.\<close>

fun line_of_offset :: "(int option \<times> int option \<times> int option) list \<Rightarrow> int \<Rightarrow> int" where
  "line_of_offset [] offset = -1"
| "line_of_offset ((Some start, Some stop, Some line) # ranges) offset =
     (if start \<le> offset \<and> offset \<le> stop then line else line_of_offset ranges offset)"
| "line_of_offset (r # ranges) offset = line_of_offset ranges offset"

definition get_line_of_offset :: "mservices \<Rightarrow> nat \<Rightarrow> int \<Rightarrow> (mon, int) py" where
  "get_line_of_offset ms n offset =
     py_bind (get_fci n fc_code_obj) (\<lambda>c.
       case c of None \<Rightarrow> py_raise AttributeError
       | Some c \<Rightarrow> py_ret (line_of_offset (ms_co_lines ms c) offset))"

definition lines_of_code :: "code \<Rightarrow> (int \<times> int) list" where
  "lines_of_code c = fold (\<lambda>(offset, line) d. case line of None \<Rightarrow> d | Some n \<Rightarrow> AList.update n offset d)
     (co_linestarts c) []"

text \<open>The bounds are None without a line, and the constructor takes C ints.\<close>

definition get_code_line_info :: "code \<Rightarrow> (mon, code_line_info) py" where
  "get_code_line_info c =
     py_bind (py_gets (\<lambda>s. m_line_info s (code_key c))) (\<lambda>cached.
       case cached of
         Some li \<Rightarrow> py_ret li
       | None \<Rightarrow>
           (let d = lines_of_code c; ls = fst ` set d;
                lo = (if d = [] then None else Some (Min ls));
                hi = (if d = [] then None else Some (Max ls)) in
            py_bind (py_lift (opt_as_cint lo)) (\<lambda>lo.
              py_bind (py_lift (opt_as_cint hi)) (\<lambda>hi.
                let li = \<lparr> line_to_offset = d, first_line = lo, last_line = hi \<rparr> in
                py_then (py_modify (\<lambda>s. s \<lparr> m_line_info := (m_line_info s)(code_key c \<mapsto> li) \<rparr>))
                  (py_ret li)))))"

text \<open>\<^verbatim>\<open>_code_to_func_code_info_cache[code_obj] = func_code_info; return func_code_info\<close>\<close>

definition store_fci :: "code \<Rightarrow> func_code_info \<Rightarrow> (mon, nat option) py" where
  "store_fci c x = (\<lambda>s. (Inr (Some (m_fci_fresh s)),
     s \<lparr> m_fci := (m_fci s)(m_fci_fresh s := x), m_fci_fresh := m_fci_fresh s + 1,
         m_fci_cache := (m_fci_cache s)(code_key c \<mapsto> m_fci_fresh s) \<rparr>))"

text \<open>The cached type of the file, or the answer of \<^verbatim>\<open>get_file_type\<close>, which fills the cache. The frame must run
  the code.\<close>

definition file_type_of :: "mservices \<Rightarrow> code \<Rightarrow> string \<Rightarrow> frame \<Rightarrow> (mon, int option) py" where
  "file_type_of ms c path fr =
     (let key = (co_firstlineno c, path, code_key c) in
      py_bind (py_gets (\<lambda>s. m_file_types s key)) (\<lambda>cached.
        case cached of
          Some ty \<Rightarrow> py_ret ty
        | None \<Rightarrow>
            if f_code fr \<noteq> c then py_raise AssertionError
            else (let ty = sv_get_file_type (ms_sv ms) fr in
              py_then (py_modify (\<lambda>s. s \<lparr> m_file_types := (m_file_types s)(key \<mapsto> ty) \<rparr>)) (py_ret ty))))"

definition fci_breakpoints :: "pydb \<Rightarrow> code_line_info \<Rightarrow> func_code_info \<Rightarrow> func_code_info" where
  "fci_breakpoints db li x =
     (let x1 = (case function_breakpoint_name_to_breakpoint db (fc_co_name x) of
                  None \<Rightarrow> x
                | Some b \<Rightarrow> x \<lparr> function_breakpoint_found := True, function_breakpoint := Some b \<rparr>) in
      case breakpoints db (canonical_normalized_filename x) of
        None \<Rightarrow> x1
      | Some [] \<Rightarrow> x1
      | Some bps \<Rightarrow>
          (let here = filter (\<lambda>(l, b). l \<in> fst ` set (line_to_offset li)) bps in
           x1 \<lparr> breakpoint_found := here \<noteq> [], bp_line_to_breakpoint := here \<rparr>))"

definition fci_plugin :: "mservices \<Rightarrow> pydb \<Rightarrow> frame \<Rightarrow> func_code_info \<Rightarrow> func_code_info" where
  "fci_plugin ms db fr x =
     (if has_plugin db \<and> mp_is_tracked_frame ms fr then
        (let x1 = (if has_plugin_line_breaks db then
                     x \<lparr> plugin_line_breakpoint_found := ''line'' \<in> set (mp_required_events_breakpoint ms),
                         plugin_call_breakpoint_found := ''call'' \<in> set (mp_required_events_breakpoint ms) \<rparr>
                   else x)
         in x1 \<lparr> plugin_line_stepping := ''line'' \<in> set (mp_required_events_stepping ms),
                 plugin_call_stepping := ''call'' \<in> set (mp_required_events_stepping ms),
                 plugin_return_stepping := ''return'' \<in> set (mp_required_events_stepping ms) \<rparr>)
      else x)"

definition fci_of_user_code ::
  "mservices \<Rightarrow> code \<Rightarrow> frame \<Rightarrow> code_line_info \<Rightarrow> func_code_info \<Rightarrow> (mon, nat option) py" where
  "fci_of_user_code ms c fr li x =
     (let sv = ms_sv ms; filtered = sv_apply_files_filter sv fr (abs_path_filename x) in
      py_bind (m_db id) (\<lambda>db.
        if f_code fr \<noteq> c then py_raise AssertionError
        else if (case sv_should_trace_hook sv of None \<Rightarrow> False | Some h \<Rightarrow> \<not> h c (abs_path_filename x))
        then store_fci c (x \<lparr> always_filtered_out := True \<rparr>)
        else
          (let x1 = x \<lparr> filtered_out_force_checked := filtered True,
                        always_filtered_out := is_files_filter_enabled db \<and> filtered False \<rparr> in
           if always_filtered_out x1 then store_fci c x1
           else store_fci c (fci_plugin ms db fr (fci_breakpoints db li x1)))))"

text \<open>
  \<^verbatim>\<open>_get_func_code_info\<close>. \<open>fr\<close> is the frame given, or the frame of the event when a depth is
  given: \<^verbatim>\<open>_getframe\<close> ignores the depth.
\<close>

definition build_func_code_info :: "mservices \<Rightarrow> code \<Rightarrow> frame \<Rightarrow> int \<Rightarrow> (mon, nat option) py" where
  "build_func_code_info ms c fr db_mtime =
     (let path = ms_abs_path_of_file ms (co_filename c) in
      py_bind (get_code_line_info c) (\<lambda>li.
        py_bind (py_lift (int_as_cint db_mtime)) (\<lambda>mtime.
          let x = new_FuncCodeInfo \<lparr> fc_code_obj := Some c, pydb_mtime := mtime,
                    fc_co_filename := co_filename c, fc_co_name := co_name c,
                    abs_path_filename := fst path,
                    canonical_normalized_filename := fst (snd path) \<rparr> in
          py_bind (file_type_of ms c (fst path) fr) (\<lambda>ty.
            if ty \<noteq> None
            then store_fci c (x \<lparr> always_skip_code := True, always_filtered_out := True \<rparr>)
            else fci_of_user_code ms c fr li x))))"

definition get_func_code_info :: "mservices \<Rightarrow> code \<Rightarrow> frame \<Rightarrow> (mon, nat option) py" where
  "get_func_code_info ms c fr =
     py_bind (py_gets id) (\<lambda>s.
       if global_debugger (w_reg (m_w s)) = None then py_ret None
       else case m_fci_cache s (code_key c) of
         None \<Rightarrow> build_func_code_info ms c fr (m_mtime s)
       | Some n \<Rightarrow>
           if sint (pydb_mtime (m_fci s n)) = m_mtime s then py_ret (Some n)
           else build_func_code_info ms c fr (m_mtime s))"

section \<open>Global events\<close>

text \<open>A thread that is suspended or stepping, among the threads that may be traced.\<close>

definition some_thread_stops :: "registry \<Rightarrow> nat list \<Rightarrow> bool" where
  "some_thread_stops r ts = list_ex (\<lambda>t.
     \<not> t_do_not_trace (threads r t) \<and>
     (case t_additional_info (threads r t) of
        None \<Rightarrow> False
      | Some i \<Rightarrow> pydev_step_cmd (infos r i) \<noteq> -1 \<or> pydev_state (infos r i) = STATE_SUSPEND)) ts"

definition has_some_breakpoint :: "mon \<Rightarrow> bool" where
  "has_some_breakpoint s =
     (let db = w_dbg (m_w s) in
      has_plugin_line_breaks db \<or> m_fn_bp_names s \<noteq> [] \<or>
      list_ex (\<lambda>f. case breakpoints db f of None \<Rightarrow> False | Some bps \<Rightarrow> bps \<noteq> []) (m_bp_files s))"

definition exception_events :: "bool \<Rightarrow> bool \<Rightarrow> mon_event set" where
  "exception_events caught uncaught =
     (if caught then {RAISE, PY_UNWIND} else if uncaught then {PY_UNWIND} else {})"

definition register_exception_callbacks :: "bool \<Rightarrow> bool \<Rightarrow> (mon, unit) py" where
  "register_exception_callbacks caught uncaught =
     (if caught then
        py_then (mo_register_callback RAISE (Some RaiseEvent))
          (mo_register_callback PY_UNWIND (Some UnwindEvent))
      else if uncaught then mo_register_callback PY_UNWIND (Some UnwindEvent)
      else py_then (mo_register_callback RAISE None) (mo_register_callback PY_UNWIND None))"

definition register_code_callbacks :: "bool \<Rightarrow> bool \<Rightarrow> (mon, unit) py" where
  "register_code_callbacks py313 tracked =
     (if tracked then
        py_then (mo_register_callback PY_START (Some StartMethodEvent))
          (py_then (mo_register_callback LINE (Some LineEvent))
            (py_then (if py313 then py_ret () else mo_register_callback JUMP (Some JumpEvent))
              (mo_register_callback PY_RETURN (Some ReturnEvent))))
      else py_for [PY_START, PY_RESUME, LINE, JUMP, PY_RETURN] (\<lambda>e. mo_register_callback e None))"

definition update_monitor_events :: "mservices \<Rightarrow> bool option \<Rightarrow> (mon, unit) py" where
  "update_monitor_events ms suspend_requested =
     py_bind (get_mo mo_tool) (\<lambda>tool.
       if tool \<noteq> Some ''pydevd'' then py_ret ()
       else
         py_bind (py_gets id) (\<lambda>s.
           if global_debugger (w_reg (m_w s)) = None then py_ret ()
           else
             (let suspend = (case suspend_requested of
                               Some b \<Rightarrow> b | None \<Rightarrow> some_thread_stops (w_reg (m_w s)) (m_threads s));
                  caught = has_exception_breakpoints (w_dbg (m_w s));
                  uncaught = m_break_on_uncaught s;
                  tracked = (has_some_breakpoint s \<or> suspend) in
              py_then (register_exception_callbacks caught uncaught)
                (py_then (register_code_callbacks (ms_py313 ms) tracked)
                  (mo_set_events (exception_events caught uncaught \<union>
                     (if tracked then {PY_START, PY_RESUME} else {})))))))"

definition restart_events :: "(mon, unit) py" where
  "restart_events = mo_restart_events"

definition ensure_monitoring :: "mservices \<Rightarrow> (mon, unit) py" where
  "ensure_monitoring ms =
     py_bind (get_mo mo_tool) (\<lambda>tool.
       if tool = None \<or> tool = Some [] then
         py_then (mo_use_tool_id ''pydevd'')
           (py_then (update_monitor_events ms None) restart_events)
       else py_ret ())"

section \<open>Local events\<close>

definition enable_line_tracing :: "mservices \<Rightarrow> code \<Rightarrow> (mon, unit) py" where
  "enable_line_tracing ms c =
     py_then (ensure_monitoring ms)
       (py_bind (mo_get_local_events c) (\<lambda>es. mo_set_local_events c (es \<union> {LINE, JUMP})))"

definition enable_return_tracing :: "mservices \<Rightarrow> code \<Rightarrow> (mon, unit) py" where
  "enable_return_tracing ms c =
     py_then (ensure_monitoring ms)
       (py_bind (mo_get_local_events c) (\<lambda>es. mo_set_local_events c (es \<union> {PY_RETURN})))"

definition disable_code_tracing :: "mservices \<Rightarrow> code \<Rightarrow> (mon, unit) py" where
  "disable_code_tracing ms c = py_then (ensure_monitoring ms) (mo_set_local_events c {})"

definition mon_is_same_frame :: "mservices \<Rightarrow> thread_info \<Rightarrow> frame option \<Rightarrow> frame option \<Rightarrow> bool" where
  "mon_is_same_frame ms i target current =
     is_same_frame (sv_ipython_context (ms_sv ms)) (pydev_use_scoped_step_frame i) target current"

definition enable_step_tracing :: "mservices \<Rightarrow> code \<Rightarrow> cint \<Rightarrow> nat \<Rightarrow> frame \<Rightarrow> (mon, unit) py" where
  "enable_step_tracing ms c step_cmd info fr =
     py_bind (m_info info id) (\<lambda>i.
       py_bind (m_db show_return_values) (\<lambda>show.
         let both = py_then (enable_line_tracing ms c) (enable_return_tracing ms c);
             same = mon_is_same_frame ms i (pydev_step_stop i) in
         if step_cmd \<in> {CMD_STEP_INTO, CMD_STEP_INTO_MY_CODE, CMD_STEP_INTO_COROUTINE, CMD_SMART_STEP_INTO}
         then both
         else if step_cmd \<in> {CMD_STEP_RETURN, CMD_STEP_RETURN_MY_CODE} \<and> same (Some fr)
         then enable_return_tracing ms c
         else if step_cmd \<in> {CMD_STEP_OVER, CMD_STEP_OVER_MY_CODE} then
           (if same (Some fr) then both
            else if show \<and> same (f_back fr) then enable_return_tracing ms c
            else py_ret ())
         else py_ret ()))"

text \<open>\<^verbatim>\<open>_notify_skipped_step_in_because_of_filters\<close>\<close>

definition mon_notify_skipped :: "mservices \<Rightarrow> frame \<Rightarrow> (mon, unit) py" where
  "mon_notify_skipped ms fr =
     py_bind (py_gets m_notified) (\<lambda>notified.
       if notified then py_ret ()
       else py_then (py_modify (\<lambda>s. s \<lparr> m_notified := True \<rparr>))
              (on_w (do_call (CallNotifySkipped (f_id fr)) (sv_notify_skipped (ms_sv ms) fr))))"

definition enable_code_tracing_of ::
  "mservices \<Rightarrow> nat \<Rightarrow> nat \<Rightarrow> code \<Rightarrow> frame \<Rightarrow> bool \<Rightarrow> (mon, bool) py" where
  "enable_code_tracing_of ms info n c fr warn_on_filtered_out =
     py_bind (m_info info id) (\<lambda>i.
       py_bind (get_fci n id) (\<lambda>x.
         let step_cmd = pydev_step_cmd i; stepping = (step_cmd \<noteq> -1) in
         if always_filtered_out x then
           py_then
             (py_bind (py_gets m_notified) (\<lambda>notified.
               if warn_on_filtered_out \<and> stepping \<and>
                  pydev_original_step_cmd i \<in> {CMD_STEP_INTO, CMD_STEP_INTO_MY_CODE} \<and> \<not> notified
               then mon_notify_skipped ms fr else py_ret ()))
             (if stepping then py_then (enable_step_tracing ms c step_cmd info fr) (py_ret True)
              else py_ret False)
         else
           py_bind
             (if breakpoint_found x \<or> plugin_line_breakpoint_found x
              then py_then (enable_line_tracing ms c) (py_ret True) else py_ret False)
             (\<lambda>added.
               if stepping then py_then (enable_step_tracing ms c step_cmd info fr) (py_ret True)
               else py_ret added)))"

text \<open>\<^verbatim>\<open>enable_code_tracing\<close>: the entry point for frames of any thread.\<close>

definition enable_code_tracing :: "mservices \<Rightarrow> int \<Rightarrow> code \<Rightarrow> frame \<Rightarrow> (mon, bool) py" where
  "enable_code_tracing ms ident c fr =
     py_bind no_debugger (\<lambda>none.
       if none then py_ret False
       else
         py_bind (get_func_code_info ms c fr) (\<lambda>n.
           case n of
             None \<Rightarrow> py_raise undefined_access
           | Some n \<Rightarrow>
               py_bind (get_fci n always_skip_code) (\<lambda>skip.
                 if skip then py_ret False
                 else
                   py_bind (py_gets (\<lambda>s. active (w_reg (m_w s)) ident)) (\<lambda>t.
                     case t of
                       None \<Rightarrow> py_ret False
                     | Some t \<Rightarrow>
                         py_bind (on_w (ensure_info t)) (\<lambda>info.
                           enable_code_tracing_of ms info n c fr False)))))"

section \<open>Start and stop\<close>

definition start_monitoring :: "mservices \<Rightarrow> bool \<Rightarrow> int \<Rightarrow> frame \<Rightarrow> (mon, unit) py" where
  "start_monitoring ms all_threads me cur =
     (if all_threads then ensure_monitoring ms
      else py_bind (get_thread_info ms True me cur) (\<lambda>ti.
        case ti of
          None \<Rightarrow> py_ret ()
        | Some ti \<Rightarrow> set_tls me (\<lambda>t. t \<lparr> tl_thread_info := Some (ti \<lparr> ti_trace := True \<rparr>) \<rparr>)))"

definition stop_monitoring :: "mservices \<Rightarrow> bool \<Rightarrow> int \<Rightarrow> frame \<Rightarrow> (mon, unit) py" where
  "stop_monitoring ms all_threads me cur =
     (if all_threads then
        py_bind (get_mo mo_tool) (\<lambda>tool.
          if tool = Some ''pydevd'' then
            py_then (mo_set_events {})
              (py_then (py_for [PY_START, PY_RESUME, LINE, JUMP, PY_RETURN, RAISE]
                         (\<lambda>e. mo_register_callback e None))
                mo_free_tool_id)
          else py_ret ())
      else py_bind (get_thread_info ms False me cur) (\<lambda>ti.
        case ti of
          None \<Rightarrow> py_ret ()
        | Some ti \<Rightarrow> set_tls me (\<lambda>t. t \<lparr> tl_thread_info := Some (ti \<lparr> ti_trace := False \<rparr>) \<rparr>)))"

end
