(* ===== verification/MonEvents.thy ===== *)
theory MonEvents
  imports MonCode
begin

text \<open>
  The event handlers of the \<^verbatim>\<open>sys.monitoring\<close> backend, as registered by \<open>update_monitor_events\<close>: \<open>start_method_event\<close>,
  \<open>line_event\<close>, \<open>jump_event\<close>, \<open>return_event\<close>, \<open>raise_event\<close> and \<open>unwind_event\<close>.
\<close>

type_synonym 'a mflow = "(mon, (mon_result, 'a) flow) py"

definition m_return :: "mon_result \<Rightarrow> 'a mflow" where
  "m_return r = py_ret (Return r)"

definition m_next :: "'a \<Rightarrow> 'a mflow" where
  "m_next x = py_ret (Next x)"

section \<open>What all handlers start with\<close>

definition enter_event :: "mservices \<Rightarrow> int \<Rightarrow> frame \<Rightarrow> mon_result \<Rightarrow> mon_thread_info mflow" where
  "enter_event ms me cur disposed =
     py_bind (get_thread_info ms True me cur) (\<lambda>ti.
       case ti of
         None \<Rightarrow> m_return M_None
       | Some ti \<Rightarrow> py_bind no_debugger (\<lambda>none. if none then m_return disposed else m_next ti))"

definition check_traced :: "mon_thread_info \<Rightarrow> unit mflow" where
  "check_traced ti =
     (if \<not> ti_trace ti then m_return M_None
      else py_bind (mon_is_thread_alive ti) (\<lambda>alive. if alive then m_next () else m_return M_None))"

text \<open>The information on the code; without a debugger, which was just checked, there is none.\<close>

definition code_info :: "mservices \<Rightarrow> code \<Rightarrow> frame \<Rightarrow> (mon, nat) py" where
  "code_info ms c fr = py_bind (get_func_code_info ms c fr) (\<lambda>n.
     case n of None \<Rightarrow> py_raise undefined_access | Some n \<Rightarrow> py_ret n)"

definition check_code :: "mservices \<Rightarrow> frame \<Rightarrow> (func_code_info \<Rightarrow> bool) \<Rightarrow> mon_result \<Rightarrow> nat mflow" where
  "check_code ms cur skip skipped =
     py_bind (code_info ms (f_code cur) cur) (\<lambda>n.
       py_bind (get_fci n skip) (\<lambda>b. if b then m_return skipped else m_next n))"

section \<open>Suspending\<close>

definition mon_do_wait_suspend ::
  "mservices \<Rightarrow> mon_thread_info \<Rightarrow> frame \<Rightarrow> string \<Rightarrow> trace_arg \<Rightarrow> (mon, unit) py" where
  "mon_do_wait_suspend ms ti fr event arg =
     py_bind (additional_info ti) (\<lambda>info.
       on_w (py_then (set_info info (\<lambda>i. i \<lparr> trace_suspend_type := Some ''sys_monitor'' \<rparr>))
         (do_wait_suspend (ms_sv ms) (ti_thread ti) fr event arg)))"

definition mon_suspend_for_step ::
  "mservices \<Rightarrow> mon_thread_info \<Rightarrow> nat \<Rightarrow> cint \<Rightarrow> frame \<Rightarrow> string \<Rightarrow> trace_arg \<Rightarrow> (mon, unit) py" where
  "mon_suspend_for_step ms ti info step_cmd fr event arg =
     py_bind (m_info info pydev_original_step_cmd) (\<lambda>orig.
       py_then (on_w (set_suspend (ms_sv ms) (ti_thread ti) step_cmd False orig))
         (mon_do_wait_suspend ms ti fr event arg))"

definition mon_stop_on_return ::
  "mservices \<Rightarrow> mon_thread_info \<Rightarrow> nat \<Rightarrow> cint \<Rightarrow> frame \<Rightarrow> trace_arg \<Rightarrow> (mon, unit) py" where
  "mon_stop_on_return ms ti info step_cmd fr retval =
     (case f_back fr of
        None \<Rightarrow> on_w (td_run_free info)
      | Some back \<Rightarrow>
          (let sv = ms_sv ms; path = sv_abs_path sv back; base = snd (snd path) in
           if (base, co_name (f_code back)) \<in> set DEBUG_STARTS then on_w (td_run_free info)
           else if base = TRACE_PROPERTY then py_ret ()
           else if (case sv_should_trace_hook sv of None \<Rightarrow> False | Some h \<Rightarrow> \<not> h (f_code back) (fst path))
           then on_w (do_call (CallSetTraceForFrameAndParents (ti_thread ti) (f_id back))
                  (sv_set_trace_for_frame_and_parents sv (ti_thread ti) back))
           else mon_suspend_for_step ms ti info step_cmd back ''return'' retval))"

text \<open>The part of \<^verbatim>\<open>_stop_on_breakpoint\<close> that decides: does the line stop, does the plugin stop.\<close>

definition mon_breakpoint_decision ::
  "mservices \<Rightarrow> nat \<Rightarrow> breakpoint \<Rightarrow> frame \<Rightarrow> bool \<Rightarrow> bool \<Rightarrow> (mon, bool \<times> bool) py" where
  "mon_breakpoint_decision ms info b new_frame stop plugin =
     on_w (py_then
       (if bp_expression b \<noteq> None
        then do_call (CallExpression (bp_id b)) (sv_handle_breakpoint_expression (ms_sv ms) info b new_frame)
        else py_ret ())
       (py_bind
         (if (stop \<or> plugin) \<and> bp_has_condition b
          then do_call (CallCondition (bp_id b)) (sv_handle_breakpoint_condition (ms_sv ms) info b new_frame)
          else py_ret True)
         (\<lambda>holds.
           let stop1 = (stop \<and> holds); plugin1 = (plugin \<and> holds) in
           if (stop1 \<or> plugin1) \<and> is_logpoint b then
             py_bind (get_info info pydev_message) (\<lambda>msg.
               py_then
                 (case msg of
                    None \<Rightarrow> py_ret ()
                  | Some m \<Rightarrow> if m = [] then py_ret () else emit (OutIoMessage m))
                 (py_ret (False, False)))
           else py_ret (stop1, plugin1))))"

definition mon_stop_on_breakpoint ::
  "mservices \<Rightarrow> mon_thread_info \<Rightarrow> cint \<Rightarrow> breakpoint \<Rightarrow> frame \<Rightarrow> frame \<Rightarrow> bool \<Rightarrow> bool \<Rightarrow> string \<Rightarrow> (mon, bool) py" where
  "mon_stop_on_breakpoint ms ti stop_reason b fr new_frame stop plugin bp_type =
     py_bind (additional_info ti) (\<lambda>info.
       py_bind (mon_breakpoint_decision ms info b new_frame stop plugin) (\<lambda>(stop1, plugin1).
         if stop1 then
           py_then (on_w (set_suspend (ms_sv ms) (ti_thread ti) stop_reason (suspend_policy b = ''ALL'') (-1)))
             (py_then (mon_do_wait_suspend ms ti fr ''line'' ArgNone) (py_ret True))
         else if plugin1 then
           py_bind (on_w (do_call (CallPlugin ''suspend'')
                      (pl_suspend (ms_sv ms) (ti_thread ti) fr (Some bp_type)))) (\<lambda>at.
             py_bind (m_info info pydev_state) (\<lambda>state.
               case at of
                 Some f \<Rightarrow> if state = STATE_SUSPEND
                           then py_then (mon_do_wait_suspend ms ti f ''line'' ArgNone) (py_ret False)
                           else py_ret False
               | None \<Rightarrow> py_ret False))
         else py_ret False))"

definition mon_plugin_stepping ::
  "mservices \<Rightarrow> mon_thread_info \<Rightarrow> nat \<Rightarrow> cint \<Rightarrow> string \<Rightarrow> frame \<Rightarrow> (mon, unit) py" where
  "mon_plugin_stepping ms ti info step_cmd event fr =
     (let sv = ms_sv ms;
          finish = (\<lambda>(r, stop_info). case r of
                      Some (stop, True) \<Rightarrow>
                        do_call (CallPlugin ''stop'') (pl_stop sv fr event (ti_thread ti) stop_info ArgNone step_cmd)
                    | _ \<Rightarrow> py_ret ()) in
      on_w (
        if step_cmd \<in> {CMD_STEP_INTO, CMD_STEP_INTO_MY_CODE, CMD_STEP_INTO_COROUTINE, CMD_SMART_STEP_INTO,
                        CMD_STEP_RETURN, CMD_STEP_RETURN_MY_CODE} then
          py_bind (get_db has_plugin) (\<lambda>p.
            if \<not> p then py_raise AttributeError
            else py_bind (do_call (CallPlugin ''cmd_step_into'')
                   (pl_cmd_step_into sv fr event info (ti_thread ti) [] False)) finish)
        else if step_cmd \<in> {CMD_STEP_OVER, CMD_STEP_OVER_MY_CODE} then
          py_bind (get_db has_plugin) (\<lambda>p.
            if p then py_bind (do_call (CallPlugin ''cmd_step_over'')
                   (pl_cmd_step_over sv fr event info (ti_thread ti) [] False)) finish
            else py_ret ())
        else py_ret ()))"

section \<open>Line events\<close>

text \<open>The smart step into; None when the frame is not one of the two that may stop.\<close>

definition mon_smart_stop ::
  "mservices \<Rightarrow> thread_info \<Rightarrow> (nat \<Rightarrow> int option) \<Rightarrow> (nat \<Rightarrow> int) \<Rightarrow> frame option \<Rightarrow> frame \<Rightarrow> pyexc + bool" where
  "mon_smart_stop ms i lineno lasti stop_frame fr =
     (let same = mon_is_same_frame ms i stop_frame; back = f_back fr in
      if same back then smart_stop_in_parent i lineno lasti stop_frame fr back
      else case back of
        None \<Rightarrow> Inr False
      | Some b \<Rightarrow> if same (f_back b) then smart_stop_in_child i lasti b else Inr False)"

text \<open>A breakpoint of the code on this line; true when the thread was suspended.\<close>

definition line_breakpoint ::
  "mservices \<Rightarrow> mon_thread_info \<Rightarrow> func_code_info \<Rightarrow> frame \<Rightarrow> cint \<Rightarrow> (mon, bool) py" where
  "line_breakpoint ms ti x fr line =
     (if breakpoint_found x then
        (case map_of (bp_line_to_breakpoint x) (sint line) of
           None \<Rightarrow> py_ret False
         | Some b \<Rightarrow> mon_stop_on_breakpoint ms ti CMD_SET_BREAK b fr fr True False ''python-line'')
      else py_ret False)"

text \<open>A breakpoint of the plugin; true when there is one.\<close>

definition plugin_breakpoint ::
  "mservices \<Rightarrow> mon_thread_info \<Rightarrow> nat \<Rightarrow> string \<Rightarrow> bool \<Rightarrow> frame \<Rightarrow> (mon, bool) py" where
  "plugin_breakpoint ms ti info event found fr =
     (if found then
        py_bind (on_w (do_call (CallPlugin ''get_breakpoint'') (pl_get_breakpoint (ms_sv ms) fr event info)))
          (\<lambda>r. case r of
                 None \<Rightarrow> py_ret False
               | Some (b, new_frame, bp_type) \<Rightarrow>
                   py_then (mon_stop_on_breakpoint ms ti CMD_SET_BREAK b fr new_frame False True bp_type)
                     (py_ret True))
      else py_ret False)"

text \<open>The step commands, when the thread runs and steps through Python code.\<close>

definition line_step ::
  "mservices \<Rightarrow> mon_thread_info \<Rightarrow> nat \<Rightarrow> func_code_info \<Rightarrow> frame \<Rightarrow> frame option \<Rightarrow> cint \<Rightarrow> (mon, unit) py" where
  "line_step ms ti info x fr stop_frame step_cmd =
     py_bind (py_gets m_w) (\<lambda>w.
       let i = infos (w_reg w) info; ctx = sv_ipython_context (ms_sv ms);
           suspend = mon_suspend_for_step ms ti info step_cmd fr ''line'' ArgNone in
       if step_cmd \<in> {CMD_STEP_INTO, CMD_STEP_INTO_MY_CODE, CMD_STEP_INTO_COROUTINE} then
         (if always_filtered_out x \<or> step_cmd = CMD_STEP_INTO_MY_CODE \<and> filtered_out_force_checked x
          then py_ret ()
          else if \<not> pydev_use_scoped_step_frame i then suspend
          else if \<not> suffix (fst ctx) (strip_pyc (co_filename (f_code fr))) \<and> stop_inside_ipython ctx fr
          then suspend
          else py_ret ())
       else if step_cmd \<in> {CMD_STEP_OVER, CMD_STEP_OVER_MY_CODE} then
         (if mon_is_same_frame ms i stop_frame (Some fr) then suspend else py_ret ())
       else if step_cmd = CMD_SMART_STEP_INTO then
         py_bind (py_lift (mon_smart_stop ms i (w_lineno w) (w_lasti w) stop_frame fr))
           (\<lambda>stop. if stop then suspend else py_ret ())
       else py_ret ())"

text \<open>\<^verbatim>\<open>_internal_line_event\<close>. The step command is read before the breakpoints are handled.\<close>

definition internal_line_event ::
  "mservices \<Rightarrow> int \<Rightarrow> nat \<Rightarrow> frame \<Rightarrow> cint \<Rightarrow> (mon, mon_result) py" where
  "internal_line_event ms me n fr line =
     py_bind (get_tls me tl_thread_info) (\<lambda>ti.
       case ti of
         None \<Rightarrow> py_raise AttributeError
       | Some ti \<Rightarrow>
           py_bind (additional_info ti) (\<lambda>info.
             py_bind (m_info info pydev_step_cmd) (\<lambda>step_cmd.
               py_bind (get_fci n id) (\<lambda>x.
                 py_bind (line_breakpoint ms ti x fr line) (\<lambda>stopped.
                   if stopped then py_ret M_None
                   else
                     py_bind (plugin_breakpoint ms ti info ''line'' (plugin_line_breakpoint_found x) fr) (\<lambda>hit.
                       if hit then py_ret M_None
                       else
                         py_bind (m_info info id) (\<lambda>i.
                           if pydev_state i = STATE_SUSPEND
                           then py_then (mon_do_wait_suspend ms ti fr ''line'' ArgNone) (py_ret M_None)
                           else if step_cmd = -1 then
                             py_bind (py_gets (\<lambda>s. any_thread_stepping (w_reg (m_w s)))) (\<lambda>any.
                               py_ret (if breakpoint_found x \<or> plugin_line_breakpoint_found x \<or> any
                                       then M_None else M_DISABLE))
                           else if suspend_type i \<noteq> PYTHON_SUSPEND
                           then py_then
                                  (if plugin_line_stepping x
                                   then mon_plugin_stepping ms ti info step_cmd ''line'' fr else py_ret ())
                                  (py_ret M_None)
                           else py_then (line_step ms ti info x fr (pydev_step_stop i) step_cmd)
                                  (py_ret M_None))))))))"

text \<open>\<^verbatim>\<open>line_to_skip is line\<close> compares a Python integer with a fresh object for the C int: only the integers from
  -5 to 256 are one object each.\<close>

definition same_int_object :: "int option \<Rightarrow> cint \<Rightarrow> bool" where
  "same_int_object a line \<longleftrightarrow> a = Some (sint line) \<and> -5 \<le> sint line \<and> sint line \<le> 256"

definition skip_after_jump :: "int \<Rightarrow> frame \<Rightarrow> cint \<Rightarrow> unit mflow" where
  "skip_after_jump me cur line =
     py_bind (get_tls me tl_disable_next_line) (\<lambda>d.
       case d of
         None \<Rightarrow> m_next ()
       | Some (file, line_to_skip) \<Rightarrow>
           py_then (set_tls me (\<lambda>t. t \<lparr> tl_disable_next_line := None \<rparr>))
             (if same_int_object line_to_skip line \<and> file = co_filename (f_code cur)
              then m_return M_None else m_next ()))"

definition line_event :: "mservices \<Rightarrow> int \<Rightarrow> frame \<Rightarrow> cint \<Rightarrow> (mon, mon_result) py" where
  "line_event ms me cur line =
     py_body
       (py_flow (enter_event ms me cur M_DISABLE) (\<lambda>ti.
         py_flow (skip_after_jump me cur line) (\<lambda>_.
           py_flow (check_traced ti) (\<lambda>_.
             check_code ms cur (\<lambda>x. always_skip_code x \<or> always_filtered_out x) M_DISABLE))))
       (\<lambda>n. internal_line_event ms me n cur line)"

text \<open>Only a jump backwards within one line gets a line event of its own.\<close>

definition jump_event :: "mservices \<Rightarrow> int \<Rightarrow> frame \<Rightarrow> cint \<Rightarrow> cint \<Rightarrow> (mon, mon_result) py" where
  "jump_event ms me cur from_offset to_offset =
     py_body
       (py_flow (enter_event ms me cur M_DISABLE) (\<lambda>ti.
         py_then (set_tls me (\<lambda>t. t \<lparr> tl_disable_next_line := None \<rparr>))
           (py_flow (check_traced ti) (\<lambda>_.
             check_code ms cur (\<lambda>x. always_skip_code x \<or> always_filtered_out x) M_DISABLE))))
       (\<lambda>n.
         if sint to_offset > sint from_offset then py_ret M_DISABLE
         else
           py_bind (get_line_of_offset ms n (sint from_offset)) (\<lambda>from_line.
             py_bind (py_lift (int_as_cint from_line)) (\<lambda>from_line.
               py_bind (get_line_of_offset ms n (sint to_offset)) (\<lambda>to_line.
                 py_bind (py_lift (int_as_cint to_line)) (\<lambda>to_line.
                   if from_line \<noteq> to_line then py_ret M_DISABLE
                   else
                     py_bind (on_w (f_lineno cur)) (\<lambda>lineno.
                       py_bind (get_fci n fc_co_filename) (\<lambda>file.
                         py_then (set_tls me (\<lambda>t. t \<lparr> tl_disable_next_line := Some (file, lineno) \<rparr>))
                           (py_bind (py_lift (opt_as_cint lineno)) (\<lambda>line.
                             internal_line_event ms me n cur line)))))))))"

section \<open>Return events\<close>

text \<open>\<^verbatim>\<open>_enable_code_tracing_for_frame_and_parents\<close>\<close>

fun enable_for_stack :: "mservices \<Rightarrow> mon_thread_info \<Rightarrow> frame \<Rightarrow> (mon, unit) py" where
  "enable_for_stack ms ti (Frame i c b) =
     py_bind (code_info ms c (Frame i c b)) (\<lambda>n.
       py_bind (get_fci n always_skip_code) (\<lambda>skip.
         py_then
           (if skip then py_ret False
            else py_bind (additional_info ti) (\<lambda>info.
                   enable_code_tracing_of ms info n c (Frame i c b) False))
           (case b of None \<Rightarrow> py_ret () | Some g \<Rightarrow> enable_for_stack ms ti g)))"

definition enable_for_frame_and_parents ::
  "mservices \<Rightarrow> mon_thread_info \<Rightarrow> frame option \<Rightarrow> (mon, unit) py" where
  "enable_for_frame_and_parents ms ti fr =
     py_bind no_debugger (\<lambda>none.
       if none then py_ret ()
       else case fr of None \<Rightarrow> py_ret () | Some f \<Rightarrow> enable_for_stack ms ti f)"

definition mon_show_return_values :: "mservices \<Rightarrow> frame \<Rightarrow> trace_arg \<Rightarrow> (mon, unit) py" where
  "mon_show_return_values ms fr retval = on_w (show_return_value (ms_sv ms) fr retval)"

definition mon_get_func_name :: "mservices \<Rightarrow> frame \<Rightarrow> (mon, string) py" where
  "mon_get_func_name ms fr = on_w (get_func_name (ms_sv ms) fr)"

definition mon_remove_return_values :: "frame \<Rightarrow> (mon, unit) py" where
  "mon_remove_return_values fr = on_w (remove_return_values fr)"

definition show_if_enabled :: "mservices \<Rightarrow> frame \<Rightarrow> trace_arg \<Rightarrow> (mon, unit) py" where
  "show_if_enabled ms fr retval =
     py_bind (m_db show_return_values) (\<lambda>show.
       if show then mon_show_return_values ms fr retval else py_ret ())"

definition back_usable :: "func_code_info \<Rightarrow> bool \<Rightarrow> bool" where
  "back_usable x force \<longleftrightarrow> \<not> always_skip_code x \<and> \<not> always_filtered_out x \<and>
     \<not> (force \<and> filtered_out_force_checked x)"

text \<open>Does the step command stop on this return? A step into looks at the caller with the caller's frame, a step over
  with the frame that returns.\<close>

definition return_stops_into ::
  "mservices \<Rightarrow> thread_info \<Rightarrow> cint \<Rightarrow> frame \<Rightarrow> (mon, bool) py" where
  "return_stops_into ms i step_cmd fr =
     (if step_cmd \<in> {CMD_STEP_INTO, CMD_STEP_INTO_MY_CODE, CMD_STEP_INTO_COROUTINE} then
        (case f_back fr of
           None \<Rightarrow> py_ret False
         | Some back \<Rightarrow>
             if pydev_use_scoped_step_frame i then py_ret False
             else
               py_bind (code_info ms (f_code back) back) (\<lambda>n.
                 py_bind (get_fci n id) (\<lambda>x.
                   py_bind (on_w (f_lineno back)) (\<lambda>lineno.
                     py_ret (back_usable x (step_cmd = CMD_STEP_INTO_MY_CODE) \<and>
                       \<not> (case step_in_initial_location i of
                            None \<Rightarrow> False | Some (f, l) \<Rightarrow> f_id f = f_id back \<and> l = lineno))))))
      else py_ret False)"

definition return_stops_other ::
  "mservices \<Rightarrow> thread_info \<Rightarrow> cint \<Rightarrow> frame \<Rightarrow> frame option \<Rightarrow> (mon, bool) py" where
  "return_stops_other ms i step_cmd fr stop_frame =
     (let same = mon_is_same_frame ms i stop_frame (Some fr) in
      if step_cmd \<in> {CMD_STEP_RETURN, CMD_STEP_RETURN_MY_CODE} \<and> same then py_ret True
      else if step_cmd \<in> {CMD_STEP_OVER, CMD_STEP_OVER_MY_CODE} \<and> \<not> pydev_use_scoped_step_frame i \<and> same
      then (case f_back fr of
              None \<Rightarrow> py_ret False
            | Some back \<Rightarrow>
                py_bind (get_func_code_info ms (f_code back) fr) (\<lambda>n.
                  case n of
                    None \<Rightarrow> py_ret False
                  | Some n \<Rightarrow> py_bind (get_fci n id) (\<lambda>x.
                      py_ret (back_usable x (step_cmd = CMD_STEP_OVER_MY_CODE)))))
      else py_ret (step_cmd = CMD_SMART_STEP_INTO \<and> same))"

text \<open>Which return values are shown. The test of a step return is on a tuple that is never empty, so
  it does not look at the frame.\<close>

definition mon_shows_return_value ::
  "mservices \<Rightarrow> thread_info \<Rightarrow> frame \<Rightarrow> frame option \<Rightarrow> bool" where
  "mon_shows_return_value ms i fr stop_frame =
     (let cmd = pydev_step_cmd i in
      cmd \<in> {CMD_STEP_OVER, CMD_STEP_OVER_MY_CODE, CMD_SMART_STEP_INTO} \<and>
        mon_is_same_frame ms i stop_frame (f_back fr) \<or>
      cmd \<in> {CMD_STEP_RETURN, CMD_STEP_RETURN_MY_CODE} \<or>
      cmd \<in> {CMD_STEP_INTO, CMD_STEP_INTO_COROUTINE} \<or>
      cmd = CMD_STEP_INTO_MY_CODE \<and>
        (case f_back fr of
           None \<Rightarrow> False
         | Some back \<Rightarrow> \<not> sv_apply_files_filter (ms_sv ms) back (co_filename (f_code back)) True))"

text \<open>The end of \<^verbatim>\<open>_return_event\<close>: the frame that is stepped returns and nothing stopped.\<close>

definition leave_stepped_frame ::
  "mservices \<Rightarrow> mon_thread_info \<Rightarrow> nat \<Rightarrow> cint \<Rightarrow> frame \<Rightarrow> trace_arg \<Rightarrow> (mon, unit) py" where
  "leave_stepped_frame ms ti info step_cmd fr retval =
     py_bind (m_info info id) (\<lambda>i.
       if step_cmd \<in> {CMD_STEP_OVER, CMD_STEP_RETURN, CMD_STEP_OVER_MY_CODE, CMD_STEP_RETURN_MY_CODE,
                        CMD_SMART_STEP_INTO} \<and>
          frame_is (pydev_step_stop i) (Some fr) \<and> \<not> pydev_use_scoped_step_frame i
       then
         py_then
           (on_w (set_info info (\<lambda>i. i \<lparr> pydev_step_cmd :=
                (if step_cmd \<in> {CMD_STEP_OVER, CMD_STEP_RETURN, CMD_SMART_STEP_INTO}
                 then CMD_STEP_INTO else CMD_STEP_INTO_MY_CODE), pydev_step_stop := None \<rparr>)))
           (py_then (enable_for_frame_and_parents ms ti (f_back fr)) (show_if_enabled ms fr retval))
       else py_ret ())"

definition return_step ::
  "mservices \<Rightarrow> mon_thread_info \<Rightarrow> nat \<Rightarrow> cint \<Rightarrow> frame \<Rightarrow> trace_arg \<Rightarrow> (mon, unit) py" where
  "return_step ms ti info step_cmd fr retval =
     py_bind (m_info info id) (\<lambda>i.
       let stop_frame = pydev_step_stop i;
           stop = py_then (show_if_enabled ms fr retval) (mon_stop_on_return ms ti info step_cmd fr retval) in
       py_bind (return_stops_into ms i step_cmd fr) (\<lambda>into.
         if into then stop
         else
           py_bind (return_stops_other ms i step_cmd fr stop_frame) (\<lambda>other.
             if other then stop
             else
               py_then
                 (py_bind (m_info info id) (\<lambda>i.
                    if mon_shows_return_value ms i fr stop_frame
                    then show_if_enabled ms fr retval else py_ret ()))
                 (leave_stepped_frame ms ti info step_cmd fr retval))))"

definition return_event :: "mservices \<Rightarrow> int \<Rightarrow> frame \<Rightarrow> trace_arg \<Rightarrow> (mon, mon_result) py" where
  "return_event ms me cur retval =
     py_body
       (py_flow (enter_event ms me cur M_DISABLE) (\<lambda>ti.
         py_flow (check_traced ti) (\<lambda>_.
           py_flow (check_code ms cur always_skip_code M_DISABLE) (\<lambda>n. m_next (ti, n)))))
       (\<lambda>(ti, n).
         py_bind (additional_info ti) (\<lambda>info.
           py_bind (m_info info id) (\<lambda>i.
             let step_cmd = pydev_step_cmd i in
             py_then
               (if step_cmd = -1 then py_ret ()
                else if suspend_type i \<noteq> PYTHON_SUSPEND then
                  py_bind (get_fci n plugin_return_stepping) (\<lambda>p.
                    if p then mon_plugin_stepping ms ti info step_cmd ''return'' cur else py_ret ())
                else if pydev_state i = STATE_SUSPEND
                then mon_do_wait_suspend ms ti cur ''return'' ArgNone
                else return_step ms ti info step_cmd cur retval)
               (py_ret M_None))))"

section \<open>Exceptions\<close>

text \<open>The container of this module does not let other modules read its list, so
  \<^verbatim>\<open>is_unhandled_exception\<close> fails as soon as it needs the list.\<close>

definition mon_is_unhandled :: "int option \<Rightarrow> exc_info_t \<Rightarrow> pyexc + bool" where
  "mon_is_unhandled lineno xi =
     (case opt_as_cint (fst (snd xi)) of
        Inl e \<Rightarrow> Inl e
      | Inr _ \<Rightarrow> if lineno \<in> set (snd (snd xi)) then Inr True else Inl AttributeError)"

definition ensure_container :: "mservices \<Rightarrow> nat \<Rightarrow> frame \<Rightarrow> (mon, unit) py" where
  "ensure_container ms n fr = py_modify (\<lambda>s.
     if try_except_container_obj (m_fci s n) = None
     then s \<lparr> m_fci := (m_fci s)(n := (m_fci s n)
            \<lparr> try_except_container_obj := Some (sv_collect_try_except_info (ms_sv ms) (f_code fr)) \<rparr>) \<rparr>
     else s)"

definition unwind_event :: "mservices \<Rightarrow> int \<Rightarrow> frame \<Rightarrow> mon_exc \<Rightarrow> (mon, mon_result) py" where
  "unwind_event ms me cur exc =
     py_body
       (py_flow (enter_event ms me cur M_None) (\<lambda>ti.
         py_flow (check_traced ti) (\<lambda>_.
           py_flow (check_code ms cur always_skip_code M_None) (\<lambda>n.
             py_bind (additional_info ti) (\<lambda>info.
               py_bind (m_db has_exception_breakpoints) (\<lambda>caught.
                 if \<not> caught then m_next (ti, info, cur)
                 else
                   py_bind (on_w (should_stop_on_exception (ms_sv ms) info cur (ti_thread ti) (exc_arg exc) None True))
                     (\<lambda>(_, fr, xi).
                       case xi of
                         None \<Rightarrow> m_next (ti, info, fr)
                       | Some xi \<Rightarrow>
                           py_then (ensure_container ms n fr)
                             (py_bind (on_w (f_lineno fr)) (\<lambda>lineno.
                               py_bind (py_lift (mon_is_unhandled lineno xi)) (\<lambda>unhandled.
                                 if unhandled then
                                   py_then (on_w (handle_exception (ms_sv ms) (ti_thread ti) fr (fst xi)
                                              EXCEPTION_TYPE_USER_UNHANDLED)) (m_return M_None)
                                 else m_next (ti, info, fr)))))))))))
       (\<lambda>(ti, info, fr).
         py_bind (py_gets m_break_on_uncaught) (\<lambda>uncaught.
           if \<not> uncaught then py_ret M_None
           else
             py_bind (get_unhandled_exception_frame me cur exc) (\<lambda>f.
               py_then
                 (if f_id fr = f_id f
                  then on_w (do_call (CallStopOnUnhandled (ti_thread ti))
                         (sv_stop_on_unhandled_exception (ms_sv ms) (ti_thread ti) info (exc_arg exc)))
                  else py_ret ())
                 (py_ret M_None))))"

definition raise_event :: "mservices \<Rightarrow> int \<Rightarrow> frame \<Rightarrow> mon_exc \<Rightarrow> (mon, mon_result) py" where
  "raise_event ms me cur exc =
     py_body
       (py_flow (enter_event ms me cur M_None) (\<lambda>ti.
         py_flow (check_traced ti) (\<lambda>_.
           py_flow (check_code ms cur always_skip_code M_None) (\<lambda>n. m_next ti))))
       (\<lambda>ti.
         py_bind (additional_info ti) (\<lambda>info.
           py_bind (get_tls me tl_user_uncaught) (\<lambda>prev.
             py_bind (on_w (should_stop_on_exception (ms_sv ms) info cur (ti_thread ti) (exc_arg exc) prev False))
               (\<lambda>(should_stop, fr, xi).
                 py_then (set_tls me (\<lambda>t. t \<lparr> tl_user_uncaught := xi \<rparr>))
                   (py_then
                     (if should_stop
                      then py_then (on_w (handle_exception (ms_sv ms) (ti_thread ti) fr (exc_arg exc)
                                     EXCEPTION_TYPE_HANDLED)) (py_ret ())
                      else py_ret ())
                     (py_ret M_None))))))"

section \<open>Calls\<close>

text \<open>The plugin's part of \<^verbatim>\<open>_start_method_event\<close>: whether it handled the call, and whether to keep the event.\<close>

definition start_plugin ::
  "mservices \<Rightarrow> mon_thread_info \<Rightarrow> nat \<Rightarrow> func_code_info \<Rightarrow> frame \<Rightarrow> bool \<Rightarrow> (mon, bool \<times> bool) py" where
  "start_plugin ms ti info x cur keep =
     py_bind (m_db has_plugin) (\<lambda>p.
       if \<not> p then py_ret (False, keep)
       else
         py_bind (plugin_breakpoint ms ti info ''call'' (plugin_call_breakpoint_found x) cur) (\<lambda>hit.
           if hit then py_ret (True, keep)
           else
             py_bind (m_info info id) (\<lambda>i.
               if pydev_step_cmd i \<noteq> -1 \<and> plugin_call_stepping x \<and> suspend_type i \<noteq> PYTHON_SUSPEND
               then py_then (mon_plugin_stepping ms ti info (pydev_step_cmd i) ''call'' cur) (py_ret (True, keep))
               else py_ret (False, keep \<or> plugin_call_breakpoint_found x))))"

definition start_stops ::
  "mservices \<Rightarrow> mon_thread_info \<Rightarrow> nat \<Rightarrow> nat \<Rightarrow> frame \<Rightarrow> bool \<Rightarrow> (mon, mon_result) py" where
  "start_stops ms ti info n cur keep =
     py_bind (get_fci n id) (\<lambda>x.
       if function_breakpoint_found x then
         (case function_breakpoint x of
            None \<Rightarrow> py_raise AttributeError
          | Some b \<Rightarrow>
              py_then (mon_stop_on_breakpoint ms ti CMD_SET_FUNCTION_BREAK b cur cur True False ''python-function'')
                (py_ret M_None))
       else
         py_bind (start_plugin ms ti info x cur keep) (\<lambda>(handled, keep).
           if handled then py_ret M_None
           else
             py_bind (py_gets (\<lambda>s. any_thread_stepping (w_reg (m_w s)))) (\<lambda>any.
               py_ret (if keep \<or> any then M_None else M_DISABLE))))"

definition start_method_event :: "mservices \<Rightarrow> int \<Rightarrow> frame \<Rightarrow> (mon, mon_result) py" where
  "start_method_event ms me cur =
     py_body
       (py_flow (enter_event ms me cur M_DISABLE) (\<lambda>ti.
         py_flow (check_traced ti) (\<lambda>_.
           py_flow (check_code ms cur always_skip_code M_DISABLE) (\<lambda>n. m_next (ti, n)))))
       (\<lambda>(ti, n).
         py_bind (additional_info ti) (\<lambda>info.
           py_bind (enable_code_tracing_of ms info n (f_code cur) cur True)
             (start_stops ms ti info n cur)))"

end
