(* ===== verification/MonLemmas.thy ===== *)
theory MonLemmas
  imports MonEvents
begin

text \<open>
  What the functions of the \<^verbatim>\<open>sys.monitoring\<close> backend leave unchanged, and how a handler runs: the code
  information it works with, where its first part can end, when it gives up an event.
\<close>

section \<open>Code information\<close>

text \<open>Only the tables of the backend change, never the debugger, the threads or \<^verbatim>\<open>sys.monitoring\<close>.\<close>

definition outside :: "mon \<Rightarrow> world \<times> monitor \<times> (int \<Rightarrow> tls) \<times> int" where
  "outside s = (m_w s, m_mo s, m_tls s, m_mtime s)"

lemma outside_simps [simp]:
  "outside (s \<lparr> m_fci := a \<rparr>) = outside s" "outside (s \<lparr> m_fci_fresh := b \<rparr>) = outside s"
  "outside (s \<lparr> m_fci_cache := c \<rparr>) = outside s" "outside (s \<lparr> m_line_info := d \<rparr>) = outside s"
  "outside (s \<lparr> m_file_types := e \<rparr>) = outside s"
  by (simp_all add: outside_def)

lemma keeps_store_fci: "keeps outside (store_fci c x)"
  by (simp add: keeps_def store_fci_def outside_def)

lemma keeps_get_code_line_info: "keeps outside (get_code_line_info c)"
  unfolding get_code_line_info_def by (intro keeps_rules; simp)

lemma keeps_get_func_code_info: "keeps outside (get_func_code_info ms c fr)"
  unfolding get_func_code_info_def build_func_code_info_def file_type_of_def fci_of_user_code_def
  by (intro keeps_rules keeps_get_code_line_info keeps_store_fci; simp)

lemma keeps_fci_code_line_info: "keeps m_fci (get_code_line_info c)" "keeps m_fci_cache (get_code_line_info c)"
  unfolding get_code_line_info_def by (intro keeps_rules; simp)+

lemma keeps_fci_file_type: "keeps m_fci (file_type_of ms c p fr)" "keeps m_fci_cache (file_type_of ms c p fr)"
  unfolding file_type_of_def by (intro keeps_rules; simp)+

text \<open>What the information says about its code, however it was found.\<close>

definition fci_for :: "code \<Rightarrow> int \<Rightarrow> mon \<Rightarrow> nat option \<Rightarrow> bool" where
  "fci_for c mtime s n \<longleftrightarrow> (case n of None \<Rightarrow> False | Some n \<Rightarrow>
     m_fci_cache s (code_key c) = Some n \<and> sint (pydb_mtime (m_fci s n)) = mtime)"

lemma store_fci_for:
  "sint (pydb_mtime x) = m \<Longrightarrow> store_fci c x s = (r, s') \<Longrightarrow> \<exists>n. r = Inr n \<and> fci_for c m s' n"
  by (auto simp: store_fci_def fci_for_def)

lemma fci_breakpoints_mtime [simp]:
  "pydb_mtime (fci_breakpoints db li x) = pydb_mtime x" "pydb_mtime (fci_plugin ms db fr x) = pydb_mtime x"
  by (simp_all add: fci_breakpoints_def fci_plugin_def Let_def split: option.split list.split)

lemma fci_of_user_code_for:
  "sint (pydb_mtime x) = m \<Longrightarrow> fci_of_user_code ms c fr li x s = (Inr n, s') \<Longrightarrow> fci_for c m s' n"
  by (auto simp: fci_of_user_code_def py_simps Let_def split: if_splits dest: store_fci_for [rotated])

lemma int_as_cint_sint: "int_as_cint n = Inr x \<Longrightarrow> sint x = n"
  by (auto simp: int_as_cint_def sint_of_int_cint split: if_splits)

lemma build_func_code_info_for:
  assumes "build_func_code_info ms c fr m s = (Inr n, s')"
  shows "fci_for c m s' n"
  using assms
  by (auto simp: build_func_code_info_def py_simps Let_def split: prod.splits sum.splits if_splits
      dest!: int_as_cint_sint dest: store_fci_for [rotated] fci_of_user_code_for [rotated])

lemma get_func_code_info_for:
  assumes "get_func_code_info ms c fr s = (Inr n, s')" and "global_debugger (w_reg (m_w s)) \<noteq> None"
  shows "fci_for c (m_mtime s) s' n"
proof (cases "build_func_code_info ms c fr (m_mtime s) s = (Inr n, s')")
  case True
  then show ?thesis by (rule build_func_code_info_for)
next
  case False
  with assms obtain k where "m_fci_cache s (code_key c) = Some k" "sint (pydb_mtime (m_fci s k)) = m_mtime s"
    "n = Some k" "s' = s"
    by (auto simp: get_func_code_info_def py_simps split: option.splits if_splits)
  then show ?thesis by (simp add: fci_for_def)
qed

lemma get_func_code_info_hit:
  assumes "global_debugger (w_reg (m_w s)) \<noteq> None" and "m_fci_cache s (code_key c) = Some n"
    and "sint (pydb_mtime (m_fci s n)) = m_mtime s"
  shows "get_func_code_info ms c fr s = (Inr (Some n), s)"
  using assms by (simp add: get_func_code_info_def py_simps)

section \<open>The handlers\<close>

lemma m_flow_simps [simp]: "m_return r s = (Inr (Return r), s)" "m_next x s = (Inr (Next x), s)"
  by (simp_all add: m_return_def m_next_def)

lemma keeps_m_flow [keeps_rules]: "keeps f (m_return r)" "keeps f (m_next x)"
  by (simp_all add: keeps_def)

definition has_debugger :: "mon \<Rightarrow> bool" where
  "has_debugger s \<longleftrightarrow> global_debugger (w_reg (m_w s)) \<noteq> None \<and> \<not> pydb_disposed (w_dbg (m_w s))"

lemma enter_event_Next:
  "enter_event ms me cur d s = (Inr (Next ti), s') \<Longrightarrow>
     has_debugger s' \<and> get_thread_info ms True me cur s = (Inr (Some ti), s')"
  by (auto simp: enter_event_def py_simps has_debugger_def split: prod.splits sum.splits option.splits if_splits)

lemma enter_event_Return:
  "enter_event ms me cur d s = (Inr (Return r), s') \<Longrightarrow> r = M_None \<or> r = d \<and> \<not> has_debugger s'"
  by (auto simp: enter_event_def py_simps has_debugger_def split: prod.splits sum.splits option.splits if_splits)

lemma check_traced_run: "check_traced ti s = (Inr x, s') \<Longrightarrow> s' = s \<and> (x = Next () \<or> x = Return M_None)"
  by (auto simp: check_traced_def mon_is_thread_alive_def py_simps split: prod.splits sum.splits option.splits if_splits)

lemma code_info_for:
  "code_info ms c fr s = (Inr n, s') \<Longrightarrow> has_debugger s \<Longrightarrow> fci_for c (m_mtime s) s' (Some n)"
  by (auto simp: code_info_def py_simps has_debugger_def split: prod.splits sum.splits option.splits
      dest: get_func_code_info_for)

lemma check_code_run:
  assumes "check_code ms cur skip r s = (Inr x, s')" and "has_debugger s"
  shows "\<exists>n. fci_for (f_code cur) (m_mtime s) s' (Some n) \<and>
    x = (if skip (m_fci s' n) then Return r else Next n)"
  using assms
  by (auto simp: check_code_def py_simps split: prod.splits sum.splits if_splits dest: code_info_for)

text \<open>A line or jump event does not change the tables of the backend once the code information is known.\<close>

definition tables :: "mon \<Rightarrow> (nat \<Rightarrow> func_code_info) \<times> (code_key \<rightharpoonup> nat) \<times> monitor \<times> int" where
  "tables s = (m_fci s, m_fci_cache s, m_mo s, m_mtime s)"

lemma tables_simps [simp]:
  "tables (s \<lparr> m_w := w \<rparr>) = tables s" "tables (s \<lparr> m_tls := t \<rparr>) = tables s"
  "tables (s \<lparr> m_notified := b \<rparr>) = tables s"
  by (simp_all add: tables_def)

lemma keeps_tables_stop:
  "keeps tables (mon_do_wait_suspend ms ti fr ev arg)" "keeps tables (mon_suspend_for_step ms ti i c fr ev arg)"
  "keeps tables (mon_stop_on_breakpoint ms ti r b fr nf st pl ty)" "keeps tables (mon_plugin_stepping ms ti i c ev fr)"
  "keeps tables (mon_stop_on_return ms ti i c fr rv)"
  unfolding mon_stop_on_return_def mon_suspend_for_step_def mon_stop_on_breakpoint_def mon_breakpoint_decision_def
    mon_plugin_stepping_def mon_do_wait_suspend_def
  by (intro keeps_rules; simp)+

lemma keeps_tables_line:
  "keeps tables (line_breakpoint ms ti x fr line)" "keeps tables (plugin_breakpoint ms ti i ev b fr)"
  "keeps tables (line_step ms ti i x fr sf c)" "keeps tables (internal_line_event ms me n fr line)"
  unfolding internal_line_event_def line_breakpoint_def plugin_breakpoint_def line_step_def
  by (intro keeps_rules keeps_tables_stop; simp)+

lemma internal_line_event_disable:
  assumes "internal_line_event ms me n fr line s = (Inr M_DISABLE, s')"
  shows "\<not> breakpoint_found (m_fci s n) \<and> \<not> plugin_line_breakpoint_found (m_fci s n) \<and>
    \<not> any_thread_stepping (w_reg (m_w s'))"
  using assms
  by (auto simp: internal_line_event_def py_bind_app py_then_app additional_info_def split: prod.splits sum.splits option.splits if_splits)

end
