(* ===== verification/MonScenario.thy ===== *)
theory MonScenario
  imports MonLemmas DispatchProps
begin

text \<open>The session of the settrace backend, run by the \<^verbatim>\<open>sys.monitoring\<close> backend: the thread 1 is known, no code has been
  seen yet.\<close>

definition with_services :: "services \<Rightarrow> mservices" where
  "with_services sv = \<lparr> ms_sv = sv, ms_py313 = False, ms_abs_path_of_file = (\<lambda>f. (f, f, f)),
     ms_co_lines = (\<lambda>c. [(Some 0, Some 2, Some 1), (Some 2, Some 4, Some 2), (Some 4, Some 6, None),
                         (Some 6, Some 8, Some 3)]),
     ms_frame_thread = (\<lambda>f n. None), ms_dummy_thread = (\<lambda>n. 9), mp_is_tracked_frame = (\<lambda>f. False),
     mp_required_events_breakpoint = [], mp_required_events_stepping = [] \<rparr>"

lemma with_services_fields [simp]:
  "ms_sv (with_services sv) = sv" "ms_py313 (with_services sv) = False"
  "ms_abs_path_of_file (with_services sv) = (\<lambda>f. (f, f, f))"
  "ms_co_lines (with_services sv) = (\<lambda>c. [(Some 0, Some 2, Some 1), (Some 2, Some 4, Some 2), (Some 4, Some 6, None),
                         (Some 6, Some 8, Some 3)])"
  "ms_frame_thread (with_services sv) = (\<lambda>f n. None)" "ms_dummy_thread (with_services sv) = (\<lambda>n. 9)"
  "mp_is_tracked_frame (with_services sv) = (\<lambda>f. False)"
  by (simp_all add: with_services_def)

definition demo_ti :: mon_thread_info where
  "demo_ti = \<lparr> ti_thread = 1, ti_ident = 1, ti_info = Some 0, ti_trace = True, ti_use_is_stopped = False \<rparr>"

definition demo_monitor :: monitor where
  "demo_monitor = \<lparr> mo_tool = Some ''pydevd'', mo_events = {}, mo_callbacks = Map.empty, mo_local = (\<lambda>_. {}),
     mo_restarts = 0 \<rparr>"

definition demo_mon :: mon where
  "demo_mon = \<lparr> m_w = demo_world, m_mo = demo_monitor,
     m_tls = (\<lambda>_. empty_tls)(1 := empty_tls \<lparr> tl_thread_info := Some demo_ti \<rparr>),
     m_fci = (\<lambda>_. new_FuncCodeInfo), m_fci_fresh = 0, m_fci_cache = Map.empty, m_line_info = Map.empty,
     m_file_types = Map.empty, m_mtime = 5, m_break_on_uncaught = False, m_bp_files = [], m_fn_bp_names = [],
     m_threads = [1, 2], m_daemon = (\<lambda>_. False), m_dummy = (\<lambda>_. False), m_is_stopped = (\<lambda>_. None),
     m_notified = False \<rparr>"

lemma demo_ti_fields [simp]:
  "ti_thread demo_ti = 1" "ti_ident demo_ti = 1" "ti_info demo_ti = Some 0" "ti_trace demo_ti = True"
  "ti_use_is_stopped demo_ti = False"
  by (simp_all add: demo_ti_def)

lemma demo_monitor_fields [simp]:
  "mo_tool demo_monitor = Some ''pydevd''" "mo_events demo_monitor = {}" "mo_callbacks demo_monitor = Map.empty"
  "mo_local demo_monitor = (\<lambda>_. {})" "mo_restarts demo_monitor = 0"
  by (simp_all add: demo_monitor_def)

lemma empty_tls_fields [simp]:
  "tl_thread_info empty_tls = None" "tl_bootstrap empty_tls = None" "tl_unhandled empty_tls = None"
  "tl_user_uncaught empty_tls = None" "tl_disable_next_line empty_tls = None" "tl_dummy_ref empty_tls = None"
  by (simp_all add: empty_tls_def)

lemma demo_mon_fields [simp]:
  "m_w demo_mon = demo_world" "m_mo demo_mon = demo_monitor"
  "m_tls demo_mon = (\<lambda>_. empty_tls)(1 := empty_tls \<lparr> tl_thread_info := Some demo_ti \<rparr>)"
  "m_fci demo_mon = (\<lambda>_. new_FuncCodeInfo)" "m_fci_fresh demo_mon = 0" "m_fci_cache demo_mon = Map.empty"
  "m_line_info demo_mon = Map.empty" "m_file_types demo_mon = Map.empty" "m_mtime demo_mon = 5"
  "m_break_on_uncaught demo_mon = False" "m_bp_files demo_mon = []" "m_fn_bp_names demo_mon = []"
  "m_threads demo_mon = [1, 2]" "m_daemon demo_mon = (\<lambda>_. False)" "m_dummy demo_mon = (\<lambda>_. False)"
  "m_is_stopped demo_mon = (\<lambda>_. None)" "m_notified demo_mon = False"
  by (simp_all add: demo_mon_def)

lemma new_FuncCodeInfo_fields [simp]:
  "always_skip_code new_FuncCodeInfo = False" "breakpoint_found new_FuncCodeInfo = False"
  "function_breakpoint_found new_FuncCodeInfo = False" "plugin_line_breakpoint_found new_FuncCodeInfo = False"
  "plugin_call_breakpoint_found new_FuncCodeInfo = False" "plugin_line_stepping new_FuncCodeInfo = False"
  "always_filtered_out new_FuncCodeInfo = False" "filtered_out_force_checked new_FuncCodeInfo = False"
  "bp_line_to_breakpoint new_FuncCodeInfo = []"
  by (simp_all add: new_FuncCodeInfo_def)

lemma demo_registry [simp]:
  "global_debugger two_threads = Some False" "infos_stepping two_threads = []"
  "t_alive (boot_thread t) = True"
  by (simp_all add: two_threads_run boot_registry_def boot_thread_def)

lemma demo_lines [simp]: "lines_of_code (demo_code file name) = [(1, 0), (2, 2), (3, 6)]"
  by (simp add: lines_of_code_def)

lemma demo_get_code_line_info [simp]:
  "m_line_info s (code_key (demo_code file name)) = None \<Longrightarrow>
   get_code_line_info (demo_code file name) s =
   (Inr \<lparr> line_to_offset = [(1, 0), (2, 2), (3, 6)], first_line = 1, last_line = 3 \<rparr>,
    s \<lparr> m_line_info := (m_line_info s)(code_key (demo_code file name) \<mapsto>
         \<lparr> line_to_offset = [(1, 0), (2, 2), (3, 6)], first_line = 1, last_line = 3 \<rparr>) \<rparr>)"
  by (simp add: get_code_line_info_def py_simps opt_as_cint_def int_as_cint_def INT_MIN_def INT_MAX_def Let_def)

lemmas mon_run_defs = enter_event_def get_thread_info_def check_traced_def mon_is_thread_alive_def check_code_def
  code_info_def get_func_code_info_def build_func_code_info_def file_type_of_def fci_of_user_code_def store_fci_def
  fci_breakpoints_def fci_plugin_def additional_info_def py_simps

end
