(* ===== verification/MonInfo.thy ===== *)
theory MonInfo
  imports MonScenario
begin

text \<open>
  What the \<^verbatim>\<open>sys.monitoring\<close> backend knows about code objects: their lines, the line of an offset, and the
  breakpoints that \<^verbatim>\<open>_get_func_code_info\<close> records.
\<close>

section \<open>Variations of the session\<close>

text \<open>The session with other settings of the debugger and of the thread.\<close>

definition mon_with :: "(pydb \<Rightarrow> pydb) \<Rightarrow> (thread_info \<Rightarrow> thread_info) \<Rightarrow> mon" where
  "mon_with g h = demo_mon \<lparr> m_w := with_db g (with_info h demo_world) \<rparr>"

lemma mon_with_fields [simp]:
  "w_dbg (m_w (mon_with g h)) = g plain_db" "global_debugger (w_reg (m_w (mon_with g h))) = Some False"
  "infos (w_reg (m_w (mon_with g h))) = (infos two_threads)(0 := h (infos two_threads 0))"
  "threads (w_reg (m_w (mon_with g h))) = threads two_threads"
  "infos_stepping (w_reg (m_w (mon_with g h))) = []"
  "w_calls (m_w (mon_with g h)) = []" "w_lineno (m_w (mon_with g h)) = (\<lambda>f. Some 2)"
  "m_tls (mon_with g h) = m_tls demo_mon" "m_fci_cache (mon_with g h) = Map.empty" "m_mtime (mon_with g h) = 5"
  "m_line_info (mon_with g h) = Map.empty" "m_file_types (mon_with g h) = Map.empty" "m_mo (mon_with g h) = demo_monitor"
  "m_is_stopped (mon_with g h) = (\<lambda>_. None)" "m_fci_fresh (mon_with g h) = 0" "m_break_on_uncaught (mon_with g h) = False"
  by (simp_all add: mon_with_def scenario_defs)

text \<open>A thread that the backend knows and traces, with the information object \<open>i\<close>.\<close>

definition traced_thread :: "int \<Rightarrow> mon_thread_info \<Rightarrow> nat \<Rightarrow> mon \<Rightarrow> bool" where
  "traced_thread me ti i s \<longleftrightarrow> tl_thread_info (m_tls s me) = Some ti \<and> ti_trace ti \<and>
     mon_is_thread_alive ti s = (Inr True, s) \<and> ti_info ti = Some i \<and> has_debugger s"

lemma traced_thread_outside:
  "outside s' = outside s \<Longrightarrow> traced_thread me ti i s \<Longrightarrow> tl_thread_info (m_tls s' me) = Some ti \<and> ti_info ti = Some i"
  by (simp add: traced_thread_def outside_def)

lemma demo_traced [simp]: "traced_thread 1 demo_ti 0 (mon_with g h) = (\<not> pydb_disposed (g plain_db))"
  by (simp add: traced_thread_def has_debugger_def mon_is_thread_alive_def)

section \<open>Lines and offsets\<close>

fun line_at :: "(int option \<times> int option \<times> int option) list \<Rightarrow> int \<Rightarrow> int option" where
  "line_at [] offset = None"
| "line_at ((Some start, Some stop, line) # ranges) offset =
     (if start \<le> offset \<and> offset < stop then line else line_at ranges offset)"
| "line_at (r # ranges) offset = line_at ranges offset"

fun line_before :: "(int option \<times> int option \<times> int option) list \<Rightarrow> int \<Rightarrow> int option" where
  "line_before [] offset = None"
| "line_before ((Some start, Some stop, line) # ranges) offset =
     (if offset = stop then line else line_before ranges offset)"
| "line_before (r # ranges) offset = line_before ranges offset"

text \<open>The ranges of \<^verbatim>\<open>co_lines\<close> are not empty and follow each other.\<close>

fun consecutive :: "int \<Rightarrow> (int option \<times> int option \<times> int option) list \<Rightarrow> bool" where
  "consecutive a [] = True"
| "consecutive a ((Some start, Some stop, line) # ranges) = (start = a \<and> start < stop \<and> consecutive stop ranges)"
| "consecutive a (r # ranges) = False"

lemma consecutive_before:
  "consecutive a rs \<Longrightarrow> off < a \<Longrightarrow> line_at rs off = None \<and> line_of_offset rs off = -1 \<and> line_before rs off = None"
proof (induction a rs rule: consecutive.induct)
  case (2 a start stop line ranges)
  then show ?case by (cases line) auto
qed auto

lemma consecutive_start: "consecutive a rs \<Longrightarrow> off \<le> a \<Longrightarrow> line_before rs off = None"
  by (induction a rs rule: consecutive.induct) auto

lemma line_of_offset_start:
  "consecutive a rs \<Longrightarrow> line_of_offset rs a = (case line_at rs a of Some l \<Rightarrow> l | None \<Rightarrow> -1)"
proof (induction a rs rule: consecutive.induct)
  case (2 a start stop line ranges)
  then show ?case using consecutive_before [of stop ranges a] by (cases line) auto
qed auto

text \<open>
  The line that \<^verbatim>\<open>get_line_of_offset\<close> gives for an offset of the ranges of \<^verbatim>\<open>co_lines\<close>: the line of the range that
  ends there, although the offset is not part of that range, and only otherwise the line of the range that contains it.
\<close>

lemma line_of_offset_of_code:
  assumes "consecutive a ranges"
  shows "line_of_offset ranges offset =
    (case line_before ranges offset of
       Some l \<Rightarrow> l | None \<Rightarrow> (case line_at ranges offset of Some l \<Rightarrow> l | None \<Rightarrow> -1))"
  using assms
proof (induction a ranges rule: consecutive.induct)
  case (2 a start stop line ranges)
  then have later: "consecutive stop ranges" "start < stop" by simp_all
  show ?case
  proof (cases "offset < stop")
    case True
    with later consecutive_before [of stop ranges offset] show ?thesis by (cases line) auto
  next
    case False
    with 2 show ?thesis
      using line_of_offset_start [OF later(1)] by (cases line; cases "offset = stop") (auto split: option.splits)
  qed
qed auto

lemma lines_fold_keys:
  "fst ` set (fold (\<lambda>(offset, line) d. case line of None \<Rightarrow> d | Some n \<Rightarrow> AList.update n offset d) xs d) =
   fst ` set d \<union> {n. \<exists>off. (off, Some n) \<in> set xs}"
proof (induction xs arbitrary: d)
  case (Cons x xs)
  obtain off line where "x = (off, line)" by (cases x)
  with Cons show ?case by (cases line) (auto simp add: dom_update simp del: image_iff)
qed simp

lemma lines_of_code_keys: "fst ` set (lines_of_code c) = {n. \<exists>off. (off, Some n) \<in> set (co_linestarts c)}"
  by (simp add: lines_of_code_def lines_fold_keys)

text \<open>
  The information on the lines of a code object that was not asked for before: it holds exactly the lines of the
  code, its bounds are the first and the last of them, and the second request finds the same answer in the cache.
\<close>

lemma code_line_info_bounds:
  assumes "m_line_info s (code_key c) = None" and "get_code_line_info c s = (Inr li, s')"
  shows "fst ` set (line_to_offset li) = {n. \<exists>off. (off, Some n) \<in> set (co_linestarts c)} \<and>
    sint (first_line li) \<in> fst ` set (line_to_offset li) \<and> sint (last_line li) \<in> fst ` set (line_to_offset li) \<and>
    (\<forall>n \<in> fst ` set (line_to_offset li). sint (first_line li) \<le> n \<and> n \<le> sint (last_line li)) \<and>
    get_code_line_info c s' = (Inr li, s')"
proof -
  let ?d = "lines_of_code c"
  have d: "?d \<noteq> []" using assms by (auto simp: get_code_line_info_def py_simps opt_as_cint_def Let_def)
  then obtain lo hi where run: "int_as_cint (Min (fst ` set ?d)) = Inr lo" "int_as_cint (Max (fst ` set ?d)) = Inr hi"
    "li = \<lparr> line_to_offset = ?d, first_line = lo, last_line = hi \<rparr>"
    "s' = s \<lparr> m_line_info := (m_line_info s)(code_key c \<mapsto> li) \<rparr>"
    using assms by (auto simp: get_code_line_info_def py_simps opt_as_cint_def Let_def split: sum.splits)
  have "finite (fst ` set ?d)" "fst ` set ?d \<noteq> {}" using d by auto
  then have "sint lo \<in> fst ` set ?d" "sint hi \<in> fst ` set ?d" "\<forall>n \<in> fst ` set ?d. sint lo \<le> n \<and> n \<le> sint hi"
    using run(1,2)[THEN int_as_cint_sint] by (simp_all add: Min_in Max_in)
  then show ?thesis
    using run(3,4) by (simp add: get_code_line_info_def py_simps lines_of_code_keys)
qed

text \<open>
  The first event in code without line numbers fails with a TypeError, because the bounds of its lines, None, are
  passed as C ints.
\<close>

lemma code_without_lines_raises:
  assumes "\<forall>(off, line) \<in> set (co_linestarts (f_code cur)). line = None"
    and "m_line_info s (code_key (f_code cur)) = None" and "m_fci_cache s (code_key (f_code cur)) = None"
    and "traced_thread me ti i s"
  shows "start_method_event ms me cur s = (Inl TypeError, s)"
proof -
  have "fst ` set (lines_of_code (f_code cur)) = {}" using assms(1) by (auto simp: lines_of_code_keys)
  then have "get_code_line_info (f_code cur) s = (Inl TypeError, s)"
    using assms(2) by (simp add: get_code_line_info_def py_simps opt_as_cint_def Let_def)
  then show ?thesis
    using assms(3,4) by (auto simp: traced_thread_def start_method_event_def enter_event_def get_thread_info_def has_debugger_def
      check_traced_def check_code_def code_info_def get_func_code_info_def build_func_code_info_def py_simps Let_def)
qed

section \<open>Breakpoints of a code object\<close>

text \<open>
  Code that is neither the debugger's own nor filtered out: the file type is unknown to the debugger, the hook of the client
  lets it through and so do the filters.
\<close>

definition user_code :: "mservices \<Rightarrow> frame \<Rightarrow> mon \<Rightarrow> bool" where
  "user_code ms fr s \<longleftrightarrow>
     (let path = fst (ms_abs_path_of_file ms (co_filename (f_code fr))); sv = ms_sv ms in
      sv_get_file_type sv fr = None \<and>
      m_file_types s (co_firstlineno (f_code fr), path, code_key (f_code fr)) \<in> {None, Some None} \<and>
      (case sv_should_trace_hook sv of None \<Rightarrow> True | Some h \<Rightarrow> h (f_code fr) path) \<and>
      \<not> (is_files_filter_enabled (w_dbg (m_w s)) \<and> sv_apply_files_filter sv fr path False))"

lemma build_user_code:
  assumes "user_code ms fr s" and "get_code_line_info (f_code fr) s = (Inr li, s1)"
    and "INT_MIN \<le> m" "m \<le> INT_MAX"
  obtains n s' x where "build_func_code_info ms (f_code fr) fr m s = (Inr (Some n), s')"
    and "m_fci s' n = fci_plugin ms (w_dbg (m_w s)) fr (fci_breakpoints (w_dbg (m_w s)) li x)"
    and "\<not> always_skip_code x" "\<not> always_filtered_out x" "\<not> breakpoint_found x" "\<not> function_breakpoint_found x"
      "bp_line_to_breakpoint x = []"
      "canonical_normalized_filename x = fst (snd (ms_abs_path_of_file ms (co_filename (f_code fr))))"
      "fc_co_name x = co_name (f_code fr)"
proof -
  let ?path = "fst (ms_abs_path_of_file ms (co_filename (f_code fr)))"
  let ?key = "(co_firstlineno (f_code fr), ?path, code_key (f_code fr))"
  have s1: "outside s1 = outside s" using keeps_run [OF keeps_get_code_line_info assms(2)] .
  have ft: "m_file_types s1 = m_file_types s"
    using assms(2) by (auto simp: get_code_line_info_def py_simps Let_def split: option.splits sum.splits)
  obtain s2 where s2: "file_type_of ms (f_code fr) ?path fr s1 = (Inr None, s2)" "outside s2 = outside s1"
    using assms(1) ft by (auto simp: file_type_of_def user_code_def py_simps Let_def split: option.splits)
  let ?x = "new_FuncCodeInfo \<lparr> fc_code_obj := Some (f_code fr), pydb_mtime := of_int m,
                    fc_co_filename := co_filename (f_code fr), fc_co_name := co_name (f_code fr),
                    abs_path_filename := ?path,
                    canonical_normalized_filename := fst (snd (ms_abs_path_of_file ms (co_filename (f_code fr)))) \<rparr>"
  let ?x1 = "?x \<lparr> filtered_out_force_checked := sv_apply_files_filter (ms_sv ms) fr ?path True, always_filtered_out := False \<rparr>"
  have "build_func_code_info ms (f_code fr) fr m s = store_fci (f_code fr)
     (fci_plugin ms (w_dbg (m_w s)) fr (fci_breakpoints (w_dbg (m_w s)) li ?x1)) s2"
    using assms s2 s1
    by (auto simp: build_func_code_info_def py_simps Let_def int_as_cint_def fci_of_user_code_def user_code_def
      outside_def split: option.splits)
  then show ?thesis
    by (intro that [of "m_fci_fresh s2" _ ?x1]) (auto simp: store_fci_def new_FuncCodeInfo_def)
qed

text \<open>C19. 
  For user code whose information is missing or older than the last change of the breakpoints, \<^verbatim>\<open>_get_func_code_info\<close>
  builds it anew: exactly the breakpoints of the file that lie on lines of the code are recorded, and the flag says
  whether there are any.
\<close>

theorem fresh_info_records_breakpoints:
  assumes "user_code ms fr s" and "global_debugger (w_reg (m_w s)) \<noteq> None"
    and "\<forall>n. m_fci_cache s (code_key (f_code fr)) = Some n \<longrightarrow> sint (pydb_mtime (m_fci s n)) \<noteq> m_mtime s"
    and "INT_MIN \<le> m_mtime s" "m_mtime s \<le> INT_MAX"
    and "get_code_line_info (f_code fr) s = (Inr li, s1)"
    and "breakpoints (w_dbg (m_w s)) (fst (snd (ms_abs_path_of_file ms (co_filename (f_code fr))))) = Some bps"
  shows "\<exists>n s'. get_func_code_info ms (f_code fr) fr s = (Inr (Some n), s') \<and>
    \<not> always_skip_code (m_fci s' n) \<and> \<not> always_filtered_out (m_fci s' n) \<and>
    bp_line_to_breakpoint (m_fci s' n) = filter (\<lambda>(l, b). l \<in> fst ` set (line_to_offset li)) bps \<and>
    (breakpoint_found (m_fci s' n) \<longleftrightarrow> (\<exists>(l, b) \<in> set bps. l \<in> fst ` set (line_to_offset li)))"
proof -
  obtain n s' x where run: "build_func_code_info ms (f_code fr) fr (m_mtime s) s = (Inr (Some n), s')"
    and x: "m_fci s' n = fci_plugin ms (w_dbg (m_w s)) fr (fci_breakpoints (w_dbg (m_w s)) li x)"
     "\<not> always_skip_code x" "\<not> always_filtered_out x" "\<not> breakpoint_found x" "bp_line_to_breakpoint x = []"
      "canonical_normalized_filename x = fst (snd (ms_abs_path_of_file ms (co_filename (f_code fr))))"
    using build_user_code [OF assms(1,6,4,5)] by metis
  have "get_func_code_info ms (f_code fr) fr s = (Inr (Some n), s')"
    using assms(2,3) run by (auto simp: get_func_code_info_def py_simps split: option.splits)
  moreover have "m_fci s' n = fci_plugin ms (w_dbg (m_w s)) fr (fci_breakpoints (w_dbg (m_w s)) li x)" by (rule x(1))
  ultimately show ?thesis
    using x(2-) assms(7)
    by (auto simp: fci_plugin_def fci_breakpoints_def Let_def filter_empty_conv split: option.splits list.splits)
qed

lemma demo_user_code [simp]:
  "sv \<in> {quiet_services, stopping_services} \<Longrightarrow>
   user_code (with_services sv) f_frame (mon_with g h)"
  by (auto simp: user_code_def stopping_services_def quiet_services_def Let_def)

definition demo_breaks :: "pydb \<Rightarrow> pydb" where
  "demo_breaks db = db \<lparr> breakpoints := [''a.py'' \<mapsto> [(2, demo_breakpoint), (9, demo_breakpoint)]] \<rparr>"

theorem fresh_info_records_breakpoints_witness:
  "\<exists>n s'. get_func_code_info (with_services quiet_services) (f_code f_frame) f_frame (mon_with demo_breaks id) = (Inr (Some n), s') \<and>
    breakpoint_found (m_fci s' n) \<and> bp_line_to_breakpoint (m_fci s' n) = [(2, demo_breakpoint)]"
proof -
  have "user_code (with_services quiet_services) f_frame (mon_with demo_breaks id)" by simp
  from fresh_info_records_breakpoints [OF this, where bps = "[(2, demo_breakpoint), (9, demo_breakpoint)]"]
  show ?thesis by (auto simp: demo_breaks_def INT_MIN_def INT_MAX_def)
qed

end
