(* ===== verification/MonProps.thy ===== *)
theory MonProps
  imports MonInfo
begin

text \<open>
  The line events of the \<^verbatim>\<open>sys.monitoring\<close> backend: when they stop the thread and when they are given up.
\<close>

section \<open>Running a handler\<close>

lemmas int_range = int_as_cint_def INT_MIN_def INT_MAX_def

lemma py_body_elim:
  assumes "py_body m k s = (Inr r, s')"
  obtains (Return) "m s = (Inr (Return r), s')" | (Next) y s1 where "m s = (Inr (Next y), s1)" "k y s1 = (Inr r, s')"
  using assms by (auto simp: py_body_app split: prod.splits sum.splits flow.splits)

lemma py_flow_elim:
  assumes "py_flow m k s = (Inr r, s')"
  obtains (Return) x where "m s = (Inr (Return x), s')" "r = Return x"
    | (Next) y s1 where "m s = (Inr (Next y), s1)" "k y s1 = (Inr r, s')"
  using assms by (auto simp: py_flow_app split: prod.splits sum.splits flow.splits)

lemma skip_after_jump_run:
  assumes "skip_after_jump me cur line s = (Inr x, s')"
  shows "tables s' = tables s \<and> has_debugger s' = has_debugger s \<and> (x = Next () \<or> x = Return M_None)"
  using assms
  by (auto simp: skip_after_jump_def py_simps has_debugger_def split: option.splits if_splits)

lemma has_debugger_outside: "outside s' = outside s \<Longrightarrow> has_debugger s' = has_debugger s \<and> m_mtime s' = m_mtime s"
  by (simp add: outside_def has_debugger_def)

lemma keeps_check_code: "keeps outside (check_code ms cur skip r)"
  unfolding check_code_def code_info_def by (intro keeps_rules keeps_get_func_code_info)

text \<open>The common part of the handlers of lines: where it can end, and what is known when it does not.\<close>

lemma line_prologue:
  assumes "py_flow (enter_event ms me cur M_DISABLE) (\<lambda>ti. py_flow (skip_after_jump me cur line) (\<lambda>_.
      py_flow (check_traced ti) (\<lambda>_. check_code ms cur skip M_DISABLE))) s = (Inr x, s')"
  shows "x = Return M_None \<or> x = Return M_DISABLE \<and> \<not> has_debugger s' \<or>
    (\<exists>n. fci_for (f_code cur) (m_mtime s') s' (Some n) \<and> has_debugger s' \<and>
       x = (if skip (m_fci s' n) then Return M_DISABLE else Next n))"
  using assms
proof (cases rule: py_flow_elim)
  case (Return y)
  then show ?thesis using enter_event_Return by blast
next
  case (Next ti s1)
  have s1: "has_debugger s1" using enter_event_Next [OF Next(1)] by simp
  from Next(2) show ?thesis
  proof (cases rule: py_flow_elim)
    case (Return y)
    then show ?thesis using skip_after_jump_run by blast
  next
    case (Next u s2)
    then have s2: "has_debugger s2" using s1 skip_after_jump_run by blast
    from Next(2) show ?thesis
    proof (cases rule: py_flow_elim)
      case (Return y)
      then show ?thesis using check_traced_run by blast
    next
      case (Next v s3)
      then have s3: "has_debugger s3" using s2 check_traced_run by blast
      moreover have "outside s' = outside s3"
        using keeps_run [OF keeps_check_code Next(2)] .
      ultimately show ?thesis using check_code_run [OF Next(2)] has_debugger_outside by metis
    qed
  qed
qed

text \<open>C5. 
  A line event is given up (\<^verbatim>\<open>DISABLE\<close>, which is permanent until the events are restarted) only when there is no
  debugger, or when the current information on the code says that the code is skipped, or that it has no
  breakpoint while no thread is stepping.
\<close>

theorem line_event_disable_sound:
  assumes "line_event ms me cur line s = (Inr M_DISABLE, s')"
  shows "\<not> has_debugger s' \<or> (\<exists>n. m_fci_cache s' (code_key (f_code cur)) = Some n \<and>
    sint (pydb_mtime (m_fci s' n)) = m_mtime s' \<and>
    (always_skip_code (m_fci s' n) \<or> always_filtered_out (m_fci s' n) \<or>
     \<not> breakpoint_found (m_fci s' n) \<and> \<not> plugin_line_breakpoint_found (m_fci s' n) \<and>
     \<not> any_thread_stepping (w_reg (m_w s'))))"
  using assms unfolding line_event_def
proof (cases rule: py_body_elim)
  case Return
  from line_prologue [OF this] show ?thesis
    by (auto simp: fci_for_def split: if_splits)
next
  case (Next n s1)
  have tab: "tables s' = tables s1" using keeps_run [OF keeps_tables_line(4) Next(2)] .
  have "fci_for (f_code cur) (m_mtime s1) s1 (Some n)"
    using line_prologue [OF Next(1)] by (auto split: if_splits)
  with tab internal_line_event_disable [OF Next(2)] show ?thesis
    by (auto simp: fci_for_def tables_def)
qed

lemma demo_line_disabled:
  "\<exists>s'. line_event (with_services quiet_services) 1 f_frame 2 demo_mon = (Inr M_DISABLE, s')"
  by (simp add: line_event_def skip_after_jump_def internal_line_event_def line_breakpoint_def plugin_breakpoint_def
      mon_run_defs int_range Let_def quiet_services_def any_thread_stepping_def)

theorem line_event_disable_sound_witness:
  "\<exists>s'. line_event (with_services quiet_services) 1 f_frame 2 demo_mon = (Inr M_DISABLE, s') \<and>
    (\<not> has_debugger s' \<or> (\<exists>n. m_fci_cache s' (code_key (f_code f_frame)) = Some n \<and>
    sint (pydb_mtime (m_fci s' n)) = m_mtime s' \<and>
    (always_skip_code (m_fci s' n) \<or> always_filtered_out (m_fci s' n) \<or>
     \<not> breakpoint_found (m_fci s' n) \<and> \<not> plugin_line_breakpoint_found (m_fci s' n) \<and>
     \<not> any_thread_stepping (w_reg (m_w s')))))"
  using demo_line_disabled line_event_disable_sound by blast

section \<open>Breakpoints and steps\<close>

lemma line_event_run:
  assumes "traced_thread me ti i s" and "tl_disable_next_line (m_tls s me) = None"
    and "get_func_code_info ms (f_code cur) cur s = (Inr (Some n), s1)"
    and "\<not> always_skip_code (m_fci s1 n)" "\<not> always_filtered_out (m_fci s1 n)"
  shows "line_event ms me cur line s = internal_line_event ms me n cur line s1"
  using assms
  by (auto simp: traced_thread_def line_event_def enter_event_def get_thread_info_def has_debugger_def
      skip_after_jump_def check_traced_def check_code_def code_info_def py_simps)

lemma mon_wait:
  assumes "suspends (ms_sv ms) (ti_thread ti) i" and "ti_info ti = Some i"
  obtains s' where "mon_do_wait_suspend ms ti fr e arg s = (Inr (), s')"
    and "w_calls (m_w s') = w_calls (m_w s) @ [CallWaitSuspend (ti_thread ti) (f_id fr) e]"
proof -
  let ?w = "m_w s \<lparr> w_reg := upd_info i (\<lambda>i. i \<lparr> trace_suspend_type := Some ''sys_monitor'' \<rparr>) (w_reg (m_w s)) \<rparr>"
  obtain w' where "do_wait_suspend (ms_sv ms) (ti_thread ti) fr e arg ?w = (Inr (), w')"
    "w_calls w' = w_calls ?w @ [CallWaitSuspend (ti_thread ti) (f_id fr) e]"
    using suspends_wait [OF assms(1)] by metis
  then show ?thesis
    using assms(2) by (intro that [of "s \<lparr> m_w := w' \<rparr>"])
      (simp_all add: mon_do_wait_suspend_def additional_info_def set_info_def py_simps)
qed

lemma mon_suspends:
  assumes "suspends (ms_sv ms) (ti_thread ti) i" and "ti_info ti = Some i"
  obtains s' where "py_then (on_w (set_suspend (ms_sv ms) (ti_thread ti) c p d))
      (mon_do_wait_suspend ms ti fr e arg) s = (Inr (), s')"
    and "w_calls (m_w s') = w_calls (m_w s) @
      [CallSetSuspend (ti_thread ti) c p d, CallWaitSuspend (ti_thread ti) (f_id fr) e]"
proof -
  obtain w' where w': "set_suspend (ms_sv ms) (ti_thread ti) c p d (m_w s) = (Inr (), w')"
    "w_calls w' = w_calls (m_w s) @ [CallSetSuspend (ti_thread ti) c p d]"
    using suspends_set [OF assms(1)] by metis
  obtain s' where "mon_do_wait_suspend ms ti fr e arg (s \<lparr> m_w := w' \<rparr>) = (Inr (), s')"
    "w_calls (m_w s') = w_calls w' @ [CallWaitSuspend (ti_thread ti) (f_id fr) e]"
    using mon_wait [OF assms, of fr e arg "s \<lparr> m_w := w' \<rparr>"] by auto
  with w' show ?thesis by (intro that [of s']) (simp_all add: py_simps)
qed

lemma mon_stop_on_plain_breakpoint:
  assumes "suspends (ms_sv ms) (ti_thread ti) i" and "ti_info ti = Some i"
    and "\<not> bp_has_condition b" "bp_expression b = None" "\<not> is_logpoint b"
  obtains s' where "mon_stop_on_breakpoint ms ti r b fr nf True pl ty s = (Inr True, s')"
    and "w_calls (m_w s') = w_calls (m_w s) @
      [CallSetSuspend (ti_thread ti) r (suspend_policy b = ''ALL'') (-1), CallWaitSuspend (ti_thread ti) (f_id fr) ''line'']"
proof -
  have dec: "mon_breakpoint_decision ms i b nf True pl s = (Inr (True, pl), s)"
    using assms(3-) by (simp add: mon_breakpoint_decision_def py_simps Let_def)
  obtain s' where "py_then (on_w (set_suspend (ms_sv ms) (ti_thread ti) r (suspend_policy b = ''ALL'') (-1)))
      (mon_do_wait_suspend ms ti fr ''line'' ArgNone) s = (Inr (), s')"
    "w_calls (m_w s') = w_calls (m_w s) @
      [CallSetSuspend (ti_thread ti) r (suspend_policy b = ''ALL'') (-1), CallWaitSuspend (ti_thread ti) (f_id fr) ''line'']"
    using mon_suspends [OF assms(1,2)] by metis
  with dec assms(2) show ?thesis
    by (intro that [of s'])
      (auto simp: mon_stop_on_breakpoint_def additional_info_def py_bind_app py_then_app py_ret_app split: prod.splits sum.splits)
qed

text \<open>C2. 
  A line event on a line with an unconditional breakpoint suspends the thread there: it is marked as suspended, waits
  in the frame of the event, and the event stays enabled.
\<close>

theorem mon_breakpoint_suspends:
  assumes "traced_thread me ti i s" and "tl_disable_next_line (m_tls s me) = None"
    and "get_func_code_info ms (f_code cur) cur s = (Inr (Some n), s1)"
    and "\<not> always_skip_code (m_fci s1 n)" "\<not> always_filtered_out (m_fci s1 n)"
    and "breakpoint_found (m_fci s1 n)" "map_of (bp_line_to_breakpoint (m_fci s1 n)) (sint line) = Some b"
    and "\<not> bp_has_condition b" "bp_expression b = None" "\<not> is_logpoint b"
    and "suspends (ms_sv ms) (ti_thread ti) i"
  shows "\<exists>s'. line_event ms me cur line s = (Inr M_None, s') \<and>
    w_calls (m_w s') = w_calls (m_w s) @
      [CallSetSuspend (ti_thread ti) CMD_SET_BREAK (suspend_policy b = ''ALL'') (-1),
       CallWaitSuspend (ti_thread ti) (f_id cur) ''line'']"
proof -
  have out: "outside s1 = outside s" using keeps_run [OF keeps_get_func_code_info assms(3)] .
  have ti: "tl_thread_info (m_tls s1 me) = Some ti" "ti_info ti = Some i" "m_w s1 = m_w s"
    using traced_thread_outside [OF out assms(1)] out by (auto simp: outside_def)
  obtain s' where s': "mon_stop_on_breakpoint ms ti CMD_SET_BREAK b cur cur True False ''python-line'' s1 = (Inr True, s')"
    "w_calls (m_w s') = w_calls (m_w s1) @
      [CallSetSuspend (ti_thread ti) CMD_SET_BREAK (suspend_policy b = ''ALL'') (-1), CallWaitSuspend (ti_thread ti) (f_id cur) ''line'']"
    using mon_stop_on_plain_breakpoint [OF assms(11) ti(2) assms(8-10)] by metis
  have "internal_line_event ms me n cur line s1 = (Inr M_None, s')"
    using ti s'(1) assms(6,7) by (simp add: internal_line_event_def line_breakpoint_def additional_info_def py_simps)
  with line_event_run [OF assms(1-5)] s'(2) ti(3) show ?thesis by simp
qed

lemma demo_breaks_info:
  "\<exists>n s'. get_func_code_info (with_services stopping_services) (f_code f_frame) f_frame (mon_with demo_breaks h) = (Inr (Some n), s') \<and>
    \<not> always_skip_code (m_fci s' n) \<and> \<not> always_filtered_out (m_fci s' n) \<and>
    bp_line_to_breakpoint (m_fci s' n) = [(2, demo_breakpoint)] \<and> breakpoint_found (m_fci s' n) \<and>
    \<not> plugin_line_breakpoint_found (m_fci s' n)"
  by (simp add: mon_run_defs int_range Let_def stopping_fields demo_breaks_def stopping_services_def quiet_services_def)

lemma demo_suspends: "suspends (ms_sv (with_services stopping_services)) (ti_thread demo_ti) 0"
  using stopping_suspends by simp

theorem mon_breakpoint_suspends_witness:
  "\<exists>s'. line_event (with_services stopping_services) 1 f_frame 2 (mon_with demo_breaks id) = (Inr M_None, s') \<and>
    w_calls (m_w s') = [CallSetSuspend 1 CMD_SET_BREAK False (-1), CallWaitSuspend 1 1 ''line'']"
proof -
  obtain n s1 where run: "get_func_code_info (with_services stopping_services) (f_code f_frame) f_frame (mon_with demo_breaks id) = (Inr (Some n), s1)"
    and n: "\<not> always_skip_code (m_fci s1 n)" "\<not> always_filtered_out (m_fci s1 n)"
      "bp_line_to_breakpoint (m_fci s1 n) = [(2, demo_breakpoint)]" "breakpoint_found (m_fci s1 n)"
    using demo_breaks_info [of id] by auto
  have "traced_thread 1 demo_ti 0 (mon_with demo_breaks id)" by (simp add: demo_breaks_def)
  from mon_breakpoint_suspends [OF this _ run n(1,2,4), of 2 demo_breakpoint] demo_suspends n(3) show ?thesis
    by simp
qed

text \<open>C29. 
  While a thread steps over, a line without a breakpoint suspends it exactly when the frame is the frame of
  the step (or, for scoped steps, in the same context), as in the settrace backend.
\<close>

theorem mon_step_over_stops:
  assumes "traced_thread me ti i s" and "tl_disable_next_line (m_tls s me) = None"
    and "get_func_code_info ms (f_code cur) cur s = (Inr (Some n), s1)"
    and "\<not> always_skip_code (m_fci s1 n)" "\<not> always_filtered_out (m_fci s1 n)"
    and "map_of (bp_line_to_breakpoint (m_fci s1 n)) (sint line) = None" "\<not> plugin_line_breakpoint_found (m_fci s1 n)"
    and "pydev_state (infos (w_reg (m_w s)) i) = STATE_RUN" and "suspend_type (infos (w_reg (m_w s)) i) = PYTHON_SUSPEND"
    and "pydev_step_cmd (infos (w_reg (m_w s)) i) \<in> {CMD_STEP_OVER, CMD_STEP_OVER_MY_CODE}"
    and "suspends (ms_sv ms) (ti_thread ti) i"
  shows "\<exists>s'. line_event ms me cur line s = (Inr M_None, s') \<and>
    w_calls (m_w s') = w_calls (m_w s) @
      (let inf = infos (w_reg (m_w s)) i in
       if mon_is_same_frame ms inf (pydev_step_stop inf) (Some cur)
       then [CallSetSuspend (ti_thread ti) (pydev_step_cmd inf) False (pydev_original_step_cmd inf),
             CallWaitSuspend (ti_thread ti) (f_id cur) ''line'']
       else [])"
proof -
  let ?i = "infos (w_reg (m_w s)) i"
  have out: "outside s1 = outside s" using keeps_run [OF keeps_get_func_code_info assms(3)] .
  have ti: "tl_thread_info (m_tls s1 me) = Some ti" "ti_info ti = Some i" "m_w s1 = m_w s"
    using traced_thread_outside [OF out assms(1)] out by (auto simp: outside_def)
  obtain s' where s': "mon_suspend_for_step ms ti i (pydev_step_cmd ?i) cur ''line'' ArgNone s1 = (Inr (), s')"
    "w_calls (m_w s') = w_calls (m_w s) @ [CallSetSuspend (ti_thread ti) (pydev_step_cmd ?i) False (pydev_original_step_cmd ?i),
       CallWaitSuspend (ti_thread ti) (f_id cur) ''line'']"
    using mon_suspends [OF assms(11) ti(2), of "pydev_step_cmd ?i" False "pydev_original_step_cmd ?i" cur "''line''" ArgNone s1] ti(3)
    by (auto simp: mon_suspend_for_step_def py_bind_app)
  have cmd: "pydev_step_cmd ?i \<noteq> -1" "pydev_step_cmd ?i \<notin> {CMD_STEP_INTO, CMD_STEP_INTO_MY_CODE, CMD_STEP_INTO_COROUTINE}"
    using assms(10) by auto
  have "line_breakpoint ms ti (m_fci s1 n) cur line s1 = (Inr False, s1)"
    using assms(6) by (simp add: line_breakpoint_def)
  moreover have "plugin_breakpoint ms ti i ''line'' False cur s1 = (Inr False, s1)"
    by (simp add: plugin_breakpoint_def)
  moreover have "line_step ms ti i (m_fci s1 n) cur (pydev_step_stop ?i) (pydev_step_cmd ?i) s1 =
     (Inr (), if mon_is_same_frame ms ?i (pydev_step_stop ?i) (Some cur) then s' else s1)"
    using assms(10) cmd s'(1) ti(3) by (simp add: line_step_def py_bind_app Let_def)
  ultimately have "internal_line_event ms me n cur line s1 =
     (Inr M_None, if mon_is_same_frame ms ?i (pydev_step_stop ?i) (Some cur) then s' else s1)"
    using ti assms(7-9) cmd(1)
    by (simp add: internal_line_event_def additional_info_def py_bind_app py_then_app)
  with line_event_run [OF assms(1-5)] s'(2) ti(3) show ?thesis by (simp add: Let_def)
qed

definition demo_step :: "thread_info \<Rightarrow> thread_info" where
  "demo_step i = i \<lparr> pydev_step_cmd := CMD_STEP_OVER, pydev_original_step_cmd := CMD_STEP_OVER,
     pydev_step_stop := Some f_frame, suspend_type := PYTHON_SUSPEND \<rparr>"

theorem mon_step_over_stops_witness:
  "\<exists>s'. line_event (with_services stopping_services) 1 f_frame 3 (mon_with demo_breaks demo_step) = (Inr M_None, s') \<and>
    w_calls (m_w s') = [CallSetSuspend 1 CMD_STEP_OVER False CMD_STEP_OVER, CallWaitSuspend 1 1 ''line'']"
proof -
  obtain n s1 where run: "get_func_code_info (with_services stopping_services) (f_code f_frame) f_frame (mon_with demo_breaks demo_step) = (Inr (Some n), s1)"
    and n: "\<not> always_skip_code (m_fci s1 n)" "\<not> always_filtered_out (m_fci s1 n)"
      "bp_line_to_breakpoint (m_fci s1 n) = [(2, demo_breakpoint)]" "\<not> plugin_line_breakpoint_found (m_fci s1 n)"
    using demo_breaks_info [of demo_step] by auto
  have "traced_thread 1 demo_ti 0 (mon_with demo_breaks demo_step)" by (simp add: demo_breaks_def)
  from mon_step_over_stops [OF this _ run n(1,2), of 3] demo_suspends n(3,4) show ?thesis
    by (simp add: demo_step_def mon_is_same_frame_def is_same_frame_def Let_def)
qed

section \<open>Lines after a jump\<close>

definition after_jump :: "int \<Rightarrow> mon \<Rightarrow> mon" where
  "after_jump me s = s \<lparr> m_tls := (m_tls s)(me := (m_tls s me) \<lparr> tl_disable_next_line := None \<rparr>) \<rparr>"

text \<open>
  The line event that follows a jump within its line is meant to be skipped, since the jump was already handled as that
  line. It is skipped up to line 256 and handled a second time after that, because the two line numbers are compared as objects.
\<close>

lemma line_event_after_jump:
  assumes "traced_thread me ti i s"
    and "tl_disable_next_line (m_tls s me) = Some (co_filename (f_code cur), Some (sint line))"
    and "0 \<le> sint line"
  shows "line_event ms me cur line s =
    (if sint line \<le> 256 then (Inr M_None, after_jump me s) else line_event ms me cur line (after_jump me s))"
  using assms
  by (auto simp: traced_thread_def line_event_def enter_event_def get_thread_info_def has_debugger_def
      skip_after_jump_def same_int_object_def after_jump_def py_simps)

end
