(* ===== verification/MonEnable.thy ===== *)
theory MonEnable
  imports MonProps
begin

text \<open>
  Which events are enabled: the local events of code objects, the global events, and the handler of calls, which decides
  which code is traced.
\<close>

section \<open>Local events\<close>

text \<open>
  Functions that only move the state upwards in an order on states, and the rules to show it for a composed function.
\<close>

locale state_order =
  fixes le :: "'s \<Rightarrow> 's \<Rightarrow> bool"
  assumes le_refl: "le s s" and le_trans: "le s t \<Longrightarrow> le t u \<Longrightarrow> le s u"
begin

definition advances :: "('s, 'a) py \<Rightarrow> bool" where
  "advances m \<longleftrightarrow> (\<forall>s. le s (snd (m s)))"

lemma advancesD: "advances m \<Longrightarrow> m s = (r, s') \<Longrightarrow> le s s'"
  by (metis advances_def snd_conv)

lemma advances_keeps: "(\<And>s s'. f s' = f s \<Longrightarrow> le s s') \<Longrightarrow> keeps f m \<Longrightarrow> advances m"
  by (simp add: advances_def keeps_def)

lemma advances_modify: "(\<And>s. le s (g s)) \<Longrightarrow> advances (py_modify g)"
  by (simp add: advances_def)

lemma advances_bind: "advances m \<Longrightarrow> (\<And>x. advances (k x)) \<Longrightarrow> advances (py_bind m k)"
  by (auto simp: advances_def py_bind_def split: prod.splits sum.splits) (metis le_trans snd_conv)+

lemma advances_then: "advances m \<Longrightarrow> advances n \<Longrightarrow> advances (py_then m n)"
  by (simp add: py_then_def advances_bind)

lemma advances_if: "(b \<Longrightarrow> advances m) \<Longrightarrow> (\<not> b \<Longrightarrow> advances n) \<Longrightarrow> advances (if b then m else n)"
  by simp

lemma advances_option:
  "(x = None \<Longrightarrow> advances m) \<Longrightarrow> (\<And>y. x = Some y \<Longrightarrow> advances (n y)) \<Longrightarrow>
   advances (case x of None \<Rightarrow> m | Some y \<Rightarrow> n y)"
  by (cases x) auto

lemma advances_let: "advances (n x) \<Longrightarrow> advances (let y = x in n y)"
  by simp

lemma advances_pure: "advances (py_ret x)" "advances (py_gets f)" "advances (py_raise e)" "advances (py_lift r)"
  by (simp_all add: advances_def le_refl)

lemmas advance_rules = advances_modify advances_bind advances_then advances_if advances_option advances_let
  advances_pure

end

text \<open>The local events of every code object only grow.\<close>

definition local_events_grow :: "mon \<Rightarrow> mon \<Rightarrow> bool" where
  "local_events_grow s s' \<longleftrightarrow> (\<forall>c. mo_local (m_mo s) c \<subseteq> mo_local (m_mo s') c)"

interpretation le: state_order local_events_grow
  by unfold_locales (auto simp: local_events_grow_def)

abbreviation local_obs :: "mon \<Rightarrow> code \<Rightarrow> mon_event set" where
  "local_obs s \<equiv> mo_local (m_mo s)"

lemma le_keeps: "keeps local_obs m \<Longrightarrow> le.advances m"
  by (rule le.advances_keeps) (simp_all add: local_events_grow_def)

lemma local_ensure_monitoring: "keeps local_obs (ensure_monitoring ms)"
  unfolding ensure_monitoring_def update_monitor_events_def register_exception_callbacks_def
    register_code_callbacks_def restart_events_def mo_defs
  by (intro keeps_rules; simp)

lemma le_add_local:
  "le.advances (py_bind (mo_get_local_events c) (\<lambda>es. mo_set_local_events c (es \<union> X)))"
  by (auto simp: le.advances_def local_events_grow_def mo_defs py_simps)

lemma le_enable: "le.advances (enable_line_tracing ms c)" "le.advances (enable_return_tracing ms c)"
  unfolding enable_line_tracing_def enable_return_tracing_def
  by (intro le.advances_then le_keeps local_ensure_monitoring le_add_local)+

lemma le_enable_step: "le.advances (enable_step_tracing ms c cmd i fr)"
  unfolding enable_step_tracing_def by (intro le.advance_rules le_enable le_keeps keeps_mon_access)

lemma le_enable_code: "le.advances (enable_code_tracing_of ms i n c fr warn)"
  unfolding enable_code_tracing_of_def mon_notify_skipped_def
  by (intro le.advance_rules le_enable le_enable_step le_keeps keeps_mon_access keeps_on_w_outside; simp add: local_events_grow_def)

lemma fci_outside_local: "keeps outside m \<Longrightarrow> le.advances m"
  by (rule le_keeps) (simp add: keeps_def outside_def)

text \<open>
  \<^verbatim>\<open>enable_code_tracing\<close> only ever adds local events, for every code object, also when it raises.
\<close>

lemma enable_code_tracing_only_adds:
  "mo_local (m_mo s) c' \<subseteq> mo_local (m_mo (snd (enable_code_tracing ms ident c fr s))) c'"
proof -
  have "le.advances (enable_code_tracing ms ident c fr)"
    unfolding enable_code_tracing_def
    by (intro le.advance_rules le_enable_code fci_outside_local [OF keeps_get_func_code_info] le_keeps
        keeps_mon_access keeps_on_w_outside; simp)
  then show ?thesis by (simp add: le.advances_def local_events_grow_def)
qed

lemma enable_line_post: "enable_line_tracing ms c s = (Inr u, s') \<Longrightarrow> {LINE, JUMP} \<subseteq> mo_local (m_mo s') c"
  by (auto simp: enable_line_tracing_def mo_defs py_simps split: prod.splits sum.splits if_splits)

lemma enable_return_post: "enable_return_tracing ms c s = (Inr u, s') \<Longrightarrow> PY_RETURN \<in> mo_local (m_mo s') c"
  by (auto simp: enable_return_tracing_def mo_defs py_simps split: prod.splits sum.splits if_splits)

abbreviation (input) step_into_commands :: "cint set" where
  "step_into_commands \<equiv> {CMD_STEP_INTO, CMD_STEP_INTO_MY_CODE, CMD_STEP_INTO_COROUTINE, CMD_SMART_STEP_INTO}"

lemma enable_step_post:
  assumes "enable_step_tracing ms c cmd i fr s = (Inr u, s')" and "cmd \<in> step_into_commands"
  shows "{LINE, JUMP, PY_RETURN} \<subseteq> mo_local (m_mo s') c"
proof -
  obtain s1 where s1: "enable_line_tracing ms c s = (Inr (), s1)" "enable_return_tracing ms c s1 = (Inr u, s')"
    using assms by (auto simp: enable_step_tracing_def py_bind_app py_then_app Let_def split: prod.splits sum.splits)
  have "mo_local (m_mo s1) c \<subseteq> mo_local (m_mo s') c"
    using le.advancesD [OF le_enable(2) s1(2)] by (simp add: local_events_grow_def)
  with enable_line_post [OF s1(1)] enable_return_post [OF s1(2)] show ?thesis by auto
qed

lemma enable_code_post:
  assumes "enable_code_tracing_of ms i n c fr warn s = (Inr b, s')"
    and "pydev_step_cmd (infos (w_reg (m_w s)) i) \<in> step_into_commands"
  shows "{LINE, JUMP, PY_RETURN} \<subseteq> mo_local (m_mo s') c"
proof -
  have "pydev_step_cmd (infos (w_reg (m_w s)) i) \<noteq> -1" using assms(2) by auto
  then obtain s1 where "enable_step_tracing ms c (pydev_step_cmd (infos (w_reg (m_w s)) i)) i fr s1 = (Inr (), s')"
    using assms(1)
    by (auto simp: enable_code_tracing_of_def py_bind_app py_then_app Let_def split: prod.splits sum.splits if_splits)
  then show ?thesis using enable_step_post assms(2) by blast
qed

lemma keeps_tables_start:
  "keeps tables (start_plugin ms ti i x cur k)" "keeps tables (start_stops ms ti i n cur k)"
  unfolding start_stops_def start_plugin_def by (intro keeps_rules keeps_tables_line keeps_tables_stop)+

lemma start_method_event_run:
  assumes "traced_thread me ti i s"
    and "get_func_code_info ms (f_code cur) cur s = (Inr (Some n), s1)" and "\<not> always_skip_code (m_fci s1 n)"
  shows "start_method_event ms me cur s =
    py_bind (enable_code_tracing_of ms i n (f_code cur) cur True) (start_stops ms ti i n cur) s1"
  using assms
  by (auto simp: traced_thread_def start_method_event_def enter_event_def get_thread_info_def has_debugger_def check_traced_def
      check_code_def code_info_def additional_info_def py_simps)

text \<open>C13. 
  While a thread steps into, the code of every function that it calls is traced line by line and on return when the handler of the call
  is done, unless the code is the debugger's own. So no line that the step must stop at is missed.
\<close>

theorem stepping_code_is_traced:
  assumes "traced_thread me ti i s"
    and "get_func_code_info ms (f_code cur) cur s = (Inr (Some n), s1)" and "\<not> always_skip_code (m_fci s1 n)"
    and "pydev_step_cmd (infos (w_reg (m_w s)) i) \<in> step_into_commands"
    and "start_method_event ms me cur s = (Inr r, s')"
  shows "{LINE, JUMP, PY_RETURN} \<subseteq> mo_local (m_mo s') (f_code cur)"
proof -
  have out: "outside s1 = outside s" using keeps_run [OF keeps_get_func_code_info assms(2)] .
  obtain keep s2 where s2: "enable_code_tracing_of ms i n (f_code cur) cur True s1 = (Inr keep, s2)"
    "start_stops ms ti i n cur keep s2 = (Inr r, s')"
    using assms(5) by (auto simp: start_method_event_run [OF assms(1-3)] py_bind_app split: prod.splits sum.splits)
  have "{LINE, JUMP, PY_RETURN} \<subseteq> mo_local (m_mo s2) (f_code cur)"
    using enable_code_post [OF s2(1)] assms(4) out by (simp add: outside_def)
  moreover have "tables s' = tables s2" using keeps_run [OF keeps_tables_start(2) s2(2)] .
  ultimately show ?thesis by (simp add: tables_def)
qed

definition demo_step_into :: "thread_info \<Rightarrow> thread_info" where
  "demo_step_into i = i \<lparr> pydev_step_cmd := CMD_STEP_INTO, suspend_type := PYTHON_SUSPEND \<rparr>"

theorem stepping_code_is_traced_witness:
  "\<exists>r s'. start_method_event (with_services stopping_services) 1 f_frame (mon_with demo_breaks demo_step_into) = (Inr r, s') \<and>
    {LINE, JUMP, PY_RETURN} \<subseteq> mo_local (m_mo s') (f_code f_frame)"
proof -
  let ?s = "mon_with demo_breaks demo_step_into"
  obtain n s1 where run: "get_func_code_info (with_services stopping_services) (f_code f_frame) f_frame ?s = (Inr (Some n), s1)"
    and n: "\<not> always_skip_code (m_fci s1 n)"
    using demo_breaks_info [of demo_step_into] by auto
  have thread: "traced_thread 1 demo_ti 0 ?s" by (simp add: demo_breaks_def)
  obtain r s' where event: "start_method_event (with_services stopping_services) 1 f_frame ?s = (Inr r, s')"
    by (simp add: start_method_event_def enable_code_tracing_of_def start_stops_def start_plugin_def
      mon_run_defs int_range Let_def stopping_services_def quiet_services_def demo_step_into_def demo_breaks_def
      enable_step_tracing_def enable_line_tracing_def enable_return_tracing_def ensure_monitoring_def mo_defs)
  from stepping_code_is_traced [OF thread run n _ event] event show ?thesis
    by (simp add: demo_step_into_def)
qed

section \<open>Calls\<close>

definition fci_tables :: "mon \<Rightarrow> (nat \<Rightarrow> func_code_info) \<times> (code_key \<rightharpoonup> nat) \<times> int" where
  "fci_tables s = (m_fci s, m_fci_cache s, m_mtime s)"

lemma fci_tables_simps [simp]:
  "fci_tables (s \<lparr> m_w := w \<rparr>) = fci_tables s" "fci_tables (s \<lparr> m_mo := t \<rparr>) = fci_tables s"
  "fci_tables (s \<lparr> m_notified := b \<rparr>) = fci_tables s"
  by (simp_all add: fci_tables_def)

lemma keeps_fci_ensure: "keeps fci_tables (ensure_monitoring ms)"
  unfolding ensure_monitoring_def update_monitor_events_def register_exception_callbacks_def
    register_code_callbacks_def restart_events_def
  by (intro keeps_rules; simp)

lemma keeps_fci_enable: "keeps fci_tables (enable_code_tracing_of ms i n c fr warn)"
  unfolding enable_code_tracing_of_def enable_step_tracing_def mon_notify_skipped_def enable_line_tracing_def
    enable_return_tracing_def
  by (intro keeps_rules keeps_fci_ensure; simp)

lemma enable_code_not_added:
  "enable_code_tracing_of ms i n c fr warn s = (Inr False, s') \<Longrightarrow>
   pydev_step_cmd (infos (w_reg (m_w s)) i) = -1 \<and>
   (always_filtered_out (m_fci s n) \<or> \<not> breakpoint_found (m_fci s n) \<and> \<not> plugin_line_breakpoint_found (m_fci s n))"
  by (auto simp: enable_code_tracing_of_def py_bind_app py_then_app Let_def split: prod.splits sum.splits if_splits)

lemma start_stops_disable:
  "start_stops ms ti i n cur keep s = (Inr M_DISABLE, s') \<Longrightarrow>
   s' = s \<and> \<not> keep \<and> \<not> function_breakpoint_found (m_fci s n) \<and> \<not> any_thread_stepping (w_reg (m_w s)) \<and>
   \<not> (has_plugin (w_dbg (m_w s)) \<and> plugin_call_breakpoint_found (m_fci s n))"
  by (cases "plugin_call_breakpoint_found (m_fci s n)")
    (auto simp: start_stops_def start_plugin_def plugin_breakpoint_def mon_access_defs get_info_def get_db_def py_simps py_zoom_app
      split: prod.splits sum.splits if_splits option.splits)


lemma call_prologue:
  assumes "py_flow (enter_event ms me cur d) (\<lambda>ti. py_flow (check_traced ti) (\<lambda>_.
      py_flow (check_code ms cur always_skip_code d) (\<lambda>n. m_next (ti, n)))) s = (Inr x, s')"
  shows "x = Return M_None \<or> x = Return d \<and> \<not> has_debugger s' \<or>
    (\<exists>n ti. fci_for (f_code cur) (m_mtime s') s' (Some n) \<and> has_debugger s' \<and>
       x = (if always_skip_code (m_fci s' n) then Return d else Next (ti, n)))"
  using assms
proof (cases rule: py_flow_elim)
  case (Return y)
  then show ?thesis using enter_event_Return by blast
next
  case (Next ti s1)
  have s1: "has_debugger s1" using enter_event_Next [OF Next(1)] by simp
  from Next(2) show ?thesis
  proof (cases rule: py_flow_elim)
    case (Return y)
    then show ?thesis using check_traced_run by blast
  next
    case (Next v s3)
    then have s3: "has_debugger s3" using s1 check_traced_run by blast
    obtain y where y: "check_code ms cur always_skip_code d s3 = (Inr y, s')"
      "x = (case y of Return r \<Rightarrow> Return r | Next n \<Rightarrow> Next (ti, n))"
      using Next(2) by (auto simp: py_flow_app split: prod.splits sum.splits flow.splits)
    have "outside s' = outside s3" using keeps_run [OF keeps_check_code y(1)] .
    then have "has_debugger s'" "m_mtime s' = m_mtime s3" using s3 has_debugger_outside by blast+
    with check_code_run [OF y(1) s3] y(2) show ?thesis by (auto split: if_splits)
  qed
qed

text \<open>C10. 
  The event of a call is given up only when there is no debugger, or when the current information on the code says that the code is
  skipped, or that it has no function breakpoint, no call breakpoint of a plugin while there are plugins, and no line breakpoints
  to watch, while no thread is stepping.
\<close>

theorem start_method_event_disable_sound:
  assumes "start_method_event ms me cur s = (Inr M_DISABLE, s')"
  shows "\<not> has_debugger s' \<or> (\<exists>n. m_fci_cache s' (code_key (f_code cur)) = Some n \<and>
    sint (pydb_mtime (m_fci s' n)) = m_mtime s' \<and>
    (always_skip_code (m_fci s' n) \<or>
     \<not> function_breakpoint_found (m_fci s' n) \<and> \<not> any_thread_stepping (w_reg (m_w s')) \<and>
     \<not> (has_plugin (w_dbg (m_w s')) \<and> plugin_call_breakpoint_found (m_fci s' n)) \<and>
     (always_filtered_out (m_fci s' n) \<or>
      \<not> breakpoint_found (m_fci s' n) \<and> \<not> plugin_line_breakpoint_found (m_fci s' n))))"
  using assms unfolding start_method_event_def
proof (cases rule: py_body_elim)
  case Return
  from call_prologue [OF this] show ?thesis by (auto simp: fci_for_def split: if_splits)
next
  case (Next y s1)
  then obtain ti n where y: "y = (ti, n)" by (cases y) auto
  then obtain i keep s2 where run: "enable_code_tracing_of ms i n (f_code cur) cur True s1 = (Inr keep, s2)"
    "start_stops ms ti i n cur keep s2 = (Inr M_DISABLE, s')"
    using Next(2) by (auto simp: additional_info_def py_bind_app split: prod.splits sum.splits option.splits)
  have "fci_for (f_code cur) (m_mtime s1) s1 (Some n)" using call_prologue [OF Next(1)] y by (auto split: if_splits)
  moreover have "fci_tables s2 = fci_tables s1" using keeps_run [OF keeps_fci_enable run(1)] .
  moreover have "tables s' = tables s2" using keeps_run [OF keeps_tables_start(2) run(2)] .
  ultimately show ?thesis
    using start_stops_disable [OF run(2)] enable_code_not_added [of ms i n "f_code cur" cur True s1 s2] run(1)
    by (auto simp: fci_for_def tables_def fci_tables_def)
qed

lemma demo_start_disabled:
  "\<exists>s'. start_method_event (with_services quiet_services) 1 f_frame demo_mon = (Inr M_DISABLE, s')"
  by (simp add: start_method_event_def enable_code_tracing_of_def start_stops_def start_plugin_def
      mon_run_defs int_range Let_def quiet_services_def any_thread_stepping_def)

theorem start_method_event_disable_sound_witness:
  "\<exists>s'. start_method_event (with_services quiet_services) 1 f_frame demo_mon = (Inr M_DISABLE, s') \<and>
    (\<not> has_debugger s' \<or> (\<exists>n. m_fci_cache s' (code_key (f_code f_frame)) = Some n \<and>
    sint (pydb_mtime (m_fci s' n)) = m_mtime s' \<and>
    (always_skip_code (m_fci s' n) \<or>
     \<not> function_breakpoint_found (m_fci s' n) \<and> \<not> any_thread_stepping (w_reg (m_w s')) \<and>
     \<not> (has_plugin (w_dbg (m_w s')) \<and> plugin_call_breakpoint_found (m_fci s' n)) \<and>
     (always_filtered_out (m_fci s' n) \<or>
      \<not> breakpoint_found (m_fci s' n) \<and> \<not> plugin_line_breakpoint_found (m_fci s' n)))))"
  using demo_start_disabled start_method_event_disable_sound by blast

section \<open>Global events\<close>

text \<open>Whether calls have to be watched.\<close>

definition tracked_now :: "bool option \<Rightarrow> mon \<Rightarrow> bool" where
  "tracked_now req s \<longleftrightarrow> has_some_breakpoint s \<or>
     (case req of Some b \<Rightarrow> b | None \<Rightarrow> some_thread_stops (w_reg (m_w s)) (m_threads s))"

text \<open>
  \<^verbatim>\<open>update_monitor_events\<close> enables exactly the global events that the debugger needs: calls when there is a breakpoint or a thread stops or steps,
  raises when there are exception breakpoints, unwinding also for uncaught exceptions. Every enabled event but \<^verbatim>\<open>PY_RESUME\<close>
  has a callback; local events and threads are untouched.
\<close>

theorem update_monitor_events_spec:
  assumes "mo_tool (m_mo s) = Some ''pydevd''" and "global_debugger (w_reg (m_w s)) \<noteq> None"
  shows "\<exists>s'. update_monitor_events ms req s = (Inr (), s') \<and> m_w s' = m_w s \<and> mo_local (m_mo s') = mo_local (m_mo s) \<and>
    (PY_START \<in> mo_events (m_mo s') \<longleftrightarrow> tracked_now req s) \<and>
    (RAISE \<in> mo_events (m_mo s') \<longleftrightarrow> has_exception_breakpoints (w_dbg (m_w s))) \<and>
    (PY_UNWIND \<in> mo_events (m_mo s') \<longleftrightarrow> has_exception_breakpoints (w_dbg (m_w s)) \<or> m_break_on_uncaught s) \<and>
    (\<forall>e. e \<in> mo_events (m_mo s') \<and> e \<noteq> PY_RESUME \<longrightarrow> mo_callbacks (m_mo s') e \<noteq> None) \<and>
    (tracked_now req s \<longrightarrow> mo_callbacks (m_mo s') LINE = Some LineEvent \<and> mo_callbacks (m_mo s') PY_RETURN = Some ReturnEvent) \<and>
    (\<not> tracked_now req s \<longrightarrow> mo_callbacks (m_mo s') LINE = None \<and> mo_callbacks (m_mo s') PY_RETURN = None)"
  using assms
  by (cases "has_exception_breakpoints (w_dbg (m_w s))"; cases "m_break_on_uncaught s"; cases "tracked_now req s")
    (auto simp: update_monitor_events_def py_simps Let_def tracked_now_def exception_events_def
      register_exception_callbacks_def register_code_callbacks_def mo_defs)

definition demo_tracked :: mon where
  "demo_tracked = (mon_with demo_breaks id) \<lparr> m_bp_files := [''a.py''] \<rparr>"

theorem update_monitor_events_spec_witness:
  "\<exists>s'. update_monitor_events (with_services quiet_services) None demo_tracked = (Inr (), s') \<and>
    PY_START \<in> mo_events (m_mo s') \<and> mo_callbacks (m_mo s') LINE = Some LineEvent"
proof -
  have "tracked_now None demo_tracked"
    by (simp add: tracked_now_def demo_tracked_def has_some_breakpoint_def demo_breaks_def)
  with update_monitor_events_spec [of demo_tracked "with_services quiet_services" None] show ?thesis
    by (auto simp: demo_tracked_def)
qed

text \<open>
  Once monitoring was ensured without an error the tool is registered, and ensuring it again changes nothing.
\<close>

lemma ensure_monitoring_idempotent:
  assumes "ensure_monitoring ms s = (Inr (), s1)"
  shows "mo_tool (m_mo s1) \<noteq> None \<and> ensure_monitoring ms s1 = (Inr (), s1)"
  using assms
  by (auto simp: ensure_monitoring_def update_monitor_events_def py_simps Let_def restart_events_def
      register_exception_callbacks_def register_code_callbacks_def mo_defs split: if_splits)

text \<open>
  Stopping the backend for all threads frees the tool, disables all global events and unregisters every callback but that of \<^verbatim>\<open>PY_UNWIND\<close>, which stays as it was.
  The local events of code objects stay enabled.
\<close>

lemma stop_monitoring_spec:
  assumes "mo_tool (m_mo s) = Some ''pydevd''"
  shows "\<exists>s'. stop_monitoring ms True me cur s = (Inr (), s') \<and> mo_tool (m_mo s') = None \<and> mo_events (m_mo s') = {} \<and>
    (\<forall>e. mo_callbacks (m_mo s') e = (if e = PY_UNWIND then mo_callbacks (m_mo s) PY_UNWIND else None)) \<and>
    mo_local (m_mo s') = mo_local (m_mo s)"
  using assms
  by (auto simp: stop_monitoring_def py_simps mo_defs) (metis mon_event.exhaust)

end
