(* ===== verification/MonReturn.thy ===== *)
theory MonReturn
  imports MonEnable
begin

text \<open>
  The return events of the \<^verbatim>\<open>sys.monitoring\<close> backend and its reports of exceptions.
\<close>

section \<open>Return events\<close>

lemma return_event_run:
  assumes "traced_thread me ti i s" and "get_func_code_info ms (f_code cur) cur s = (Inr (Some n), s1)"
    and "\<not> always_skip_code (m_fci s1 n)"
    and "pydev_state (infos (w_reg (m_w s)) i) = STATE_RUN" and "suspend_type (infos (w_reg (m_w s)) i) = PYTHON_SUSPEND"
    and "pydev_step_cmd (infos (w_reg (m_w s)) i) \<noteq> -1"
  shows "return_event ms me cur retval s =
    (case return_step ms ti i (pydev_step_cmd (infos (w_reg (m_w s)) i)) cur retval s1 of
      (Inl e, s') \<Rightarrow> (Inl e, s') | (Inr u, s') \<Rightarrow> (Inr M_None, s'))"
proof -
  have "outside s1 = outside s" using keeps_run [OF keeps_get_func_code_info assms(2)] .
  then show ?thesis
    using assms
    by (auto simp: traced_thread_def return_event_def enter_event_def get_thread_info_def has_debugger_def check_traced_def
      check_code_def code_info_def additional_info_def py_simps Let_def outside_def split: prod.splits sum.splits)
qed

text \<open>
  On the return of the frame that is stepped out of, a step return suspends the thread in the caller, unless the caller is one
  of the debugger's own entry points or the client does not trace it.
\<close>

lemma mon_step_return_stops_in_caller:
  assumes "traced_thread me ti i s" and "get_func_code_info ms (f_code cur) cur s = (Inr (Some n), s1)"
    and "\<not> always_skip_code (m_fci s1 n)"
    and "pydev_state (infos (w_reg (m_w s)) i) = STATE_RUN" and "suspend_type (infos (w_reg (m_w s)) i) = PYTHON_SUSPEND"
    and "pydev_step_cmd (infos (w_reg (m_w s)) i) \<in> {CMD_STEP_RETURN, CMD_STEP_RETURN_MY_CODE}"
    and "frame_is (pydev_step_stop (infos (w_reg (m_w s)) i)) (Some cur)"
    and "f_back cur = Some caller" and "\<not> show_return_values (w_dbg (m_w s))"
    and "(snd (snd (sv_abs_path (ms_sv ms) caller)), co_name (f_code caller)) \<notin> set DEBUG_STARTS"
    and "snd (snd (sv_abs_path (ms_sv ms) caller)) \<noteq> TRACE_PROPERTY" and "sv_should_trace_hook (ms_sv ms) = None"
    and "suspends (ms_sv ms) (ti_thread ti) i"
  shows "\<exists>s'. return_event ms me cur retval s = (Inr M_None, s') \<and>
    w_calls (m_w s') = w_calls (m_w s) @
      (let inf = infos (w_reg (m_w s)) i in
       [CallSetSuspend (ti_thread ti) (pydev_step_cmd inf) False (pydev_original_step_cmd inf),
        CallWaitSuspend (ti_thread ti) (f_id caller) ''return''])"
proof -
  let ?i = "infos (w_reg (m_w s)) i"
  have s1: "m_w s1 = m_w s" using keeps_run [OF keeps_get_func_code_info assms(2)] by (simp add: outside_def)
  have ti: "ti_info ti = Some i" using assms(1) by (simp add: traced_thread_def)
  obtain s' where s': "mon_suspend_for_step ms ti i (pydev_step_cmd ?i) caller ''return'' retval s1 = (Inr (), s')"
    "w_calls (m_w s') = w_calls (m_w s) @ [CallSetSuspend (ti_thread ti) (pydev_step_cmd ?i) False (pydev_original_step_cmd ?i),
       CallWaitSuspend (ti_thread ti) (f_id caller) ''return'']"
    using mon_suspends [OF assms(13) ti, of "pydev_step_cmd ?i" False "pydev_original_step_cmd ?i" caller "''return''" retval s1] s1
    by (auto simp: mon_suspend_for_step_def py_bind_app)
  have "mon_stop_on_return ms ti i (pydev_step_cmd ?i) cur retval s1 = (Inr (), s')"
    using assms(8,10-12) s'(1) by (simp add: mon_stop_on_return_def Let_def)
  moreover have "mon_is_same_frame ms ?i (pydev_step_stop ?i) (Some cur)"
    using assms(7) by (simp add: mon_is_same_frame_def is_same_frame_def)
  ultimately have "return_step ms ti i (pydev_step_cmd ?i) cur retval s1 = (Inr (), s')"
    using assms(6,9) s1
    by (auto simp: return_step_def return_stops_into_def return_stops_other_def show_if_enabled_def py_simps Let_def)
  with return_event_run [OF assms(1-5)] assms(6) s'(2) show ?thesis by (auto simp: Let_def)
qed

definition demo_step_return :: "thread_info \<Rightarrow> thread_info" where
  "demo_step_return i = i \<lparr> pydev_step_cmd := CMD_STEP_RETURN, pydev_original_step_cmd := CMD_STEP_RETURN,
     pydev_step_stop := Some f_frame, suspend_type := PYTHON_SUSPEND \<rparr>"

text \<open>
  A step over at the end of a function whose caller the backend has not seen yet: the information on the
  caller's code is asked for with the frame that returns, and the handler fails with an AssertionError instead of stopping.
\<close>

lemma step_over_return_to_unseen_caller:
  assumes "traced_thread me ti i s" and "get_func_code_info ms (f_code cur) cur s = (Inr (Some n), s1)"
    and "\<not> always_skip_code (m_fci s1 n)"
    and "pydev_state (infos (w_reg (m_w s)) i) = STATE_RUN" and "suspend_type (infos (w_reg (m_w s)) i) = PYTHON_SUSPEND"
    and "pydev_step_cmd (infos (w_reg (m_w s)) i) \<in> {CMD_STEP_OVER, CMD_STEP_OVER_MY_CODE}"
    and "\<not> pydev_use_scoped_step_frame (infos (w_reg (m_w s)) i)"
    and "frame_is (pydev_step_stop (infos (w_reg (m_w s)) i)) (Some cur)"
    and "f_back cur = Some caller" and "f_code caller \<noteq> f_code cur"
    and "get_code_line_info (f_code caller) s1 = (Inr li, s2)" "INT_MIN \<le> m_mtime s" "m_mtime s \<le> INT_MAX"
    and "m_fci_cache s1 (code_key (f_code caller)) = None"
    and "m_file_types s1 (co_firstlineno (f_code caller), fst (ms_abs_path_of_file ms (co_filename (f_code caller))), code_key (f_code caller)) = None"
  shows "\<exists>s'. return_event ms me cur retval s = (Inl AssertionError, s')"
proof -
  let ?i = "infos (w_reg (m_w s)) i"
  have out: "outside s1 = outside s" using keeps_run [OF keeps_get_func_code_info assms(2)] .
  have out2: "outside s2 = outside s1" using keeps_run [OF keeps_get_code_line_info assms(11)] .
  have ft: "m_file_types s2 = m_file_types s1"
    using assms(11) by (auto simp: get_code_line_info_def py_simps Let_def split: option.splits sum.splits)
  have "build_func_code_info ms (f_code caller) cur (m_mtime s) s1 = (Inl AssertionError, s2)"
    using assms(10-13,15) ft
    by (simp add: build_func_code_info_def py_simps Let_def int_as_cint_def file_type_of_def)
  then have "get_func_code_info ms (f_code caller) cur s1 = (Inl AssertionError, s2)"
    using assms(1,14) out by (simp add: get_func_code_info_def py_simps traced_thread_def has_debugger_def outside_def)
  moreover have "mon_is_same_frame ms ?i (pydev_step_stop ?i) (Some cur)"
    using assms(8) by (simp add: mon_is_same_frame_def is_same_frame_def)
  ultimately have "return_step ms ti i (pydev_step_cmd ?i) cur retval s1 = (Inl AssertionError, s2)"
    using assms(6,7,9) out
    by (auto simp: return_step_def return_stops_into_def return_stops_other_def py_simps Let_def outside_def)
  with return_event_run [OF assms(1-5)] assms(6) show ?thesis by auto
qed

lemma demo_keys: "code_key (demo_code f ''f'') \<noteq> code_key (demo_code f ''<module>'')"
  by (simp add: code_key_def demo_code_def)

text \<open>
  Which return values are shown: the same as in the settrace backend, and in addition every return value during a step return, whatever
  frame returns, because the test of the frame is on a tuple.
\<close>

lemma backends_show_same_return_values:
  "mon_shows_return_value ms i fr stop_frame \<longleftrightarrow>
     shows_return_value (ms_sv ms) i stop_frame fr \<or> pydev_step_cmd i \<in> {CMD_STEP_RETURN, CMD_STEP_RETURN_MY_CODE}"
  by (auto simp: mon_shows_return_value_def shows_return_value_def mon_is_same_frame_def Let_def)

section \<open>Exceptions\<close>

lemma unhandled_from_walk:
  "\<exists>pre post. call_stack f = pre @ unhandled_from f # post \<and> list_all (\<lambda>g. \<not> runs_threads g) (tl (pre @ [unhandled_from f])) \<and>
     (case f_back (unhandled_from f) of None \<Rightarrow> True | Some g \<Rightarrow> runs_threads g)"
proof (induction f rule: unhandled_from.induct)
  case (1 i c b)
  show ?case
  proof (cases "\<exists>g. b = Some g \<and> \<not> runs_threads g")
    case True
    then obtain g where g: "b = Some g" "\<not> runs_threads g" by blast
    with 1 obtain pre post where ih: "call_stack g = pre @ unhandled_from g # post"
      "list_all (\<lambda>g. \<not> runs_threads g) (tl (pre @ [unhandled_from g]))"
      "case f_back (unhandled_from g) of None \<Rightarrow> True | Some g \<Rightarrow> runs_threads g" by blast
    moreover have "hd (pre @ [unhandled_from g]) = g" using ih(1) by (cases pre; cases g) auto
    then have "list_all (\<lambda>g. \<not> runs_threads g) (pre @ [unhandled_from g])"
      using ih(2) g(2) by (cases pre) auto
    ultimately show ?thesis using g by (intro exI [of _ "Frame i c b # pre"] exI [of _ post]) auto
  next
    case False
    then have "unhandled_from (Frame i c b) = Frame i c b" "case b of None \<Rightarrow> True | Some g \<Rightarrow> runs_threads g"
      by (auto split: option.splits)
    then show ?thesis using call_stack_callers [of "Frame i c b"]
      by (intro exI [of _ "[]"] exI [of _ "callers (Frame i c b)"]) simp
  qed
qed

definition unhandled_target :: "int \<Rightarrow> frame \<Rightarrow> mon_exc \<Rightarrow> mon \<Rightarrow> frame" where
  "unhandled_target me cur exc s = (case tl_unhandled (m_tls s me) of
     Some (x, f) \<Rightarrow> if x = x_id exc then f else unhandled_from cur | None \<Rightarrow> unhandled_from cur)"

lemma get_unhandled_run:
  obtains t where "get_unhandled_exception_frame me cur exc s = (Inr (unhandled_target me cur exc s), s \<lparr> m_tls := t \<rparr>)"
    and "tl_unhandled (t me) = Some (x_id exc, unhandled_target me cur exc s)"
proof (cases "tl_unhandled (m_tls s me)")
  case None
  then show ?thesis
    by (intro that [of "(m_tls s)(me := (m_tls s me) \<lparr> tl_unhandled := Some (x_id exc, unhandled_from cur) \<rparr>)"])
      (simp_all add: get_unhandled_exception_frame_def unhandled_target_def py_simps Let_def)
next
  case (Some p)
  then obtain x f where "p = (x, f)" by (cases p)
  with Some show ?thesis
    by (intro that [of "if x = x_id exc then m_tls s
          else (m_tls s)(me := (m_tls s me) \<lparr> tl_unhandled := Some (x_id exc, unhandled_from cur) \<rparr>)"])
      (simp_all add: get_unhandled_exception_frame_def unhandled_target_def py_simps Let_def)
qed

text \<open>
  Without exception breakpoints, an exception that unwinds a frame is reported as uncaught exactly when the frame is the
  outermost one before the code that runs threads; that frame is remembered for the rest of the unwinding.
\<close>

lemma unwind_reports_uncaught:
  assumes "traced_thread me ti i s" and "get_func_code_info ms (f_code cur) cur s = (Inr (Some n), s1)"
    and "\<not> always_skip_code (m_fci s1 n)" and "m_break_on_uncaught s1" and "\<not> has_exception_breakpoints (w_dbg (m_w s))"
    and "never_raises (sv_stop_on_unhandled_exception (ms_sv ms) (ti_thread ti) i (exc_arg exc))"
    and "services_keep w_calls (ms_sv ms)"
  shows "\<exists>s'. unwind_event ms me cur exc s = (Inr M_None, s') \<and>
    w_calls (m_w s') = w_calls (m_w s) @
      (if f_id cur = f_id (unhandled_target me cur exc s) then [CallStopOnUnhandled (ti_thread ti)] else []) \<and>
    tl_unhandled (m_tls s' me) = Some (x_id exc, unhandled_target me cur exc s)"
proof -
  have out: "outside s1 = outside s" using keeps_run [OF keeps_get_func_code_info assms(2)] .
  then have target: "unhandled_target me cur exc s1 = unhandled_target me cur exc s" "m_w s1 = m_w s"
    by (simp_all add: unhandled_target_def outside_def)
  obtain t where t: "get_unhandled_exception_frame me cur exc s1 = (Inr (unhandled_target me cur exc s), s1 \<lparr> m_tls := t \<rparr>)"
    "tl_unhandled (t me) = Some (x_id exc, unhandled_target me cur exc s)"
    using get_unhandled_run [of me cur exc s1] target(1) by metis
  let ?w = "m_w s \<lparr> w_calls := w_calls (m_w s) @ [CallStopOnUnhandled (ti_thread ti)] \<rparr>"
  obtain w' where w': "sv_stop_on_unhandled_exception (ms_sv ms) (ti_thread ti) i (exc_arg exc) ?w = (Inr (), w')"
    using never_raisesD [OF assms(6)] by (metis (full_types) obj_sumE old.unit.exhaust surj_pair)
  then have "w_calls w' = w_calls ?w" using keeps_run [OF services_keepD(10) [OF assms(7)] w'] by simp
  with w' t show ?thesis
    using assms(1-5) target(2)
    by (auto simp: traced_thread_def unwind_event_def enter_event_def get_thread_info_def has_debugger_def check_traced_def
      check_code_def code_info_def additional_info_def py_simps do_call_app)
qed

definition demo_exc :: mon_exc where
  "demo_exc = \<lparr> x_id = 3, x_type = UserExc ''E'', x_value = ''E()'', x_tb = None \<rparr>"

interpretation lineno: observation w_lineno
  by unfold_locales (simp_all add: update_stepping_info_def)

text \<open>The exceptions that are collected during one event were raised on the current line of the frame.\<close>

definition collected_here :: "world \<Rightarrow> frame \<Rightarrow> exc_info_t option \<Rightarrow> bool" where
  "collected_here w fr xi = (case xi of None \<Rightarrow> True
     | Some (a, l, ls) \<Rightarrow> l = w_lineno w (f_id fr) \<and> l \<in> set ls)"

lemma collected_here_simps [simp]:
  "collected_here w fr None" "collected_here (w \<lparr> w_reg := r \<rparr>) fr xi = collected_here w fr xi"
  by (simp_all add: collected_here_def split: option.split)

lemma collected_here_same: "w_lineno w' = w_lineno w \<Longrightarrow> collected_here w' fr xi = collected_here w fr xi"
  by (simp add: collected_here_def split: option.split)

lemma check_exc_break_collects:
  assumes "services_keep w_lineno sv" and "collected_here w frame maybe"
    and "check_exc_break sv info frame arg trace None b u maybe w = (Inr (stop, maybe'), w')"
  shows "collected_here w' frame maybe'"
proof -
  have "w_lineno w' = w_lineno w" using keeps_run [OF lineno.obs_check_exc_break [OF assms(1)] assms(3)] .
  with assms(2,3) show ?thesis
    by (auto simp: check_exc_break_def py_simps f_lineno_def get_db_def collected_here_def collect_exc_info_def
        split: if_splits prod.splits sum.splits option.splits)
qed

lemma check_excs_loop_collects:
  assumes "services_keep w_lineno sv" and "collected_here w frame maybe"
    and "check_excs_loop sv info frame arg trace None bs maybe w = (Inr (b, maybe'), w')"
  shows "collected_here w' frame maybe'"
  using assms(2,3)
proof (induction bs arbitrary: maybe w)
  case (Cons x bs)
  obtain eb u where x: "x = (eb, u)" by (cases x)
  from Cons.prems(2) obtain stop m w1 where w1: "check_exc_break sv info frame arg trace None eb u maybe w = (Inr (stop, m), w1)"
    by (auto simp: x py_bind_app split: prod.splits sum.splits)
  have "collected_here w1 frame m" using check_exc_break_collects [OF assms(1) Cons.prems(1) w1] .
  with Cons w1 show ?case
    by (auto simp: x py_simps set_info_def split: if_splits)
qed simp

lemma should_stop_collects:
  assumes "services_keep w_lineno sv"
    and "should_stop_on_exception sv info frame thread arg None u w = (Inr (stop, fr, Some x), w')"
  shows "collected_here w' fr (Some x)"
proof -
  from assms(2) obtain e val trace pstop w1 where arg: "arg = ArgExc e val (Some trace)"
    and p: "plugin_exception_break sv frame thread arg u w = (Inr (pstop, fr), w1)" "\<not> pstop" "\<not> never_stop_on sv e val trace"
    by (auto simp: should_stop_on_exception_def py_simps get_info_def
        split: if_splits trace_arg.splits option.splits prod.splits sum.splits)
  with assms(2) obtain b w2 where
    w2: "check_excs_loop sv info fr arg trace None (exc_breaks_for sv (w_dbg w1) e) None w1 = (Inr (b, Some x), w2)"
    by (auto simp: should_stop_on_exception_def py_simps get_info_def get_db_def split: if_splits prod.splits sum.splits)
  have "collected_here w2 fr (Some x)" using check_excs_loop_collects [OF assms(1) _ w2] by simp
  moreover have "keeps w_lineno (py_then
     (if b \<noteq> None then py_then (add_exception_to_frame fr arg)
       (case b of None \<Rightarrow> py_ret () | Some b \<Rightarrow> if exc_expression b \<noteq> None
           then do_call (CallExcExpression (qname b)) (sv_handle_exc_expression sv info b fr) else py_ret ())
      else py_ret ()) (py_ret (b \<noteq> None, fr, Some x)))" (is "keeps _ ?tail")
    by (intro lineno.obs_rules assms(1); simp)
  moreover have "?tail w2 = (Inr (stop, fr, Some x), w')"
    using assms(2) arg p w2 by (auto simp: should_stop_on_exception_def py_bind_app get_info_def get_db_def py_gets_app py_ret_app split: if_splits)
  ultimately have "w_lineno w' = w_lineno w2" "collected_here w2 fr (Some x)" using keeps_run by fast+
  then show ?thesis using collected_here_same [of w' w2 fr "Some x"] by blast
qed

text \<open>
  A user-uncaught exception is reported when it unwinds out of user code: whenever the exception was collected in this event, the
  handler hands it to \<^verbatim>\<open>handle_exception\<close> as unhandled by the user, on the frame the plugins chose, and returns.
\<close>

lemma unwind_reports_user_uncaught:
  assumes "traced_thread me ti i s" and "get_func_code_info ms (f_code cur) cur s = (Inr (Some n), s1)"
    and "\<not> always_skip_code (m_fci s1 n)" and "has_exception_breakpoints (w_dbg (m_w s))"
    and "should_stop_on_exception (ms_sv ms) i cur (ti_thread ti) (exc_arg exc) None True (m_w s) =
      (Inr (stop, fr, Some (arg, Some line, lines)), w1)"
    and "INT_MIN \<le> line" "line \<le> INT_MAX" and "services_keep w_lineno (ms_sv ms)"
  shows "\<exists>s2. m_w s2 = w1 \<and> unwind_event ms me cur exc s =
    (case handle_exception (ms_sv ms) (ti_thread ti) fr arg EXCEPTION_TYPE_USER_UNHANDLED w1 of
       (Inl e, w2) \<Rightarrow> (Inl e, s2 \<lparr> m_w := w2 \<rparr>) | (Inr stopped, w2) \<Rightarrow> (Inr M_None, s2 \<lparr> m_w := w2 \<rparr>))"
proof -
  have s1: "m_w s1 = m_w s" using keeps_run [OF keeps_get_func_code_info assms(2)] by (simp add: outside_def)
  have "w_lineno w1 (f_id fr) = Some line" "Some line \<in> set lines"
    using should_stop_collects [OF assms(8,5)] by (auto simp: collected_here_def)
  then have unhandled: "mon_is_unhandled (w_lineno w1 (f_id fr)) (arg, Some line, lines) = Inr True"
    using assms(6,7) by (simp add: mon_is_unhandled_def opt_as_cint_def int_as_cint_def)
  define s2 where "s2 = snd (ensure_container ms n fr (s1 \<lparr> m_w := w1 \<rparr>))"
  then have "m_w s2 = w1" "ensure_container ms n fr (s1 \<lparr> m_w := w1 \<rparr>) = (Inr (), s2)"
    by (simp_all add: ensure_container_def)
  with s1 unhandled show ?thesis
    using assms(1-5)
    by (intro exI [of _ s2]) (auto simp: traced_thread_def unwind_event_def enter_event_def get_thread_info_def
      has_debugger_def check_traced_def check_code_def code_info_def additional_info_def py_simps f_lineno_def
      split: prod.splits sum.splits)
qed

definition user_uncaught :: "pydb \<Rightarrow> pydb" where
  "user_uncaught db = db \<lparr> break_on_user_uncaught_exceptions := [(''E'', demo_exc_breakpoint)] \<rparr>"

definition raised_exc :: mon_exc where
  "raised_exc = \<lparr> x_id = 3, x_type = UserExc ''E'', x_value = ''E()'', x_tb = Some (TB main_frame 2 None) \<rparr>"

lemma raised_exc_collected:
  "should_stop_on_exception quiet_services 0 main_frame 1 (exc_arg raised_exc) None True (m_w (mon_with user_uncaught id)) =
   (Inr (False, main_frame, Some (exc_arg raised_exc, Some 2, [Some 2])), m_w (mon_with user_uncaught id))"
proof -
  have "\<not> ignore_exception_trace (TB main_frame 2 None)"
    by (simp add: ignore_exception_trace.simps importlib_files_def FILES_WITH_IMPORT_HOOKS_def suffix_to_prefix)
  then show ?thesis
    by (simp add: should_stop_on_exception_def plugin_exception_break_def never_stop_on_def exc_arg_def raised_exc_def
        exc_breaks_for_def get_exception_breakpoint_def check_exc_break_def user_uncaught_def collect_exc_info_def
        user_code_called_by_library_def py_simps access_defs quiet_services_def)
qed

end
