(* ===== verification/BreakInsert.thy ===== *)
theory BreakInsert
  imports MonCode "HOL-Library.Sublist"
begin

text \<open>
  \<^verbatim>\<open>insert_pydevd_breaks\<close> of \<^verbatim>\<open>pydevd_modify_bytecode.py\<close>: the code of a function gets, before the first instruction of
  every line with a breakpoint, instructions that ask whether to stop there. The instructions are those of the
  vendored \<^verbatim>\<open>bytecode\<close> package; its conversions from and to code objects are parameters.
\<close>

section \<open>Instructions\<close>

datatype label = OldLabel nat | NewLabel nat

datatype operand =
    Operand nat | NeedsStop | StopAtBreak | LineConst int | ArgCount nat | Target label | NoOperand

datatype instr = Lab label | Instr string operand "int option"

fun instr_lineno :: "instr \<Rightarrow> int option" where
  "instr_lineno (Lab l) = None"
| "instr_lineno (Instr name arg line) = line"

fun instr_name :: "instr \<Rightarrow> string option" where
  "instr_name (Lab l) = None"
| "instr_name (Instr name arg line) = Some name"

fun is_label :: "instr \<Rightarrow> bool" where
  "is_label (Lab l) = True"
| "is_label (Instr name arg line) = False"

text \<open>The check at a line; \<open>k\<close> makes its label a new one.\<close>

definition get_instructions_to_add :: "nat \<Rightarrow> int \<Rightarrow> instr list" where
  "get_instructions_to_add k line =
     (let spurious = (if line - 1 \<le> 0 then line + 1 else line - 1) in
      [Instr ''LOAD_CONST'' NeedsStop (Some line), Instr ''LOAD_CONST'' (LineConst line) (Some line),
       Instr ''CALL_FUNCTION'' (ArgCount 1) (Some line), Instr ''POP_JUMP_IF_FALSE'' (Target (NewLabel k)) (Some line),
       Instr ''LOAD_CONST'' StopAtBreak (Some spurious), Instr ''LOAD_CONST'' (LineConst line) (Some spurious),
       Instr ''CALL_FUNCTION'' (ArgCount 1) (Some spurious), Instr ''POP_TOP'' NoOperand (Some spurious),
       Instr ''NOP'' NoOperand (Some line), Lab (NewLabel k)])"

section \<open>Predicted instructions\<close>

definition PREDICT_TABLE :: "string \<rightharpoonup> string list" where
  "PREDICT_TABLE = map_of
     [(''LIST_APPEND'', [''JUMP_ABSOLUTE'']), (''SET_ADD'', [''JUMP_ABSOLUTE'']), (''GET_ANEXT'', [''LOAD_CONST'']),
      (''GET_AWAITABLE'', [''LOAD_CONST'']), (''DICT_MERGE'', [''CALL_FUNCTION_EX'']), (''MAP_ADD'', [''JUMP_ABSOLUTE'']),
      (''COMPARE_OP'', [''POP_JUMP_IF_FALSE'', ''POP_JUMP_IF_TRUE'']), (''IS_OP'', [''POP_JUMP_IF_FALSE'', ''POP_JUMP_IF_TRUE'']),
      (''CONTAINS_OP'', [''POP_JUMP_IF_FALSE'', ''POP_JUMP_IF_TRUE''])]"

fun without_lineno :: "instr \<Rightarrow> instr" where
  "without_lineno (Lab l) = Lab l"
| "without_lineno (Instr name arg line) = Instr name arg None"

text \<open>The line number of an instruction that the interpreter predicts is removed. There is no next instruction to look at
  after the last one, which is an error.\<close>

definition fix_next :: "instr \<Rightarrow> instr list \<Rightarrow> instr list option" where
  "fix_next x rest =
     (case instr_name x of
        None \<Rightarrow> Some rest
      | Some name \<Rightarrow>
          (case PREDICT_TABLE name of
             None \<Rightarrow> Some rest
           | Some targets \<Rightarrow>
               (case rest of
                  [] \<Rightarrow> None
                | y # ys \<Rightarrow>
                    if (case instr_name y of None \<Rightarrow> False | Some n \<Rightarrow> n \<in> set targets) \<and>
                       instr_lineno y \<notin> {None, Some 0}
                    then Some (without_lineno y # ys) else Some rest)))"

lemma fix_next_length: "fix_next x rest = Some rest' \<Longrightarrow> length rest' = length rest"
  by (auto simp: fix_next_def split: option.splits list.splits if_splits)

section \<open>The loop\<close>

text \<open>
  \<open>track\<close> is \<^verbatim>\<open>TRACK_MULTIPLE_BRANCHES\<close> and \<^verbatim>\<open>FIX_PREDICT\<close> (Python 3.10 and later), \<open>prev\<close> the item before the current one in
  the list under construction, \<open>seen\<close> is \<^verbatim>\<open>last_lineno\<close>, \<open>added\<close> is \<^verbatim>\<open>added_breaks_in_lines\<close>.
\<close>

definition after_label :: "instr option \<Rightarrow> bool" where
  "after_label prev = (case prev of None \<Rightarrow> False | Some p \<Rightarrow> is_label p)"

definition skips_line :: "bool \<Rightarrow> instr option \<Rightarrow> int option \<Rightarrow> int set \<Rightarrow> int \<Rightarrow> bool" where
  "skips_line track prev seen added line =
     (if track then seen = Some line \<and> \<not> after_label prev else line \<in> added)"

function insert_loop ::
  "bool \<Rightarrow> int set \<Rightarrow> nat \<Rightarrow> instr option \<Rightarrow> int option \<Rightarrow> int set \<Rightarrow> instr list \<Rightarrow> instr list option" where
  "insert_loop track bps k prev seen added [] = Some []"
| "insert_loop track bps k prev seen added (x # rest0) =
     (case (if track then fix_next x rest0 else Some rest0) of
        None \<Rightarrow> None
      | Some rest \<Rightarrow>
          (case instr_lineno x of
             None \<Rightarrow> map_option (Cons x) (insert_loop track bps k (Some x) seen added rest)
           | Some line \<Rightarrow>
               if skips_line track prev seen added line
               then map_option (Cons x) (insert_loop track bps k (Some x) seen added rest)
               else
                 (let seen = (if track then Some line else seen);
                      new = get_instructions_to_add k line in
                  if line \<in> bps then
                    (if after_label prev \<and> instr_name x = Some ''POP_TOP''
                     then map_option (\<lambda>r. x # new @ r)
                            (insert_loop track bps (Suc k) (Some (Lab (NewLabel k))) seen (insert line added) rest)
                     else map_option (\<lambda>r. new @ x # r)
                            (insert_loop track bps (Suc k) (Some x) seen (insert line added) rest))
                  else map_option (Cons x) (insert_loop track bps k (Some x) seen added rest))))"
  by pat_completeness auto
termination
  by (relation "measure (\<lambda>(track, bps, k, prev, seen, added, xs). length xs)")
    (auto split: if_splits dest: fix_next_length)

text \<open>
  \<^verbatim>\<open>insert_pydevd_breaks\<close>: the code with the checks, None when they cannot be inserted. \<open>from_code\<close> and \<open>to_code\<close> give None when
  the package raises; every exception in the block is caught.
\<close>

definition insert_pydevd_breaks ::
  "bool \<Rightarrow> (code \<Rightarrow> instr list option) \<Rightarrow> (code \<Rightarrow> instr list \<Rightarrow> code option) \<Rightarrow> code \<Rightarrow> int set \<Rightarrow> code_line_info \<Rightarrow>
   code option" where
  "insert_pydevd_breaks track from_code to_code c lines li =
     (if line_to_offset li = [] then None
      else if \<exists>line \<in> lines. line \<le> 0 then None
      else case from_code c of
        None \<Rightarrow> None
      | Some [] \<Rightarrow> None
      | Some xs \<Rightarrow>
          (case insert_loop track lines 0 None None {} xs of
             None \<Rightarrow> None
           | Some ys \<Rightarrow> to_code c ys))"

section \<open>What a check does\<close>

text \<open>
  The instructions of a check on the stack of the interpreter. What can be seen of them is the line numbers that they go
  through, which are the line events of a traced frame, and the calls of \<^verbatim>\<open>_pydev_needs_stop_at_break\<close> and
  \<^verbatim>\<open>_pydev_stop_at_break\<close>; \<open>needs\<close> is what the first one answers. A jump goes forward to its label. None is an
  instruction of another kind or one that does not find its operands.
\<close>

datatype stack_value = Const operand | Answer bool | NoneResult

datatype check_event = AtLine int | AsksStop int | StopsAt int

fun enter_line :: "int option \<Rightarrow> int option \<Rightarrow> check_event list" where
  "enter_line cur None = []"
| "enter_line cur (Some line) = (if cur = Some line then [] else [AtLine line])"

fun call_check :: "(int \<Rightarrow> bool) \<Rightarrow> stack_value list \<Rightarrow> (stack_value list \<times> check_event list) option" where
  "call_check needs (Const (LineConst line) # Const NeedsStop # stk) = Some (Answer (needs line) # stk, [AsksStop line])"
| "call_check needs (Const (LineConst line) # Const StopAtBreak # stk) = Some (NoneResult # stk, [StopsAt line])"
| "call_check needs stk = None"

function exec_check ::
  "(int \<Rightarrow> bool) \<Rightarrow> instr list \<Rightarrow> int option \<Rightarrow> stack_value list \<Rightarrow> check_event list \<Rightarrow>
   (int option \<times> stack_value list \<times> check_event list) option" where
  "exec_check needs [] cur stk evs = Some (cur, stk, evs)"
| "exec_check needs (Lab l # is) cur stk evs = exec_check needs is cur stk evs"
| "exec_check needs (Instr name arg line # is) cur stk evs =
     (let evs = evs @ enter_line cur line; cur = (case line of None \<Rightarrow> cur | Some n \<Rightarrow> Some n) in
      if name = ''LOAD_CONST'' then exec_check needs is cur (Const arg # stk) evs
      else if name = ''NOP'' then exec_check needs is cur stk evs
      else if name = ''POP_TOP'' then (case stk of [] \<Rightarrow> None | v # stk \<Rightarrow> exec_check needs is cur stk evs)
      else if name = ''CALL_FUNCTION'' \<and> arg = ArgCount 1 then
        (case call_check needs stk of None \<Rightarrow> None | Some (stk, new) \<Rightarrow> exec_check needs is cur stk (evs @ new))
      else if name \<in> {''POP_JUMP_IF_FALSE'', ''POP_JUMP_IF_TRUE''} then
        (case (arg, stk) of
           (Target l, Answer b # stk) \<Rightarrow>
             exec_check needs (if b = (name = ''POP_JUMP_IF_TRUE'') then dropWhile (\<lambda>i. i \<noteq> Lab l) is else is) cur stk evs
         | _ \<Rightarrow> None)
      else None)"
  by pat_completeness auto
termination
  by (relation "measure (\<lambda>(needs, is, cur, stk, evs). length is)") (auto simp: length_dropWhile_le le_imp_less_Suc)

text \<open>
  A block of instructions checks for a stop at a line: it asks whether to stop there, stops when the answer is yes, and leaves
  the stack as it was, on that line. After the stop the program goes to the line from another one, so that the trace function
  which the stop sets gets the event of the line; without the stop it gets no event but that of the line itself.
\<close>

definition is_check :: "int \<Rightarrow> instr list \<Rightarrow> bool" where
  "is_check line block \<longleftrightarrow>
     (\<exists>other. other \<noteq> line \<and>
        (\<forall>needs cur stk. exec_check needs block cur stk [] =
           Some (Some line, stk,
             enter_line cur (Some line) @ AsksStop line # (if needs line then [AtLine other, StopsAt line, AtLine line] else []))))"

lemma added_instructions_check: "is_check line (get_instructions_to_add k line)"
  unfolding is_check_def
  by (rule exI [of _ "if line - 1 \<le> 0 then line + 1 else line - 1"]) (auto simp: get_instructions_to_add_def Let_def)

text \<open>The label that a check jumps to is its own: it is the only new label, at its end.\<close>

fun new_label :: "instr \<Rightarrow> nat list" where
  "new_label (Lab (NewLabel k)) = [k]"
| "new_label _ = []"

abbreviation new_labels :: "instr list \<Rightarrow> nat list" where
  "new_labels xs \<equiv> concat (map new_label xs)"

lemma added_instructions_label [simp]: "new_labels (get_instructions_to_add k line) = [k]"
  by (simp add: get_instructions_to_add_def Let_def)

section \<open>Where the checks are\<close>

text \<open>The original instructions, with the line numbers that the loop removes.\<close>

function fixed_code :: "bool \<Rightarrow> instr list \<Rightarrow> instr list option" where
  "fixed_code track [] = Some []"
| "fixed_code track (x # rest0) =
     (case (if track then fix_next x rest0 else Some rest0) of
        None \<Rightarrow> None | Some rest \<Rightarrow> map_option (Cons x) (fixed_code track rest))"
  by pat_completeness auto
termination
  by (relation "measure (\<lambda>(track, xs). length xs)") (auto split: if_splits dest: fix_next_length)

lemma fixed_code_untracked [simp]: "fixed_code False xs = Some xs"
  by (induction xs) auto

text \<open>
  An instruction enters a line when its line number is that of the line and it may be the first one of it to run: after
  \<open>done\<close>, the instructions before it, no instruction has had the line (until Python 3.9), or the last line was another one or
  the instruction is a jump target (from 3.10 on, where a line can have several copies).
\<close>

definition last_lineno :: "instr list \<Rightarrow> int option" where
  "last_lineno xs = fold (\<lambda>x cur. case instr_lineno x of None \<Rightarrow> cur | Some line \<Rightarrow> Some line) xs None"

definition last_item :: "instr list \<Rightarrow> instr option" where
  "last_item xs = (if xs = [] then None else Some (last xs))"

definition enters :: "bool \<Rightarrow> instr list \<Rightarrow> instr \<Rightarrow> int \<Rightarrow> bool" where
  "enters track done x line \<longleftrightarrow> instr_lineno x = Some line \<and>
     (if track then last_lineno done \<noteq> Some line \<or> after_label (last_item done) else Some line \<notin> instr_lineno ` set done)"

text \<open>
  What may stand before and after an instruction in the new code: nothing, or a check of its line when that is one of
  \<open>allowed\<close>; and a check has to be there when the instruction enters one of \<open>lines\<close>. It is before the instruction, unless that
  is a \<^verbatim>\<open>POP_TOP\<close> which a jump goes to; \<open>out\<close> is the new code so far.
\<close>

definition no_or_check :: "int set \<Rightarrow> instr \<Rightarrow> instr list \<Rightarrow> bool" where
  "no_or_check allowed x block \<longleftrightarrow> block = [] \<or> (\<exists>line \<in> allowed. instr_lineno x = Some line \<and> is_check line block)"

definition checked_at :: "bool \<Rightarrow> int set \<Rightarrow> int set \<Rightarrow> instr list \<Rightarrow> instr list \<Rightarrow> instr \<Rightarrow> instr list \<Rightarrow> instr list \<Rightarrow> bool" where
  "checked_at track lines allowed done out x pre post \<longleftrightarrow>
     no_or_check allowed x pre \<and> no_or_check allowed x post \<and>
     (\<forall>line \<in> lines. enters track done x line \<longrightarrow>
        is_check line (if after_label (last_item out) \<and> instr_name x = Some ''POP_TOP'' then post else pre))"

fun woven :: "bool \<Rightarrow> int set \<Rightarrow> int set \<Rightarrow> instr list \<Rightarrow> instr list \<Rightarrow> instr list \<Rightarrow> instr list \<Rightarrow> bool" where
  "woven track lines allowed done out [] ys \<longleftrightarrow> ys = []"
| "woven track lines allowed done out (x # zs) ys \<longleftrightarrow>
     (\<exists>pre post ys'. ys = pre @ x # post @ ys' \<and> checked_at track lines allowed done out x pre post \<and>
        woven track lines allowed (done @ [x]) (out @ pre @ x # post) zs ys')"

lemma checked_at_mono:
  assumes "checked_at track lines allowed done out x pre post" and "lines' \<subseteq> lines" and "allowed \<subseteq> allowed'"
  shows "checked_at track lines' allowed' done out x pre post"
  using assms unfolding checked_at_def no_or_check_def by (meson subsetD)

lemma woven_mono:
  assumes "woven track lines allowed done out zs ys" and sub: "lines' \<subseteq> lines" "allowed \<subseteq> allowed'"
  shows "woven track lines' allowed' done out zs ys"
  using assms(1)
proof (induction zs arbitrary: "done" out ys)
  case (Cons x zs)
  then obtain pre post ys' where "ys = pre @ x # post @ ys'" "checked_at track lines' allowed' done out x pre post"
      "woven track lines' allowed' (done @ [x]) (out @ pre @ x # post) zs ys'"
    using checked_at_mono [OF _ sub] by fastforce
  then show ?case by auto
qed simp

lemma last_lineno_Nil [simp]: "last_lineno [] = None"
  by (simp add: last_lineno_def)

lemma last_lineno_snoc [simp]: "last_lineno (xs @ [x]) = (case instr_lineno x of None \<Rightarrow> last_lineno xs | Some line \<Rightarrow> Some line)"
  by (cases "instr_lineno x") (simp_all add: last_lineno_def)

lemma last_lineno_of: "last_lineno xs = Some line \<Longrightarrow> Some line \<in> instr_lineno ` set xs"
  by (induction xs rule: rev_induct) (auto split: option.splits)

lemma last_item_snoc [simp]: "last_item (xs @ [x]) = Some x" "last_item (xs @ y @ [x]) = Some x"
  by (simp_all add: last_item_def)

text \<open>Every line of an instruction is entered, at the first instruction that has it.\<close>

lemma line_entered:
  assumes "Some line \<in> instr_lineno ` set zs"
  shows "\<exists>done x rest. zs = done @ x # rest \<and> enters track done x line"
proof -
  from assms have "\<exists>x \<in> set zs. instr_lineno x = Some line" by auto
  from split_list_first_prop [OF this] obtain "done" x rest
    where split: "zs = done @ x # rest" "instr_lineno x = Some line" "\<forall>y \<in> set done. instr_lineno y \<noteq> Some line"
    by blast
  from split(3) have "last_lineno done \<noteq> Some line" using last_lineno_of [of "done" line] by force
  with split(2,3) have "enters track done x line" by (force simp: enters_def)
  with split(1) show ?thesis by blast
qed

section \<open>The loop puts them there\<close>

text \<open>One round of the loop: the current instruction stays, with the checks that belong there.\<close>

definition lines_seen :: "bool \<Rightarrow> int set \<Rightarrow> instr list \<Rightarrow> int option \<Rightarrow> int set \<Rightarrow> bool" where
  "lines_seen track bps done seen added \<longleftrightarrow>
     (track \<longrightarrow> seen = last_lineno done) \<and> (\<forall>line \<in> added. Some line \<in> instr_lineno ` set done) \<and>
     (\<forall>line \<in> bps. Some line \<in> instr_lineno ` set done \<longrightarrow> track \<or> line \<in> added)"

definition jumps_kept :: "instr list \<Rightarrow> instr list \<Rightarrow> bool" where
  "jumps_kept done out \<longleftrightarrow> (after_label (last_item done) \<longrightarrow> after_label (last_item out))"

lemma insert_loop_step:
  assumes "insert_loop track bps k (last_item out) seen added (x # rest0) = Some ys"
    and "lines_seen track bps done seen added" and "jumps_kept done out"
  obtains rest k' seen' added' pre post r
  where "(if track then fix_next x rest0 else Some rest0) = Some rest"
    and "insert_loop track bps k' (last_item (out @ pre @ x # post)) seen' added' rest = Some r" and "ys = pre @ x # post @ r"
    and "checked_at track bps bps done out x pre post" and "k' = k + length (new_labels (pre @ post))"
    and "new_labels (pre @ post) = [k..<k']"
    and "lines_seen track bps (done @ [x]) seen' added'" and "jumps_kept (done @ [x]) (out @ pre @ x # post)"
proof -
  obtain rest where rest: "(if track then fix_next x rest0 else Some rest0) = Some rest"
    using assms by (auto split: option.splits)
  show ?thesis
  proof (cases "\<exists>line. instr_lineno x = Some line \<and> \<not> skips_line track (last_item out) seen added line")
    case False
    then obtain r where "insert_loop track bps k (Some x) seen added rest = Some r" "ys = x # r"
      using assms rest by (auto split: option.splits)
    with False assms(2,3) show ?thesis
      by (intro that [OF rest, of k "[]" "[]" seen added r])
        (auto simp: checked_at_def no_or_check_def enters_def skips_line_def lines_seen_def jumps_kept_def split: option.splits if_splits)
  next
    case True
    then obtain line where line: "instr_lineno x = Some line" "\<not> skips_line track (last_item out) seen added line" by blast
    let ?seen = "if track then Some line else seen"
    show ?thesis
    proof (cases "line \<in> bps")
      case False
      then obtain r where "insert_loop track bps k (Some x) ?seen added rest = Some r" "ys = x # r"
        using assms rest line by (auto simp: Let_def split: option.splits)
      with False line assms(2,3) show ?thesis
        by (intro that [OF rest, of k "[]" "[]" ?seen added r])
          (auto simp: checked_at_def no_or_check_def enters_def lines_seen_def jumps_kept_def)
    next
      case True
      let ?new = "get_instructions_to_add k line"
      let ?after = "after_label (last_item out) \<and> instr_name x = Some ''POP_TOP''"
      have last: "last_item (out @ x # ?new) = Some (Lab (NewLabel k))"
        by (simp add: last_item_def get_instructions_to_add_def Let_def)
      have seen: "lines_seen track bps (done @ [x]) ?seen (insert line added)"
        using line(1) assms(2) by (auto simp: lines_seen_def)
      show ?thesis
      proof (cases ?after)
        case True
        then obtain r where "insert_loop track bps (Suc k) (Some (Lab (NewLabel k))) ?seen (insert line added) rest = Some r"
            "ys = x # ?new @ r"
          using assms rest line \<open>line \<in> bps\<close> by (auto simp: Let_def split: option.splits)
        with True line \<open>line \<in> bps\<close> seen show ?thesis
          by (intro that [OF rest, of "Suc k" "[]" ?new ?seen "insert line added" r])
            (auto simp: checked_at_def no_or_check_def enters_def jumps_kept_def last added_instructions_check after_label_def)
      next
        case False
        then obtain r where "insert_loop track bps (Suc k) (Some x) ?seen (insert line added) rest = Some r" "ys = ?new @ x # r"
          using assms rest line \<open>line \<in> bps\<close> by (auto simp: Let_def split: option.splits if_splits)
        with False line \<open>line \<in> bps\<close> seen show ?thesis
          by (intro that [OF rest, of "Suc k" ?new "[]" ?seen "insert line added" r])
            (auto simp: checked_at_def no_or_check_def enters_def jumps_kept_def added_instructions_check)
      qed
    qed
  qed
qed

lemma insert_loop_woven:
  assumes "insert_loop track bps k (last_item out) seen added xs = Some ys"
    and "lines_seen track bps done seen added" and "jumps_kept done out"
  shows "\<exists>zs. fixed_code track xs = Some zs \<and> woven track bps bps done out zs ys"
  using assms
proof (induction "length xs" arbitrary: xs k seen added ys "done" out)
  case (Suc n)
  then obtain x rest0 where xs: "xs = x # rest0" by (cases xs) auto
  from insert_loop_step [OF Suc.prems(1) [unfolded xs] Suc.prems(2,3)]
  obtain rest k' seen' added' pre post r
    where rest: "(if track then fix_next x rest0 else Some rest0) = Some rest"
      and loop: "insert_loop track bps k' (last_item (out @ pre @ x # post)) seen' added' rest = Some r" and ys: "ys = pre @ x # post @ r"
      and chk: "checked_at track bps bps done out x pre post"
      and inv: "lines_seen track bps (done @ [x]) seen' added'" "jumps_kept (done @ [x]) (out @ pre @ x # post)"
    by metis
  have "n = length rest" using rest Suc(2) xs by (auto split: if_splits dest: fix_next_length)
  from Suc(1) [OF this loop inv] obtain zs
    where "fixed_code track rest = Some zs" "woven track bps bps (done @ [x]) (out @ pre @ x # post) zs r" by blast
  then have "fixed_code track xs = Some (x # zs)" "woven track bps bps done out (x # zs) ys"
    using xs rest ys chk by auto
  then show ?case by blast
qed simp

text \<open>The new labels are all different.\<close>

lemma new_label_without_lineno [simp]: "new_label (without_lineno x) = new_label x"
  by (cases x) auto

lemma upt_join: "i \<le> j \<Longrightarrow> j \<le> l \<Longrightarrow> [i..<j] @ [j..<l] = [i..<l]"
  by (metis le_add_diff_inverse upt_add_eq_append)

lemma insert_loop_labels:
  assumes "insert_loop track bps k (last_item out) seen added xs = Some ys"
    and "lines_seen track bps done seen added" and "jumps_kept done out" and "new_labels xs = []"
  shows "\<exists>k'. new_labels ys = [k..<k']"
  using assms
proof (induction "length xs" arbitrary: xs k seen added ys "done" out)
  case 0
  then show ?case by (intro exI [of _ k]) simp
next
  case (Suc n)
  then obtain x rest0 where xs: "xs = x # rest0" by (cases xs) auto
  from insert_loop_step [OF Suc.prems(1) [unfolded xs] Suc.prems(2,3)]
  obtain rest k' seen' added' pre post r
    where rest: "(if track then fix_next x rest0 else Some rest0) = Some rest"
      and loop: "insert_loop track bps k' (last_item (out @ pre @ x # post)) seen' added' rest = Some r" and ys: "ys = pre @ x # post @ r"
      and labs: "k' = k + length (new_labels (pre @ post))" "new_labels (pre @ post) = [k..<k']"
      and inv: "lines_seen track bps (done @ [x]) seen' added'" "jumps_kept (done @ [x]) (out @ pre @ x # post)"
    by metis
  have len: "n = length rest" using rest Suc(2) xs by (auto split: if_splits dest: fix_next_length)
  have old: "new_label x = []" "new_labels rest = []"
    using rest Suc.prems(4) xs by (auto simp: fix_next_def split: if_splits option.splits list.splits)
  from Suc(1) [OF len loop inv old(2)] obtain k'' where "new_labels r = [k'..<k'']" by blast
  moreover have "new_labels ys = new_labels (pre @ post) @ new_labels r" using ys old(1) by simp
  moreover have "k \<le> k'" using labs(1) by simp
  then have "[k..<k'] @ [k'..<k''] = [k..<max k' k'']"
    by (cases "k' \<le> k''") (simp_all add: upt_join max_def)
  ultimately show ?case using labs(2) by metis
qed

lemma woven_subseq: "woven track lines allowed done out zs ys \<Longrightarrow> subseq zs ys"
  by (induction zs arbitrary: "done" out ys) (auto simp: subseq_drop_many)

text \<open>Which line numbers the loop removes: those of instructions that the interpreter predicts from the one before them.\<close>

definition predicted :: "instr list \<Rightarrow> instr \<Rightarrow> bool" where
  "predicted done y \<longleftrightarrow>
     (case Option.bind (Option.bind (last_item done) instr_name) PREDICT_TABLE of
        None \<Rightarrow> False | Some targets \<Rightarrow> (case instr_name y of None \<Rightarrow> False | Some name \<Rightarrow> name \<in> set targets))"

lemma instr_name_without_lineno [simp]: "instr_name (without_lineno x) = instr_name x"
  by (cases x) auto

lemma predicted_Cons: "predicted ds y \<Longrightarrow> predicted (x # ds) y"
  by (cases "ds = []") (simp_all add: predicted_def last_item_def)

lemma predicted_without_lineno: "predicted (without_lineno d # ds) y = predicted (d # ds) y"
  by (simp add: predicted_def last_item_def)

lemma fixed_code_lines:
  assumes "fixed_code track xs = Some zs" and "Some line \<notin> instr_lineno ` set zs"
    and "xs = done @ y # rest" and "instr_lineno y = Some line"
  shows "track \<and> predicted done y"
  using assms
proof (induction "length xs" arbitrary: xs zs "done")
  case (Suc n)
  from Suc(2) obtain x rest0 where xs: "xs = x # rest0" by (metis length_Suc_conv)
  with Suc.prems(1) obtain rest' zs' where fix': "(if track then fix_next x rest0 else Some rest0) = Some rest'"
    and zs: "fixed_code track rest' = Some zs'" "zs = x # zs'" by (auto split: option.splits)
  have len: "n = length rest'" using fix' Suc(2) xs by (auto split: if_splits dest: fix_next_length)
  have out: "Some line \<notin> instr_lineno ` set zs'" using Suc.prems(2) zs(2) by simp
  obtain ds where ds: "done = x # ds" "rest0 = ds @ y # rest" using Suc.prems xs zs(2) by (cases "done") auto
  note IH = Suc(1) [OF len zs(1) out _ Suc.prems(4)]
  show ?case
  proof (cases "rest' = rest0")
    case True
    then show ?thesis using IH ds predicted_Cons by auto
  next
    case False
    then obtain d tl where track: track and d: "rest0 = d # tl" "rest' = without_lineno d # tl" "predicted [x] d"
      using fix' by (auto simp: fix_next_def predicted_def last_item_def split: if_splits option.splits list.splits)
    show ?thesis
    proof (cases ds)
      case Nil
      then show ?thesis using d ds track by simp
    next
      case (Cons d' ds')
      then show ?thesis using IH [of "without_lineno d # ds'"] d ds predicted_Cons by (auto simp: predicted_without_lineno)
    qed
  qed
qed simp

text \<open>
  The code that \<^verbatim>\<open>insert_pydevd_breaks\<close> makes: the instructions of the original in their order, but for the line numbers of
  predicted ones, with a check wherever a line of \<open>lines\<close> is entered, whose jump stays in the check, and nothing else but
  checks at lines of \<open>allowed\<close>.
\<close>

definition checks_inserted :: "bool \<Rightarrow> int set \<Rightarrow> int set \<Rightarrow> instr list \<Rightarrow> instr list \<Rightarrow> bool" where
  "checks_inserted track lines allowed xs ys \<longleftrightarrow>
     (\<exists>zs. fixed_code track xs = Some zs \<and> woven track lines allowed [] [] zs ys \<and> subseq zs ys) \<and>
     (new_labels xs = [] \<longrightarrow> distinct (new_labels ys))"

lemma checks_inserted_mono:
  "checks_inserted track lines allowed xs ys \<Longrightarrow> lines' \<subseteq> lines \<Longrightarrow> allowed \<subseteq> allowed' \<Longrightarrow>
   checks_inserted track lines' allowed' xs ys"
  unfolding checks_inserted_def using woven_mono by blast

lemma inserted_breaks_cover:
  assumes "insert_pydevd_breaks track from_code to_code c lines li = Some c'"
  shows "\<exists>xs ys. from_code c = Some xs \<and> to_code c ys = Some c' \<and> checks_inserted track lines lines xs ys"
proof -
  obtain xs ys where run: "from_code c = Some xs" "insert_loop track lines 0 (last_item []) None {} xs = Some ys" "to_code c ys = Some c'"
    using assms by (fastforce simp: insert_pydevd_breaks_def last_item_def split: if_splits option.splits list.splits)
  have start: "lines_seen track lines [] None {}" "jumps_kept [] []"
    by (simp_all add: lines_seen_def jumps_kept_def)
  from insert_loop_woven [OF run(2) start] obtain zs where "fixed_code track xs = Some zs" "woven track lines lines [] [] zs ys"
    by blast
  moreover have "distinct (new_labels ys)" if "new_labels xs = []"
    using insert_loop_labels [OF run(2) start that] by auto
  ultimately show ?thesis using run(1,3) woven_subseq unfolding checks_inserted_def by blast
qed

text \<open>A line of the original is entered in the new code, or has only instructions that the interpreter predicts.\<close>

definition line_checked :: "bool \<Rightarrow> instr list \<Rightarrow> int \<Rightarrow> bool" where
  "line_checked track xs line \<longleftrightarrow>
     (\<exists>zs done x rest. fixed_code track xs = Some zs \<and> zs = done @ x # rest \<and> enters track done x line) \<or>
     track \<and> (\<forall>done y rest. xs = done @ y # rest \<longrightarrow> instr_lineno y = Some line \<longrightarrow> predicted done y)"

lemma lines_of_code_checked:
  assumes "fixed_code track xs = Some zs" and "Some line \<in> instr_lineno ` set xs"
  shows "line_checked track xs line"
proof (cases "Some line \<in> instr_lineno ` set zs")
  case True
  then show ?thesis using line_entered assms(1) unfolding line_checked_def by blast
next
  case False
  obtain y where "y \<in> set xs" "instr_lineno y = Some line" using assms(2) by auto
  moreover from this(1) obtain ds rest where "xs = ds @ y # rest" by (auto dest: split_list)
  ultimately have track using fixed_code_lines [OF assms(1) False] by blast
  then show ?thesis using fixed_code_lines [OF assms(1) False] unfolding line_checked_def by blast
qed

end
