(* ===== verification/FrameEval.thy ===== *)
theory FrameEval
  imports BreakInsert
begin

text \<open>
  The frame evaluator (\<^verbatim>\<open>pydevd_frame_evaluator.c\<close>), which runs code without a trace function until a frame needs one:
  \<^verbatim>\<open>ThreadInfo\<close>, the information on code objects with its caches, the generation of code with checks, and the function that
  the interpreter calls for every frame. \<^verbatim>\<open>pydevd_frame_tracing.py\<close> has the functions that the checks call.

  The state contains that of the other backends: the debugger, the threads, the types of files and \<^verbatim>\<open>mtime\<close> are the same objects.
\<close>

section \<open>Objects and state\<close>

record fe_thread_info =
  fi_additional_info :: "nat option"
  fi_is_pydevd_thread :: bool
  fi_inside_frame_eval :: cint
  fi_fully_initialized :: bool
  fi_thread_trace_func :: "tracefun option"
  fi_can_create_dummy_thread :: bool
  fi_force_stay_in_untraced_mode :: bool

record fe_code_info =
  fx_co_filename :: string
  fx_co_name :: "string option"
  fx_canonical_normalized_filename :: string
  fx_always_skip_code :: bool
  fx_breakpoint_found :: bool
  fx_new_code :: "code option"
  fx_breakpoints_mtime :: cint

definition new_fe_code_info :: fe_code_info where
  "new_fe_code_info = \<lparr> fx_co_filename = [], fx_co_name = None, fx_canonical_normalized_filename = [],
     fx_always_skip_code = False, fx_breakpoint_found = False, fx_new_code = None, fx_breakpoints_mtime = -1 \<rparr>"

record cache_value =
  cv_code_obj :: code
  cv_code_line_info :: code_line_info
  cv_breakpoints_hit_at_lines :: "int set"
  cv_code_lines :: "int set"

text \<open>The attribute \<^verbatim>\<open>f_trace\<close> as the frame evaluator sets it.\<close>

datatype frame_trace = ThreadTraceFunc tracefun | DebuggerTraceDispatch

datatype eval_function = EvalFrameDefault | FrameEval38 | FrameEval39

record fe =
  fe_m :: mon
  fe_tls :: "int \<Rightarrow> fe_thread_info option"
  fe_code_extra_index :: cint
  fe_extra :: "code \<rightharpoonup> fe_code_info"
  fe_cache :: "code_key \<rightharpoonup> cache_value"
  fe_f_code :: "nat \<rightharpoonup> code"
  fe_f_trace :: "nat \<rightharpoonup> frame_trace"
  fe_globals :: "nat set"
  fe_settrace :: "int set"
  fe_eval_frame :: eval_function
  fe_dummy_trace_func :: bool
  fe_signature_factory :: bool
  fe_shutdown :: bool

text \<open>
  \<open>fe_extra\<close> is the value stored in the code object itself, \<open>fe_f_code\<close> the code of the frames that were switched
  to new code, \<open>fe_globals\<close> the frames whose globals have the function the checks call, \<open>fe_settrace\<close> the threads that
  got \<^verbatim>\<open>dummy_trace_dispatch\<close> as their trace function. \<open>fe_shutdown\<close> says that the module globals are already None.
\<close>

record fservices =
  fs_ms :: mservices
  fs_py310 :: bool
  fs_py39 :: bool
  fs_from_code :: "code \<Rightarrow> instr list option"
  fs_to_code :: "code \<Rightarrow> instr list \<Rightarrow> code option"
  fs_code_extra_index :: cint
  fs_thread_local_trace_func :: "int \<Rightarrow> frame_trace"

definition on_m :: "(mon, 'a) py \<Rightarrow> (fe, 'a) py" where
  "on_m m = py_zoom fe_m (\<lambda>t s. s \<lparr> fe_m := t \<rparr>) m"

definition on_fw :: "(world, 'a) py \<Rightarrow> (fe, 'a) py" where
  "on_fw m = on_m (on_w m)"

abbreviation fe_w :: "fe \<Rightarrow> world" where
  "fe_w s \<equiv> m_w (fe_m s)"

text \<open>The \<^verbatim>\<open>ThreadInfo\<close> of the running thread, which is only reached through the thread-local value.\<close>

definition get_ti :: "int \<Rightarrow> (fe_thread_info \<Rightarrow> 'a) \<Rightarrow> (fe, 'a) py" where
  "get_ti me f = (\<lambda>s. case fe_tls s me of None \<Rightarrow> (Inl AttributeError, s) | Some ti \<Rightarrow> (Inr (f ti), s))"

definition upd_ti :: "int \<Rightarrow> (fe_thread_info \<Rightarrow> fe_thread_info) \<Rightarrow> (fe, unit) py" where
  "upd_ti me f = py_modify (\<lambda>s. s \<lparr> fe_tls := (fe_tls s)(me := map_option f (fe_tls s me)) \<rparr>)"

definition fe_enter :: "int \<Rightarrow> (fe, unit) py" where
  "fe_enter me = upd_ti me (\<lambda>ti. ti \<lparr> fi_inside_frame_eval := fi_inside_frame_eval ti + 1 \<rparr>)"

definition fe_leave :: "int \<Rightarrow> (fe, unit) py" where
  "fe_leave me = upd_ti me (\<lambda>ti. ti \<lparr> fi_inside_frame_eval := fi_inside_frame_eval ti - 1 \<rparr>)"

section \<open>\<^verbatim>\<open>ThreadInfo\<close>\<close>

fun root_frame :: "frame \<Rightarrow> frame" where
  "root_frame (Frame i c b) = (case b of None \<Rightarrow> Frame i c b | Some g \<Rightarrow> root_frame g)"

definition can_create_dummy_thread :: "frame \<Rightarrow> bool" where
  "can_create_dummy_thread frame =
     (let f = root_frame frame; basename = module_stem (co_filename (f_code f)); co_name = co_name (f_code f) in
      if basename = ''threading'' \<and> co_name \<in> {''__bootstrap'', ''_bootstrap'', ''__bootstrap_inner'', ''_bootstrap_inner''}
      then False
      else if basename = ''pydev_monkey'' \<and> co_name = ''__call__'' then False
      else if basename = ''pydevd'' \<and> co_name \<in> {''run'', ''main'', ''_exec''} then False
      else if basename = ''pydevd_tracing'' then False
      else True)"

text \<open>\<^verbatim>\<open>ThreadInfo.initialize\<close>\<close>

definition initialize :: "frame \<Rightarrow> fe_thread_info" where
  "initialize frame = \<lparr> fi_additional_info = None, fi_is_pydevd_thread = False, fi_inside_frame_eval = 0,
     fi_fully_initialized = False, fi_thread_trace_func = None,
     fi_can_create_dummy_thread = can_create_dummy_thread frame, fi_force_stay_in_untraced_mode = False \<rparr>"

text \<open>
  The information object of a thread that has none. The second look, under the lock, is at the attribute of the module
  \<^verbatim>\<open>thread\<close> and not of the thread, so a new object is always made; it is neither registered nor linked to the thread.
\<close>

definition attach_new_info :: "nat \<Rightarrow> registry \<Rightarrow> nat \<times> registry" where
  "attach_new_info t r =
     (let i = fresh_info r;
          r1 = r \<lparr> infos := (infos r)(i := PyDBAdditionalThreadInfo), fresh_info := i + 1 \<rparr>
      in (i, upd_thread t (\<lambda>t. t \<lparr> t_additional_info := Some i \<rparr>) r1))"

definition fe_additional_info :: "nat \<Rightarrow> (world, nat) py" where
  "fe_additional_info t = on_registry (\<lambda>r.
     case t_additional_info (threads r t) of
       Some i \<Rightarrow> (Inr i, r)
     | None \<Rightarrow> (case attach_new_info t r of (i, r') \<Rightarrow> (Inr i, r')))"

text \<open>The thread of the caller, None when it is not active and must not be made up.\<close>

definition fe_current_thread :: "fservices \<Rightarrow> int \<Rightarrow> (fe, nat option) py" where
  "fe_current_thread fs me =
     py_bind (py_gets (\<lambda>s. active (w_reg (fe_w s)) me)) (\<lambda>t.
       case t of
         Some t \<Rightarrow> py_ret (Some t)
       | None \<Rightarrow>
           py_bind (get_ti me fi_can_create_dummy_thread) (\<lambda>can.
             if can then
               py_bind (on_m (mon_current_thread (fs_ms fs) me)) (\<lambda>t.
                 py_then (py_modify (\<lambda>s. s \<lparr> fe_settrace := insert me (fe_settrace s) \<rparr>)) (py_ret (Some t)))
             else py_ret None))"

definition initialize_if_possible :: "fservices \<Rightarrow> int \<Rightarrow> (fe, unit) py" where
  "initialize_if_possible fs me =
     py_then (fe_enter me)
       (py_finally
         (py_bind (fe_current_thread fs me) (\<lambda>t.
           case t of
             None \<Rightarrow> py_ret ()
           | Some t \<Rightarrow>
               py_bind (py_gets (\<lambda>s. m_daemon (fe_m s) t)) (\<lambda>daemon.
                 if daemon then upd_ti me (\<lambda>ti. ti \<lparr> fi_is_pydevd_thread := True, fi_fully_initialized := True \<rparr>)
                 else
                   py_bind (on_fw (fe_additional_info t)) (\<lambda>i.
                     upd_ti me (\<lambda>ti. ti \<lparr> fi_additional_info := Some i, fi_fully_initialized := True \<rparr>)))))
         (fe_leave me))"

definition request_extra_index :: "fservices \<Rightarrow> (fe, unit) py" where
  "request_extra_index fs = py_modify (\<lambda>s.
     if fe_code_extra_index s = -1 then s \<lparr> fe_code_extra_index := fs_code_extra_index fs \<rparr> else s)"

text \<open>\<^verbatim>\<open>get_thread_info\<close>: whether the thread has one now.\<close>

definition fe_get_thread_info :: "fservices \<Rightarrow> int \<Rightarrow> frame option \<Rightarrow> (fe, bool) py" where
  "fe_get_thread_info fs me frame =
     py_bind (py_gets (\<lambda>s. fe_tls s me)) (\<lambda>known.
       case known of
         Some ti \<Rightarrow> py_ret True
       | None \<Rightarrow>
           (case frame of
              None \<Rightarrow> py_ret False
            | Some f \<Rightarrow>
                py_then (py_modify (\<lambda>s. s \<lparr> fe_tls := (fe_tls s)(me \<mapsto> initialize f) \<rparr>))
                  (py_then (fe_enter me)
                    (py_then
                      (py_finally (py_then (request_extra_index fs) (initialize_if_possible fs me)) (fe_leave me))
                      (py_ret True)))))"

definition clear_thread_local_info :: "(fe, unit) py" where
  "clear_thread_local_info = py_modify (\<lambda>s. s \<lparr> fe_tls := (\<lambda>_. None) \<rparr>)"

section \<open>Code objects\<close>

text \<open>\<^verbatim>\<open>_get_code_line_info\<close>: every offset and line is a C int.\<close>

fun linestarts_as_cints :: "(int \<times> int option) list \<Rightarrow> (int \<times> int) list \<Rightarrow> pyexc + (int \<times> int) list" where
  "linestarts_as_cints [] d = Inr d"
| "linestarts_as_cints ((offset, line) # rest) d =
     (case int_as_cint offset of
        Inl e \<Rightarrow> Inl e
      | Inr _ \<Rightarrow>
          (case opt_as_cint line of
             Inl e \<Rightarrow> Inl e
           | Inr n \<Rightarrow> linestarts_as_cints rest (AList.update (sint n) offset d)))"

definition fe_get_code_line_info :: "code \<Rightarrow> pyexc + code_line_info" where
  "fe_get_code_line_info c =
     (case linestarts_as_cints (co_linestarts c) [] of
        Inl e \<Rightarrow> Inl e
      | Inr d \<Rightarrow>
          (let ls = fst ` set d;
               lo = (if d = [] then None else Some (Min ls)); hi = (if d = [] then None else Some (Max ls)) in
           case opt_as_cint lo of
             Inl e \<Rightarrow> Inl e
           | Inr lo \<Rightarrow>
               (case opt_as_cint hi of
                  Inl e \<Rightarrow> Inl e
                | Inr hi \<Rightarrow> Inr \<lparr> line_to_offset = d, first_line = lo, last_line = hi \<rparr>)))"

definition new_CacheValue :: "code \<Rightarrow> code_line_info \<Rightarrow> int set \<Rightarrow> cache_value" where
  "new_CacheValue c li hit = \<lparr> cv_code_obj = c, cv_code_line_info = li, cv_breakpoints_hit_at_lines = hit,
     cv_code_lines = fst ` set (line_to_offset li) \<rparr>"

text \<open>\<^verbatim>\<open>compute_force_stay_in_untraced_mode\<close>: the breakpoints of the file, which may be None.\<close>

definition compute_force_stay ::
  "cache_value \<Rightarrow> (int \<times> breakpoint) list option \<Rightarrow> pyexc + bool \<times> bool" where
  "compute_force_stay cv bps =
     (case bps of
        None \<Rightarrow> Inl TypeError
      | Some bps \<Rightarrow>
          (let lines = fst ` set bps; found = (cv_code_lines cv \<inter> lines \<noteq> {}) in
           Inr (found, if \<not> found then True else lines \<subseteq> cv_breakpoints_hit_at_lines cv)))"

fun lines_hit :: "int list \<Rightarrow> (int \<times> int) list \<Rightarrow> pyexc + int list" where
  "lines_hit [] d = Inr []"
| "lines_hit (l # ls) d =
     (case int_as_cint l of
        Inl e \<Rightarrow> Inl e
      | Inr _ \<Rightarrow>
          (case lines_hit ls d of
             Inl e \<Rightarrow> Inl e
           | Inr hit \<Rightarrow> Inr (if l \<in> fst ` set d then List.insert l hit else hit)))"

definition generate_code_with_breakpoints ::
  "fservices \<Rightarrow> code \<Rightarrow> (int \<times> breakpoint) list \<Rightarrow> (fe, bool \<times> code option) py" where
  "generate_code_with_breakpoints fs c bps =
     py_bind (py_gets (\<lambda>s. fe_cache s (code_key c))) (\<lambda>cached.
       if cached \<noteq> None then py_raise AssertionError
       else
         py_bind (py_lift (fe_get_code_line_info c)) (\<lambda>li.
           py_bind (py_lift (lines_hit (map fst bps) (line_to_offset li))) (\<lambda>hit.
             if hit = [] then py_ret (False, Some c)
             else
               (case insert_pydevd_breaks (fs_py310 fs) (fs_from_code fs) (fs_to_code fs) c (set hit) li of
                  None \<Rightarrow> py_ret (True, None)
                | Some new_code \<Rightarrow>
                    py_then (py_modify (\<lambda>s. s \<lparr> fe_cache := (fe_cache s)
                        (code_key new_code \<mapsto> new_CacheValue new_code li (set hit)) \<rparr>))
                      (py_ret (True, Some new_code))))))"

text \<open>The type of the file of the frame, cached by the debugger.\<close>

definition fe_file_type :: "fservices \<Rightarrow> frame \<Rightarrow> code \<Rightarrow> string \<Rightarrow> (fe, int option) py" where
  "fe_file_type fs frame c path =
     (let key = (co_firstlineno c, path, code_key c) in
      py_bind (py_gets (\<lambda>s. m_file_types (fe_m s) key)) (\<lambda>cached.
        case cached of
          Some ty \<Rightarrow> py_ret ty
        | None \<Rightarrow>
            (let ty = sv_get_file_type (ms_sv (fs_ms fs)) frame in
             py_then (on_m (py_modify (\<lambda>t. t \<lparr> m_file_types := (m_file_types t)(key \<mapsto> ty) \<rparr>))) (py_ret ty))))"

text \<open>The breakpoints of user code: the flag and the new code of its information. Code with checks stays as it is.\<close>

definition reuse_checked_code ::
  "int \<Rightarrow> cache_value \<Rightarrow> (int \<times> breakpoint) list option \<Rightarrow> fe_code_info \<Rightarrow> (fe, fe_code_info) py" where
  "reuse_checked_code me cv bps x =
     py_bind (py_lift (compute_force_stay cv bps)) (\<lambda>(found, force).
       py_then (upd_ti me (\<lambda>ti. ti \<lparr> fi_force_stay_in_untraced_mode := force \<rparr>))
         (py_ret (x \<lparr> fx_new_code := None, fx_breakpoint_found := found \<rparr>)))"

definition add_checks ::
  "fservices \<Rightarrow> code \<Rightarrow> (int \<times> breakpoint) list option \<Rightarrow> fe_code_info \<Rightarrow> (fe, fe_code_info) py" where
  "add_checks fs c bps x =
     (case bps of
        None \<Rightarrow> py_ret x
      | Some [] \<Rightarrow> py_ret x
      | Some bps \<Rightarrow>
          py_bind (generate_code_with_breakpoints fs c bps) (\<lambda>(found, new_code).
            py_ret (x \<lparr> fx_new_code := new_code, fx_breakpoint_found := found \<rparr>)))"

definition fe_breakpoints :: "fservices \<Rightarrow> int \<Rightarrow> code \<Rightarrow> fe_code_info \<Rightarrow> (fe, fe_code_info) py" where
  "fe_breakpoints fs me c x =
     py_bind (py_gets (\<lambda>s. (w_dbg (fe_w s), fe_cache s (code_key c)))) (\<lambda>(db, cached).
       let bps = breakpoints db (fx_canonical_normalized_filename x) in
       case cached of
         Some cv \<Rightarrow> reuse_checked_code me cv bps x
       | None \<Rightarrow>
           if function_breakpoint_name_to_breakpoint db (co_name c) \<noteq> None
           then py_ret (x \<lparr> fx_breakpoint_found := True, fx_new_code := None \<rparr>)
           else add_checks fs c bps x)"

text \<open>The \<^verbatim>\<open>FuncCodeInfo\<close> of the code before its breakpoints are known.\<close>

definition fe_named_info :: "code \<Rightarrow> abs_path \<Rightarrow> cint \<Rightarrow> fe_code_info" where
  "fe_named_info c path mtime = new_fe_code_info \<lparr> fx_breakpoints_mtime := mtime, fx_co_filename := co_filename c,
     fx_co_name := Some (co_name c), fx_canonical_normalized_filename := fst (snd path) \<rparr>"

definition get_extra :: "code \<Rightarrow> (fe, fe_code_info option) py" where
  "get_extra c = py_gets (\<lambda>s. if fe_code_extra_index s = -1 then None else fe_extra s c)"

definition set_extra :: "code \<Rightarrow> fe_code_info \<Rightarrow> (fe, unit) py" where
  "set_extra c x = py_modify (\<lambda>s. if fe_code_extra_index s = -1 then s else s \<lparr> fe_extra := (fe_extra s)(c \<mapsto> x) \<rparr>)"

definition fe_build_code_info :: "fservices \<Rightarrow> int \<Rightarrow> frame \<Rightarrow> code \<Rightarrow> int \<Rightarrow> (fe, fe_code_info) py" where
  "fe_build_code_info fs me frame c db_mtime =
     py_bind (py_lift (int_as_cint db_mtime)) (\<lambda>mtime.
       let path = sv_abs_path (ms_sv (fs_ms fs)) frame; x = fe_named_info c path mtime in
       py_bind (fe_file_type fs frame c (fst path)) (\<lambda>ty.
         py_bind (if ty \<noteq> None then py_ret (x \<lparr> fx_always_skip_code := True \<rparr>) else fe_breakpoints fs me c x) (\<lambda>x.
           py_then (set_extra c x) (py_ret x))))"

definition fe_get_func_code_info :: "fservices \<Rightarrow> int \<Rightarrow> frame \<Rightarrow> code \<Rightarrow> (fe, fe_code_info) py" where
  "fe_get_func_code_info fs me frame c =
     py_then (upd_ti me (\<lambda>ti. ti \<lparr> fi_force_stay_in_untraced_mode := False \<rparr>))
       (py_bind (get_extra c) (\<lambda>extra.
         py_bind (py_gets (\<lambda>s. (global_debugger (w_reg (fe_w s)), m_mtime (fe_m s)))) (\<lambda>(dbg, mtime).
           if dbg = None then py_raise AttributeError
           else case extra of
             None \<Rightarrow> fe_build_code_info fs me frame c mtime
           | Some x \<Rightarrow> if sint (fx_breakpoints_mtime x) = mtime then py_ret x
                       else fe_build_code_info fs me frame c mtime)))"

section \<open>Evaluating a frame\<close>

text \<open>
  The interpreter's own evaluation of the frame: it runs after the function is done, or still inside of it, with
  the thread marked as working for the debugger.
\<close>

datatype evaluated = RunUnmarked | RunMarked

definition frame_code :: "frame \<Rightarrow> (fe, code) py" where
  "frame_code frame = py_gets (\<lambda>s. case fe_f_code s (f_id frame) of None \<Rightarrow> f_code frame | Some c \<Rightarrow> c)"

definition trace_frame :: "int \<Rightarrow> frame \<Rightarrow> (fe, unit) py" where
  "trace_frame me frame =
     py_bind (get_ti me fi_thread_trace_func) (\<lambda>tf.
       py_modify (\<lambda>s. s \<lparr> fe_f_trace := (fe_f_trace s)(f_id frame \<mapsto>
         (case tf of None \<Rightarrow> DebuggerTraceDispatch | Some tf \<Rightarrow> ThreadTraceFunc tf)) \<rparr>))"

definition update_globals_dict :: "frame \<Rightarrow> (fe, unit) py" where
  "update_globals_dict frame = py_modify (\<lambda>s. s \<lparr> fe_globals := insert (f_id frame) (fe_globals s) \<rparr>)"

definition switch_code :: "frame \<Rightarrow> code \<Rightarrow> (fe, unit) py" where
  "switch_code frame c = py_modify (\<lambda>s. s \<lparr> fe_f_code := (fe_f_code s)(f_id frame \<mapsto> c) \<rparr>)"

text \<open>The conditions to trace the frame whatever its code is.\<close>

definition must_trace :: "thread_info \<Rightarrow> pydb \<Rightarrow> bool \<Rightarrow> frame \<Rightarrow> bool" where
  "must_trace i db signature frame \<longleftrightarrow>
     pydev_step_cmd i \<in> {CMD_STEP_INTO, CMD_STEP_INTO_MY_CODE, CMD_STEP_INTO_COROUTINE, CMD_SMART_STEP_INTO} \<or>
     has_exception_breakpoints db \<or> signature \<or>
     pydev_step_cmd i \<in> {CMD_STEP_OVER, CMD_STEP_OVER_MY_CODE} \<and> show_return_values db \<and>
       frame_is (f_back frame) (pydev_step_stop i)"

definition plugin_can_skip :: "fservices \<Rightarrow> frame \<Rightarrow> (fe, bool) py" where
  "plugin_can_skip fs frame =
     on_fw (py_bind (get_db id) (\<lambda>db.
       if \<not> (has_plugin_line_breaks db \<or> has_plugin_exception_breaks db) then py_ret True
       else if \<not> has_plugin db then py_raise AttributeError
       else do_call (CallPlugin ''can_skip'') (pl_can_skip (ms_sv (fs_ms fs)) frame)))"

text \<open>What is done for a frame whose code has to be looked at.\<close>

definition use_code_info :: "fservices \<Rightarrow> int \<Rightarrow> frame \<Rightarrow> fe_code_info \<Rightarrow> (fe, unit) py" where
  "use_code_info fs me frame x =
     (if fx_always_skip_code x then py_ret ()
      else
        py_bind (plugin_can_skip fs frame) (\<lambda>can_skip.
          py_then (if can_skip then py_ret () else trace_frame me frame)
            (if can_skip \<and> fx_breakpoint_found x then
               py_bind (get_ti me fi_force_stay_in_untraced_mode) (\<lambda>force.
                 if force then update_globals_dict frame
                 else case fx_new_code x of
                   None \<Rightarrow> trace_frame me frame
                 | Some c \<Rightarrow> py_then (update_globals_dict frame) (switch_code frame c))
             else py_ret ())))"

definition set_thread_trace_func :: "fservices \<Rightarrow> int \<Rightarrow> frame \<Rightarrow> (fe, unit) py" where
  "set_thread_trace_func fs me frame =
     py_bind (get_ti me fi_thread_trace_func) (\<lambda>tf.
       if tf \<noteq> None then py_ret ()
       else
         py_bind (on_fw (fix_top_level_trace_and_get_trace_func (ms_sv (fs_ms fs)) frame)) (\<lambda>(trace_func, apply_to_global).
           if apply_to_global then upd_ti me (\<lambda>ti. ti \<lparr> fi_thread_trace_func := trace_func \<rparr>) else py_ret ()))"

definition eval_body :: "fservices \<Rightarrow> int \<Rightarrow> nat \<Rightarrow> frame \<Rightarrow> (fe, evaluated) py" where
  "eval_body fs me info frame =
     py_bind (py_gets (\<lambda>s. global_debugger (w_reg (fe_w s)))) (\<lambda>dbg.
       if dbg = None then py_ret RunMarked
       else
         py_then (set_thread_trace_func fs me frame)
           (py_bind (py_gets id) (\<lambda>s.
             py_then
               (if must_trace (infos (w_reg (fe_w s)) info) (w_dbg (fe_w s)) (fe_signature_factory s) frame
                then trace_frame me frame
                else
                  py_bind (frame_code frame) (\<lambda>c.
                    py_bind (fe_get_func_code_info fs me frame c) (use_code_info fs me frame)))
               (py_ret RunUnmarked))))"

definition set_is_tracing :: "nat \<Rightarrow> cint \<Rightarrow> (fe, unit) py" where
  "set_is_tracing info v = on_fw (set_info info (\<lambda>i. i \<lparr> is_tracing := v \<rparr>))"

text \<open>\<^verbatim>\<open>get_bytecode_while_frame_eval\<close>; the versions for Python 3.8 and 3.9 differ in the call of the default evaluation.\<close>

definition get_bytecode_while_frame_eval :: "fservices \<Rightarrow> int \<Rightarrow> frame \<Rightarrow> bool \<Rightarrow> (fe, evaluated) py" where
  "get_bytecode_while_frame_eval fs me frame exc =
     py_bind (py_gets fe_shutdown) (\<lambda>down.
       if down \<or> exc then py_ret RunUnmarked
       else
         py_bind (fe_get_thread_info fs me (Some frame)) (\<lambda>known.
           if \<not> known then py_ret RunUnmarked
           else
             py_bind (get_ti me id) (\<lambda>ti.
               if fi_inside_frame_eval ti \<noteq> 0 then py_ret RunUnmarked
               else
                 py_then (if fi_fully_initialized ti then py_ret () else initialize_if_possible fs me)
                   (py_bind (get_ti me id) (\<lambda>ti.
                     if \<not> fi_fully_initialized ti \<or> fi_is_pydevd_thread ti then py_ret RunUnmarked
                     else case fi_additional_info ti of
                       None \<Rightarrow> py_raise undefined_access
                     | Some info \<Rightarrow>
                         py_bind (on_fw (get_info info is_tracing)) (\<lambda>tracing.
                           if tracing \<noteq> 0 then py_ret RunUnmarked
                           else
                             py_then (fe_enter me)
                               (py_then (set_is_tracing info 1)
                                 (py_finally (eval_body fs me info frame)
                                   (py_then (fe_leave me) (set_is_tracing info 0))))))))))"

section \<open>Installation and tracing\<close>

definition frame_eval_func :: "fservices \<Rightarrow> (fe, unit) py" where
  "frame_eval_func fs = py_modify (\<lambda>s. s \<lparr> fe_eval_frame := (if fs_py39 fs then FrameEval39 else FrameEval38),
     fe_dummy_trace_func := True \<rparr>)"

definition stop_frame_eval :: "(fe, unit) py" where
  "stop_frame_eval = py_modify (\<lambda>s. s \<lparr> fe_eval_frame := EvalFrameDefault \<rparr>)"

text \<open>\<^verbatim>\<open>frame.f_trace\<close>, set by the frame evaluator or by the tracers.\<close>

definition f_trace :: "frame \<Rightarrow> (fe, frame_trace option) py" where
  "f_trace frame = py_gets (\<lambda>s. case fe_f_trace s (f_id frame) of
     Some ft \<Rightarrow> Some ft | None \<Rightarrow> map_option ThreadTraceFunc (w_ftrace (fe_w s) (f_id frame)))"

definition dummy_trace_dispatch :: "fservices \<Rightarrow> frame \<Rightarrow> string \<Rightarrow> trace_arg \<Rightarrow> (fe, tracefun option) py" where
  "dummy_trace_dispatch fs frame event arg =
     (if event = ''call'' then
        py_bind (f_trace frame) (\<lambda>ft.
          case ft of
            None \<Rightarrow> py_ret None
          | Some (ThreadTraceFunc tf) \<Rightarrow> on_fw (call_tracefun (ms_sv (fs_ms fs)) frame event arg tf)
          | Some DebuggerTraceDispatch \<Rightarrow> on_fw (trace_dispatch_module (ms_sv (fs_ms fs)) frame event arg))
      else py_ret None)"

text \<open>The information object of the current thread, for the functions that the checks call.\<close>

definition checked_info :: "fservices \<Rightarrow> int \<Rightarrow> (fe, nat) py" where
  "checked_info fs me = py_bind (on_m (mon_current_thread (fs_ms fs) me)) (\<lambda>t. on_fw (ensure_info t))"

definition while_tracing :: "nat \<Rightarrow> 'a \<Rightarrow> (fe, 'a) py \<Rightarrow> (fe, 'a) py" where
  "while_tracing info r m =
     py_bind (on_fw (get_info info is_tracing)) (\<lambda>tracing.
       if tracing \<noteq> 0 then py_ret r
       else
         py_then (on_fw (py_modify (enter_tracing info)))
           (py_finally m (on_fw (py_modify (leave_tracing info)))))"

definition pydev_needs_stop_at_break :: "fservices \<Rightarrow> int \<Rightarrow> frame \<Rightarrow> int \<Rightarrow> (fe, bool) py" where
  "pydev_needs_stop_at_break fs me frame line =
     py_bind (checked_info fs me) (\<lambda>info.
       while_tracing info False
         (py_bind (f_trace frame) (\<lambda>ft.
           if ft \<noteq> None then py_ret False
           else
             py_gets (\<lambda>s. global_debugger (w_reg (fe_w s)) \<noteq> None \<and>
               (case breakpoints (w_dbg (fe_w s)) (fst (snd (sv_abs_path (ms_sv (fs_ms fs)) frame))) of
                  None \<Rightarrow> False | Some bps \<Rightarrow> map_of bps line \<noteq> None)))))"

definition pydev_stop_at_break :: "fservices \<Rightarrow> int \<Rightarrow> frame \<Rightarrow> int \<Rightarrow> (fe, unit) py" where
  "pydev_stop_at_break fs me frame line =
     py_bind (checked_info fs me) (\<lambda>info.
       while_tracing info ()
         (py_bind (py_gets (\<lambda>s. global_debugger (w_reg (fe_w s)))) (\<lambda>dbg.
           if dbg = None then py_ret ()
           else
             py_then (on_fw (set_info info (\<lambda>i. i \<lparr> trace_suspend_type := Some ''frame_eval'' \<rparr>)))
               (py_then (fe_get_thread_info fs me (Some frame))
                 (py_bind (get_ti me fi_thread_trace_func) (\<lambda>tf.
                   py_modify (\<lambda>s. s \<lparr> fe_f_trace := (fe_f_trace s)(f_id frame \<mapsto>
                     (case tf of None \<Rightarrow> fs_thread_local_trace_func fs me | Some tf \<Rightarrow> ThreadTraceFunc tf)) \<rparr>)))))))"

end
