(* ===== verification/FrameEvalProps.thy ===== *)
theory FrameEvalProps
  imports FrameEval MonReturn
begin

text \<open>
  The properties of the frame evaluator: it leaves its marks as it found them, a frame with a breakpoint is
  traced or runs code with checks, and what happens when code with checks runs again.
\<close>

section \<open>Running the functions\<close>

lemma on_m_app [py_simps, simp]: "on_m m s = (case m (fe_m s) of (r, t) \<Rightarrow> (r, s \<lparr> fe_m := t \<rparr>))"
  by (simp add: on_m_def py_zoom_app)

lemma on_fw_app [py_simps, simp]:
  "on_fw m s = (case m (fe_w s) of (r, w) \<Rightarrow> (r, s \<lparr> fe_m := (fe_m s) \<lparr> m_w := w \<rparr> \<rparr>))"
  by (simp add: on_fw_def split: prod.splits)

lemma get_ti_app [py_simps, simp]:
  "get_ti me f s = (case fe_tls s me of None \<Rightarrow> (Inl AttributeError, s) | Some ti \<Rightarrow> (Inr (f ti), s))"
  by (simp add: get_ti_def)

lemma upd_ti_app [py_simps, simp]:
  "upd_ti me f s = (Inr (), s \<lparr> fe_tls := (fe_tls s)(me := map_option f (fe_tls s me)) \<rparr>)"
  by (simp add: upd_ti_def)

lemma keeps_on_m [keeps_rules]: "(\<And>s t. f (s \<lparr> fe_m := t \<rparr>) = f s) \<Longrightarrow> keeps f (on_m m)"
  by (simp add: keeps_def split: prod.split)

lemma keeps_on_fw [keeps_rules]: "(\<And>s t. f (s \<lparr> fe_m := t \<rparr>) = f s) \<Longrightarrow> keeps f (on_fw m)"
  by (simp add: keeps_def split: prod.split)

lemma keeps_get_ti [keeps_rules]: "keeps f (get_ti me g)"
  by (simp add: keeps_def split: option.split)

section \<open>The marks\<close>

text \<open>How often the thread is inside the frame evaluator; None when it is not known yet.\<close>

definition fe_depth :: "int \<Rightarrow> fe \<Rightarrow> cint option" where
  "fe_depth me s = map_option fi_inside_frame_eval (fe_tls s me)"

lemma fe_depth_simps [simp]:
  "fe_depth me (s \<lparr> fe_m := t \<rparr>) = fe_depth me s" "fe_depth me (s \<lparr> fe_code_extra_index := i \<rparr>) = fe_depth me s"
  "fe_depth me (s \<lparr> fe_extra := e \<rparr>) = fe_depth me s" "fe_depth me (s \<lparr> fe_cache := c \<rparr>) = fe_depth me s"
  "fe_depth me (s \<lparr> fe_f_code := fc \<rparr>) = fe_depth me s" "fe_depth me (s \<lparr> fe_f_trace := ft \<rparr>) = fe_depth me s"
  "fe_depth me (s \<lparr> fe_globals := g \<rparr>) = fe_depth me s" "fe_depth me (s \<lparr> fe_settrace := st \<rparr>) = fe_depth me s"
  by (simp_all add: fe_depth_def)

lemma keeps_depth_upd_ti [keeps_rules]:
  "(\<And>ti. fi_inside_frame_eval (g ti) = fi_inside_frame_eval ti) \<Longrightarrow> keeps (fe_depth me) (upd_ti me g)"
  by (simp add: keeps_def fe_depth_def option.map_comp comp_def)





text \<open>The section of the main function that is marked in both ways.\<close>

definition marked_section :: "fservices \<Rightarrow> int \<Rightarrow> nat \<Rightarrow> frame \<Rightarrow> (fe, evaluated) py" where
  "marked_section fs me info frame =
     py_then (fe_enter me) (py_then (set_is_tracing info 1)
       (py_finally (eval_body fs me info frame) (py_then (fe_leave me) (set_is_tracing info 0))))"



text \<open>The main function once the thread is known.\<close>

definition eval_known :: "fservices \<Rightarrow> int \<Rightarrow> frame \<Rightarrow> (fe, evaluated) py" where
  "eval_known fs me frame =
     py_bind (get_ti me id) (\<lambda>ti.
       if fi_inside_frame_eval ti \<noteq> 0 then py_ret RunUnmarked
       else
         py_then (if fi_fully_initialized ti then py_ret () else initialize_if_possible fs me)
           (py_bind (get_ti me id) (\<lambda>ti.
             if \<not> fi_fully_initialized ti \<or> fi_is_pydevd_thread ti then py_ret RunUnmarked
             else case fi_additional_info ti of
               None \<Rightarrow> py_raise undefined_access
             | Some info \<Rightarrow>
                 py_bind (on_fw (get_info info is_tracing)) (\<lambda>tracing.
                   if tracing \<noteq> 0 then py_ret RunUnmarked else marked_section fs me info frame))))"

lemma frame_eval_marked:
  "get_bytecode_while_frame_eval fs me frame exc =
     py_bind (py_gets fe_shutdown) (\<lambda>down.
       if down \<or> exc then py_ret RunUnmarked
       else
         py_bind (fe_get_thread_info fs me (Some frame)) (\<lambda>known.
           if \<not> known then py_ret RunUnmarked else eval_known fs me frame))"
  unfolding get_bytecode_while_frame_eval_def eval_known_def marked_section_def ..

lemma known_thread_info: "fe_tls s me = Some ti \<Longrightarrow> fe_get_thread_info fs me frame s = (Inr True, s)"
  by (simp add: fe_get_thread_info_def py_simps)

lemma frame_eval_run:
  "fe_tls s me = Some ti \<Longrightarrow> get_bytecode_while_frame_eval fs me frame exc s =
     (if fe_shutdown s \<or> exc then (Inr RunUnmarked, s) else eval_known fs me frame s)"
  by (simp add: frame_eval_marked py_bind_app py_gets_app py_ret_app known_thread_info)


lemma eval_known_initialized:
  assumes "fe_tls s me = Some ti" and "fi_fully_initialized ti" and "fi_additional_info ti = Some info"
  shows "eval_known fs me frame s =
    (if fi_inside_frame_eval ti \<noteq> 0 \<or> fi_is_pydevd_thread ti \<or> is_tracing (infos (w_reg (fe_w s)) info) \<noteq> 0
     then (Inr RunUnmarked, s) else marked_section fs me info frame s)"
  using assms by (simp add: eval_known_def py_bind_app py_then_app py_ret_app get_info_def py_gets_app)


section \<open>Frames with breakpoints\<close>

text \<open>
  A frame that the evaluator looks at: the thread is known and not at work for the debugger, and nothing asks for
  the frame to be traced whatever its code is.
\<close>

definition looked_at :: "int \<Rightarrow> nat \<Rightarrow> tracefun \<Rightarrow> frame \<Rightarrow> fe \<Rightarrow> bool" where
  "looked_at me info tf frame s \<longleftrightarrow>
     \<not> fe_shutdown s \<and> global_debugger (w_reg (fe_w s)) \<noteq> None \<and> is_tracing (infos (w_reg (fe_w s)) info) = 0 \<and>
     (case fe_tls s me of
        None \<Rightarrow> False
      | Some ti \<Rightarrow> fi_fully_initialized ti \<and> \<not> fi_is_pydevd_thread ti \<and> fi_inside_frame_eval ti = 0 \<and>
          fi_additional_info ti = Some info \<and> fi_thread_trace_func ti = Some tf) \<and>
     \<not> must_trace (infos (w_reg (fe_w s)) info) (w_dbg (fe_w s)) (fe_signature_factory s) frame"

definition code_of :: "fe \<Rightarrow> frame \<Rightarrow> code" where
  "code_of s frame = (case fe_f_code s (f_id frame) of None \<Rightarrow> f_code frame | Some c \<Rightarrow> c)"

definition at_work :: "int \<Rightarrow> nat \<Rightarrow> fe \<Rightarrow> fe" where
  "at_work me info s = snd (set_is_tracing info 1 (snd (fe_enter me s)))"

lemma at_work_fields [simp]:
  "fe_extra (at_work me info s) = fe_extra s" "fe_cache (at_work me info s) = fe_cache s"
  "fe_f_code (at_work me info s) = fe_f_code s" "fe_f_trace (at_work me info s) = fe_f_trace s"
  "fe_globals (at_work me info s) = fe_globals s" "fe_code_extra_index (at_work me info s) = fe_code_extra_index s"
  "fe_signature_factory (at_work me info s) = fe_signature_factory s"
  "m_mtime (fe_m (at_work me info s)) = m_mtime (fe_m s)"
  "m_file_types (fe_m (at_work me info s)) = m_file_types (fe_m s)"
  "w_dbg (fe_w (at_work me info s)) = w_dbg (fe_w s)"
  "global_debugger (w_reg (fe_w (at_work me info s))) = global_debugger (w_reg (fe_w s))"
  "pydev_step_cmd (infos (w_reg (fe_w (at_work me info s))) info) = pydev_step_cmd (infos (w_reg (fe_w s)) info)"
  "pydev_step_stop (infos (w_reg (fe_w (at_work me info s))) info) = pydev_step_stop (infos (w_reg (fe_w s)) info)"
  "fe_tls (at_work me info s) me =
     map_option (\<lambda>ti. ti \<lparr> fi_inside_frame_eval := fi_inside_frame_eval ti + 1 \<rparr>) (fe_tls s me)"
  by (simp_all add: at_work_def fe_enter_def set_is_tracing_def set_info_def upd_info_def py_simps)

lemma leave_fields [simp]:
  "fe_f_code (snd (set_is_tracing info v s)) = fe_f_code s" "fe_f_code (snd (fe_leave me s)) = fe_f_code s"
  "fe_f_trace (snd (set_is_tracing info v s)) = fe_f_trace s" "fe_f_trace (snd (fe_leave me s)) = fe_f_trace s"
  "fe_globals (snd (set_is_tracing info v s)) = fe_globals s" "fe_globals (snd (fe_leave me s)) = fe_globals s"
  "fe_cache (snd (set_is_tracing info v s)) = fe_cache s" "fe_cache (snd (fe_leave me s)) = fe_cache s"
  by (simp_all add: fe_leave_def set_is_tracing_def set_info_def py_simps)

lemma eval_body_looked_at:
  assumes "looked_at me info tf frame s"
  shows "eval_body fs me info frame (at_work me info s) =
    py_then (py_bind (fe_get_func_code_info fs me frame (code_of s frame)) (use_code_info fs me frame))
      (py_ret RunUnmarked) (at_work me info s)"
proof -
  have "set_thread_trace_func fs me frame (at_work me info s) = (Inr (), at_work me info s)"
    using assms by (auto simp: looked_at_def set_thread_trace_func_def py_bind_app py_ret_app split: option.splits)
  moreover have "\<not> must_trace (infos (w_reg (fe_w (at_work me info s))) info) (w_dbg (fe_w (at_work me info s)))
      (fe_signature_factory (at_work me info s)) frame"
    using assms by (auto simp: looked_at_def must_trace_def)
  ultimately show ?thesis
    using assms by (auto simp: looked_at_def eval_body_def py_bind_app py_then_app py_gets_app frame_code_def code_of_def)
qed

lemma frame_eval_looked_at:
  assumes "looked_at me info tf frame s"
    and "py_bind (fe_get_func_code_info fs me frame (code_of s frame)) (use_code_info fs me frame) (at_work me info s) = (r, s2)"
  shows "get_bytecode_while_frame_eval fs me frame False s =
    (map_sum id (\<lambda>_. RunUnmarked) r, snd (set_is_tracing info 0 (snd (fe_leave me s2))))"
proof -
  obtain ti where ti: "fe_tls s me = Some ti" "fi_fully_initialized ti" "fi_additional_info ti = Some info"
    "\<not> fi_is_pydevd_thread ti" "fi_inside_frame_eval ti = 0"
    using assms(1) by (auto simp: looked_at_def split: option.splits)
  have "get_bytecode_while_frame_eval fs me frame False s = marked_section fs me info frame s"
    using ti assms(1) by (simp add: frame_eval_run eval_known_initialized looked_at_def)
  moreover have "eval_body fs me info frame (at_work me info s) = (map_sum id (\<lambda>_. RunUnmarked) r, s2)"
    using assms(2) by (cases r) (simp_all add: eval_body_looked_at [OF assms(1)] py_then_app py_ret_app)
  ultimately show ?thesis
    by (cases r) (simp_all add: marked_section_def at_work_def fe_enter_def fe_leave_def set_is_tracing_def set_info_def py_simps)
qed

text \<open>The lines of the code with breakpoints.\<close>

lemma lines_hit_set: "lines_hit ls d = Inr hit \<Longrightarrow> set hit = set ls \<inter> fst ` set d"
  by (induction ls arbitrary: hit) (force split: sum.splits if_splits)+

lemma lines_hit_total:
  assumes "\<forall>l \<in> set ls. INT_MIN \<le> l \<and> l \<le> INT_MAX"
  shows "\<exists>hit. lines_hit ls d = Inr hit"
  using assms by (induction ls) (auto simp: int_as_cint_def)

lemma generate_code_run:
  assumes "fe_cache s (code_key c) = None" and "fe_get_code_line_info c = Inr li"
    and "lines_hit (map fst bps) (line_to_offset li) = Inr hit" and "hit \<noteq> []"
  shows "generate_code_with_breakpoints fs c bps s =
    (case insert_pydevd_breaks (fs_py310 fs) (fs_from_code fs) (fs_to_code fs) c (set hit) li of
       None \<Rightarrow> (Inr (True, None), s)
     | Some c' \<Rightarrow> (Inr (True, Some c'), s \<lparr> fe_cache := (fe_cache s)(code_key c' \<mapsto> new_CacheValue c' li (set hit)) \<rparr>))"
  using assms by (simp add: generate_code_with_breakpoints_def py_simps split: option.split)

text \<open>The information that the evaluator has of the code is not there or older than the breakpoints.\<close>

definition stale_extra :: "fe \<Rightarrow> code \<Rightarrow> bool" where
  "stale_extra s c \<longleftrightarrow> fe_code_extra_index s = -1 \<or>
     (case fe_extra s c of None \<Rightarrow> True | Some x \<Rightarrow> sint (fx_breakpoints_mtime x) \<noteq> m_mtime (fe_m s))"

definition user_file :: "fservices \<Rightarrow> fe \<Rightarrow> frame \<Rightarrow> bool" where
  "user_file fs s frame \<longleftrightarrow>
     (let sv = ms_sv (fs_ms fs); c = code_of s frame;
          key = (co_firstlineno c, fst (sv_abs_path sv frame), code_key c) in
      (case m_file_types (fe_m s) key of None \<Rightarrow> sv_get_file_type sv frame | Some ty \<Rightarrow> ty) = None)"

lemma fe_build_user_code:
  assumes "user_file fs s frame" and "int_as_cint (m_mtime (fe_m s)) = Inr mt"
    and "stale_extra s (code_of s frame)" and "global_debugger (w_reg (fe_w s)) \<noteq> None"
  shows "\<exists>s1. fe_get_func_code_info fs me frame (code_of s frame) s =
      py_bind (fe_breakpoints fs me (code_of s frame)
          (fe_named_info (code_of s frame) (sv_abs_path (ms_sv (fs_ms fs)) frame) mt))
        (\<lambda>x. py_then (set_extra (code_of s frame) x) (py_ret x)) s1 \<and>
    fe_w s1 = fe_w s \<and> fe_cache s1 = fe_cache s \<and> fe_f_code s1 = fe_f_code s \<and> fe_f_trace s1 = fe_f_trace s \<and>
    fe_globals s1 = fe_globals s \<and> fe_code_extra_index s1 = fe_code_extra_index s \<and> fe_extra s1 = fe_extra s \<and>
    m_mtime (fe_m s1) = m_mtime (fe_m s) \<and>
    fe_tls s1 me = map_option (\<lambda>ti. ti \<lparr> fi_force_stay_in_untraced_mode := False \<rparr>) (fe_tls s me)"
  using assms
  by (auto simp: fe_get_func_code_info_def fe_build_code_info_def fe_file_type_def get_extra_def stale_extra_def user_file_def
      Let_def py_bind_app py_then_app py_gets_app py_lift_app py_ret_app py_modify_app split: option.splits)

lemma at_work_code [simp]: "code_of (at_work me info s) frame = code_of s frame"
  by (simp add: code_of_def)

lemma at_work_user_file: "user_file fs s frame \<Longrightarrow> user_file fs (at_work me info s) frame"
  by (simp add: user_file_def)

lemma at_work_stale: "stale_extra s c \<Longrightarrow> stale_extra (at_work me info s) c"
  by (cases "fe_extra s c") (simp_all add: stale_extra_def)

text \<open>What new code has to be: the original with checks wherever a line with a breakpoint is entered, and no others.\<close>

definition code_with_checks :: "fservices \<Rightarrow> code \<Rightarrow> int set \<Rightarrow> int set \<Rightarrow> code \<Rightarrow> bool" where
  "code_with_checks fs c lines allowed c' \<longleftrightarrow>
     (\<exists>xs ys. fs_from_code fs c = Some xs \<and> fs_to_code fs c ys = Some c' \<and>
        checks_inserted (fs_py310 fs) lines allowed xs ys)"

abbreviation checked_code :: "fservices \<Rightarrow> code \<Rightarrow> int set \<Rightarrow> code \<Rightarrow> bool" where
  "checked_code fs c lines \<equiv> code_with_checks fs c lines UNIV"

text \<open>Each line of a set that is a line of the instructions is checked: the new code enters it, with a check.\<close>

definition lines_checked :: "fservices \<Rightarrow> code \<Rightarrow> int set \<Rightarrow> bool" where
  "lines_checked fs c lines \<longleftrightarrow> (\<forall>xs line. fs_from_code fs c = Some xs \<and> line \<in> lines \<longrightarrow> line_checked (fs_py310 fs) xs line)"

lemma inserted_checks:
  "insert_pydevd_breaks (fs_py310 fs) (fs_from_code fs) (fs_to_code fs) c lines li = Some c' \<Longrightarrow>
   code_with_checks fs c lines lines c'"
  unfolding code_with_checks_def by (drule inserted_breaks_cover) blast

lemma code_with_checks_mono:
  "code_with_checks fs c lines allowed c' \<Longrightarrow> lines' \<subseteq> lines \<Longrightarrow> allowed \<subseteq> allowed' \<Longrightarrow>
   code_with_checks fs c lines' allowed' c'"
  unfolding code_with_checks_def using checks_inserted_mono by blast

text \<open>The bytecode package gives every line of the table of the code to an instruction.\<close>

definition keeps_lines :: "fservices \<Rightarrow> code \<Rightarrow> code_line_info \<Rightarrow> bool" where
  "keeps_lines fs c li \<longleftrightarrow>
     (case fs_from_code fs c of None \<Rightarrow> True
      | Some xs \<Rightarrow> \<forall>line \<in> fst ` set (line_to_offset li). Some line \<in> instr_lineno ` set xs)"

lemma kept_lines_checked:
  assumes "keeps_lines fs c li" and "code_with_checks fs c lines allowed c'" and "lines \<subseteq> fst ` set (line_to_offset li)"
  shows "lines_checked fs c lines"
  using assms lines_of_code_checked
  unfolding keeps_lines_def lines_checked_def code_with_checks_def checks_inserted_def by (fastforce split: option.splits)

lemma fe_breakpoints_run:
  assumes "fe_cache s (code_key c) = None" and "fe_get_code_line_info c = Inr li"
    and "function_breakpoint_name_to_breakpoint (w_dbg (fe_w s)) (co_name c) = None"
    and "breakpoints (w_dbg (fe_w s)) (fx_canonical_normalized_filename x) = Some bps"
    and "\<forall>l \<in> fst ` set bps. INT_MIN \<le> l \<and> l \<le> INT_MAX"
    and "line \<in> fst ` set bps" and "line \<in> fst ` set (line_to_offset li)"
  shows "\<exists>new cache. fe_breakpoints fs me c x s =
      (Inr (x \<lparr> fx_new_code := new, fx_breakpoint_found := True \<rparr>), s \<lparr> fe_cache := cache \<rparr>) \<and>
    (\<forall>c'. new = Some c' \<longrightarrow> (let lines = fst ` set bps \<inter> fst ` set (line_to_offset li) in code_with_checks fs c lines lines c'))"
proof -
  obtain hit where hit: "lines_hit (map fst bps) (line_to_offset li) = Inr hit"
    using lines_hit_total [of "map fst bps"] assms(5) by auto
  have lines: "set hit = fst ` set bps \<inter> fst ` set (line_to_offset li)" using lines_hit_set [OF hit] by simp
  then have "hit \<noteq> []" using assms(6,7) by auto
  note gen = generate_code_run [OF assms(1,2) hit this, of fs]
  have "bps \<noteq> []" using assms(6) by auto
  then have run: "fe_breakpoints fs me c x s =
      (py_bind (generate_code_with_breakpoints fs c bps) (\<lambda>(found, new_code).
         py_ret (x \<lparr> fx_new_code := new_code, fx_breakpoint_found := found \<rparr>))) s"
    using assms(1,3,4) by (simp add: fe_breakpoints_def add_checks_def py_bind_app py_gets_app Let_def split: list.split)
  show ?thesis
  proof (cases "insert_pydevd_breaks (fs_py310 fs) (fs_from_code fs) (fs_to_code fs) c (set hit) li")
    case None
    then have "fe_breakpoints fs me c x s = (Inr (x \<lparr> fx_new_code := None, fx_breakpoint_found := True \<rparr>), s \<lparr> fe_cache := fe_cache s \<rparr>)"
      using run gen by (simp add: py_bind_app py_ret_app)
    then show ?thesis by blast
  next
    case (Some c')
    then show ?thesis using run gen inserted_checks [OF Some] lines by (auto simp: py_bind_app py_ret_app)
  qed
qed

lemma use_code_info_found:
  assumes "fe_tls s me = Some ti" and "fi_thread_trace_func ti = Some tf" and "\<not> fi_force_stay_in_untraced_mode ti"
    and "\<not> fx_always_skip_code x" and "fx_breakpoint_found x"
    and "\<not> has_plugin_line_breaks (w_dbg (fe_w s))" and "\<not> has_plugin_exception_breaks (w_dbg (fe_w s))"
  shows "\<exists>s'. use_code_info fs me frame x s = (Inr (), s') \<and>
    (case fx_new_code x of
       None \<Rightarrow> fe_f_trace s' (f_id frame) = Some (ThreadTraceFunc tf)
     | Some c \<Rightarrow> fe_f_code s' (f_id frame) = Some c \<and> f_id frame \<in> fe_globals s')"
  using assms
  by (cases "fx_new_code x") (simp_all add: use_code_info_def plugin_can_skip_def trace_frame_def update_globals_dict_def
      switch_code_def get_db_def py_bind_app py_then_app py_ret_app py_gets_app py_modify_app)

text \<open>C3. 
  A frame of user code with a breakpoint on one of its lines, whose information has to be computed, is traced or
  runs new code. The new code has the instructions of the original, and wherever they enter a line with a breakpoint a check:
  instructions that ask whether to stop at the line, stop when the answer is yes and leave the stack as it was, so that the
  program goes to the line again after the stop. It has no other instructions; every line with a breakpoint is entered (but for
  one that has only instructions which the interpreter predicts), and the globals of the frame have what the checks need.
\<close>

theorem frame_eval_breakpoint:
  assumes "looked_at me info tf frame s" and "user_file fs s frame" and "\<not> has_plugin_line_breaks (w_dbg (fe_w s))"
    and "stale_extra s (code_of s frame)" and "fe_cache s (code_key (code_of s frame)) = None"
    and "int_as_cint (m_mtime (fe_m s)) = Inr mt"
    and "function_breakpoint_name_to_breakpoint (w_dbg (fe_w s)) (co_name (code_of s frame)) = None"
    and "breakpoints (w_dbg (fe_w s)) (fst (snd (sv_abs_path (ms_sv (fs_ms fs)) frame))) = Some bps"
    and "\<forall>l \<in> fst ` set bps. INT_MIN \<le> l \<and> l \<le> INT_MAX"
    and "fe_get_code_line_info (code_of s frame) = Inr li"
    and "line \<in> fst ` set bps" and "line \<in> fst ` set (line_to_offset li)" and "keeps_lines fs (code_of s frame) li"
  shows "(case get_bytecode_while_frame_eval fs me frame False s of (r, s') \<Rightarrow>
    r = Inr RunUnmarked \<and>
    (fe_f_trace s' (f_id frame) = Some (ThreadTraceFunc tf) \<or>
     (let c = code_of s frame; lines = fst ` set bps \<inter> fst ` set (line_to_offset li) in
      \<exists>c'. fe_f_code s' (f_id frame) = Some c' \<and> f_id frame \<in> fe_globals s' \<and>
        code_with_checks fs c lines lines c' \<and> lines_checked fs c lines)))"
proof -
  let ?lines = "fst ` set bps \<inter> fst ` set (line_to_offset li)"
  let ?c = "code_of s frame" and ?w = "at_work me info s"
  let ?x = "fe_named_info ?c (sv_abs_path (ms_sv (fs_ms fs)) frame) mt"
  obtain ti where ti: "fe_tls s me = Some ti" "fi_thread_trace_func ti = Some tf"
    using assms(1) by (auto simp: looked_at_def split: option.splits)
  have noplugin: "\<not> has_plugin_exception_breaks (w_dbg (fe_w s))"
    using assms(1) by (auto simp: looked_at_def must_trace_def has_exception_breakpoints_def)
  obtain s1 where run: "fe_get_func_code_info fs me frame ?c ?w =
      py_bind (fe_breakpoints fs me ?c ?x) (\<lambda>x. py_then (set_extra ?c x) (py_ret x)) s1"
    and s1: "fe_w s1 = fe_w ?w" "fe_cache s1 = fe_cache s"
      "fe_tls s1 me = map_option (\<lambda>ti. ti \<lparr> fi_force_stay_in_untraced_mode := False \<rparr>) (fe_tls ?w me)"
    using fe_build_user_code [of fs ?w frame mt me, unfolded at_work_code, OF at_work_user_file _ at_work_stale] assms(1,2,4,6)
    by (auto simp: looked_at_def)
  obtain new cache where bp: "fe_breakpoints fs me ?c ?x s1 =
      (Inr (?x \<lparr> fx_new_code := new, fx_breakpoint_found := True \<rparr>), s1 \<lparr> fe_cache := cache \<rparr>)"
    and new: "\<forall>c'. new = Some c' \<longrightarrow> code_with_checks fs ?c ?lines ?lines c'"
    using fe_breakpoints_run [of s1 ?c li ?x bps line fs me] assms(5,7-12) s1 by (auto simp: fe_named_info_def)
  let ?x' = "?x \<lparr> fx_new_code := new, fx_breakpoint_found := True \<rparr>"
  obtain s2 where info: "fe_get_func_code_info fs me frame ?c ?w = (Inr ?x', s2)"
    and s2: "fe_tls s2 = fe_tls s1" "fe_w s2 = fe_w s1"
    using bp run by (simp add: py_bind_app py_then_app py_ret_app py_modify_app set_extra_def)
  obtain s3 where "use_code_info fs me frame ?x' s2 = (Inr (), s3)"
    and s3: "case new of
       None \<Rightarrow> fe_f_trace s3 (f_id frame) = Some (ThreadTraceFunc tf)
     | Some c \<Rightarrow> fe_f_code s3 (f_id frame) = Some c \<and> f_id frame \<in> fe_globals s3"
    using use_code_info_found [of s2 me _ tf ?x' fs frame] s1 s2 ti assms(3) noplugin
    by (auto simp: fe_named_info_def new_fe_code_info_def)
  with info have "py_bind (fe_get_func_code_info fs me frame ?c) (use_code_info fs me frame) ?w = (Inr (), s3)"
    by (simp add: py_bind_app)
  from frame_eval_looked_at [OF assms(1) this] s3 new kept_lines_checked [OF assms(13)] show ?thesis
    by (auto simp: Let_def split: option.splits)
qed

section \<open>Code with checks runs again\<close>

lemma generated_code_cached:
  assumes "generate_code_with_breakpoints fs c bps s = (Inr (True, Some c'), s1)"
  obtains li hit where "fe_get_code_line_info c = Inr li" and "fe_cache s1 (code_key c') = Some (new_CacheValue c' li hit)"
    and "checked_code fs c hit c'"
proof -
  obtain li hit where fresh: "fe_cache s (code_key c) = None" and li: "fe_get_code_line_info c = Inr li"
    and hit: "lines_hit (map fst bps) (line_to_offset li) = Inr hit" "hit \<noteq> []"
    using assms by (auto simp: generate_code_with_breakpoints_def py_simps split: if_splits sum.splits option.splits)
  with assms have "insert_pydevd_breaks (fs_py310 fs) (fs_from_code fs) (fs_to_code fs) c (set hit) li = Some c'"
    "fe_cache s1 (code_key c') = Some (new_CacheValue c' li (set hit))"
    using generate_code_run [OF fresh li hit, of fs] by (auto split: option.splits)
  then show ?thesis using that [OF li] code_with_checks_mono [OF inserted_checks order_refl subset_UNIV] by blast
qed

lemma force_stay_checked:
  assumes "compute_force_stay (new_CacheValue c' li hit) (Some bps) = Inr (found, True)" and "checked_code fs c hit c'"
  shows "checked_code fs c (fst ` set bps \<inter> fst ` set (line_to_offset li)) c'"
proof -
  have "fst ` set bps \<inter> fst ` set (line_to_offset li) \<subseteq> hit"
    using assms(1) by (auto simp: compute_force_stay_def new_CacheValue_def Let_def split: if_splits)
  with assms(2) show ?thesis by (rule code_with_checks_mono) simp
qed

text \<open>C20. 
  When code with checks runs again, as that of a generator does, the evaluator stays out of the way only if the code has a check
  at every line of it that has a breakpoint now.
\<close>

theorem resumed_code_stays_checked:
  assumes "generate_code_with_breakpoints fs c bps s = (Inr (True, Some c'), s1)"
    and "fe_cache s2 (code_key c') = fe_cache s1 (code_key c')"
    and "fe_breakpoints fs me c' x s2 = (Inr x', s3)"
    and "breakpoints (w_dbg (fe_w s2)) (fx_canonical_normalized_filename x) = Some bps'"
    and "fe_tls s3 me = Some ti" and "fi_force_stay_in_untraced_mode ti"
  shows "fx_new_code x' = None \<and>
    (\<exists>li. fe_get_code_line_info c = Inr li \<and> checked_code fs c (fst ` set bps' \<inter> fst ` set (line_to_offset li)) c')"
proof -
  obtain li hit where li: "fe_get_code_line_info c = Inr li" "checked_code fs c hit c'"
    and cached: "fe_cache s2 (code_key c') = Some (new_CacheValue c' li hit)"
    using generated_code_cached [OF assms(1)] assms(2) by metis
  obtain found force where stay: "compute_force_stay (new_CacheValue c' li hit) (Some bps') = Inr (found, force)"
    by (auto simp: compute_force_stay_def Let_def)
  with assms(3-6) cached have "force" "fx_new_code x' = None"
    by (auto simp: fe_breakpoints_def reuse_checked_code_def py_bind_app py_then_app py_gets_app py_lift_app py_ret_app Let_def)
  with stay force_stay_checked [OF _ li(2)] li(1) show ?thesis by auto
qed

text \<open>Code whose lines have no breakpoint now is left alone.\<close>

lemma use_code_info_not_found:
  assumes "fe_tls s me = Some ti" and "\<not> fx_always_skip_code x" and "\<not> fx_breakpoint_found x"
    and "\<not> has_plugin_line_breaks (w_dbg (fe_w s))" and "\<not> has_plugin_exception_breaks (w_dbg (fe_w s))"
  shows "use_code_info fs me frame x s = (Inr (), s)"
  using assms by (simp add: use_code_info_def plugin_can_skip_def get_db_def py_bind_app py_then_app py_ret_app py_gets_app)

lemma reuse_checked_code_run:
  assumes "fe_cache s (code_key c) = Some cv" and "fe_tls s me = Some ti"
  shows "fe_breakpoints fs me c x s =
    (case breakpoints (w_dbg (fe_w s)) (fx_canonical_normalized_filename x) of
       None \<Rightarrow> (Inl TypeError, s)
     | Some bps \<Rightarrow>
         (let lines = fst ` set bps; found = cv_code_lines cv \<inter> lines \<noteq> {} in
          (Inr (x \<lparr> fx_new_code := None, fx_breakpoint_found := found \<rparr>),
           snd (upd_ti me (\<lambda>ti. ti \<lparr> fi_force_stay_in_untraced_mode :=
             (found \<longrightarrow> lines \<subseteq> cv_breakpoints_hit_at_lines cv) \<rparr>) s))))"
  using assms by (cases "breakpoints (w_dbg (fe_w s)) (fx_canonical_normalized_filename x)")
    (simp_all add: fe_breakpoints_def reuse_checked_code_def compute_force_stay_def upd_ti_def py_bind_app py_then_app py_gets_app
      py_lift_app py_ret_app py_modify_app Let_def)

text \<open>C40. 
  Code with checks that runs again after breakpoints were removed. When the file has no entry for its breakpoints any more, which
  is how they are cleared all at once, the run raises \<^verbatim>\<open>TypeError\<close> in the frame of the program. When the entry is there
  but none of its lines is one of the code, as after the removal of single breakpoints, the frame runs without being traced
  or given other code.
\<close>

theorem removed_breakpoints_raise:
  assumes "looked_at me info tf frame s" and "user_file fs s frame" and "stale_extra s (code_of s frame)"
    and "fe_cache s (code_key (code_of s frame)) = Some cv" and "int_as_cint (m_mtime (fe_m s)) = Inr mt"
    and "\<not> has_plugin_line_breaks (w_dbg (fe_w s))"
  shows "(case get_bytecode_while_frame_eval fs me frame False s of (r, s') \<Rightarrow>
    case breakpoints (w_dbg (fe_w s)) (fst (snd (sv_abs_path (ms_sv (fs_ms fs)) frame))) of
      None \<Rightarrow> r = Inl TypeError
    | Some bps \<Rightarrow> cv_code_lines cv \<inter> fst ` set bps = {} \<longrightarrow>
        r = Inr RunUnmarked \<and> fe_f_trace s' = fe_f_trace s \<and> fe_f_code s' = fe_f_code s)"
proof -
  let ?c = "code_of s frame" and ?w = "at_work me info s"
  let ?x = "fe_named_info ?c (sv_abs_path (ms_sv (fs_ms fs)) frame) mt"
  let ?bps = "breakpoints (w_dbg (fe_w s)) (fst (snd (sv_abs_path (ms_sv (fs_ms fs)) frame)))"
  obtain ti where ti: "fe_tls s me = Some ti" using assms(1) by (auto simp: looked_at_def split: option.splits)
  have noplugin: "\<not> has_plugin_exception_breaks (w_dbg (fe_w s))"
    using assms(1) by (auto simp: looked_at_def must_trace_def has_exception_breakpoints_def)
  obtain s1 where run: "fe_get_func_code_info fs me frame ?c ?w =
      py_bind (fe_breakpoints fs me ?c ?x) (\<lambda>x. py_then (set_extra ?c x) (py_ret x)) s1"
    and s1: "fe_w s1 = fe_w ?w" "fe_cache s1 = fe_cache s" "fe_f_code s1 = fe_f_code s" "fe_f_trace s1 = fe_f_trace s"
      "fe_tls s1 me = map_option (\<lambda>ti. ti \<lparr> fi_force_stay_in_untraced_mode := False \<rparr>) (fe_tls ?w me)"
    using fe_build_user_code [of fs ?w frame mt me, unfolded at_work_code, OF at_work_user_file _ at_work_stale] assms(1,2,3,5)
    by (auto simp: looked_at_def)
  obtain ti1 where ti1: "fe_tls s1 me = Some ti1" using s1(5) ti by auto
  have name: "fx_canonical_normalized_filename ?x = fst (snd (sv_abs_path (ms_sv (fs_ms fs)) frame))"
    by (simp add: fe_named_info_def)
  have "fe_cache s1 (code_key ?c) = Some cv" using assms(4) s1(2) by simp
  note reuse = reuse_checked_code_run [OF this ti1, of fs ?x, unfolded name]
  show ?thesis
  proof (cases ?bps)
    case None
    with reuse s1(1) have "fe_breakpoints fs me ?c ?x s1 = (Inl TypeError, s1)" by simp
    with run have "py_bind (fe_get_func_code_info fs me frame ?c) (use_code_info fs me frame) ?w = (Inl TypeError, s1)"
      by (simp add: py_bind_app)
    from frame_eval_looked_at [OF assms(1) this] None show ?thesis by simp
  next
    case (Some bps)
    show ?thesis
    proof (cases "cv_code_lines cv \<inter> fst ` set bps = {}")
      case True
      let ?x' = "?x \<lparr> fx_new_code := None, fx_breakpoint_found := False \<rparr>"
      obtain s2 where info: "fe_get_func_code_info fs me frame ?c ?w = (Inr ?x', s2)"
        and s2: "fe_w s2 = fe_w s1" "fe_f_code s2 = fe_f_code s1" "fe_f_trace s2 = fe_f_trace s1" "fe_tls s2 me \<noteq> None"
        using reuse Some True run s1(1) ti1
        by (simp add: py_bind_app py_then_app py_ret_app py_modify_app set_extra_def upd_ti_def Let_def)
      then obtain ti2 where "fe_tls s2 me = Some ti2" by auto
      then have "use_code_info fs me frame ?x' s2 = (Inr (), s2)"
        using use_code_info_not_found s1(1) s2(1) assms(6) noplugin
        by (simp add: fe_named_info_def new_fe_code_info_def)
      with info have "py_bind (fe_get_func_code_info fs me frame ?c) (use_code_info fs me frame) ?w = (Inr (), s2)"
        by (simp add: py_bind_app)
      from frame_eval_looked_at [OF assms(1) this] Some s1 s2 show ?thesis
        by (simp add: fe_leave_def set_is_tracing_def upd_ti_def py_simps split: prod.splits)
    qed (use Some in \<open>simp split: prod.splits\<close>)
  qed
qed

text \<open>The information of the code is used again while the breakpoints are the same, but not that it need not be traced: a
  generator with all of its checks is traced from its second resumption on.\<close>

lemma second_resumption_traced:
  assumes "looked_at me info tf frame s" and "fe_code_extra_index s \<noteq> -1" and "fe_extra s (code_of s frame) = Some x"
    and "sint (fx_breakpoints_mtime x) = m_mtime (fe_m s)" and "\<not> fx_always_skip_code x" and "fx_breakpoint_found x"
    and "fx_new_code x = None" and "\<not> has_plugin_line_breaks (w_dbg (fe_w s))"
  shows "fe_f_trace (snd (get_bytecode_while_frame_eval fs me frame False s)) (f_id frame) = Some (ThreadTraceFunc tf)"
proof -
  let ?c = "code_of s frame" and ?w = "at_work me info s"
  obtain ti where ti: "fe_tls s me = Some ti" "fi_thread_trace_func ti = Some tf"
    using assms(1) by (auto simp: looked_at_def split: option.splits)
  have noplugin: "\<not> has_plugin_exception_breaks (w_dbg (fe_w s))"
    using assms(1) by (auto simp: looked_at_def must_trace_def has_exception_breakpoints_def)
  let ?w1 = "snd (upd_ti me (\<lambda>ti. ti \<lparr> fi_force_stay_in_untraced_mode := False \<rparr>) ?w)"
  have info: "fe_get_func_code_info fs me frame ?c ?w = (Inr x, ?w1)"
    using assms(1-4) by (auto simp: fe_get_func_code_info_def get_extra_def looked_at_def py_bind_app py_then_app py_gets_app py_ret_app)
  obtain s3 where "use_code_info fs me frame x ?w1 = (Inr (), s3)"
    and s3: "fe_f_trace s3 (f_id frame) = Some (ThreadTraceFunc tf)"
    using use_code_info_found [of ?w1 me _ tf x fs frame] ti assms(5-8) noplugin by auto
  with info have "py_bind (fe_get_func_code_info fs me frame ?c) (use_code_info fs me frame) ?w = (Inr (), s3)"
    by (simp add: py_bind_app)
  from frame_eval_looked_at [OF assms(1) this] s3 show ?thesis by simp
qed

section \<open>The checks\<close>

lemma checked_info_run:
  assumes "active (w_reg (fe_w s)) me = Some t" and "t_additional_info (threads (w_reg (fe_w s)) t) = Some i"
  shows "checked_info fs me s = (Inr i, s)"
  using assms by (simp add: checked_info_def mon_current_thread_def ensure_info_def on_registry_def set_additional_thread_info_def
      py_simps py_zoom_app Let_def)

lemma while_tracing_run:
  assumes "is_tracing (infos (w_reg (fe_w s)) i) = 0"
  shows "while_tracing i r m s =
    py_finally m (on_fw (py_modify (leave_tracing i))) (snd (on_fw (py_modify (enter_tracing i)) s))"
  using assms by (simp add: while_tracing_def get_info_def py_bind_app py_then_app py_gets_app py_modify_app)

lemma enter_tracing_view [simp]:
  "w_dbg (enter_tracing i w) = w_dbg w" "w_ftrace (enter_tracing i w) = w_ftrace w"
  "global_debugger (w_reg (enter_tracing i w)) = global_debugger (w_reg w)"
  by (simp_all add: enter_tracing_def upd_info_def)

lemma needs_stop_run:
  assumes "active (w_reg (fe_w s)) me = Some t" and "t_additional_info (threads (w_reg (fe_w s)) t) = Some i"
    and "is_tracing (infos (w_reg (fe_w s)) i) = 0" and "global_debugger (w_reg (fe_w s)) \<noteq> None"
  shows "pydev_needs_stop_at_break fs me frame line s =
      (Inr (fe_f_trace s (f_id frame) = None \<and> w_ftrace (fe_w s) (f_id frame) = None \<and>
         (\<exists>bps. breakpoints (w_dbg (fe_w s)) (fst (snd (sv_abs_path (ms_sv (fs_ms fs)) frame))) = Some bps \<and>
            line \<in> fst ` set bps)), s)"
  using assms(4)
  by (auto simp: pydev_needs_stop_at_break_def py_bind_app checked_info_run [OF assms(1,2)] while_tracing_run [OF assms(3)]
      py_finally_app py_modify_app f_trace_def py_gets_app py_ret_app map_of_eq_None_iff split: option.splits)

lemma stop_at_break_run:
  assumes "active (w_reg (fe_w s)) me = Some t" and "t_additional_info (threads (w_reg (fe_w s)) t) = Some i"
    and "is_tracing (infos (w_reg (fe_w s)) i) = 0" and "global_debugger (w_reg (fe_w s)) \<noteq> None"
    and "fe_tls s me = Some ti" and "fi_thread_trace_func ti = Some tf"
  shows "(case pydev_stop_at_break fs me frame line s of (r, s') \<Rightarrow>
      r = Inr () \<and> fe_f_trace s' (f_id frame) = Some (ThreadTraceFunc tf) \<and>
      trace_suspend_type (infos (w_reg (fe_w s')) i) = Some ''frame_eval'' \<and> is_tracing (infos (w_reg (fe_w s')) i) = 0)"
  using assms(3-6)
  by (auto simp: pydev_stop_at_break_def py_bind_app checked_info_run [OF assms(1,2)] while_tracing_run [OF assms(3)]
      py_finally_app py_modify_app py_gets_app py_ret_app py_then_app known_thread_info set_info_def on_registry_def py_zoom_app
      leave_tracing_def enter_tracing_def upd_info_def)

text \<open>C21. 
  The check asks for a stop exactly when the frame is not traced and its line has a breakpoint now, and it changes nothing. The stop
  that it asks for traces the frame with the trace function of the thread, so that the line event that follows stops there.
\<close>

theorem check_starts_tracing:
  assumes "active (w_reg (fe_w s)) me = Some t" and "t_additional_info (threads (w_reg (fe_w s)) t) = Some i"
    and "is_tracing (infos (w_reg (fe_w s)) i) = 0" and "global_debugger (w_reg (fe_w s)) \<noteq> None"
    and "fe_tls s me = Some ti" and "fi_thread_trace_func ti = Some tf"
  shows "pydev_needs_stop_at_break fs me frame line s =
      (Inr (fe_f_trace s (f_id frame) = None \<and> w_ftrace (fe_w s) (f_id frame) = None \<and>
         (\<exists>bps. breakpoints (w_dbg (fe_w s)) (fst (snd (sv_abs_path (ms_sv (fs_ms fs)) frame))) = Some bps \<and>
            line \<in> fst ` set bps)), s) \<and>
    (case pydev_stop_at_break fs me frame line s of (r, s') \<Rightarrow>
      r = Inr () \<and> fe_f_trace s' (f_id frame) = Some (ThreadTraceFunc tf) \<and>
      trace_suspend_type (infos (w_reg (fe_w s')) i) = Some ''frame_eval'' \<and> is_tracing (infos (w_reg (fe_w s')) i) = 0)"
  by (intro conjI needs_stop_run [OF assms(1-4)] stop_at_break_run [OF assms])

text \<open>The information object that the frame evaluator gives to a thread is not registered and does not know its thread.\<close>

lemma frame_eval_info_unregistered:
  assumes "reg_ok r" and "t_additional_info (threads r t) = None"
  shows "case attach_new_info t r of (i, r') \<Rightarrow>
    t_additional_info (threads r' t) = Some i \<and> i \<notin> set (all_infos r') \<and> weak_thread (infos r' i) = None"
  using assms by (auto simp: attach_new_info_def reg_ok_def Let_def upd_thread_def PyDBAdditionalThreadInfo_def init_info_def tp_new_info_def)

section \<open>A session\<close>

text \<open>The session of the other backends with the frame evaluator, for a function with instructions on its lines 1 and 2.\<close>

definition fe_code :: code where
  "fe_code = (demo_code ''a.py'' ''f'') \<lparr> co_linestarts := [(0, Some 1), (2, Some 2)] \<rparr>"

definition fe_frame :: frame where
  "fe_frame = Frame 1 fe_code (Some main_frame)"

definition demo_fs :: fservices where
  "demo_fs = \<lparr> fs_ms = with_services plain_services, fs_py310 = False, fs_py39 = False,
     fs_from_code = (\<lambda>c. Some [Instr ''NOP'' NoOperand (Some 1), Instr ''NOP'' NoOperand (Some 2)]),
     fs_to_code = (\<lambda>c ys. Some (c \<lparr> co_body := [length ys] \<rparr>)), fs_code_extra_index = 0,
     fs_thread_local_trace_func = (\<lambda>me. ThreadTraceFunc NO_FTRACE) \<rparr>"

definition demo_fi :: fe_thread_info where
  "demo_fi = \<lparr> fi_additional_info = Some 0, fi_is_pydevd_thread = False, fi_inside_frame_eval = 0,
     fi_fully_initialized = True, fi_thread_trace_func = Some (ThreadTracerCall 0),
     fi_can_create_dummy_thread = False, fi_force_stay_in_untraced_mode = False \<rparr>"

definition demo_fe :: "(pydb \<Rightarrow> pydb) \<Rightarrow> (code_key \<rightharpoonup> cache_value) \<Rightarrow> fe" where
  "demo_fe g cache = \<lparr> fe_m = mon_with g id, fe_tls = (\<lambda>_. Some demo_fi), fe_code_extra_index = 0, fe_extra = Map.empty,
     fe_cache = cache, fe_f_code = Map.empty, fe_f_trace = Map.empty, fe_globals = {}, fe_settrace = {},
     fe_eval_frame = FrameEval38, fe_dummy_trace_func = True, fe_signature_factory = False, fe_shutdown = False \<rparr>"

definition fe_lines :: code_line_info where
  "fe_lines = \<lparr> line_to_offset = [(1, 0), (2, 2)], first_line = 1, last_line = 2 \<rparr>"

lemma demo_fe_fields [simp]:
  "fe_m (demo_fe g cache) = mon_with g id" "fe_tls (demo_fe g cache) = (\<lambda>_. Some demo_fi)"
  "fe_code_extra_index (demo_fe g cache) = 0" "fe_extra (demo_fe g cache) = Map.empty" "fe_cache (demo_fe g cache) = cache"
  "fe_f_code (demo_fe g cache) = Map.empty" "fe_f_trace (demo_fe g cache) = Map.empty" "fe_globals (demo_fe g cache) = {}"
  "fe_shutdown (demo_fe g cache) = False" "fe_signature_factory (demo_fe g cache) = False"
  by (simp_all add: demo_fe_def)

lemma demo_fs_fields [simp]: "fs_ms demo_fs = with_services plain_services"
  by (simp add: demo_fs_def)

lemma fe_frame_fields [simp]: "f_id fe_frame = 1" "f_code fe_frame = fe_code" "f_back fe_frame = Some main_frame"
  by (simp_all add: fe_frame_def)

lemma fe_code_fields [simp]: "co_filename fe_code = ''a.py''" "co_name fe_code = ''f''"
  by (simp_all add: fe_code_def)

lemma demo_code_of [simp]: "code_of (demo_fe g cache) fe_frame = fe_code"
  by (simp add: code_of_def)

lemma demo_looked_at: "looked_at 1 0 (ThreadTracerCall 0) fe_frame (demo_fe demo_breaks cache)"
  by (simp add: looked_at_def demo_fi_def must_trace_def has_exception_breakpoints_def demo_breaks_def)

lemma demo_active [simp]:
  "active (w_reg (m_w (mon_with g h))) 1 = Some (Suc 0)" "w_ftrace (m_w (mon_with g h)) = Map.empty"
  by (simp_all add: mon_with_def with_db_def with_info_def upd_info_def two_threads_run boot_registry_def)

lemma demo_user_file: "user_file demo_fs (demo_fe g cache) fe_frame"
  by (simp add: user_file_def)

lemma demo_stale: "stale_extra (demo_fe g cache) c"
  by (simp add: stale_extra_def)

lemma fe_code_lines: "fe_get_code_line_info fe_code = Inr fe_lines"
  by (simp add: fe_get_code_line_info_def fe_code_def opt_as_cint_def int_as_cint_def INT_MIN_def INT_MAX_def Let_def fe_lines_def)

lemma demo_keeps_lines: "keeps_lines demo_fs fe_code fe_lines"
  by (simp add: keeps_lines_def demo_fs_def fe_lines_def)

section \<open>Witnesses\<close>


theorem frame_eval_breakpoint_witness:
  "fst (get_bytecode_while_frame_eval demo_fs 1 fe_frame False (demo_fe demo_breaks Map.empty)) = Inr RunUnmarked \<and>
   (case snd (get_bytecode_while_frame_eval demo_fs 1 fe_frame False (demo_fe demo_breaks Map.empty)) of s' \<Rightarrow>
     fe_f_trace s' 1 = Some (ThreadTraceFunc (ThreadTracerCall 0)) \<or>
     (\<exists>c'. fe_f_code s' 1 = Some c' \<and> 1 \<in> fe_globals s' \<and> code_with_checks demo_fs fe_code {2} {2} c' \<and>
        lines_checked demo_fs fe_code {2}))"
  using demo_keeps_lines
    frame_eval_breakpoint [OF demo_looked_at demo_user_file _ demo_stale, of Map.empty 5 "[(2, demo_breakpoint), (9, demo_breakpoint)]" fe_lines 2]
  by (simp add: demo_breaks_def fe_code_lines fe_lines_def INT_MIN_def INT_MAX_def int_as_cint_def Let_def split: prod.splits)

theorem removed_breakpoints_raise_witness:
  "fst (get_bytecode_while_frame_eval demo_fs 1 fe_frame False
     (demo_fe (\<lambda>db. db) [code_key fe_code \<mapsto> new_CacheValue fe_code fe_lines {2}])) = Inl TypeError \<and>
   fst (get_bytecode_while_frame_eval demo_fs 1 fe_frame False
     (demo_fe (\<lambda>db. db \<lparr> breakpoints := [''a.py'' \<mapsto> []] \<rparr>) [code_key fe_code \<mapsto> new_CacheValue fe_code fe_lines {2}])) =
     Inr RunUnmarked"
proof -
  have looked: "looked_at 1 0 (ThreadTracerCall 0) fe_frame (demo_fe (\<lambda>db. db) cache)"
    "looked_at 1 0 (ThreadTracerCall 0) fe_frame (demo_fe (\<lambda>db. db \<lparr> breakpoints := [''a.py'' \<mapsto> []] \<rparr>) cache)" for cache
    by (simp_all add: looked_at_def demo_fi_def must_trace_def has_exception_breakpoints_def)
  show ?thesis
    using removed_breakpoints_raise [OF looked(1) demo_user_file demo_stale, of "[code_key fe_code \<mapsto> new_CacheValue fe_code fe_lines {2}]"
        "new_CacheValue fe_code fe_lines {2}" 5]
      removed_breakpoints_raise [OF looked(2) demo_user_file demo_stale, of "[code_key fe_code \<mapsto> new_CacheValue fe_code fe_lines {2}]"
        "new_CacheValue fe_code fe_lines {2}" 5]
    by (auto simp: int_as_cint_def INT_MIN_def INT_MAX_def split: prod.splits)
qed

theorem check_starts_tracing_witness:
  "fst (pydev_needs_stop_at_break demo_fs 1 fe_frame 2 (demo_fe demo_breaks Map.empty)) = Inr True \<and>
   fst (pydev_needs_stop_at_break demo_fs 1 fe_frame 1 (demo_fe demo_breaks Map.empty)) = Inr False"
  using check_starts_tracing [of "demo_fe demo_breaks Map.empty" 1 1 0 demo_fi "ThreadTracerCall 0" demo_fs fe_frame 2]
    check_starts_tracing [of "demo_fe demo_breaks Map.empty" 1 1 0 demo_fi "ThreadTracerCall 0" demo_fs fe_frame 1]
  by (simp add: demo_breaks_def demo_fi_def)

text \<open>The generator of the session, which runs its code with a check at line 2 again.\<close>

theorem resumed_code_stays_checked_witness:
  "checked_code demo_fs fe_code {2} (fe_code \<lparr> co_body := [12] \<rparr>)"
proof -
  let ?db = "\<lambda>db. db \<lparr> breakpoints := [''a.py'' \<mapsto> [(2, demo_breakpoint)]] \<rparr>"
  let ?c = "fe_code \<lparr> co_body := [12] \<rparr>" and ?x = "new_fe_code_info \<lparr> fx_canonical_normalized_filename := ''a.py'' \<rparr>"
  let ?cv = "new_CacheValue ?c fe_lines {2}"
  let ?s1 = "demo_fe ?db [code_key ?c \<mapsto> ?cv]"
  have "lines_hit [2] (line_to_offset fe_lines) = Inr [2]"
    by (simp add: fe_lines_def int_as_cint_def INT_MIN_def INT_MAX_def)
  moreover have "insert_pydevd_breaks (fs_py310 demo_fs) (fs_from_code demo_fs) (fs_to_code demo_fs) fe_code {2} fe_lines = Some ?c"
    by (simp add: insert_pydevd_breaks_def demo_fs_def fe_lines_def skips_line_def get_instructions_to_add_def Let_def)
  ultimately have gen: "generate_code_with_breakpoints demo_fs fe_code [(2, demo_breakpoint)] (demo_fe ?db Map.empty) =
      (Inr (True, Some ?c), ?s1)"
    using generate_code_run [of "demo_fe ?db Map.empty" fe_code fe_lines "[(2, demo_breakpoint)]" "[2]" demo_fs]
    by (simp add: fe_code_lines demo_fe_def)
  have "fe_breakpoints demo_fs 1 ?c ?x ?s1 = (Inr (?x \<lparr> fx_new_code := None, fx_breakpoint_found := True \<rparr>),
      snd (upd_ti 1 (\<lambda>ti. ti \<lparr> fi_force_stay_in_untraced_mode := True \<rparr>) ?s1))"
    by (simp add: fe_breakpoints_def reuse_checked_code_def py_simps Let_def compute_force_stay_def new_CacheValue_def fe_lines_def)
  from resumed_code_stays_checked [OF gen _ this, of "[(2, demo_breakpoint)]" "demo_fi \<lparr> fi_force_stay_in_untraced_mode := True \<rparr>"]
  show ?thesis
    by (simp add: fe_code_lines fe_lines_def new_fe_code_info_def)
qed

end
