(* ===== verification/FrameEvalInstall.thy ===== *)
theory FrameEvalInstall
  imports FrameEvalProps
begin

text \<open>
  The frame evaluator as the interpreter calls it: the two generated functions \<^verbatim>\<open>get_bytecode_while_frame_eval_38\<close> and
  \<^verbatim>\<open>get_bytecode_while_frame_eval_39\<close>, which are the same but for the call of the default evaluation at every one of their exits, and the function that is installed.
  The macros \<^verbatim>\<open>CALL_EvalFrameDefault_38\<close> and \<^verbatim>\<open>CALL_EvalFrameDefault_39\<close> do nothing in the wrong version of Python: the frame would not run at all.
\<close>

text \<open>How a frame is left: by the default evaluation, as the evaluator left the thread, or without having run.\<close>

datatype frame_run = Ran evaluated | NotRun

definition CALL_EvalFrameDefault_38 :: "fservices \<Rightarrow> evaluated \<Rightarrow> frame_run" where
  "CALL_EvalFrameDefault_38 fs r = (if fs_py39 fs then NotRun else Ran r)"

definition CALL_EvalFrameDefault_39 :: "fservices \<Rightarrow> evaluated \<Rightarrow> frame_run" where
  "CALL_EvalFrameDefault_39 fs r = (if fs_py39 fs then Ran r else NotRun)"

definition get_bytecode_while_frame_eval_38 :: "fservices \<Rightarrow> int \<Rightarrow> frame \<Rightarrow> bool \<Rightarrow> (fe, frame_run) py" where
  "get_bytecode_while_frame_eval_38 fs me frame exc =
     py_bind (get_bytecode_while_frame_eval fs me frame exc) (\<lambda>r. py_ret (CALL_EvalFrameDefault_38 fs r))"

definition get_bytecode_while_frame_eval_39 :: "fservices \<Rightarrow> int \<Rightarrow> frame \<Rightarrow> bool \<Rightarrow> (fe, frame_run) py" where
  "get_bytecode_while_frame_eval_39 fs me frame exc =
     py_bind (get_bytecode_while_frame_eval fs me frame exc) (\<lambda>r. py_ret (CALL_EvalFrameDefault_39 fs r))"

text \<open>\<^verbatim>\<open>interp->eval_frame\<close>, which the interpreter calls for every frame.\<close>

definition eval_frame :: "fservices \<Rightarrow> int \<Rightarrow> frame \<Rightarrow> bool \<Rightarrow> (fe, frame_run) py" where
  "eval_frame fs me frame exc =
     py_bind (py_gets fe_eval_frame) (\<lambda>f. case f of
       EvalFrameDefault \<Rightarrow> py_ret (Ran RunUnmarked)
     | FrameEval38 \<Rightarrow> get_bytecode_while_frame_eval_38 fs me frame exc
     | FrameEval39 \<Rightarrow> get_bytecode_while_frame_eval_39 fs me frame exc)"

text \<open>\<^verbatim>\<open>get_cached_code_obj_info_py\<close>\<close>

definition get_cached_code_obj_info_py :: "code \<Rightarrow> (fe, cache_value option) py" where
  "get_cached_code_obj_info_py c = py_gets (\<lambda>s. fe_cache s (code_key c))"

text \<open>The function that \<^verbatim>\<open>frame_eval_func\<close> installs is the one whose macro runs the frame.\<close>

lemma installed_evaluator_runs:
  assumes "fe_eval_frame s = fe_eval_frame (snd (frame_eval_func fs t))"
  shows "eval_frame fs me frame exc s =
    (case get_bytecode_while_frame_eval fs me frame exc s of (Inl e, s') \<Rightarrow> (Inl e, s') | (Inr r, s') \<Rightarrow> (Inr (Ran r), s'))"
  using assms
  by (auto simp: eval_frame_def frame_eval_func_def get_bytecode_while_frame_eval_38_def get_bytecode_while_frame_eval_39_def
    CALL_EvalFrameDefault_38_def CALL_EvalFrameDefault_39_def py_simps split: prod.split sum.split)

lemma frame_without_evaluator: "eval_frame fs me frame exc (snd (stop_frame_eval s)) = (Inr (Ran RunUnmarked), snd (stop_frame_eval s))"
  by (simp add: eval_frame_def stop_frame_eval_def py_simps)

text \<open>The function of another version would drop the frame, whatever the debugger decides.\<close>

lemma wrong_version_drops_frame:
  assumes "fe_eval_frame s = (if fs_py39 fs then FrameEval38 else FrameEval39)"
  shows "case fst (eval_frame fs me frame exc s) of Inl e \<Rightarrow> True | Inr r \<Rightarrow> r = NotRun"
  using assms
  by (auto simp: eval_frame_def get_bytecode_while_frame_eval_38_def get_bytecode_while_frame_eval_39_def
    CALL_EvalFrameDefault_38_def CALL_EvalFrameDefault_39_def py_simps split: prod.split sum.split if_splits)

end
