(* ===== verification/AttachRace.thy ===== *)
theory AttachRace
  imports Prelude
begin

text \<open>
  The hand-over between \<^verbatim>\<open>DoAttach\<close> of \<^verbatim>\<open>windows/attach.cpp\<close>, in a thread of its own, and \<^verbatim>\<open>AttachCallback\<close>, which the main thread of the
  program runs whenever it gets to its pending calls, possibly long after \<^verbatim>\<open>DoAttach\<close> has stopped waiting. Both use the same
  \<^verbatim>\<open>InitializeThreadingInfo\<close>; \<^verbatim>\<open>DoAttach\<close> closes the event in it and deletes it.
\<close>

section \<open>The steps\<close>

datatype cb_pc =
    CbPending | CbInitThreads | CbImport | CbEnter | CbComplete | CbTestEvent | CbSetEvent | CbLeave | CbReturn

datatype da_pc =
    DaAddCall | DaWait | DaEnter | DaCloseEvent | DaReadCompleted | DaClearEvent | DaLeave | DaTest | DaDeleteCS | DaDelete | DaGoOn

datatype party = Callback | Attacher

record threading_info =
  ti_completed :: bool
  ti_initedEvent :: bool
  ti_cs :: "party option"

text \<open>
  \<open>hs_info\<close> is None once it is deleted, \<open>hs_event_open\<close> says whether the event exists, \<open>hs_completed\<close> is the local variable of
  \<^verbatim>\<open>DoAttach\<close>. \<open>ti_initedEvent\<close>: the pointer to the event is not null.
\<close>

record handshake =
  hs_info :: "threading_info option"
  hs_event_open :: bool
  hs_signalled :: bool
  hs_cb :: cb_pc
  hs_da :: da_pc
  hs_completed :: bool
  hs_threads_inited :: bool

definition start_handshake :: handshake where
  "start_handshake = \<lparr> hs_info = Some \<lparr> ti_completed = False, ti_initedEvent = True, ti_cs = None \<rparr>, hs_event_open = True,
     hs_signalled = False, hs_cb = CbPending, hs_da = DaAddCall, hs_completed = False, hs_threads_inited = False \<rparr>"

text \<open>
  The steps of the callback. It is only started after the call was added. Each step that reads or writes the shared structure
  has its content \<open>i\<close>.
\<close>

inductive cb_step :: "handshake \<Rightarrow> handshake \<Rightarrow> bool" where
  cb_start: "hs_cb s = CbPending \<Longrightarrow> hs_da s \<noteq> DaAddCall \<Longrightarrow> cb_step s (s \<lparr> hs_cb := CbInitThreads \<rparr>)"
| cb_init: "hs_cb s = CbInitThreads \<Longrightarrow> hs_info s = Some i \<Longrightarrow>
    cb_step s (s \<lparr> hs_threads_inited := True, hs_cb := CbImport \<rparr>)"
| cb_import: "hs_cb s = CbImport \<Longrightarrow> hs_info s = Some i \<Longrightarrow> cb_step s (s \<lparr> hs_cb := CbEnter \<rparr>)"
| cb_enter: "hs_cb s = CbEnter \<Longrightarrow> hs_info s = Some i \<Longrightarrow> ti_cs i = None \<Longrightarrow>
    cb_step s (s \<lparr> hs_info := Some (i \<lparr> ti_cs := Some Callback \<rparr>), hs_cb := CbComplete \<rparr>)"
| cb_complete: "hs_cb s = CbComplete \<Longrightarrow> hs_info s = Some i \<Longrightarrow>
    cb_step s (s \<lparr> hs_info := Some (i \<lparr> ti_completed := True \<rparr>), hs_cb := CbTestEvent \<rparr>)"
| cb_test: "hs_cb s = CbTestEvent \<Longrightarrow> hs_info s = Some i \<Longrightarrow>
    cb_step s (s \<lparr> hs_cb := (if ti_initedEvent i then CbSetEvent else CbLeave) \<rparr>)"
| cb_set: "hs_cb s = CbSetEvent \<Longrightarrow> hs_info s = Some i \<Longrightarrow> cb_step s (s \<lparr> hs_signalled := True, hs_cb := CbLeave \<rparr>)"
| cb_leave: "hs_cb s = CbLeave \<Longrightarrow> hs_info s = Some i \<Longrightarrow>
    cb_step s (s \<lparr> hs_info := Some (i \<lparr> ti_cs := None \<rparr>), hs_cb := CbReturn \<rparr>)"

text \<open>The steps of \<^verbatim>\<open>DoAttach\<close>. The wait ends when the event is set or after five seconds, so it may end at any time.\<close>

inductive da_step :: "handshake \<Rightarrow> handshake \<Rightarrow> bool" where
  da_add: "hs_da s = DaAddCall \<Longrightarrow> da_step s (s \<lparr> hs_da := DaWait \<rparr>)"
| da_wait: "hs_da s = DaWait \<Longrightarrow> da_step s (s \<lparr> hs_da := DaEnter \<rparr>)"
| da_enter: "hs_da s = DaEnter \<Longrightarrow> hs_info s = Some i \<Longrightarrow> ti_cs i = None \<Longrightarrow>
    da_step s (s \<lparr> hs_info := Some (i \<lparr> ti_cs := Some Attacher \<rparr>), hs_da := DaCloseEvent \<rparr>)"
| da_close: "hs_da s = DaCloseEvent \<Longrightarrow> hs_info s = Some i \<Longrightarrow> da_step s (s \<lparr> hs_event_open := False, hs_da := DaReadCompleted \<rparr>)"
| da_read: "hs_da s = DaReadCompleted \<Longrightarrow> hs_info s = Some i \<Longrightarrow>
    da_step s (s \<lparr> hs_completed := ti_completed i, hs_da := DaClearEvent \<rparr>)"
| da_clear: "hs_da s = DaClearEvent \<Longrightarrow> hs_info s = Some i \<Longrightarrow>
    da_step s (s \<lparr> hs_info := Some (i \<lparr> ti_initedEvent := False \<rparr>), hs_da := DaLeave \<rparr>)"
| da_leave: "hs_da s = DaLeave \<Longrightarrow> hs_info s = Some i \<Longrightarrow>
    da_step s (s \<lparr> hs_info := Some (i \<lparr> ti_cs := None \<rparr>), hs_da := DaTest \<rparr>)"
| da_test: "hs_da s = DaTest \<Longrightarrow> da_step s (s \<lparr> hs_da := (if hs_completed s then DaDeleteCS else DaGoOn) \<rparr>)"
| da_delete_cs: "hs_da s = DaDeleteCS \<Longrightarrow> hs_info s = Some i \<Longrightarrow> da_step s (s \<lparr> hs_da := DaDelete \<rparr>)"
| da_delete: "hs_da s = DaDelete \<Longrightarrow> hs_info s = Some i \<Longrightarrow> da_step s (s \<lparr> hs_info := None, hs_da := DaGoOn \<rparr>)"

inductive handshake_reachable :: "handshake \<Rightarrow> bool" where
  start: "handshake_reachable start_handshake"
| callback: "handshake_reachable s \<Longrightarrow> cb_step s t \<Longrightarrow> handshake_reachable t"
| attacher: "handshake_reachable s \<Longrightarrow> da_step s t \<Longrightarrow> handshake_reachable t"

section \<open>The invariant\<close>

definition cb_locked :: "cb_pc \<Rightarrow> bool" where
  "cb_locked p \<longleftrightarrow> p \<in> {CbComplete, CbTestEvent, CbSetEvent, CbLeave}"

definition da_locked :: "da_pc \<Rightarrow> bool" where
  "da_locked p \<longleftrightarrow> p \<in> {DaCloseEvent, DaReadCompleted, DaClearEvent, DaLeave}"

text \<open>
  Who holds the lock, when the event is open, and that a callback that is seen to be complete has left the structure for good.
\<close>

definition handshake_inv :: "handshake \<Rightarrow> bool" where
  "handshake_inv s \<longleftrightarrow>
     (case hs_info s of
        None \<Rightarrow> hs_da s = DaGoOn \<and> hs_cb s = CbReturn \<and> hs_completed s
      | Some i \<Rightarrow>
          (ti_cs i = Some Callback \<longleftrightarrow> cb_locked (hs_cb s)) \<and> (ti_cs i = Some Attacher \<longleftrightarrow> da_locked (hs_da s)) \<and>
          (ti_completed i \<longleftrightarrow> hs_cb s \<in> {CbTestEvent, CbSetEvent, CbLeave, CbReturn}) \<and>
          (hs_event_open s \<longleftrightarrow> hs_da s \<in> {DaAddCall, DaWait, DaEnter, DaCloseEvent}) \<and>
          (ti_initedEvent i \<longleftrightarrow> hs_da s \<in> {DaAddCall, DaWait, DaEnter, DaCloseEvent, DaReadCompleted, DaClearEvent}) \<and>
          (hs_cb s = CbSetEvent \<longrightarrow> ti_initedEvent i)) \<and>
     (hs_completed s \<longrightarrow> hs_cb s = CbReturn) \<and>
     (hs_da s \<in> {DaDeleteCS, DaDelete} \<longrightarrow> hs_completed s) \<and>
     (hs_cb s \<notin> {CbPending, CbInitThreads} \<longrightarrow> hs_threads_inited s)"

lemmas handshake_defs = handshake_inv_def cb_locked_def da_locked_def

lemma handshake_inv_cb: "cb_step s t \<Longrightarrow> handshake_inv s \<Longrightarrow> handshake_inv t"
  by (induction rule: cb_step.induct; case_tac "hs_da s"; case_tac "hs_info s"; clarsimp simp: handshake_defs)

lemma handshake_inv_da: "da_step s t \<Longrightarrow> handshake_inv s \<Longrightarrow> handshake_inv t"
  by (induction rule: da_step.induct; case_tac "hs_cb s"; case_tac "hs_info s"; clarsimp simp: handshake_defs)

lemma handshake_inv_reachable: "handshake_reachable s \<Longrightarrow> handshake_inv s"
proof (induction rule: handshake_reachable.induct)
  case start
  show ?case by (simp add: handshake_inv_def start_handshake_def cb_locked_def da_locked_def)
qed (auto intro: handshake_inv_cb handshake_inv_da)

section \<open>Properties\<close>

text \<open>C9. 
  However the two interleave and whether or not the wait times out: the structure exists as long as the callback or \<^verbatim>\<open>DoAttach\<close> will
  use it, the callback never sets an event that was closed, the two are never in the critical section together, and \<^verbatim>\<open>DoAttach\<close> takes
  the call for completed only when threads were initialized.
\<close>

theorem handshake_safe:
  assumes "handshake_reachable s"
  shows "(hs_cb s \<noteq> CbReturn \<longrightarrow> hs_info s \<noteq> None) \<and> (hs_da s \<noteq> DaGoOn \<longrightarrow> hs_info s \<noteq> None) \<and>
    (hs_cb s = CbSetEvent \<longrightarrow> hs_event_open s) \<and> \<not> (cb_locked (hs_cb s) \<and> da_locked (hs_da s)) \<and>
    (hs_completed s \<longrightarrow> hs_threads_inited s)"
  using handshake_inv_reachable [OF assms]
  by (cases "hs_da s"; cases "hs_info s"; clarsimp simp: handshake_defs)

theorem handshake_safe_witness:
  "\<exists>s. handshake_reachable s \<and> hs_cb s = CbInitThreads \<and> hs_da s = DaWait \<and> hs_info s \<noteq> None"
proof -
  let ?s1 = "start_handshake \<lparr> hs_da := DaWait \<rparr>"
  have "handshake_reachable ?s1"
    by (rule attacher [OF start da_add]) (simp add: start_handshake_def)
  then have r: "handshake_reachable (?s1 \<lparr> hs_cb := CbInitThreads \<rparr>)"
    by (rule callback [OF _ cb_start]) (simp_all add: start_handshake_def)
  from handshake_safe [OF r] r show ?thesis
    by (intro exI [of _ "?s1 \<lparr> hs_cb := CbInitThreads \<rparr>"]) simp
qed

section \<open>The hand-over ends\<close>

definition handshake_step :: "handshake \<Rightarrow> handshake \<Rightarrow> bool" where
  "handshake_step s t \<longleftrightarrow> cb_step s t \<or> da_step s t"

fun cb_left :: "cb_pc \<Rightarrow> nat" where
  "cb_left CbPending = 8" | "cb_left CbInitThreads = 7" | "cb_left CbImport = 6" | "cb_left CbEnter = 5" | "cb_left CbComplete = 4"
| "cb_left CbTestEvent = 3" | "cb_left CbSetEvent = 2" | "cb_left CbLeave = 1" | "cb_left CbReturn = 0"

fun da_left :: "da_pc \<Rightarrow> nat" where
  "da_left DaAddCall = 10" | "da_left DaWait = 9" | "da_left DaEnter = 8" | "da_left DaCloseEvent = 7" | "da_left DaReadCompleted = 6"
| "da_left DaClearEvent = 5" | "da_left DaLeave = 4" | "da_left DaTest = 3" | "da_left DaDeleteCS = 2" | "da_left DaDelete = 1"
| "da_left DaGoOn = 0"

definition steps_left :: "handshake \<Rightarrow> nat" where
  "steps_left s = cb_left (hs_cb s) + da_left (hs_da s)"

lemma handshake_step_decreases: "handshake_step s t \<Longrightarrow> steps_left t < steps_left s"
  by (auto simp: handshake_step_def steps_left_def elim!: cb_step.cases da_step.cases)

lemma handshake_steps_bounded: "(handshake_step ^^ n) s t \<Longrightarrow> n + steps_left t \<le> steps_left s"
proof (induction n arbitrary: t)
  case (Suc n)
  then obtain u where "(handshake_step ^^ n) s u" "handshake_step u t" by auto
  with Suc.IH handshake_step_decreases show ?case by fastforce
qed simp

lemma handshake_steps_reachable: "(handshake_step ^^ n) s t \<Longrightarrow> handshake_reachable s \<Longrightarrow> handshake_reachable t"
proof (induction n arbitrary: t)
  case (Suc n)
  then obtain u where "(handshake_step ^^ n) s u" "handshake_step u t" by auto
  with Suc show ?case by (auto simp: handshake_step_def intro: callback attacher)
qed simp

lemma cb_locked_step: "cb_locked (hs_cb s) \<Longrightarrow> hs_info s = Some i \<Longrightarrow> \<exists>t. cb_step s t"
  by (cases "hs_cb s") (auto simp: cb_locked_def intro: cb_step.intros)

text \<open>\<^verbatim>\<open>DoAttach\<close> can go on, unless the callback is in the critical section, and then the callback can.\<close>

lemma attacher_not_stuck:
  assumes "handshake_inv s" and "hs_da s \<noteq> DaGoOn"
  shows "(\<exists>t. da_step s t) \<or> (cb_locked (hs_cb s) \<and> (\<exists>t. cb_step s t))"
proof -
  obtain i where i: "hs_info s = Some i" using assms by (cases "hs_info s") (auto simp: handshake_inv_def)
  show ?thesis
  proof (cases "cb_locked (hs_cb s)")
    case True
    with cb_locked_step i show ?thesis by blast
  next
    case False
    then have "ti_cs i \<noteq> Some Callback" using i assms(1) by (simp add: handshake_inv_def)
    moreover have "ti_cs i \<noteq> Some Attacher" if "hs_da s = DaEnter"
      using i assms(1) that by (simp add: handshake_inv_def da_locked_def)
    ultimately have "hs_da s = DaEnter \<longrightarrow> ti_cs i = None" using party.exhaust by (metis option.exhaust)
    with assms(2) i have "\<exists>t. da_step s t" by (cases "hs_da s") (simp_all, (blast intro: da_step.intros)+)
    then show ?thesis ..
  qed
qed

text \<open>C23. 
  The hand-over takes at most 18 steps, and it only stops when \<^verbatim>\<open>DoAttach\<close> goes on: \<^verbatim>\<open>DoAttach\<close> can always take a step itself unless the callback
  is in the critical section, which it can then leave. So it does not matter whether the callback is ever started.
\<close>

theorem handshake_ends:
  assumes "(handshake_step ^^ n) start_handshake s"
  shows "n \<le> 18 \<and> (hs_da s \<noteq> DaGoOn \<longrightarrow> (\<exists>t. da_step s t) \<or> (cb_locked (hs_cb s) \<and> (\<exists>t. cb_step s t)))"
  using handshake_steps_bounded [OF assms] attacher_not_stuck
    handshake_inv_reachable [OF handshake_steps_reachable [OF assms start]]
  by (auto simp: steps_left_def start_handshake_def)

theorem handshake_ends_witness:
  "\<exists>s. (handshake_step ^^ 1) start_handshake s \<and> hs_da s = DaWait \<and> (\<exists>t. da_step s t)"
proof -
  let ?s = "start_handshake \<lparr> hs_da := DaWait \<rparr>"
  have s: "(handshake_step ^^ 1) start_handshake ?s"
    using da_add [of start_handshake] by (simp add: handshake_step_def relcompp.simps start_handshake_def)
  from handshake_ends [OF this] show ?thesis
    by (intro exI [of _ ?s]) (use s in \<open>auto simp: start_handshake_def cb_locked_def\<close>)
qed

end
