(* ===== verification/PyVersion.thy ===== *)
theory PyVersion
  imports Prelude
begin

text \<open>
  The versions of Python that the code for attaching to a running process tells apart: \<^verbatim>\<open>py_version.hpp\<close>, and the classes for the
  thread states of \<^verbatim>\<open>python.h\<close>, each of which is for a range of versions.
\<close>

section \<open>\<^verbatim>\<open>PythonVersion\<close>\<close>

datatype python_version =
    PythonVersion_Unknown
  | PythonVersion_25 | PythonVersion_26 | PythonVersion_27
  | PythonVersion_30 | PythonVersion_31 | PythonVersion_32 | PythonVersion_33 | PythonVersion_34
  | PythonVersion_35 | PythonVersion_36 | PythonVersion_37 | PythonVersion_38 | PythonVersion_39
  | PythonVersion_310 | PythonVersion_311 | PythonVersion_312 | PythonVersion_313 | PythonVersion_314

fun version_value :: "python_version \<Rightarrow> int" where
  "version_value PythonVersion_Unknown = 0"
| "version_value PythonVersion_25 = 0x0205"
| "version_value PythonVersion_26 = 0x0206"
| "version_value PythonVersion_27 = 0x0207"
| "version_value PythonVersion_30 = 0x0300"
| "version_value PythonVersion_31 = 0x0301"
| "version_value PythonVersion_32 = 0x0302"
| "version_value PythonVersion_33 = 0x0303"
| "version_value PythonVersion_34 = 0x0304"
| "version_value PythonVersion_35 = 0x0305"
| "version_value PythonVersion_36 = 0x0306"
| "version_value PythonVersion_37 = 0x0307"
| "version_value PythonVersion_38 = 0x0308"
| "version_value PythonVersion_39 = 0x0309"
| "version_value PythonVersion_310 = 0x030A"
| "version_value PythonVersion_311 = 0x030B"
| "version_value PythonVersion_312 = 0x030C"
| "version_value PythonVersion_313 = 0x030D"
| "version_value PythonVersion_314 = 0x030E"

text \<open>Versions are compared by the values of the enumeration.\<close>

instantiation python_version :: linorder
begin

definition less_eq_python_version :: "python_version \<Rightarrow> python_version \<Rightarrow> bool" where
  "less_eq_python_version v w \<longleftrightarrow> version_value v \<le> version_value w"

definition less_python_version :: "python_version \<Rightarrow> python_version \<Rightarrow> bool" where
  "less_python_version v w \<longleftrightarrow> version_value v < version_value w"

instance
proof
  fix v w :: python_version
  show "v \<le> w \<Longrightarrow> w \<le> v \<Longrightarrow> v = w"
    unfolding less_eq_python_version_def by (cases v; cases w) simp_all
qed (auto simp: less_eq_python_version_def less_python_version_def)

end

lemmas version_order = less_eq_python_version_def less_python_version_def

text \<open>The digits after \<^verbatim>\<open>2.\<close> and after \<^verbatim>\<open>3.\<close>; the version \<^verbatim>\<open>3.1\<close> is only told apart from \<^verbatim>\<open>3.10\<close> and later.\<close>

definition version_2 :: "char \<Rightarrow> python_version" where
  "version_2 d =
     (if d = CHR ''5'' then PythonVersion_25
      else if d = CHR ''6'' then PythonVersion_26
      else if d = CHR ''7'' then PythonVersion_27
      else PythonVersion_Unknown)"

definition version_31 :: "string \<Rightarrow> python_version" where
  "version_31 version =
     (if 4 \<le> length version then
        (if version ! 3 = CHR ''0'' then PythonVersion_310
         else if version ! 3 = CHR ''1'' then PythonVersion_311
         else if version ! 3 = CHR ''2'' then PythonVersion_312
         else if version ! 3 = CHR ''3'' then PythonVersion_313
         else if version ! 3 = CHR ''4'' then PythonVersion_314
         else PythonVersion_Unknown)
      else PythonVersion_Unknown)"

definition version_3 :: "string \<Rightarrow> python_version" where
  "version_3 version =
     (let d = version ! 2 in
      if d = CHR ''0'' then PythonVersion_30
      else if d = CHR ''1'' then version_31 version
      else if d = CHR ''2'' then PythonVersion_32
      else if d = CHR ''3'' then PythonVersion_33
      else if d = CHR ''4'' then PythonVersion_34
      else if d = CHR ''5'' then PythonVersion_35
      else if d = CHR ''6'' then PythonVersion_36
      else if d = CHR ''7'' then PythonVersion_37
      else if d = CHR ''8'' then PythonVersion_38
      else if d = CHR ''9'' then PythonVersion_39
      else PythonVersion_Unknown)"

text \<open>
  \<^verbatim>\<open>GetPythonVersion\<close>: the argument is the result of \<^verbatim>\<open>Py_GetVersion\<close>, None when the function is not found or returns a
  null pointer.
\<close>

definition GetPythonVersion :: "string option \<Rightarrow> python_version" where
  "GetPythonVersion version =
     (case version of
        None \<Rightarrow> PythonVersion_Unknown
      | Some version \<Rightarrow>
          if 3 \<le> length version \<and> version ! 1 = CHR ''.'' then
            (if version ! 0 = CHR ''2'' then version_2 (version ! 2)
             else if version ! 0 = CHR ''3'' then version_3 version
             else PythonVersion_Unknown)
          else PythonVersion_Unknown)"

section \<open>Thread states\<close>

datatype tstate_class =
    PyThreadState_25_27 | PyThreadState_30_33 | PyThreadState_34_36 | PyThreadState_37_38 | PyThreadState_39
  | PyThreadState_310 | PyThreadState_311

fun IsFor :: "tstate_class \<Rightarrow> python_version \<Rightarrow> bool" where
  "IsFor PyThreadState_25_27 v \<longleftrightarrow> PythonVersion_25 \<le> v \<and> v \<le> PythonVersion_27"
| "IsFor PyThreadState_30_33 v \<longleftrightarrow> PythonVersion_30 \<le> v \<and> v \<le> PythonVersion_33"
| "IsFor PyThreadState_34_36 v \<longleftrightarrow> PythonVersion_34 \<le> v \<and> v \<le> PythonVersion_36"
| "IsFor PyThreadState_37_38 v \<longleftrightarrow> v = PythonVersion_37 \<or> v = PythonVersion_38"
| "IsFor PyThreadState_39 v \<longleftrightarrow> v = PythonVersion_39"
| "IsFor PyThreadState_310 v \<longleftrightarrow> v = PythonVersion_310"
| "IsFor PyThreadState_311 v \<longleftrightarrow> v = PythonVersion_311"

text \<open>The classes in the order in which the functions try them.\<close>

definition tstate_classes :: "tstate_class list" where
  "tstate_classes =
     [PyThreadState_25_27, PyThreadState_30_33, PyThreadState_34_36, PyThreadState_37_38, PyThreadState_39,
      PyThreadState_310, PyThreadState_311]"

definition class_for :: "python_version \<Rightarrow> tstate_class option" where
  "class_for v = find (\<lambda>c. IsFor c v) tstate_classes"

section \<open>Properties\<close>

text \<open>What \<^verbatim>\<open>Py_GetVersion\<close> returns starts with the major and the minor version.\<close>

fun version_text :: "python_version \<Rightarrow> string" where
  "version_text PythonVersion_Unknown = []"
| "version_text PythonVersion_25 = ''2.5''" | "version_text PythonVersion_26 = ''2.6''"
| "version_text PythonVersion_27 = ''2.7''" | "version_text PythonVersion_30 = ''3.0''"
| "version_text PythonVersion_31 = ''3.1''" | "version_text PythonVersion_32 = ''3.2''"
| "version_text PythonVersion_33 = ''3.3''" | "version_text PythonVersion_34 = ''3.4''"
| "version_text PythonVersion_35 = ''3.5''" | "version_text PythonVersion_36 = ''3.6''"
| "version_text PythonVersion_37 = ''3.7''" | "version_text PythonVersion_38 = ''3.8''"
| "version_text PythonVersion_39 = ''3.9''" | "version_text PythonVersion_310 = ''3.10''"
| "version_text PythonVersion_311 = ''3.11''" | "version_text PythonVersion_312 = ''3.12''"
| "version_text PythonVersion_313 = ''3.13''" | "version_text PythonVersion_314 = ''3.14''"

lemma GetPythonVersion_text:
  assumes "v \<noteq> PythonVersion_31" and "v \<noteq> PythonVersion_Unknown"
  shows "GetPythonVersion (Some (version_text v @ rest)) = v"
  using assms by (cases v) (simp_all add: GetPythonVersion_def version_2_def version_3_def version_31_def Let_def)

lemma GetPythonVersion_prefix:
  assumes "GetPythonVersion (Some s) = v" and "v \<noteq> PythonVersion_Unknown"
  shows "v \<noteq> PythonVersion_31 \<and> (\<exists>rest. s = version_text v @ rest)"
proof -
  have "3 \<le> length s" using assms by (auto simp: GetPythonVersion_def split: if_splits)
  then obtain a b c r where s: "s = a # b # c # r"
    by (metis One_nat_def Suc_le_length_iff numeral_3_eq_3)
  show ?thesis
    using assms unfolding s
    by (cases r) (auto simp: GetPythonVersion_def version_2_def version_3_def version_31_def Let_def split: if_splits)
qed

text \<open>The version that is recognised is the one whose number the text starts with; the version 3.1 and versions from 3.15 on are unknown.\<close>

lemma version_recognised:
  assumes "v \<noteq> PythonVersion_Unknown"
  shows "GetPythonVersion (Some s) = v \<longleftrightarrow> v \<noteq> PythonVersion_31 \<and> (\<exists>rest. s = version_text v @ rest)"
  using assms GetPythonVersion_prefix GetPythonVersion_text by blast

text \<open>Every version from 2.5 to 3.11 has exactly one class, and no other version has one.\<close>

lemma IsFor_unique: "IsFor c v \<Longrightarrow> IsFor d v \<Longrightarrow> c = d"
  by (cases v; cases c; cases d) (simp_all add: version_order)

lemma class_for_iff: "class_for v = Some c \<longleftrightarrow> IsFor c v"
  by (cases v; cases c) (simp_all add: class_for_def tstate_classes_def version_order)

lemma class_for_none: "class_for v = None \<longleftrightarrow> v = PythonVersion_Unknown \<or> PythonVersion_312 \<le> v"
  by (cases v) (simp_all add: class_for_def tstate_classes_def version_order)

end
