(* ===== verification/PyRefs.thy ===== *)
theory PyRefs
  imports PyVersion
begin

text \<open>
  The objects of the interpreter as the attaching code sees them: their reference counts (\<^verbatim>\<open>ref_utils.hpp\<close>), thread states and
  frames (\<^verbatim>\<open>python.h\<close>). An address 0 is a null pointer. The first words of objects are the memory \<open>px_cell\<close>, because a
  debug build has two more words in front of the count; every other field is a function of the address of its object.
\<close>

section \<open>State\<close>

type_synonym addr = "64 word"

abbreviation null_access :: pyexc where
  "null_access \<equiv> UserExc ''access through a null pointer''"

text \<open>The classes of frames and the trace functions that are installed; \<open>OtherTrace\<close> is one of the interpreter's own.\<close>

datatype frame_class = PyFrameObjectBaseUpTo39 | PyFrameObject310 | PyFrameObject311

datatype tracefunc = InternalTrampoline frame_class | OtherTrace nat

record tstate =
  thread_id :: addr
  c_profilefunc :: bool
  c_tracefunc :: "tracefunc option"
  c_traceobj :: addr
  use_tracing :: cint
  cframe_use_tracing :: cint

text \<open>What the interpreter is asked to do.\<close>

datatype api_call =
    GilEnsure | GilRelease | RunSimpleString string | Dealloc addr

text \<open>\<^verbatim>\<open>InternalInitializeCustomPyEvalSetTrace\<close>; \<open>ti_custom_call\<close>: the call goes through \<^verbatim>\<open>PyObject_FastCallDictCustom\<close>.\<close>

record trace_init =
  ti_pyNone :: addr
  ti_isDebug :: bool
  ti_custom_call :: bool

record px =
  px_cell :: "addr \<Rightarrow> addr"
  px_f_trace :: "frame_class \<Rightarrow> addr \<Rightarrow> addr"
  px_ts :: "addr \<Rightarrow> tstate"
  px_init :: "trace_init option"
  px_whatstrings :: "addr list"
  px_ob_item :: "addr \<Rightarrow> addr list"
  px_calls :: "api_call list"

definition px_call :: "api_call \<Rightarrow> (px, unit) py" where
  "px_call c = py_modify (\<lambda>s. s \<lparr> px_calls := px_calls s @ [c] \<rparr>)"

section \<open>Reference counts\<close>

definition GetPyObjectPointerNoDebugInfo :: "bool \<Rightarrow> addr \<Rightarrow> addr" where
  "GetPyObjectPointerNoDebugInfo isDebug obj = (if obj \<noteq> 0 \<and> isDebug then obj + 16 else obj)"

definition set_cell :: "addr \<Rightarrow> (addr \<Rightarrow> addr) \<Rightarrow> px \<Rightarrow> px" where
  "set_cell a f s = s \<lparr> px_cell := (px_cell s)(a := f (px_cell s a)) \<rparr>"

definition DecRef :: "addr \<Rightarrow> bool \<Rightarrow> (px, unit) py" where
  "DecRef obj isDebug =
     (let noDebug = GetPyObjectPointerNoDebugInfo isDebug obj in
      if noDebug = 0 then py_ret ()
      else
        py_then (py_modify (set_cell noDebug (\<lambda>n. n - 1)))
          (py_bind (py_gets (\<lambda>s. px_cell s noDebug)) (\<lambda>n.
            if n = 0 then px_call (Dealloc obj) else py_ret ())))"

definition IncRef :: "addr \<Rightarrow> (px, unit) py" where
  "IncRef obj = (if obj = 0 then py_raise null_access else py_modify (set_cell obj (\<lambda>n. n + 1)))"

text \<open>\<^verbatim>\<open>PyObjectHolder\<close>: the constructor that adds a reference, and the scope that ends with the destructor.\<close>

definition hold_reference :: "bool \<Rightarrow> addr \<Rightarrow> (px, unit) py" where
  "hold_reference isDebug obj =
     (if obj = 0 then py_ret () else py_modify (set_cell (GetPyObjectPointerNoDebugInfo isDebug obj) (\<lambda>n. n + 1)))"

definition with_holder :: "bool \<Rightarrow> addr \<Rightarrow> (px, 'a) py \<Rightarrow> (px, 'a) py" where
  "with_holder isDebug obj body = py_then (hold_reference isDebug obj) (py_finally body (DecRef obj isDebug))"

text \<open>\<^verbatim>\<open>GilHolder\<close>\<close>

definition with_gil :: "(px, 'a) py \<Rightarrow> (px, 'a) py" where
  "with_gil body = py_then (px_call GilEnsure) (py_finally body (px_call GilRelease))"

section \<open>What the counts are\<close>

text \<open>The reference count of an object.\<close>

definition refcnt :: "bool \<Rightarrow> px \<Rightarrow> addr \<Rightarrow> addr" where
  "refcnt isDebug s obj = px_cell s (GetPyObjectPointerNoDebugInfo isDebug obj)"

lemma px_call_app [py_simps, simp]: "px_call c s = (Inr (), s \<lparr> px_calls := px_calls s @ [c] \<rparr>)"
  by (simp add: px_call_def)

lemma set_cell_simps [simp]:
  "px_cell (set_cell a f s) = (px_cell s)(a := f (px_cell s a))" "px_f_trace (set_cell a f s) = px_f_trace s"
  "px_ts (set_cell a f s) = px_ts s" "px_init (set_cell a f s) = px_init s"
  "px_whatstrings (set_cell a f s) = px_whatstrings s" "px_ob_item (set_cell a f s) = px_ob_item s" "px_calls (set_cell a f s) = px_calls s"
  by (simp_all add: set_cell_def)

lemma DecRef_app:
  "DecRef obj dbg s =
     (Inr (), let p = GetPyObjectPointerNoDebugInfo dbg obj; s1 = set_cell p (\<lambda>n. n - 1) s in
       if p = 0 then s else if px_cell s p = 1 then s1 \<lparr> px_calls := px_calls s @ [Dealloc obj] \<rparr> else s1)"
  by (simp add: DecRef_def Let_def py_simps)

lemma IncRef_app: "obj \<noteq> 0 \<Longrightarrow> IncRef obj s = (Inr (), set_cell obj (\<lambda>n. n + 1) s)"
  by (simp add: IncRef_def)

lemma hold_reference_app:
  "hold_reference dbg obj s = (Inr (), if obj = 0 then s else set_cell (GetPyObjectPointerNoDebugInfo dbg obj) (\<lambda>n. n + 1) s)"
  by (simp add: hold_reference_def)

section \<open>Scopes\<close>

text \<open>
  A class whose constructor acquires something and whose destructor releases it: \<open>balance\<close> is what the pair adds and takes away. When the
  code in the scope leaves the balance alone, so does the whole scope, also when that code raises an exception.
\<close>

locale scoped_resource =
  fixes acquire :: "('s, unit) py" and release :: "('s, unit) py" and balance :: "'s \<Rightarrow> 'b :: ab_group_add" and amount :: 'b
  assumes acquire: "fst (acquire s) = Inr ()" "balance (snd (acquire s)) = balance s + amount"
    and release: "fst (release s) = Inr ()" "balance (snd (release s)) = balance s - amount"
begin

lemma scope_balanced:
  assumes "\<And>s. balance (snd (body s)) = balance s"
  shows "balance (snd (py_then acquire (py_finally body release) s)) = balance s"
proof -
  obtain s1 where s1: "acquire s = (Inr (), s1)" "balance s1 = balance s + amount" using acquire by (metis prod.collapse)
  obtain r s2 where s2: "body s1 = (r, s2)" by fastforce
  then have "balance s2 = balance s1" using assms [of s1] by simp
  moreover obtain s3 where "release s2 = (Inr (), s3)" "balance s3 = balance s2 - amount" using release by (metis prod.collapse)
  ultimately show ?thesis using s1 s2 by (simp add: py_then_app py_finally_app)
qed

lemma scope_result: "fst (py_then acquire (py_finally body release) s) = fst (body (snd (acquire s)))"
proof -
  obtain s1 where s1: "acquire s = (Inr (), s1)" using acquire(1) by (metis prod.collapse)
  obtain r s2 where s2: "body s1 = (r, s2)" by fastforce
  obtain s3 where "release s2 = (Inr (), s3)" using release(1) by (metis prod.collapse)
  with s1 s2 show ?thesis by (simp add: py_then_app py_finally_app)
qed

end

text \<open>How often the lock of the interpreter was taken and not released.\<close>

definition gil_depth :: "px \<Rightarrow> int" where
  "gil_depth s = (\<Sum>c\<leftarrow>px_calls s. case c of GilEnsure \<Rightarrow> 1 | GilRelease \<Rightarrow> -1 | _ \<Rightarrow> 0)"

lemma gil_depth_simps [simp]: "gil_depth (set_cell a f s) = gil_depth s" "gil_depth (snd (DecRef x dbg s)) = gil_depth s"
  by (simp_all add: gil_depth_def DecRef_app Let_def)

interpretation gil: scoped_resource "px_call GilEnsure" "px_call GilRelease" gil_depth 1
  by unfold_locales (simp_all add: gil_depth_def)

text \<open>The two ends of a holder do not touch the lock.\<close>

interpretation holder_lock: scoped_resource "hold_reference dbg obj" "DecRef obj dbg" gil_depth 0 for obj dbg
  by unfold_locales (simp_all add: hold_reference_app DecRef_app Let_def gil_depth_def)

end
