(* ===== verification/SetTrace.thy ===== *)
theory SetTrace
  imports PyRefs
begin

text \<open>
  Tracing for threads that already run: the reimplementation of \<^verbatim>\<open>PyEval_SetTrace\<close> and of the function that the interpreter calls for
  every event (\<^verbatim>\<open>py_custom_pyeval_settrace.hpp\<close>, its versions for Python 3.10 and 3.11 and its common part), and
  \<^verbatim>\<open>InternalSetSysTraceFunc\<close> of \<^verbatim>\<open>py_settrace.hpp\<close>, which finds the thread.
\<close>

section \<open>The interpreter's functions\<close>

record pyapi =
  api_vectorcall :: "addr \<Rightarrow> addr list \<Rightarrow> (px, addr) py"
  api_call_tuple :: "addr \<Rightarrow> addr \<Rightarrow> (px, addr) py"
  api_tuple_new :: "(px, addr) py"
  api_intern :: "string \<Rightarrow> (px, addr) py"
  api_set_trace_null :: "(px, unit) py"
  api_traceback_here :: "addr \<Rightarrow> (px, unit) py"

definition get_init :: "(trace_init \<Rightarrow> 'a) \<Rightarrow> (px, 'a) py" where
  "get_init f = py_bind (py_gets px_init) (\<lambda>i. case i of None \<Rightarrow> py_raise null_access | Some i \<Rightarrow> py_ret (f i))"

section \<open>Initialization\<close>

definition InternalIsTraceInitialized :: "(px, bool) py" where
  "InternalIsTraceInitialized = py_gets (\<lambda>s. px_init s \<noteq> None)"

definition whatnames :: "string list" where
  "whatnames = [''call'', ''exception'', ''line'', ''return'', ''c_call'', ''c_exception'', ''c_return'', ''opcode'']"

text \<open>The loop of \<^verbatim>\<open>InternalTraceInit\<close> over the names from the index \<open>i\<close> on; false when a name could not be made.\<close>

fun intern_names :: "pyapi \<Rightarrow> nat \<Rightarrow> string list \<Rightarrow> (px, bool) py" where
  "intern_names api i [] = py_ret True"
| "intern_names api i (n # ns) =
     py_bind (py_gets (\<lambda>s. px_whatstrings s ! i)) (\<lambda>known.
       if known \<noteq> 0 then intern_names api (Suc i) ns
       else
         py_bind (api_intern api n) (\<lambda>name.
           if name = 0 then py_ret False
           else
             py_then (py_modify (\<lambda>s. s \<lparr> px_whatstrings := (px_whatstrings s)[i := name] \<rparr>)) (intern_names api (Suc i) ns)))"

definition InternalTraceInit :: "pyapi \<Rightarrow> trace_init \<Rightarrow> (px, cint) py" where
  "InternalTraceInit api init =
     py_then (py_modify (\<lambda>s. s \<lparr> px_init := Some init \<rparr>))
       (py_bind (intern_names api 0 whatnames) (\<lambda>ok. py_ret (if ok then 0 else -1)))"

section \<open>The trace function of the interpreter\<close>

definition PyObject_FastCallDictCustom :: "pyapi \<Rightarrow> addr \<Rightarrow> addr list \<Rightarrow> (px, addr) py" where
  "PyObject_FastCallDictCustom api callback stack =
     py_bind (api_tuple_new api) (\<lambda>args.
       if args = 0 then py_ret 0
       else
         py_then (IncRef (stack ! 0)) (py_then (IncRef (stack ! 1)) (py_then (IncRef (stack ! 2))
           (py_then (py_modify (\<lambda>s. s \<lparr> px_ob_item := (px_ob_item s)(args := stack) \<rparr>))
             (py_bind (api_call_tuple api callback args) (\<lambda>result.
               py_bind (get_init ti_isDebug) (\<lambda>dbg. py_then (DecRef args dbg) (py_ret result))))))))"

definition pyObject_FastCallDict :: "pyapi \<Rightarrow> addr \<Rightarrow> addr list \<Rightarrow> (px, addr) py" where
  "pyObject_FastCallDict api callback stack =
     py_bind (get_init ti_custom_call) (\<lambda>custom.
       if custom then PyObject_FastCallDictCustom api callback stack else api_vectorcall api callback stack)"

text \<open>\<open>what\<close> is one of the eight events; another number reads past the table.\<close>

definition InternalCallTrampoline :: "pyapi \<Rightarrow> addr \<Rightarrow> addr \<Rightarrow> nat \<Rightarrow> addr \<Rightarrow> (px, addr) py" where
  "InternalCallTrampoline api callback frame what arg =
     py_bind (get_init ti_pyNone) (\<lambda>none.
       py_bind (py_gets px_whatstrings) (\<lambda>names.
         if length names \<le> what then py_raise (UserExc ''index out of bounds'')
         else
           py_bind (pyObject_FastCallDict api callback [frame, names ! what, if arg \<noteq> 0 then arg else none]) (\<lambda>result.
             py_then (if result = 0 then api_traceback_here api frame else py_ret ()) (py_ret result))))"

definition PyTrace_CALL :: nat where "PyTrace_CALL = 0"

definition set_f_trace :: "frame_class \<Rightarrow> addr \<Rightarrow> addr \<Rightarrow> (px, unit) py" where
  "set_f_trace cls frame v = py_modify (\<lambda>s. s \<lparr> px_f_trace := (px_f_trace s)(cls := (px_f_trace s cls)(frame := v)) \<rparr>)"

text \<open>What is done with the result of the call: null is an exception, which turns the tracing off.\<close>

definition use_trace_result :: "pyapi \<Rightarrow> frame_class \<Rightarrow> addr \<Rightarrow> addr \<Rightarrow> (px, cint) py" where
  "use_trace_result api cls frame result =
     py_bind (get_init id) (\<lambda>init.
       if result = 0 then
         py_then (api_set_trace_null api)
           (py_bind (py_gets (\<lambda>s. px_f_trace s cls frame)) (\<lambda>temp.
             py_then (set_f_trace cls frame 0)
               (py_then (if temp \<noteq> 0 then DecRef temp (ti_isDebug init) else py_ret ()) (py_ret (-1)))))
       else if result \<noteq> ti_pyNone init then
         py_bind (py_gets (\<lambda>s. px_f_trace s cls frame)) (\<lambda>tmp.
           py_then (set_f_trace cls frame result) (py_then (DecRef tmp (ti_isDebug init)) (py_ret 0)))
       else py_then (DecRef result (ti_isDebug init)) (py_ret 0))"

text \<open>
  The trace function; the three of the source differ in the class of frames, which says where \<^verbatim>\<open>f_trace\<close> is.
\<close>

definition trace_trampoline :: "pyapi \<Rightarrow> frame_class \<Rightarrow> addr \<Rightarrow> addr \<Rightarrow> nat \<Rightarrow> addr \<Rightarrow> (px, cint) py" where
  "trace_trampoline api cls self frame what arg =
     py_bind (if what = PyTrace_CALL then py_ret self else py_gets (\<lambda>s. px_f_trace s cls frame)) (\<lambda>callback.
       if callback = 0 then py_ret 0
       else py_bind (InternalCallTrampoline api callback frame what arg) (use_trace_result api cls frame))"

definition InternalTraceTrampoline :: "pyapi \<Rightarrow> addr \<Rightarrow> addr \<Rightarrow> nat \<Rightarrow> addr \<Rightarrow> (px, cint) py" where
  "InternalTraceTrampoline api = trace_trampoline api PyFrameObjectBaseUpTo39"

definition InternalTraceTrampoline310 :: "pyapi \<Rightarrow> addr \<Rightarrow> addr \<Rightarrow> nat \<Rightarrow> addr \<Rightarrow> (px, cint) py" where
  "InternalTraceTrampoline310 api = trace_trampoline api PyFrameObject310"

definition InternalTraceTrampoline311 :: "pyapi \<Rightarrow> addr \<Rightarrow> addr \<Rightarrow> nat \<Rightarrow> addr \<Rightarrow> (px, cint) py" where
  "InternalTraceTrampoline311 api = trace_trampoline api PyFrameObject311"

text \<open>What the interpreter calls when a trampoline is installed.\<close>

fun installed_trampoline :: "pyapi \<Rightarrow> frame_class \<Rightarrow> addr \<Rightarrow> addr \<Rightarrow> nat \<Rightarrow> addr \<Rightarrow> (px, cint) py" where
  "installed_trampoline api PyFrameObjectBaseUpTo39 = InternalTraceTrampoline api"
| "installed_trampoline api PyFrameObject310 = InternalTraceTrampoline310 api"
| "installed_trampoline api PyFrameObject311 = InternalTraceTrampoline311 api"

section \<open>Setting the trace function of a thread\<close>

definition upd_ts :: "addr \<Rightarrow> (tstate \<Rightarrow> tstate) \<Rightarrow> (px, unit) py" where
  "upd_ts t f = py_modify (\<lambda>s. s \<lparr> px_ts := (px_ts s)(t := f (px_ts s t)) \<rparr>)"

text \<open>
  The common steps of the three templates: \<open>flag\<close> writes the field that says whether the thread traces, which is in another place and
  has another value from 3.10 and 3.11 on.
\<close>

definition set_trace_with ::
  "(bool \<Rightarrow> tstate \<Rightarrow> tstate) \<Rightarrow> frame_class \<Rightarrow> addr \<Rightarrow> addr \<Rightarrow> bool \<Rightarrow> (px, unit) py" where
  "set_trace_with flag cls t arg isDebug =
     py_bind (py_gets (\<lambda>s. c_traceobj (px_ts s t))) (\<lambda>temp.
       py_then (IncRef arg)
         (py_then (upd_ts t (\<lambda>ts. flag (c_profilefunc ts) (ts \<lparr> c_tracefunc := None, c_traceobj := 0 \<rparr>)))
           (py_then (if temp \<noteq> 0 then DecRef temp isDebug else py_ret ())
             (upd_ts t (\<lambda>ts. flag True (ts \<lparr> c_tracefunc := Some (InternalTrampoline cls), c_traceobj := arg \<rparr>))))))"

definition InternalPySetTrace_Template :: "addr \<Rightarrow> addr \<Rightarrow> bool \<Rightarrow> (px, unit) py" where
  "InternalPySetTrace_Template =
     set_trace_with (\<lambda>b ts. ts \<lparr> use_tracing := (if b then 1 else 0) \<rparr>) PyFrameObjectBaseUpTo39"

definition InternalPySetTrace_Template310 :: "addr \<Rightarrow> addr \<Rightarrow> bool \<Rightarrow> (px, unit) py" where
  "InternalPySetTrace_Template310 =
     set_trace_with (\<lambda>b ts. ts \<lparr> cframe_use_tracing := (if b then 1 else 0) \<rparr>) PyFrameObject310"

definition InternalPySetTrace_Template311 :: "addr \<Rightarrow> addr \<Rightarrow> bool \<Rightarrow> (px, unit) py" where
  "InternalPySetTrace_Template311 =
     set_trace_with (\<lambda>b ts. ts \<lparr> cframe_use_tracing := (if b then 255 else 0) \<rparr>) PyFrameObject311"

definition InternalPySetTrace :: "addr \<Rightarrow> addr \<Rightarrow> bool \<Rightarrow> python_version \<Rightarrow> (px, unit) py" where
  "InternalPySetTrace t traceFunc isDebug version =
     (case class_for version of
        None \<Rightarrow> py_ret ()
      | Some PyThreadState_310 \<Rightarrow> InternalPySetTrace_Template310 t traceFunc isDebug
      | Some PyThreadState_311 \<Rightarrow> InternalPySetTrace_Template311 t traceFunc isDebug
      | Some _ \<Rightarrow> InternalPySetTrace_Template t traceFunc isDebug)"

section \<open>\<^verbatim>\<open>InternalSetSysTraceFunc\<close>\<close>

text \<open>The module of the interpreter: the functions it exports and what those that take no argument return.\<close>

record pymodule =
  mod_exports :: "string \<Rightarrow> bool"
  mod_version :: "string option"
  mod_initialized :: bool
  mod_interp_head :: bool
  mod_threads :: "addr list"
  mod_current_thread :: addr

definition module_version :: "pymodule \<Rightarrow> python_version" where
  "module_version m = GetPythonVersion (if mod_exports m ''Py_GetVersion'' then mod_version m else None)"

text \<open>A sequence of \<^verbatim>\<open>DEFINE_PROC\<close>: the code of the first function that is missing.\<close>

definition missing_proc :: "pymodule \<Rightarrow> (string \<times> int) list \<Rightarrow> int option" where
  "missing_proc m procs = map_option snd (find (\<lambda>p. \<not> mod_exports m (fst p)) procs)"

definition define_procs :: "pymodule \<Rightarrow> (string \<times> int) list \<Rightarrow> (px, int) py \<Rightarrow> (px, int) py" where
  "define_procs m procs k = (case missing_proc m procs of None \<Rightarrow> k | Some code \<Rightarrow> py_ret code)"

definition GetPythonThreadId :: "python_version \<Rightarrow> tstate \<Rightarrow> 32 word" where
  "GetPythonThreadId version ts = (case class_for version of None \<Rightarrow> 0 | Some c \<Rightarrow> ucast (thread_id ts))"

definition thread_procs :: "python_version \<Rightarrow> (string \<times> int) list" where
  "thread_procs version =
     [(''PyInterpreterState_Head'', 120), (''PyGILState_Ensure'', 130), (''PyGILState_Release'', 140),
      (''PyInterpreterState_ThreadHead'', 150), (''PyThreadState_Next'', 160), (''PyThreadState_Swap'', 170),
      (''PyObject_CallFunctionObjArgs'', 180),
      if PythonVersion_30 \<le> version then (''PyLong_FromLong'', 190) else (''PyInt_FromLong'', 200),
      (''PyObject_GetAttrString'', 250), (''PyObject_HasAttrString'', 260)]"

definition trace_procs :: "python_version \<Rightarrow> (string \<times> int) list" where
  "trace_procs version =
     [if PythonVersion_30 \<le> version then (''PyUnicode_InternFromString'', 520) else (''PyString_InternFromString'', 525)] @
     (if version < PythonVersion_37 then []
      else if version < PythonVersion_39 then [(''_PyObject_FastCallDict'', 530)]
      else [(''PyObject_VectorcallDict'', 530)]) @
     [(''PyTuple_New'', 531), (''PyEval_CallObjectWithKeywords'', 532), (''PyTraceBack_Here'', 540), (''PyEval_SetTrace'', 550)]"

definition has_thread_api :: "pymodule \<Rightarrow> bool" where
  "has_thread_api m \<longleftrightarrow> mod_exports m ''_PyThreadState_Current'' \<or> mod_exports m ''_PyThreadState_UncheckedGet''"

definition initialize_trace :: "pyapi \<Rightarrow> bool \<Rightarrow> addr \<Rightarrow> python_version \<Rightarrow> (px, unit) py" where
  "initialize_trace api isDebug pyNone version =
     py_bind InternalIsTraceInitialized (\<lambda>known.
       if known then py_ret ()
       else
         py_then (IncRef pyNone)
           (py_then (InternalTraceInit api \<lparr> ti_pyNone = pyNone, ti_isDebug = isDebug,
                ti_custom_call = (version < PythonVersion_37) \<rparr>) (py_ret ())))"

text \<open>The loop over the threads: the first one with the given number gets the trace function.\<close>

fun trace_thread ::
  "pyapi \<Rightarrow> bool \<Rightarrow> addr \<Rightarrow> 32 word \<Rightarrow> addr \<Rightarrow> python_version \<Rightarrow> addr list \<Rightarrow> (px, int) py" where
  "trace_thread api isDebug traceFunc threadId pyNone version [] = py_ret 501"
| "trace_thread api isDebug traceFunc threadId pyNone version (t # ts) =
     py_bind (py_gets (\<lambda>s. GetPythonThreadId version (px_ts s t))) (\<lambda>i.
       if i \<noteq> threadId then trace_thread api isDebug traceFunc threadId pyNone version ts
       else
         py_then (initialize_trace api isDebug pyNone version)
           (py_then (InternalPySetTrace t traceFunc isDebug version) (py_ret 0)))"

definition InternalSetSysTraceFunc ::
  "pyapi \<Rightarrow> pymodule \<Rightarrow> bool \<Rightarrow> addr \<Rightarrow> 32 word \<Rightarrow> addr \<Rightarrow> (px, int) py" where
  "InternalSetSysTraceFunc api m isDebug traceFunc threadId pyNone =
     define_procs m [(''Py_IsInitialized'', 100)]
       (if \<not> mod_initialized m then py_ret 110
        else
          let version = module_version m in
          define_procs m (thread_procs version)
            (if \<not> has_thread_api m then py_ret 330
             else if \<not> mod_interp_head m then py_ret 340
             else
               with_gil
                 (if mod_current_thread m = 0 then py_ret 345
                  else
                    define_procs m (trace_procs version)
                      (trace_thread api isDebug traceFunc threadId pyNone version (mod_threads m)))))"

section \<open>Linux and macOS\<close>

definition DoAttach_linux :: "pymodule \<Rightarrow> string \<Rightarrow> (px, int) py" where
  "DoAttach_linux m command =
     define_procs m [(''Py_IsInitialized'', 1), (''PyGILState_Ensure'', 51), (''PyGILState_Release'', 51)]
       (if \<not> mod_initialized m then py_ret 2
        else
          define_procs m [(''PyInterpreterState_Head'', 51)]
            (if \<not> mod_interp_head m then py_ret 54
             else
               define_procs m [(''PyRun_SimpleString'', 51)]
                 (with_gil (py_then (px_call (RunSimpleString command)) (py_ret 0)))))"

definition AttachDebuggerTracing_linux ::
  "pyapi \<Rightarrow> pymodule \<Rightarrow> addr \<Rightarrow> addr \<Rightarrow> 32 word \<Rightarrow> addr \<Rightarrow> (px, int) py" where
  "AttachDebuggerTracing_linux api m pSetTraceFunc pTraceFunc threadId pPyNone =
     (let isDebug = False in
      with_holder isDebug pTraceFunc
        (with_holder isDebug pSetTraceFunc
          (with_holder isDebug pPyNone (InternalSetSysTraceFunc api m isDebug pTraceFunc threadId pPyNone))))"

end
