(* ===== verification/WinThreads.thy ===== *)
theory WinThreads
  imports PyVersion "HOL-Library.Multiset"
begin

text \<open>
  The suspension of the other threads of the process, \<^verbatim>\<open>SuspendThreads\<close> and \<^verbatim>\<open>ResumeThreads\<close> of \<^verbatim>\<open>windows/attach.cpp\<close>. Windows is a
  parameter: what it answers is a function of everything that it was asked so far.
\<close>

section \<open>Windows\<close>

type_synonym dword = "32 word"
type_synonym handle = "64 word"

text \<open>The calls of Windows and of the interpreter, with what the answer was where a handle is returned.\<close>

datatype win_call =
    CreateToolhelp32Snapshot handle | Thread32First | Thread32Next
  | OpenThread dword handle | SuspendThread handle | GetThreadContext handle | ResumeThread handle | SwitchToThread
  | CreateEvent handle | CloseHandle handle | Sleep nat | HeapDestroy
  | PyEval_ThreadsInitialized | Py_AddPendingCall | WaitForSingleObject nat | CurrentThread | PyThreadState_New
  | PyGILState_Ensure | PyGILState_Release | PyEval_InitThreads | PyEval_ReleaseLock | PyRun_SimpleString string
  | OpenFileMapping handle | MapViewOfFile bool | UnmapViewOfFile | SetEvent handle | FreeLibraryAndExitThread

type_synonym history = "win_call list"

record thread_entry =
  te_dwSize :: nat
  te_th32ThreadID :: dword
  te_th32OwnerProcessID :: dword

datatype arch = X86 | AMD64 | OtherArch

text \<open>
  \<open>os_mem\<close> is what is read from the memory of the process at an address; a snapshot is its handle and its entries, none when
  \<^verbatim>\<open>Thread32First\<close> fails; \<open>os_order\<close> is the order in which the entries of a hash map are visited and \<open>os_heap\<close>
  whether a map has allocated memory in the heap of its own; \<open>os_threadsInited\<close> is \<^verbatim>\<open>PyEval_ThreadsInitialized\<close>, \<open>os_current\<close> says whether the
  interpreter has a current thread.
\<close>

record win_os =
  os_arch :: arch
  os_thread :: dword
  os_process :: dword
  os_snapshot :: "history \<Rightarrow> handle \<times> thread_entry list"
  os_open :: "history \<Rightarrow> dword \<Rightarrow> handle"
  os_context :: "history \<Rightarrow> handle \<Rightarrow> 64 word"
  os_mem :: "64 word \<Rightarrow> 64 word"
  os_order :: "(dword \<times> handle) list \<Rightarrow> (dword \<times> handle) list"
  os_threadsInited :: "history \<Rightarrow> bool"
  os_event :: "history \<Rightarrow> handle"
  os_heap :: "history \<Rightarrow> bool"
  os_current :: "history \<Rightarrow> bool"

text \<open>The state of the attaching thread: what it asked, the threads it has suspended, and the two intervals of the interpreter.\<close>

record wx =
  wx_calls :: history
  wx_threads :: "(dword \<times> handle) list"
  wx_check_interval :: cint
  wx_switch_interval :: dword

definition do_call :: "win_call \<Rightarrow> wx \<Rightarrow> wx" where
  "do_call c s = s \<lparr> wx_calls := wx_calls s @ [c] \<rparr>"

abbreviation INVALID_HANDLE_VALUE :: handle where
  "INVALID_HANDLE_VALUE \<equiv> -1"

definition threadsInited :: "win_os \<Rightarrow> wx \<Rightarrow> bool \<times> wx" where
  "threadsInited os s = (os_threadsInited os (wx_calls s), do_call PyEval_ThreadsInitialized s)"

section \<open>\<^verbatim>\<open>SuspendThreads\<close>\<close>

text \<open>
  The test whether the instruction pointer of a thread is in \<^verbatim>\<open>Py_AddPendingCall\<close>, as it is written for each architecture: it compares
  with what is stored at the address of the function.
\<close>

definition adding_pending_call :: "win_os \<Rightarrow> 64 word \<Rightarrow> 64 word \<Rightarrow> bool" where
  "adding_pending_call os addPendingCall ip =
     (case os_arch os of
        X86 \<Rightarrow> (ucast (os_mem os addPendingCall) :: dword) \<le> ucast ip \<and>
          (ucast ip :: dword) \<le> ucast (os_mem os addPendingCall) + 0x100
      | AMD64 \<Rightarrow> os_mem os addPendingCall \<le> ip \<and> ip \<le> os_mem os (addPendingCall + 8 * 0x100)
      | OtherArch \<Rightarrow> False)"

text \<open>The work on one entry of a snapshot; the result says whether a thread was suspended.\<close>

definition suspend_entry :: "win_os \<Rightarrow> 64 word \<Rightarrow> thread_entry \<Rightarrow> wx \<Rightarrow> bool \<times> wx" where
  "suspend_entry os addPendingCall te s =
     (if 16 \<le> te_dwSize te \<and> te_th32OwnerProcessID te = os_process os \<and> te_th32ThreadID te \<noteq> os_thread os \<and>
         map_of (wx_threads s) (te_th32ThreadID te) = None then
        let hThread = os_open os (wx_calls s) (te_th32ThreadID te); s1 = do_call (OpenThread (te_th32ThreadID te) hThread) s in
        if hThread \<noteq> 0 then
          let s2 = do_call (SuspendThread hThread) s1; ip = os_context os (wx_calls s2) hThread;
              s3 = do_call (GetThreadContext hThread) s2 in
          (True,
           if adding_pending_call os addPendingCall ip
           then do_call (CloseHandle hThread) (do_call SwitchToThread (do_call (ResumeThread hThread) s3))
           else s3 \<lparr> wx_threads := wx_threads s3 @ [(te_th32ThreadID te, hThread)] \<rparr>)
        else (False, s1)
      else (False, s))"

text \<open>The loop over the entries, which ends early when threads are initialized meanwhile.\<close>

fun suspend_entries :: "win_os \<Rightarrow> 64 word \<Rightarrow> bool \<Rightarrow> thread_entry list \<Rightarrow> wx \<Rightarrow> bool \<times> wx" where
  "suspend_entries os p suspended [] s = (suspended, s)"
| "suspend_entries os p suspended (te # tes) s =
     (let (b, s1) = suspend_entry os p te s; suspended = (suspended \<or> b); s2 = do_call Thread32Next s1 in
      if tes = [] then (suspended, s2)
      else
        let (inited, s3) = threadsInited os s2 in
        if inited then (suspended, s3) else suspend_entries os p suspended tes s3)"

definition suspend_round :: "win_os \<Rightarrow> 64 word \<Rightarrow> wx \<Rightarrow> bool \<times> wx" where
  "suspend_round os p s =
     (let (h, tes) = os_snapshot os (wx_calls s); s1 = do_call (CreateToolhelp32Snapshot h) s in
      if h \<noteq> INVALID_HANDLE_VALUE then
        let (suspended, s2) = suspend_entries os p False tes (do_call Thread32First s1) in (suspended, do_call (CloseHandle h) s2)
      else (False, s1))"

text \<open>The loop over snapshots; None: not finished after the given number of rounds.\<close>

fun SuspendThreads :: "win_os \<Rightarrow> 64 word \<Rightarrow> nat \<Rightarrow> wx \<Rightarrow> wx option" where
  "SuspendThreads os p 0 s = None"
| "SuspendThreads os p (Suc n) s =
     (let (suspended, s1) = suspend_round os p s in
      if suspended then
        let (inited, s2) = threadsInited os s1 in
        if inited then Some s2 else SuspendThreads os p n s2
      else Some s1)"

definition ResumeThreads :: "win_os \<Rightarrow> wx \<Rightarrow> wx" where
  "ResumeThreads os s =
     (fold (\<lambda>(t, h) s. do_call (CloseHandle h) (do_call (ResumeThread h) s)) (os_order os (wx_threads s)) s)
       \<lparr> wx_threads := [] \<rparr>"

section \<open>Suspensions and handles\<close>

text \<open>How often the thread of a handle was suspended and not resumed, and how often the handle was opened and not closed.\<close>

fun suspends :: "handle \<Rightarrow> win_call \<Rightarrow> int" where
  "suspends h (SuspendThread k) = of_bool (h = k)"
| "suspends h (ResumeThread k) = - of_bool (h = k)"
| "suspends h _ = 0"

fun opens :: "handle \<Rightarrow> win_call \<Rightarrow> int" where
  "opens h (OpenThread t k) = of_bool (h = k)"
| "opens h (CreateToolhelp32Snapshot k) = of_bool (h = k)"
| "opens h (CreateEvent k) = of_bool (h = k)"
| "opens h (OpenFileMapping k) = of_bool (h = k)"
| "opens h (CloseHandle k) = - of_bool (h = k)"
| "opens h _ = 0"

definition suspend_count :: "handle \<Rightarrow> wx \<Rightarrow> int" where
  "suspend_count h s = (\<Sum>c\<leftarrow>wx_calls s. suspends h c)"

definition open_count :: "handle \<Rightarrow> wx \<Rightarrow> int" where
  "open_count h s = (\<Sum>c\<leftarrow>wx_calls s. opens h c)"

text \<open>The part of the counts that the map of suspended threads does not account for.\<close>

definition unaccounted :: "handle \<Rightarrow> wx \<Rightarrow> int \<times> int" where
  "unaccounted h s =
     (suspend_count h s - int (count (image_mset snd (mset (wx_threads s))) h),
      open_count h s - int (count (image_mset snd (mset (wx_threads s))) h))"

definition valid_handle :: "handle \<Rightarrow> bool" where
  "valid_handle h \<longleftrightarrow> h \<noteq> 0 \<and> h \<noteq> INVALID_HANDLE_VALUE"

lemma count_do_call [simp]:
  "suspend_count h (do_call c s) = suspend_count h s + suspends h c" "open_count h (do_call c s) = open_count h s + opens h c"
  "wx_threads (do_call c s) = wx_threads s" "wx_check_interval (do_call c s) = wx_check_interval s"
  "wx_switch_interval (do_call c s) = wx_switch_interval s" "wx_calls (do_call c s) = wx_calls s @ [c]"
  "suspend_count h (s \<lparr> wx_threads := ts \<rparr>) = suspend_count h s" "open_count h (s \<lparr> wx_threads := ts \<rparr>) = open_count h s"
  by (simp_all add: suspend_count_def open_count_def do_call_def)

lemma threadsInited_simps [simp]:
  "unaccounted h (snd (threadsInited os s)) = unaccounted h s" "wx_threads (snd (threadsInited os s)) = wx_threads s"
  by (simp_all add: threadsInited_def unaccounted_def)

lemma unaccounted_do_call:
  "unaccounted h (do_call c s) = (fst (unaccounted h s) + suspends h c, snd (unaccounted h s) + opens h c)"
  by (simp add: unaccounted_def)

lemma suspend_entry_accounted:
  assumes "valid_handle h"
  shows "unaccounted h (snd (suspend_entry os p te s)) = unaccounted h s"
  using assms by (auto simp: suspend_entry_def unaccounted_def valid_handle_def Let_def)

lemma suspend_entries_accounted:
  assumes "valid_handle h"
  shows "unaccounted h (snd (suspend_entries os p b tes s)) = unaccounted h s"
proof (induction tes arbitrary: b s)
  case (Cons te tes)
  show ?case
    using Cons suspend_entry_accounted [OF assms, of os p te s]
    by (auto simp: Let_def threadsInited_def unaccounted_do_call split: prod.split)
qed simp

lemma suspend_round_accounted:
  assumes "valid_handle h"
  shows "unaccounted h (snd (suspend_round os p s)) = unaccounted h s"
  using assms suspend_entries_accounted [OF assms, of os p False]
  by (auto simp: suspend_round_def Let_def unaccounted_do_call valid_handle_def prod_eq_iff split: prod.split)

lemma SuspendThreads_accounted:
  assumes "valid_handle h" and "SuspendThreads os p n s = Some s'"
  shows "unaccounted h s' = unaccounted h s"
  using assms(2)
proof (induction n arbitrary: s)
  case (Suc n)
  then show ?case
    using suspend_round_accounted [OF assms(1), of os p s]
    by (auto simp: Let_def threadsInited_def unaccounted_do_call split: prod.splits if_splits)
qed simp

lemma resume_all:
  "suspend_count h (fold (\<lambda>(t, k) s. do_call (CloseHandle k) (do_call (ResumeThread k) s)) ts s) =
     suspend_count h s - int (count (image_mset snd (mset ts)) h)"
  "open_count h (fold (\<lambda>(t, k) s. do_call (CloseHandle k) (do_call (ResumeThread k) s)) ts s) =
     open_count h s - int (count (image_mset snd (mset ts)) h)"
  by (induction ts arbitrary: s) auto

lemma ResumeThreads_counts:
  assumes "\<And>ts. mset (os_order os ts) = mset ts"
  shows "(suspend_count h (ResumeThreads os s), open_count h (ResumeThreads os s)) = unaccounted h s"
    and "wx_threads (ResumeThreads os s) = []"
  by (simp_all add: ResumeThreads_def resume_all unaccounted_def assms)

text \<open>
  Whatever Windows answers: once the threads that were suspended are resumed, every thread is suspended exactly as often as before,
  also those that were found in \<^verbatim>\<open>Py_AddPendingCall\<close> and let go, and every handle that was opened is closed.
\<close>

lemma suspended_threads_resumed:
  assumes "SuspendThreads os p n s = Some s1" and "wx_threads s = []" and "\<And>ts. mset (os_order os ts) = mset ts"
    and "valid_handle h"
  shows "suspend_count h (ResumeThreads os s1) = suspend_count h s \<and> open_count h (ResumeThreads os s1) = open_count h s \<and>
    wx_threads (ResumeThreads os s1) = []"
  using ResumeThreads_counts(1) [OF assms(3), of h s1] ResumeThreads_counts(2) [OF assms(3), of s1] SuspendThreads_accounted [OF assms(4,1)] assms(2)
  by (simp add: unaccounted_def)

section \<open>The loop over snapshots\<close>

text \<open>The threads of this process that a list of entries names, other than the attaching one.\<close>

definition other_threads :: "win_os \<Rightarrow> thread_entry list \<Rightarrow> dword set" where
  "other_threads os tes =
     {te_th32ThreadID te | te. te \<in> set tes \<and> 16 \<le> te_dwSize te \<and> te_th32OwnerProcessID te = os_process os \<and>
        te_th32ThreadID te \<noteq> os_thread os}"

definition suspended_ids :: "wx \<Rightarrow> dword list" where
  "suspended_ids s = map fst (wx_threads s)"

lemma suspended_ids_simps [simp]:
  "suspended_ids (do_call c s) = suspended_ids s" "suspended_ids (snd (threadsInited os s)) = suspended_ids s"
  by (simp_all add: suspended_ids_def threadsInited_def)

text \<open>One entry: the map only grows, by a thread that it did not have.\<close>

lemma suspend_entry_ids:
  "suspended_ids (snd (suspend_entry os p te s)) = suspended_ids s \<or>
   (\<exists>t \<in> other_threads os [te]. t \<notin> set (suspended_ids s) \<and>
      suspended_ids (snd (suspend_entry os p te s)) = suspended_ids s @ [t])"
  by (auto simp: suspend_entry_def Let_def suspended_ids_def other_threads_def map_of_eq_None_iff)

text \<open>After the first \<open>k\<close> calls no thread reports an instruction pointer in \<^verbatim>\<open>Py_AddPendingCall\<close> any more.\<close>

definition pending_calls_end :: "win_os \<Rightarrow> 64 word \<Rightarrow> nat \<Rightarrow> bool" where
  "pending_calls_end os p k \<longleftrightarrow> (\<forall>cs h. k \<le> length cs \<longrightarrow> \<not> adding_pending_call os p (os_context os cs h))"

lemma suspend_entry_grows:
  assumes "pending_calls_end os p k" and "fst (suspend_entry os p te s)" and "k \<le> length (wx_calls s)"
  shows "length (suspended_ids s) < length (suspended_ids (snd (suspend_entry os p te s)))"
  using assms by (auto simp: suspend_entry_def Let_def suspended_ids_def pending_calls_end_def split: if_splits)

lemma suspend_entry_length: "length (wx_calls s) \<le> length (wx_calls (snd (suspend_entry os p te s)))"
  by (simp add: suspend_entry_def Let_def)

text \<open>What a step of the loops does to the map: \<open>T\<close> are the threads that it may add.\<close>

definition ids_extend :: "dword set \<Rightarrow> wx \<Rightarrow> wx \<Rightarrow> bool" where
  "ids_extend T s s' \<longleftrightarrow> (distinct (suspended_ids s) \<longrightarrow> distinct (suspended_ids s')) \<and>
     set (suspended_ids s) \<subseteq> set (suspended_ids s') \<and>
     set (suspended_ids s') \<subseteq> set (suspended_ids s) \<union> T \<and> length (suspended_ids s) \<le> length (suspended_ids s')"

lemma ids_extend_refl [simp]: "suspended_ids s = suspended_ids s' \<Longrightarrow> ids_extend T s s'"
  by (simp add: ids_extend_def)

lemma ids_extend_trans: "ids_extend T s s1 \<Longrightarrow> ids_extend T s1 s2 \<Longrightarrow> ids_extend T s s2"
  by (auto simp: ids_extend_def)

lemma ids_extend_cong: "suspended_ids s = suspended_ids t \<Longrightarrow> suspended_ids s' = suspended_ids t' \<Longrightarrow> ids_extend T s s' = ids_extend T t t'"
  by (simp add: ids_extend_def)

lemma suspend_entry_extends: "other_threads os [te] \<subseteq> T \<Longrightarrow> ids_extend T s (snd (suspend_entry os p te s))"
  using suspend_entry_ids [of os p te s] by (auto simp: ids_extend_def)

lemma other_threads_Cons: "other_threads os (te # tes) = other_threads os [te] \<union> other_threads os tes"
  by (auto simp: other_threads_def)

lemma suspend_entries_extends: "other_threads os tes \<subseteq> T \<Longrightarrow> ids_extend T s (snd (suspend_entries os p b tes s))"
proof (induction tes arbitrary: b s)
  case (Cons te tes)
  let ?s1 = "snd (suspend_entry os p te s)"
  let ?s3 = "do_call PyEval_ThreadsInitialized (do_call Thread32Next ?s1)"
  have 1: "ids_extend T s ?s1" using Cons.prems by (intro suspend_entry_extends) (simp add: other_threads_Cons [of _ te tes])
  then have 3: "ids_extend T s ?s3" "ids_extend T s (do_call Thread32Next ?s1)" by (simp_all add: ids_extend_def)
  have "ids_extend T ?s3 (snd (suspend_entries os p b' tes ?s3))" for b'
    using Cons by (simp add: other_threads_Cons [of _ te tes])
  from ids_extend_trans [OF 3(1) this] show ?case
    using 3 by (auto simp: Let_def threadsInited_def split: prod.split)
qed simp

lemma suspend_entries_grows:
  assumes "pending_calls_end os p k" and "fst (suspend_entries os p b tes s)" and "k \<le> length (wx_calls s)"
  shows "b \<or> length (suspended_ids s) < length (suspended_ids (snd (suspend_entries os p b tes s)))"
  using assms(2,3)
proof (induction tes arbitrary: b s)
  case (Cons te tes)
  obtain b1 s1 where 1: "suspend_entry os p te s = (b1, s1)" by fastforce
  have le: "length (suspended_ids s) \<le> length (suspended_ids s1)"
    using suspend_entry_extends [OF subset_UNIV, where os = os and te = te and s = s and p = p] 1 by (simp add: ids_extend_def)
  have lt: "b1 \<Longrightarrow> length (suspended_ids s) < length (suspended_ids s1)"
    using suspend_entry_grows [OF assms(1), of te s] 1 Cons.prems(2) by simp
  let ?s3 = "do_call PyEval_ThreadsInitialized (do_call Thread32Next s1)"
  have "length (suspended_ids s1) \<le> length (suspended_ids (snd (suspend_entries os p (b \<or> b1) tes ?s3)))"
    using suspend_entries_extends [OF subset_UNIV, where os = os and tes = tes and s = ?s3 and p = p and b = "b \<or> b1"] by (simp add: ids_extend_def)
  moreover have "k \<le> length (wx_calls ?s3)" using suspend_entry_length [of s os p te] Cons.prems(2) 1 by simp
  ultimately show ?case using Cons.IH [of "b \<or> b1" ?s3] Cons.prems 1 le lt
    by (force simp: Let_def threadsInited_def split: if_splits)
qed simp

text \<open>Every snapshot names threads of \<open>T\<close> only.\<close>

definition threads_within :: "win_os \<Rightarrow> dword set \<Rightarrow> bool" where
  "threads_within os T \<longleftrightarrow> (\<forall>cs. other_threads os (snd (os_snapshot os cs)) \<subseteq> T)"

lemma suspend_round_extends: "threads_within os T \<Longrightarrow> ids_extend T s (snd (suspend_round os p s))"
proof -
  assume T: "threads_within os T"
  obtain h tes where h: "os_snapshot os (wx_calls s) = (h, tes)" by fastforce
  let ?s1 = "do_call Thread32First (do_call (CreateToolhelp32Snapshot h) s)"
  have "ids_extend T ?s1 (snd (suspend_entries os p False tes ?s1))"
    using T h by (intro suspend_entries_extends) (metis snd_conv threads_within_def)
  then show ?thesis using h by (auto simp: suspend_round_def Let_def ids_extend_def split: prod.split)
qed

lemma suspend_round_grows:
  assumes "pending_calls_end os p k" and "fst (suspend_round os p s)" and "k \<le> length (wx_calls s)"
  shows "length (suspended_ids s) < length (suspended_ids (snd (suspend_round os p s)))"
proof -
  obtain h tes where h: "os_snapshot os (wx_calls s) = (h, tes)" by fastforce
  let ?s1 = "do_call Thread32First (do_call (CreateToolhelp32Snapshot h) s)"
  show ?thesis
    using assms(2,3) h suspend_entries_grows [OF assms(1), of False tes ?s1]
    by (auto simp: suspend_round_def Let_def split: prod.splits if_splits)
qed

lemma ids_bounded: "finite T \<Longrightarrow> distinct (suspended_ids s) \<Longrightarrow> set (suspended_ids s) \<subseteq> T \<Longrightarrow> length (suspended_ids s) \<le> card T"
  by (metis card_mono distinct_card)

section \<open>Who is suspended in the end\<close>

text \<open>Every thread can be opened and a snapshot can be taken.\<close>

definition all_access :: "win_os \<Rightarrow> bool" where
  "all_access os \<longleftrightarrow> (\<forall>cs t. os_open os cs t \<noteq> 0) \<and> (\<forall>cs. fst (os_snapshot os cs) \<noteq> INVALID_HANDLE_VALUE)"

lemma suspend_entry_none:
  assumes "all_access os" and "\<not> fst (suspend_entry os p te s)"
  shows "other_threads os [te] \<subseteq> set (suspended_ids s)"
  using assms by (auto simp: suspend_entry_def other_threads_def all_access_def suspended_ids_def Let_def map_of_eq_None_iff
      split: if_splits)

lemma suspend_entries_flag: "b \<Longrightarrow> fst (suspend_entries os p b tes s)"
  by (induction tes arbitrary: b s) (auto simp: Let_def threadsInited_def split: prod.split)

lemma suspend_entries_none:
  assumes "all_access os" and "\<And>cs. \<not> os_threadsInited os cs" and "\<not> fst (suspend_entries os p b tes s)"
  shows "other_threads os tes \<subseteq> set (suspended_ids (snd (suspend_entries os p b tes s)))"
  using assms(3)
proof (induction tes arbitrary: b s)
  case (Cons te tes)
  obtain b1 s1 where 1: "suspend_entry os p te s = (b1, s1)" by fastforce
  let ?s3 = "do_call PyEval_ThreadsInitialized (do_call Thread32Next s1)"
  have s1: "set (suspended_ids s) \<subseteq> set (suspended_ids s1)"
    using suspend_entry_extends [OF subset_UNIV, where os = os and te = te and s = s and p = p] 1 by (simp add: ids_extend_def)
  have s3: "set (suspended_ids s1) \<subseteq> set (suspended_ids (snd (suspend_entries os p (b \<or> b1) tes ?s3)))"
    using suspend_entries_extends [OF subset_UNIV, where os = os and tes = tes and s = ?s3 and p = p and b = "b \<or> b1"]
    by (simp add: ids_extend_def)
  have "\<not> b1" using Cons.prems 1 assms(2) suspend_entries_flag by (auto simp: Let_def threadsInited_def split: if_splits)
  then have te: "other_threads os [te] \<subseteq> set (suspended_ids s)" using suspend_entry_none [OF assms(1), of p te s] 1 by simp
  show ?case
  proof (cases "tes = []")
    case True
    with te s1 1 show ?thesis by auto
  next
    case False
    with Cons.IH [of "b \<or> b1" ?s3] Cons.prems te s1 s3 1 assms(2) show ?thesis
      by (auto simp: other_threads_Cons [of _ te tes] threadsInited_def)
  qed
qed (simp add: other_threads_def)

text \<open>The calls that a computation adds satisfy \<open>P\<close>; those of a round after its snapshot do not take another one.\<close>

definition calls_extend :: "(win_call \<Rightarrow> bool) \<Rightarrow> wx \<Rightarrow> wx \<Rightarrow> bool" where
  "calls_extend P s s' \<longleftrightarrow> (\<exists>cs. wx_calls s' = wx_calls s @ cs \<and> list_all P cs)"

fun within_round :: "win_call \<Rightarrow> bool" where
  "within_round (CreateToolhelp32Snapshot h) = False"
| "within_round (CreateEvent h) = False"
| "within_round (Sleep n) = False"
| "within_round HeapDestroy = False"
| "within_round Py_AddPendingCall = False"
| "within_round (WaitForSingleObject n) = False"
| "within_round CurrentThread = False"
| "within_round PyThreadState_New = False"
| "within_round PyGILState_Ensure = False"
| "within_round PyGILState_Release = False"
| "within_round PyEval_InitThreads = False"
| "within_round PyEval_ReleaseLock = False"
| "within_round (PyRun_SimpleString c) = False"
| "within_round (OpenFileMapping h) = False"
| "within_round (MapViewOfFile b) = False"
| "within_round UnmapViewOfFile = False"
| "within_round (SetEvent h) = False"
| "within_round FreeLibraryAndExitThread = False"
| "within_round _ = True"

lemma calls_extend_refl [simp]: "calls_extend P s s"
  by (simp add: calls_extend_def)

lemma calls_extend_trans: "calls_extend P s s1 \<Longrightarrow> calls_extend P s1 s2 \<Longrightarrow> calls_extend P s s2"
  by (auto simp: calls_extend_def)

lemma calls_extend_do_call: "calls_extend P s s' \<Longrightarrow> P c \<Longrightarrow> calls_extend P s (do_call c s')"
  by (auto simp: calls_extend_def)

lemma calls_extend_mono: "calls_extend P s s' \<Longrightarrow> (\<And>c. P c \<Longrightarrow> Q c) \<Longrightarrow> calls_extend Q s s'"
  by (auto simp: calls_extend_def list_all_iff)

lemma suspend_entry_calls: "calls_extend within_round s (snd (suspend_entry os p te s))"
  by (auto simp: suspend_entry_def Let_def calls_extend_def)

lemma suspend_entries_calls: "calls_extend within_round s (snd (suspend_entries os p b tes s))"
proof (induction tes arbitrary: b s)
  case (Cons te tes)
  let ?s2 = "do_call Thread32Next (snd (suspend_entry os p te s))"
  have "calls_extend within_round s ?s2" by (rule calls_extend_do_call [OF suspend_entry_calls]) simp
  moreover from this have 3: "calls_extend within_round s (do_call PyEval_ThreadsInitialized ?s2)"
    by (rule calls_extend_do_call) simp
  moreover note calls_extend_trans [OF 3 Cons]
  ultimately show ?case by (auto simp: Let_def threadsInited_def split: prod.split)
qed simp

lemma suspend_round_last:
  assumes "all_access os" and "\<And>cs. \<not> os_threadsInited os cs" and "suspend_round os p s = (False, s')"
  shows "\<exists>h rest. wx_calls s' = wx_calls s @ CreateToolhelp32Snapshot h # rest \<and> list_all within_round rest \<and>
    other_threads os (snd (os_snapshot os (wx_calls s))) \<subseteq> set (suspended_ids s')"
proof -
  obtain h tes where h: "os_snapshot os (wx_calls s) = (h, tes)" by fastforce
  then have valid: "h \<noteq> INVALID_HANDLE_VALUE" using assms(1) by (metis all_access_def fst_conv)
  let ?s1 = "do_call Thread32First (do_call (CreateToolhelp32Snapshot h) s)"
  obtain b s2 where s2: "suspend_entries os p False tes ?s1 = (b, s2)" by fastforce
  have s': "b = False" "s' = do_call (CloseHandle h) s2" using assms(3) h valid s2 by (simp_all add: suspend_round_def)
  obtain cs where "wx_calls s2 = wx_calls ?s1 @ cs" "list_all within_round cs"
    using suspend_entries_calls [of ?s1 os p False tes] s2 by (auto simp: calls_extend_def)
  moreover have "other_threads os tes \<subseteq> set (suspended_ids s2)"
    using suspend_entries_none [OF assms(1,2), of p False tes ?s1] s2 s' by simp
  ultimately show ?thesis using s' h
    by (intro exI [of _ h] exI [of _ "Thread32First # cs @ [CloseHandle h]"]) simp
qed

text \<open>
  When threads are not initialized meanwhile, the suspension only ends with every other thread of the process that the last snapshot names
  in the map, and the threads of the handles in the map are suspended.
\<close>

theorem all_threads_suspended:
  assumes "all_access os" and "\<And>cs. \<not> os_threadsInited os cs" and "wx_threads s = []" and "SuspendThreads os p n s = Some s'"
  shows "(\<exists>cs h rest. wx_calls s' = cs @ CreateToolhelp32Snapshot h # rest \<and> list_all within_round rest \<and>
      other_threads os (snd (os_snapshot os cs)) \<subseteq> set (suspended_ids s')) \<and>
    (\<forall>h. valid_handle h \<longrightarrow> suspend_count h s' = suspend_count h s + int (count (image_mset snd (mset (wx_threads s'))) h))"
proof -
  have "\<exists>cs h rest. wx_calls s' = cs @ CreateToolhelp32Snapshot h # rest \<and> list_all within_round rest \<and>
      other_threads os (snd (os_snapshot os cs)) \<subseteq> set (suspended_ids s')"
    using assms(4)
  proof (induction n arbitrary: s)
    case (Suc n)
    obtain b s1 where 1: "suspend_round os p s = (b, s1)" by fastforce
    show ?case
    proof (cases b)
      case True
      with Suc 1 assms(2) show ?thesis by (auto simp: threadsInited_def)
    next
      case False
      with Suc.prems 1 suspend_round_last [OF assms(1,2), of p s s1] show ?thesis by auto
    qed
  qed simp
  moreover have "suspend_count h s' = suspend_count h s + int (count (image_mset snd (mset (wx_threads s'))) h)"
    if "valid_handle h" for h
    using SuspendThreads_accounted [OF that assms(4)] assms(3) by (simp add: unaccounted_def)
  ultimately show ?thesis by blast
qed

text \<open>The calls of the whole suspension, and what it leaves alone.\<close>

definition suspension_call :: "win_call \<Rightarrow> bool" where
  "suspension_call c \<longleftrightarrow> within_round c \<or> (\<exists>h. c = CreateToolhelp32Snapshot h)"

lemma suspend_round_calls: "calls_extend suspension_call s (snd (suspend_round os p s))"
proof -
  obtain h tes where h: "os_snapshot os (wx_calls s) = (h, tes)" by fastforce
  let ?s1 = "do_call Thread32First (do_call (CreateToolhelp32Snapshot h) s)"
  have "calls_extend suspension_call s ?s1" by (auto simp: calls_extend_def suspension_call_def)
  also have "calls_extend suspension_call ?s1 (snd (suspend_entries os p False tes ?s1))"
    by (rule calls_extend_mono [OF suspend_entries_calls]) (simp add: suspension_call_def)
  finally (calls_extend_trans) have 2: "calls_extend suspension_call s (snd (suspend_entries os p False tes ?s1))" .
  have "calls_extend suspension_call s (do_call (CreateToolhelp32Snapshot h) s)"
    by (auto simp: calls_extend_def suspension_call_def)
  moreover have "calls_extend suspension_call s (do_call (CloseHandle h) (snd (suspend_entries os p False tes ?s1)))"
    by (rule calls_extend_do_call [OF 2]) (simp add: suspension_call_def)
  ultimately show ?thesis using h by (auto simp: suspend_round_def Let_def split: prod.split)
qed

lemma SuspendThreads_calls: "SuspendThreads os p n s = Some s' \<Longrightarrow> calls_extend suspension_call s s'"
proof (induction n arbitrary: s)
  case (Suc n)
  obtain b s1 where 1: "suspend_round os p s = (b, s1)" by fastforce
  then have s1: "calls_extend suspension_call s s1" using suspend_round_calls [of s os p] by simp
  then have s2: "calls_extend suspension_call s (do_call PyEval_ThreadsInitialized s1)"
    by (rule calls_extend_do_call) (simp add: suspension_call_def)
  with Suc 1 s1 show ?case by (auto simp: threadsInited_def intro: calls_extend_trans split: if_splits)
qed simp

text \<open>Every round makes at least one call, and the map grows in a round that suspends a thread after the first \<open>k\<close> calls.\<close>

lemma SuspendThreads_ends:
  assumes "threads_within os T" and "finite T" and "pending_calls_end os p k"
    and "distinct (suspended_ids s)" and "set (suspended_ids s) \<subseteq> T"
    and "(k - length (wx_calls s)) + card T < n + length (suspended_ids s)"
  shows "\<exists>s'. SuspendThreads os p n s = Some s'"
  using assms(4-6)
proof (induction n arbitrary: s)
  case 0
  then show ?case using ids_bounded [OF assms(2)] by fastforce
next
  case (Suc n)
  obtain b s1 where 1: "suspend_round os p s = (b, s1)" by fastforce
  have e: "distinct (suspended_ids s1)" "set (suspended_ids s1) \<subseteq> T" "length (suspended_ids s) \<le> length (suspended_ids s1)"
    using suspend_round_extends [OF assms(1), of s p] 1 Suc.prems by (auto simp: ids_extend_def)
  have c: "length (wx_calls s) \<le> length (wx_calls s1)"
    using suspend_round_calls [of s os p] 1 by (auto simp: calls_extend_def)
  have g: "b \<Longrightarrow> k \<le> length (wx_calls s) \<Longrightarrow> length (suspended_ids s) < length (suspended_ids s1)"
    using suspend_round_grows [OF assms(3), of s] 1 by simp
  have "(k - length (wx_calls (do_call PyEval_ThreadsInitialized s1))) + card T < n + length (suspended_ids s1)" if b
    using Suc.prems(3) e(3) c g [OF that] by (cases "k \<le> length (wx_calls s)") auto
  with Suc.IH [of "do_call PyEval_ThreadsInitialized s1"] 1 e show ?case by (auto simp: threadsInited_def Let_def)
qed

text \<open>C27. 
  When the threads of the process that the snapshots name are those of a finite set and none of them is found adding a pending call
  after some number of calls, the suspension of the other threads ends.
\<close>

theorem suspend_threads_terminates:
  assumes "threads_within os T" and "finite T" and "pending_calls_end os p k" and "wx_threads s = []" and "k + card T < n"
  shows "\<exists>s'. SuspendThreads os p n s = Some s'"
proof (rule SuspendThreads_ends [OF assms(1-3)])
  show "(k - length (wx_calls s)) + card T < n + length (suspended_ids s)" using assms(5) by linarith
qed (simp_all add: suspended_ids_def assms(4))

definition intervals :: "wx \<Rightarrow> cint \<times> dword" where
  "intervals s = (wx_check_interval s, wx_switch_interval s)"

lemma intervals_simps [simp]: "intervals (do_call c s) = intervals s" "intervals (s \<lparr> wx_threads := ts \<rparr>) = intervals s"
  by (simp_all add: intervals_def)

lemma suspend_entry_intervals: "intervals (snd (suspend_entry os p te s)) = intervals s"
  by (simp add: suspend_entry_def Let_def)

lemma suspend_entries_intervals: "intervals (snd (suspend_entries os p b tes s)) = intervals s"
proof (induction tes arbitrary: b s)
  case (Cons te tes)
  with suspend_entry_intervals [of os p te s] show ?case by (auto simp: Let_def threadsInited_def split: prod.split)
qed simp

lemma suspend_round_intervals: "intervals (snd (suspend_round os p s)) = intervals s"
proof -
  obtain h tes where "os_snapshot os (wx_calls s) = (h, tes)" by fastforce
  with suspend_entries_intervals [of os p False tes "do_call Thread32First (do_call (CreateToolhelp32Snapshot h) s)"]
  show ?thesis by (auto simp: suspend_round_def Let_def split: prod.split)
qed

lemma SuspendThreads_intervals: "SuspendThreads os p n s = Some s' \<Longrightarrow> intervals s' = intervals s"
proof (induction n arbitrary: s)
  case (Suc n)
  with suspend_round_intervals [of os p s] show ?case by (auto simp: Let_def threadsInited_def split: prod.splits if_splits)
qed simp

lemma resume_fold:
  "intervals (fold (\<lambda>(t, k) s. do_call (CloseHandle k) (do_call (ResumeThread k) s)) ts s) = intervals s"
  "calls_extend within_round s (fold (\<lambda>(t, k) s. do_call (CloseHandle k) (do_call (ResumeThread k) s)) ts s)"
proof (induction ts arbitrary: s)
  case (Cons a ts)
  {
    case 1
    show ?case using Cons(1) by (simp split: prod.split)
  next
    case 2
    obtain t k where a: "a = (t, k)" by fastforce
    have "calls_extend within_round s (do_call (CloseHandle k) (do_call (ResumeThread k) s))" by (auto simp: calls_extend_def)
    then show ?case using Cons(2) a by (auto intro: calls_extend_trans)
  }
qed simp_all

lemma ResumeThreads_keeps: "intervals (ResumeThreads os s) = intervals s" "calls_extend within_round s (ResumeThreads os s)"
  using resume_fold(1) [where ts = "os_order os (wx_threads s)" and s = s] resume_fold(2) [where ts = "os_order os (wx_threads s)" and s = s] by (simp_all add: ResumeThreads_def calls_extend_def)

section \<open>Examples\<close>

text \<open>
  A 64 bit process 7 with the attaching thread 1 and the threads 2 and 3, whose handles are 102 and 103; every snapshot has the handle 99.
  The first time that thread 2 is suspended it is in \<^verbatim>\<open>Py_AddPendingCall\<close>.
\<close>

definition three_threads :: win_os where
  "three_threads = \<lparr> os_arch = AMD64, os_thread = 1, os_process = 7,
     os_snapshot = (\<lambda>cs. (99, map (\<lambda>t. \<lparr> te_dwSize = 28, te_th32ThreadID = t, te_th32OwnerProcessID = 7 \<rparr>) [1, 2, 3])),
     os_open = (\<lambda>cs t. if t = 2 then 102 else 103), os_context = (\<lambda>cs h. if h = 102 \<and> length cs < 8 then 0x5000 else 0),
     os_mem = (\<lambda>a. 0x5000), os_order = rev,
     os_threadsInited = (\<lambda>cs. False), os_event = (\<lambda>cs. 98), os_heap = (\<lambda>cs. True), os_current = (\<lambda>cs. False) \<rparr>"

definition fresh_wx :: wx where
  "fresh_wx = \<lparr> wx_calls = [], wx_threads = [], wx_check_interval = 100, wx_switch_interval = 5000 \<rparr>"

lemmas three_threads_run = three_threads_def fresh_wx_def suspend_round_def suspend_entry_def threadsInited_def
  adding_pending_call_def do_call_def Let_def

lemma three_threads_suspended:
  "map_option wx_threads (SuspendThreads three_threads p (Suc (Suc (Suc n))) fresh_wx) = Some [(3, 103), (2, 102)]"
  by (simp add: three_threads_run)

lemma three_threads_hyps:
  "all_access three_threads" "\<not> os_threadsInited three_threads cs" "wx_threads fresh_wx = []"
  "mset (os_order three_threads ts) = mset ts" "pending_calls_end three_threads p 8"
  "threads_within three_threads {2, 3}"
  by (auto simp: three_threads_def all_access_def fresh_wx_def adding_pending_call_def threads_within_def other_threads_def
      pending_calls_end_def)

theorem suspend_threads_terminates_witness:
  "(\<exists>s'. SuspendThreads three_threads 5 11 fresh_wx = Some s') \<and>
   adding_pending_call three_threads 5 (os_context three_threads [] 102)"
  using suspend_threads_terminates [OF three_threads_hyps(6) _ three_threads_hyps(5) three_threads_hyps(3), of 11 5]
  by (simp add: three_threads_def adding_pending_call_def)

theorem all_threads_suspended_witness:
  "\<exists>s'. SuspendThreads three_threads 5 4 fresh_wx = Some s' \<and> suspend_count 103 s' = 1 \<and> (\<exists>h. CreateToolhelp32Snapshot h \<in> set (wx_calls s'))"
proof -
  obtain s' where 1: "SuspendThreads three_threads 5 4 fresh_wx = Some s'" "wx_threads s' = [(3, 103), (2, 102)]"
    using three_threads_suspended [of 5 1] by (auto simp: numeral_eq_Suc)
  from all_threads_suspended [OF three_threads_hyps(1-3) this(1)] 1 show ?thesis
    by (auto simp: suspend_count_def fresh_wx_def valid_handle_def dest!: spec [of _ 103])
qed

text \<open>A thread that is always found in \<^verbatim>\<open>Py_AddPendingCall\<close> keeps the loop going for ever.\<close>

definition busy_thread :: win_os where
  "busy_thread = three_threads \<lparr> os_context := (\<lambda>cs h. 0x5000),
     os_snapshot := (\<lambda>cs. (99, [\<lparr> te_dwSize = 28, te_th32ThreadID = 2, te_th32OwnerProcessID = 7 \<rparr>])) \<rparr>"

lemma busy_thread_never_ends: "wx_threads s = [] \<Longrightarrow> SuspendThreads busy_thread p n s = None"
  by (induction n arbitrary: s)
    (simp_all add: busy_thread_def three_threads_def suspend_round_def suspend_entry_def threadsInited_def adding_pending_call_def Let_def)

text \<open>
  The test for a thread in \<^verbatim>\<open>Py_AddPendingCall\<close> compares with the instructions of the function, not with its address: a thread that is at the
  start of the function is not found when these bytes are a larger number.
\<close>

lemma pending_call_test_reads_instructions:
  "os_arch os = AMD64 \<Longrightarrow> p < os_mem os p \<Longrightarrow> \<not> adding_pending_call os p p"
  by (auto simp: adding_pending_call_def)

end
