(* ===== verification/WinAttach.thy ===== *)
theory WinAttach
  imports SetTrace WinThreads
begin

text \<open>
  Attaching on Windows: \<^verbatim>\<open>GetPythonModule\<close> of \<^verbatim>\<open>py_win_helpers.hpp\<close>, \<^verbatim>\<open>DoAttach\<close> of \<^verbatim>\<open>windows/attach.cpp\<close> with its attempts to initialize
  threads, and the two functions that \<^verbatim>\<open>attach.cpp\<close> exports. The hand-over between \<^verbatim>\<open>DoAttach\<close> and its callback is in the theory of the
  race; here the callback is part of what the interpreter answers.
\<close>

section \<open>The module of the interpreter\<close>

text \<open>A loaded module: its base name, None when it cannot be read, and what it exports.\<close>

record loaded_module =
  lm_name :: "string option"
  lm_module :: pymodule

definition to_lower :: "char \<Rightarrow> char" where
  "to_lower c = (if 65 \<le> (of_char c :: nat) \<and> (of_char c :: nat) \<le> 90 then char_of ((of_char c :: nat) + 32) else c)"

definition wcsnicmp_equal :: "string \<Rightarrow> string \<Rightarrow> nat \<Rightarrow> bool" where
  "wcsnicmp_equal a b n \<longleftrightarrow> map to_lower (take n a) = map to_lower (take n b)"

text \<open>The results are whether it is an interpreter, and \<^verbatim>\<open>isDebug\<close>.\<close>

definition IsPythonModule :: "loaded_module \<Rightarrow> bool \<times> bool" where
  "IsPythonModule m =
     (case lm_name m of
        None \<Rightarrow> (False, False)
      | Some mod_name \<Rightarrow>
          if wcsnicmp_equal mod_name ''python'' 6 then
            let isDebug = (10 \<le> length mod_name \<and> wcsnicmp_equal (drop 8 mod_name) ''_d'' 2) in
            (mod_exports (lm_module m) ''Py_IsInitialized'' \<and> mod_exports (lm_module m) ''PyGILState_Ensure'' \<and>
               mod_exports (lm_module m) ''PyGILState_Release'', isDebug)
          else (False, False))"

record module_info =
  mi_module :: "pymodule option"
  mi_isDebug :: bool
  mi_error :: int

datatype memory_error = ReadOutOfBounds

text \<open>
  What Windows says about the modules: \<open>pe_enum\<close> is \<^verbatim>\<open>EnumProcessModules\<close>, which gets the number of the try and the size of the buffer,
  and returns whether it succeeded, the number of bytes that are needed and the modules in the buffer; \<open>pe_alloc\<close> is \<^verbatim>\<open>_malloca\<close>.
\<close>

record process_env =
  pe_alloc :: "nat \<Rightarrow> bool"
  pe_enum :: "nat \<Rightarrow> nat \<Rightarrow> bool \<times> nat \<times> loaded_module list"

definition sizeof_HMODULE :: nat where "sizeof_HMODULE = 8"

text \<open>The loop over the first \<open>n\<close> handles in the buffer.\<close>

fun find_python :: "nat \<Rightarrow> loaded_module list \<Rightarrow> memory_error + module_info" where
  "find_python 0 hMods = Inr \<lparr> mi_module = None, mi_isDebug = False, mi_error = -3 \<rparr>"
| "find_python (Suc n) [] = Inl ReadOutOfBounds"
| "find_python (Suc n) (m # hMods) =
     (case IsPythonModule m of
        (True, isDebug) \<Rightarrow> Inr \<lparr> mi_module = Some (lm_module m), mi_isDebug = isDebug, mi_error = 0 \<rparr>
      | (False, _) \<Rightarrow> find_python n hMods)"

fun enum_modules :: "process_env \<Rightarrow> nat \<Rightarrow> nat \<Rightarrow> nat \<Rightarrow> (memory_error + module_info) option" where
  "enum_modules env 0 try modSize = None"
| "enum_modules env (Suc fuel) try modSize =
     (case pe_enum env try modSize of (ok, modsNeeded, hMods) \<Rightarrow>
        if ok then Some (find_python (modsNeeded div sizeof_HMODULE) hMods)
        else if \<not> pe_alloc env modsNeeded then Some (Inr \<lparr> mi_module = None, mi_isDebug = False, mi_error = -2 \<rparr>)
        else enum_modules env fuel (Suc try) modsNeeded)"

definition GetPythonModule :: "process_env \<Rightarrow> nat \<Rightarrow> (memory_error + module_info) option" where
  "GetPythonModule env fuel =
     (let modSize = sizeof_HMODULE * 1024 in
      if \<not> pe_alloc env modSize then Some (Inr \<lparr> mi_module = None, mi_isDebug = False, mi_error = -1 \<rparr>)
      else enum_modules env fuel 0 modSize)"

section \<open>\<^verbatim>\<open>DoAttach\<close>\<close>

definition windows_procs :: "(string \<times> int) list" where
  "windows_procs =
     [(''Py_AddPendingCall'', -100), (''PyInterpreterState_Head'', -110), (''PyGILState_Ensure'', -120),
      (''PyGILState_Release'', -130), (''PyInterpreterState_ThreadHead'', -140), (''PyEval_InitThreads'', -150),
      (''PyEval_ReleaseLock'', -160), (''PyEval_ThreadsInitialized'', -170), (''PyThreadState_Next'', -180),
      (''PyImport_ImportModule'', -190), (''_Py_NoneStruct'', -2000), (''PyRun_SimpleString'', -210)]"

definition has_current_thread_api :: "pymodule \<Rightarrow> bool" where
  "has_current_thread_api m \<longleftrightarrow> mod_exports m ''_PyThreadState_Current'' \<or> mod_exports m ''_PyThreadState_UncheckedGet'' \<or>
     mod_exports m ''_PyThreadState_GetCurrent''"

definition supported_version :: "python_version \<Rightarrow> bool" where
  "supported_version v \<longleftrightarrow> v \<notin> {PythonVersion_Unknown, PythonVersion_25, PythonVersion_26, PythonVersion_30,
     PythonVersion_31, PythonVersion_32}"

text \<open>The intervals are lowered for the attempts and set back after them; the pair holds the two saved values.\<close>

definition lower_interval :: "pymodule \<Rightarrow> wx \<Rightarrow> (cint \<times> dword) \<times> wx" where
  "lower_interval m s =
     (if mod_exports m ''_Py_CheckInterval'' then ((wx_check_interval s, 0), s \<lparr> wx_check_interval := -1 \<rparr>)
      else if mod_exports m ''_PyEval_GetSwitchInterval'' \<and> mod_exports m ''_PyEval_SetSwitchInterval'' then
        ((0, wx_switch_interval s), s \<lparr> wx_switch_interval := 0 \<rparr>)
      else ((0, 0), s))"

definition restore_interval :: "pymodule \<Rightarrow> cint \<times> dword \<Rightarrow> wx \<Rightarrow> wx" where
  "restore_interval m saved s =
     (if mod_exports m ''_Py_CheckInterval'' then s \<lparr> wx_check_interval := fst saved \<rparr>
      else if mod_exports m ''_PyEval_SetSwitchInterval'' then s \<lparr> wx_switch_interval := snd saved \<rparr>
      else s)"

text \<open>What is done while the other threads are suspended.\<close>

definition init_in_this_thread :: "win_os \<Rightarrow> pymodule \<Rightarrow> wx \<Rightarrow> wx" where
  "init_in_this_thread os m s =
     (let version = module_version m; (inited, s1) = threadsInited os s in
      if inited then s1
      else
        let curPyThread = os_current os (wx_calls s1); s2 = do_call CurrentThread s1 in
        if curPyThread then s2
        else
          let s3 = (if PythonVersion_34 \<le> version \<and> mod_exports m ''PyThreadState_New'' then do_call PyThreadState_New s2 else s2);
              s4 = (if PythonVersion_32 \<le> version then do_call PyGILState_Ensure s3 else s3);
              s5 = do_call PyEval_InitThreads s4 in
          if PythonVersion_32 \<le> version then do_call PyGILState_Release s5 else do_call PyEval_ReleaseLock s5)"

text \<open>The loop of the attempts.\<close>

function init_attempts :: "win_os \<Rightarrow> pymodule \<Rightarrow> 64 word \<Rightarrow> nat \<Rightarrow> nat \<Rightarrow> wx \<Rightarrow> wx option" where
  "init_attempts os m addPendingCall fuel attempts s =
     (let (inited, s1) = threadsInited os s in
      if \<not> inited \<and> attempts < 20 then
        let s2 = (if 0 < attempts then do_call (Sleep 10) s1 else s1) in
        case SuspendThreads os addPendingCall fuel (s2 \<lparr> wx_threads := [] \<rparr>) of
          None \<Rightarrow> None
        | Some s3 \<Rightarrow>
            init_attempts os m addPendingCall fuel (Suc attempts) (ResumeThreads os (init_in_this_thread os m s3))
      else Some s1)"
  by pat_completeness auto
termination by (relation "measure (\<lambda>(os, m, p, fuel, attempts, s). 20 - attempts)") auto

declare init_attempts.simps [simp del]

text \<open>Initializing threads when the pending call has not done it.\<close>

definition ensure_threads :: "win_os \<Rightarrow> pymodule \<Rightarrow> 64 word \<Rightarrow> nat \<Rightarrow> wx \<Rightarrow> wx option" where
  "ensure_threads os m addPendingCall fuel s =
     (let (inited, s1) = threadsInited os s in
      if inited then Some s1
      else
        let (saved, s2) = lower_interval m s1 in
        map_option (restore_interval m saved) (init_attempts os m addPendingCall fuel 0 s2))"

definition DoAttach :: "win_os \<Rightarrow> pymodule \<Rightarrow> 64 word \<Rightarrow> nat \<Rightarrow> string \<Rightarrow> wx \<Rightarrow> (int \<times> wx) option" where
  "DoAttach os m addPendingCall fuel command s =
     (if \<not> mod_exports m ''Py_IsInitialized'' then Some (1, s)
      else if \<not> mod_initialized m then Some (2, s)
      else
        case missing_proc m windows_procs of
          Some code \<Rightarrow> Some (code, s)
        | None \<Rightarrow>
            if \<not> has_current_thread_api m then Some (-240, s)
            else if \<not> mod_interp_head m then Some (4, s)
            else if \<not> supported_version (module_version m) then Some (5, s)
            else
              let h = os_event os (wx_calls s);
                  s1 = do_call (CloseHandle h) (do_call (WaitForSingleObject 5000) (do_call Py_AddPendingCall (do_call (CreateEvent h) s))) in
              case ensure_threads os m addPendingCall fuel s1 of
                None \<Rightarrow> None
              | Some s2 \<Rightarrow>
                  let s3 = (if os_heap os (wx_calls s2) then do_call HeapDestroy s2 else s2);
                      (inited, s4) = threadsInited os s3 in
                  if \<not> inited then Some (8, s4)
                  else Some (0, do_call PyGILState_Release (do_call (PyRun_SimpleString command) (do_call PyGILState_Ensure s4))))"

section \<open>The exported functions\<close>

definition AttachAndRunPythonCode ::
  "process_env \<Rightarrow> win_os \<Rightarrow> (pymodule \<Rightarrow> 64 word) \<Rightarrow> nat \<Rightarrow> string \<Rightarrow> wx \<Rightarrow> (memory_error + int \<times> wx) option" where
  "AttachAndRunPythonCode env os addPendingCall fuel command s =
     (case GetPythonModule env fuel of
        None \<Rightarrow> None
      | Some (Inl e) \<Rightarrow> Some (Inl e)
      | Some (Inr info) \<Rightarrow>
          (case mi_module info of
             Some m \<Rightarrow> if mi_error info \<noteq> 0 then Some (Inr (mi_error info, s))
               else map_option Inr (DoAttach os m (addPendingCall m) fuel command s)
           | None \<Rightarrow> Some (Inr (mi_error info, s))))"

text \<open>\<^verbatim>\<open>AttachDebuggerTracing\<close>, given what \<^verbatim>\<open>GetPythonModule\<close> returned.\<close>

definition AttachDebuggerTracing ::
  "pyapi \<Rightarrow> module_info \<Rightarrow> addr \<Rightarrow> addr \<Rightarrow> 32 word \<Rightarrow> addr \<Rightarrow> (px, int) py" where
  "AttachDebuggerTracing api info pSetTraceFunc pTraceFunc threadId pPyNone =
     (case mi_module info of
        None \<Rightarrow> py_ret (mi_error info)
      | Some m \<Rightarrow>
          if mi_error info \<noteq> 0 then py_ret (mi_error info)
          else
            with_holder (mi_isDebug info) pTraceFunc
              (with_holder (mi_isDebug info) pSetTraceFunc
                (with_holder (mi_isDebug info) pPyNone
                  (py_bind (InternalSetSysTraceFunc api m (mi_isDebug info) pTraceFunc threadId pPyNone) (\<lambda>temp.
                    py_ret (if temp = 0 then 0 else if 0 < temp then temp else 0))))))"

text \<open>\<^verbatim>\<open>PrintDebugInfo\<close>, given what \<^verbatim>\<open>GetPythonModule\<close> returned: the code and the numbers of the threads that are printed.\<close>

definition PrintDebugInfo :: "module_info \<Rightarrow> (px, int \<times> 32 word list) py" where
  "PrintDebugInfo info =
     (case mi_module info of
        None \<Rightarrow> py_ret (0, [])
      | Some m \<Rightarrow>
          if mi_error info \<noteq> 0 then py_ret (0, [])
          else
            case missing_proc m [(''PyInterpreterState_Head'', 0), (''PyInterpreterState_ThreadHead'', 0), (''PyThreadState_Next'', 160),
                (''PyGILState_Ensure'', 0), (''PyGILState_Release'', 0)] of
              Some code \<Rightarrow> py_ret (code, [])
            | None \<Rightarrow>
                if \<not> mod_interp_head m then py_ret (0, [])
                else with_gil (py_gets (\<lambda>s. (0, map (\<lambda>t. GetPythonThreadId (module_version m) (px_ts s t)) (mod_threads m)))))"

end
