(* ===== verification/SetTraceProps.thy ===== *)
theory SetTraceProps
  imports SetTrace
begin

text \<open>
  Properties of the tracing of running threads: the trace function of the interpreter does what the one of \<^verbatim>\<open>sys.settrace\<close> does and
  no reference is lost, the right thread is traced, the lock of the interpreter is released on every path.
\<close>

section \<open>Running the functions\<close>

lemma get_init_app [py_simps, simp]:
  "get_init f s = (case px_init s of None \<Rightarrow> (Inl null_access, s) | Some i \<Rightarrow> (Inr (f i), s))"
  by (simp add: get_init_def py_bind_app split: option.split)

lemma upd_ts_app [py_simps, simp]: "upd_ts t f s = (Inr (), s \<lparr> px_ts := (px_ts s)(t := f (px_ts s t)) \<rparr>)"
  by (simp add: upd_ts_def)

lemma set_f_trace_app [py_simps, simp]:
  "set_f_trace cls frame v s = (Inr (), s \<lparr> px_f_trace := (px_f_trace s)(cls := (px_f_trace s cls)(frame := v)) \<rparr>)"
  by (simp add: set_f_trace_def)

text \<open>An address that is null or that of an object.\<close>

definition obj_ok :: "bool \<Rightarrow> addr \<Rightarrow> bool" where
  "obj_ok dbg x \<longleftrightarrow> (x \<noteq> 0 \<longrightarrow> GetPyObjectPointerNoDebugInfo dbg x \<noteq> 0)"

lemma NoDebug_inj: "x \<noteq> 0 \<Longrightarrow> y \<noteq> 0 \<Longrightarrow>
    GetPyObjectPointerNoDebugInfo dbg x = GetPyObjectPointerNoDebugInfo dbg y \<longleftrightarrow> x = y"
  by (simp add: GetPyObjectPointerNoDebugInfo_def)

lemma NoDebug_0 [simp]: "GetPyObjectPointerNoDebugInfo dbg 0 = 0"
  by (simp add: GetPyObjectPointerNoDebugInfo_def)

lemma refcnt_DecRef:
  assumes "obj_ok dbg x" and "y \<noteq> 0"
  shows "refcnt dbg (snd (DecRef x dbg s)) y = refcnt dbg s y - of_bool (x = y)"
  using assms NoDebug_inj [of x y dbg]
  by (cases "x = 0") (auto simp: DecRef_app refcnt_def obj_ok_def Let_def)

lemma DecRef_keeps [simp]:
  "fst (DecRef x dbg s) = Inr ()" "px_f_trace (snd (DecRef x dbg s)) = px_f_trace s"
  "px_ts (snd (DecRef x dbg s)) = px_ts s" "px_init (snd (DecRef x dbg s)) = px_init s"
  by (simp_all add: DecRef_app Let_def)

lemma refcnt_simps [simp]:
  "refcnt dbg (s \<lparr> px_f_trace := f \<rparr>) = refcnt dbg s" "refcnt dbg (s \<lparr> px_ts := t \<rparr>) = refcnt dbg s"
  "refcnt dbg (s \<lparr> px_calls := c \<rparr>) = refcnt dbg s" "refcnt dbg (s \<lparr> px_init := i \<rparr>) = refcnt dbg s"
  by (simp_all add: refcnt_def fun_eq_iff)

lemma DecRef_run: obtains s' where "DecRef x dbg s = (Inr (), s')" "s' = snd (DecRef x dbg s)"
  by (metis DecRef_keeps(1) prod.collapse)

section \<open>The trace function of the interpreter\<close>

text \<open>
  What \<^verbatim>\<open>sys.settrace\<close> promises: a call event is given to the trace function of the thread, another one to that of the frame; what
  the function returns becomes the trace function of the frame, unless it is None; an exception removes it.
\<close>

datatype trace_result = Raised | ReturnedNone | Returned addr

definition traced_by :: "addr \<Rightarrow> nat \<Rightarrow> addr option \<Rightarrow> addr option" where
  "traced_by self what local = (if what = PyTrace_CALL then Some self else local)"

fun next_local :: "trace_result \<Rightarrow> addr option \<Rightarrow> addr option" where
  "next_local Raised local = None"
| "next_local ReturnedNone local = local"
| "next_local (Returned f) local = Some f"

definition local_of :: "addr \<Rightarrow> addr option" where
  "local_of a = (if a = 0 then None else Some a)"

definition result_of :: "trace_init \<Rightarrow> addr \<Rightarrow> trace_result" where
  "result_of init r = (if r = 0 then Raised else if r = ti_pyNone init then ReturnedNone else Returned r)"

text \<open>Functions of the interpreter that neither raise nor touch what the trace function works on.\<close>

definition trace_neutral :: "(px, unit) py \<Rightarrow> bool" where
  "trace_neutral m \<longleftrightarrow> (\<forall>s. fst (m s) = Inr () \<and> px_f_trace (snd (m s)) = px_f_trace s \<and> px_init (snd (m s)) = px_init s)"

lemma trace_neutralD:
  assumes "trace_neutral m"
  obtains s' where "m s = (Inr (), s')" "s' = snd (m s)" "px_f_trace s' = px_f_trace s" "px_init s' = px_init s"
  using assms unfolding trace_neutral_def by (metis prod.collapse)

text \<open>The state in which the result of the call is used.\<close>

definition after_call :: "pyapi \<Rightarrow> addr \<Rightarrow> addr \<Rightarrow> px \<Rightarrow> px" where
  "after_call api frame r s = (if r = 0 then snd (api_set_trace_null api (snd (api_traceback_here api frame s))) else s)"

lemma use_trace_result_spec:
  assumes "px_init s = Some init" and "ti_pyNone init \<noteq> 0" and "trace_neutral (api_set_trace_null api)"
    and "obj_ok (ti_isDebug init) r" and "obj_ok (ti_isDebug init) (px_f_trace s cls frame)"
  shows "\<exists>s'. use_trace_result api cls frame r s = (Inr (if r = 0 then -1 else 0), s') \<and>
    local_of (px_f_trace s' cls frame) = next_local (result_of init r) (local_of (px_f_trace s cls frame)) \<and>
    (\<forall>x. x \<noteq> 0 \<longrightarrow> refcnt (ti_isDebug init) s' x - of_bool (px_f_trace s' cls frame = x) =
       refcnt (ti_isDebug init) (if r = 0 then snd (api_set_trace_null api s) else s) x
         - of_bool (px_f_trace s cls frame = x) - of_bool (r = x))"
proof -
  let ?dbg = "ti_isDebug init" and ?old = "px_f_trace s cls frame"
  let ?set = "\<lambda>v s. s \<lparr> px_f_trace := (px_f_trace s)(cls := (px_f_trace s cls)(frame := v)) \<rparr>"
  consider "r = 0" | "r \<noteq> 0" "r \<noteq> ti_pyNone init" | "r \<noteq> 0" "r = ti_pyNone init" by blast
  then show ?thesis
  proof cases
    case 1
    obtain s0 where s0: "api_set_trace_null api s = (Inr (), s0)" "px_f_trace s0 = px_f_trace s" "px_init s0 = px_init s"
      using trace_neutralD [OF assms(3)] .
    let ?s' = "snd (DecRef ?old ?dbg (?set 0 s0))"
    have "use_trace_result api cls frame r s = (Inr (-1), ?s')"
      using assms(1) s0 1 by (cases "?old = 0")
        (auto simp: use_trace_result_def py_bind_app py_then_app DecRef_app Let_def split: prod.splits)
    moreover have "refcnt ?dbg ?s' x = refcnt ?dbg s0 x - of_bool (?old = x)" if "x \<noteq> 0" for x
      using refcnt_DecRef [OF assms(5) that] by simp
    ultimately show ?thesis using 1 s0 by (intro exI [of _ ?s']) (auto simp: result_of_def local_of_def)
  next
    case 2
    let ?s' = "snd (DecRef ?old ?dbg (?set r s))"
    have "use_trace_result api cls frame r s = (Inr 0, ?s')"
      using assms(1) 2 by (auto simp: use_trace_result_def py_bind_app py_then_app DecRef_app Let_def split: prod.splits)
    moreover have "refcnt ?dbg ?s' x = refcnt ?dbg s x - of_bool (?old = x)" if "x \<noteq> 0" for x
      using refcnt_DecRef [OF assms(5) that] by simp
    ultimately show ?thesis using 2 by (intro exI [of _ ?s']) (auto simp: result_of_def local_of_def)
  next
    case 3
    let ?s' = "snd (DecRef r ?dbg s)"
    have "use_trace_result api cls frame r s = (Inr 0, ?s')"
      using assms(1) 3 by (auto simp: use_trace_result_def py_bind_app py_then_app DecRef_app Let_def split: prod.splits)
    moreover have "refcnt ?dbg ?s' x = refcnt ?dbg s x - of_bool (r = x)" if "x \<noteq> 0" for x
      using refcnt_DecRef [OF assms(4) that] .
    ultimately show ?thesis using 3 by (intro exI [of _ ?s']) (auto simp: result_of_def local_of_def)
  qed
qed

lemma installed_trampoline_eq: "installed_trampoline api cls = trace_trampoline api cls"
  by (cases cls) (simp_all add: InternalTraceTrampoline_def InternalTraceTrampoline310_def InternalTraceTrampoline311_def)

text \<open>C8. 
  The trace function that is installed for running threads is the one of \<^verbatim>\<open>sys.settrace\<close>: it calls the function of the thread or
  that of the frame, and keeps what it returns. Every reference is accounted for: the new reference that the call returns is either
  stored in the frame or given back, and the one that the frame had is given back when it is replaced.
\<close>

theorem trampoline_refines_settrace:
  assumes "px_init s = Some init" and "ti_pyNone init \<noteq> 0" and "what < length (px_whatstrings s)"
    and "traced_by self what (local_of (px_f_trace s cls frame)) = Some f" and "f \<noteq> 0"
    and "pyObject_FastCallDict api f [frame, px_whatstrings s ! what, if arg \<noteq> 0 then arg else ti_pyNone init] s = (Inr r, s1)"
    and "px_init s1 = Some init" and "trace_neutral (api_set_trace_null api)" and "trace_neutral (api_traceback_here api frame)"
    and "obj_ok (ti_isDebug init) r" and "obj_ok (ti_isDebug init) (px_f_trace s1 cls frame)"
  shows "\<exists>s'. installed_trampoline api cls self frame what arg s = (Inr (if r = 0 then -1 else 0), s') \<and>
    local_of (px_f_trace s' cls frame) = next_local (result_of init r) (local_of (px_f_trace s1 cls frame)) \<and>
    (\<forall>x. x \<noteq> 0 \<longrightarrow> refcnt (ti_isDebug init) s' x - of_bool (px_f_trace s' cls frame = x) =
       refcnt (ti_isDebug init) (after_call api frame r s1) x - of_bool (px_f_trace s1 cls frame = x) - of_bool (r = x))"
proof -
  obtain s2 where tb: "api_traceback_here api frame s1 = (Inr (), s2)" "px_f_trace s2 = px_f_trace s1" "px_init s2 = px_init s1"
    using trace_neutralD [OF assms(9)] .
  let ?s2 = "if r = 0 then s2 else s1"
  have call: "InternalCallTrampoline api f frame what arg s = (Inr r, ?s2)"
    using assms(1,3,6) tb(1) by (simp add: InternalCallTrampoline_def py_bind_app py_then_app)
  have s2: "px_init ?s2 = Some init" "px_f_trace ?s2 = px_f_trace s1" using assms(7) tb by simp_all
  have "trace_trampoline api cls self frame what arg s = use_trace_result api cls frame r ?s2"
    using assms(4,5) call by (auto simp: trace_trampoline_def traced_by_def local_of_def py_bind_app split: if_splits)
  then show ?thesis
    using use_trace_result_spec [OF s2(1) assms(2,8,10), of cls frame] assms(11) s2(2) tb(1)
    by (cases "r = 0") (simp_all add: after_call_def installed_trampoline_eq)
qed

text \<open>Without a trace function there is nothing to call.\<close>

lemma trampoline_untraced:
  "traced_by self what (local_of (px_f_trace s cls frame)) = None \<Longrightarrow>
   installed_trampoline api cls self frame what arg s = (Inr 0, s)"
  by (auto simp: installed_trampoline_eq trace_trampoline_def traced_by_def local_of_def py_bind_app split: if_splits)

section \<open>The thread that is traced\<close>

definition gil_events :: "px \<Rightarrow> api_call list" where
  "gil_events s = filter (\<lambda>c. c = GilEnsure \<or> c = GilRelease) (px_calls s)"

definition frame_class_for :: "python_version \<Rightarrow> frame_class" where
  "frame_class_for v = (if v < PythonVersion_310 then PyFrameObjectBaseUpTo39
     else if v = PythonVersion_310 then PyFrameObject310 else PyFrameObject311)"

text \<open>A thread state that makes the interpreter of a version call the trace function for every event.\<close>

definition thread_traces :: "python_version \<Rightarrow> addr \<Rightarrow> tstate \<Rightarrow> bool" where
  "thread_traces v tf ts \<longleftrightarrow>
     c_tracefunc ts = Some (InternalTrampoline (frame_class_for v)) \<and> c_traceobj ts = tf \<and>
     (if v < PythonVersion_310 then use_tracing ts = 1
      else if v = PythonVersion_310 then cframe_use_tracing ts = 1 else cframe_use_tracing ts = 255)"

lemma gil_events_simps [simp]:
  "gil_events (set_cell a f s) = gil_events s" "gil_events (s \<lparr> px_ts := t \<rparr>) = gil_events s"
  "gil_events (snd (DecRef x dbg s)) = gil_events s"
  by (simp_all add: gil_events_def DecRef_app Let_def)

text \<open>References to an object that thread states hold.\<close>

definition held_by :: "addr list \<Rightarrow> px \<Rightarrow> addr \<Rightarrow> addr" where
  "held_by ts s x = (\<Sum>t\<leftarrow>ts. of_bool (c_traceobj (px_ts s t) = x))"

lemma held_by_upd:
  assumes "distinct ts" and "t \<in> set ts" and "\<And>u. u \<noteq> t \<Longrightarrow> px_ts s' u = px_ts s u"
  shows "held_by ts s' x = held_by ts s x - of_bool (c_traceobj (px_ts s t) = x) + of_bool (c_traceobj (px_ts s' t) = x)"
  using assms
proof (induction ts)
  case (Cons u ts)
  show ?case
  proof (cases "u = t")
    case True
    have "px_ts s' v = px_ts s v" if "v \<in> set ts" for v
      using Cons.prems(1) True that by (intro Cons.prems(3)) auto
    then have "map (\<lambda>v. of_bool (c_traceobj (px_ts s' v) = x) :: addr) ts = map (\<lambda>v. of_bool (c_traceobj (px_ts s v) = x)) ts"
      by simp
    then have "held_by ts s' x = held_by ts s x" unfolding held_by_def by presburger
    with True show ?thesis by (simp add: held_by_def del: of_bool_eq_0_iff)
  next
    case False
    with Cons show ?thesis by (simp add: held_by_def del: of_bool_eq_0_iff)
  qed
qed simp

lemma set_trace_with_run:
  assumes "arg \<noteq> 0"
  shows "\<exists>s'. set_trace_with flag cls t arg dbg s = (Inr (), s') \<and> gil_events s' = gil_events s \<and> px_init s' = px_init s \<and>
    px_ts s' = (px_ts s)(t := flag True ((flag (c_profilefunc (px_ts s t)) ((px_ts s t) \<lparr> c_tracefunc := None, c_traceobj := 0 \<rparr>))
       \<lparr> c_tracefunc := Some (InternalTrampoline cls), c_traceobj := arg \<rparr>)) \<and>
    (\<not> dbg \<longrightarrow> (\<forall>x. x \<noteq> 0 \<longrightarrow>
       px_cell s' x = px_cell s x + of_bool (arg = x) - of_bool (c_traceobj (px_ts s t) = x)))"
proof -
  let ?old = "c_traceobj (px_ts s t)"
  let ?s1 = "(set_cell arg (\<lambda>n. n + 1) s) \<lparr> px_ts := (px_ts s)(t := flag (c_profilefunc (px_ts s t))
    ((px_ts s t) \<lparr> c_tracefunc := None, c_traceobj := 0 \<rparr>)) \<rparr>"
  let ?s2 = "if ?old \<noteq> 0 then snd (DecRef ?old dbg ?s1) else ?s1"
  let ?s' = "?s2 \<lparr> px_ts := (px_ts ?s2)(t := flag True ((px_ts ?s2 t)
    \<lparr> c_tracefunc := Some (InternalTrampoline cls), c_traceobj := arg \<rparr>)) \<rparr>"
  have "set_trace_with flag cls t arg dbg s = (Inr (), ?s')"
    using assms by (simp add: set_trace_with_def py_bind_app py_then_app IncRef_app DecRef_app)
  moreover have "px_cell ?s' x = px_cell s x + of_bool (arg = x) - of_bool (?old = x)" if "\<not> dbg" "x \<noteq> 0" for x
    using that by (simp add: DecRef_app Let_def GetPyObjectPointerNoDebugInfo_def)
  ultimately show ?thesis by (intro exI [of _ ?s']) simp
qed

text \<open>The three templates differ in the flag and the class of frames.\<close>

definition tracing_flag :: "python_version \<Rightarrow> bool \<Rightarrow> tstate \<Rightarrow> tstate" where
  "tracing_flag v b ts =
     (if v < PythonVersion_310 then ts \<lparr> use_tracing := (if b then 1 else 0) \<rparr>
      else if v = PythonVersion_310 then ts \<lparr> cframe_use_tracing := (if b then 1 else 0) \<rparr>
      else ts \<lparr> cframe_use_tracing := (if b then 255 else 0) \<rparr>)"

lemma InternalPySetTrace_class:
  assumes "class_for v = Some c"
  shows "InternalPySetTrace t tf dbg v = set_trace_with (tracing_flag v) (frame_class_for v) t tf dbg"
proof -
  consider "v < PythonVersion_310" | "v = PythonVersion_310" | "v = PythonVersion_311"
    using assms by (cases v) (simp_all add: class_for_def tstate_classes_def version_order)
  then show ?thesis
  proof cases
    case 1
    then have "tracing_flag v = (\<lambda>b ts. ts \<lparr> use_tracing := (if b then 1 else 0) \<rparr>)" "frame_class_for v = PyFrameObjectBaseUpTo39"
      by (auto simp: tracing_flag_def frame_class_for_def fun_eq_iff)
    with 1 assms show ?thesis
      by (cases v) (simp_all add: InternalPySetTrace_def class_for_def tstate_classes_def version_order InternalPySetTrace_Template_def)
  next
    case 2
    then have "tracing_flag v = (\<lambda>b ts. ts \<lparr> cframe_use_tracing := (if b then 1 else 0) \<rparr>)"
      by (auto simp: tracing_flag_def fun_eq_iff)
    with 2 show ?thesis
      by (simp add: InternalPySetTrace_def class_for_def tstate_classes_def version_order InternalPySetTrace_Template310_def frame_class_for_def)
  next
    case 3
    then have "tracing_flag v = (\<lambda>b ts. ts \<lparr> cframe_use_tracing := (if b then 255 else 0) \<rparr>)"
      by (auto simp: tracing_flag_def fun_eq_iff version_order)
    with 3 show ?thesis
      by (simp add: InternalPySetTrace_def class_for_def tstate_classes_def version_order InternalPySetTrace_Template311_def frame_class_for_def)
  qed
qed

lemma tracing_flag_traces:
  "thread_traces v tf (tracing_flag v True (ts \<lparr> c_tracefunc := Some (InternalTrampoline (frame_class_for v)), c_traceobj := tf \<rparr>))"
  by (simp add: thread_traces_def tracing_flag_def)

lemma InternalPySetTrace_run:
  assumes "class_for v = Some c" and "tf \<noteq> 0"
  obtains s' where "InternalPySetTrace t tf dbg v s = (Inr (), s')" "gil_events s' = gil_events s" "px_init s' = px_init s"
    "thread_traces v tf (px_ts s' t)" "\<And>u. u \<noteq> t \<Longrightarrow> px_ts s' u = px_ts s u"
    "\<not> dbg \<Longrightarrow> (\<forall>x. x \<noteq> 0 \<longrightarrow>
       px_cell s' x = px_cell s x + of_bool (tf = x) - of_bool (c_traceobj (px_ts s t) = x))"
  using set_trace_with_run [OF assms(2), of "tracing_flag v" "frame_class_for v" t dbg s]
  by (auto simp: InternalPySetTrace_class [OF assms(1)] tracing_flag_traces)

section \<open>\<^verbatim>\<open>InternalSetSysTraceFunc\<close>\<close>

text \<open>Making a string does not touch threads, the lock or the count of the object \<open>x\<close>.\<close>

definition intern_ok :: "pyapi \<Rightarrow> addr \<Rightarrow> bool" where
  "intern_ok api x \<longleftrightarrow> (\<forall>n. never_raises (api_intern api n) \<and>
     keeps (\<lambda>s. (px_ts s, gil_events s, px_init s, px_cell s x)) (api_intern api n))"

lemma intern_names_run:
  assumes "intern_ok api x"
  shows "\<exists>ok s'. intern_names api i ns s = (Inr ok, s') \<and>
    (px_ts s', gil_events s', px_init s', px_cell s' x) = (px_ts s, gil_events s, px_init s, px_cell s x)"
proof (induction ns arbitrary: i s)
  case (Cons n ns)
  obtain name s1 where n: "api_intern api n s = (Inr name, s1)"
    "(px_ts s1, gil_events s1, px_init s1, px_cell s1 x) = (px_ts s, gil_events s, px_init s, px_cell s x)"
    using assms unfolding intern_ok_def keeps_def never_raises_def by (metis prod.collapse sum.exhaust)
  show ?case
    using Cons.IH [of "Suc i" s] Cons.IH [of "Suc i" "s1 \<lparr> px_whatstrings := (px_whatstrings s1)[i := name] \<rparr>"] n
    by (auto simp: py_bind_app py_then_app gil_events_def)
qed auto

lemma initialize_trace_run:
  assumes "intern_ok api x" and "none \<noteq> 0"
  shows "\<exists>s'. initialize_trace api dbg none v s = (Inr (), s') \<and> px_ts s' = px_ts s \<and> gil_events s' = gil_events s \<and>
    (if px_init s = None then px_init s' = Some \<lparr> ti_pyNone = none, ti_isDebug = dbg, ti_custom_call = (v < PythonVersion_37) \<rparr> \<and>
       px_cell s' x = px_cell s x + of_bool (none = x)
     else s' = s)"
proof (cases "px_init s")
  case None
  let ?i = "\<lparr> ti_pyNone = none, ti_isDebug = dbg, ti_custom_call = (v < PythonVersion_37) \<rparr>"
  let ?s1 = "(set_cell none (\<lambda>n. n + 1) s) \<lparr> px_init := Some ?i \<rparr>"
  obtain ok s' where "intern_names api 0 whatnames ?s1 = (Inr ok, s')"
    "(px_ts s', gil_events s', px_init s', px_cell s' x) = (px_ts ?s1, gil_events ?s1, px_init ?s1, px_cell ?s1 x)"
    using intern_names_run [OF assms(1)] by blast
  with None assms(2) show ?thesis
    by (auto simp: initialize_trace_def InternalIsTraceInitialized_def InternalTraceInit_def IncRef_app py_bind_app py_then_app
        gil_events_def)
next
  case (Some i)
  then show ?thesis by (simp add: initialize_trace_def InternalIsTraceInitialized_def py_bind_app)
qed

text \<open>References to an object that the threads and the initialization hold.\<close>

definition held :: "addr list \<Rightarrow> px \<Rightarrow> addr \<Rightarrow> addr" where
  "held ts s x = held_by ts s x + (case px_init s of None \<Rightarrow> 0 | Some i \<Rightarrow> of_bool (ti_pyNone i = x))"

lemma trace_thread_run:
  assumes "intern_ok api x" and "class_for v = Some c" and "tf \<noteq> 0" and "none \<noteq> 0"
  shows "\<exists>s'. trace_thread api dbg tf tid none v ts s =
      (Inr (if find (\<lambda>t. ucast (thread_id (px_ts s t)) = tid) ts = None then 501 else 0), s') \<and>
    gil_events s' = gil_events s \<and>
    (case find (\<lambda>t. ucast (thread_id (px_ts s t)) = tid) ts of
       None \<Rightarrow> s' = s
     | Some t \<Rightarrow> thread_traces v tf (px_ts s' t) \<and> (\<forall>u. u \<noteq> t \<longrightarrow> px_ts s' u = px_ts s u) \<and>
         (\<not> dbg \<and> x \<noteq> 0 \<and> distinct us \<and> t \<in> set us \<longrightarrow> px_cell s' x - held us s' x = px_cell s x - held us s x))"
proof (induction ts)
  case (Cons t ts)
  show ?case
  proof (cases "ucast (thread_id (px_ts s t)) = tid")
    case False
    with Cons assms(2) show ?thesis by (simp add: py_bind_app GetPythonThreadId_def)
  next
    case True
    obtain s1 where s1: "initialize_trace api dbg none v s = (Inr (), s1)" "px_ts s1 = px_ts s" "gil_events s1 = gil_events s"
      "if px_init s = None then px_init s1 = Some \<lparr> ti_pyNone = none, ti_isDebug = dbg, ti_custom_call = (v < PythonVersion_37) \<rparr> \<and>
         px_cell s1 x = px_cell s x + of_bool (none = x) else s1 = s"
      using initialize_trace_run [OF assms(1,4)] by blast
    obtain s2 where s2: "InternalPySetTrace t tf dbg v s1 = (Inr (), s2)" "gil_events s2 = gil_events s1" "px_init s2 = px_init s1"
      "thread_traces v tf (px_ts s2 t)" "\<And>u. u \<noteq> t \<Longrightarrow> px_ts s2 u = px_ts s1 u"
      "\<not> dbg \<Longrightarrow> (\<forall>x. x \<noteq> 0 \<longrightarrow>
         px_cell s2 x = px_cell s1 x + of_bool (tf = x) - of_bool (c_traceobj (px_ts s1 t) = x))"
      using InternalPySetTrace_run [OF assms(2,3)] by blast
    have "px_cell s2 x - held us s2 x = px_cell s x - held us s x" if "\<not> dbg" "x \<noteq> 0" "distinct us" "t \<in> set us"
    proof -
      have "held_by us s2 x = held_by us s x - of_bool (c_traceobj (px_ts s t) = x) + of_bool (tf = x)"
        using held_by_upd [OF that(3,4), of s2 s x] s2(4,5) s1(2) by (simp add: thread_traces_def del: of_bool_eq_0_iff)
      then show ?thesis using s1(2,4) s2(3) s2(6) [OF that(1)] that(2)
        by (cases "px_init s") (simp_all add: held_def del: of_bool_eq_0_iff split: if_splits)
    qed
    with True assms(2) s1 s2 show ?thesis by (simp add: py_bind_app py_then_app GetPythonThreadId_def)
  qed
qed simp

section \<open>Attaching\<close>

text \<open>The module has what is needed to trace a thread.\<close>

definition can_trace :: "pymodule \<Rightarrow> bool" where
  "can_trace m \<longleftrightarrow>
     missing_proc m ([(''Py_IsInitialized'', 100)] @ thread_procs (module_version m) @ trace_procs (module_version m)) = None \<and>
     mod_initialized m \<and> has_thread_api m \<and> mod_interp_head m \<and> mod_current_thread m \<noteq> 0"

lemma missing_proc_append:
  "missing_proc m (ps @ qs) = (case missing_proc m ps of None \<Rightarrow> missing_proc m qs | Some c \<Rightarrow> Some c)"
  by (induction ps) (auto simp: missing_proc_def)

lemma with_gil_app:
  "with_gil m s = (case m (s \<lparr> px_calls := px_calls s @ [GilEnsure] \<rparr>) of (r, s') \<Rightarrow>
     (r, s' \<lparr> px_calls := px_calls s' @ [GilRelease] \<rparr>))"
  by (simp add: with_gil_def py_then_app py_finally_app split: prod.split)

lemma InternalSetSysTraceFunc_can_trace:
  assumes "can_trace m"
  shows "InternalSetSysTraceFunc api m dbg tf tid none =
    with_gil (trace_thread api dbg tf tid none (module_version m) (mod_threads m))"
  using assms unfolding can_trace_def InternalSetSysTraceFunc_def define_procs_def missing_proc_append
  by (simp add: Let_def split: option.splits)

text \<open>C14. 
  For a supported version the first thread whose number agrees with the given one in its low 32 bits gets the trace function,
  with the trampoline for the frames of that version, and no other thread changes; without such a thread the result is 501. The
  lock of the interpreter is taken and released.
\<close>

theorem running_thread_traced:
  assumes "can_trace m" and "class_for (module_version m) = Some c" and "intern_ok api x" and "tf \<noteq> 0" and "none \<noteq> 0"
  shows "case InternalSetSysTraceFunc api m dbg tf tid none s of (r, s') \<Rightarrow>
    gil_events s' = gil_events s @ [GilEnsure, GilRelease] \<and>
    (case find (\<lambda>t. ucast (thread_id (px_ts s t)) = tid) (mod_threads m) of
       None \<Rightarrow> r = Inr 501 \<and> px_ts s' = px_ts s
     | Some t \<Rightarrow> r = Inr 0 \<and> thread_traces (module_version m) tf (px_ts s' t) \<and> (\<forall>u. u \<noteq> t \<longrightarrow> px_ts s' u = px_ts s u))"
  using trace_thread_run [OF assms(3,2,4,5), where dbg = dbg and tid = tid and ts = "mod_threads m" and us = "[]"
      and s = "s \<lparr> px_calls := px_calls s @ [GilEnsure] \<rparr>"]
  by (auto simp: InternalSetSysTraceFunc_can_trace [OF assms(1)] with_gil_app gil_events_def split: option.splits)

lemma trace_thread_unsupported:
  assumes "class_for v = None" and "none \<noteq> 0" and "intern_ok api x"
  shows "\<exists>s'. trace_thread api dbg tf tid none v ts s = (Inr (if ts \<noteq> [] \<and> tid = 0 then 0 else 501), s') \<and> px_ts s' = px_ts s"
proof (induction ts)
  case (Cons t ts)
  obtain s1 where s1: "initialize_trace api dbg none v s = (Inr (), s1)" "px_ts s1 = px_ts s"
    using initialize_trace_run [OF assms(3,2)] by blast
  show ?case
    using Cons s1 assms(1) by (cases "tid = 0")
      (auto simp: py_bind_app py_then_app GetPythonThreadId_def InternalPySetTrace_def)
qed simp

text \<open>
  From Python 3.12 on no thread state can be read, so the number of every thread is taken to be 0: the request for another number fails,
  that for the number 0 is reported as done although no thread is traced.
\<close>

theorem unsupported_version_not_traced:
  assumes "can_trace m" and "PythonVersion_312 \<le> module_version m" and "intern_ok api x" and "none \<noteq> 0"
  shows "case InternalSetSysTraceFunc api m dbg tf tid none s of (r, s') \<Rightarrow>
    px_ts s' = px_ts s \<and> r = Inr (if mod_threads m \<noteq> [] \<and> tid = 0 then 0 else 501)"
  using trace_thread_unsupported [OF _ assms(4,3), of "module_version m" dbg tf tid "mod_threads m" "s \<lparr> px_calls := px_calls s @ [GilEnsure] \<rparr>"]
    assms(2) class_for_none [of "module_version m"]
  by (auto simp: InternalSetSysTraceFunc_can_trace [OF assms(1)] with_gil_app)

text \<open>On Linux and macOS the command runs, with the lock of the interpreter held, exactly when the result is 0; nothing happens otherwise.\<close>

lemma linux_attach_runs_command:
  "\<exists>r. DoAttach_linux m command s = (Inr r, if r = 0
       then s \<lparr> px_calls := px_calls s @ [GilEnsure, RunSimpleString command, GilRelease] \<rparr> else s) \<and>
    (r = 0 \<longleftrightarrow> mod_initialized m \<and> mod_interp_head m \<and>
       list_all (mod_exports m) [''Py_IsInitialized'', ''PyGILState_Ensure'', ''PyGILState_Release'', ''PyInterpreterState_Head'',
         ''PyRun_SimpleString''])"
  by (auto simp: DoAttach_linux_def define_procs_def missing_proc_def with_gil_app py_then_app)

section \<open>References\<close>

text \<open>The count of an object less the references that the threads and the initialization hold.\<close>

definition surplus :: "addr list \<Rightarrow> addr \<Rightarrow> px \<Rightarrow> addr" where
  "surplus us x s = px_cell s x - held us s x"

lemma surplus_simps [simp]:
  "surplus us x (s \<lparr> px_calls := c \<rparr>) = surplus us x s" "held us (set_cell a f s) x = held us s x"
  "held us (s \<lparr> px_calls := c \<rparr>) x = held us s x"
  by (simp_all add: surplus_def held_def held_by_def)

lemma trace_thread_surplus:
  assumes "intern_ok api x" and "tf \<noteq> 0" and "none \<noteq> 0" and "x \<noteq> 0" and "distinct us" and "set ts \<subseteq> set us"
  shows "\<exists>r s'. trace_thread api False tf tid none v ts s = (Inr r, s') \<and> surplus us x s' = surplus us x s"
proof (cases "class_for v")
  case None
  obtain s' where "trace_thread api False tf tid none v ts s = (Inr (if ts \<noteq> [] \<and> tid = 0 then 0 else 501), s')"
    "surplus us x s' = surplus us x s"
  proof -
    obtain s1 where s1: "initialize_trace api False none v s = (Inr (), s1)" "px_ts s1 = px_ts s"
      "if px_init s = None then px_init s1 = Some \<lparr> ti_pyNone = none, ti_isDebug = False, ti_custom_call = (v < PythonVersion_37) \<rparr> \<and>
         px_cell s1 x = px_cell s x + of_bool (none = x) else s1 = s"
      using initialize_trace_run [OF assms(1,3)] by blast
    have sur: "surplus us x s1 = surplus us x s"
      using s1 by (cases "px_init s") (simp_all add: surplus_def held_def held_by_def del: of_bool_eq_0_iff)
    have "\<exists>s'. trace_thread api False tf tid none v ts s = (Inr (if ts \<noteq> [] \<and> tid = 0 then 0 else 501), s') \<and> (s' = s \<or> s' = s1)"
      using None s1(1) by (induction ts) (auto simp: py_bind_app py_then_app GetPythonThreadId_def InternalPySetTrace_def)
    with sur that show ?thesis by metis
  qed
  then show ?thesis by blast
next
  case (Some c)
  show ?thesis
  proof (cases "find (\<lambda>t. ucast (thread_id (px_ts s t)) = tid) ts")
    case None
    then show ?thesis using trace_thread_run [OF assms(1) Some assms(2,3), where s = s and ts = ts and tid = tid and us = us and dbg = False] by auto
  next
    case (Some t)
    then have "t \<in> set us" using assms(6) by (auto simp: find_Some_iff)
    with Some show ?thesis
      using trace_thread_run [OF assms(1) \<open>class_for v = Some c\<close> assms(2,3), where s = s and ts = ts and tid = tid and us = us and dbg = False]
        assms(4,5) by (auto simp: surplus_def)
  qed
qed

text \<open>A holder adds a reference and gives it back; the lock does not touch references.\<close>

interpretation holder: scoped_resource "hold_reference False obj" "DecRef obj False" "surplus us x" "of_bool (obj = x \<and> obj \<noteq> 0)" for obj us x
  by unfold_locales (auto simp: hold_reference_app DecRef_app Let_def GetPyObjectPointerNoDebugInfo_def surplus_def)

interpretation gil_counts: scoped_resource "px_call GilEnsure" "px_call GilRelease" "surplus us x" 0 for us x
  by unfold_locales simp_all

lemma trace_thread_total:
  assumes "intern_ok api x" and "tf \<noteq> 0" and "none \<noteq> 0"
  shows "\<exists>r s'. trace_thread api dbg tf tid none v ts s = (Inr r, s') \<and> gil_events s' = gil_events s"
proof (cases "class_for v")
  case None
  show ?thesis
  proof (induction ts)
    case (Cons t ts)
    obtain s1 where "initialize_trace api dbg none v s = (Inr (), s1)" "gil_events s1 = gil_events s"
      using initialize_trace_run [OF assms(1,3)] by blast
    with Cons None show ?case by (auto simp: py_bind_app py_then_app GetPythonThreadId_def InternalPySetTrace_def)
  qed simp
next
  case (Some c)
  then show ?thesis using trace_thread_run [OF assms(1) Some assms(2,3)] by blast
qed

lemma gil_depth_events: "gil_events s' = gil_events s \<Longrightarrow> gil_depth s' = gil_depth s"
proof -
  have "gil_depth u = (\<Sum>c\<leftarrow>gil_events u. if c = GilEnsure then 1 else -1)" for u
  proof -
    have "(\<Sum>c\<leftarrow>cs. case c of GilEnsure \<Rightarrow> 1 | GilRelease \<Rightarrow> -1 | _ \<Rightarrow> 0) =
      (\<Sum>c\<leftarrow>filter (\<lambda>c. c = GilEnsure \<or> c = GilRelease) cs. if c = GilEnsure then 1 else - 1 :: int)" for cs
      by (induction cs) (auto split: api_call.split)
    then show ?thesis by (simp add: gil_depth_def gil_events_def)
  qed
  then show "gil_events s' = gil_events s \<Longrightarrow> ?thesis" by simp
qed

lemma InternalSetSysTraceFunc_keeps:
  assumes "intern_ok api x" and "tf \<noteq> 0" and "none \<noteq> 0" and "x \<noteq> 0" and "distinct (mod_threads m)"
  shows "\<exists>r. fst (InternalSetSysTraceFunc api m False tf tid none s) = Inr r"
    and "surplus (mod_threads m) x (snd (InternalSetSysTraceFunc api m False tf tid none s)) = surplus (mod_threads m) x s"
    and "gil_depth (snd (InternalSetSysTraceFunc api m False tf tid none s)) = gil_depth s"
proof -
  let ?trace = "trace_thread api False tf tid none (module_version m) (mod_threads m)"
  let ?body = "if mod_current_thread m = 0 then py_ret 345 else define_procs m (trace_procs (module_version m)) ?trace"
  have trace: "\<exists>r. fst (?trace s) = Inr r" "gil_depth (snd (?trace s)) = gil_depth s"
    "surplus (mod_threads m) x (snd (?trace s)) = surplus (mod_threads m) x s" for s
  proof -
    obtain r s' where "?trace s = (Inr r, s')" "gil_events s' = gil_events s"
      using trace_thread_total [OF assms(1-3)] by blast
    then show "\<exists>r. fst (?trace s) = Inr r" "gil_depth (snd (?trace s)) = gil_depth s" by (simp_all add: gil_depth_events [of s' s])
    show "surplus (mod_threads m) x (snd (?trace s)) = surplus (mod_threads m) x s"
      using trace_thread_surplus [OF assms(1-5) subset_refl, of tid "module_version m" s] by auto
  qed
  have body: "\<exists>r. fst (?body s) = Inr r" "gil_depth (snd (?body s)) = gil_depth s"
    "surplus (mod_threads m) x (snd (?body s)) = surplus (mod_threads m) x s" for s
    using trace [of s] by (auto simp: define_procs_def split: option.split)
  have gil: "\<exists>r. fst (with_gil ?body s) = Inr r" "gil_depth (snd (with_gil ?body s)) = gil_depth s" for s
    using body(1) gil.scope_balanced [of ?body, OF body(2)] unfolding with_gil_def gil.scope_result by blast+
  have sur: "surplus (mod_threads m) x (snd (with_gil ?body s)) = surplus (mod_threads m) x s" for s
    unfolding with_gil_def by (rule gil_counts.scope_balanced [OF body(3)])
  show "\<exists>r. fst (InternalSetSysTraceFunc api m False tf tid none s) = Inr r"
    "surplus (mod_threads m) x (snd (InternalSetSysTraceFunc api m False tf tid none s)) = surplus (mod_threads m) x s"
    "gil_depth (snd (InternalSetSysTraceFunc api m False tf tid none s)) = gil_depth s"
    using gil [of s] sur [of s] by (auto simp: InternalSetSysTraceFunc_def define_procs_def Let_def split: option.split)
qed

text \<open>C15. 
  Whatever the result of the attempt to trace a thread is, no reference is lost or left over, and the lock is released: the counts change by
  the references that thread states and the initialization hold afterwards or have given back.
\<close>

theorem attach_keeps_references:
  assumes "intern_ok api x" and "pTraceFunc \<noteq> 0" and "pPyNone \<noteq> 0" and "x \<noteq> 0" and "distinct (mod_threads m)"
  shows "\<exists>r s'. AttachDebuggerTracing_linux api m pSetTraceFunc pTraceFunc threadId pPyNone s = (Inr r, s') \<and>
    px_cell s' x - held (mod_threads m) s' x = px_cell s x - held (mod_threads m) s x \<and> gil_depth s' = gil_depth s"
proof -
  note body = InternalSetSysTraceFunc_keeps [OF assms, where tid = threadId]
  let ?run = "AttachDebuggerTracing_linux api m pSetTraceFunc pTraceFunc threadId pPyNone s"
  have "\<exists>r. fst ?run = Inr r"
    unfolding AttachDebuggerTracing_linux_def with_holder_def Let_def by (simp only: holder.scope_result body(1))
  moreover have "surplus (mod_threads m) x (snd ?run) = surplus (mod_threads m) x s"
    unfolding AttachDebuggerTracing_linux_def with_holder_def Let_def by (intro holder.scope_balanced body(2))
  moreover have "gil_depth (snd ?run) = gil_depth s"
    unfolding AttachDebuggerTracing_linux_def with_holder_def Let_def by (intro holder_lock.scope_balanced body(3))
  ultimately show ?thesis unfolding surplus_def by (metis prod.collapse)
qed

text \<open>
  In a debug build the words in front of the count are not skipped when a reference is added: the count of the trace function does not
  change, although the thread holds it, and the word at the start of the object does.
\<close>

lemma debug_build_loses_reference:
  assumes "class_for v = Some c" and "tf \<noteq> 0" and "tf + 16 \<noteq> 0" and "c_traceobj (px_ts s t) = 0"
  shows "case InternalPySetTrace t tf True v s of (r, s') \<Rightarrow>
    r = Inr () \<and> c_traceobj (px_ts s' t) = tf \<and> refcnt True s' tf = refcnt True s tf \<and> px_cell s' tf = px_cell s tf + 1"
  using assms by (simp add: InternalPySetTrace_class set_trace_with_def py_bind_app py_then_app IncRef_app refcnt_def
      GetPyObjectPointerNoDebugInfo_def tracing_flag_def)

section \<open>Examples\<close>

text \<open>
  An interpreter whose functions only return objects, a module that exports everything, and two threads with the numbers 5 and 7 that
  are not traced.
\<close>

definition quiet_api :: pyapi where
  "quiet_api = \<lparr> api_vectorcall = (\<lambda>f args. py_ret 300), api_call_tuple = (\<lambda>f args. py_ret 300), api_tuple_new = py_ret 400,
     api_intern = (\<lambda>n. py_ret 500), api_set_trace_null = py_ret (), api_traceback_here = (\<lambda>frame. py_ret ()) \<rparr>"

definition full_module :: "string \<Rightarrow> pymodule" where
  "full_module version = \<lparr> mod_exports = (\<lambda>p. True), mod_version = Some version, mod_initialized = True, mod_interp_head = True,
     mod_threads = [8, 16], mod_current_thread = 8 \<rparr>"

definition two_threads :: px where
  "two_threads = \<lparr> px_cell = (\<lambda>a. 5), px_f_trace = (\<lambda>c a. 0),
     px_ts = (\<lambda>t. \<lparr> thread_id = (if t = 8 then 5 else 7), c_profilefunc = False, c_tracefunc = None, c_traceobj = 0, use_tracing = 0,
       cframe_use_tracing = 0 \<rparr>),
     px_init = None, px_whatstrings = replicate 8 0, px_ob_item = (\<lambda>a. []), px_calls = [] \<rparr>"

lemma quiet_api_ok: "intern_ok quiet_api x" "trace_neutral (api_set_trace_null quiet_api)"
  "trace_neutral (api_traceback_here quiet_api frame)"
  by (simp_all add: quiet_api_def intern_ok_def trace_neutral_def never_raises_def keeps_def)

lemma full_module_version: "module_version (full_module v) = GetPythonVersion (Some v)"
  by (simp add: full_module_def module_version_def)

lemma full_module_can_trace: "can_trace (full_module v)"
  by (simp add: can_trace_def full_module_def missing_proc_def has_thread_api_def find_None_iff)

theorem trampoline_refines_settrace_witness:
  "\<exists>s'. installed_trampoline quiet_api PyFrameObject310 200 900 PyTrace_CALL 0
     (two_threads \<lparr> px_init := Some \<lparr> ti_pyNone = 100, ti_isDebug = False, ti_custom_call = False \<rparr> \<rparr>) = (Inr 0, s') \<and>
     px_f_trace s' PyFrameObject310 900 = 300"
proof -
  let ?i = "\<lparr> ti_pyNone = 100, ti_isDebug = False, ti_custom_call = False \<rparr>"
  let ?s = "two_threads \<lparr> px_init := Some ?i \<rparr>"
  have "\<exists>s'. installed_trampoline quiet_api PyFrameObject310 200 900 PyTrace_CALL 0 ?s = (Inr (if (300 :: addr) = 0 then -1 else 0), s') \<and>
    local_of (px_f_trace s' PyFrameObject310 900) = next_local (result_of ?i 300) (local_of (px_f_trace ?s PyFrameObject310 900)) \<and>
    (\<forall>x. x \<noteq> 0 \<longrightarrow> refcnt (ti_isDebug ?i) s' x - of_bool (px_f_trace s' PyFrameObject310 900 = x) =
       refcnt (ti_isDebug ?i) (after_call quiet_api 900 300 ?s) x - of_bool (px_f_trace ?s PyFrameObject310 900 = x) - of_bool (300 = x))"
    by (rule trampoline_refines_settrace [where f = 200])
      (simp_all add: two_threads_def trace_neutral_def PyTrace_CALL_def traced_by_def obj_ok_def pyObject_FastCallDict_def
        quiet_api_def py_bind_app GetPyObjectPointerNoDebugInfo_def)
  then show ?thesis by (auto simp: local_of_def result_of_def split: if_splits)
qed

theorem running_thread_traced_witness:
  "\<exists>s'. InternalSetSysTraceFunc quiet_api (full_module ''3.11.4'') False 200 7 100 two_threads = (Inr 0, s') \<and>
     thread_traces PythonVersion_311 200 (px_ts s' 16) \<and> px_ts s' 8 = px_ts two_threads 8"
proof -
  have v: "module_version (full_module ''3.11.4'') = PythonVersion_311"
    by (simp add: full_module_version GetPythonVersion_def version_3_def version_31_def Let_def)
  have c: "class_for (module_version (full_module ''3.11.4'')) = Some PyThreadState_311" by (simp add: v class_for_iff)
  have f: "find (\<lambda>t. ucast (thread_id (px_ts two_threads t)) = (7 :: 32 word)) (mod_threads (full_module ''3.11.4'')) = Some 16"
    by (simp add: two_threads_def full_module_def)
  show ?thesis
    using running_thread_traced [OF full_module_can_trace c quiet_api_ok(1), where tf = 200 and none = 100 and dbg = False and tid = 7 and s = two_threads] f
    by (auto simp: v split: prod.splits)
qed

theorem unsupported_version_not_traced_witness:
  "\<exists>s'. InternalSetSysTraceFunc quiet_api (full_module ''3.12.1'') False 200 0 100 two_threads = (Inr 0, s') \<and> px_ts s' = px_ts two_threads"
proof -
  have "PythonVersion_312 \<le> module_version (full_module ''3.12.1'')"
    by (simp add: full_module_version GetPythonVersion_def version_3_def version_31_def Let_def version_order)
  from unsupported_version_not_traced [OF full_module_can_trace this quiet_api_ok(1), where none = 100 and dbg = False and tf = 200 and tid = 0 and s = two_threads] show ?thesis
    by (auto simp: full_module_def split: prod.splits)
qed

theorem attach_keeps_references_witness:
  "\<exists>r s'. AttachDebuggerTracing_linux quiet_api (full_module ''3.9.1'') 150 200 7 100 two_threads = (Inr r, s') \<and>
     px_cell s' 200 - held [8, 16] s' 200 = 5"
proof -
  have "px_cell two_threads 200 - held [8, 16] two_threads 200 = 5" by (simp add: two_threads_def held_def held_by_def)
  moreover have "mod_threads (full_module ''3.9.1'') = [8, 16]" by (simp add: full_module_def)
  ultimately show ?thesis
    using attach_keeps_references [OF quiet_api_ok(1), of 200 100 200 "full_module ''3.9.1''" 150 7 two_threads] by auto
qed

end
