(* ===== verification/WinAttachProps.thy ===== *)
theory WinAttachProps
  imports WinAttach SetTraceProps
begin

text \<open>
  Properties of attaching on Windows: what the process looks like afterwards whatever the outcome is, when the command is run, that an idle
  interpreter can be attached to, and which module is taken for the interpreter.
\<close>

section \<open>What an attempt leaves behind\<close>

definition not_run :: "win_call \<Rightarrow> bool" where
  "not_run c \<longleftrightarrow> (\<forall>command. c \<noteq> PyRun_SimpleString command)"

text \<open>The command was not run, every thread is suspended as often as before and every handle that was opened is closed.\<close>

definition tidy :: "wx \<Rightarrow> wx \<Rightarrow> bool" where
  "tidy s s' \<longleftrightarrow> calls_extend not_run s s' \<and>
     (\<forall>h. valid_handle h \<longrightarrow> suspend_count h s' = suspend_count h s \<and> open_count h s' = open_count h s)"

lemma tidy_refl [simp]: "tidy s s"
  by (simp add: tidy_def)

lemma tidy_trans: "tidy s s1 \<Longrightarrow> tidy s1 s2 \<Longrightarrow> tidy s s2"
  by (auto simp: tidy_def intro: calls_extend_trans)

lemma tidy_do_call: "tidy s s' \<Longrightarrow> not_run c \<Longrightarrow> (\<And>h. suspends h c = 0 \<and> opens h c = 0) \<Longrightarrow> tidy s (do_call c s')"
  by (simp add: tidy_def calls_extend_do_call)

lemma tidy_simps [simp]: "tidy s (s' \<lparr> wx_threads := ts \<rparr>) = tidy s s'" "tidy s (s' \<lparr> wx_check_interval := i \<rparr>) = tidy s s'"
  "tidy s (s' \<lparr> wx_switch_interval := j \<rparr>) = tidy s s'" "tidy (s \<lparr> wx_threads := ts \<rparr>) s' = tidy s s'"
  by (simp_all add: tidy_def calls_extend_def suspend_count_def open_count_def)

lemma tidy_threadsInited: "tidy s s' \<Longrightarrow> tidy s (do_call PyEval_ThreadsInitialized s')"
  by (rule tidy_do_call) (simp_all add: not_run_def)

lemma init_in_this_thread_keeps:
  "wx_threads (init_in_this_thread os m s) = wx_threads s" "intervals (init_in_this_thread os m s) = intervals s"
  "unaccounted h (init_in_this_thread os m s) = unaccounted h s" "calls_extend not_run s (init_in_this_thread os m s)"
  by (auto simp: init_in_this_thread_def threadsInited_def Let_def unaccounted_do_call calls_extend_def not_run_def)

text \<open>One attempt: suspending, initializing and resuming.\<close>

lemma attempt_tidy:
  assumes "SuspendThreads os p fuel (s \<lparr> wx_threads := [] \<rparr>) = Some s1" and "\<And>ts. mset (os_order os ts) = mset ts"
  shows "tidy s (ResumeThreads os (init_in_this_thread os m s1))"
    and "intervals (ResumeThreads os (init_in_this_thread os m s1)) = intervals s"
proof -
  let ?s2 = "init_in_this_thread os m s1"
  have "calls_extend not_run (s \<lparr> wx_threads := [] \<rparr>) s1"
    by (rule calls_extend_mono [OF SuspendThreads_calls [OF assms(1)]]) (auto simp: suspension_call_def not_run_def)
  also have "calls_extend not_run s1 ?s2" by (rule init_in_this_thread_keeps)
  also (calls_extend_trans) have "calls_extend not_run ?s2 (ResumeThreads os ?s2)"
    by (rule calls_extend_mono [OF ResumeThreads_keeps(2)]) (auto simp: not_run_def)
  finally (calls_extend_trans) have "calls_extend not_run s (ResumeThreads os ?s2)" by (simp add: calls_extend_def)
  moreover have "suspend_count h (ResumeThreads os ?s2) = suspend_count h s \<and> open_count h (ResumeThreads os ?s2) = open_count h s"
    if "valid_handle h" for h
  proof -
    have "(suspend_count h (ResumeThreads os ?s2), open_count h (ResumeThreads os ?s2)) = unaccounted h (s \<lparr> wx_threads := [] \<rparr>)"
      by (simp only: ResumeThreads_counts(1) [OF assms(2)] init_in_this_thread_keeps(3) SuspendThreads_accounted [OF that assms(1)])
    then show ?thesis by (simp add: unaccounted_def)
  qed
  ultimately show "tidy s (ResumeThreads os ?s2)" by (simp add: tidy_def)
  show "intervals (ResumeThreads os ?s2) = intervals s"
    using SuspendThreads_intervals [OF assms(1)] by (simp add: ResumeThreads_keeps init_in_this_thread_keeps)
qed

lemma init_attempts_tidy:
  assumes "\<And>ts. mset (os_order os ts) = mset ts" and "init_attempts os m p fuel attempts s = Some s'"
  shows "tidy s s' \<and> intervals s' = intervals s"
  using assms
proof (induction os m p fuel attempts s rule: init_attempts.induct)
  case (1 os m p fuel attempts s)
  let ?s1 = "do_call PyEval_ThreadsInitialized s"
  let ?s2 = "if 0 < attempts then do_call (Sleep 10) ?s1 else ?s1"
  have s1: "tidy s ?s1" by (rule tidy_threadsInited) simp
  have s2: "tidy s ?s2 \<and> intervals ?s2 = intervals s" using s1 tidy_do_call [OF s1, of "Sleep 10"] by (simp add: not_run_def)
  show ?case
  proof (cases "\<not> os_threadsInited os (wx_calls s) \<and> attempts < 20")
    case True
    then obtain s3 where s3: "SuspendThreads os p fuel (?s2 \<lparr> wx_threads := [] \<rparr>) = Some s3"
      "init_attempts os m p fuel (Suc attempts) (ResumeThreads os (init_in_this_thread os m s3)) = Some s'"
      using 1(3) by (subst (asm) init_attempts.simps) (auto simp: threadsInited_def Let_def split: option.splits if_splits)
    let ?s4 = "ResumeThreads os (init_in_this_thread os m s3)"
    have "tidy ?s2 ?s4" "intervals ?s4 = intervals ?s2" using attempt_tidy [OF s3(1) 1(2)] by simp_all
    moreover have "tidy ?s4 s' \<and> intervals s' = intervals ?s4"
      by (rule 1(1) [OF refl threadsInited_def [symmetric] True refl s3(1) 1(2) s3(2)])
    ultimately show ?thesis using s2 tidy_trans by metis
  next
    case False
    with 1(3) s1 show ?thesis by (subst (asm) init_attempts.simps) (auto simp: threadsInited_def)
  qed
qed

text \<open>The intervals come back when the interpreter has a function that reads the switch interval along with the one that sets it.\<close>

definition reads_what_it_sets :: "pymodule \<Rightarrow> bool" where
  "reads_what_it_sets m \<longleftrightarrow> mod_exports m ''_Py_CheckInterval'' \<or>
     (mod_exports m ''_PyEval_SetSwitchInterval'' \<longrightarrow> mod_exports m ''_PyEval_GetSwitchInterval'')"

lemma ensure_threads_tidy:
  assumes "\<And>ts. mset (os_order os ts) = mset ts" and "ensure_threads os m p fuel s = Some s'"
  shows "tidy s s' \<and> (reads_what_it_sets m \<longrightarrow> intervals s' = intervals s)"
proof -
  let ?s1 = "do_call PyEval_ThreadsInitialized s"
  have s1: "tidy s ?s1" by (rule tidy_threadsInited) simp
  show ?thesis
  proof (cases "os_threadsInited os (wx_calls s)")
    case True
    with assms(2) s1 show ?thesis by (auto simp: ensure_threads_def threadsInited_def)
  next
    case False
    obtain saved s2 where 2: "lower_interval m ?s1 = (saved, s2)" by fastforce
    then obtain s3 where 3: "init_attempts os m p fuel 0 s2 = Some s3" "s' = restore_interval m saved s3"
      using assms(2) False by (auto simp: ensure_threads_def threadsInited_def)
    have "tidy s s2" using s1 2 by (auto simp: lower_interval_def split: if_splits)
    moreover have "tidy s2 s3" "intervals s3 = intervals s2" using init_attempts_tidy [OF assms(1) 3(1)] by simp_all
    ultimately have "tidy s s3" by (metis tidy_trans)
    moreover have "intervals (restore_interval m saved s3) = intervals s" if "reads_what_it_sets m"
      using that 2 \<open>intervals s3 = intervals s2\<close>
      by (auto simp: lower_interval_def restore_interval_def reads_what_it_sets_def intervals_def split: if_splits)
    ultimately show ?thesis using 3(2) by (auto simp: restore_interval_def)
  qed
qed

text \<open>With the function that sets the switch interval but not the one that reads it, the interval is cleared.\<close>

lemma switch_interval_cleared:
  assumes "\<not> mod_exports m ''_Py_CheckInterval''" and "\<not> mod_exports m ''_PyEval_GetSwitchInterval''"
    and "mod_exports m ''_PyEval_SetSwitchInterval''"
  shows "wx_switch_interval (restore_interval m (fst (lower_interval m s)) (snd (lower_interval m s))) = 0"
  using assms by (simp add: lower_interval_def restore_interval_def)

section \<open>\<^verbatim>\<open>DoAttach\<close>\<close>

text \<open>The interpreter has what \<^verbatim>\<open>DoAttach\<close> needs.\<close>

definition can_attach :: "pymodule \<Rightarrow> bool" where
  "can_attach m \<longleftrightarrow> mod_exports m ''Py_IsInitialized'' \<and> mod_initialized m \<and> missing_proc m windows_procs = None \<and>
     has_current_thread_api m \<and> mod_interp_head m \<and> supported_version (module_version m)"

text \<open>The call is added and waited for.\<close>

definition pending_call_wait :: "win_os \<Rightarrow> wx \<Rightarrow> wx" where
  "pending_call_wait os s =
     (let h = os_event os (wx_calls s) in
      do_call (CloseHandle h) (do_call (WaitForSingleObject 5000) (do_call Py_AddPendingCall (do_call (CreateEvent h) s))))"

lemma pending_call_wait_tidy: "tidy s (pending_call_wait os s)" "intervals (pending_call_wait os s) = intervals s"
  by (auto simp: pending_call_wait_def Let_def tidy_def calls_extend_def not_run_def)

text \<open>The heap is given back and the interpreter is asked for the last time.\<close>

definition before_command :: "win_os \<Rightarrow> wx \<Rightarrow> wx" where
  "before_command os s = (if os_heap os (wx_calls s) then do_call HeapDestroy s else s)"

lemma before_command_tidy: "tidy s (before_command os s)" "intervals (before_command os s) = intervals s"
  by (auto simp: before_command_def tidy_def calls_extend_def not_run_def)

lemma DoAttach_can_attach:
  assumes "can_attach m"
  shows "DoAttach os m p fuel command s =
    map_option (\<lambda>s2. let s3 = before_command os s2; s4 = do_call PyEval_ThreadsInitialized s3 in
        if os_threadsInited os (wx_calls s3)
        then (0, do_call PyGILState_Release (do_call (PyRun_SimpleString command) (do_call PyGILState_Ensure s4)))
        else (8, s4))
      (ensure_threads os m p fuel (pending_call_wait os s))"
  using assms
  by (simp add: DoAttach_def can_attach_def pending_call_wait_def before_command_def threadsInited_def Let_def split: option.split)

lemma DoAttach_cannot_attach:
  assumes "\<not> can_attach m"
  shows "\<exists>r. r \<noteq> 0 \<and> DoAttach os m p fuel command s = Some (r, s)"
  using assms
  by (auto simp: DoAttach_def can_attach_def missing_proc_def windows_procs_def split: if_splits option.splits)

text \<open>The two outcomes of an attachment that gets so far, in terms of a state \<open>s3\<close> before the last question.\<close>

lemma DoAttach_outcome:
  assumes "\<And>ts. mset (os_order os ts) = mset ts" and "DoAttach os m p fuel command s = Some (r, s')" and "can_attach m"
  obtains s3 where "tidy s s3" "reads_what_it_sets m \<Longrightarrow> intervals s3 = intervals s"
    "if os_threadsInited os (wx_calls s3)
     then r = 0 \<and> s' = do_call PyGILState_Release (do_call (PyRun_SimpleString command) (do_call PyGILState_Ensure
       (do_call PyEval_ThreadsInitialized s3)))
     else r = 8 \<and> s' = do_call PyEval_ThreadsInitialized s3"
proof -
  obtain s2 where s2: "ensure_threads os m p fuel (pending_call_wait os s) = Some s2"
    using assms(2) by (auto simp: DoAttach_can_attach [OF assms(3)])
  let ?s3 = "before_command os s2"
  have "tidy (pending_call_wait os s) s2" "reads_what_it_sets m \<Longrightarrow> intervals s2 = intervals (pending_call_wait os s)"
    using ensure_threads_tidy [OF assms(1) s2] by simp_all
  then have "tidy s ?s3" "reads_what_it_sets m \<Longrightarrow> intervals ?s3 = intervals s"
    using pending_call_wait_tidy before_command_tidy tidy_trans by metis+
  with that [of ?s3] assms(2) s2 show thesis
    by (auto simp: DoAttach_can_attach [OF assms(3)] Let_def split: if_splits)
qed

text \<open>C7. 
  Whatever the outcome of \<^verbatim>\<open>DoAttach\<close> is, and whatever Windows and the interpreter answer: no thread stays suspended, no handle stays
  open, and the intervals have the values that they had.
\<close>

theorem attach_leaves_process_as_it_was:
  assumes "DoAttach os m p fuel command s = Some (r, s')" and "\<And>ts. mset (os_order os ts) = mset ts"
    and "reads_what_it_sets m" and "valid_handle h"
  shows "suspend_count h s' = suspend_count h s \<and> open_count h s' = open_count h s \<and>
    wx_check_interval s' = wx_check_interval s \<and> wx_switch_interval s' = wx_switch_interval s"
proof (cases "can_attach m")
  case True
  show ?thesis
    by (rule DoAttach_outcome [OF assms(2,1) True])
      (use assms(3,4) in \<open>auto simp: tidy_def intervals_def split: if_splits\<close>)
next
  case False
  then show ?thesis using DoAttach_cannot_attach [of m os p fuel command s] assms(1) by auto
qed

text \<open>The calls of an attachment: before the command nothing runs code.\<close>

lemma DoAttach_calls:
  assumes "DoAttach os m p fuel command s = Some (r, s')" and "\<And>ts. mset (os_order os ts) = mset ts"
  shows "\<exists>cs. list_all not_run cs \<and>
    (if r = 0 then os_threadsInited os (wx_calls s @ cs) \<and> wx_calls s' = wx_calls s @ cs @
         [PyEval_ThreadsInitialized, PyGILState_Ensure, PyRun_SimpleString command, PyGILState_Release]
     else wx_calls s' = wx_calls s @ cs)"
proof (cases "can_attach m")
  case True
  show ?thesis
  proof (rule DoAttach_outcome [OF assms(2,1) True])
    fix s3
    assume "tidy s s3" and o: "if os_threadsInited os (wx_calls s3)
     then r = 0 \<and> s' = do_call PyGILState_Release (do_call (PyRun_SimpleString command) (do_call PyGILState_Ensure
       (do_call PyEval_ThreadsInitialized s3)))
     else r = 8 \<and> s' = do_call PyEval_ThreadsInitialized s3"
    then obtain cs where cs: "wx_calls s3 = wx_calls s @ cs" "list_all not_run cs" by (auto simp: tidy_def calls_extend_def)
    show ?thesis
    proof (cases "os_threadsInited os (wx_calls s3)")
      case True
      with o cs show ?thesis by (intro exI [of _ cs]) simp
    next
      case False
      with o cs show ?thesis by (intro exI [of _ "cs @ [PyEval_ThreadsInitialized]"]) (simp add: not_run_def)
    qed
  qed
next
  case False
  then show ?thesis using DoAttach_cannot_attach [of m os p fuel command s] assms(1) by (intro exI [of _ "[]"]) auto
qed

text \<open>C18. 
  The command runs exactly when the result is 0, once, with the lock of the interpreter held, and only after the interpreter has said that
  threads are initialized.
\<close>

theorem windows_attach_runs_command:
  assumes "DoAttach os m p fuel command s = Some (r, s')" and "\<And>ts. mset (os_order os ts) = mset ts"
  shows "\<exists>cs. list_all not_run cs \<and>
    (if r = 0 then os_threadsInited os (wx_calls s @ cs) \<and> wx_calls s' = wx_calls s @ cs @
         [PyEval_ThreadsInitialized, PyGILState_Ensure, PyRun_SimpleString command, PyGILState_Release]
     else wx_calls s' = wx_calls s @ cs)"
  using assms by (rule DoAttach_calls)

text \<open>The codes of \<^verbatim>\<open>DoAttach\<close>, in the order of its tests.\<close>

lemma windows_attach_codes:
  "case DoAttach os m p fuel command s of
     None \<Rightarrow> can_attach m
   | Some (r, s') \<Rightarrow>
       (r = 1 \<longleftrightarrow> \<not> mod_exports m ''Py_IsInitialized'') \<and>
       (r = 2 \<longleftrightarrow> mod_exports m ''Py_IsInitialized'' \<and> \<not> mod_initialized m) \<and>
       (r \<le> -100 \<longleftrightarrow> mod_exports m ''Py_IsInitialized'' \<and> mod_initialized m \<and>
          \<not> (missing_proc m windows_procs = None \<and> has_current_thread_api m)) \<and>
       (r = 0 \<or> r = 8 \<longleftrightarrow> can_attach m) \<and> r \<noteq> 3 \<and> r \<noteq> 6"
proof (cases "can_attach m")
  case True
  then show ?thesis
    by (auto simp: DoAttach_can_attach Let_def can_attach_def split: option.splits)
next
  case False
  show ?thesis
  proof (cases "missing_proc m windows_procs")
    case None
    with False show ?thesis by (auto simp: DoAttach_def can_attach_def)
  next
    case (Some code)
    then have "code \<le> -100" by (auto simp: missing_proc_def windows_procs_def split: if_splits)
    with Some show ?thesis by (auto simp: DoAttach_def can_attach_def)
  qed
qed

section \<open>An idle interpreter\<close>

text \<open>Threads stay initialized, and they are once \<^verbatim>\<open>PyEval_InitThreads\<close> was called.\<close>

definition init_threads_works :: "win_os \<Rightarrow> bool" where
  "init_threads_works os \<longleftrightarrow> (\<forall>cs ds. os_threadsInited os cs \<longrightarrow> os_threadsInited os (cs @ ds)) \<and>
     (\<forall>cs. PyEval_InitThreads \<in> set cs \<longrightarrow> os_threadsInited os cs)"

lemma inited_extends:
  assumes "init_threads_works os" and "os_threadsInited os (wx_calls s)" and "calls_extend P s s'"
  shows "os_threadsInited os (wx_calls s')"
  using assms by (auto simp: init_threads_works_def calls_extend_def)

lemma init_in_this_thread_inits:
  assumes "init_threads_works os" and "\<And>cs. \<not> os_current os cs"
  shows "os_threadsInited os (wx_calls (init_in_this_thread os m s))"
proof (cases "os_threadsInited os (wx_calls s)")
  case True
  then show ?thesis using inited_extends [OF assms(1) _ init_in_this_thread_keeps(4)] by blast
next
  case False
  then have "PyEval_InitThreads \<in> set (wx_calls (init_in_this_thread os m s))"
    using assms(2) by (simp add: init_in_this_thread_def threadsInited_def Let_def)
  then show ?thesis using assms(1) by (simp add: init_threads_works_def)
qed

lemma restore_interval_calls [simp]: "wx_calls (restore_interval m saved s) = wx_calls s"
  by (simp add: restore_interval_def)

lemma init_attempts_idle:
  assumes "init_threads_works os" and "\<And>cs. \<not> os_current os cs"
    and "\<And>s. wx_threads s = [] \<Longrightarrow> \<exists>s'. SuspendThreads os p fuel s = Some s'"
  shows "\<exists>s'. init_attempts os m p fuel 0 s = Some s' \<and> os_threadsInited os (wx_calls s')"
proof (cases "os_threadsInited os (wx_calls s)")
  case True
  then have "init_attempts os m p fuel 0 s = Some (do_call PyEval_ThreadsInitialized s)"
    by (subst init_attempts.simps) (simp add: threadsInited_def)
  with True assms(1) show ?thesis by (simp add: init_threads_works_def)
next
  case False
  obtain s3 where s3: "SuspendThreads os p fuel ((do_call PyEval_ThreadsInitialized s) \<lparr> wx_threads := [] \<rparr>) = Some s3"
    using assms(3) [of "(do_call PyEval_ThreadsInitialized s) \<lparr> wx_threads := [] \<rparr>"] by auto
  let ?s4 = "ResumeThreads os (init_in_this_thread os m s3)"
  have 4: "os_threadsInited os (wx_calls ?s4)"
    using inited_extends [OF assms(1) init_in_this_thread_inits [OF assms(1,2)] ResumeThreads_keeps(2)] .
  have "init_attempts os m p fuel 0 s = init_attempts os m p fuel (Suc 0) ?s4"
    using False s3 by (subst init_attempts.simps) (simp add: threadsInited_def)
  also have "\<dots> = Some (do_call PyEval_ThreadsInitialized ?s4)"
    using 4 by (subst init_attempts.simps) (simp add: threadsInited_def)
  finally show ?thesis using 4 assms(1) by (simp add: init_threads_works_def)
qed

text \<open>
  A main thread that never gets to its pending calls does not stop the attachment: when no thread runs code of the interpreter and in the
  end nobody adds pending calls, the first attempt initializes threads and the command is run.
\<close>

lemma DoAttach_idle:
  assumes "can_attach m" and "init_threads_works os" and "\<And>cs. \<not> os_current os cs"
    and "threads_within os T" and "finite T" and "pending_calls_end os p k" and "k + card T < fuel"
  shows "\<exists>s'. DoAttach os m p fuel command s = Some (0, s')"
proof -
  let ?s = "pending_call_wait os s" and ?s1 = "do_call PyEval_ThreadsInitialized (pending_call_wait os s)"
  have "\<exists>s'. SuspendThreads os p fuel s = Some s'" if "wx_threads s = []" for s
    using SuspendThreads_ends [OF assms(4-6), of s fuel] assms(7) that by (simp add: suspended_ids_def)
  note attempts = init_attempts_idle [OF assms(2,3) this]
  have "\<exists>s2. ensure_threads os m p fuel ?s = Some s2 \<and> os_threadsInited os (wx_calls s2)"
  proof (cases "os_threadsInited os (wx_calls ?s)")
    case True
    then show ?thesis using assms(2) by (simp add: ensure_threads_def threadsInited_def init_threads_works_def)
  next
    case False
    obtain s3 where "init_attempts os m p fuel 0 (snd (lower_interval m ?s1)) = Some s3" "os_threadsInited os (wx_calls s3)"
      using attempts by blast
    with False show ?thesis
      by (auto simp: ensure_threads_def threadsInited_def split: prod.split)
  qed
  then obtain s2 where s2: "ensure_threads os m p fuel ?s = Some s2" "os_threadsInited os (wx_calls s2)" by blast
  have "os_threadsInited os (wx_calls (before_command os s2))"
    using inited_extends [OF assms(2) s2(2)] before_command_tidy(1) unfolding tidy_def by blast
  with s2(1) show ?thesis by (simp add: DoAttach_can_attach [OF assms(1)] Let_def)
qed

section \<open>The module of the interpreter\<close>

text \<open>Windows tells the truth about the modules: as many as fit are stored, and the bytes that all of them need are returned.\<close>

definition enum_honest :: "process_env \<Rightarrow> loaded_module list \<Rightarrow> bool" where
  "enum_honest env ms \<longleftrightarrow> (\<forall>n. pe_alloc env n) \<and>
     (\<forall>try size. pe_enum env try size = (True, sizeof_HMODULE * length ms, take (size div sizeof_HMODULE) ms))"

lemma find_python_found:
  assumes "find (\<lambda>m. fst (IsPythonModule m)) (take k ms) = Some m"
  shows "find_python (length ms) (take k ms) =
    Inr \<lparr> mi_module = Some (lm_module m), mi_isDebug = snd (IsPythonModule m), mi_error = 0 \<rparr>"
  using assms
proof (induction ms arbitrary: k)
  case (Cons a ms)
  then show ?case by (cases k) (auto split: prod.splits if_splits)
qed simp

lemma find_python_none:
  assumes "find (\<lambda>m. fst (IsPythonModule m)) (take k ms) = None"
  shows "find_python (length ms) (take k ms) =
    (if length ms \<le> k then Inr \<lparr> mi_module = None, mi_isDebug = False, mi_error = -3 \<rparr> else Inl ReadOutOfBounds)"
  using assms
proof (induction ms arbitrary: k)
  case (Cons a ms)
  show ?case using Cons.prems Cons.IH [of "k - 1"] by (cases k) (auto split: prod.splits if_splits)
qed simp

text \<open>
  The first interpreter among the modules is found when it is one of the first 1024. With more modules and no interpreter among these
  the handles behind the buffer are read: \<^verbatim>\<open>EnumProcessModules\<close> does not fail when the buffer is too small.
\<close>

theorem python_module_found:
  assumes "enum_honest env ms" and "0 < fuel"
  shows "GetPythonModule env fuel =
    Some (case find (\<lambda>m. fst (IsPythonModule m)) (take 1024 ms) of
        Some m \<Rightarrow> Inr \<lparr> mi_module = Some (lm_module m), mi_isDebug = snd (IsPythonModule m), mi_error = 0 \<rparr>
      | None \<Rightarrow> if length ms \<le> 1024 then Inr \<lparr> mi_module = None, mi_isDebug = False, mi_error = -3 \<rparr> else Inl ReadOutOfBounds)"
  using assms find_python_found [of 1024 ms] find_python_none [of 1024 ms]
  by (cases fuel) (auto simp: GetPythonModule_def enum_honest_def sizeof_HMODULE_def split: option.split)

text \<open>
  A debug build is only recognised when the version in the name of its module has two digits: not from Python 3.10 on.
\<close>

definition debug_dll :: "string \<Rightarrow> loaded_module \<Rightarrow> bool" where
  "debug_dll digits m \<longleftrightarrow> lm_name m = Some (''python'' @ digits @ ''_d.dll'') \<and> (\<forall>c \<in> set digits. c \<in> set ''0123456789'')"

lemma debug_build_recognised:
  assumes "debug_dll digits m" and "2 \<le> length digits"
  shows "snd (IsPythonModule m) \<longleftrightarrow> length digits = 2"
proof -
  obtain a b r where d: "digits = a # b # r"
    using assms(2) by (metis Suc_le_length_iff numeral_2_eq_2)
  show ?thesis
  proof (cases r)
    case Nil
    with assms(1) d show ?thesis
      by (simp add: debug_dll_def IsPythonModule_def wcsnicmp_equal_def to_lower_def)
  next
    case (Cons c r')
    then have "c \<in> set ''0123456789''" using assms(1) d by (auto simp: debug_dll_def)
    then have "to_lower c \<noteq> CHR ''_''" by (auto simp: to_lower_def)
    moreover have "to_lower CHR ''_'' = CHR ''_''" by (simp add: to_lower_def)
    ultimately show ?thesis using assms(1) d Cons
      by (auto simp: debug_dll_def IsPythonModule_def wcsnicmp_equal_def Let_def)
  qed
qed

section \<open>Tracing on Windows and on Linux\<close>

lemma trace_thread_code: "fst (trace_thread api dbg tf tid none v ts s) = Inr r \<Longrightarrow> 0 \<le> r"
  by (induction ts arbitrary: s) (auto simp: py_bind_app py_then_app split: prod.splits sum.splits if_splits)

lemma define_procs_code:
  assumes "fst (define_procs m procs k s) = Inr r" and "\<forall>p \<in> set procs. 0 \<le> snd p" and "fst (k s) = Inr r \<Longrightarrow> 0 \<le> r"
  shows "0 \<le> r"
  using assms by (auto simp: define_procs_def missing_proc_def find_Some_iff split: option.splits)

lemma InternalSetSysTraceFunc_code:
  assumes "fst (InternalSetSysTraceFunc api m dbg tf tid none s) = Inr r"
  shows "0 \<le> r"
proof -
  let ?s1 = "s \<lparr> px_calls := px_calls s @ [GilEnsure] \<rparr>" and ?v = "module_version m"
  have trace: "0 \<le> r" if "fst (define_procs m (trace_procs ?v) (trace_thread api dbg tf tid none ?v (mod_threads m)) ?s1) = Inr r"
    by (rule define_procs_code [OF that]) (auto simp: trace_procs_def dest: trace_thread_code)
  let ?inner = "if \<not> has_thread_api m then py_ret 330 else if \<not> mod_interp_head m then py_ret 340
     else with_gil (if mod_current_thread m = 0 then py_ret 345
       else define_procs m (trace_procs ?v) (trace_thread api dbg tf tid none ?v (mod_threads m)))"
  have "0 \<le> r" if "fst (?inner s) = Inr r"
    using that trace by (auto simp: with_gil_app split: if_splits prod.splits)
  then have "0 \<le> r" if "fst (define_procs m (thread_procs ?v) ?inner s) = Inr r"
    using that by (elim define_procs_code) (simp_all add: thread_procs_def)
  then show ?thesis
    using assms unfolding InternalSetSysTraceFunc_def Let_def
    by (elim define_procs_code) (auto split: if_splits)
qed

text \<open>For a release build, setting the trace function of a running thread is the same on Windows as on Linux and macOS.\<close>

theorem windows_tracing_as_linux:
  assumes "GetPythonModule env fuel = Some (Inr info)" and "mi_module info = Some m" and "mi_error info = 0" and "\<not> mi_isDebug info"
  shows "AttachDebuggerTracing api info pSetTraceFunc pTraceFunc threadId pPyNone =
    AttachDebuggerTracing_linux api m pSetTraceFunc pTraceFunc threadId pPyNone"
proof -
  let ?f = "InternalSetSysTraceFunc api m False pTraceFunc threadId pPyNone"
  have "py_bind ?f (\<lambda>temp. py_ret (if temp = 0 then 0 else if 0 < temp then temp else 0)) s = ?f s" for s
    using InternalSetSysTraceFunc_code [of api m False pTraceFunc threadId pPyNone s]
    by (auto simp: py_bind_app split: prod.split sum.split)
  then have "py_bind ?f (\<lambda>temp. py_ret (if temp = 0 then 0 else if 0 < temp then temp else 0)) = ?f" ..
  with assms show ?thesis by (simp add: AttachDebuggerTracing_def AttachDebuggerTracing_linux_def)
qed

text \<open>The function that prints the threads gives the lock back.\<close>

lemma PrintDebugInfo_releases: "gil_depth (snd (PrintDebugInfo info s)) = gil_depth s"
  using gil.scope_balanced [of "py_gets f" s for f]
  by (auto simp: PrintDebugInfo_def with_gil_def split: option.split)

section \<open>Examples\<close>

text \<open>The three threads of a process in which no code of the interpreter runs.\<close>

definition idle_os :: win_os where
  "idle_os = three_threads \<lparr> os_threadsInited := (\<lambda>cs. PyEval_InitThreads \<in> set cs) \<rparr>"

lemma idle_os_ok:
  "init_threads_works idle_os" "\<not> os_current idle_os cs" "threads_within idle_os {2, 3}" "pending_calls_end idle_os p 8"
  "mset (os_order idle_os ts) = mset ts"
  by (auto simp: idle_os_def three_threads_def init_threads_works_def threads_within_def other_threads_def adding_pending_call_def
      pending_calls_end_def)

lemma full_module_can_attach: "can_attach (full_module ''3.10.2'')"
  by (simp add: can_attach_def full_module_def missing_proc_def has_current_thread_api_def find_None_iff supported_version_def
      module_version_def GetPythonVersion_def version_3_def version_31_def Let_def)

lemmas idle_run = DoAttach_idle [OF full_module_can_attach idle_os_ok(1) idle_os_ok(2) idle_os_ok(3) _ idle_os_ok(4)]

theorem attach_leaves_process_as_it_was_witness:
  "\<exists>s'. DoAttach idle_os (full_module ''3.10.2'') 64 20 ''x = 1'' fresh_wx = Some (0, s') \<and> suspend_count 102 s' = 0 \<and>
     open_count 102 s' = 0 \<and> wx_check_interval s' = 100"
proof -
  obtain s' where s': "DoAttach idle_os (full_module ''3.10.2'') 64 20 ''x = 1'' fresh_wx = Some (0, s')"
    using idle_run [where fuel = 20 and p = 64 and s = fresh_wx and command = "''x = 1''"] by auto
  have "reads_what_it_sets (full_module ''3.10.2'')" "valid_handle 102"
    by (simp_all add: reads_what_it_sets_def full_module_def valid_handle_def)
  with attach_leaves_process_as_it_was [OF s' idle_os_ok(5)] s' show ?thesis
    by (simp add: fresh_wx_def suspend_count_def open_count_def)
qed

theorem windows_attach_runs_command_witness:
  "\<exists>s' cs. DoAttach idle_os (full_module ''3.10.2'') 64 20 ''x = 1'' fresh_wx = Some (0, s') \<and>
     wx_calls s' = cs @ [PyEval_ThreadsInitialized, PyGILState_Ensure, PyRun_SimpleString ''x = 1'', PyGILState_Release]"
proof -
  obtain s' where s': "DoAttach idle_os (full_module ''3.10.2'') 64 20 ''x = 1'' fresh_wx = Some (0, s')"
    using idle_run [where fuel = 20 and p = 64 and s = fresh_wx and command = "''x = 1''"] by auto
  from windows_attach_runs_command [OF s' idle_os_ok(5)] s' show ?thesis by (auto simp: fresh_wx_def)
qed

text \<open>A process whose modules are the program, a debug build of Python 3.10 and one of Python 3.9.\<close>

definition debug_modules :: "loaded_module list" where
  "debug_modules = map (\<lambda>n. \<lparr> lm_name = Some n, lm_module = full_module ''3.9.1'' \<rparr>) [''prog.exe'', ''python310_d.dll'', ''python39_d.dll'']"

definition honest_env :: "loaded_module list \<Rightarrow> process_env" where
  "honest_env ms = \<lparr> pe_alloc = (\<lambda>n. True),
     pe_enum = (\<lambda>try size. (True, sizeof_HMODULE * length ms, take (size div sizeof_HMODULE) ms)) \<rparr>"

lemma honest_env_ok: "enum_honest (honest_env ms) ms"
  by (simp add: enum_honest_def honest_env_def)

lemmas module_run = IsPythonModule_def wcsnicmp_equal_def to_lower_def full_module_def

theorem python_module_found_witness:
  "GetPythonModule (honest_env debug_modules) 1 =
     Some (Inr \<lparr> mi_module = Some (full_module ''3.9.1''), mi_isDebug = False, mi_error = 0 \<rparr>)"
  using python_module_found [OF honest_env_ok, of 1 debug_modules] by (simp add: debug_modules_def module_run)

theorem windows_tracing_as_linux_witness:
  "AttachDebuggerTracing quiet_api \<lparr> mi_module = Some (full_module ''3.9.1''), mi_isDebug = False, mi_error = 0 \<rparr> 150 200 7 100 =
   AttachDebuggerTracing_linux quiet_api (full_module ''3.9.1'') 150 200 7 100"
proof -
  have "GetPythonModule (honest_env [\<lparr> lm_name = Some ''python39.dll'', lm_module = full_module ''3.9.1'' \<rparr>]) 1 =
      Some (Inr \<lparr> mi_module = Some (full_module ''3.9.1''), mi_isDebug = False, mi_error = 0 \<rparr>)"
    by (simp add: GetPythonModule_def honest_env_def sizeof_HMODULE_def module_run)
  from windows_tracing_as_linux [OF this] show ?thesis by simp
qed

end
