(* ===== verification/WinInject.thy ===== *)
theory WinInject
  imports WinAttachProps
begin

text \<open>
  How the code gets into the other process on Windows: \<^verbatim>\<open>inject_dll.cpp\<close> loads a library there, \<^verbatim>\<open>run_code_on_dllmain.cpp\<close> is such a
  library, which starts a thread, and \<^verbatim>\<open>run_code_in_memory.hpp\<close> takes the code from shared memory, where
  \<^verbatim>\<open>add_code_to_python_process.py\<close> has put it.
\<close>

section \<open>\<^verbatim>\<open>inject_dll\<close>\<close>

datatype inject_call =
    OpenProcess int handle | VirtualAllocEx handle nat addr | WriteProcessMemory handle addr string bool
  | CreateRemoteThread handle addr addr handle | WaitForRemoteThread handle nat
  | VirtualFreeEx handle addr nat | CloseProcess handle

datatype wait_result = WAIT_OBJECT_0 | WAIT_ABANDONED | WAIT_TIMEOUT | WAIT_FAILED

text \<open>What Windows answers, and the address of \<^verbatim>\<open>LoadLibraryA\<close>.\<close>

record inject_os =
  io_OpenProcess :: "int \<Rightarrow> handle"
  io_VirtualAllocEx :: "handle \<Rightarrow> nat \<Rightarrow> addr"
  io_WriteProcessMemory :: "handle \<Rightarrow> addr \<Rightarrow> string \<Rightarrow> bool"
  io_LoadLibraryA :: addr
  io_CreateRemoteThread :: "handle \<Rightarrow> addr \<Rightarrow> addr \<Rightarrow> handle"
  io_Wait :: "handle \<Rightarrow> wait_result"

text \<open>\<^verbatim>\<open>_wtoi\<close>: optional blanks and sign, then digits; values out of range are cut to the range.\<close>

definition digit_value :: "char \<Rightarrow> int" where
  "digit_value c = int (of_char c) - 48"

definition is_digit :: "char \<Rightarrow> bool" where
  "is_digit c \<longleftrightarrow> 48 \<le> (of_char c :: nat) \<and> (of_char c :: nat) \<le> 57"

definition wtoi_digits :: "string \<Rightarrow> int" where
  "wtoi_digits s = foldl (\<lambda>n c. 10 * n + digit_value c) 0 (takeWhile is_digit s)"

definition wtoi :: "string \<Rightarrow> int" where
  "wtoi s =
     (let s = dropWhile (\<lambda>c. of_char c \<in> {9 :: nat, 10, 11, 12, 13, 32}) s;
          v = (if take 1 s = ''-'' then - wtoi_digits (drop 1 s)
               else if take 1 s = ''+'' then wtoi_digits (drop 1 s) else wtoi_digits s) in
      max (- (2 ^ 31)) (min (2 ^ 31 - 1) v))"

definition MAX_PATH :: nat where "MAX_PATH = 260"

definition MAX_PATH_SIZE_PADDED :: nat where "MAX_PATH_SIZE_PADDED = MAX_PATH + 1"

definition NUL :: char where "NUL = CHR 0x00"

text \<open>The destructor of \<^verbatim>\<open>DataToFree\<close>.\<close>

definition free_data :: "handle \<Rightarrow> addr \<Rightarrow> nat \<Rightarrow> inject_call list" where
  "free_data hProcess remoteMemoryAddr remoteMemorySize =
     (if hProcess \<noteq> 0 then
        (if remoteMemoryAddr \<noteq> 0 \<and> remoteMemorySize \<noteq> 0 then [VirtualFreeEx hProcess remoteMemoryAddr remoteMemorySize] else []) @
        [CloseProcess hProcess]
      else [])"

text \<open>The part of \<^verbatim>\<open>wmain\<close> after the memory was allocated, with the code that is returned.\<close>

definition load_library :: "inject_os \<Rightarrow> handle \<Rightarrow> addr \<Rightarrow> string \<Rightarrow> int \<times> inject_call list" where
  "load_library os hProcess mem dllPath =
     (let written = io_WriteProcessMemory os hProcess mem dllPath; w = [WriteProcessMemory hProcess mem dllPath written] in
      if \<not> written then (5, w)
      else if io_LoadLibraryA os = 0 then (6, w)
      else
        let remoteThread = io_CreateRemoteThread os hProcess (io_LoadLibraryA os) mem;
            t = w @ [CreateRemoteThread hProcess (io_LoadLibraryA os) mem remoteThread] in
        if remoteThread = 0 then (7, t)
        else
          (case io_Wait os remoteThread of WAIT_TIMEOUT \<Rightarrow> 8 | WAIT_FAILED \<Rightarrow> 9 | _ \<Rightarrow> 0, t @ [WaitForRemoteThread remoteThread 5000]))"

definition wmain :: "inject_os \<Rightarrow> string list \<Rightarrow> int \<times> inject_call list" where
  "wmain os argv =
     (if length argv \<noteq> 3 then (1, [])
      else
        let pid = wtoi (argv ! 1) in
        if pid = 0 then (2, [])
        else
          let dllPath = take MAX_PATH (argv ! 2) @ [NUL]; hProcess = io_OpenProcess os pid in
          if hProcess = 0 \<or> hProcess = INVALID_HANDLE_VALUE then (3, [OpenProcess pid hProcess])
          else
            let mem = io_VirtualAllocEx os hProcess MAX_PATH_SIZE_PADDED;
                cs = [OpenProcess pid hProcess, VirtualAllocEx hProcess MAX_PATH_SIZE_PADDED mem] in
            if mem = 0 then (4, cs @ free_data hProcess 0 0)
            else
              let (r, ds) = load_library os hProcess mem dllPath in
              (r, cs @ ds @ free_data hProcess mem MAX_PATH_SIZE_PADDED))"

section \<open>The code in shared memory\<close>

definition BUFSIZE :: nat where "BUFSIZE = 2048"

text \<open>\<^verbatim>\<open>_win_write_to_shared_named_memory\<close>: what is in the shared memory, None when an assertion fails.\<close>

definition win_write_to_shared_named_memory :: "string \<Rightarrow> string option" where
  "win_write_to_shared_named_memory python_code =
     (if 0 < length python_code \<and> length python_code < BUFSIZE - 1
      then Some (python_code @ replicate (BUFSIZE - length python_code) NUL) else None)"

text \<open>A C string in a buffer: the characters before the first NUL; without one the read goes past the buffer.\<close>

definition c_string :: "string \<Rightarrow> memory_error + string" where
  "c_string buf = (if NUL \<in> set buf then Inr (takeWhile (\<lambda>c. c \<noteq> NUL) buf) else Inl ReadOutOfBounds)"

text \<open>
  \<^verbatim>\<open>RunCodeInMemoryInAttachedDll\<close>: \<open>hMapFile\<close> is the handle of the mapping and \<open>view\<close> what is seen through it, None when it cannot be
  mapped. \<^verbatim>\<open>DataToFree\<close> is released at the end.
\<close>

definition RunCodeInMemoryInAttachedDll ::
  "process_env \<Rightarrow> win_os \<Rightarrow> (pymodule \<Rightarrow> 64 word) \<Rightarrow> nat \<Rightarrow> handle \<Rightarrow> string option \<Rightarrow> wx \<Rightarrow> (memory_error + int \<times> wx) option" where
  "RunCodeInMemoryInAttachedDll env os addPendingCall fuel hMapFile view s =
     (let s1 = do_call (OpenFileMapping hMapFile) s in
      if hMapFile = 0 then Some (Inr (1, s1))
      else
        case view of
          None \<Rightarrow> Some (Inr (1, do_call (CloseHandle hMapFile) (do_call (MapViewOfFile False) s1)))
        | Some mapViewOfFile \<Rightarrow>
            (case c_string (take BUFSIZE mapViewOfFile) of
               Inl e \<Rightarrow> Some (Inl e)
             | Inr codeToRun \<Rightarrow>
                 map_option (map_sum id (\<lambda>(r, s2). (r, do_call UnmapViewOfFile (do_call (CloseHandle hMapFile) s2))))
                   (AttachAndRunPythonCode env os addPendingCall fuel codeToRun (do_call (MapViewOfFile True) s1))))"

section \<open>The library that runs the code\<close>

text \<open>The destructor of \<^verbatim>\<open>NotificationHelper\<close>; \<open>event\<close> is the handle of the event that the attaching process waits for.\<close>

definition notify :: "handle \<Rightarrow> wx \<Rightarrow> wx" where
  "notify event s =
     (let s1 = do_call (CreateEvent event) s;
          s2 = (if event \<noteq> 0 then do_call (CloseHandle event) (do_call (SetEvent event) s1) else s1) in
      do_call FreeLibraryAndExitThread s2)"

text \<open>
  \<^verbatim>\<open>RunCodeInThread\<close>: \<open>run\<close> is \<^verbatim>\<open>RunCodeInMemoryInAttachedDll\<close>. Whatever happens the helper is destroyed in the end; a read past a buffer
  ends the process.
\<close>

definition RunCodeInThread ::
  "bool \<Rightarrow> bool \<Rightarrow> handle \<Rightarrow> (wx \<Rightarrow> (memory_error + int \<times> wx) option) \<Rightarrow> wx \<Rightarrow> (memory_error + int \<times> wx) option" where
  "RunCodeInThread attachModule runCode event run s =
     (if \<not> attachModule then Some (Inr (900, notify event s))
      else if \<not> runCode then Some (Inr (901, notify event s))
      else map_option (map_sum id (\<lambda>(r, s1). (0, notify event s1))) (run s))"

definition DLL_PROCESS_ATTACH :: dword where "DLL_PROCESS_ATTACH = 1"

text \<open>\<^verbatim>\<open>DllMain\<close>: the instance that is remembered, and whether a thread is started.\<close>

definition DllMain :: "handle \<Rightarrow> dword \<Rightarrow> handle \<Rightarrow> bool \<times> handle \<times> bool" where
  "DllMain hinstDLL fdwReason globalDllInstance =
     (if fdwReason = DLL_PROCESS_ATTACH then (True, hinstDLL, True) else (True, globalDllInstance, False))"

section \<open>Properties\<close>

text \<open>
  When \<^verbatim>\<open>inject_dll\<close> reports success, a thread of the given process was started in \<^verbatim>\<open>LoadLibraryA\<close> with the address of the path of the library,
  which was written there with the NUL behind it (cut after 260 characters).
\<close>

lemma inject_loads_library:
  assumes "wmain os argv = (0, cs)"
  shows "\<exists>h mem t. h \<noteq> 0 \<and> mem \<noteq> 0 \<and> t \<noteq> 0 \<and> length argv = 3 \<and>
    cs = [OpenProcess (wtoi (argv ! 1)) h, VirtualAllocEx h 261 mem, WriteProcessMemory h mem (take 260 (argv ! 2) @ [NUL]) True,
          CreateRemoteThread h (io_LoadLibraryA os) mem t, WaitForRemoteThread t 5000, VirtualFreeEx h mem 261, CloseProcess h]"
  using assms
  by (auto simp: wmain_def load_library_def free_data_def Let_def MAX_PATH_SIZE_PADDED_def MAX_PATH_def split: if_splits)

text \<open>On every path the handle of the process is closed, once and after everything else, and no other handle of a process is closed.\<close>

lemma inject_closes_process:
  assumes "wmain os argv = (r, cs)" and "OpenProcess pid h \<in> set cs" and "valid_handle h"
  shows "last cs = CloseProcess h \<and> count_list cs (CloseProcess h) = 1 \<and> (\<forall>k. CloseProcess k \<in> set cs \<longrightarrow> k = h)"
  using assms
  by (auto simp: wmain_def load_library_def free_data_def Let_def valid_handle_def split: if_splits)

text \<open>What the attaching process writes is what the other one reads, as long as there is no NUL in it.\<close>

lemma shared_memory_roundtrip:
  assumes "win_write_to_shared_named_memory code = Some buf" and "NUL \<notin> set code"
  shows "c_string (take BUFSIZE buf) = Inr code"
proof -
  have buf: "buf = code @ replicate (BUFSIZE - length code) NUL" "length code < BUFSIZE"
    using assms(1) by (auto simp: win_write_to_shared_named_memory_def BUFSIZE_def split: if_splits)
  obtain n where n: "BUFSIZE - length code = Suc n" using buf(2) by (metis Suc_diff_Suc)
  have "takeWhile (\<lambda>c. c \<noteq> NUL) (code @ NUL # replicate n NUL) = code"
    using assms(2) by (subst takeWhile_append2) auto
  with buf n show ?thesis by (simp add: c_string_def)
qed

text \<open>Code of 2047 characters is refused.\<close>

lemma longest_code_refused:
  "win_write_to_shared_named_memory code \<noteq> None \<longleftrightarrow> code \<noteq> [] \<and> length code \<le> 2046"
  by (auto simp: win_write_to_shared_named_memory_def BUFSIZE_def)

text \<open>C17. 
  The way of the code from the attaching process into an interpreter that is idle: it can be attached to, none of its threads has
  the lock, and after some number of calls none of them is found adding a pending call. There the code that was written into the
  shared memory is run, once and with the lock of the interpreter, no other code is run, and the event that the attaching
  process waits for is set after that.
\<close>

theorem sent_code_is_run:
  assumes "win_write_to_shared_named_memory code = Some buf" and "NUL \<notin> set code" and "hMapFile \<noteq> 0" and "event \<noteq> 0"
    and "GetPythonModule env fuel = Some (Inr info)" and "mi_module info = Some m" and "mi_error info = 0" and "can_attach m"
    and "init_threads_works os" and "\<And>cs. \<not> os_current os cs" and "threads_within os T" and "finite T"
    and "pending_calls_end os (addPendingCall m) k" and "k + card T < fuel" and "\<And>ts. mset (os_order os ts) = mset ts"
  shows "\<exists>s' cs ds. RunCodeInThread True True event (RunCodeInMemoryInAttachedDll env os addPendingCall fuel hMapFile (Some buf)) s =
      Some (Inr (0, s')) \<and>
    wx_calls s' = wx_calls s @ cs @ [PyGILState_Ensure, PyRun_SimpleString code, PyGILState_Release] @ ds @
      [SetEvent event, CloseHandle event, FreeLibraryAndExitThread] \<and>
    list_all not_run cs \<and> list_all not_run ds"
proof -
  let ?s1 = "do_call (MapViewOfFile True) (do_call (OpenFileMapping hMapFile) s)"
  obtain s2 where s2: "DoAttach os m (addPendingCall m) fuel code ?s1 = Some (0, s2)"
    using DoAttach_idle [OF assms(8-14)] by blast
  from DoAttach_calls [OF this assms(15)] obtain cs where "list_all not_run cs"
    and "wx_calls s2 = wx_calls s @ ([OpenFileMapping hMapFile, MapViewOfFile True] @ cs @ [PyEval_ThreadsInitialized]) @
      [PyGILState_Ensure, PyRun_SimpleString code, PyGILState_Release]"
    by auto
  moreover from this(1) have "list_all not_run ([OpenFileMapping hMapFile, MapViewOfFile True] @ cs @ [PyEval_ThreadsInitialized])"
    by (simp add: not_run_def)
  moreover have "RunCodeInThread True True event (RunCodeInMemoryInAttachedDll env os addPendingCall fuel hMapFile (Some buf)) s =
      Some (Inr (0, notify event (do_call UnmapViewOfFile (do_call (CloseHandle hMapFile) s2))))"
    using assms(3,5-7) s2(1)
    by (simp add: RunCodeInThread_def RunCodeInMemoryInAttachedDll_def shared_memory_roundtrip [OF assms(1,2)] AttachAndRunPythonCode_def)
  ultimately show ?thesis using assms(4)
    by (intro exI [of _ "notify event (do_call UnmapViewOfFile (do_call (CloseHandle hMapFile) s2))"]
        exI [of _ "[OpenFileMapping hMapFile, MapViewOfFile True] @ cs @ [PyEval_ThreadsInitialized]"]
        exI [of _ "[CloseHandle hMapFile, UnmapViewOfFile, CreateEvent event]"])
      (simp add: notify_def not_run_def)
qed

text \<open>The event is set and the library unloaded also when the code cannot be run.\<close>

lemma map_sum_InrD: "map_sum id f z = Inr y \<longleftrightarrow> (\<exists>x. z = Inr x \<and> y = f x)"
  by (cases z) auto

lemma run_code_always_notifies:
  assumes "RunCodeInThread attachModule runCode event run s = Some (Inr (r, s'))" and "event \<noteq> 0"
  shows "\<exists>cs. wx_calls s' = cs @ [SetEvent event, CloseHandle event, FreeLibraryAndExitThread]"
  using assms by (auto simp: RunCodeInThread_def notify_def map_sum_InrD split: if_splits)

section \<open>Examples\<close>

definition willing_os :: inject_os where
  "willing_os = \<lparr> io_OpenProcess = (\<lambda>pid. 40), io_VirtualAllocEx = (\<lambda>h n. 4096), io_WriteProcessMemory = (\<lambda>h a x. True),
     io_LoadLibraryA = 8192, io_CreateRemoteThread = (\<lambda>h a b. 44), io_Wait = (\<lambda>h. WAIT_OBJECT_0) \<rparr>"

lemmas inject_run = wmain_def load_library_def free_data_def willing_os_def wtoi_def wtoi_digits_def is_digit_def digit_value_def
  MAX_PATH_SIZE_PADDED_def MAX_PATH_def Let_def

lemma willing_os_run:
  "wmain willing_os [''inject_dll'', ''12'', ''a.dll''] =
    (0, [OpenProcess 12 40, VirtualAllocEx 40 261 4096, WriteProcessMemory 40 4096 (''a.dll'' @ [NUL]) True,
         CreateRemoteThread 40 8192 4096 44, WaitForRemoteThread 44 5000, VirtualFreeEx 40 4096 261, CloseProcess 40])"
  by (simp add: inject_run)

theorem sent_code_is_run_witness:
  "\<exists>s' cs ds. RunCodeInThread True True 60 (RunCodeInMemoryInAttachedDll
       (honest_env [\<lparr> lm_name = Some ''python310.dll'', lm_module = full_module ''3.10.2'' \<rparr>]) idle_os (\<lambda>m. 64) 20 61
       (win_write_to_shared_named_memory ''x = 1'')) fresh_wx = Some (Inr (0, s')) \<and>
     wx_calls s' = wx_calls fresh_wx @ cs @ [PyGILState_Ensure, PyRun_SimpleString ''x = 1'', PyGILState_Release] @ ds @
       [SetEvent 60, CloseHandle 60, FreeLibraryAndExitThread] \<and>
     list_all not_run cs \<and> list_all not_run ds"
proof -
  let ?env = "honest_env [\<lparr> lm_name = Some ''python310.dll'', lm_module = full_module ''3.10.2'' \<rparr>]"
  obtain buf where buf: "win_write_to_shared_named_memory ''x = 1'' = Some buf"
    by (cases "win_write_to_shared_named_memory ''x = 1''")
      (simp_all add: win_write_to_shared_named_memory_def BUFSIZE_def del: replicate.simps)
  have "GetPythonModule ?env (Suc n) = Some (Inr \<lparr> mi_module = Some (full_module ''3.10.2''), mi_isDebug = False, mi_error = 0 \<rparr>)" for n
    by (simp add: GetPythonModule_def honest_env_def sizeof_HMODULE_def module_run)
  from this [of 19]
  have m: "GetPythonModule ?env 20 = Some (Inr \<lparr> mi_module = Some (full_module ''3.10.2''), mi_isDebug = False, mi_error = 0 \<rparr>)"
    by simp
  show ?thesis unfolding buf
    by (rule sent_code_is_run [OF buf _ _ _ m _ _ full_module_can_attach idle_os_ok(1) idle_os_ok(2) idle_os_ok(3) _ idle_os_ok(4) _ idle_os_ok(5)])
      (simp_all add: NUL_def)
qed

end
