(* ===== verification/Spec2Isabelle.thy ===== *)
theory Spec2Isabelle
  imports CyInit CyInts CySetup CompiledThreadInfo ThreadTracerProps MonReturn FrameEvalInstall AttachRace WinInject
begin

text \<open>
  The tracing core of debugpy, which decides at every event of the program whether a thread has to stop, and the native code with which
  debugpy gets into a program that already runs.

  \<^bold>\<open>The program.\<close> debugpy runs \<^verbatim>\<open>pydevd\<close> inside the program that is debugged. Its hot paths are compiled with Cython to three
  C files below \<^verbatim>\<open>src/src/debugpy/_vendored/pydevd/\<close>, one for each way the interpreter can call the debugger:
  \<^item> \<^verbatim>\<open>_pydevd_bundle/pydevd_cython.c\<close>, trace functions (\<^verbatim>\<open>sys.settrace\<close>);
  \<^item> \<^verbatim>\<open>_pydevd_sys_monitoring/_pydevd_sys_monitoring_cython.c\<close>, event callbacks (\<^verbatim>\<open>sys.monitoring\<close>, Python 3.12 and later);
  \<^item> \<^verbatim>\<open>_pydevd_frame_eval/pydevd_frame_evaluator.c\<close>, a replacement of the evaluation of frames (Python 3.6 to 3.10).
  All of them keep per-thread state in \<^verbatim>\<open>PyDBAdditionalThreadInfo\<close> objects, read the breakpoints and settings of the debugger
  object \<^verbatim>\<open>PyDB\<close>, and call it to suspend the thread. A stop is a call of \<^verbatim>\<open>set_suspend\<close> followed by \<^verbatim>\<open>do_wait_suspend\<close>; the
  client changes the step command of the thread while it waits. To debug a program that already runs, the C++ code below
  \<^verbatim>\<open>pydevd_attach_to_process/\<close> is loaded into it: it runs Python code there, which starts the debugger, and it sets the trace
  function of the threads that run already.

  \<^bold>\<open>How it is modelled.\<close> A function of the source is a HOL function with the result type \<open>(state, value) py\<close> of \<open>Prelude\<close>: it takes
  a state and returns an exception or a value together with the state it leaves behind, also when it raises. Exceptions are named
  by their classes; a class of the program derives from \<^verbatim>\<open>Exception\<close> (\<open>UserExc\<close>) or only from \<^verbatim>\<open>BaseException\<close> (\<open>UserBaseExc\<close>). C ints are
  32-bit words (\<open>cint\<close>), with the \<^verbatim>\<open>OverflowError\<close> of the conversion where the source converts. Frames are a datatype with an
  identity, a code object and the frame that called it. What \<^verbatim>\<open>PyDB\<close>, the plugins, \<^verbatim>\<open>dis\<close>, the file system and the client do
  are fields of the records \<open>services\<close>, \<open>mservices\<close> and \<open>fservices\<close>, which every function that calls them takes as an argument; calls with an effect on
  the debugger are also recorded in \<open>w_calls\<close>.

  \<^bold>\<open>The theories\<close>, in the order of their dependencies:
  \<^item> \<open>Prelude\<close>: C ints, exceptions, the combinators for state and exceptions, and four collections of rules: \<open>keeps_rules\<close> (what a
    function leaves unchanged), \<open>safe_rules\<close> (it does not raise), \<open>outcome_rules\<close> (what it returns), \<open>py_simps\<close> (how it runs).
  \<^item> \<open>CyRuntime\<close>: \<^verbatim>\<open>__Pyx_PyInt_As_int\<close> on the digits of a Python integer, and the sorted cache of code objects with its bisection
    (\<^verbatim>\<open>__pyx_bisect_code_objects\<close>, \<^verbatim>\<open>__pyx_find_code_object\<close>, \<^verbatim>\<open>__pyx_insert_code_object\<close>). The conversion is exact; the cache
    refines a finite map, also when memory cannot be allocated. \<open>CyInts\<close>: \<^verbatim>\<open>__Pyx_PyInt_AddObjC\<close>, \<^verbatim>\<open>__Pyx_PyInt_AndObjC\<close>,
    \<^verbatim>\<open>__Pyx_PyInt_BoolEqObjC\<close>, \<^verbatim>\<open>__Pyx_GetItemInt_List_Fast\<close>, \<^verbatim>\<open>__Pyx_crop_slice\<close>: exact for integers of any size and for every index.
  \<^item> \<open>CyPickle\<close>, \<open>CyPickleTables\<close>: \<^verbatim>\<open>__reduce_cython__\<close>, \<^verbatim>\<open>__setstate_cython__\<close> and \<^verbatim>\<open>__pyx_unpickle_...\<close> of the fifteen compiled classes:
    the functions once, and for each class the tables of its fields. Every class is rebuilt without loss. \<open>CySetup\<close>: \<^verbatim>\<open>__Pyx_setup_reduce\<close>, which makes them the
    functions of the pickling protocol.
  \<^item> \<open>CyObject\<close>, \<open>CyObjectTables\<close>: the attributes of the compiled classes (\<^verbatim>\<open>__get__\<close>, \<^verbatim>\<open>__set__\<close>, \<^verbatim>\<open>__del__\<close>) and what the garbage collector does
    with their objects (\<^verbatim>\<open>tp_traverse\<close>, \<^verbatim>\<open>tp_clear\<close>, \<^verbatim>\<open>tp_dealloc\<close>). Objects stay well typed, assignments read back or change nothing, and
    every reference is released.
  \<^item> \<open>CyCall\<close>, \<open>CyCallTables\<close>: the wrappers \<^verbatim>\<open>__pyx_pw_...\<close> that take the arguments of a call apart, with \<^verbatim>\<open>__Pyx_ParseOptionalKeywords\<close>,
    \<^verbatim>\<open>__Pyx_ArgTypeTest\<close> and the rest: the functions once, and the signature of each of the 108 wrappers. Arguments are bound, or refused, as the language says.
    \<open>CyInit\<close>: objects of the compiled classes are made, \<^verbatim>\<open>tp_new\<close> and then \<^verbatim>\<open>__init__\<close>; which calls make one and which raise what.
  \<^item> \<open>CyExc\<close>: \<^verbatim>\<open>__Pyx_PyErr_ExceptionMatches\<close>, \<^verbatim>\<open>__Pyx_GetException\<close>, \<^verbatim>\<open>__Pyx_ExceptionSave\<close>, \<^verbatim>\<open>__Pyx_ExceptionReset\<close> and the others that
    the code of a \<^verbatim>\<open>try\<close> statement calls, on the thread state; matching a class is what \<open>catches\<close> says of the exceptions of \<open>Prelude\<close>.
    \<open>CompiledThreadInfo\<close>: the C code of \<^verbatim>\<open>set_additional_thread_info\<close>, one definition for each of its labels, with every call that can
    fail. Whatever fails, the exception of the caller is handled again and the lock is released; when nothing fails it
    computes the function of \<open>ThreadRegistry\<close>.
  \<^item> \<open>Frames\<close>: code, frames, tracebacks, smart step variants and the walks over them.
  \<^item> \<open>ThreadRegistry\<close>: \<^verbatim>\<open>PyDBAdditionalThreadInfo\<close>, \<^verbatim>\<open>set_additional_thread_info\<close>, \<^verbatim>\<open>add_additional_info\<close>, \<^verbatim>\<open>remove_additional_info\<close>,
    \<^verbatim>\<open>_update_stepping_info\<close>, \<^verbatim>\<open>any_thread_stepping\<close>. The invariant \<open>reg_ok\<close> is kept by every operation; racing callers of the double-checked lock
    are the step relation \<open>race_step\<close>: they agree on the object, never block each other for ever, and end.
  \<^item> \<open>World\<close>, \<open>Scenario\<close>: the state of the trace functions, the services, and a concrete session for the witnesses.
  \<^item> \<open>ExceptionStop\<close>: \<^verbatim>\<open>is_unhandled_exception\<close>, \<^verbatim>\<open>should_stop_on_exception\<close>, \<^verbatim>\<open>handle_exception\<close>.
  \<^item> \<open>FrameTracer\<close>, \<open>Dispatch\<close>: the class \<^verbatim>\<open>PyDBFrame\<close>; \<open>trace_dispatch\<close> is the whole of its main method, composed of one definition for
    each block. \<open>DispatchLemmas\<close> has the interfaces (below), \<open>DispatchProps\<close>, \<open>StepProps\<close> and \<open>StepProps2\<close> the properties: breakpoints stop, step
    commands stop in the right frame and in no other, skipped frames are untouched, the caches stay sound, the counter is balanced.
  \<^item> \<open>ThreadTracer\<close>, \<open>ThreadTracerProps\<close>: \<^verbatim>\<open>ThreadTracer.__call__\<close>, the two top-level tracers, \<^verbatim>\<open>fix_top_level_trace_and_get_trace_func\<close>,
    \<^verbatim>\<open>trace_dispatch\<close> of the module. Which exceptions can leave the tracer, and when an unhandled one is reported.
  \<^item> \<open>MonState\<close>, \<open>MonCode\<close>, \<open>MonEvents\<close>: the \<^verbatim>\<open>sys.monitoring\<close> backend: threads and code objects with their caches, which events are
    enabled, one definition for each event handler. \<open>MonLemmas\<close>, \<open>MonScenario\<close>, \<open>MonInfo\<close>, \<open>MonProps\<close>, \<open>MonEnable\<close>, \<open>MonReturn\<close>: the
    information on code is fresh, breakpoints and steps stop, an event is given up only when it is not needed, the events
    that stepping needs are enabled, exceptions are reported, and where the backend differs from the other one.
  \<^item> \<open>BreakInsert\<close>: \<^verbatim>\<open>insert_pydevd_breaks\<close> of \<^verbatim>\<open>pydevd_modify_bytecode.py\<close>, which keeps the instructions and adds a check wherever a requested
    line is entered; \<open>exec_check\<close> is what the interpreter does with the instructions of a check, by the documentation of \<^verbatim>\<open>dis\<close> for these versions. \<open>FrameEval\<close>: the frame evaluator with its caches, and the functions of \<^verbatim>\<open>pydevd_frame_tracing.py\<close> that the checks call.
    \<open>FrameEvalProps\<close>: a frame with a breakpoint is traced or runs code with checks, code that runs again keeps its checks, the
    marks are left as they were found. \<open>FrameEvalInstall\<close>: the functions for Python 3.8 and 3.9 and the one that is installed; every frame is run.
  \<^item> \<open>PyVersion\<close>, \<open>PyRefs\<close>, \<open>SetTrace\<close>: \<^verbatim>\<open>pydevd_attach_to_process/common\<close> and \<^verbatim>\<open>linux_and_mac/attach.cpp\<close>: the recognition of versions,
    reference counts on 64-bit words with the offset of debug builds, the reimplementation of \<^verbatim>\<open>PyEval_SetTrace\<close> with its trampoline, and
    \<^verbatim>\<open>InternalSetSysTraceFunc\<close>. \<open>SetTraceProps\<close>: the trampoline refines \<^verbatim>\<open>sys.settrace\<close>, the right thread is traced, no reference is lost.
  \<^item> \<open>AttachRace\<close>: the structure that \<^verbatim>\<open>DoAttach\<close> of \<^verbatim>\<open>windows/attach.cpp\<close> shares with its callback in another thread, as a step relation:
    it is not used after it is freed, and \<^verbatim>\<open>DoAttach\<close> is never stuck.
  \<^item> \<open>WinThreads\<close>, \<open>WinAttach\<close>: \<^verbatim>\<open>SuspendThreads\<close>, \<^verbatim>\<open>ResumeThreads\<close>, \<^verbatim>\<open>GetPythonModule\<close>, \<^verbatim>\<open>DoAttach\<close> and the exported functions. Windows and the
    interpreter are the record \<open>win_os\<close>: each answer is a function of everything that was asked before. \<open>WinThreads\<close>, \<open>WinAttachProps\<close>:
    suspension ends and stops everybody, the process is left as it was, the command is run exactly when 0 is returned.
  \<^item> \<open>WinInject\<close>: \<^verbatim>\<open>inject_dll.cpp\<close>, \<^verbatim>\<open>run_code_on_dllmain.cpp\<close>, \<^verbatim>\<open>run_code_in_memory.hpp\<close> and the function of
    \<^verbatim>\<open>add_code_to_python_process.py\<close> that writes the shared memory: the code that is sent is the code that is run.

  \<^bold>\<open>Interfaces.\<close> \<open>line_map\<close> (a map from lines, interpreted by the code object cache), \<open>frame_match\<close> (comparison with the frame of a step),
  \<open>info_registry\<close> (attaching objects to threads), \<open>observation\<close> and \<open>body_observation\<close> (a view of the state that the blocks of
  \<open>trace_dispatch\<close> do not change), \<open>reentrancy_counter\<close>, \<open>memo_cell\<close> (a cache of one computed value), \<open>state_order\<close> (functions
  that only move the state upwards), \<open>scoped_resource\<close> (a class that acquires in its constructor and releases in its destructor: the holders of
  references and of the lock), \<open>pickled_class\<close> (the tables of a class agree with each other), \<open>cy_attribute\<close>
  (reading and assigning one field) and its client \<open>cy_type\<close> (attributes and collector of a class), \<open>entry_point\<close> (the parameters of a function). Each is interpreted by the definitions of the model and the properties use the interpretations.

  \<^bold>\<open>Loops and bounds.\<close> Most loops of the source run over lists, over the stack of a frame or over the instructions of a function; the
  bisection and the twenty attempts of \<^verbatim>\<open>DoAttach\<close> have termination proofs. Two loops take fuel, because Windows decides when they end:
  \<open>SuspendThreads\<close>, for which \<open>k\<close> rounds and one for each thread and one more are proved to be enough when no thread is found adding a pending call after \<open>k\<close> calls
  (and that it need not end otherwise), and \<open>enum_modules\<close>, which ends with the first success. Races are bounded by a measure: eight steps for each
  caller of the registry, 18 for \<^verbatim>\<open>DoAttach\<close> and its callback.
  A caller of a function that the client controls (suspension, conditions, plugins) is proved for every behaviour of it that
  keeps what the statement names (\<open>services_keep\<close>).

  \<^bold>\<open>Not modelled.\<close> The code that Cython emits for every module (initialisation, string tables, imports, the fast paths of calls
  and lookups); the
  command loop and the communication of \<^verbatim>\<open>PyDB\<close>, the plugins, and the adapter, server and launcher of debugpy, which are sockets and
  processes; the layout in memory of the structs of the interpreter, whose fields are named instead. Reference counts of the
  compiled modules are modelled only for the fields of objects, not inside of functions, and the interleaving of threads only in the registry and in
  \<open>AttachRace\<close>: a handler runs without being interrupted by another thread.
\<close>

end
